(* ===== verification/Fed_Prelude.thy ===== *)
theory Fed_Prelude
  imports Main "HOL-Library.Word" "HOL-Library.List_Lexorder" "HOL-Library.Code_Target_Nat"
begin

unbundle bit_operations_syntax

text \<open>
  The prelude of the development: the exceptions the Python code raises, the sequencing of
  fallible steps (every \<open>raise\<close>, \<open>fail(...)\<close> and early return of the source is an \<open>Inl\<close>), the
  evaluation of \<open>or\<close>-chains whose operands may raise, strings as lists of code points, and the
  list lemmas the components share.
\<close>

section \<open>Strings and bytes\<close>

text \<open>A Python \<open>str\<close> is a sequence of code points, \<open>bytes\<close> a sequence of octets.\<close>

type_synonym pystr = "nat list"
type_synonym bytes = "8 word list"

named_theorems exn_simps \<open>unfolding of the exception sequencing\<close>
named_theorems lit_simps \<open>comparison of string literals\<close>

text \<open>The code points of an ASCII literal of the source.\<close>

definition lit :: "string \<Rightarrow> pystr" where
  "lit s = map of_char s"

lemma lit_inject [simp, lit_simps]: "lit s = lit t \<longleftrightarrow> s = t"
  by (simp add: lit_def inj_map_eq_map inj_def)

lemma lit_Nil [simp]: "lit [] = []"
  by (simp add: lit_def)

lemma lit_eq_Nil [simp]: "lit s = [] \<longleftrightarrow> s = []" "[] = lit s \<longleftrightarrow> s = []"
  by (simp_all add: lit_def)

lemma lit_Cons: "lit (c # s) = of_char c # lit s"
  by (simp add: lit_def)

lemma lit_append [simp]: "lit (s @ t) = lit s @ lit t"
  by (simp add: lit_def)

lemma length_lit [simp]: "length (lit s) = length s"
  by (simp add: lit_def)

lemma inj_lit: "inj lit"
  by (simp add: inj_def)

lemma of_char_less_256: "(of_char c :: nat) < 256"
  using nat_of_char_less_256 [of c] by simp

lemma set_lit_ascii: "x \<in> set (lit s) \<Longrightarrow> x < 256"
  by (auto simp: lit_def of_char_less_256)

section \<open>Exceptions\<close>

text \<open>
  The exceptions that can leave a function of the model. \<open>SystemExit\<close> carries the fixed code
  that \<open>fail(code)\<close> exits with, \<open>SystemExitFor\<close> a code with the text that the f-string appends;
  \<open>GateError\<close> and \<open>GateErrorFor\<close> are the exception of the gates, \<open>ReError\<close> is \<open>re.error\<close>.
\<close>

datatype exn =
    CanonicalError string
  | CanonicalErrorFor string string
  | SdkError string
  | SdkErrorFor string pystr
  | GateError string
  | GateErrorFor string pystr
  | ReError
  | RuntimeError string pystr
  | TOMLDecodeError
  | SystemExit string
  | SystemExitFor string pystr
  | JSONDecodeError
  | TypeError
  | KeyError pystr
  | ValueError
  | IndexError
  | AttributeError
  | UnicodeEncodeError
  | UnicodeDecodeError
  | RecursionError
  | AssertionError
  | TarError
  | OSError nat

type_synonym 'a result = "exn + 'a"

definition bindE :: "'e + 'a \<Rightarrow> ('a \<Rightarrow> 'e + 'b) \<Rightarrow> 'e + 'b" where
  "bindE m f = (case m of Inl e \<Rightarrow> Inl e | Inr x \<Rightarrow> f x)"

definition guardE :: "bool \<Rightarrow> 'e \<Rightarrow> 'e + unit" where
  "guardE ok e = (if ok then Inr () else Inl e)"

fun mapE :: "('a \<Rightarrow> 'e + 'b) \<Rightarrow> 'a list \<Rightarrow> 'e + 'b list" where
  "mapE f [] = Inr []"
| "mapE f (x # xs) = bindE (f x) (\<lambda>y. bindE (mapE f xs) (\<lambda>ys. Inr (y # ys)))"

text \<open>A loop whose body only raises or goes on, and a loop that threads a state.\<close>

fun eachE :: "('a \<Rightarrow> 'e + unit) \<Rightarrow> 'a list \<Rightarrow> 'e + unit" where
  "eachE f [] = Inr ()"
| "eachE f (x # xs) = bindE (f x) (\<lambda>_. eachE f xs)"

fun foldE :: "('s \<Rightarrow> 'a \<Rightarrow> 'e + 's) \<Rightarrow> 's \<Rightarrow> 'a list \<Rightarrow> 'e + 's" where
  "foldE f s [] = Inr s"
| "foldE f s (x # xs) = bindE (f s x) (\<lambda>s'. foldE f s' xs)"

text \<open>
  \<open>anyE\<close> is \<open>c1 or c2 or ...\<close>, \<open>allE_\<close> is \<open>all(...)\<close> over a generator: operands are evaluated from
  the left and the first exception or the first deciding operand ends the evaluation.
\<close>

fun anyE :: "('e + bool) list \<Rightarrow> 'e + bool" where
  "anyE [] = Inr False"
| "anyE (c # cs) = (case c of Inl e \<Rightarrow> Inl e | Inr b \<Rightarrow> if b then Inr True else anyE cs)"

fun everyE :: "('a \<Rightarrow> 'e + bool) \<Rightarrow> 'a list \<Rightarrow> 'e + bool" where
  "everyE p [] = Inr True"
| "everyE p (x # xs) = (case p x of Inl e \<Rightarrow> Inl e | Inr b \<Rightarrow> if b then everyE p xs else Inr False)"

definition notE' :: "'e + bool \<Rightarrow> 'e + bool" where
  "notE' m = bindE m (\<lambda>b. Inr (\<not> b))"

text \<open>\<open>if c1 or c2 or ...: raise e\<close>.\<close>

definition failIf :: "'e \<Rightarrow> ('e + bool) list \<Rightarrow> 'e + unit" where
  "failIf e cs = bindE (anyE cs) (\<lambda>bad. if bad then Inl e else Inr ())"

abbreviation is_ok :: "'e + 'a \<Rightarrow> bool" where
  "is_ok m \<equiv> (\<exists>x. m = Inr x)"

subsection \<open>Laws of the sequencing\<close>

lemma bindE_simps [simp, exn_simps]:
  "bindE (Inl e) f = Inl e"
  "bindE (Inr x) f = f x"
  by (simp_all add: bindE_def)

lemma bindE_eq_Inr [exn_simps]: "bindE m f = Inr y \<longleftrightarrow> (\<exists>x. m = Inr x \<and> f x = Inr y)"
  by (cases m) simp_all

lemma bindE_eq_Inl [exn_simps]:
  "bindE m f = Inl e \<longleftrightarrow> m = Inl e \<or> (\<exists>x. m = Inr x \<and> f x = Inl e)"
  by (cases m) simp_all

text \<open>
  For evaluation the continuation of \<open>bindE\<close> becomes a branch of a case expression, so that it is
  entered only with the value it continues from.
\<close>

declare bindE_def [code_unfold]

lemma bindE_assoc: "bindE (bindE m f) g = bindE m (\<lambda>x. bindE (f x) g)"
  by (cases m) simp_all

lemma bindE_cong [fundef_cong]:
  "m = m' \<Longrightarrow> (\<And>x. m' = Inr x \<Longrightarrow> f x = g x) \<Longrightarrow> bindE m f = bindE m' g"
  by (cases m') simp_all

lemma guardE_eq_Inr [simp, exn_simps]: "guardE ok e = Inr u \<longleftrightarrow> ok"
  by (simp add: guardE_def)

lemma guardE_eq_Inl [simp, exn_simps]: "guardE ok e = Inl e' \<longleftrightarrow> \<not> ok \<and> e' = e"
  by (auto simp: guardE_def)

lemma guardE_simps [simp]: "guardE True e = Inr ()" "guardE False e = Inl e"
  by (simp_all add: guardE_def)

lemma bindE_guardE: "bindE (guardE ok e) f = (if ok then f () else Inl e)"
  by (simp add: guardE_def)

lemma mapE_cong [fundef_cong]:
  "xs = ys \<Longrightarrow> (\<And>x. x \<in> set ys \<Longrightarrow> f x = g x) \<Longrightarrow> mapE f xs = mapE g ys"
proof (induction ys arbitrary: xs)
  case (Cons y ys)
  then have "mapE f ys = mapE g ys" by simp
  with Cons.prems show ?case by simp
qed simp

lemma eachE_cong [fundef_cong]:
  "xs = ys \<Longrightarrow> (\<And>x. x \<in> set ys \<Longrightarrow> f x = g x) \<Longrightarrow> eachE f xs = eachE g ys"
proof (induction ys arbitrary: xs)
  case (Cons y ys)
  then have "eachE f ys = eachE g ys" by simp
  with Cons.prems show ?case by simp
qed simp

lemma mapE_eq_Inr: "mapE f xs = Inr ys \<longleftrightarrow> list_all2 (\<lambda>x y. f x = Inr y) xs ys"
proof (induction xs arbitrary: ys)
  case Nil
  show ?case by auto
next
  case (Cons x xs)
  then show ?case by (auto simp: bindE_eq_Inr list_all2_Cons1)
qed

lemma length_mapE: "mapE f xs = Inr ys \<Longrightarrow> length ys = length xs"
  by (auto simp: mapE_eq_Inr dest: list_all2_lengthD)

lemma mapE_Inr_map: "(\<And>x. x \<in> set xs \<Longrightarrow> f x = Inr (g x)) \<Longrightarrow> mapE f xs = Inr (map g xs)"
  by (induction xs) simp_all

lemma mapE_set: "mapE f xs = Inr ys \<Longrightarrow> y \<in> set ys \<Longrightarrow> \<exists>x \<in> set xs. f x = Inr y"
  by (induction xs arbitrary: ys) (auto simp: bindE_eq_Inr)

lemma mapE_append:
  "mapE f (xs @ ys) = bindE (mapE f xs) (\<lambda>a. bindE (mapE f ys) (\<lambda>b. Inr (a @ b)))"
proof (induction xs)
  case Nil
  show ?case by (cases "mapE f ys") simp_all
next
  case (Cons x xs)
  then show ?case by (simp add: bindE_assoc)
qed

lemma eachE_eq_Inr [exn_simps]: "eachE f xs = Inr u \<longleftrightarrow> (\<forall>x \<in> set xs. f x = Inr ())"
  by (induction xs) (auto simp: bindE_eq_Inr)

lemma foldE_append: "foldE f s (xs @ ys) = bindE (foldE f s xs) (\<lambda>s'. foldE f s' ys)"
  by (induction xs arbitrary: s) (simp_all add: bindE_assoc)

lemma foldE_invariant:
  assumes "foldE f s xs = Inr t" and "P s"
    and "\<And>s x s'. P s \<Longrightarrow> x \<in> set xs \<Longrightarrow> f s x = Inr s' \<Longrightarrow> P s'"
  shows "P t"
  using assms
proof (induction xs arbitrary: s)
  case (Cons x xs)
  from Cons.prems(1) obtain s' where s': "f s x = Inr s'" and rest: "foldE f s' xs = Inr t"
    by (auto simp: bindE_eq_Inr)
  have "P s'" using Cons.prems(3) [OF Cons.prems(2) _ s'] by simp
  then show ?case using Cons.IH [OF rest] Cons.prems(3) by (meson list.set_intros(2))
qed simp

subsection \<open>Laws of the condition chains\<close>

lemma anyE_Inr_False [exn_simps]: "anyE cs = Inr False \<longleftrightarrow> (\<forall>c \<in> set cs. c = Inr False)"
  by (induction cs) (auto split: sum.splits)

lemma failIf_Nil [simp, exn_simps]: "failIf e [] = Inr ()"
  by (simp add: failIf_def)

lemma failIf_Cons [exn_simps]:
  "failIf e (c # cs) = (case c of Inl x \<Rightarrow> Inl x | Inr b \<Rightarrow> if b then Inl e else failIf e cs)"
  by (simp add: failIf_def split: sum.splits)

lemma failIf_eq_Inr: "failIf e cs = Inr u \<longleftrightarrow> (\<forall>c \<in> set cs. c = Inr False)"
  by (auto simp: failIf_def bindE_eq_Inr anyE_Inr_False [symmetric])

lemma everyE_Inr_True [exn_simps]: "everyE p xs = Inr True \<longleftrightarrow> (\<forall>x \<in> set xs. p x = Inr True)"
  by (induction xs) (auto split: sum.splits)

lemma everyE_pure [simp]: "everyE (\<lambda>x. Inr (q x)) xs = Inr (list_all q xs)"
  by (induction xs) simp_all

lemma notE'_simps [simp, exn_simps]: "notE' (Inr b) = Inr (\<not> b)" "notE' (Inl e) = Inl e"
  by (simp_all add: notE'_def)

lemma notE'_eq [exn_simps]: "notE' m = Inr b \<longleftrightarrow> m = Inr (\<not> b)"
  by (cases m) auto

section \<open>Lists\<close>

text \<open>\<open>s.startswith(p)\<close>, \<open>s.split(c, 1)\<close> and \<open>c.join(parts)\<close>.\<close>

fun starts_with :: "'a list \<Rightarrow> 'a list \<Rightarrow> bool" where
  "starts_with xs [] = True"
| "starts_with [] (p # ps) = False"
| "starts_with (x # xs) (p # ps) = (x = p \<and> starts_with xs ps)"

lemma starts_with_iff: "starts_with xs p \<longleftrightarrow> (\<exists>ys. xs = p @ ys)"
  by (induction xs p rule: starts_with.induct) auto

lemma starts_with_append [simp]: "starts_with (p @ xs) p"
  by (simp add: starts_with_iff)

fun join_with :: "'a list \<Rightarrow> 'a list list \<Rightarrow> 'a list" where
  "join_with sep [] = []"
| "join_with sep [x] = x"
| "join_with sep (x # y # ys) = x @ sep @ join_with sep (y # ys)"

fun split_once :: "'a \<Rightarrow> 'a list \<Rightarrow> 'a list \<times> 'a list option" where
  "split_once c [] = ([], None)"
| "split_once c (x # xs) =
     (if x = c then ([], Some xs)
      else (case split_once c xs of (a, b) \<Rightarrow> (x # a, b)))"

fun split_all :: "'a \<Rightarrow> 'a list \<Rightarrow> 'a list list" where
  "split_all c [] = [[]]"
| "split_all c (x # xs) =
     (if x = c then [] # split_all c xs
      else (case split_all c xs of [] \<Rightarrow> [[x]] | p # ps \<Rightarrow> (x # p) # ps))"

lemma split_all_nonempty [simp]: "split_all c xs \<noteq> []"
  by (induction xs) (auto split: list.splits)

lemma join_split_all: "join_with [c] (split_all c xs) = xs"
proof (induction xs)
  case Nil
  show ?case by simp
next
  case (Cons x xs)
  obtain p ps where p: "split_all c xs = p # ps"
    by (cases "split_all c xs") auto
  show ?case
  proof (cases "x = c")
    case True
    then show ?thesis using Cons p by simp
  next
    case False
    then show ?thesis using Cons p by (cases ps) simp_all
  qed
qed

lemma split_all_no_sep: "p \<in> set (split_all c xs) \<Longrightarrow> c \<notin> set p"
proof (induction xs arbitrary: p)
  case (Cons x xs)
  obtain q qs where q: "split_all c xs = q # qs"
    by (cases "split_all c xs") auto
  have IH: "\<And>r. r = q \<or> r \<in> set qs \<Longrightarrow> c \<notin> set r"
    using Cons.IH q by auto
  show ?case using Cons.prems IH q by (cases "x = c") auto
qed simp

text \<open>Association lists in insertion order, as Python dictionaries keep them.\<close>

fun lookup :: "('k \<times> 'v) list \<Rightarrow> 'k \<Rightarrow> 'v option" where
  "lookup [] k = None"
| "lookup ((k', v) # kvs) k = (if k' = k then Some v else lookup kvs k)"

lemma lookup_eq_map_of: "lookup kvs = map_of kvs"
proof
  fix k
  show "lookup kvs k = map_of kvs k"
    by (induction kvs) auto
qed

lemma lookup_Some_in_set: "lookup kvs k = Some v \<Longrightarrow> (k, v) \<in> set kvs"
  by (simp add: lookup_eq_map_of map_of_SomeD)

lemma lookup_None_iff: "lookup kvs k = None \<longleftrightarrow> k \<notin> fst ` set kvs"
  by (simp add: lookup_eq_map_of map_of_eq_None_iff)

lemma lookup_Some_iff:
  "distinct (map fst kvs) \<Longrightarrow> lookup kvs k = Some v \<longleftrightarrow> (k, v) \<in> set kvs"
  by (simp add: lookup_eq_map_of)

end
