(* ===== verification/Py_Values.thy ===== *)
theory Py_Values
  imports Complex_Main Fed_Prelude
begin

text \<open>
  The values that the untyped Python code handles (what \<open>json.loads\<close> returns and what the
  repository builds from it), with the parts of Python's semantics that the validators rely on:
  \<open>==\<close> between numbers of different types, \<open>isinstance(x, int)\<close> of a bool, hashability of set
  members, and dictionaries in insertion order.
\<close>

section \<open>Values\<close>

datatype pyfloat = Finite rat | PosInf | NegInf | NaN

text \<open>
  \<open>PPairs\<close> is the \<open>PairObject\<close> class (a list of key/value pairs that keeps duplicates), \<open>PDict\<close> a
  dictionary; both list their members in order.
\<close>

datatype pyval =
    PNone
  | PBool bool
  | PInt int
  | PFloat pyfloat
  | PStr pystr
  | PList "pyval list"
  | PDict "(pystr \<times> pyval) list"
  | PPairs "(pystr \<times> pyval) list"

type_synonym pydict = "(pystr \<times> pyval) list"

abbreviation PS :: "string \<Rightarrow> pyval" where
  "PS s \<equiv> PStr (lit s)"

text \<open>A dictionary display with literal keys.\<close>

definition pd :: "(string \<times> pyval) list \<Rightarrow> pydict" where
  "pd kvs = map (\<lambda>(k, v). (lit k, v)) kvs"

lemma pd_simps [simp]: "pd [] = []" "pd ((k, v) # kvs) = (lit k, v) # pd kvs"
  by (simp_all add: pd_def)

lemma keys_pd: "fst ` set (pd kvs) = lit ` fst ` set kvs"
  by (force simp: pd_def image_iff)

section \<open>Equality\<close>

definition num_of :: "pyval \<Rightarrow> pyfloat option" where
  "num_of v = (case v of
      PBool b \<Rightarrow> Some (Finite (if b then 1 else 0))
    | PInt i \<Rightarrow> Some (Finite (of_int i))
    | PFloat f \<Rightarrow> Some f
    | _ \<Rightarrow> None)"

text \<open>
  Numbers compare by value whatever their type (\<open>True == 1 == 1.0\<close>, \<open>nan\<close> equals nothing),
  dictionaries by their members whatever the order.
\<close>

fun py_eq :: "pyval \<Rightarrow> pyval \<Rightarrow> bool"
  and py_eq_list :: "pyval list \<Rightarrow> pyval list \<Rightarrow> bool"
  and py_eq_dict :: "(pystr \<times> pyval) list \<Rightarrow> (pystr \<times> pyval) list \<Rightarrow> bool" where
  "py_eq PNone w = (w = PNone)"
| "py_eq (PStr s) w = (w = PStr s)"
| "py_eq (PList xs) w = (case w of PList ys \<Rightarrow> py_eq_list xs ys | _ \<Rightarrow> False)"
| "py_eq (PDict d) w = (case w of PDict d' \<Rightarrow> length d = length d' \<and> py_eq_dict d d' | _ \<Rightarrow> False)"
| "py_eq (PPairs d) w = (w = PPairs d)"
| "py_eq (PBool b) w = (num_of w = Some (Finite (if b then 1 else 0)))"
| "py_eq (PInt i) w = (num_of w = Some (Finite (of_int i)))"
| "py_eq (PFloat f) w = (f \<noteq> NaN \<and> num_of w = Some f)"
| "py_eq_list [] ys = (ys = [])"
| "py_eq_list (x # xs) ys = (case ys of [] \<Rightarrow> False | y # ys' \<Rightarrow> py_eq x y \<and> py_eq_list xs ys')"
| "py_eq_dict [] d' = True"
| "py_eq_dict ((k, v) # d) d' =
     ((case lookup d' k of None \<Rightarrow> False | Some w \<Rightarrow> py_eq v w) \<and> py_eq_dict d d')"

lemma py_eq_str [simp]: "py_eq v (PStr s) \<longleftrightarrow> v = PStr s"
  by (cases v) (auto simp: num_of_def)

lemma py_eq_None [simp]: "py_eq v PNone \<longleftrightarrow> v = PNone"
  by (cases v) (auto simp: num_of_def)

section \<open>Type tests\<close>

fun is_str :: "pyval \<Rightarrow> bool" where
  "is_str (PStr s) = True" | "is_str _ = False"

text \<open>
  A \<open>PairObject\<close> exists only between the scanner and \<open>_normalize\<close>: the validators, which run on
  normalised or freshly built values, never see one, so the tests below do not provide for it.
\<close>

fun is_list :: "pyval \<Rightarrow> bool" where
  "is_list (PList xs) = True" | "is_list _ = False"

fun is_dict :: "pyval \<Rightarrow> bool" where
  "is_dict (PDict d) = True" | "is_dict _ = False"

text \<open>\<open>isinstance(True, int)\<close> holds.\<close>

fun is_int :: "pyval \<Rightarrow> bool" where
  "is_int (PInt i) = True" | "is_int (PBool b) = True" | "is_int _ = False"

fun is_bool :: "pyval \<Rightarrow> bool" where
  "is_bool (PBool b) = True" | "is_bool _ = False"

fun int_of :: "pyval \<Rightarrow> int" where
  "int_of (PInt i) = i"
| "int_of (PBool b) = (if b then 1 else 0)"
| "int_of _ = 0"

fun str_of :: "pyval \<Rightarrow> pystr" where
  "str_of (PStr s) = s" | "str_of _ = []"

text \<open>The items of a list value, the members of a dictionary.\<close>

fun items_of :: "pyval \<Rightarrow> pyval list" where
  "items_of (PList xs) = xs" | "items_of _ = []"

fun dict_of :: "pyval \<Rightarrow> pydict" where
  "dict_of (PDict d) = d" | "dict_of _ = []"

text \<open>Truth value testing, as in \<open>if not value\<close>.\<close>

fun truthy :: "pyval \<Rightarrow> bool" where
  "truthy PNone = False"
| "truthy (PBool b) = b"
| "truthy (PInt i) = (i \<noteq> 0)"
| "truthy (PFloat f) = (f \<noteq> Finite 0)"
| "truthy (PStr s) = (s \<noteq> [])"
| "truthy (PList xs) = (xs \<noteq> [])"
| "truthy (PDict d) = (d \<noteq> [])"
| "truthy (PPairs d) = (d \<noteq> [])"

section \<open>Sets and dictionaries\<close>

fun hashable :: "pyval \<Rightarrow> bool" where
  "hashable (PList xs) = False"
| "hashable (PDict d) = False"
| "hashable (PPairs d) = False"
| "hashable _ = True"

text \<open>\<open>v in {...}\<close> for a set (or dict keys) of strings: an unhashable \<open>v\<close> raises TypeError.\<close>

definition in_strs :: "pyval \<Rightarrow> pystr list \<Rightarrow> bool result" where
  "in_strs v S = (if hashable v then Inr (\<exists>s \<in> set S. v = PStr s) else Inl TypeError)"

fun distinct_vals :: "pyval list \<Rightarrow> bool" where
  "distinct_vals [] = True"
| "distinct_vals (x # xs) = (list_all (\<lambda>y. \<not> py_eq x y) xs \<and> distinct_vals xs)"

text \<open>\<open>len(set(xs)) != len(xs)\<close>: building the set hashes every item first.\<close>

definition has_duplicates :: "pyval list \<Rightarrow> bool result" where
  "has_duplicates xs =
     (if list_all hashable xs then Inr (\<not> distinct_vals xs) else Inl TypeError)"

text \<open>\<open>set(d) != {...}\<close> for the keys of a dictionary.\<close>

definition keys_are :: "pydict \<Rightarrow> string list \<Rightarrow> bool" where
  "keys_are d ks \<longleftrightarrow> set (map fst d) = set (map lit ks)"

text \<open>\<open>d.get(k)\<close> and \<open>d[k]\<close>.\<close>

definition dget :: "pydict \<Rightarrow> string \<Rightarrow> pyval" where
  "dget d k = (case lookup d (lit k) of None \<Rightarrow> PNone | Some v \<Rightarrow> v)"

definition dindex :: "pydict \<Rightarrow> string \<Rightarrow> pyval result" where
  "dindex d k = (case lookup d (lit k) of None \<Rightarrow> Inl (KeyError (lit k)) | Some v \<Rightarrow> Inr v)"

text \<open>\<open>d[k] = v\<close> keeps the position of an existing key and appends a new one.\<close>

fun dset :: "pydict \<Rightarrow> pystr \<Rightarrow> pyval \<Rightarrow> pydict" where
  "dset [] k v = [(k, v)]"
| "dset ((k', v') # d) k v = (if k' = k then (k, v) # d else (k', v') # dset d k v)"

definition dpop :: "pydict \<Rightarrow> string \<Rightarrow> pydict" where
  "dpop d k = filter (\<lambda>kv. fst kv \<noteq> lit k) d"

lemma lookup_dset: "lookup (dset d k v) k' = (if k' = k then Some v else lookup d k')"
  by (induction d k v rule: dset.induct) auto

lemma lookup_dpop: "lookup (dpop d k) k' = (if k' = lit k then None else lookup d k')"
  by (induction d) (auto simp: dpop_def)

lemma keys_dpop: "fst ` set (dpop d k) = fst ` set d - {lit k}"
  by (auto simp: dpop_def)

lemma keys_dset: "fst ` set (dset d k v) = insert k (fst ` set d)"
  by (induction d k v rule: dset.induct) auto

lemma map_fst_dset: "k \<in> fst ` set d \<Longrightarrow> map fst (dset d k v) = map fst d"
  by (induction d k v rule: dset.induct) auto

lemma distinct_keys_dset: "distinct (map fst d) \<Longrightarrow> distinct (map fst (dset d k v))"
  by (induction d k v rule: dset.induct) (auto simp: keys_dset)

lemma distinct_keys_dpop: "distinct (map fst d) \<Longrightarrow> distinct (map fst (dpop d k))"
  by (induction d) (auto simp: dpop_def)

lemma dpop_dset: "dpop (dset d (lit k) v) k = dpop d k"
  by (induction d "lit k" v rule: dset.induct) (auto simp: dpop_def)

lemma dpop_commute: "dpop (dpop d k) k' = dpop (dpop d k') k"
  by (simp add: dpop_def conj_commute)

lemma dget_dset [simp]:
  "dget (dset d (lit k) v) k' = (if k' = k then v else dget d k')"
  by (simp add: dget_def lookup_dset)

lemma keys_are_lookup: "keys_are d ks \<Longrightarrow> k \<in> set ks \<Longrightarrow> \<exists>v. lookup d (lit k) = Some v"
  by (cases "lookup d (lit k)") (force simp: keys_are_def lookup_None_iff)+

lemma dindex_keys_are: "keys_are d ks \<Longrightarrow> k \<in> set ks \<Longrightarrow> dindex d k = Inr (dget d k)"
  using keys_are_lookup [of d ks k] by (auto simp: dindex_def dget_def)

lemma dget_Cons [simp]: "dget ((k', v) # d) k = (if k' = lit k then v else dget d k)"
  by (simp add: dget_def)

text \<open>Every dictionary in a value has distinct keys, as Python guarantees.\<close>

fun wf_val :: "pyval \<Rightarrow> bool" where
  "wf_val (PList xs) = list_all wf_val xs"
| "wf_val (PDict d) = (distinct (map fst d) \<and> list_all (\<lambda>kv. wf_val (snd kv)) d)"
| "wf_val (PPairs d) = list_all (\<lambda>kv. wf_val (snd kv)) d"
| "wf_val _ = True"

text \<open>Equality is reflexive on values without NaN and with distinct keys.\<close>

fun nan_free :: "pyval \<Rightarrow> bool" where
  "nan_free (PFloat f) = (f \<noteq> NaN)"
| "nan_free (PList xs) = list_all nan_free xs"
| "nan_free (PDict d) = list_all (\<lambda>kv. nan_free (snd kv)) d"
| "nan_free _ = True"

lemma py_eq_dict_iff:
  "py_eq_dict d d' \<longleftrightarrow>
     (\<forall>(k, v) \<in> set d. case lookup d' k of None \<Rightarrow> False | Some w \<Rightarrow> py_eq v w)"
  by (induction d) auto

lemma py_eq_list_iff: "py_eq_list xs ys \<longleftrightarrow> list_all2 py_eq xs ys"
  by (induction xs arbitrary: ys) (auto simp: list_all2_Cons1 split: list.splits)

lemma py_eq_refl: "wf_val v \<Longrightarrow> nan_free v \<Longrightarrow> py_eq v v"
proof (induction v)
  case (PList xs)
  then show ?case
    by (auto simp: py_eq_list_iff list_all_iff intro!: list.rel_refl_strong)
next
  case (PDict d)
  have "case lookup d k of None \<Rightarrow> False | Some w \<Rightarrow> py_eq v w" if "(k, v) \<in> set d" for k v
  proof -
    have "lookup d k = Some v"
      using that PDict.prems(1) by (simp add: lookup_Some_iff)
    moreover have "py_eq v v"
      using that PDict by (force simp: list_all_iff)
    ultimately show ?thesis by simp
  qed
  then show ?case by (auto simp: py_eq_dict_iff)
qed (auto simp: num_of_def)

lemma distinct_vals_strings: "list_all is_str xs \<Longrightarrow> distinct_vals xs \<longleftrightarrow> distinct xs"
proof (induction xs)
  case (Cons x xs)
  have "py_eq x y \<longleftrightarrow> x = y" if "y \<in> set xs" for y
    using Cons.prems that by (cases y) (auto simp: list_all_iff)
  then have "list_all (\<lambda>y. \<not> py_eq x y) xs \<longleftrightarrow> x \<notin> set xs"
    by (auto simp: list_all_iff)
  with Cons show ?case by simp
qed simp

lemma is_str_hashable: "is_str v \<Longrightarrow> hashable v"
  by (cases v) simp_all

end
