(* ===== verification/Json_Scanner.thy ===== *)
theory Json_Scanner
  imports Py_Values
begin

text \<open>
  \<open>json.loads\<close> of the standard library as the repository calls it: the text is scanned from the
  left, the hooks (\<open>parse_float\<close>, \<open>parse_constant\<close>, \<open>object_pairs_hook\<close>) are called where the
  scanner meets their token, and every syntax error is a JSONDecodeError. Containers nest at most
  as deep as the interpreter's recursion budget, beyond it the scanner raises RecursionError;
  \<open>int()\<close> refuses more than 4300 digits with a plain ValueError.
\<close>

record json_hooks =
  on_float :: "pystr \<Rightarrow> pyval result"
  on_constant :: "pystr \<Rightarrow> pyval result"
  on_object :: "(pystr \<times> pyval) list \<Rightarrow> pyval result"

type_synonym 'a scan = "pystr \<Rightarrow> ('a \<times> pystr) result"

section \<open>White space, digits\<close>

definition is_ws :: "nat \<Rightarrow> bool" where
  "is_ws c \<longleftrightarrow> c = 32 \<or> c = 9 \<or> c = 10 \<or> c = 13"

definition skip_ws :: "pystr \<Rightarrow> pystr" where
  "skip_ws s = dropWhile is_ws s"

lemma skip_ws_simps [simp]:
  "skip_ws [] = []"
  "\<not> is_ws c \<Longrightarrow> skip_ws (c # s) = c # s"
  by (simp_all add: skip_ws_def)

lemma skip_ws_length: "length (skip_ws s) \<le> length s"
  by (simp add: skip_ws_def length_dropWhile_le)

definition is_digit :: "nat \<Rightarrow> bool" where
  "is_digit c \<longleftrightarrow> 48 \<le> c \<and> c \<le> 57"

definition nat_of_digits :: "pystr \<Rightarrow> nat" where
  "nat_of_digits ds = foldl (\<lambda>n d. n * 10 + (d - 48)) 0 ds"

definition hex_val :: "nat \<Rightarrow> nat option" where
  "hex_val c =
     (if 48 \<le> c \<and> c \<le> 57 then Some (c - 48)
      else if 97 \<le> c \<and> c \<le> 102 then Some (c - 87)
      else if 65 \<le> c \<and> c \<le> 70 then Some (c - 55)
      else None)"

fun hex4 :: "pystr \<Rightarrow> (nat \<times> pystr) option" where
  "hex4 (a # b # c # d # r) =
     (case (hex_val a, hex_val b, hex_val c, hex_val d) of
        (Some x, Some y, Some z, Some w) \<Rightarrow> Some (((x * 16 + y) * 16 + z) * 16 + w, r)
      | _ \<Rightarrow> None)"
| "hex4 _ = None"

lemma hex4_length: "hex4 s = Some (u, r) \<Longrightarrow> length r < length s"
  by (induction s rule: hex4.induct) (auto split: option.splits)

section \<open>Strings\<close>

text \<open>The text after the opening quote; \<open>strict\<close> mode forbids raw control characters.\<close>

definition simple_escape :: "nat \<Rightarrow> nat option" where
  "simple_escape e =
     (if e = 34 then Some 34 else if e = 92 then Some 92 else if e = 47 then Some 47
      else if e = 98 then Some 8 else if e = 102 then Some 12 else if e = 110 then Some 10
      else if e = 114 then Some 13 else if e = 116 then Some 9 else None)"

definition high_surrogate :: "nat \<Rightarrow> bool" where
  "high_surrogate u \<longleftrightarrow> 0xD800 \<le> u \<and> u \<le> 0xDBFF"

definition low_surrogate :: "nat \<Rightarrow> bool" where
  "low_surrogate u \<longleftrightarrow> 0xDC00 \<le> u \<and> u \<le> 0xDFFF"

text \<open>\<open>\uXXXX\<close>, joined with a following low surrogate escape when there is one.\<close>

definition unicode_escape :: "nat scan" where
  "unicode_escape s = (case hex4 s of
     None \<Rightarrow> Inl JSONDecodeError
   | Some (u, r) \<Rightarrow>
       (case r of
          a # b # r' \<Rightarrow>
            (if high_surrogate u \<and> a = 92 \<and> b = 117 then
               (case hex4 r' of
                  None \<Rightarrow> Inl JSONDecodeError
                | Some (u2, r2) \<Rightarrow>
                    (if low_surrogate u2
                     then Inr (0x10000 + (u - 0xD800) * 0x400 + (u2 - 0xDC00), r2)
                     else Inr (u, r)))
             else Inr (u, r))
        | _ \<Rightarrow> Inr (u, r)))"

lemma unicode_escape_length: "unicode_escape s = Inr (u, r) \<Longrightarrow> length r < length s"
  by (auto simp: unicode_escape_def split: option.splits list.splits if_splits dest!: hex4_length)

function scan_string :: "pystr scan" where
  "scan_string [] = Inl JSONDecodeError"
| "scan_string (c # s) =
     (if c = 34 then Inr ([], s)
      else if c = 92 then
        (case s of
           [] \<Rightarrow> Inl JSONDecodeError
         | e # s' \<Rightarrow>
             if e = 117 then
               (case unicode_escape s' of
                  Inl x \<Rightarrow> Inl x
                | Inr (u, r) \<Rightarrow> bindE (scan_string r) (\<lambda>(t, r'). Inr (u # t, r')))
             else (case simple_escape e of
                 None \<Rightarrow> Inl JSONDecodeError
               | Some u \<Rightarrow> bindE (scan_string s') (\<lambda>(t, r). Inr (u # t, r))))
      else if c < 32 then Inl JSONDecodeError
      else bindE (scan_string s) (\<lambda>(t, r). Inr (c # t, r)))"
  by pat_completeness auto
termination
  by (relation "measure length") (auto dest!: unicode_escape_length)

lemma scan_string_length: "scan_string s = Inr (t, r) \<Longrightarrow> length r < length s"
proof (induction s arbitrary: t r rule: scan_string.induct)
  case (2 c s)
  show ?case
  proof (cases "c = 34 \<or> (c \<noteq> 92 \<and> c < 32)")
    case True
    with "2.prems" show ?thesis by (auto split: if_splits)
  next
    case False
    show ?thesis
    proof (cases "c = 92")
      case False': False
      with False "2.prems" obtain t' where "scan_string s = Inr (t', r)"
        by (auto simp: bindE_eq_Inr)
      with "2.IH"(3) False False' have "length r < length s" by blast
      then show ?thesis by simp
    next
      case True
      with "2.prems" obtain e s' where s: "s = e # s'" by (cases s) auto
      show ?thesis
      proof (cases "e = 117")
        case e: True
        with True s "2.prems" obtain u q t' where u: "unicode_escape s' = Inr (u, q)"
          and q: "scan_string q = Inr (t', r)"
          by (auto simp: bindE_eq_Inr split: sum.splits)
        have "length r < length q" using "2.IH"(1) [OF _ True s e u refl q] False by simp
        with unicode_escape_length [OF u] s show ?thesis by simp
      next
        case e: False
        with True s "2.prems" obtain u t' where u: "simple_escape e = Some u"
          and q: "scan_string s' = Inr (t', r)"
          by (auto simp: bindE_eq_Inr split: option.splits)
        have "length r < length s'" using "2.IH"(2) [OF _ True s e u q] False by simp
        with s show ?thesis by simp
      qed
    qed
  qed
qed simp

section \<open>Numbers\<close>

text \<open>The integer, fraction and exponent parts of a number token and the rest of the text.\<close>

definition number_int :: "pystr \<Rightarrow> (pystr \<times> pystr) option" where
  "number_int s = (case s of
     [] \<Rightarrow> None
   | c # r \<Rightarrow>
       if c = 48 then Some ([48], r)
       else if is_digit c then Some (c # takeWhile is_digit r, dropWhile is_digit r)
       else None)"

definition number_frac :: "pystr \<Rightarrow> pystr \<times> pystr" where
  "number_frac s = (case s of
     c # r \<Rightarrow> if c = 46 \<and> takeWhile is_digit r \<noteq> []
              then (c # takeWhile is_digit r, dropWhile is_digit r) else ([], s)
   | [] \<Rightarrow> ([], s))"

definition number_exp :: "pystr \<Rightarrow> pystr \<times> pystr" where
  "number_exp s = (case s of
     c # r \<Rightarrow>
       if c = 101 \<or> c = 69 then
         (let (sg, r') = (case r of d # q \<Rightarrow> if d = 43 \<or> d = 45 then ([d], q) else ([], r) | [] \<Rightarrow> ([], r))
          in if takeWhile is_digit r' \<noteq> []
             then (c # sg @ takeWhile is_digit r', dropWhile is_digit r') else ([], s))
       else ([], s)
   | [] \<Rightarrow> ([], s))"

definition int_max_str_digits :: nat where
  "int_max_str_digits = 4300"

text \<open>\<open>int(text)\<close> of a number token without fraction and exponent.\<close>

definition py_int :: "bool \<Rightarrow> pystr \<Rightarrow> int result" where
  "py_int neg ds =
     (if int_max_str_digits < length ds then Inl ValueError
      else Inr (if neg then - int (nat_of_digits ds) else int (nat_of_digits ds)))"

definition scan_number :: "json_hooks \<Rightarrow> bool \<Rightarrow> pyval scan" where
  "scan_number h neg s = (case number_int s of
     None \<Rightarrow> Inl JSONDecodeError
   | Some (ip, r) \<Rightarrow>
       (let (fp, r1) = number_frac r; (ep, r2) = number_exp r1 in
        if fp = [] \<and> ep = [] then bindE (py_int neg ip) (\<lambda>i. Inr (PInt i, r2))
        else bindE (on_float h ((if neg then [45] else []) @ ip @ fp @ ep)) (\<lambda>v. Inr (v, r2))))"

lemma number_int_length: "number_int s = Some (d, r) \<Longrightarrow> length r < length s"
  by (auto simp: number_int_def le_imp_less_Suc length_dropWhile_le split: list.splits if_splits)

lemma number_frac_length: "length (snd (number_frac s)) \<le> length s"
  by (auto simp: number_frac_def le_SucI length_dropWhile_le split: list.splits)

lemma number_exp_length: "length (snd (number_exp s)) \<le> length s"
  by (auto simp: number_exp_def Let_def le_SucI length_dropWhile_le split: list.splits)

lemma scan_number_length:
  assumes "scan_number h neg s = Inr (v, r)"
  shows "length r < length s"
proof -
  obtain ip q where q: "number_int s = Some (ip, q)"
    using assms by (cases "number_int s") (auto simp: scan_number_def)
  have "r = snd (number_exp (snd (number_frac q)))"
    using assms q
    by (auto simp: scan_number_def bindE_eq_Inr split: prod.splits if_splits)
  then have "length r \<le> length q"
    using number_exp_length number_frac_length le_trans by blast
  with number_int_length [OF q] show ?thesis by simp
qed

section \<open>Containers\<close>

text \<open>
  The items of an array and the members of an object, after the opening bracket and white space.
  The scanner of a value consumes its text (\<open>scan_value_length\<close> below), so the branches that
  compare lengths always take the recursive side.
\<close>

function scan_elements :: "pyval scan \<Rightarrow> pyval list scan" where
  "scan_elements val s =
     bindE (val s) (\<lambda>(v, r).
       case skip_ws r of
         [] \<Rightarrow> Inl JSONDecodeError
       | c # q \<Rightarrow>
           if c = 93 then Inr ([v], q)
           else if c = 44 then
             (if length (skip_ws q) < length s
              then bindE (scan_elements val (skip_ws q)) (\<lambda>(vs, q'). Inr (v # vs, q'))
              else Inl JSONDecodeError)
           else Inl JSONDecodeError)"
  by pat_completeness auto
termination
  by (relation "measure (\<lambda>(val, s). length s)") auto

function scan_members :: "pyval scan \<Rightarrow> (pystr \<times> pyval) list scan" where
  "scan_members val s = (case s of
     [] \<Rightarrow> Inl JSONDecodeError
   | c0 # s0 \<Rightarrow>
       if c0 \<noteq> 34 then Inl JSONDecodeError
       else bindE (scan_string s0) (\<lambda>(k, r0).
         case skip_ws r0 of
           [] \<Rightarrow> Inl JSONDecodeError
         | c1 # r1 \<Rightarrow>
             if c1 \<noteq> 58 then Inl JSONDecodeError
             else bindE (val (skip_ws r1)) (\<lambda>(v, r).
               case skip_ws r of
                 [] \<Rightarrow> Inl JSONDecodeError
               | c # q \<Rightarrow>
                   if c = 125 then Inr ([(k, v)], q)
                   else if c = 44 then
                     (if length (skip_ws q) < length s
                      then bindE (scan_members val (skip_ws q)) (\<lambda>(vs, q'). Inr ((k, v) # vs, q'))
                      else Inl JSONDecodeError)
                   else Inl JSONDecodeError)))"
  by pat_completeness auto
termination
  by (relation "measure (\<lambda>(val, s). length s)") auto

declare scan_elements.simps [simp del] scan_members.simps [simp del]

definition scan_array :: "pyval scan \<Rightarrow> pyval scan" where
  "scan_array val s = (case skip_ws s of
     [] \<Rightarrow> Inl JSONDecodeError
   | c # r \<Rightarrow> if c = 93 then Inr (PList [], r)
              else bindE (scan_elements val (skip_ws s)) (\<lambda>(vs, q). Inr (PList vs, q)))"

definition scan_object :: "json_hooks \<Rightarrow> pyval scan \<Rightarrow> pyval scan" where
  "scan_object h val s = (case skip_ws s of
     [] \<Rightarrow> Inl JSONDecodeError
   | c # r \<Rightarrow> if c = 125 then bindE (on_object h []) (\<lambda>v. Inr (v, r))
              else bindE (scan_members val (skip_ws s))
                     (\<lambda>(ms, q). bindE (on_object h ms) (\<lambda>v. Inr (v, q))))"

text \<open>A keyword at the front of the text.\<close>

definition after_word :: "string \<Rightarrow> pystr \<Rightarrow> pystr option" where
  "after_word w s = (if starts_with s (lit w) then Some (drop (length w) s) else None)"

definition scan_constant :: "json_hooks \<Rightarrow> string \<Rightarrow> pyval scan" where
  "scan_constant h w s = (case after_word w s of
     None \<Rightarrow> Inl JSONDecodeError
   | Some r \<Rightarrow> bindE (on_constant h (lit w)) (\<lambda>v. Inr (v, r)))"

definition scan_keyword :: "string \<Rightarrow> pyval \<Rightarrow> pyval scan" where
  "scan_keyword w v s = (case after_word w s of None \<Rightarrow> Inl JSONDecodeError | Some r \<Rightarrow> Inr (v, r))"

text \<open>One value; \<open>inner\<close> scans the values inside a container, None when the budget is used up.\<close>

definition scan_once :: "json_hooks \<Rightarrow> pyval scan option \<Rightarrow> pyval scan" where
  "scan_once h inner s = (case s of
     [] \<Rightarrow> Inl JSONDecodeError
   | c # r \<Rightarrow>
       if c = 34 then bindE (scan_string r) (\<lambda>(t, q). Inr (PStr t, q))
       else if c = 123 then
         (case inner of None \<Rightarrow> Inl RecursionError | Some val \<Rightarrow> scan_object h val r)
       else if c = 91 then
         (case inner of None \<Rightarrow> Inl RecursionError | Some val \<Rightarrow> scan_array val r)
       else if c = 110 then scan_keyword ''null'' PNone s
       else if c = 116 then scan_keyword ''true'' (PBool True) s
       else if c = 102 then scan_keyword ''false'' (PBool False) s
       else if c = 78 then scan_constant h ''NaN'' s
       else if c = 73 then scan_constant h ''Infinity'' s
       else if c = 45 then
         (case after_word ''-Infinity'' s of
            Some q \<Rightarrow> scan_constant h ''-Infinity'' s
          | None \<Rightarrow> scan_number h True r)
       else scan_number h False s)"

primrec scan_value :: "json_hooks \<Rightarrow> nat \<Rightarrow> pyval scan" where
  "scan_value h 0 = scan_once h None"
| "scan_value h (Suc d) = scan_once h (Some (scan_value h d))"

definition json_loads :: "json_hooks \<Rightarrow> nat \<Rightarrow> pystr \<Rightarrow> pyval result" where
  "json_loads h budget s =
     (if starts_with s [0xFEFF] then Inl JSONDecodeError
      else bindE (scan_value h budget (skip_ws s)) (\<lambda>(v, r).
        if skip_ws r = [] then Inr v else Inl JSONDecodeError))"

section \<open>The scanner consumes what it returns\<close>

lemma scan_elements_length:
  "scan_elements val s = Inr (vs, q) \<Longrightarrow> (\<And>s v r. val s = Inr (v, r) \<Longrightarrow> length r < length s) \<Longrightarrow>
    length q < length s"
proof (induction val s arbitrary: vs q rule: scan_elements.induct)
  case (1 val s)
  note unfolded = "1.prems"(1) [unfolded scan_elements.simps [of val s]]
  obtain v r where v: "val s = Inr (v, r)"
    using unfolded by (auto simp: bindE_eq_Inr)
  obtain c q0 where r: "skip_ws r = c # q0"
    using unfolded v by (cases "skip_ws r") auto
  have cs: "(c = 93 \<and> q = q0) \<or>
      (c \<noteq> 93 \<and> c = 44 \<and> length (skip_ws q0) < length s \<and> (\<exists>vs'. scan_elements val (skip_ws q0) = Inr (vs', q)))"
    using unfolded v r by (auto simp: bindE_eq_Inr split: if_splits)
  from cs show ?case
  proof
    assume "c = 93 \<and> q = q0"
    then show ?thesis using "1.prems"(2) [OF v] arg_cong [OF r, of length] skip_ws_length [of r] by simp
  next
    assume *: "c \<noteq> 93 \<and> c = 44 \<and> length (skip_ws q0) < length s \<and> (\<exists>vs'. scan_elements val (skip_ws q0) = Inr (vs', q))"
    then obtain vs' where "scan_elements val (skip_ws q0) = Inr (vs', q)" by blast
    have "length q < length (skip_ws q0)"
      by (rule "1.IH" [OF v refl r]) (use * \<open>scan_elements val (skip_ws q0) = Inr (vs', q)\<close> "1.prems"(2) in auto)
    with * show ?thesis by simp
  qed
qed

lemma scan_members_length:
  "scan_members val s = Inr (vs, q) \<Longrightarrow> (\<And>s v r. val s = Inr (v, r) \<Longrightarrow> length r < length s) \<Longrightarrow>
    length q < length s"
proof (induction val s arbitrary: vs q rule: scan_members.induct)
  case (1 val s)
  note unfolded = "1.prems"(1) [unfolded scan_members.simps [of val s]]
  obtain s0 where s: "s = 34 # s0"
    using unfolded by (cases s) (auto split: if_splits)
  obtain k r0 where k: "scan_string s0 = Inr (k, r0)"
    using unfolded s by (auto simp: bindE_eq_Inr)
  obtain r1 where r0: "skip_ws r0 = 58 # r1"
    using unfolded s k by (cases "skip_ws r0") (auto split: if_splits)
  obtain v r where v: "val (skip_ws r1) = Inr (v, r)"
    using unfolded s k r0 by (auto simp: bindE_eq_Inr)
  obtain c q0 where r: "skip_ws r = c # q0"
    using unfolded s k r0 v by (cases "skip_ws r") auto
  have cs: "(c = 125 \<and> q = q0) \<or>
      (c = 44 \<and> length (skip_ws q0) < length s \<and> (\<exists>vs'. scan_members val (skip_ws q0) = Inr (vs', q)))"
    using unfolded s k r0 v r by (auto simp: bindE_eq_Inr split: if_splits)
  have "length r0 < length s0" by (rule scan_string_length [OF k])
  moreover have "length r1 < length r0"
    using arg_cong [OF r0, of length] skip_ws_length [of r0] by simp
  moreover have "length r < length (skip_ws r1)" by (rule "1.prems"(2) [OF v])
  moreover have "length q0 < length r"
    using arg_cong [OF r, of length] skip_ws_length [of r] by simp
  ultimately have "length q0 < length s"
    using s skip_ws_length [of r1] by simp
  then show ?case
  proof (cases "c = 125")
    case False
    with cs obtain vs' where c: "c = 44" "length (skip_ws q0) < length s"
      and vs': "scan_members val (skip_ws q0) = Inr (vs', q)" by blast
    have "length q < length (skip_ws q0)"
      by (rule "1.IH" [OF s _ k refl r0 _ v refl r]) (use False c vs' "1.prems"(2) in auto)
    with c show ?thesis by simp
  qed (use cs in auto)
qed

lemma after_word_length: "after_word w s = Some r \<Longrightarrow> w \<noteq> [] \<Longrightarrow> length r < length s"
  by (auto simp: after_word_def starts_with_iff split: if_splits)

lemma scan_once_length:
  assumes "\<And>val s v r. inner = Some val \<Longrightarrow> val s = Inr (v, r) \<Longrightarrow> length r < length s"
    and "scan_once h inner s = Inr (v, r)"
  shows "length r < length s"
proof -
  obtain c q where s: "s = c # q" using assms(2) by (cases s) (auto simp: scan_once_def)
  have ws: "length (skip_ws q) \<le> length q" by (rule skip_ws_length)
  have arr: "length r < length s" if "inner = Some val" "scan_array val q = Inr (v, r)" for val
    using that s ws scan_elements_length [of val "skip_ws q"] assms(1) [OF that(1)]
    by (fastforce simp: scan_array_def bindE_eq_Inr split: list.splits if_splits)
  have obj: "length r < length s" if "inner = Some val" "scan_object h val q = Inr (v, r)" for val
    using that s ws scan_members_length [of val "skip_ws q"] assms(1) [OF that(1)]
    by (fastforce simp: scan_object_def bindE_eq_Inr split: list.splits if_splits)
  show ?thesis
    using assms(2) s arr obj
    by (auto simp: scan_once_def scan_keyword_def scan_constant_def bindE_eq_Inr
        split: if_splits option.splits
        dest: scan_string_length scan_number_length after_word_length)
qed

lemma scan_value_length: "scan_value h d s = Inr (v, r) \<Longrightarrow> length r < length s"
proof (induction d arbitrary: s v r)
  case 0
  then show ?case by (auto dest: scan_once_length [rotated])
next
  case (Suc d)
  show ?case
    by (rule scan_once_length [of "Some (scan_value h d)"]) (use Suc in auto)
qed

text \<open>Hence the length guards never decide: the loops scan on after every comma.\<close>

lemma scan_elements_step:
  "scan_elements (scan_value h d) s =
     bindE (scan_value h d s) (\<lambda>(v, r).
       case skip_ws r of
         [] \<Rightarrow> Inl JSONDecodeError
       | c # q \<Rightarrow>
           if c = 93 then Inr ([v], q)
           else if c = 44 then bindE (scan_elements (scan_value h d) (skip_ws q))
             (\<lambda>(vs, q'). Inr (v # vs, q'))
           else Inl JSONDecodeError)"
proof -
  have "length (skip_ws q) < length s" if "scan_value h d s = Inr (v, r)" "skip_ws r = c # q" for v r c q
  proof -
    have "length (skip_ws q) \<le> length q" "length (skip_ws r) \<le> length r" by (rule skip_ws_length)+
    with that scan_value_length [OF that(1)] show ?thesis by simp
  qed
  then show ?thesis
    by (subst scan_elements.simps) (auto intro!: bindE_cong split: list.splits)
qed

lemma scan_members_step:
  assumes "scan_string s = Inr (k, 58 # r1)" and "scan_value h d (skip_ws r1) = Inr (v, r)"
  shows "scan_members (scan_value h d) (34 # s) =
     (case skip_ws r of
        [] \<Rightarrow> Inl JSONDecodeError
      | c # q \<Rightarrow>
          if c = 125 then Inr ([(k, v)], q)
          else if c = 44 then bindE (scan_members (scan_value h d) (skip_ws q))
            (\<lambda>(vs, q'). Inr ((k, v) # vs, q'))
          else Inl JSONDecodeError)"
proof -
  have "length (skip_ws q) < length (34 # s)" if "skip_ws r = c # q" for c q
  proof -
    have "length (skip_ws q) \<le> length q" "length (skip_ws r) \<le> length r"
        "length (skip_ws r1) \<le> length r1" by (rule skip_ws_length)+
    with that scan_value_length [OF assms(2)] scan_string_length [OF assms(1)] show ?thesis by simp
  qed
  then show ?thesis
    using assms
    by (subst scan_members.simps) (auto simp: is_ws_def split: list.splits)
qed

section \<open>Numbers read back what \<open>str\<close> prints\<close>

text \<open>The digits of \<open>f"{n:x}"\<close> and \<open>str(n)\<close> in base ten.\<close>

definition hex_digit :: "nat \<Rightarrow> nat" where
  "hex_digit n = (if n < 10 then 48 + n else 87 + n)"

fun digits :: "nat \<Rightarrow> pystr" where
  "digits n = (if n < 10 then [48 + n] else digits (n div 10) @ [48 + n mod 10])"

declare digits.simps [simp del]

definition show_int :: "int \<Rightarrow> pystr" where
  "show_int i = (if i < 0 then 45 # digits (nat (- i)) else digits (nat i))"

lemma digits_all: "c \<in> set (digits n) \<Longrightarrow> is_digit c"
proof (induction n rule: digits.induct)
  case (1 n)
  then show ?case by (cases "n < 10") (auto simp: digits.simps [of n] is_digit_def)
qed

lemma digits_nonempty [simp]: "digits n \<noteq> []"
  by (subst digits.simps) simp

lemma nat_of_digits_snoc: "nat_of_digits (ds @ [d]) = nat_of_digits ds * 10 + (d - 48)"
  by (simp add: nat_of_digits_def)

lemma nat_of_digits_digits: "nat_of_digits (digits n) = n"
proof (induction n rule: digits.induct)
  case (1 n)
  show ?case
  proof (cases "n < 10")
    case True
    then show ?thesis by (simp add: digits.simps [of n] nat_of_digits_def)
  next
    case False
    with 1 show ?thesis by (simp add: digits.simps [of n] nat_of_digits_snoc)
  qed
qed

lemma hd_digits: "n \<noteq> 0 \<Longrightarrow> hd (digits n) \<noteq> 48"
proof (induction n rule: digits.induct)
  case (1 n)
  show ?case
  proof (cases "n < 10")
    case True
    with 1 show ?thesis by (simp add: digits.simps [of n])
  next
    case False
    then have "n div 10 \<noteq> 0" by simp
    with False 1 show ?thesis by (simp add: digits.simps [of n] hd_append)
  qed
qed

lemma length_digits: "n < 10 ^ k \<Longrightarrow> 0 < k \<Longrightarrow> length (digits n) \<le> k"
proof (induction n arbitrary: k rule: digits.induct)
  case (1 n)
  show ?case
  proof (cases "n < 10")
    case True
    with 1 show ?thesis by (simp add: digits.simps [of n])
  next
    case False
    with "1.prems" obtain k' where k: "k = Suc k'" "0 < k'" by (cases k; cases "k - 1") auto
    with False "1.prems" have "n div 10 < 10 ^ k'" by (simp add: div_less_iff_less_mult mult.commute)
    with False k "1.IH" show ?thesis by (simp add: digits.simps [of n])
  qed
qed

definition ends_number :: "pystr \<Rightarrow> bool" where
  "ends_number r \<longleftrightarrow> (r = [] \<or> (\<not> is_digit (hd r) \<and> hd r \<noteq> 46 \<and> hd r \<noteq> 101 \<and> hd r \<noteq> 69))"

lemma takeWhile_digits: "(\<forall>c \<in> set ds. is_digit c) \<Longrightarrow> r = [] \<or> \<not> is_digit (hd r) \<Longrightarrow>
    takeWhile is_digit (ds @ r) = ds \<and> dropWhile is_digit (ds @ r) = r"
  by (induction ds) (cases r; auto)+

lemma number_int_digits:
  assumes "ends_number r"
  shows "number_int (digits n @ r) = Some (digits n, r)"
proof -
  obtain c ds where ds: "digits n = c # ds" by (cases "digits n") auto
  have all: "is_digit c" "\<forall>x \<in> set ds. is_digit x" using digits_all [of _ n] ds by auto
  have run: "takeWhile is_digit (ds @ r) = ds" "dropWhile is_digit (ds @ r) = r"
    using takeWhile_digits [OF all(2)] assms by (auto simp: ends_number_def)
  show ?thesis
  proof (cases "n = 0")
    case True
    then show ?thesis by (simp add: digits.simps [of 0] number_int_def)
  next
    case False
    then have "c \<noteq> 48" using hd_digits [of n] ds by simp
    with ds all run show ?thesis by (simp add: number_int_def)
  qed
qed

lemma scan_number_digits:
  assumes "ends_number r" and "length (digits n) \<le> int_max_str_digits"
  shows "scan_number h neg (digits n @ r) = Inr (PInt (if neg then - int n else int n), r)"
proof -
  have "number_frac r = ([], r)" "number_exp r = ([], r)"
    using assms(1) by (auto simp: ends_number_def number_frac_def number_exp_def split: list.splits)
  with number_int_digits [OF assms(1), of n] assms(2) show ?thesis
    by (simp add: scan_number_def py_int_def nat_of_digits_digits)
qed

end
