(* ===== verification/Utf8.thy ===== *)
theory Utf8
  imports Fed_Prelude
begin

text \<open>
  \<open>str.encode("utf-8", errors="strict")\<close> and \<open>bytes.decode("utf-8", errors="strict")\<close>, with the
  round trips in both directions. Encoding refuses surrogates; decoding refuses overlong forms,
  surrogates, code points above U+10FFFF and truncated sequences.
\<close>

definition surrogate :: "nat \<Rightarrow> bool" where
  "surrogate c \<longleftrightarrow> 0xD800 \<le> c \<and> c \<le> 0xDFFF"

text \<open>A Unicode scalar value.\<close>

definition scalar :: "nat \<Rightarrow> bool" where
  "scalar c \<longleftrightarrow> c \<le> 0x10FFFF \<and> \<not> surrogate c"

abbreviation scalars :: "pystr \<Rightarrow> bool" where
  "scalars s \<equiv> list_all scalar s"

definition utf8_octets :: "nat \<Rightarrow> nat list" where
  "utf8_octets c =
     (if c < 0x80 then [c]
      else if c < 0x800 then [0xC0 + c div 0x40, 0x80 + c mod 0x40]
      else if c < 0x10000 then [0xE0 + c div 0x1000, 0x80 + c div 0x40 mod 0x40, 0x80 + c mod 0x40]
      else [0xF0 + c div 0x40000, 0x80 + c div 0x1000 mod 0x40, 0x80 + c div 0x40 mod 0x40,
            0x80 + c mod 0x40])"

definition utf8_char :: "nat \<Rightarrow> bytes" where
  "utf8_char c = map word_of_nat (utf8_octets c)"

definition utf8_bytes :: "pystr \<Rightarrow> bytes" where
  "utf8_bytes s = concat (map utf8_char s)"

text \<open>Python strings hold code points up to U+10FFFF, so only surrogates fail in practice.\<close>

definition utf8_encode :: "pystr \<Rightarrow> bytes result" where
  "utf8_encode s = (if scalars s then Inr (utf8_bytes s) else Inl UnicodeEncodeError)"

text \<open>A continuation octet.\<close>

definition cont :: "nat \<Rightarrow> bool" where
  "cont b \<longleftrightarrow> 0x80 \<le> b \<and> b < 0xC0"

text \<open>One code point off the front of the octets, with its length.\<close>

definition utf8_next :: "nat list \<Rightarrow> (nat \<times> nat) option" where
  "utf8_next bs = (case bs of
     [] \<Rightarrow> None
   | b0 # r \<Rightarrow>
      if b0 < 0x80 then Some (b0, 1)
      else if 0xC2 \<le> b0 \<and> b0 < 0xE0 then
        (case r of b1 # _ \<Rightarrow>
           if cont b1 then Some ((b0 - 0xC0) * 0x40 + (b1 - 0x80), 2) else None
         | _ \<Rightarrow> None)
      else if 0xE0 \<le> b0 \<and> b0 < 0xF0 then
        (case r of b1 # b2 # _ \<Rightarrow>
           (let c = (b0 - 0xE0) * 0x1000 + (b1 - 0x80) * 0x40 + (b2 - 0x80)
            in if cont b1 \<and> cont b2 \<and> 0x800 \<le> c \<and> \<not> surrogate c then Some (c, 3) else None)
         | _ \<Rightarrow> None)
      else if 0xF0 \<le> b0 \<and> b0 < 0xF5 then
        (case r of b1 # b2 # b3 # _ \<Rightarrow>
           (let c = (b0 - 0xF0) * 0x40000 + (b1 - 0x80) * 0x1000 + (b2 - 0x80) * 0x40 + (b3 - 0x80)
            in if cont b1 \<and> cont b2 \<and> cont b3 \<and> 0x10000 \<le> c \<and> c \<le> 0x10FFFF
               then Some (c, 4) else None)
         | _ \<Rightarrow> None)
      else None)"

function utf8_decode_octets :: "nat list \<Rightarrow> pystr option" where
  "utf8_decode_octets bs =
     (if bs = [] then Some []
      else case utf8_next bs of
        None \<Rightarrow> None
      | Some (c, n) \<Rightarrow>
          (if n = 0 then None
           else case utf8_decode_octets (drop n bs) of None \<Rightarrow> None | Some s \<Rightarrow> Some (c # s)))"
  by pat_completeness auto
termination
  by (relation "measure length") auto

declare utf8_decode_octets.simps [simp del]

definition utf8_decode :: "bytes \<Rightarrow> pystr result" where
  "utf8_decode b = (case utf8_decode_octets (map unat b) of
     None \<Rightarrow> Inl UnicodeDecodeError | Some s \<Rightarrow> Inr s)"

section \<open>Octets fit a byte\<close>

lemma utf8_octets_nonempty [simp]: "utf8_octets c \<noteq> []"
  by (simp add: utf8_octets_def)

lemma utf8_octets_bound:
  assumes "c \<le> 0x10FFFF" and "b \<in> set (utf8_octets c)"
  shows "b < 256"
proof -
  have "c div 0x40000 < 5" and "c < 0x10000 \<longrightarrow> c div 0x1000 < 16" and "c < 0x800 \<longrightarrow> c div 0x40 < 32"
    using assms(1) by (simp_all add: div_less_iff_less_mult)
  moreover have "c mod 0x40 < 0x40" "c div 0x40 mod 0x40 < 0x40" "c div 0x1000 mod 0x40 < 0x40"
    by simp_all
  ultimately show ?thesis
    using assms(2) by (auto simp: utf8_octets_def split: if_splits)
qed

lemma unat_utf8_char:
  assumes "c \<le> 0x10FFFF"
  shows "map unat (utf8_char c) = utf8_octets c"
proof -
  have "unat (word_of_nat b :: 8 word) = b" if "b \<in> set (utf8_octets c)" for b
    using utf8_octets_bound [OF assms that] by (simp add: unat_of_nat)
  then show ?thesis by (simp add: utf8_char_def map_idI)
qed

lemma utf8_char_nonempty [simp]: "utf8_char c \<noteq> []"
  by (simp add: utf8_char_def)

lemma utf8_bytes_simps [simp]:
  "utf8_bytes [] = []"
  "utf8_bytes (c # s) = utf8_char c @ utf8_bytes s"
  "utf8_bytes (s @ t) = utf8_bytes s @ utf8_bytes t"
  by (simp_all add: utf8_bytes_def)

lemma utf8_bytes_append [simp]: "utf8_bytes (s @ t) = utf8_bytes s @ utf8_bytes t"
  by (simp add: utf8_bytes_def)

lemma length_utf8_bytes_le: "length s \<le> length (utf8_bytes s)"
proof (induction s)
  case (Cons c s)
  have "0 < length (utf8_char c)" by simp
  with Cons show ?case by (simp del: length_greater_0_conv)
qed simp

lemma length_utf8_bytes_ge: "length (utf8_bytes s) \<le> 4 * length s"
  by (induction s) (simp_all add: utf8_char_def utf8_octets_def)

section \<open>Round trips\<close>

lemma scalar_cases:
  assumes "scalar c"
  obtains (one) "c < 0x80"
    | (two) "0x80 \<le> c" "c < 0x800"
    | (three) "0x800 \<le> c" "c < 0x10000" "\<not> surrogate c"
    | (four) "0x10000 \<le> c" "c \<le> 0x10FFFF"
  using assms by (force simp: scalar_def)

text \<open>A number is rebuilt from its base-64 digits.\<close>

lemma base64_digits:
  "(z::nat) < 0x40 \<Longrightarrow> (q * 0x40 + z) div 0x40 = q \<and> (q * 0x40 + z) mod 0x40 = z"
  by simp

lemma base64_two: "(c::nat) div 0x40 * 0x40 + c mod 0x40 = c"
  by (rule div_mult_mod_eq)

lemma base64_three: "(c::nat) div 0x1000 * 0x1000 + c div 0x40 mod 0x40 * 0x40 + c mod 0x40 = c"
proof -
  have "c div 0x40 div 0x40 = c div 0x1000"
    by (simp add: div_mult2_eq [symmetric])
  then have "c div 0x40 = c div 0x1000 * 0x40 + c div 0x40 mod 0x40"
    by (metis div_mult_mod_eq)
  then have "c div 0x1000 * 0x1000 + c div 0x40 mod 0x40 * 0x40 = c div 0x40 * 0x40"
    by simp
  then show ?thesis using base64_two [of c] by linarith
qed

lemma base64_four:
  "(c::nat) div 0x40000 * 0x40000 + c div 0x1000 mod 0x40 * 0x1000 + c div 0x40 mod 0x40 * 0x40
     + c mod 0x40 = c"
proof -
  have "c div 0x1000 div 0x40 = c div 0x40000"
    by (simp add: div_mult2_eq [symmetric])
  then have "c div 0x1000 = c div 0x40000 * 0x40 + c div 0x1000 mod 0x40"
    by (metis div_mult_mod_eq)
  then have "c div 0x40000 * 0x40000 + c div 0x1000 mod 0x40 * 0x1000 = c div 0x1000 * 0x1000"
    by simp
  then show ?thesis using base64_three [of c] by linarith
qed

lemma utf8_next_octets:
  assumes "scalar c"
  shows "utf8_next (utf8_octets c @ r) = Some (c, length (utf8_octets c))"
  using assms
proof (cases rule: scalar_cases)
  case one
  then show ?thesis by (simp add: utf8_next_def utf8_octets_def)
next
  case two
  have "2 \<le> c div 0x40" "c div 0x40 < 32"
    using two by (simp_all add: div_less_iff_less_mult less_eq_div_iff_mult_less_eq)
  then show ?thesis
    using two base64_two [of c]
    by (simp add: utf8_next_def utf8_octets_def cont_def div_less_iff_less_mult)
next
  case three
  then have "c div 0x1000 < 16" by (simp add: div_less_iff_less_mult)
  then show ?thesis
    using three base64_three [of c]
    by (simp add: utf8_next_def utf8_octets_def cont_def Let_def)
next
  case four
  then have "c div 0x40000 < 5" by (simp add: div_less_iff_less_mult)
  then show ?thesis
    using four base64_four [of c]
    by (simp add: utf8_next_def utf8_octets_def cont_def Let_def)
qed

lemma utf8_decode_octets_char:
  assumes "scalar c"
  shows "utf8_decode_octets (utf8_octets c @ r) =
     (case utf8_decode_octets r of None \<Rightarrow> None | Some s \<Rightarrow> Some (c # s))"
  using utf8_next_octets [OF assms, of r] by (subst utf8_decode_octets.simps) simp

lemma scalars_no_surrogate: "scalars s \<Longrightarrow> \<not> list_ex surrogate s"
  by (induction s) (auto simp: scalar_def)

lemma utf8_encode_scalars [simp]: "scalars s \<Longrightarrow> utf8_encode s = Inr (utf8_bytes s)"
  by (simp add: utf8_encode_def)

lemma utf8_encode_eq_Inr: "utf8_encode s = Inr b \<longleftrightarrow> scalars s \<and> b = utf8_bytes s"
  by (auto simp: utf8_encode_def)

lemma utf8_decode_bytes:
  assumes "scalars s"
  shows "utf8_decode (utf8_bytes s) = Inr s"
proof -
  have "utf8_decode_octets (map unat (utf8_bytes s)) = Some s"
    using assms
  proof (induction s)
    case Nil
    show ?case by (simp add: utf8_decode_octets.simps)
  next
    case (Cons c s)
    then have "scalar c" and "c \<le> 0x10FFFF" by (auto simp: scalar_def)
    with Cons show ?case by (simp add: unat_utf8_char utf8_decode_octets_char)
  qed
  then show ?thesis by (simp add: utf8_decode_def)
qed

text \<open>Encoding is injective on scalar values.\<close>

lemma utf8_bytes_inject: "scalars s \<Longrightarrow> scalars t \<Longrightarrow> utf8_bytes s = utf8_bytes t \<Longrightarrow> s = t"
  by (metis sum.inject(2) utf8_decode_bytes)

text \<open>What decoding accepts is the encoding of what it returns.\<close>

lemma utf8_next_sound:
  assumes "utf8_next bs = Some (c, n)" and "\<forall>b \<in> set bs. b < 256"
  shows "scalar c \<and> take n bs = utf8_octets c \<and> 0 < n"
proof -
  obtain b0 r where bs: "bs = b0 # r"
    using assms(1) by (cases bs) (auto simp: utf8_next_def)
  consider (1) "b0 < 0x80" | (2) "0xC2 \<le> b0" "b0 < 0xE0" | (3) "0xE0 \<le> b0" "b0 < 0xF0"
    | (4) "0xF0 \<le> b0" "b0 < 0xF5"
    using assms(1) bs by (auto simp: utf8_next_def split: if_splits)
  then show ?thesis
  proof cases
    case 1
    then show ?thesis
      using assms(1) bs by (auto simp: utf8_next_def utf8_octets_def scalar_def surrogate_def)
  next
    case 2
    then obtain b1 r' where r: "r = b1 # r'" "cont b1" and c: "c = (b0 - 0xC0) * 0x40 + (b1 - 0x80)" "n = 2"
      using assms(1) bs by (auto simp: utf8_next_def split: if_splits list.splits)
    define x y where "x = b0 - 0xC0" and "y = b1 - 0x80"
    have xy: "b0 = 0xC0 + x" "b1 = 0x80 + y" "y < 0x40" "2 \<le> x" "x < 0x20"
      using 2 r by (auto simp: x_def y_def cont_def)
    have "c = x * 0x40 + y" using c by (simp add: x_def y_def)
    with xy show ?thesis
      by (auto simp: bs r c(2) utf8_octets_def scalar_def surrogate_def)
  next
    case 3
    then obtain b1 b2 r' where r: "r = b1 # b2 # r'" "cont b1" "cont b2"
      and c: "c = (b0 - 0xE0) * 0x1000 + (b1 - 0x80) * 0x40 + (b2 - 0x80)" "n = 3"
        "0x800 \<le> c" "\<not> surrogate c"
      using assms(1) bs by (auto simp: utf8_next_def Let_def split: if_splits list.splits)
    define x y z where "x = b0 - 0xE0" and "y = b1 - 0x80" and "z = b2 - 0x80"
    have xy: "b0 = 0xE0 + x" "b1 = 0x80 + y" "b2 = 0x80 + z" "y < 0x40" "z < 0x40" "x < 0x10"
      using 3 r by (auto simp: x_def y_def z_def cont_def)
    have cx: "c = (x * 0x40 + y) * 0x40 + z" using c by (simp add: x_def y_def z_def)
    have "c div 0x40 = x * 0x40 + y" "c mod 0x40 = z" using base64_digits [OF xy(5), of "x * 0x40 + y"] by (simp_all only: cx)
    moreover have "c div 0x1000 = x" using cx xy by simp
    moreover have "c < 0x10000" using cx xy by simp
    ultimately show ?thesis
      using xy c(3,4) by (simp add: bs r c(2) utf8_octets_def scalar_def)
  next
    case 4
    then obtain b1 b2 b3 r' where r: "r = b1 # b2 # b3 # r'" "cont b1" "cont b2" "cont b3"
      and c: "c = (b0 - 0xF0) * 0x40000 + (b1 - 0x80) * 0x1000 + (b2 - 0x80) * 0x40 + (b3 - 0x80)"
        "n = 4" "0x10000 \<le> c" "c \<le> 0x10FFFF"
      using assms(1) bs by (auto simp: utf8_next_def Let_def split: if_splits list.splits)
    define x y z w where "x = b0 - 0xF0" and "y = b1 - 0x80" and "z = b2 - 0x80" and "w = b3 - 0x80"
    have xy: "b0 = 0xF0 + x" "b1 = 0x80 + y" "b2 = 0x80 + z" "b3 = 0x80 + w"
        "y < 0x40" "z < 0x40" "w < 0x40"
      using 4 r by (auto simp: x_def y_def z_def w_def cont_def)
    have cx: "c = ((x * 0x40 + y) * 0x40 + z) * 0x40 + w"
      using c by (simp add: x_def y_def z_def w_def)
    have "c div 0x40 = (x * 0x40 + y) * 0x40 + z" "c mod 0x40 = w"
      using base64_digits [OF xy(7), of "(x * 0x40 + y) * 0x40 + z"] by (simp_all only: cx)
    moreover have "c div 0x1000 = x * 0x40 + y" "c div 0x40000 = x" using cx xy by simp_all
    moreover have "((x * 0x40 + y) * 0x40 + z) mod 0x40 = z"
      using base64_digits [OF xy(6), of "x * 0x40 + y"] by (rule conjunct2)
    ultimately show ?thesis
      using xy c(3,4) base64_digits [of y x]
      by (simp only: bs r c(2) utf8_octets_def scalar_def surrogate_def) simp
  qed
qed

lemma utf8_decode_octets_sound:
  "utf8_decode_octets bs = Some s \<Longrightarrow> \<forall>b \<in> set bs. b < 256 \<Longrightarrow>
     scalars s \<and> bs = concat (map utf8_octets s)"
proof (induction bs arbitrary: s rule: utf8_decode_octets.induct)
  case (1 bs)
  show ?case
  proof (cases "bs = []")
    case True
    with "1.prems" show ?thesis by (simp add: utf8_decode_octets.simps)
  next
    case False
    with "1.prems"(1) obtain c n t where cn: "utf8_next bs = Some (c, n)" "n \<noteq> 0"
      and t: "utf8_decode_octets (drop n bs) = Some t" and s: "s = c # t"
      by (subst (asm) utf8_decode_octets.simps) (auto split: option.splits if_splits)
    have c: "scalar c" "take n bs = utf8_octets c"
      using utf8_next_sound [OF cn(1) "1.prems"(2)] by simp_all
    have "scalars t \<and> drop n bs = concat (map utf8_octets t)"
      using "1.IH" [OF False cn(1) refl cn(2) t] "1.prems"(2) by (meson in_set_dropD)
    with c s show ?thesis by (metis append_take_drop_id concat.simps(2) list.simps(9) list.pred_inject(2))
  qed
qed

lemma utf8_decode_sound:
  assumes "utf8_decode b = Inr s"
  shows "scalars s \<and> utf8_bytes s = b"
proof -
  have *: "utf8_decode_octets (map unat b) = Some s"
    using assms by (auto simp: utf8_decode_def split: option.splits)
  have bound: "\<forall>x \<in> set (map unat b). x < 256"
    using unsigned_less [where 'b = 8] by auto
  from utf8_decode_octets_sound [OF * bound]
  have s: "scalars s" and eq: "map unat b = concat (map utf8_octets s)" by simp_all
  have "map unat (utf8_bytes s) = concat (map utf8_octets s)"
    using s by (induction s) (auto simp: unat_utf8_char scalar_def)
  with eq have "map unat (utf8_bytes s) = map unat b" by simp
  then have "utf8_bytes s = b"
    by (rule map_injective) (auto simp: inj_def intro: unsigned_word_eqI)
  with s show ?thesis by simp
qed

lemma utf8_decode_iff: "utf8_decode b = Inr s \<longleftrightarrow> scalars s \<and> utf8_encode s = Inr b"
  using utf8_decode_sound utf8_decode_bytes by auto

end
