(* ===== verification/Canonical_Laws.thy ===== *)
theory Canonical_Laws
  imports Canonical
begin

text \<open>
  The laws of the canonical profile: what \<open>normalize\<close> returns satisfies the limits of the profile
  (\<open>canonical_value\<close>), \<open>serialize\<close> never fails on such values, the scanner reads back the text it
  prints, and so the bytes determine the value up to the order of the object members.
\<close>

section \<open>The values of the profile\<close>

definition canonical_str :: "(pystr \<Rightarrow> pystr) \<Rightarrow> pystr \<Rightarrow> bool" where
  "canonical_str nfc s \<longleftrightarrow> scalars s \<and> nfc s = s \<and> length (utf8_bytes s) \<le> MAX_STRING_UTF8"

fun canonical_value :: "(pystr \<Rightarrow> pystr) \<Rightarrow> nat \<Rightarrow> pyval \<Rightarrow> bool" where
  "canonical_value nfc k (PList xs) =
     (k \<le> MAX_DEPTH \<and> length xs \<le> MAX_ARRAY_ITEMS \<and> (\<forall>x \<in> set xs. canonical_value nfc (k + 1) x))"
| "canonical_value nfc k (PDict d) =
     (k \<le> MAX_DEPTH \<and> length d \<le> MAX_OBJECT_MEMBERS \<and> distinct (map fst d) \<and>
      (\<forall>kv \<in> set d. canonical_str nfc (fst kv) \<and> canonical_value nfc (k + 1) (snd kv)))"
| "canonical_value nfc k PNone = (k \<le> MAX_DEPTH)"
| "canonical_value nfc k (PBool b) = (k \<le> MAX_DEPTH)"
| "canonical_value nfc k (PInt i) = (k \<le> MAX_DEPTH \<and> SAFE_INTEGER_MIN \<le> i \<and> i \<le> SAFE_INTEGER_MAX)"
| "canonical_value nfc k (PStr s) = (k \<le> MAX_DEPTH \<and> canonical_str nfc s)"
| "canonical_value nfc k _ = False"

text \<open>The documented law of the normalisation form: it is idempotent.\<close>

definition nfc_idempotent :: "(pystr \<Rightarrow> pystr) \<Rightarrow> bool" where
  "nfc_idempotent nfc \<longleftrightarrow> (\<forall>s. nfc (nfc s) = nfc s)"

lemma nfc_str_canonical: "nfc_idempotent nfc \<Longrightarrow> nfc_str nfc s = Inr t \<Longrightarrow> canonical_str nfc t"
  by (auto simp: nfc_str_def Let_def bindE_eq_Inr utf8_encode_eq_Inr canonical_str_def
      nfc_idempotent_def split: if_splits)

lemma nfc_str_id: "canonical_str nfc s \<Longrightarrow> nfc_str nfc s = Inr s"
  by (simp add: nfc_str_def canonical_str_def scalars_no_surrogate)

text \<open>\<open>normalize\<close> by the kind of value.\<close>

lemma normalize_kinds:
  "normalize nfc k PNone = Inr w \<longleftrightarrow> k \<le> MAX_DEPTH \<and> w = PNone"
  "normalize nfc k (PBool b) = Inr w \<longleftrightarrow> k \<le> MAX_DEPTH \<and> w = PBool b"
  "normalize nfc k (PInt i) = Inr w \<longleftrightarrow>
     k \<le> MAX_DEPTH \<and> SAFE_INTEGER_MIN \<le> i \<and> i \<le> SAFE_INTEGER_MAX \<and> w = PInt i"
  "normalize nfc k (PStr s) = Inr w \<longleftrightarrow> k \<le> MAX_DEPTH \<and> (\<exists>t. nfc_str nfc s = Inr t \<and> w = PStr t)"
  "normalize nfc k (PPairs ps) = Inr w \<longleftrightarrow> k \<le> MAX_DEPTH \<and> length ps \<le> MAX_OBJECT_MEMBERS \<and>
     (\<exists>d. normalize_members nfc (k + 1) [] [] ps = Inr d \<and> w = PDict d)"
  "normalize nfc k (PList xs) = Inr w \<longleftrightarrow> k \<le> MAX_DEPTH \<and> length xs \<le> MAX_ARRAY_ITEMS \<and>
     (\<exists>ys. normalize_items nfc (k + 1) xs = Inr ys \<and> w = PList ys)"
  "normalize nfc k (PFloat f) \<noteq> Inr w"
  "normalize nfc k (PDict d) \<noteq> Inr w"
  by (auto simp: normalize.simps bindE_eq_Inr)

lemma normalize_members_keys:
  "normalize_members nfc depth raw seen ps = Inr d \<Longrightarrow>
     distinct (map fst d) \<and> set (map fst d) \<inter> set seen = {} \<and> length d = length ps"
proof (induction ps arbitrary: raw seen d)
  case (Cons p ps)
  obtain raw_key child where p: "p = (raw_key, child)" by (cases p)
  from Cons.prems obtain key v d' where "key \<notin> set seen" and d: "d = (key, v) # d'"
    and rec: "normalize_members nfc depth (raw_key # raw) (key # seen) ps = Inr d'"
    by (auto simp: p bindE_eq_Inr split: if_splits)
  with Cons.IH [OF rec] show ?case by auto
qed simp

lemma normalize_canonical:
  assumes "nfc_idempotent nfc"
  shows "normalize nfc k v = Inr w \<Longrightarrow> canonical_value nfc k w"
    and "normalize_members nfc k raw seen ps = Inr d \<Longrightarrow>
      (\<forall>kv \<in> set d. canonical_str nfc (fst kv) \<and> canonical_value nfc k (snd kv))"
    and "normalize_items nfc k xs = Inr ys \<Longrightarrow>
      length ys = length xs \<and> (\<forall>y \<in> set ys. canonical_value nfc k y)"
  using assms
proof (induction nfc k v and nfc k raw seen ps and nfc k xs
    arbitrary: w and d and ys rule: normalize_normalize_members_normalize_items.induct)
  case (1 nfc depth v)
  show ?case
  proof (cases v)
    case (PStr s)
    with "1.prems" show ?thesis by (auto simp: normalize_kinds dest: nfc_str_canonical)
  next
    case (PPairs ps)
    with "1.prems" obtain d where d: "normalize_members nfc (depth + 1) [] [] ps = Inr d" "w = PDict d"
      "depth \<le> MAX_DEPTH" "length ps \<le> MAX_OBJECT_MEMBERS"
      by (auto simp: normalize_kinds)
    with "1.IH"(2) [of ps d] PPairs "1.prems"(2) normalize_members_keys [OF d(1)] show ?thesis
      by auto
  next
    case (PList xs)
    with "1.prems" obtain ys where d: "normalize_items nfc (depth + 1) xs = Inr ys" "w = PList ys"
      "depth \<le> MAX_DEPTH" "length xs \<le> MAX_ARRAY_ITEMS"
      by (auto simp: normalize_kinds)
    with "1.IH"(1) [of xs ys] PList "1.prems"(2) show ?thesis by auto
  qed (use "1.prems" in \<open>auto simp: normalize_kinds\<close>)
next
  case (3 nfc depth raw seen raw_key child ps)
  from "3.prems" obtain key v d' where key: "raw_key \<notin> set raw" "nfc_str nfc raw_key = Inr key"
    "key \<notin> set seen" and v: "normalize nfc depth child = Inr v"
    and rec: "normalize_members nfc depth (raw_key # raw) (key # seen) ps = Inr d'"
    and d: "d = (key, v) # d'"
    by (auto simp: bindE_eq_Inr split: if_splits)
  have "canonical_value nfc depth v" by (rule "3.IH"(1) [OF key v "3.prems"(2)])
  moreover have "\<forall>kv \<in> set d'. canonical_str nfc (fst kv) \<and> canonical_value nfc depth (snd kv)"
    by (rule "3.IH"(2) [OF key v rec "3.prems"(2)])
  moreover have "canonical_str nfc key" by (rule nfc_str_canonical [OF "3.prems"(2) key(2)])
  ultimately show ?case using d by simp
next
  case (5 nfc depth x xs)
  from "5.prems" obtain y ys' where y: "normalize nfc depth x = Inr y"
    and rec: "normalize_items nfc depth xs = Inr ys'" and ys: "ys = y # ys'"
    by (auto simp: bindE_eq_Inr)
  with "5.IH"(1) [OF y "5.prems"(2)] "5.IH"(2) [OF y rec "5.prems"(2)] show ?case by simp
qed auto

section \<open>The text of a canonical value\<close>

text \<open>What \<open>serialize\<close> prints, without the failing branches.\<close>

function text_of :: "pyval \<Rightarrow> pystr" where
  "text_of v = (case v of
     PNone \<Rightarrow> lit ''null''
   | PBool b \<Rightarrow> (if b then lit ''true'' else lit ''false'')
   | PInt i \<Rightarrow> show_int i
   | PStr s \<Rightarrow> quoted s
   | PList xs \<Rightarrow> [91] @ join_with [44] (map text_of xs) @ [93]
   | PDict d \<Rightarrow> [123] @ join_with [44]
       (map (\<lambda>kv. quoted (fst kv) @ [58] @ text_of (snd kv)) (sort_key fst d)) @ [125]
   | _ \<Rightarrow> [])"
  by pat_completeness auto
termination
proof (relation "measure size", goal_cases)
  case (2 v xs x)
  then have "size x \<le> size_list size xs" by (meson order_refl size_list_estimation')
  with 2 show ?case by simp
next
  case (3 v d kv)
  have "size (snd kv) \<le> size_prod (\<lambda>_. 0) size kv"
    by (cases kv) simp
  moreover have "kv \<in> set d" using 3 by simp
  ultimately have "size (snd kv) \<le> size_list (size_prod (\<lambda>_. 0) size) d"
    by (meson size_list_estimation')
  with 3 show ?case by (simp add: less_Suc_eq_le)
qed simp

declare text_of.simps [simp del]

lemma text_of_simps [simp]:
  "text_of PNone = lit ''null''"
  "text_of (PBool b) = (if b then lit ''true'' else lit ''false'')"
  "text_of (PInt i) = show_int i"
  "text_of (PStr s) = quoted s"
  "text_of (PList xs) = [91] @ join_with [44] (map text_of xs) @ [93]"
  "text_of (PDict d) = [123] @ join_with [44]
     (map (\<lambda>kv. quoted (fst kv) @ [58] @ text_of (snd kv)) (sort_key fst d)) @ [125]"
  by (simp_all add: text_of.simps)

lemma serialize_canonical: "canonical_value nfc k v \<Longrightarrow> serialize nfc v = Inr (text_of v)"
proof (induction nfc k v rule: canonical_value.induct)
  case (1 nfc k xs)
  then have "mapE (serialize nfc) xs = Inr (map text_of xs)"
    by (intro mapE_Inr_map) auto
  then show ?case by (simp add: serialize.simps)
next
  case (2 nfc k d)
  have "mapE (\<lambda>kv. bindE (escape_string nfc (fst kv)) (\<lambda>k.
      bindE (serialize nfc (snd kv)) (\<lambda>v. Inr (k @ [58] @ v)))) (sort_key fst d)
    = Inr (map (\<lambda>kv. quoted (fst kv) @ [58] @ text_of (snd kv)) (sort_key fst d))"
    using 2 by (intro mapE_Inr_map) (auto simp: escape_string_def nfc_str_id)
  then show ?case by (simp add: serialize.simps)
qed (auto simp: serialize.simps escape_string_def nfc_str_id)

section \<open>The scanner reads strings back\<close>

lemma hex_val_digit: "n < 16 \<Longrightarrow> hex_val (hex_digit n) = Some n"
  by (auto simp: hex_val_def hex_digit_def)

lemma hex4_hex04:
  assumes "c < 0x10000"
  shows "hex4 (hex04 c @ r) = Some (c, r)"
proof -
  have "c div 4096 mod 16 = c div 4096"
    using assms by (simp add: div_less_iff_less_mult)
  moreover have "c div 16 = c div 256 * 16 + c div 16 mod 16" "c div 256 = c div 4096 * 16 + c div 256 mod 16"
    using div_mult_mod_eq [of "c div 16" 16] div_mult_mod_eq [of "c div 256" 16]
    by (simp_all add: div_mult2_eq [symmetric])
  moreover have "c = c div 16 * 16 + c mod 16" by simp
  ultimately have "c = ((c div 4096 mod 16 * 16 + c div 256 mod 16) * 16 + c div 16 mod 16) * 16 + c mod 16"
    by argo
  moreover define p q s t where "p = c div 4096 mod 16" and "q = c div 256 mod 16"
    and "s = c div 16 mod 16" and "t = c mod 16"
  ultimately have c: "c = ((p * 16 + q) * 16 + s) * 16 + t" by simp
  have "p < 16" "q < 16" "s < 16" "t < 16" by (simp_all add: p_def q_def s_def t_def)
  moreover have "hex04 c = map hex_digit [p, q, s, t]"
    by (simp only: hex04_def p_def q_def s_def t_def)
  ultimately show ?thesis by (simp add: hex_val_digit c)
qed

lemma unicode_escape_hex04:
  assumes "c < 0x20"
  shows "unicode_escape (hex04 c @ r) = Inr (c, r)"
  using assms hex4_hex04 [of c r]
  by (auto simp: unicode_escape_def high_surrogate_def split: list.splits)

lemma scan_string_escape_char:
  "scan_string (escape_char c @ r) = bindE (scan_string r) (\<lambda>(t, q). Inr (c # t, q))"
proof (cases "c \<in> {34, 92, 8, 12, 10, 13, 9}")
  case True
  then show ?thesis by (auto simp: escape_char_def simple_escape_def)
next
  case False
  then show ?thesis
    by (cases "c < 0x20") (auto simp: escape_char_def unicode_escape_hex04)
qed

lemma scan_string_quoted: "scan_string (concat (map escape_char s) @ 34 # r) = Inr (s, r)"
  by (induction s) (simp_all add: scan_string_escape_char)

lemma quoted_Cons: "quoted s @ r = 34 # concat (map escape_char s) @ 34 # r"
  by (simp add: quoted_def)

section \<open>The scanner reads values back\<close>

text \<open>The value the scanner builds: object members in the order of the sorted keys.\<close>

function scanned :: "pyval \<Rightarrow> pyval" where
  "scanned v = (case v of
     PList xs \<Rightarrow> PList (map scanned xs)
   | PDict d \<Rightarrow> PPairs (map (\<lambda>kv. (fst kv, scanned (snd kv))) (sort_key fst d))
   | _ \<Rightarrow> v)"
  by pat_completeness auto
termination
proof (relation "measure size", goal_cases)
  case (2 v xs x)
  then have "size x \<le> size_list size xs" by (meson order_refl size_list_estimation')
  with 2 show ?case by simp
next
  case (3 v d kv)
  have "size (snd kv) \<le> size_prod (\<lambda>_. 0) size kv"
    by (cases kv) simp
  moreover have "kv \<in> set d" using 3 by simp
  ultimately have "size (snd kv) \<le> size_list (size_prod (\<lambda>_. 0) size) d"
    by (meson size_list_estimation')
  with 3 show ?case by (simp add: less_Suc_eq_le)
qed simp

declare scanned.simps [simp del]

lemma scanned_simps [simp]:
  "scanned (PList xs) = PList (map scanned xs)"
  "scanned (PDict d) = PPairs (map (\<lambda>kv. (fst kv, scanned (snd kv))) (sort_key fst d))"
  "scanned PNone = PNone" "scanned (PBool b) = PBool b" "scanned (PInt i) = PInt i"
  "scanned (PStr s) = PStr s"
  by (simp_all add: scanned.simps)

lemma digits_hd: "\<exists>c ds. digits n = c # ds \<and> is_digit c"
  by (cases "digits n") (use digits_all [of _ n] in auto)

lemma text_of_starts: "canonical_value nfc k v \<Longrightarrow> \<exists>c t. text_of v = c # t \<and> \<not> is_ws c \<and> c \<noteq> 93"
proof (cases v)
  case (PInt i)
  then show ?thesis
    using digits_hd [of "nat i"] by (auto simp: show_int_def is_ws_def is_digit_def)
qed (auto simp: lit_def is_ws_def quoted_def)

text \<open>Members are printed as \<open>"key":value\<close>; items and members are separated by commas.\<close>

lemma skip_ws_text: "canonical_value nfc k v \<Longrightarrow> skip_ws (text_of v @ r) = text_of v @ r"
  using text_of_starts [of nfc k v] by auto

lemma ends_number_sep [simp]: "ends_number (44 # r)" "ends_number (93 # r)" "ends_number (125 # r)"
  "ends_number []"
  by (simp_all add: ends_number_def is_digit_def)

lemma scan_elements_text:
  assumes "xs \<noteq> []" and "\<And>x. x \<in> set xs \<Longrightarrow> canonical_value nfc k x"
    and "\<And>x r. x \<in> set xs \<Longrightarrow> ends_number r \<Longrightarrow> scan_value h n (text_of x @ r) = Inr (scanned x, r)"
  shows "scan_elements (scan_value h n) (join_with [44] (map text_of xs) @ 93 # r) =
    Inr (map scanned xs, r)"
  using assms
proof (induction xs)
  case (Cons x xs)
  show ?case
  proof (cases xs)
    case Nil
    with Cons.prems(3) [of x "93 # r"] show ?thesis
      by (subst scan_elements_step) (simp add: is_ws_def)
  next
    case (Cons y ys)
    let ?rest = "join_with [44] (map text_of xs) @ 93 # r"
    have x: "scan_value h n (text_of x @ 44 # ?rest) = Inr (scanned x, 44 # ?rest)"
      using Cons.prems(3) [of x "44 # ?rest"] by simp
    have "\<exists>q. ?rest = text_of y @ q" using Cons by (cases ys) auto
    then have ws: "skip_ws ?rest = ?rest"
      using skip_ws_text [of nfc k y] Cons.prems(2) [of y] Cons by auto
    have IH: "scan_elements (scan_value h n) ?rest = Inr (map scanned xs, r)"
      using Cons.IH Cons.prems Cons by auto
    show ?thesis
      using Cons x IH ws by (subst scan_elements_step) (simp add: is_ws_def)
  qed
qed simp

lemma scan_members_text:
  assumes "d \<noteq> []" and "\<And>kv. kv \<in> set d \<Longrightarrow> canonical_value nfc k (snd kv)"
    and "\<And>kv r. kv \<in> set d \<Longrightarrow> ends_number r \<Longrightarrow>
      scan_value h n (text_of (snd kv) @ r) = Inr (scanned (snd kv), r)"
  shows "scan_members (scan_value h n)
      (join_with [44] (map (\<lambda>kv. quoted (fst kv) @ [58] @ text_of (snd kv)) d) @ 125 # r) =
    Inr (map (\<lambda>kv. (fst kv, scanned (snd kv))) d, r)"
  using assms
proof (induction d)
  case (Cons kv d)
  let ?body = "\<lambda>q. concat (map escape_char (fst kv)) @ 34 # 58 # text_of (snd kv) @ q"
  have first: "scan_string (?body q) = Inr (fst kv, 58 # text_of (snd kv) @ q)" for q
    by (rule scan_string_quoted)
  have val: "scan_value h n (skip_ws (text_of (snd kv) @ q)) = Inr (scanned (snd kv), q)"
    if "ends_number q" for q
    using that Cons.prems(3) [of kv q] skip_ws_text [of nfc k "snd kv" q] Cons.prems(2) [of kv] by simp
  show ?case
  proof (cases d)
    case Nil
    with scan_members_step [OF first val, of "125 # r"] show ?thesis
      by (simp add: quoted_def is_ws_def)
  next
    case (Cons kv' d')
    let ?rest = "join_with [44] (map (\<lambda>kv. quoted (fst kv) @ [58] @ text_of (snd kv)) d) @ 125 # r"
    have "\<exists>q. ?rest = 34 # q" using Cons by (cases d') (auto simp: quoted_def)
    then have ws: "skip_ws ?rest = ?rest" by (auto simp: is_ws_def)
    have IH: "scan_members (scan_value h n) ?rest = Inr (map (\<lambda>kv. (fst kv, scanned (snd kv))) d, r)"
      using Cons.IH Cons.prems Cons by auto
    show ?thesis
      using scan_members_step [OF first val, of "44 # ?rest"] ws IH Cons
      by (simp add: quoted_def is_ws_def)
  qed
qed simp

lemma scan_once_int:
  assumes "SAFE_INTEGER_MIN \<le> i" and "i \<le> SAFE_INTEGER_MAX" and "ends_number r"
  shows "scan_once h inner (show_int i @ r) = Inr (PInt i, r)"
proof -
  define n where "n = nat \<bar>i\<bar>"
  have "n < 10 ^ 16"
    using assms by (simp add: n_def SAFE_INTEGER_MIN_def SAFE_INTEGER_MAX_def)
  then have "length (digits n) \<le> 16" by (rule length_digits) simp
  then have len: "length (digits n) \<le> int_max_str_digits" by (simp add: int_max_str_digits_def)
  obtain c ds where ds: "digits n = c # ds" "is_digit c" using digits_hd by blast
  show ?thesis
  proof (cases "i < 0")
    case True
    then have eqs: "show_int i = 45 # digits n" "i = - int n" by (simp_all add: show_int_def n_def)
    have "after_word ''-Infinity'' (45 # digits n @ r) = None"
      using ds by (auto simp: after_word_def lit_def is_digit_def)
    then have "scan_once h inner (45 # digits n @ r) = Inr (PInt (- int n), r)"
      using scan_number_digits [OF assms(3) len, of h True] by (simp add: scan_once_def)
    then show ?thesis unfolding eqs(1) using eqs(2) by simp
  next
    case False
    then have eqs: "show_int i = digits n" "i = int n" by (simp_all add: show_int_def n_def)
    have "scan_once h inner (digits n @ r) = Inr (PInt (int n), r)"
      using scan_number_digits [OF assms(3) len, of h False] ds
      by (simp add: scan_once_def is_digit_def)
    then show ?thesis unfolding eqs(1) using eqs(2) by simp
  qed
qed

lemma scan_value_int:
  assumes "SAFE_INTEGER_MIN \<le> i" and "i \<le> SAFE_INTEGER_MAX" and "ends_number r"
  shows "scan_value h n (show_int i @ r) = Inr (PInt i, r)"
  using scan_once_int [OF assms] by (cases n) simp_all

lemma scan_value_text:
  assumes "on_object h = (\<lambda>ps. Inr (PPairs ps))"
  shows "canonical_value nfc k v \<Longrightarrow> MAX_DEPTH < n + k \<Longrightarrow> ends_number r \<Longrightarrow>
    scan_value h n (text_of v @ r) = Inr (scanned v, r)"
proof (induction nfc k v arbitrary: n r rule: canonical_value.induct)
  case (1 nfc k xs)
  then obtain m where n: "n = Suc m" by (cases n) auto
  have items: "scan_value h m (text_of x @ q) = Inr (scanned x, q)" if "x \<in> set xs" "ends_number q" for x q
    using 1 n that by auto
  show ?case
  proof (cases "xs = []")
    case True
    then show ?thesis by (simp add: n scan_once_def scan_array_def is_ws_def)
  next
    case False
    let ?t = "join_with [44] (map text_of xs) @ 93 # r"
    have "\<exists>x q. x \<in> set xs \<and> ?t = text_of x @ q"
      using False by (cases xs; cases "tl xs") auto
    then obtain c q where t: "?t = c # q" "\<not> is_ws c" "c \<noteq> 93"
      using text_of_starts [of nfc "k + 1"] 1 by fastforce
    have "scan_elements (scan_value h m) ?t = Inr (map scanned xs, r)"
      using scan_elements_text [of xs nfc "k + 1"] False 1 items by auto
    with t show ?thesis
      by (simp add: n scan_once_def scan_array_def)
  qed
next
  case (2 nfc k d)
  then obtain m where n: "n = Suc m" by (cases n) auto
  let ?d = "sort_key fst d"
  show ?case
  proof (cases "d = []")
    case True
    then show ?thesis by (simp add: n scan_once_def scan_object_def is_ws_def assms)
  next
    case False
    let ?t = "join_with [44] (map (\<lambda>kv. quoted (fst kv) @ [58] @ text_of (snd kv)) ?d) @ 125 # r"
    have ne: "?d \<noteq> []" using False by (metis set_empty set_sort)
    then have t: "\<exists>q. ?t = 34 # q" by (cases ?d; cases "tl ?d") (auto simp: quoted_def)
    have "scan_members (scan_value h m) ?t = Inr (map (\<lambda>kv. (fst kv, scanned (snd kv))) ?d, r)"
      using scan_members_text [OF ne, of nfc "k + 1" h m r] 2 n by auto
    with t show ?thesis
      by (auto simp: n scan_once_def scan_object_def is_ws_def assms)
  qed
next
  case (4 nfc k b)
  then show ?case
    by (cases b; cases n)
      (simp_all add: scan_once_def scan_keyword_def after_word_def lit_def)
next
  case (3 nfc k)
  then show ?case
    by (cases n) (simp_all add: scan_once_def scan_keyword_def after_word_def lit_def)
next
  case (5 nfc k i)
  then show ?case by (simp add: scan_value_int)
next
  case (6 nfc k s)
  then show ?case
    by (cases n) (simp_all add: scan_once_def quoted_def scan_string_quoted)
qed simp_all

section \<open>Values up to the order of members\<close>

function ordered :: "pyval \<Rightarrow> pyval" where
  "ordered v = (case v of
     PList xs \<Rightarrow> PList (map ordered xs)
   | PDict d \<Rightarrow> PDict (map (\<lambda>kv. (fst kv, ordered (snd kv))) (sort_key fst d))
   | _ \<Rightarrow> v)"
  by pat_completeness auto
termination
proof (relation "measure size", goal_cases)
  case (2 v xs x)
  then have "size x \<le> size_list size xs" by (meson order_refl size_list_estimation')
  with 2 show ?case by simp
next
  case (3 v d kv)
  have "size (snd kv) \<le> size_prod (\<lambda>_. 0) size kv"
    by (cases kv) simp
  moreover have "kv \<in> set d" using 3 by simp
  ultimately have "size (snd kv) \<le> size_list (size_prod (\<lambda>_. 0) size) d"
    by (meson size_list_estimation')
  with 3 show ?case by (simp add: less_Suc_eq_le)
qed simp

declare ordered.simps [simp del]

lemma ordered_simps [simp]:
  "ordered (PList xs) = PList (map ordered xs)"
  "ordered (PDict d) = PDict (map (\<lambda>kv. (fst kv, ordered (snd kv))) (sort_key fst d))"
  "ordered PNone = PNone" "ordered (PBool b) = PBool b" "ordered (PInt i) = PInt i"
  "ordered (PStr s) = PStr s"
  by (simp_all add: ordered.simps)

lemma insort_key_map:
  "(\<And>x. fst (f x) = fst x) \<Longrightarrow> insort_key fst (f x) (map f xs) = map f (insort_key fst x xs)"
  by (induction xs) auto

lemma sort_key_map_fst: "(\<And>x. fst (f x) = fst x) \<Longrightarrow> sort_key fst (map f xs) = map f (sort_key fst xs)"
  by (induction xs) (simp_all add: insort_key_map)

lemma map_fst_pair [simp]: "map fst (map (\<lambda>kv. (fst kv, f (snd kv))) d) = map fst d"
  by simp

lemma sort_key_sorted [simp]: "sort_key fst (sort_key fst d) = sort_key fst (d :: (pystr \<times> 'a) list)"
  by (rule sort_key_id_if_sorted) simp

lemma canonical_value_ordered: "canonical_value nfc k v \<Longrightarrow> canonical_value nfc k (ordered v)"
proof (induction nfc k v rule: canonical_value.induct)
  case (2 nfc k d)
  have "distinct (map fst (sort_key fst d))"
    using 2 by (simp add: distinct_map inj_on_def)
  with 2 show ?case by (auto simp: o_def)
qed auto

lemma ordered_ordered [simp]: "canonical_value nfc k v \<Longrightarrow> ordered (ordered v) = ordered v"
  by (induction nfc k v rule: canonical_value.induct) (auto simp: sort_key_map_fst)

lemma text_of_ordered: "canonical_value nfc k v \<Longrightarrow> text_of (ordered v) = text_of v"
proof (induction nfc k v rule: canonical_value.induct)
  case (1 nfc k xs)
  then show ?case by (simp add: o_def cong: map_cong)
next
  case (2 nfc k d)
  then have "map (\<lambda>kv. quoted (fst kv) @ 58 # text_of (ordered (snd kv))) (sort_key fst d) =
      map (\<lambda>kv. quoted (fst kv) @ 58 # text_of (snd kv)) (sort_key fst d)"
    by (intro map_cong) auto
  from arg_cong [OF this, of "join_with [44]"] show ?case
    by (simp add: sort_key_map_fst o_def del: map_eq_conv)
qed simp_all

lemma canonical_str_nodup:
  "normalize_members nfc k raw seen (map (\<lambda>kv. (fst kv, f (snd kv))) d) =
     bindE (mapE (\<lambda>kv. bindE (normalize nfc k (f (snd kv))) (\<lambda>v. Inr (fst kv, v))) d) Inr"
  if "\<forall>kv \<in> set d. canonical_str nfc (fst kv)" "distinct (map fst d)"
    "set (map fst d) \<inter> set raw = {}" "set (map fst d) \<inter> set seen = {}"
  using that
proof (induction d arbitrary: raw seen)
  case (Cons kv d)
  then have "nfc_str nfc (fst kv) = Inr (fst kv)" by (simp add: nfc_str_id)
  with Cons show ?case by (cases "normalize nfc k (f (snd kv))") (auto simp: bindE_assoc)
qed simp

lemma normalize_scanned:
  "canonical_value nfc k v \<Longrightarrow> normalize nfc k (scanned v) = Inr (ordered v)"
proof (induction nfc k v rule: canonical_value.induct)
  case (1 nfc k xs)
  have "normalize_items nfc (k + 1) (map scanned xs) = Inr (map ordered xs)"
    using 1 by (induction xs) auto
  with 1 show ?case by (simp add: normalize_kinds)
next
  case (2 nfc k d)
  let ?d = "sort_key fst d"
  have "distinct (map fst ?d)" using 2 by (simp add: distinct_map inj_on_def)
  then have "normalize_members nfc (k + 1) [] [] (map (\<lambda>kv. (fst kv, scanned (snd kv))) ?d) =
      bindE (mapE (\<lambda>kv. bindE (normalize nfc (k + 1) (scanned (snd kv))) (\<lambda>v. Inr (fst kv, v))) ?d) Inr"
    using 2 by (intro canonical_str_nodup) auto
  also have "mapE (\<lambda>kv. bindE (normalize nfc (k + 1) (scanned (snd kv))) (\<lambda>v. Inr (fst kv, v))) ?d =
      Inr (map (\<lambda>kv. (fst kv, ordered (snd kv))) ?d)"
    using 2 by (intro mapE_Inr_map) auto
  finally show ?case using 2 by (simp add: normalize_kinds)
qed (simp_all add: normalize_kinds nfc_str_id)

section \<open>Printing, then parsing\<close>

lemma scalar_ascii: "c < 128 \<Longrightarrow> scalar c"
  by (simp add: scalar_def surrogate_def)

lemma scalars_escape_char: "scalar c \<Longrightarrow> scalars (escape_char c)"
  by (auto simp: escape_char_def hex04_def hex_digit_def intro!: scalar_ascii)

lemma scalars_quoted: "scalars s \<Longrightarrow> scalars (quoted s)"
  by (induction s) (auto simp: quoted_def scalar_ascii intro: scalars_escape_char)

lemma scalars_digits: "scalars (digits n)"
  using digits_all [of _ n] by (force simp: list_all_iff is_digit_def intro: scalar_ascii)

lemma scalars_join: "(\<forall>t \<in> set ts. scalars t) \<Longrightarrow> scalars sep \<Longrightarrow> scalars (join_with sep ts)"
  by (induction sep ts rule: join_with.induct) auto

lemma scalars_lit_ascii: "(\<forall>c \<in> set s. of_char c < (128 :: nat)) \<Longrightarrow> scalars (lit s)"
  by (auto simp: lit_def list_all_iff intro: scalar_ascii)

lemma scalars_text_of: "canonical_value nfc k v \<Longrightarrow> scalars (text_of v)"
proof (induction nfc k v rule: canonical_value.induct)
  case (1 nfc k xs)
  then show ?case by (auto simp: scalar_ascii intro!: scalars_join)
next
  case (2 nfc k d)
  have "scalars (quoted (fst kv) @ [58] @ text_of (snd kv))" if "kv \<in> set d" for kv
    using that 2 by (simp add: canonical_str_def scalars_quoted scalar_ascii)
  then have "\<forall>t \<in> set (map (\<lambda>kv. quoted (fst kv) @ [58] @ text_of (snd kv)) (sort_key fst d)). scalars t"
    by simp
  then have "scalars (join_with [44] (map (\<lambda>kv. quoted (fst kv) @ [58] @ text_of (snd kv)) (sort_key fst d)))"
    by (rule scalars_join) (simp add: scalar_ascii)
  then show ?case by (simp add: scalar_ascii)
next
  case (5 nfc k i)
  then show ?case by (simp add: show_int_def scalars_digits scalar_ascii)
next
  case (6 nfc k s)
  then show ?case by (simp add: canonical_str_def scalars_quoted)
qed (auto intro!: scalars_lit_ascii)

lemma text_of_ascii_start: "canonical_value nfc k v \<Longrightarrow> \<exists>c t. text_of v = c # t \<and> c < 128"
proof (cases v)
  case (PInt i)
  then show ?thesis using digits_hd [of "nat i"] by (auto simp: show_int_def is_digit_def)
qed (auto simp: lit_def quoted_def)

lemma utf8_starts_ascii: "c < 128 \<Longrightarrow> \<not> starts_with (utf8_bytes (c # t)) [0xEF, 0xBB, 0xBF]"
proof -
  assume c: "c < 128"
  have "utf8_bytes (c # t) = word_of_nat c # utf8_bytes t"
    using c by (simp add: utf8_char_def utf8_octets_def)
  moreover have "(word_of_nat c :: 8 word) \<noteq> 0xEF"
    using c unat_of_nat [where 'a = 8, of c] by (auto dest: arg_cong [where f = unat])
  ultimately show ?thesis by simp
qed

lemma parse_text_of:
  assumes "canonical_value nfc 1 v" and "MAX_DEPTH \<le> budget"
    and "length (utf8_bytes (text_of v)) \<le> MAX_INPUT_BYTES"
  shows "parse nfc budget (text_of v) = Inr (ordered v)"
proof -
  obtain c t where ct: "text_of v = c # t" "c < 128" using text_of_ascii_start [OF assms(1)] by blast
  have "scan_value canonical_hooks budget (text_of v @ []) = Inr (scanned v, [])"
    by (rule scan_value_text [OF _ assms(1)]) (use assms(2) in \<open>simp_all add: canonical_hooks_def\<close>)
  moreover have "skip_ws (text_of v) = text_of v" using skip_ws_text [OF assms(1), of "[]"] by simp
  moreover have "\<not> starts_with (text_of v) [0xFEFF]" using ct by simp
  ultimately have "json_loads canonical_hooks budget (text_of v) = Inr (scanned v)"
    by (simp add: json_loads_def)
  moreover have "\<not> starts_with (utf8_bytes (text_of v)) [0xEF, 0xBB, 0xBF]"
    unfolding ct(1) by (rule utf8_starts_ascii [OF ct(2)])
  ultimately show ?thesis
    using assms(3) normalize_scanned [OF assms(1)] scalars_text_of [OF assms(1)]
    by (simp add: parse_def)
qed

lemma parse_canonical: "nfc_idempotent nfc \<Longrightarrow> parse nfc budget raw = Inr v \<Longrightarrow> canonical_value nfc 1 v"
  by (auto simp: parse_def bindE_eq_Inr split: if_splits sum.splits intro: normalize_canonical(1))

lemma canonicalize_eq:
  assumes "nfc_idempotent nfc" and "parse nfc budget raw = Inr v"
  shows "canonicalize nfc budget raw = Inr (utf8_bytes (text_of v))"
  using parse_canonical [OF assms] assms(2)
  by (simp add: canonicalize_def serialize_canonical scalars_text_of)

lemma canonicalize_Inr:
  assumes "nfc_idempotent nfc" and "canonicalize nfc budget raw = Inr b"
  obtains v where "parse nfc budget raw = Inr v" "canonical_value nfc 1 v" "b = utf8_bytes (text_of v)"
proof -
  obtain v where v: "parse nfc budget raw = Inr v"
    using assms(2) by (auto simp: canonicalize_def bindE_eq_Inr)
  with that [OF v parse_canonical [OF assms(1) v]] canonicalize_eq [OF assms(1) v] assms(2)
  show ?thesis by simp
qed

text \<open>The text determines the value, however long it is.\<close>

lemma text_of_inject:
  assumes "canonical_value nfc k v" and "canonical_value nfc k w" and "text_of v = text_of w"
  shows "ordered v = ordered w"
proof -
  have "scan_value canonical_hooks (MAX_DEPTH + 1) (text_of u @ []) = Inr (scanned u, [])"
    if "canonical_value nfc k u" for u
    by (rule scan_value_text [OF _ that]) (simp_all add: canonical_hooks_def)
  from this [OF assms(1)] this [OF assms(2)] have "scanned v = scanned w"
    using assms(3) by simp
  then show ?thesis
    using normalize_scanned [OF assms(1)] normalize_scanned [OF assms(2)] by simp
qed

lemma text_of_cong:
  "canonical_value nfc k v \<Longrightarrow> canonical_value nfc k w \<Longrightarrow> ordered v = ordered w \<Longrightarrow> text_of v = text_of w"
  by (metis text_of_ordered)

lemma text_of_eq_iff:
  "canonical_value nfc k v \<Longrightarrow> canonical_value nfc k w \<Longrightarrow>
     utf8_bytes (text_of v) = utf8_bytes (text_of w) \<longleftrightarrow> ordered v = ordered w"
  by (metis scalars_text_of text_of_cong text_of_inject utf8_bytes_inject)

text \<open>Members are found in either order.\<close>

lemma lookup_map_snd: "lookup (map (\<lambda>kv. (fst kv, f (snd kv))) d) k = map_option f (lookup d k)"
  by (induction d) auto

lemma distinct_sort_keys: "distinct (map fst d) \<Longrightarrow> distinct (map fst (sort_key fst d))"
proof -
  assume "distinct (map fst d)"
  then have "card (set (map fst (sort_key fst d))) = length (map fst (sort_key fst d))"
    using distinct_card [of "map fst d"] by simp
  then show ?thesis by (rule card_distinct)
qed

lemma lookup_sort_key:
  assumes "distinct (map fst d)"
  shows "lookup (sort_key fst d) k = lookup d k"
proof (rule option.expand)
  show "(lookup (sort_key fst d) k = None) = (lookup d k = None)"
    by (simp add: lookup_None_iff)
next
  assume "lookup (sort_key fst d) k \<noteq> None" "lookup d k \<noteq> None"
  then obtain v w where v: "lookup (sort_key fst d) k = Some v" and w: "lookup d k = Some w" by auto
  then have "(k, v) \<in> set d" "(k, w) \<in> set d" using lookup_Some_in_set by fastforce+
  with assms v w show "the (lookup (sort_key fst d) k) = the (lookup d k)"
    by (metis lookup_Some_iff option.inject)
qed

lemma ordered_dicts_agree:
  assumes "ordered (PDict d) = ordered (PDict d')" and "distinct (map fst d)" and "distinct (map fst d')"
  shows "map_option ordered (lookup d k) = map_option ordered (lookup d' k)"
  using assms lookup_map_snd [of ordered "sort_key fst d" k] lookup_map_snd [of ordered "sort_key fst d'" k]
  by (simp add: lookup_sort_key)

end
