(* ===== verification/Regex.thy ===== *)
theory Regex
  imports Fed_Prelude
begin

text \<open>
  The regular expressions of the Python code, as \<open>re.fullmatch\<close> and \<open>re.search\<close> decide them:
  character classes, concatenation, alternation, \<open>*\<close>, \<open>{m,n}\<close>. The matcher takes derivatives, so it
  evaluates; \<open>rx_match_iff\<close> says that it decides membership in the language of the expression.
\<close>

text \<open>A class is a list of ranges of code points.\<close>

datatype rx =
    Nope
  | Eps
  | Cls "(nat \<times> nat) list"
  | Seq rx rx
  | Alt rx rx
  | Star rx
  | Rep rx nat nat

definition in_cls :: "nat \<Rightarrow> (nat \<times> nat) list \<Rightarrow> bool" where
  "in_cls c rs \<longleftrightarrow> list_ex (\<lambda>(lo, hi). lo \<le> c \<and> c \<le> hi) rs"

fun nullable :: "rx \<Rightarrow> bool" where
  "nullable Nope = False"
| "nullable Eps = True"
| "nullable (Cls rs) = False"
| "nullable (Seq r s) = (nullable r \<and> nullable s)"
| "nullable (Alt r s) = (nullable r \<or> nullable s)"
| "nullable (Star r) = True"
| "nullable (Rep r m n) = (m \<le> n \<and> (m = 0 \<or> nullable r))"

text \<open>Concatenation and alternation that drop the parts that cannot match.\<close>

fun mk_seq :: "rx \<Rightarrow> rx \<Rightarrow> rx" where
  "mk_seq Nope s = Nope"
| "mk_seq Eps s = s"
| "mk_seq r s = (if s = Nope then Nope else Seq r s)"

fun mk_alt :: "rx \<Rightarrow> rx \<Rightarrow> rx" where
  "mk_alt Nope s = s"
| "mk_alt r s = (if s = Nope then r else if r = s then r else Alt r s)"

fun deriv :: "nat \<Rightarrow> rx \<Rightarrow> rx" where
  "deriv c Nope = Nope"
| "deriv c Eps = Nope"
| "deriv c (Cls rs) = (if in_cls c rs then Eps else Nope)"
| "deriv c (Seq r s) =
     (if nullable r then mk_alt (mk_seq (deriv c r) s) (deriv c s) else mk_seq (deriv c r) s)"
| "deriv c (Alt r s) = mk_alt (deriv c r) (deriv c s)"
| "deriv c (Star r) = mk_seq (deriv c r) (Star r)"
| "deriv c (Rep r m n) =
     (if n = 0 \<or> n < m then Nope else mk_seq (deriv c r) (Rep r (m - 1) (n - 1)))"

fun rx_match :: "rx \<Rightarrow> pystr \<Rightarrow> bool" where
  "rx_match r [] = nullable r"
| "rx_match r (c # s) = rx_match (deriv c r) s"

definition any_char :: rx where
  "any_char = Cls [(0, 0x10FFFF)]"

text \<open>\<open>re.search\<close>: a match anywhere in the text.\<close>

definition rx_search :: "rx \<Rightarrow> pystr \<Rightarrow> bool" where
  "rx_search r s = rx_match (Seq (Star any_char) (Seq r (Star any_char))) s"

section \<open>Writing expressions\<close>

definition rng :: "char \<Rightarrow> char \<Rightarrow> nat \<times> nat" where
  "rng a b = (of_char a, of_char b)"

definition chars :: "string \<Rightarrow> (nat \<times> nat) list" where
  "chars s = map (\<lambda>c. (of_char c, of_char c)) s"

text \<open>A literal text, a range given by its end points, a repetition of one class.\<close>

fun rlit :: "string \<Rightarrow> rx" where
  "rlit [] = Eps"
| "rlit (c # s) = Seq (Cls [(of_char c, of_char c)]) (rlit s)"

section \<open>The language of an expression\<close>

fun rx_lang :: "rx \<Rightarrow> pystr set" where
  "rx_lang Nope = {}"
| "rx_lang Eps = {[]}"
| "rx_lang (Cls rs) = {[c] | c. in_cls c rs}"
| "rx_lang (Seq r s) = {u @ v | u v. u \<in> rx_lang r \<and> v \<in> rx_lang s}"
| "rx_lang (Alt r s) = rx_lang r \<union> rx_lang s"
| "rx_lang (Star r) = {concat ws | ws. set ws \<subseteq> rx_lang r}"
| "rx_lang (Rep r m n) = {concat ws | ws. set ws \<subseteq> rx_lang r \<and> m \<le> length ws \<and> length ws \<le> n}"

lemma mk_seq_lang [simp]: "rx_lang (mk_seq r s) = rx_lang (Seq r s)"
  by (cases "(r, s)" rule: mk_seq.cases) auto

lemma mk_alt_lang [simp]: "rx_lang (mk_alt r s) = rx_lang (Alt r s)"
proof (cases "r = Nope")
  case False
  then have "mk_alt r s = (if s = Nope then r else if r = s then r else Alt r s)"
    by (cases r) simp_all
  then show ?thesis by (cases "s = Nope"; cases "r = s") simp_all
qed simp

lemma concat_nil_words: "concat ws = [] \<Longrightarrow> set ws \<subseteq> {[]}"
  by auto

lemma nullable_iff: "nullable r \<longleftrightarrow> [] \<in> rx_lang r"
proof (induction r)
  case (Rep r m n)
  show ?case
  proof
    assume n: "nullable (Rep r m n)"
    show "[] \<in> rx_lang (Rep r m n)"
    proof (cases "m = 0")
      case True
      then show ?thesis by (auto intro!: exI [of _ "[]"])
    next
      case False
      with n Rep have "[] \<in> rx_lang r" and "m \<le> n" by auto
      then show ?thesis
        by (auto intro!: exI [of _ "replicate m []"] simp: set_replicate_conv_if split: if_splits)
    qed
  next
    assume "[] \<in> rx_lang (Rep r m n)"
    then obtain ws where ws: "concat ws = []" "set ws \<subseteq> rx_lang r" "m \<le> length ws" "length ws \<le> n"
      by auto
    show "nullable (Rep r m n)"
    proof (cases ws)
      case (Cons w ws')
      with ws have "w = []" and "w \<in> rx_lang r" by auto
      with Rep ws show ?thesis by auto
    qed (use ws in auto)
  qed
qed (auto intro: exI [of _ "[]"])

text \<open>A word that starts with \<open>c\<close> and splits into words: the first nonempty one starts with \<open>c\<close>.\<close>

lemma concat_Cons_split:
  "concat ws = c # s \<Longrightarrow>
     \<exists>k w ws'. ws = replicate k [] @ (c # w) # ws' \<and> s = w @ concat ws'"
proof (induction ws)
  case (Cons v ws)
  show ?case
  proof (cases v)
    case Nil
    with Cons obtain k w ws' where "ws = replicate k [] @ (c # w) # ws'" "s = w @ concat ws'"
      by auto
    with Nil have "v # ws = replicate (Suc k) [] @ (c # w) # ws'" by simp
    with \<open>s = w @ concat ws'\<close> show ?thesis by blast
  next
    case (Cons x w)
    with Cons.prems have "v # ws = replicate 0 [] @ (c # w) # ws \<and> s = w @ concat ws" by simp
    then show ?thesis by blast
  qed
qed simp

lemma deriv_lang: "s \<in> rx_lang (deriv c r) \<longleftrightarrow> c # s \<in> rx_lang r"
proof (induction r arbitrary: s)
  case (Seq r1 r2)
  have "c # s \<in> rx_lang (Seq r1 r2) \<longleftrightarrow>
      (\<exists>u v. s = u @ v \<and> c # u \<in> rx_lang r1 \<and> v \<in> rx_lang r2) \<or>
      ([] \<in> rx_lang r1 \<and> c # s \<in> rx_lang r2)"
    by (auto simp: Cons_eq_append_conv)
  with Seq show ?case by (auto simp: nullable_iff)
next
  case (Star r)
  show ?case
  proof
    assume "s \<in> rx_lang (deriv c (Star r))"
    then obtain u ws where "s = u @ concat ws" "u \<in> rx_lang (deriv c r)" "set ws \<subseteq> rx_lang r"
      by auto
    with Star have "c # s = concat ((c # u) # ws)" "set ((c # u) # ws) \<subseteq> rx_lang r" by auto
    then show "c # s \<in> rx_lang (Star r)" by (simp only: rx_lang.simps) blast
  next
    assume "c # s \<in> rx_lang (Star r)"
    then obtain ws where ws: "concat ws = c # s" "set ws \<subseteq> rx_lang r" by auto
    from concat_Cons_split [OF ws(1)] obtain k w ws'
      where "ws = replicate k [] @ (c # w) # ws'" "s = w @ concat ws'" by blast
    with ws(2) Star show "s \<in> rx_lang (deriv c (Star r))" by auto
  qed
next
  case (Rep r m n)
  show ?case
  proof
    assume a: "s \<in> rx_lang (deriv c (Rep r m n))"
    then have n: "n \<noteq> 0" "m \<le> n" by (auto split: if_splits)
    with a obtain u ws where "s = u @ concat ws" "u \<in> rx_lang (deriv c r)" "set ws \<subseteq> rx_lang r"
      "m - 1 \<le> length ws" "length ws \<le> n - 1"
      by auto
    with Rep n have "c # s = concat ((c # u) # ws)" "set ((c # u) # ws) \<subseteq> rx_lang r"
      "m \<le> length ((c # u) # ws)" "length ((c # u) # ws) \<le> n" by auto
    then show "c # s \<in> rx_lang (Rep r m n)" by (simp only: rx_lang.simps) blast
  next
    assume "c # s \<in> rx_lang (Rep r m n)"
    then obtain ws where ws: "concat ws = c # s" "set ws \<subseteq> rx_lang r" "m \<le> length ws" "length ws \<le> n"
      by auto
    from concat_Cons_split [OF ws(1)] obtain k w ws'
      where split: "ws = replicate k [] @ (c # w) # ws'" "s = w @ concat ws'" by blast
    define vs where "vs = replicate k [] @ ws'"
    have sw: "s = w @ concat vs" and vs: "set vs \<subseteq> rx_lang r" "length vs = length ws - 1"
      using split ws(2) by (auto simp: vs_def set_replicate_conv_if split: if_splits)
    have w: "w \<in> rx_lang (deriv c r)" using Rep split ws(2) by auto
    have n: "n \<noteq> 0" "\<not> n < m" using split ws by auto
    have "concat vs \<in> rx_lang (Rep r (m - 1) (n - 1))"
      using vs ws(3,4) by (auto intro!: exI [of _ vs])
    with sw w have "s \<in> rx_lang (mk_seq (deriv c r) (Rep r (m - 1) (n - 1)))"
      by (simp only: mk_seq_lang rx_lang.simps(4)) blast
    with n show "s \<in> rx_lang (deriv c (Rep r m n))" by (simp del: mk_seq_lang)
  qed
qed auto

theorem rx_match_iff: "rx_match r s \<longleftrightarrow> s \<in> rx_lang r"
  by (induction s arbitrary: r) (simp_all add: nullable_iff deriv_lang)

section \<open>What the shapes used in the code match\<close>

lemma rlit_lang [simp]: "rx_lang (rlit s) = {lit s}"
proof (induction s)
  case (Cons c s)
  have "{[x] | x. in_cls x [(of_char c, of_char c)]} = {[of_char c]}"
    by (auto simp: in_cls_def)
  with Cons show ?case by (simp add: lit_Cons)
qed simp

lemma words_of_class: "set ws \<subseteq> {[c] | c. P c} \<longleftrightarrow> (\<exists>s. ws = map (\<lambda>c. [c]) s \<and> (\<forall>c \<in> set s. P c))"
proof (induction ws)
  case (Cons w ws)
  show ?case
  proof
    assume "set (w # ws) \<subseteq> {[c] | c. P c}"
    then obtain c where "w = [c]" "P c" and "set ws \<subseteq> {[c] | c. P c}" by auto
    with Cons obtain s where "ws = map (\<lambda>c. [c]) s" "\<forall>c \<in> set s. P c" by auto
    with \<open>w = [c]\<close> \<open>P c\<close> have "w # ws = map (\<lambda>c. [c]) (c # s) \<and> (\<forall>c \<in> set (c # s). P c)" by simp
    then show "\<exists>s. w # ws = map (\<lambda>c. [c]) s \<and> (\<forall>c \<in> set s. P c)" by (rule exI)
  next
    assume "\<exists>s. w # ws = map (\<lambda>c. [c]) s \<and> (\<forall>c \<in> set s. P c)"
    then show "set (w # ws) \<subseteq> {[c] | c. P c}" by auto
  qed
qed simp

lemma concat_singletons [simp]: "concat (map (\<lambda>c. [c]) s) = s"
  by (induction s) simp_all

lemma Rep_Cls_lang:
  "s \<in> rx_lang (Rep (Cls rs) m n) \<longleftrightarrow> m \<le> length s \<and> length s \<le> n \<and> (\<forall>c \<in> set s. in_cls c rs)"
proof -
  have "s \<in> rx_lang (Rep (Cls rs) m n) \<longleftrightarrow>
      (\<exists>t. s = t \<and> (\<forall>c \<in> set t. in_cls c rs) \<and> m \<le> length t \<and> length t \<le> n)"
    unfolding rx_lang.simps words_of_class
    by (auto intro!: exI [of _ "map (\<lambda>c. [c]) s"])
  then show ?thesis by auto
qed

lemma Star_Cls_lang: "s \<in> rx_lang (Star (Cls rs)) \<longleftrightarrow> (\<forall>c \<in> set s. in_cls c rs)"
proof -
  have "s \<in> rx_lang (Star (Cls rs)) \<longleftrightarrow> (\<exists>t. s = t \<and> (\<forall>c \<in> set t. in_cls c rs))"
    unfolding rx_lang.simps words_of_class
    by (auto intro!: exI [of _ "map (\<lambda>c. [c]) s"])
  then show ?thesis by auto
qed

text \<open>A literal prefix followed by a run of one class, the shape of every reference format.\<close>

lemma match_lit_Rep:
  "rx_match (Seq (rlit p) (Rep (Cls rs) m n)) s \<longleftrightarrow>
     (\<exists>t. s = lit p @ t \<and> m \<le> length t \<and> length t \<le> n \<and> (\<forall>c \<in> set t. in_cls c rs))"
  by (simp add: rx_match_iff Rep_Cls_lang del: rx_lang.simps(7))

lemma match_Rep:
  "rx_match (Rep (Cls rs) m n) s \<longleftrightarrow> m \<le> length s \<and> length s \<le> n \<and> (\<forall>c \<in> set s. in_cls c rs)"
  by (simp only: rx_match_iff Rep_Cls_lang)

lemma search_iff:
  "(\<forall>c \<in> set s. c \<le> 0x10FFFF) \<Longrightarrow>
     rx_search r s \<longleftrightarrow> (\<exists>a w b. s = a @ w @ b \<and> w \<in> rx_lang r)"
  by (simp add: rx_search_def rx_match_iff any_char_def Star_Cls_lang in_cls_def
      del: rx_lang.simps(6)) fastforce

section \<open>Alphabet and length of what an expression matches\<close>

fun ascii_rx :: "rx \<Rightarrow> bool" where
  "ascii_rx (Cls rs) = list_all (\<lambda>(lo, hi). hi < 128) rs"
| "ascii_rx (Seq r s) = (ascii_rx r \<and> ascii_rx s)"
| "ascii_rx (Alt r s) = (ascii_rx r \<and> ascii_rx s)"
| "ascii_rx (Star r) = ascii_rx r"
| "ascii_rx (Rep r m n) = ascii_rx r"
| "ascii_rx _ = True"

lemma ascii_rx_lang: "ascii_rx r \<Longrightarrow> w \<in> rx_lang r \<Longrightarrow> c \<in> set w \<Longrightarrow> c < 128"
proof (induction r arbitrary: w)
  case (Cls rs)
  then show ?case by (fastforce simp: in_cls_def list_ex_iff list_all_iff)
next
  case (Star r)
  then show ?case by (fastforce simp: subset_iff)
next
  case (Rep r m n)
  then show ?case by (fastforce simp: subset_iff)
qed auto

fun rx_bound :: "rx \<Rightarrow> nat option" where
  "rx_bound Nope = Some 0"
| "rx_bound Eps = Some 0"
| "rx_bound (Cls rs) = Some 1"
| "rx_bound (Seq r s) = (case (rx_bound r, rx_bound s) of (Some a, Some b) \<Rightarrow> Some (a + b) | _ \<Rightarrow> None)"
| "rx_bound (Alt r s) = (case (rx_bound r, rx_bound s) of (Some a, Some b) \<Rightarrow> Some (max a b) | _ \<Rightarrow> None)"
| "rx_bound (Star r) = None"
| "rx_bound (Rep r m n) = (case rx_bound r of Some a \<Rightarrow> Some (n * a) | None \<Rightarrow> None)"

lemma length_concat_le: "\<forall>w \<in> set ws. length w \<le> a \<Longrightarrow> length (concat ws) \<le> length ws * a"
  by (induction ws) auto

lemma rx_bound_lang: "rx_bound r = Some n \<Longrightarrow> w \<in> rx_lang r \<Longrightarrow> length w \<le> n"
proof (induction r arbitrary: n w)
  case (Seq r s)
  then show ?case by (fastforce split: option.splits intro: add_mono)
next
  case (Alt r s)
  then show ?case by (fastforce split: option.splits)
next
  case (Rep r m k)
  from Rep.prems obtain a ws where a: "rx_bound r = Some a" "n = k * a"
    and w: "w = concat ws" "set ws \<subseteq> rx_lang r" "length ws \<le> k"
    by (auto split: option.splits)
  have "length (concat ws) \<le> length ws * a"
    by (rule length_concat_le) (use Rep.IH a w in auto)
  also have "\<dots> \<le> n" using a w by simp
  finally show ?case using w by simp
qed auto

lemma rx_match_ascii: "rx_match r s \<Longrightarrow> ascii_rx r \<Longrightarrow> \<forall>c \<in> set s. c < 128"
  using ascii_rx_lang by (auto simp: rx_match_iff)

lemma rx_match_bound: "rx_match r s \<Longrightarrow> rx_bound r = Some n \<Longrightarrow> length s \<le> n"
  using rx_bound_lang by (auto simp: rx_match_iff)

end
