(* ===== verification/Fed_Sdk.thy ===== *)
theory Fed_Sdk
  imports Canonical Regex
begin

text \<open>
  \<open>sdk/python/qsol_fed_sdk.py\<close>: the Python SDK. Its own normaliser and serialiser of the canonical
  profile, the validators and builders of node manifests, third-party profiles, provenance records
  and unsigned envelopes, and the conformance transcript. Definitions with the prefix \<open>sdk_\<close> are the
  SDK's own versions of functions that \<open>tools/qsol_canonical.py\<close> has too.
\<close>

section \<open>Formats\<close>

definition BOOTSTRAP_PROTOCOL :: string where "BOOTSTRAP_PROTOCOL = ''qsol-fed/0''"
definition WIRE_PROTOCOL :: string where "WIRE_PROTOCOL = ''qsol-fed/1''"
definition PROVENANCE_SCHEMA :: string where "PROVENANCE_SCHEMA = ''qsol-fed-provenance/1''"
definition THIRD_PARTY_PROFILE :: string where "THIRD_PARTY_PROFILE = ''third-party-node-profile/1''"

definition lower_digit :: "(nat \<times> nat) list" where
  "lower_digit = [rng CHR ''a'' CHR ''z'', rng CHR ''0'' CHR ''9'']"

definition digit_cls :: "(nat \<times> nat) list" where "digit_cls = [rng CHR ''0'' CHR ''9'']"
definition hex_cls :: "(nat \<times> nat) list" where
  "hex_cls = [rng CHR ''0'' CHR ''9'', rng CHR ''a'' CHR ''f'']"

definition NODE_ID :: rx where
  "NODE_ID = Seq (rlit ''fed:qsol:'') (Seq (Cls lower_digit)
     (Rep (Cls (lower_digit @ chars ''._-'')) 0 127))"

definition SHA256_REF :: rx where
  "SHA256_REF = Seq (rlit ''sha256:'') (Rep (Cls hex_cls) 64 64)"

definition digits_rx :: "nat \<Rightarrow> rx" where
  "digits_rx n = Rep (Cls digit_cls) n n"

definition TIMESTAMP :: rx where
  "TIMESTAMP = Seq (digits_rx 4) (Seq (rlit ''-'') (Seq (digits_rx 2) (Seq (rlit ''-'') (Seq (digits_rx 2)
     (Seq (rlit ''T'') (Seq (digits_rx 2) (Seq (rlit '':'') (Seq (digits_rx 2) (Seq (rlit '':'')
     (Seq (digits_rx 2) (rlit ''Z'')))))))))))"

definition CAPABILITY :: rx where
  "CAPABILITY = Seq (Cls [rng CHR ''a'' CHR ''z'']) (Seq (Star (Cls lower_digit))
     (Seq (Star (Seq (Cls (chars ''.-'')) (Seq (Cls lower_digit) (Star (Cls lower_digit)))))
     (Seq (rlit ''/'') (Seq (Cls [rng CHR ''1'' CHR ''9'']) (Star (Cls digit_cls))))))"

definition MESSAGE_CLASSES :: "string list" where
  "MESSAGE_CLASSES =
     [''hello'', ''capabilities'', ''evidence.offer'', ''evidence.request'', ''hypothesis'',
      ''challenge'', ''response'', ''council.report'', ''minority.report'',
      ''experiment.receipt'', ''citation'', ''publication'']"

section \<open>Normalisation, parsing, serialisation\<close>

definition sdk_hooks :: json_hooks where
  "sdk_hooks =
     \<lparr>on_float = (\<lambda>_. Inl (SdkError ''non_integer_number'')),
      on_constant = (\<lambda>_. Inl (SdkError ''non_finite_number'')),
      on_object = (\<lambda>pairs. Inr (PPairs pairs))\<rparr>"

definition sdk_nfc_str :: "(pystr \<Rightarrow> pystr) \<Rightarrow> pystr \<Rightarrow> pystr result" where
  "sdk_nfc_str nfc value =
     (if list_ex surrogate value then Inl (SdkError ''lone_surrogate'')
      else let normalized = nfc value in
        bindE (utf8_encode normalized) (\<lambda>b.
          if MAX_STRING_UTF8 < length b then Inl (SdkError ''string_too_large'')
          else Inr normalized))"

text \<open>
  Unlike the tool, the SDK also normalises plain dictionaries; there only a key that is already in
  the result is a duplicate.
\<close>

fun sdk_normalize :: "(pystr \<Rightarrow> pystr) \<Rightarrow> nat \<Rightarrow> pyval \<Rightarrow> pyval result"
  and sdk_normalize_pairs ::
    "(pystr \<Rightarrow> pystr) \<Rightarrow> nat \<Rightarrow> pystr list \<Rightarrow> pystr list \<Rightarrow> (pystr \<times> pyval) list \<Rightarrow> pydict result"
  and sdk_normalize_dict ::
    "(pystr \<Rightarrow> pystr) \<Rightarrow> nat \<Rightarrow> pystr list \<Rightarrow> (pystr \<times> pyval) list \<Rightarrow> pydict result"
  and sdk_normalize_items :: "(pystr \<Rightarrow> pystr) \<Rightarrow> nat \<Rightarrow> pyval list \<Rightarrow> pyval list result" where
  "sdk_normalize nfc depth value =
     (if MAX_DEPTH < depth then Inl (SdkError ''max_depth_exceeded'')
      else case value of
        PNone \<Rightarrow> Inr PNone
      | PBool b \<Rightarrow> Inr (PBool b)
      | PInt i \<Rightarrow>
          (if \<not> (SAFE_INTEGER_MIN \<le> i \<and> i \<le> SAFE_INTEGER_MAX)
           then Inl (SdkError ''integer_out_of_range'') else Inr (PInt i))
      | PStr s \<Rightarrow> bindE (sdk_nfc_str nfc s) (\<lambda>t. Inr (PStr t))
      | PPairs ps \<Rightarrow>
          (if MAX_OBJECT_MEMBERS < length ps then Inl (SdkError ''too_many_object_members'')
           else bindE (sdk_normalize_pairs nfc (depth + 1) [] [] ps) (\<lambda>d. Inr (PDict d)))
      | PList xs \<Rightarrow>
          (if MAX_ARRAY_ITEMS < length xs then Inl (SdkError ''too_many_array_items'')
           else bindE (sdk_normalize_items nfc (depth + 1) xs) (\<lambda>ys. Inr (PList ys)))
      | PDict ps \<Rightarrow>
          (if MAX_OBJECT_MEMBERS < length ps then Inl (SdkError ''too_many_object_members'')
           else bindE (sdk_normalize_dict nfc (depth + 1) [] ps) (\<lambda>d. Inr (PDict d)))
      | PFloat f \<Rightarrow> Inl (SdkError ''unsupported_value''))"
| "sdk_normalize_pairs nfc depth raw_seen nfc_seen [] = Inr []"
| "sdk_normalize_pairs nfc depth raw_seen nfc_seen ((raw_key, child) # ps) =
     (if raw_key \<in> set raw_seen then Inl (SdkError ''duplicate_key'')
      else bindE (sdk_nfc_str nfc raw_key) (\<lambda>key.
        if key \<in> set nfc_seen then Inl (SdkError ''normalized_duplicate_key'')
        else bindE (sdk_normalize nfc depth child) (\<lambda>v.
          bindE (sdk_normalize_pairs nfc depth (raw_key # raw_seen) (key # nfc_seen) ps)
            (\<lambda>d. Inr ((key, v) # d)))))"
| "sdk_normalize_dict nfc depth done_keys [] = Inr []"
| "sdk_normalize_dict nfc depth done_keys ((raw_key, child) # ps) =
     bindE (sdk_nfc_str nfc raw_key) (\<lambda>key.
       if key \<in> set done_keys then Inl (SdkError ''normalized_duplicate_key'')
       else bindE (sdk_normalize nfc depth child) (\<lambda>v.
         bindE (sdk_normalize_dict nfc depth (key # done_keys) ps) (\<lambda>d. Inr ((key, v) # d))))"
| "sdk_normalize_items nfc depth [] = Inr []"
| "sdk_normalize_items nfc depth (x # xs) =
     bindE (sdk_normalize nfc depth x) (\<lambda>y.
       bindE (sdk_normalize_items nfc depth xs) (\<lambda>ys. Inr (y # ys)))"

declare sdk_normalize.simps [simp del]

definition sdk_reraise :: "exn \<Rightarrow> exn" where
  "sdk_reraise e = (case e of
     JSONDecodeError \<Rightarrow> SdkError ''malformed_json''
   | UnicodeEncodeError \<Rightarrow> SdkError ''malformed_json''
   | UnicodeDecodeError \<Rightarrow> SdkError ''malformed_json''
   | _ \<Rightarrow> e)"

definition sdk_parse :: "(pystr \<Rightarrow> pystr) \<Rightarrow> nat \<Rightarrow> pystr \<Rightarrow> pyval result" where
  "sdk_parse nfc budget raw =
     bindE (utf8_encode raw) (\<lambda>encoded.
       if MAX_INPUT_BYTES < length encoded then Inl (SdkError ''input_too_large'')
       else if starts_with encoded [0xEF, 0xBB, 0xBF] then Inl (SdkError ''utf8_bom_forbidden'')
       else case json_loads sdk_hooks budget raw of
         Inl e \<Rightarrow> Inl (sdk_reraise e)
       | Inr parsed \<Rightarrow> sdk_normalize nfc 1 parsed)"

definition sdk_escape :: "(pystr \<Rightarrow> pystr) \<Rightarrow> pystr \<Rightarrow> pystr result" where
  "sdk_escape nfc value = bindE (sdk_nfc_str nfc value) (\<lambda>s. Inr (quoted s))"

text \<open>The number of values in a value; normalisation keeps it.\<close>

fun nodes :: "pyval \<Rightarrow> nat" where
  "nodes (PList xs) = Suc (sum_list (map nodes xs))"
| "nodes (PDict d) = Suc (sum_list (map (\<lambda>kv. nodes (snd kv)) d))"
| "nodes (PPairs d) = Suc (sum_list (map (\<lambda>kv. nodes (snd kv)) d))"
| "nodes _ = 1"

lemma nodes_normalize:
  "sdk_normalize nfc k v = Inr w \<Longrightarrow> nodes w = nodes v"
  "sdk_normalize_pairs nfc k raw seen ps = Inr d \<Longrightarrow>
     sum_list (map (\<lambda>kv. nodes (snd kv)) d) = sum_list (map (\<lambda>kv. nodes (snd kv)) ps)"
  "sdk_normalize_dict nfc k ks ps = Inr d \<Longrightarrow>
     sum_list (map (\<lambda>kv. nodes (snd kv)) d) = sum_list (map (\<lambda>kv. nodes (snd kv)) ps)"
  "sdk_normalize_items nfc k xs = Inr ys \<Longrightarrow> sum_list (map nodes ys) = sum_list (map nodes xs)"
proof (induction nfc k v and nfc k raw seen ps and nfc k ks ps and nfc k xs
    arbitrary: w and d and d and ys
    rule: sdk_normalize_sdk_normalize_pairs_sdk_normalize_dict_sdk_normalize_items.induct)
  case (1 nfc depth v)
  then show ?case
    by (auto simp: sdk_normalize.simps [of nfc depth v] bindE_eq_Inr split: pyval.splits if_splits)
qed (auto simp: bindE_eq_Inr split: if_splits)

text \<open>Every level of \<open>serialize\<close> normalises its value again, from depth 1.\<close>

function sdk_serialize :: "(pystr \<Rightarrow> pystr) \<Rightarrow> pyval \<Rightarrow> pystr result" where
  "sdk_serialize nfc value =
     bindE (sdk_normalize nfc 1 value) (\<lambda>v. case v of
       PNone \<Rightarrow> Inr (lit ''null'')
     | PBool b \<Rightarrow> Inr (if b then lit ''true'' else lit ''false'')
     | PInt i \<Rightarrow> Inr (show_int i)
     | PStr s \<Rightarrow> sdk_escape nfc s
     | PList xs \<Rightarrow>
         bindE (mapE (sdk_serialize nfc) xs) (\<lambda>ts. Inr ([91] @ join_with [44] ts @ [93]))
     | PDict d \<Rightarrow>
         bindE (mapE (\<lambda>kv. bindE (sdk_escape nfc (fst kv)) (\<lambda>k.
                       bindE (sdk_serialize nfc (snd kv)) (\<lambda>t. Inr (k @ [58] @ t))))
                  (sort_key fst d))
           (\<lambda>ts. Inr ([123] @ join_with [44] ts @ [125]))
     | _ \<Rightarrow> Inl (SdkError ''unsupported_value''))"
  by pat_completeness auto
termination
proof (relation "measure (\<lambda>(nfc, v). nodes v)", goal_cases)
  case 1
  show ?case by simp
next
  case (2 nfc v w xs x)
  then have "nodes x \<le> sum_list (map nodes xs)" by (intro member_le_sum_list) auto
  with 2 nodes_normalize(1) [of nfc 1 v w] show ?case by simp
next
  case (3 nfc v w d kv)
  then have "nodes (snd kv) \<le> sum_list (map (\<lambda>kv. nodes (snd kv)) d)"
    by (intro member_le_sum_list) auto
  with 3 nodes_normalize(1) [of nfc 1 v w] show ?case by simp
qed

declare sdk_serialize.simps [simp del]

text \<open>\<open>canonicalize\<close> takes bytes and text as JSON source, anything else as a value.\<close>

datatype canon_input = RawBytes bytes | RawText pystr | RawValue pyval

definition input_of :: "pyval \<Rightarrow> canon_input" where
  "input_of v = (case v of PStr s \<Rightarrow> RawText s | _ \<Rightarrow> RawValue v)"

definition sdk_input_value :: "(pystr \<Rightarrow> pystr) \<Rightarrow> nat \<Rightarrow> canon_input \<Rightarrow> pyval result" where
  "sdk_input_value nfc budget inp = (case inp of
     RawBytes b \<Rightarrow>
       (case utf8_decode b of
          Inl e \<Rightarrow> Inl (SdkError ''invalid_utf8'')
        | Inr raw \<Rightarrow> sdk_parse nfc budget raw)
   | RawText raw \<Rightarrow> sdk_parse nfc budget raw
   | RawValue v \<Rightarrow> sdk_normalize nfc 1 v)"

definition sdk_canonicalize :: "(pystr \<Rightarrow> pystr) \<Rightarrow> nat \<Rightarrow> canon_input \<Rightarrow> bytes result" where
  "sdk_canonicalize nfc budget inp =
     bindE (sdk_input_value nfc budget inp) (\<lambda>normalized.
       bindE (sdk_serialize nfc normalized) (\<lambda>t.
         bindE (utf8_encode t) (\<lambda>data.
           if MAX_INPUT_BYTES < length data then Inl (SdkError ''output_too_large'')
           else Inr data)))"

definition sdk_object_id ::
  "(bytes \<Rightarrow> bytes) \<Rightarrow> (pystr \<Rightarrow> pystr) \<Rightarrow> nat \<Rightarrow> canon_input \<Rightarrow> pystr result" where
  "sdk_object_id sha256 nfc budget inp =
     bindE (sdk_canonicalize nfc budget inp) (\<lambda>b. Inr (sha256_ref sha256 b))"

definition sdk_derive_message_id ::
  "(bytes \<Rightarrow> bytes) \<Rightarrow> (pystr \<Rightarrow> pystr) \<Rightarrow> nat \<Rightarrow> pydict \<Rightarrow> pystr result" where
  "sdk_derive_message_id sha256 nfc budget envelope =
     (if \<not> has_key envelope ''message_id'' \<or> \<not> has_key envelope ''signature''
      then Inl (SdkError ''envelope_projection_fields_missing'')
      else
        let projection = dpop (dpop envelope ''message_id'') ''signature'' in
        bindE (sdk_canonicalize nfc budget (RawValue (PDict projection))) (\<lambda>b.
          Inr (sha256_ref sha256 (MESSAGE_ID_DOMAIN @ b))))"

definition classify_protocol :: "pystr \<Rightarrow> string" where
  "classify_protocol protocol =
     (if protocol = lit WIRE_PROTOCOL then ''supported'' else ''unsupported_major'')"

end
