(* ===== verification/Sdk_Records.thy ===== *)
theory Sdk_Records
  imports Fed_Sdk
begin

text \<open>
  The records of \<open>sdk/python/qsol_fed_sdk.py\<close> (node manifest, third-party profile, provenance,
  unsigned envelope), each with its validator and builder, the conformance transcript
  (\<open>conformance_result\<close>) and the participant of \<open>examples/neutral_research_node.py\<close>. A record is an
  untyped dictionary, so every validator takes any Python value and each test it makes is in the
  order of the source, with the TypeError of hashing an unhashable list item.
\<close>

section \<open>Field formats\<close>

definition validate_capability_id :: "pyval \<Rightarrow> bool" where
  "validate_capability_id value \<longleftrightarrow> is_str value \<and> rx_match CAPABILITY (str_of value)"

definition is_node_id :: "pyval \<Rightarrow> bool" where
  "is_node_id value \<longleftrightarrow> is_str value \<and> rx_match NODE_ID (str_of value)"

definition is_sha256_ref :: "pyval \<Rightarrow> bool" where
  "is_sha256_ref value \<longleftrightarrow> is_str value \<and> rx_match SHA256_REF (str_of value)"

definition is_timestamp :: "pyval \<Rightarrow> bool" where
  "is_timestamp value \<longleftrightarrow> is_str value \<and> rx_match TIMESTAMP (str_of value)"

text \<open>\<open>list(x)\<close> and the subscription \<open>x[k]\<close> with a literal key.\<close>

definition py_list :: "pyval \<Rightarrow> pyval list result" where
  "py_list x = (case x of
     PList xs \<Rightarrow> Inr xs
   | PStr s \<Rightarrow> Inr (map (\<lambda>c. PStr [c]) s)
   | PDict d \<Rightarrow> Inr (map (\<lambda>kv. PStr (fst kv)) d)
   | _ \<Rightarrow> Inl TypeError)"

definition py_item :: "pyval \<Rightarrow> string \<Rightarrow> pyval result" where
  "py_item x k = (case x of PDict d \<Rightarrow> dindex d k | _ \<Rightarrow> Inl TypeError)"

section \<open>Node manifest\<close>

definition validate_node_manifest :: "pyval \<Rightarrow> unit result" where
  "validate_node_manifest manifest =
     (if \<not> is_dict manifest
         \<or> \<not> keys_are (dict_of manifest) [''protocol'', ''node_id'', ''capabilities'', ''authority_claim'']
      then Inl (SdkError ''sdk_node_manifest_invalid'')
      else
        let m = dict_of manifest; caps = dget m ''capabilities'' in
        failIf (SdkError ''sdk_node_manifest_invalid'')
          [Inr (\<not> py_eq (dget m ''protocol'') (PS BOOTSTRAP_PROTOCOL)),
           Inr (\<not> is_node_id (dget m ''node_id'')),
           Inr (\<not> py_eq (dget m ''authority_claim'') (PS ''none'')),
           Inr (\<not> is_list caps),
           Inr (64 < length (items_of caps)),
           has_duplicates (items_of caps),
           Inr (\<not> list_all validate_capability_id (items_of caps))])"

definition build_node_manifest :: "pyval \<Rightarrow> pyval \<Rightarrow> pydict result" where
  "build_node_manifest node_id capabilities =
     bindE (py_list capabilities) (\<lambda>caps.
       let manifest = pd [(''protocol'', PS BOOTSTRAP_PROTOCOL), (''node_id'', node_id),
                          (''capabilities'', PList caps), (''authority_claim'', PS ''none'')] in
       bindE (validate_node_manifest (PDict manifest)) (\<lambda>_. Inr manifest))"

section \<open>Third-party profile\<close>

definition validate_third_party_profile :: "pyval \<Rightarrow> unit result" where
  "validate_third_party_profile profile =
     (let p = dict_of profile in
      if \<not> is_dict profile
         \<or> \<not> keys_are p [''schema'', ''implementation'', ''governance_model'', ''qsol_governance_adopted'',
              ''nexus_required'', ''council_required'']
         \<or> \<not> py_eq (dget p ''schema'') (PS THIRD_PARTY_PROFILE)
         \<or> \<not> py_eq (dget p ''governance_model'') (PS ''local'')
      then Inl (SdkError ''third_party_profile_invalid'')
      else if \<not> is_str (dget p ''implementation'') \<or> str_of (dget p ''implementation'') = []
         \<or> 128 < length (str_of (dget p ''implementation''))
      then Inl (SdkError ''third_party_profile_invalid'')
      else if dget p ''qsol_governance_adopted'' \<noteq> PBool False
         \<or> dget p ''nexus_required'' \<noteq> PBool False \<or> dget p ''council_required'' \<noteq> PBool False
      then Inl (SdkError ''third_party_profile_invalid'')
      else Inr ())"

section \<open>Provenance\<close>

definition PROVENANCE_RELATIONS :: "string list" where
  "PROVENANCE_RELATIONS = [''observed'', ''derived'', ''quoted'', ''transported'']"

definition validate_provenance :: "pyval \<Rightarrow> unit result" where
  "validate_provenance value =
     (let v = dict_of value; parents = dget v ''parents'' in
      if \<not> is_dict value
         \<or> \<not> keys_are v [''schema'', ''source_node'', ''source_object'', ''relation'', ''parents'', ''created_at'']
         \<or> \<not> py_eq (dget v ''schema'') (PS PROVENANCE_SCHEMA) \<or> \<not> is_node_id (dget v ''source_node'')
      then Inl (SdkError ''sdk_provenance_invalid'')
      else if \<not> is_sha256_ref (dget v ''source_object'') \<or> \<not> is_str (dget v ''relation'')
         \<or> str_of (dget v ''relation'') \<notin> set (map lit PROVENANCE_RELATIONS)
      then Inl (SdkError ''sdk_provenance_invalid'')
      else bindE (failIf (SdkError ''sdk_provenance_invalid'')
          [Inr (\<not> is_list parents), Inr (64 < length (items_of parents)),
           has_duplicates (items_of parents), Inr (\<not> list_all is_sha256_ref (items_of parents))])
        (\<lambda>_. if \<not> is_timestamp (dget v ''created_at'')
              then Inl (SdkError ''sdk_provenance_invalid'') else Inr ()))"

definition build_provenance ::
  "pyval \<Rightarrow> pyval \<Rightarrow> pyval \<Rightarrow> pyval \<Rightarrow> pyval \<Rightarrow> pydict result" where
  "build_provenance source_node source_object relation parents created_at =
     bindE (py_list parents) (\<lambda>ps.
       let v = pd [(''schema'', PS PROVENANCE_SCHEMA), (''source_node'', source_node),
                   (''source_object'', source_object), (''relation'', relation),
                   (''parents'', PList ps), (''created_at'', created_at)] in
       bindE (validate_provenance (PDict v)) (\<lambda>_. Inr v))"

section \<open>Unsigned envelope\<close>

definition SPEC_KEYS :: "string list" where
  "SPEC_KEYS = [''sender'', ''recipient'', ''message_class'', ''payload_ref'', ''provenance_ref'',
     ''issued_at'', ''expires_at'']"

definition validate_envelope_spec :: "pyval \<Rightarrow> string \<Rightarrow> unit result" where
  "validate_envelope_spec spec err =
     (let s = dict_of spec in
      if \<not> is_dict spec \<or> \<not> keys_are s SPEC_KEYS
         \<or> \<not> is_node_id (dget s ''sender'') \<or> \<not> is_node_id (dget s ''recipient'')
      then Inl (SdkError err)
      else if \<not> is_str (dget s ''message_class'')
         \<or> str_of (dget s ''message_class'') \<notin> set (map lit MESSAGE_CLASSES)
         \<or> \<not> is_sha256_ref (dget s ''payload_ref'')
      then Inl (SdkError err)
      else if dget s ''provenance_ref'' \<noteq> PNone \<and> \<not> is_sha256_ref (dget s ''provenance_ref'')
      then Inl (SdkError err)
      else if \<not> is_timestamp (dget s ''issued_at'')
         \<or> (dget s ''expires_at'' \<noteq> PNone \<and> \<not> is_timestamp (dget s ''expires_at''))
      then Inl (SdkError err)
      else Inr ())"

definition zero_ref :: pyval where
  "zero_ref = PStr (lit ''sha256:'' @ replicate 64 48)"

definition ENVELOPE_KEYS :: "string list" where
  "ENVELOPE_KEYS = [''protocol'', ''message_id'', ''sender'', ''recipient'', ''message_class'',
     ''payload_ref'', ''provenance_ref'', ''issued_at'', ''expires_at'', ''authority_claim'', ''signature'']"

definition spec_of :: "pydict \<Rightarrow> pydict" where
  "spec_of envelope = pd (map (\<lambda>k. (k, dget envelope k)) SPEC_KEYS)"

definition validate_unsigned_envelope ::
  "(bytes \<Rightarrow> bytes) \<Rightarrow> (pystr \<Rightarrow> pystr) \<Rightarrow> nat \<Rightarrow> pyval \<Rightarrow> unit result" where
  "validate_unsigned_envelope sha256 nfc budget envelope =
     (let e = dict_of envelope in
      if \<not> is_dict envelope \<or> \<not> keys_are e ENVELOPE_KEYS
         \<or> \<not> py_eq (dget e ''protocol'') (PS WIRE_PROTOCOL)
         \<or> \<not> py_eq (dget e ''authority_claim'') (PS ''none'') \<or> dget e ''signature'' \<noteq> PNone
      then Inl (SdkError ''sdk_envelope_invalid'')
      else bindE (validate_envelope_spec (PDict (spec_of e)) ''sdk_envelope_invalid'') (\<lambda>_.
        failIf (SdkError ''sdk_envelope_invalid'')
          [Inr (\<not> is_sha256_ref (dget e ''message_id'')),
           bindE (sdk_derive_message_id sha256 nfc budget e)
             (\<lambda>i. Inr (\<not> py_eq (PStr i) (dget e ''message_id'')))]))"

definition draft_envelope :: "pydict \<Rightarrow> pydict" where
  "draft_envelope s =
     pd [(''protocol'', PS WIRE_PROTOCOL), (''message_id'', zero_ref),
         (''sender'', dget s ''sender''), (''recipient'', dget s ''recipient''),
         (''message_class'', dget s ''message_class''), (''payload_ref'', dget s ''payload_ref''),
         (''provenance_ref'', dget s ''provenance_ref''), (''issued_at'', dget s ''issued_at''),
         (''expires_at'', dget s ''expires_at''), (''authority_claim'', PS ''none''),
         (''signature'', PNone)]"

definition build_unsigned_envelope ::
  "(bytes \<Rightarrow> bytes) \<Rightarrow> (pystr \<Rightarrow> pystr) \<Rightarrow> nat \<Rightarrow> pyval \<Rightarrow> pydict result" where
  "build_unsigned_envelope sha256 nfc budget spec =
     bindE (validate_envelope_spec spec ''sdk_envelope_input_invalid'') (\<lambda>_.
       let draft = draft_envelope (dict_of spec) in
       bindE (sdk_derive_message_id sha256 nfc budget draft) (\<lambda>message_id.
         let envelope = dset draft (lit ''message_id'') (PStr message_id) in
         bindE (validate_unsigned_envelope sha256 nfc budget (PDict envelope)) (\<lambda>_.
           Inr envelope)))"

section \<open>The conformance transcript\<close>

text \<open>\<open>canonicalize(x).decode()\<close>.\<close>

definition canonical_text ::
  "(pystr \<Rightarrow> pystr) \<Rightarrow> nat \<Rightarrow> pyval \<Rightarrow> pyval result" where
  "canonical_text nfc budget v =
     bindE (sdk_canonicalize nfc budget (input_of v)) (\<lambda>b. bindE (utf8_decode b) (\<lambda>s. Inr (PStr s)))"

definition object_id_of ::
  "(bytes \<Rightarrow> bytes) \<Rightarrow> (pystr \<Rightarrow> pystr) \<Rightarrow> nat \<Rightarrow> pyval \<Rightarrow> pyval result" where
  "object_id_of sha256 nfc budget v =
     bindE (sdk_object_id sha256 nfc budget (input_of v)) (\<lambda>s. Inr (PStr s))"

text \<open>A dictionary display whose entries are evaluated in order.\<close>

definition eval_entries :: "(string \<times> pyval result) list \<Rightarrow> pydict result" where
  "eval_entries kvs = mapE (\<lambda>(k, m). bindE m (\<lambda>v. Inr (lit k, v))) kvs"

definition expect_equal :: "pydict \<Rightarrow> (pystr \<times> pyval) \<Rightarrow> unit result" where
  "expect_equal result = (\<lambda>(key, v).
     if \<not> py_eq (case lookup result key of None \<Rightarrow> PNone | Some w \<Rightarrow> w) v
     then Inl (SdkErrorFor ''phase6_expected_mismatch:'' key) else Inr ())"

text \<open>The loop over \<open>expected.items()\<close>.\<close>

definition check_expected :: "pydict \<Rightarrow> pyval \<Rightarrow> pydict result" where
  "check_expected result expected = (case expected of
     PDict d \<Rightarrow> bindE (eachE (expect_equal result) d) (\<lambda>_. Inr result)
   | _ \<Rightarrow> Inl AttributeError)"

definition conformance_result ::
  "(bytes \<Rightarrow> bytes) \<Rightarrow> (pystr \<Rightarrow> pystr) \<Rightarrow> nat \<Rightarrow> pydict \<Rightarrow> pydict result" where
  "conformance_result sha256 nfc budget fixture =
     (if \<not> py_eq (dget fixture ''schema'') (PS ''qsol-fed-sdk-conformance/1'')
         \<or> \<not> py_eq (dget fixture ''wire_protocol'') (PS WIRE_PROTOCOL)
      then Inl (SdkError ''phase6_fixture_contract_invalid'')
      else bindE (dindex fixture ''node_manifest'') (\<lambda>manifest.
        bindE (validate_node_manifest manifest) (\<lambda>_.
        bindE (dindex fixture ''third_party_profile'') (\<lambda>profile.
        bindE (validate_third_party_profile profile) (\<lambda>_.
        bindE (dindex fixture ''provenance'') (\<lambda>source.
        bindE (py_item source ''source_node'') (\<lambda>source_node.
        bindE (py_item source ''source_object'') (\<lambda>source_object.
        bindE (py_item source ''relation'') (\<lambda>relation.
        bindE (py_item source ''parents'') (\<lambda>parents.
        bindE (py_item source ''created_at'') (\<lambda>created_at.
        bindE (build_provenance source_node source_object relation parents created_at) (\<lambda>provenance.
        bindE (dindex fixture ''hello'') (\<lambda>hello_spec.
        bindE (build_unsigned_envelope sha256 nfc budget hello_spec) (\<lambda>hello.
        bindE (dindex fixture ''evidence_offer'') (\<lambda>evidence_spec.
        bindE (build_unsigned_envelope sha256 nfc budget evidence_spec) (\<lambda>evidence.
        bindE (eval_entries
          [(''schema'', Inr (PS ''qsol-fed-sdk-conformance-result/1'')),
           (''implementation'', Inr (PS ''language-neutral'')),
           (''node_manifest_canonical'', canonical_text nfc budget manifest),
           (''node_manifest_object_id'', object_id_of sha256 nfc budget manifest),
           (''profile_canonical'', canonical_text nfc budget profile),
           (''profile_object_id'', object_id_of sha256 nfc budget profile),
           (''payload_canonical'', bindE (dindex fixture ''payload'') (canonical_text nfc budget)),
           (''payload_object_id'', bindE (dindex fixture ''payload'') (object_id_of sha256 nfc budget)),
           (''provenance_canonical'', canonical_text nfc budget (PDict provenance)),
           (''provenance_object_id'', object_id_of sha256 nfc budget (PDict provenance)),
           (''hello_canonical'', canonical_text nfc budget (PDict hello)),
           (''hello_message_id'', dindex hello ''message_id''),
           (''evidence_canonical'', canonical_text nfc budget (PDict evidence)),
           (''evidence_message_id'', dindex evidence ''message_id''),
           (''qsol_governance_adopted'', py_item profile ''qsol_governance_adopted''),
           (''nexus_required'', py_item profile ''nexus_required''),
           (''council_required'', py_item profile ''council_required''),
           (''authority_effect'', Inr (PS ''none''))]) (\<lambda>result.
        bindE (dindex fixture ''expected'') (check_expected result))))))))))))))))))"

section \<open>The neutral research node\<close>

definition neutral_profile :: pydict where
  "neutral_profile =
     pd [(''schema'', PS ''third-party-node-profile/1''),
         (''implementation'', PS ''neutral-research-node''), (''governance_model'', PS ''local''),
         (''qsol_governance_adopted'', PBool False), (''nexus_required'', PBool False),
         (''council_required'', PBool False)]"

definition neutral_payload :: pydict where
  "neutral_payload =
     pd [(''schema'', PS ''third-party-payload/1''), (''kind'', PS ''research.notice''),
         (''note'', PS ''Neutral laboratory result available'')]"

definition neutral_spec :: "pyval \<Rightarrow> string \<Rightarrow> pyval \<Rightarrow> pyval \<Rightarrow> string \<Rightarrow> pyval" where
  "neutral_spec node message_class payload_ref provenance_ref issued_at =
     PDict (pd [(''sender'', node), (''recipient'', PS ''fed:qsol:reference-node''),
       (''message_class'', PS message_class), (''payload_ref'', payload_ref),
       (''provenance_ref'', provenance_ref), (''issued_at'', PS issued_at), (''expires_at'', PNone)])"

definition build_participation :: "(bytes \<Rightarrow> bytes) \<Rightarrow> (pystr \<Rightarrow> pystr) \<Rightarrow> nat \<Rightarrow> pydict result" where
  "build_participation sha256 nfc budget =
     bindE (validate_third_party_profile (PDict neutral_profile)) (\<lambda>_.
     bindE (build_node_manifest (PS ''fed:qsol:neutral-lab-01'')
              (PList [PS ''evidence.exchange/1'', PS ''federation.sdk/1''])) (\<lambda>manifest.
     bindE (object_id_of sha256 nfc budget (PDict neutral_payload)) (\<lambda>payload_ref.
     bindE (dindex manifest ''node_id'') (\<lambda>node.
     bindE (build_provenance node payload_ref (PS ''observed'') (PList []) (PS ''2026-08-23T00:00:00Z''))
       (\<lambda>provenance.
     bindE (object_id_of sha256 nfc budget (PDict manifest)) (\<lambda>manifest_id.
     bindE (build_unsigned_envelope sha256 nfc budget
              (neutral_spec node ''hello'' manifest_id PNone ''2026-08-23T00:00:00Z'')) (\<lambda>hello.
     bindE (object_id_of sha256 nfc budget (PDict provenance)) (\<lambda>provenance_id.
     bindE (build_unsigned_envelope sha256 nfc budget
              (neutral_spec node ''evidence.offer'' payload_ref provenance_id ''2026-08-23T00:00:01Z''))
       (\<lambda>evidence.
     eval_entries
       [(''schema'', Inr (PS ''third-party-federation-participation/1'')),
        (''participant'', Inr (PS ''neutral-research-node'')),
        (''wire_protocol'', Inr (PS ''qsol-fed/1'')),
        (''governance_model'', Inr (PS ''local'')),
        (''qsol_governance_adopted'', Inr (PBool False)),
        (''nexus_required'', Inr (PBool False)),
        (''council_required'', Inr (PBool False)),
        (''oracle_required'', Inr (PBool False)),
        (''ark_required'', Inr (PBool False)),
        (''holodeck_required'', Inr (PBool False)),
        (''authority_effect'', Inr (PS ''none'')),
        (''node_manifest_object_id'', object_id_of sha256 nfc budget (PDict manifest)),
        (''payload_object_id'', Inr payload_ref),
        (''provenance_object_id'', object_id_of sha256 nfc budget (PDict provenance)),
        (''hello_message_id'', dindex hello ''message_id''),
        (''evidence_message_id'', dindex evidence ''message_id''),
        (''hello_canonical'', canonical_text nfc budget (PDict hello)),
        (''evidence_canonical'', canonical_text nfc budget (PDict evidence))])))))))))"

end
