(* ===== verification/Sdk_Laws.thy ===== *)
theory Sdk_Laws
  imports Canonical_Laws Sdk_Records
begin

text \<open>
  The laws of the SDK's canonical profile. Its normaliser accepts plain dictionaries too, its
  serialiser normalises every child again, and it bounds the output; on JSON text it agrees with
  \<open>tools/qsol_canonical.py\<close> (\<open>sdk_parse_eq\<close>, \<open>sdk_serialize_canonical\<close>) up to the class of the
  exceptions.
\<close>

section \<open>The scanner under hooks that differ in their exceptions\<close>

definition map_err :: "('e \<Rightarrow> 'f) \<Rightarrow> 'e + 'a \<Rightarrow> 'f + 'a" where
  "map_err f m = (case m of Inl e \<Rightarrow> Inl (f e) | Inr x \<Rightarrow> Inr x)"

lemma map_err_simps [simp]: "map_err f (Inl e) = Inl (f e)" "map_err f (Inr x) = Inr x"
  by (simp_all add: map_err_def)

lemma map_err_eq_Inr [simp]: "map_err f m = Inr x \<longleftrightarrow> m = Inr x"
  by (cases m) simp_all

lemma map_err_bindE: "map_err f (bindE m g) = bindE (map_err f m) (\<lambda>x. map_err f (g x))"
  by (cases m) simp_all

lemma map_err_id: "(\<And>e. m = Inl e \<Longrightarrow> f e = e) \<Longrightarrow> map_err f m = m"
  by (cases m) simp_all

lemma map_err_if: "map_err f (if c then a else b) = (if c then map_err f a else map_err f b)"
  by simp

text \<open>The class of the SDK's exception for an exception of the tool.\<close>

definition as_sdk :: "exn \<Rightarrow> exn" where
  "as_sdk e = (case e of
     CanonicalError c \<Rightarrow> SdkError c
   | CanonicalErrorFor c t \<Rightarrow> SdkError ''unsupported_value''
   | _ \<Rightarrow> e)"

lemma as_sdk_simps [simp]:
  "as_sdk (CanonicalError c) = SdkError c"
  "as_sdk (CanonicalErrorFor c t) = SdkError ''unsupported_value''" "as_sdk JSONDecodeError = JSONDecodeError"
  "as_sdk ValueError = ValueError" "as_sdk RecursionError = RecursionError"
  "as_sdk UnicodeEncodeError = UnicodeEncodeError"
  by (simp_all add: as_sdk_def)

lemma unicode_escape_error: "unicode_escape s = Inl e \<Longrightarrow> e = JSONDecodeError"
  by (auto simp: unicode_escape_def split: option.splits list.splits if_splits)

lemma scan_string_error: "scan_string s = Inl e \<Longrightarrow> e = JSONDecodeError"
proof (induction s arbitrary: e rule: scan_string.induct)
  case (2 c s)
  then show ?case
    by (auto simp: bindE_eq_Inl dest: unicode_escape_error
        split: if_splits list.splits option.splits sum.splits prod.splits)
qed simp

lemma scan_elements_map_err:
  assumes "\<And>s. val' s = map_err f (val s)" and "f JSONDecodeError = JSONDecodeError"
  shows "scan_elements val' s = map_err f (scan_elements val s)"
  using assms(1)
proof (induction val s rule: scan_elements.induct)
  case (1 val s)
  show ?case
  proof (cases "val s")
    case (Inl e)
    then show ?thesis by (simp add: scan_elements.simps [of _ s] "1.prems" [of s])
  next
    case (Inr p)
    obtain v r where p: "p = (v, r)" by (cases p)
    show ?thesis
    proof (cases "skip_ws r")
      case Nil
      then show ?thesis using Inr p assms(2) by (simp add: scan_elements.simps [of _ s] "1.prems" [of s])
    next
      case (Cons c q)
      have "scan_elements val' (skip_ws q) = map_err f (scan_elements val (skip_ws q))"
        if "c \<noteq> 93" "c = 44" "length (skip_ws q) < length s"
        by (rule "1.IH" [OF _ refl Cons that]) (use Inr p "1.prems" in auto)
      then show ?thesis using Inr p Cons assms(2)
        by (auto simp: scan_elements.simps [of _ s] "1.prems" [of s] map_err_bindE case_prod_unfold)
    qed
  qed
qed

lemma scan_members_map_err:
  assumes "\<And>s. val' s = map_err f (val s)" and "f JSONDecodeError = JSONDecodeError"
  shows "scan_members val' s = map_err f (scan_members val s)"
  using assms(1)
proof (induction val s rule: scan_members.induct)
  case (1 val s)
  show ?case
  proof (cases "\<exists>s0 k r0 r1. s = 34 # s0 \<and> scan_string s0 = Inr (k, r0) \<and> skip_ws r0 = 58 # r1")
    case False
    then show ?thesis using assms(2) unfolding scan_members.simps [of _ s]
      by (cases s; cases "scan_string (tl s)"; cases "skip_ws (snd (projr (scan_string (tl s))))")
        (auto dest: scan_string_error)
  next
    case True
    then obtain s0 k r0 r1 where s: "s = 34 # s0" and k: "scan_string s0 = Inr (k, r0)"
      and r0: "skip_ws r0 = 58 # r1" by blast
    show ?thesis
    proof (cases "val (skip_ws r1)")
      case (Inl e)
      then show ?thesis unfolding scan_members.simps [of _ s]
        using s k r0 "1.prems" [of "skip_ws r1"] by simp
    next
      case (Inr p)
      obtain v r where p: "p = (v, r)" by (cases p)
      show ?thesis
      proof (cases "skip_ws r")
        case Nil
        then show ?thesis unfolding scan_members.simps [of _ s]
          using Inr p s k r0 assms(2) "1.prems" [of "skip_ws r1"] by simp
      next
        case (Cons c q)
        have "scan_members val' (skip_ws q) = map_err f (scan_members val (skip_ws q))"
          if "c \<noteq> 125" "c = 44" "length (skip_ws q) < length s"
          by (rule "1.IH" [OF s _ k refl r0 _ _ refl Cons that]) (use Inr p "1.prems" in auto)
        then show ?thesis unfolding scan_members.simps [of _ s]
          using Inr p Cons s k r0 assms(2) "1.prems" [of "skip_ws r1"]
          by (auto simp: map_err_bindE case_prod_unfold)
      qed
    qed
  qed
qed

definition hooks_agree :: "(exn \<Rightarrow> exn) \<Rightarrow> json_hooks \<Rightarrow> json_hooks \<Rightarrow> bool" where
  "hooks_agree f h h' \<longleftrightarrow>
     (\<forall>t. on_float h' t = map_err f (on_float h t)) \<and>
     (\<forall>t. on_constant h' t = map_err f (on_constant h t)) \<and>
     (\<forall>ps. on_object h' ps = map_err f (on_object h ps)) \<and>
     f JSONDecodeError = JSONDecodeError \<and> f ValueError = ValueError \<and>
     f RecursionError = RecursionError"

lemma scan_number_map_err:
  "hooks_agree f h h' \<Longrightarrow> scan_number h' neg s = map_err f (scan_number h neg s)"
  by (auto simp: scan_number_def hooks_agree_def Let_def map_err_bindE py_int_def case_prod_unfold
      split: option.splits)

lemma scan_once_map_err:
  assumes "hooks_agree f h h'" and "(inner = None \<longleftrightarrow> inner' = None)"
    and "\<And>val val' s. inner = Some val \<Longrightarrow> inner' = Some val' \<Longrightarrow> val' s = map_err f (val s)"
  shows "scan_once h' inner' s = map_err f (scan_once h inner s)"
proof (cases s)
  case Nil
  then show ?thesis using assms(1) by (simp add: scan_once_def hooks_agree_def)
next
  case (Cons c r)
  have f: "f JSONDecodeError = JSONDecodeError" "f RecursionError = RecursionError"
    using assms(1) by (simp_all add: hooks_agree_def)
  have arr: "scan_array val' r = map_err f (scan_array val r)"
    and obj: "scan_object h' val' r = map_err f (scan_object h val r)"
    if "inner = Some val" "inner' = Some val'" for val val'
    using scan_elements_map_err [of val' f val] scan_members_map_err [of val' f val]
      assms(1) assms(3) [OF that] f
    by (auto simp: scan_array_def scan_object_def map_err_bindE case_prod_unfold hooks_agree_def
        split: list.splits)
  have con: "scan_constant h' w s = map_err f (scan_constant h w s)" for w
    using assms(1) f by (auto simp: scan_constant_def hooks_agree_def map_err_bindE split: option.splits)
  have str: "map_err f (scan_string r) = scan_string r"
    by (rule map_err_id) (use f scan_string_error in blast)
  have kw: "map_err f (scan_keyword w v s) = scan_keyword w v s" for w v
    using f by (auto simp: scan_keyword_def split: option.splits)
  have num: "scan_number h' neg t = map_err f (scan_number h neg t)" for neg t
    by (rule scan_number_map_err [OF assms(1)])
  have inner: "(case inner' of None \<Rightarrow> Inl RecursionError | Some val \<Rightarrow> scan_array val r)
      = map_err f (case inner of None \<Rightarrow> Inl RecursionError | Some val \<Rightarrow> scan_array val r)"
    "(case inner' of None \<Rightarrow> Inl RecursionError | Some val \<Rightarrow> scan_object h' val r)
      = map_err f (case inner of None \<Rightarrow> Inl RecursionError | Some val \<Rightarrow> scan_object h val r)"
    using assms(2) f arr [of "the inner" "the inner'"] obj [of "the inner" "the inner'"]
    by (simp_all add: option.case_eq_if)
  show ?thesis
    unfolding Cons scan_once_def list.case
    by (cases "after_word ''-Infinity'' (c # r)")
      (simp_all only: inner map_err_if map_err_bindE str con [unfolded Cons]
        kw [unfolded Cons] num option.case map_err_simps f case_prod_unfold if_cancel)
qed

lemma scan_value_map_err:
  "hooks_agree f h h' \<Longrightarrow> scan_value h' n s = map_err f (scan_value h n s)"
proof (induction n arbitrary: s)
  case 0
  then show ?case by (auto intro: scan_once_map_err)
next
  case (Suc n)
  show ?case unfolding scan_value.simps
    by (rule scan_once_map_err [OF Suc.prems]) (use Suc in auto)
qed

lemma json_loads_map_err:
  "hooks_agree f h h' \<Longrightarrow> json_loads h' budget s = map_err f (json_loads h budget s)"
  by (auto simp: json_loads_def scan_value_map_err map_err_bindE hooks_agree_def case_prod_unfold
      intro!: arg_cong2 [where f = bindE])

lemma sdk_hooks_agree: "hooks_agree as_sdk canonical_hooks sdk_hooks"
  by (simp add: hooks_agree_def canonical_hooks_def sdk_hooks_def)

section \<open>The scanner builds no dictionaries\<close>

lemma scan_elements_all:
  "scan_elements val s = Inr (vs, q) \<Longrightarrow> (\<And>s v r. val s = Inr (v, r) \<Longrightarrow> P v) \<Longrightarrow> list_all P vs"
proof (induction val s arbitrary: vs q rule: scan_elements.induct)
  case (1 val s)
  note unfolded = "1.prems"(1) [unfolded scan_elements.simps [of val s]]
  obtain v r where v: "val s = Inr (v, r)"
    using unfolded by (auto simp: bindE_eq_Inr)
  obtain c q0 where r: "skip_ws r = c # q0"
    using unfolded v by (cases "skip_ws r") auto
  have "P v" by (rule "1.prems"(2) [OF v])
  moreover have "list_all P vs'"
    if "c \<noteq> 93" "c = 44" "length (skip_ws q0) < length s" "scan_elements val (skip_ws q0) = Inr (vs', q)" for vs'
    by (rule "1.IH" [OF v refl r that]) (rule "1.prems"(2))
  ultimately show ?case
    using unfolded v r by (auto simp: bindE_eq_Inr split: if_splits)
qed

lemma scan_members_all:
  "scan_members val s = Inr (ms, q) \<Longrightarrow> (\<And>s v r. val s = Inr (v, r) \<Longrightarrow> P v) \<Longrightarrow>
    list_all (\<lambda>kv. P (snd kv)) ms"
proof (induction val s arbitrary: ms q rule: scan_members.induct)
  case (1 val s)
  note unfolded = "1.prems"(1) [unfolded scan_members.simps [of val s]]
  obtain s0 where s: "s = 34 # s0"
    using unfolded by (cases s) (auto split: if_splits)
  obtain k r0 where k: "scan_string s0 = Inr (k, r0)"
    using unfolded s by (auto simp: bindE_eq_Inr)
  obtain r1 where r0: "skip_ws r0 = 58 # r1"
    using unfolded s k by (cases "skip_ws r0") (auto split: if_splits)
  obtain v r where v: "val (skip_ws r1) = Inr (v, r)"
    using unfolded s k r0 by (auto simp: bindE_eq_Inr)
  obtain c q0 where r: "skip_ws r = c # q0"
    using unfolded s k r0 v by (cases "skip_ws r") auto
  have "P v" by (rule "1.prems"(2) [OF v])
  moreover have "list_all (\<lambda>kv. P (snd kv)) ms'"
    if "c \<noteq> 125" "c = 44" "length (skip_ws q0) < length s" "scan_members val (skip_ws q0) = Inr (ms', q)" for ms'
    by (rule "1.IH" [OF s _ k refl r0 _ v refl r that]) (use "1.prems"(2) in auto)
  ultimately show ?case
    using unfolded s k r0 v r by (auto simp: bindE_eq_Inr split: if_splits)
qed

fun pairs_only :: "pyval \<Rightarrow> bool" where
  "pairs_only (PList xs) = list_all pairs_only xs"
| "pairs_only (PPairs d) = list_all (\<lambda>kv. pairs_only (snd kv)) d"
| "pairs_only (PDict d) = False"
| "pairs_only _ = True"

lemma scan_once_pairs:
  assumes "scan_once canonical_hooks inner s = Inr (v, r)"
    and "\<And>val s v r. inner = Some val \<Longrightarrow> val s = Inr (v, r) \<Longrightarrow> pairs_only v"
  shows "pairs_only v"
proof -
  have arr: "pairs_only v" if "inner = Some val" "scan_array val t = Inr (v, r)" for val t
    using that assms(2) [OF that(1)] scan_elements_all [of val _ _ _ pairs_only]
    by (fastforce simp: scan_array_def bindE_eq_Inr split: list.splits if_splits)
  have obj: "pairs_only v" if "inner = Some val" "scan_object canonical_hooks val t = Inr (v, r)" for val t
    using that assms(2) [OF that(1)] scan_members_all [of val _ _ _ pairs_only]
    by (fastforce simp: scan_object_def canonical_hooks_def bindE_eq_Inr split: list.splits if_splits)
  show ?thesis
    using assms(1) arr obj
    by (auto simp: scan_once_def scan_keyword_def scan_constant_def scan_number_def canonical_hooks_def
        bindE_eq_Inr Let_def case_prod_unfold split: list.splits if_splits option.splits)
qed

lemma scan_value_pairs: "scan_value canonical_hooks n s = Inr (v, r) \<Longrightarrow> pairs_only v"
proof (induction n arbitrary: s v r)
  case 0
  then show ?case by (auto intro: scan_once_pairs)
next
  case (Suc n)
  show ?case by (rule scan_once_pairs [OF Suc.prems [unfolded scan_value.simps]]) (use Suc.IH in auto)
qed

lemma json_loads_pairs: "json_loads canonical_hooks budget s = Inr v \<Longrightarrow> pairs_only v"
  by (auto simp: json_loads_def bindE_eq_Inr split: if_splits dest: scan_value_pairs)

section \<open>The SDK agrees with the tool\<close>

lemma sdk_nfc_str_eq: "sdk_nfc_str nfc s = map_err as_sdk (nfc_str nfc s)"
  by (simp add: sdk_nfc_str_def nfc_str_def Let_def map_err_bindE utf8_encode_def)

lemma sdk_normalize_eq:
  "pairs_only v \<Longrightarrow> sdk_normalize nfc k v = map_err as_sdk (normalize nfc k v)"
  "list_all (\<lambda>kv. pairs_only (snd kv)) ps \<Longrightarrow>
     sdk_normalize_pairs nfc k raw seen ps = map_err as_sdk (normalize_members nfc k raw seen ps)"
  "list_all pairs_only xs \<Longrightarrow> sdk_normalize_items nfc k xs = map_err as_sdk (normalize_items nfc k xs)"
proof (induction nfc k v and nfc k raw seen ps and nfc k xs
    rule: normalize_normalize_members_normalize_items.induct)
  case (1 nfc depth v)
  then show ?case
    by (cases v) (simp_all add: sdk_normalize.simps normalize.simps sdk_nfc_str_eq map_err_bindE)
qed (auto simp: sdk_nfc_str_eq map_err_bindE map_err_if intro!: bindE_cong)

lemma sdk_reraise_as_sdk:
  "sdk_reraise (as_sdk e) = as_sdk (reraise_malformed e)"
  by (cases e) (simp_all add: sdk_reraise_def reraise_malformed_def as_sdk_def)

lemma sdk_parse_eq: "sdk_parse nfc budget raw = map_err as_sdk (parse nfc budget raw)"
proof -
  have "json_loads sdk_hooks budget raw = map_err as_sdk (json_loads canonical_hooks budget raw)"
    by (rule json_loads_map_err [OF sdk_hooks_agree])
  then show ?thesis
    by (cases "json_loads canonical_hooks budget raw")
      (auto simp: sdk_parse_def parse_def map_err_bindE utf8_encode_def sdk_reraise_as_sdk
        sdk_normalize_eq(1) [OF json_loads_pairs])
qed

section \<open>Canonical values under the SDK\<close>

lemma canonical_value_mono: "canonical_value nfc k v \<Longrightarrow> j \<le> k \<Longrightarrow> canonical_value nfc j v"
proof (induction nfc k v arbitrary: j rule: canonical_value.induct)
  case (1 nfc k xs)
  then show ?case by (auto 4 4)
next
  case (2 nfc k d)
  then show ?case by (auto 4 4)
qed auto

lemma sdk_nfc_str_id: "canonical_str nfc s \<Longrightarrow> sdk_nfc_str nfc s = Inr s"
  by (simp add: sdk_nfc_str_eq nfc_str_id)

lemma sdk_normalize_items_mapE: "sdk_normalize_items nfc k xs = mapE (sdk_normalize nfc k) xs"
  by (induction xs) simp_all

lemma sdk_normalize_dict_id:
  assumes "\<forall>kv \<in> set d. canonical_str nfc (fst kv) \<and> sdk_normalize nfc k (snd kv) = Inr (snd kv)"
    and "distinct (map fst d)" and "set ks \<inter> fst ` set d = {}"
  shows "sdk_normalize_dict nfc k ks d = Inr d"
  using assms
proof (induction d arbitrary: ks)
  case (Cons kv d)
  obtain key v where kv: "kv = (key, v)" by (cases kv)
  have "sdk_normalize_dict nfc k (key # ks) d = Inr d"
    by (rule Cons.IH) (use Cons.prems kv in auto)
  with Cons.prems kv show ?case by (auto simp: sdk_nfc_str_id)
qed simp

lemma sdk_normalize_id: "canonical_value nfc k v \<Longrightarrow> sdk_normalize nfc k v = Inr v"
proof (induction nfc k v rule: canonical_value.induct)
  case (1 nfc k xs)
  then have "mapE (sdk_normalize nfc (k + 1)) xs = Inr (map (\<lambda>x. x) xs)"
    by (intro mapE_Inr_map) auto
  with 1 show ?case by (simp add: sdk_normalize.simps sdk_normalize_items_mapE)
next
  case (2 nfc k d)
  then have "sdk_normalize_dict nfc (k + 1) [] d = Inr d"
    by (intro sdk_normalize_dict_id) auto
  with 2 show ?case by (simp add: sdk_normalize.simps)
qed (simp_all add: sdk_normalize.simps sdk_nfc_str_id)

lemma sdk_escape_canonical: "canonical_str nfc s \<Longrightarrow> sdk_escape nfc s = Inr (quoted s)"
  by (simp add: sdk_escape_def sdk_nfc_str_id)

lemma sdk_serialize_canonical: "canonical_value nfc k v \<Longrightarrow> 1 \<le> k \<Longrightarrow> sdk_serialize nfc v = Inr (text_of v)"
proof (induction nfc k v rule: canonical_value.induct)
  case (1 nfc k xs)
  then have n: "sdk_normalize nfc 1 (PList xs) = Inr (PList xs)"
    using sdk_normalize_id canonical_value_mono by blast
  have "mapE (sdk_serialize nfc) xs = Inr (map text_of xs)"
    using 1 by (intro mapE_Inr_map) auto
  then show ?case by (simp add: sdk_serialize.simps [of nfc "PList xs"] n del: One_nat_def)
next
  case (2 nfc k d)
  then have n: "sdk_normalize nfc 1 (PDict d) = Inr (PDict d)"
    using sdk_normalize_id canonical_value_mono by blast
  have "mapE (\<lambda>kv. bindE (sdk_escape nfc (fst kv)) (\<lambda>k.
            bindE (sdk_serialize nfc (snd kv)) (\<lambda>t. Inr (k @ [58] @ t)))) (sort_key fst d)
      = Inr (map (\<lambda>kv. quoted (fst kv) @ [58] @ text_of (snd kv)) (sort_key fst d))"
    using 2 by (intro mapE_Inr_map) (auto simp: sdk_escape_canonical)
  then show ?case by (simp add: sdk_serialize.simps [of nfc "PDict d"] n del: One_nat_def)
qed (subst sdk_serialize.simps; simp add: sdk_normalize.simps sdk_nfc_str_id sdk_escape_canonical)+

lemma sdk_nfc_str_canonical: "nfc_idempotent nfc \<Longrightarrow> sdk_nfc_str nfc s = Inr t \<Longrightarrow> canonical_str nfc t"
  using nfc_str_canonical [of nfc s t] by (cases "nfc_str nfc s") (simp_all add: sdk_nfc_str_eq)

lemma sdk_normalize_pairs_keys:
  "sdk_normalize_pairs nfc depth raw seen ps = Inr d \<Longrightarrow>
     distinct (map fst d) \<and> set (map fst d) \<inter> set seen = {} \<and> length d = length ps"
proof (induction ps arbitrary: raw seen d)
  case (Cons kv ps)
  obtain k c where kv: "kv = (k, c)" by (cases kv)
  from Cons.prems kv obtain key v d' where d: "d = (key, v) # d'" "key \<notin> set seen"
    "sdk_normalize_pairs nfc depth (k # raw) (key # seen) ps = Inr d'"
    by (auto simp: bindE_eq_Inr split: if_splits)
  from Cons.IH [OF d(3)] d show ?case by auto
qed simp

lemma sdk_normalize_dict_keys:
  "sdk_normalize_dict nfc depth ks ps = Inr d \<Longrightarrow>
     distinct (map fst d) \<and> set (map fst d) \<inter> set ks = {} \<and> length d = length ps"
proof (induction ps arbitrary: ks d)
  case (Cons kv ps)
  obtain k c where kv: "kv = (k, c)" by (cases kv)
  from Cons.prems kv obtain key v d' where d: "d = (key, v) # d'" "key \<notin> set ks"
    "sdk_normalize_dict nfc depth (key # ks) ps = Inr d'"
    by (auto simp: bindE_eq_Inr split: if_splits)
  from Cons.IH [OF d(3)] d show ?case by auto
qed simp

lemma sdk_normalize_canonical:
  assumes "nfc_idempotent nfc"
  shows "sdk_normalize nfc k v = Inr w \<Longrightarrow> canonical_value nfc k w"
    and "sdk_normalize_pairs nfc k raw seen ps = Inr d \<Longrightarrow>
      \<forall>kv \<in> set d. canonical_str nfc (fst kv) \<and> canonical_value nfc k (snd kv)"
    and "sdk_normalize_dict nfc k ks ps = Inr d \<Longrightarrow>
      \<forall>kv \<in> set d. canonical_str nfc (fst kv) \<and> canonical_value nfc k (snd kv)"
    and "sdk_normalize_items nfc k xs = Inr ys \<Longrightarrow> length ys = length xs \<and> (\<forall>y \<in> set ys. canonical_value nfc k y)"
  using assms
proof (induction nfc k v and nfc k raw seen ps and nfc k ks ps and nfc k xs
    arbitrary: w and d and d and ys
    rule: sdk_normalize_sdk_normalize_pairs_sdk_normalize_dict_sdk_normalize_items.induct)
  case (1 nfc depth v)
  note unfolded = "1.prems"(1) [unfolded sdk_normalize.simps [of nfc depth v]]
  show ?case
  proof (cases v)
    case (PStr s)
    with unfolded "1.prems"(2) show ?thesis
      by (auto simp: bindE_eq_Inr split: if_splits dest: sdk_nfc_str_canonical)
  next
    case (PPairs ps)
    with unfolded obtain d where d: "sdk_normalize_pairs nfc (depth + 1) [] [] ps = Inr d" "w = PDict d"
      "depth \<le> MAX_DEPTH" "length ps \<le> MAX_OBJECT_MEMBERS"
      by (auto simp: bindE_eq_Inr split: if_splits)
    with "1.IH"(3) [of ps d] PPairs "1.prems"(2) sdk_normalize_pairs_keys [OF d(1)] show ?thesis
      by auto
  next
    case (PDict ps)
    with unfolded obtain d where d: "sdk_normalize_dict nfc (depth + 1) [] ps = Inr d" "w = PDict d"
      "depth \<le> MAX_DEPTH" "length ps \<le> MAX_OBJECT_MEMBERS"
      by (auto simp: bindE_eq_Inr split: if_splits)
    with "1.IH"(2) [of ps d] PDict "1.prems"(2) sdk_normalize_dict_keys [OF d(1)] show ?thesis
      by auto
  next
    case (PList xs)
    with unfolded obtain ys where d: "sdk_normalize_items nfc (depth + 1) xs = Inr ys" "w = PList ys"
      "depth \<le> MAX_DEPTH" "length xs \<le> MAX_ARRAY_ITEMS"
      by (auto simp: bindE_eq_Inr split: if_splits)
    with "1.IH"(1) [of xs ys] PList "1.prems"(2) show ?thesis by auto
  qed (use unfolded in \<open>auto split: if_splits\<close>)
next
  case (3 nfc depth raw seen raw_key child ps)
  from "3.prems" obtain key v d' where key: "raw_key \<notin> set raw" "sdk_nfc_str nfc raw_key = Inr key"
    "key \<notin> set seen" and v: "sdk_normalize nfc depth child = Inr v"
    and rec: "sdk_normalize_pairs nfc depth (raw_key # raw) (key # seen) ps = Inr d'"
    and d: "d = (key, v) # d'"
    by (auto simp: bindE_eq_Inr split: if_splits)
  have "canonical_value nfc depth v" by (rule "3.IH"(1) [OF key v "3.prems"(2)])
  moreover have "\<forall>kv \<in> set d'. canonical_str nfc (fst kv) \<and> canonical_value nfc depth (snd kv)"
    by (rule "3.IH"(2) [OF key v rec "3.prems"(2)])
  moreover have "canonical_str nfc key" by (rule sdk_nfc_str_canonical [OF "3.prems"(2) key(2)])
  ultimately show ?case using d by simp
next
  case (5 nfc depth ks raw_key child ps)
  from "5.prems" obtain key v d' where key: "sdk_nfc_str nfc raw_key = Inr key" "key \<notin> set ks"
    and v: "sdk_normalize nfc depth child = Inr v"
    and rec: "sdk_normalize_dict nfc depth (key # ks) ps = Inr d'" and d: "d = (key, v) # d'"
    by (auto simp: bindE_eq_Inr split: if_splits)
  have "canonical_value nfc depth v" by (rule "5.IH"(1) [OF key v "5.prems"(2)])
  moreover have "\<forall>kv \<in> set d'. canonical_str nfc (fst kv) \<and> canonical_value nfc depth (snd kv)"
    by (rule "5.IH"(2) [OF key v rec "5.prems"(2)])
  moreover have "canonical_str nfc key" by (rule sdk_nfc_str_canonical [OF "5.prems"(2) key(1)])
  ultimately show ?case using d by simp
next
  case (7 nfc depth x xs)
  from "7.prems" obtain y ys' where y: "sdk_normalize nfc depth x = Inr y"
    and rec: "sdk_normalize_items nfc depth xs = Inr ys'" and ys: "ys = y # ys'"
    by (auto simp: bindE_eq_Inr)
  with "7.IH"(1) [OF y "7.prems"(2)] "7.IH"(2) [OF y rec "7.prems"(2)] show ?case by simp
qed auto

text \<open>What a successful \<open>canonicalize\<close> returned.\<close>

lemma sdk_canonicalize_Inr:
  assumes "nfc_idempotent nfc" and "sdk_canonicalize nfc budget inp = Inr b"
  obtains v where "sdk_input_value nfc budget inp = Inr v" "canonical_value nfc 1 v"
    "b = utf8_bytes (text_of v)" "length b \<le> MAX_INPUT_BYTES"
proof -
  from assms(2) obtain v where v: "sdk_input_value nfc budget inp = Inr v"
    by (auto simp: sdk_canonicalize_def bindE_eq_Inr)
  have c: "canonical_value nfc 1 v"
    using v assms(1) parse_canonical [OF assms(1), of budget]
    by (auto simp: sdk_input_value_def sdk_parse_eq map_err_def
        split: canon_input.splits sum.splits intro: sdk_normalize_canonical(1))
  show thesis
    by (rule that [OF v c])
      (use assms(2) v c in \<open>auto simp: sdk_canonicalize_def sdk_serialize_canonical scalars_text_of
         bindE_eq_Inr split: if_splits\<close>)
qed

lemma sdk_canonicalize_eq:
  assumes "sdk_input_value nfc budget inp = Inr v" and "canonical_value nfc 1 v"
  shows "sdk_canonicalize nfc budget inp =
    (if MAX_INPUT_BYTES < length (utf8_bytes (text_of v)) then Inl (SdkError ''output_too_large'')
     else Inr (utf8_bytes (text_of v)))"
  using assms
  by (simp add: sdk_canonicalize_def sdk_serialize_canonical scalars_text_of)

end
