(* ===== verification/Content_Identity.thy ===== *)
theory Content_Identity
  imports Sdk_Laws
begin

text \<open>
  Content addressing: an object is named by the SHA-256 digest of its canonical bytes. The locale
  \<open>content_encoding\<close> states what the identity functions rely on - the encoding is faithful to the
  meaning of its input and depends on nothing else - and proves what every identity built on such
  an encoding gives. It is interpreted on \<open>canonicalize\<close> of \<open>tools/qsol_canonical.py\<close>, on
  \<open>canonicalize\<close> of the Python SDK and on the two message projections. Collision resistance is not
  assumed: the lemmas exhibit the collision.
\<close>

section \<open>Digests\<close>

definition collision :: "(bytes \<Rightarrow> bytes) \<Rightarrow> bool" where
  "collision sha256 \<longleftrightarrow> (\<exists>b c. b \<noteq> c \<and> sha256 b = sha256 c)"

lemma hex_digit_inject: "m < 16 \<Longrightarrow> n < 16 \<Longrightarrow> hex_digit m = hex_digit n \<longleftrightarrow> m = n"
  by (auto simp: hex_digit_def split: if_splits)

lemma hexdigest_Cons:
  "hexdigest (x # b) = hex_digit (unat x div 16) # hex_digit (unat x mod 16) # hexdigest b"
  by (simp add: hexdigest_def)

lemma hexdigest_Nil [simp]: "hexdigest [] = []"
  by (simp add: hexdigest_def)

lemma octet_div_16: "unat (x :: 8 word) div 16 < 16"
proof -
  have "unat x < 2 ^ LENGTH(8)" by (rule unsigned_less)
  then show ?thesis by simp
qed

lemma hexdigest_inject: "hexdigest b = hexdigest c \<Longrightarrow> b = c"
proof (induction b arbitrary: c)
  case Nil
  then show ?case by (cases c) (simp_all add: hexdigest_Cons)
next
  case (Cons x b)
  then obtain y c' where c: "c = y # c'" by (cases c) (auto simp: hexdigest_Cons)
  with Cons.prems have "unat x div 16 = unat y div 16" "unat x mod 16 = unat y mod 16"
    and r: "hexdigest b = hexdigest c'"
    by (auto simp: hexdigest_Cons hex_digit_inject octet_div_16)
  then have "unat x = unat y" by (metis div_mult_mod_eq)
  then have "x = y" by (simp add: word_unat_eq_iff)
  with Cons.IH [OF r] c show ?case by simp
qed

lemma length_hexdigest: "length (hexdigest b) = 2 * length b"
  by (induction b) (simp_all add: hexdigest_Cons)

lemma hexdigest_digits: "c \<in> set (hexdigest b) \<Longrightarrow> (48 \<le> c \<and> c \<le> 57) \<or> (97 \<le> c \<and> c \<le> 102)"
proof (induction b)
  case (Cons x b)
  then show ?case using octet_div_16 [of x]
    by (auto simp: hexdigest_Cons hex_digit_def split: if_splits)
qed simp

lemma sha256_ref_inject: "sha256_ref h b = sha256_ref h c \<Longrightarrow> b = c \<or> collision h"
  by (auto simp: sha256_ref_def collision_def dest!: hexdigest_inject)

section \<open>The interface\<close>

text \<open>
  \<open>law\<close> is what the encoding needs of code that is not in the repository (Unicode normalisation),
  \<open>meaning\<close> what an input denotes when the encoding accepts it, \<open>prefix\<close> the domain separation.
\<close>

definition identity_of :: "(bytes \<Rightarrow> bytes) \<Rightarrow> bytes \<Rightarrow> ('i \<Rightarrow> bytes result) \<Rightarrow> 'i \<Rightarrow> pystr result" where
  "identity_of sha256 domain encode x =
     bindE (encode x) (\<lambda>b. Inr (sha256_ref sha256 (domain @ b)))"

locale content_encoding =
  fixes law :: bool
    and encode :: "'i \<Rightarrow> bytes result"
    and meaning :: "'i \<Rightarrow> 'v result"
  assumes encode_defined: "law \<Longrightarrow> encode x = Inr b \<Longrightarrow> \<exists>v. meaning x = Inr v"
    and encode_faithful: "law \<Longrightarrow> encode x = Inr b \<Longrightarrow> encode y = Inr b \<Longrightarrow> meaning x = meaning y"
    and encode_stable: "law \<Longrightarrow> encode x = Inr b \<Longrightarrow> encode y = Inr c \<Longrightarrow> meaning x = meaning y \<Longrightarrow> b = c"
begin

lemma identity_binds:
  assumes law and "identity_of h domain encode x = Inr i" and "identity_of h domain encode y = Inr i"
  shows "(\<exists>v. meaning x = Inr v \<and> meaning y = Inr v) \<or> collision h"
proof -
  from assms(2,3) obtain b c where b: "encode x = Inr b" and c: "encode y = Inr c"
    and "sha256_ref h (domain @ b) = sha256_ref h (domain @ c)"
    by (auto simp: identity_of_def bindE_eq_Inr)
  then have "b = c \<or> collision h" using sha256_ref_inject by blast
  with encode_faithful [OF assms(1) b] encode_defined [OF assms(1) b] b c show ?thesis by fastforce
qed

lemma identity_stable:
  assumes law and "identity_of h domain encode x = Inr i" and "identity_of h domain encode y = Inr j"
    and "meaning x = meaning y"
  shows "i = j"
  using assms encode_stable by (auto simp: identity_of_def bindE_eq_Inr)

lemma identity_iff:
  assumes law and "\<not> collision h"
    and "identity_of h domain encode x = Inr i" and "identity_of h domain encode y = Inr j"
  shows "i = j \<longleftrightarrow> meaning x = meaning y"
proof
  assume "i = j"
  with identity_binds [OF assms(1,3), of y] assms(2,4) show "meaning x = meaning y" by fastforce
qed (rule identity_stable [OF assms(1,3,4)])

end

text \<open>Two identities with different domains never hash the same text.\<close>

lemma domain_separated:
  assumes "identity_of h d encode x = Inr i" and "identity_of h d' encode' y = Inr i"
    and "\<And>b c. encode x = Inr b \<Longrightarrow> encode' y = Inr c \<Longrightarrow> d @ b \<noteq> d' @ c"
  shows "collision h"
  using assms by (fastforce simp: identity_of_def bindE_eq_Inr dest: sha256_ref_inject)

section \<open>Objects\<close>

text \<open>
  The meaning of an input is the value it denotes, whatever the order of object members. An
  encoding that prints canonical values is faithful to it.
\<close>

definition meaning_by :: "('i \<Rightarrow> pyval result) \<Rightarrow> 'i \<Rightarrow> pyval result" where
  "meaning_by value_of x = bindE (value_of x) (\<lambda>v. Inr (ordered v))"

lemma canonical_encoding:
  assumes "\<And>x b. law \<Longrightarrow> encode x = Inr b \<Longrightarrow>
    \<exists>v. value_of x = Inr v \<and> canonical_value nfc 1 v \<and> b = utf8_bytes (text_of v)"
  shows "content_encoding law encode (meaning_by value_of)"
proof
  fix x b assume "law" "encode x = Inr b"
  from assms [OF this] show "\<exists>v. meaning_by value_of x = Inr v" by (auto simp: meaning_by_def)
next
  fix x y b assume "law" "encode x = Inr b" "encode y = Inr b"
  from assms [OF this(1,2)] assms [OF this(1,3)] show "meaning_by value_of x = meaning_by value_of y"
    by (auto simp: meaning_by_def text_of_eq_iff)
next
  fix x y b c assume "law" "encode x = Inr b" "encode y = Inr c" "meaning_by value_of x = meaning_by value_of y"
  with assms [of x b] assms [of y c] show "b = c"
    by (auto simp: meaning_by_def text_of_eq_iff)
qed

interpretation tool_object: content_encoding "nfc_idempotent nfc" "canonicalize nfc budget"
  "meaning_by (parse nfc budget)"
  by (rule canonical_encoding) (auto elim: canonicalize_Inr)

interpretation sdk_object: content_encoding "nfc_idempotent nfc" "sdk_canonicalize nfc budget"
  "meaning_by (sdk_input_value nfc budget)"
  by (rule canonical_encoding) (auto elim: sdk_canonicalize_Inr)

lemma object_id_identity: "object_id h nfc budget = identity_of h [] (canonicalize nfc budget)"
  by (simp add: fun_eq_iff object_id_def identity_of_def)

lemma sdk_object_id_identity: "sdk_object_id h nfc budget = identity_of h [] (sdk_canonicalize nfc budget)"
  by (simp add: fun_eq_iff sdk_object_id_def identity_of_def)

section \<open>Messages\<close>

text \<open>
  The signed projection of an envelope drops \<open>message_id\<close> and \<open>signature\<close>; its meaning is the
  projected object.
\<close>

definition projection :: "pydict \<Rightarrow> pydict" where
  "projection d = dpop (dpop d ''message_id'') ''signature''"

definition envelope_projection :: "(pystr \<Rightarrow> pystr) \<Rightarrow> nat \<Rightarrow> pystr \<Rightarrow> pyval result" where
  "envelope_projection nfc budget raw =
     bindE (parse nfc budget raw) (\<lambda>v. case v of
       PDict d \<Rightarrow>
         (if \<not> has_key d ''message_id'' \<or> \<not> has_key d ''signature''
          then Inl (CanonicalError ''envelope_projection_fields_missing'')
          else Inr (PDict (projection d)))
     | _ \<Rightarrow> Inl (CanonicalError ''envelope_must_be_object''))"

definition message_bytes :: "(pystr \<Rightarrow> pystr) \<Rightarrow> nat \<Rightarrow> pystr \<Rightarrow> bytes result" where
  "message_bytes nfc budget raw =
     bindE (envelope_projection nfc budget raw) (\<lambda>v. bindE (serialize nfc v) utf8_encode)"

lemma canonical_dpop: "canonical_value nfc k (PDict d) \<Longrightarrow> canonical_value nfc k (PDict (dpop d key))"
  using le_trans [OF length_filter_le [of "\<lambda>kv. fst kv \<noteq> lit key" d]] distinct_keys_dpop [of d key]
  by (auto simp: dpop_def)

lemma canonical_projection: "canonical_value nfc k (PDict d) \<Longrightarrow> canonical_value nfc k (PDict (projection d))"
  by (simp only: projection_def canonical_dpop)

lemma envelope_projection_canonical:
  assumes "nfc_idempotent nfc" and "envelope_projection nfc budget raw = Inr v"
  shows "canonical_value nfc 1 v"
proof -
  from assms(2) obtain d where d: "parse nfc budget raw = Inr (PDict d)" "v = PDict (projection d)"
    by (cases "parse nfc budget raw"; cases "projr (parse nfc budget raw)")
      (auto simp: envelope_projection_def split: if_splits)
  with parse_canonical [OF assms(1) d(1)] show ?thesis using canonical_projection by blast
qed

lemma message_bytes_Inr:
  assumes "nfc_idempotent nfc" and "message_bytes nfc budget raw = Inr b"
  obtains v where "envelope_projection nfc budget raw = Inr v" "canonical_value nfc 1 v"
    "b = utf8_bytes (text_of v)"
proof -
  from assms(2) obtain v where v: "envelope_projection nfc budget raw = Inr v"
    by (auto simp: message_bytes_def bindE_eq_Inr)
  have c: "canonical_value nfc 1 v" by (rule envelope_projection_canonical [OF assms(1) v])
  show thesis
    by (rule that [OF v c])
      (use assms(2) v c in \<open>auto simp: message_bytes_def serialize_canonical scalars_text_of bindE_eq_Inr\<close>)
qed

interpretation tool_message: content_encoding "nfc_idempotent nfc" "message_bytes nfc budget"
  "meaning_by (envelope_projection nfc budget)"
  by (rule canonical_encoding) (auto elim: message_bytes_Inr)

lemma derive_message_id_identity:
  "derive_message_id h nfc budget = identity_of h MESSAGE_ID_DOMAIN (message_bytes nfc budget)"
proof
  fix raw
  show "derive_message_id h nfc budget raw = identity_of h MESSAGE_ID_DOMAIN (message_bytes nfc budget) raw"
    by (cases "parse nfc budget raw")
      (auto simp: derive_message_id_def identity_of_def message_bytes_def envelope_projection_def
        projection_def bindE_assoc split: pyval.splits)
qed

text \<open>The SDK derives the message identity from the dictionary it built or received.\<close>

definition sdk_message_bytes :: "(pystr \<Rightarrow> pystr) \<Rightarrow> nat \<Rightarrow> pydict \<Rightarrow> bytes result" where
  "sdk_message_bytes nfc budget e =
     (if \<not> has_key e ''message_id'' \<or> \<not> has_key e ''signature''
      then Inl (SdkError ''envelope_projection_fields_missing'')
      else sdk_canonicalize nfc budget (RawValue (PDict (projection e))))"

definition sdk_projected :: "pydict \<Rightarrow> canon_input" where
  "sdk_projected e = RawValue (PDict (projection e))"

interpretation sdk_message: content_encoding "nfc_idempotent nfc" "sdk_message_bytes nfc budget"
  "\<lambda>e. meaning_by (sdk_input_value nfc budget) (sdk_projected e)"
  by unfold_locales
    (auto simp: sdk_message_bytes_def sdk_projected_def split: if_splits
      intro: sdk_object.encode_defined sdk_object.encode_faithful sdk_object.encode_stable)

lemma sdk_derive_message_id_identity:
  "sdk_derive_message_id h nfc budget = identity_of h MESSAGE_ID_DOMAIN (sdk_message_bytes nfc budget)"
  by (auto simp: fun_eq_iff sdk_derive_message_id_def identity_of_def sdk_message_bytes_def projection_def Let_def)

end
