(* ===== verification/Sdk_Envelope.thy ===== *)
theory Sdk_Envelope
  imports Content_Identity
begin

text \<open>
  What the validators and builders of \<open>sdk/python/qsol_fed_sdk.py\<close> guarantee: the field formats, the
  exact condition under which each validator accepts, that the builders succeed on every valid
  specification, and that the message identity binds every field of an envelope.
\<close>

section \<open>Small ASCII values\<close>

text \<open>The second documented law of Unicode normalisation: ASCII text is in normal form.\<close>

definition ascii :: "pystr \<Rightarrow> bool" where
  "ascii s \<longleftrightarrow> (\<forall>c \<in> set s. c < 128)"

definition nfc_ascii :: "(pystr \<Rightarrow> pystr) \<Rightarrow> bool" where
  "nfc_ascii nfc \<longleftrightarrow> (\<forall>s. ascii s \<longrightarrow> nfc s = s)"

text \<open>The documented size of a SHA-256 digest.\<close>

definition digest32 :: "(bytes \<Rightarrow> bytes) \<Rightarrow> bool" where
  "digest32 h \<longleftrightarrow> (\<forall>b. length (h b) = 32)"

lemma ascii_simps [simp]:
  "ascii []" "ascii (c # s) \<longleftrightarrow> c < 128 \<and> ascii s" "ascii (s @ t) \<longleftrightarrow> ascii s \<and> ascii t"
  by (auto simp: ascii_def)

lemma ascii_lit: "(\<forall>c \<in> set s. of_char c < (128 :: nat)) \<Longrightarrow> ascii (lit s)"
  by (auto simp: ascii_def lit_def)

lemma ascii_scalars: "ascii s \<Longrightarrow> scalars s"
  by (auto simp: ascii_def list_all_iff scalar_ascii)

lemma length_utf8_ascii: "ascii s \<Longrightarrow> length (utf8_bytes s) = length s"
  by (induction s) (simp_all add: utf8_char_def utf8_octets_def)

lemma ascii_escape_char: "c < 128 \<Longrightarrow> ascii (escape_char c) \<and> length (escape_char c) \<le> 6"
  by (auto simp: escape_char_def hex04_def hex_digit_def)

lemma ascii_quoted: "ascii s \<Longrightarrow> ascii (quoted s) \<and> length (quoted s) \<le> 6 * length s + 2"
proof (induction s)
  case (Cons c s)
  then show ?case using ascii_escape_char [of c] by (auto simp: quoted_def)
qed (simp add: quoted_def)

lemma ascii_join:
  "(\<And>t. t \<in> set ts \<Longrightarrow> ascii t \<and> length t \<le> m) \<Longrightarrow>
     ascii (join_with [44] ts) \<and> length (join_with [44] ts) \<le> length ts * (m + 1)"
proof (induction "[44] :: pystr" ts rule: join_with.induct)
  case (3 x y ys)
  from 3(1) 3(2) have "ascii (join_with [44] (y # ys)) \<and>
      length (join_with [44] (y # ys)) \<le> length (y # ys) * (m + 1)" by simp
  moreover have "ascii x \<and> length x \<le> m" by (rule 3(2)) simp
  ultimately show ?case by simp
qed auto

text \<open>
  Field values (None or short ASCII text), lists of at most four of them, and dictionaries of at
  most eleven such members under short ASCII keys: the shape of every record the SDK builds. Their
  canonical text stays far below the output limit.
\<close>

definition field_value :: "pyval \<Rightarrow> bool" where
  "field_value v \<longleftrightarrow> v = PNone \<or> v = PBool False \<or> (\<exists>s. v = PStr s \<and> ascii s \<and> length s \<le> 137)"

definition member_value :: "pyval \<Rightarrow> bool" where
  "member_value v \<longleftrightarrow>
     field_value v \<or> (\<exists>xs. v = PList xs \<and> length xs \<le> 4 \<and> (\<forall>x \<in> set xs. field_value x))"

definition small_record :: "pydict \<Rightarrow> bool" where
  "small_record d \<longleftrightarrow> length d \<le> 11 \<and> distinct (map fst d) \<and>
     (\<forall>kv \<in> set d. ascii (fst kv) \<and> length (fst kv) \<le> 32 \<and> member_value (snd kv))"

lemma canonical_ascii:
  "nfc_ascii nfc \<Longrightarrow> ascii s \<Longrightarrow> length s \<le> 137 \<Longrightarrow> canonical_str nfc s"
  by (simp add: canonical_str_def nfc_ascii_def ascii_scalars length_utf8_ascii MAX_STRING_UTF8_def)

lemma field_canonical: "nfc_ascii nfc \<Longrightarrow> field_value v \<Longrightarrow> k \<le> MAX_DEPTH \<Longrightarrow> canonical_value nfc k v"
  by (auto simp: field_value_def canonical_ascii)

lemma field_text: "field_value v \<Longrightarrow> ascii (text_of v) \<and> length (text_of v) \<le> 824"
  by (auto simp: field_value_def lit_def dest: ascii_quoted)

lemma member_text:
  assumes "member_value v"
  shows "ascii (text_of v) \<and> length (text_of v) \<le> 3302"
proof (cases "field_value v")
  case True
  then show ?thesis using field_text [OF True] by auto
next
  case False
  with assms obtain xs where v: "v = PList xs" and len: "length xs \<le> 4"
    and xs: "\<forall>x \<in> set xs. field_value x"
    by (auto simp: member_value_def)
  have "ascii (join_with [44] (map text_of xs)) \<and>
      length (join_with [44] (map text_of xs)) \<le> length (map text_of xs) * (824 + 1)"
    by (rule ascii_join) (use xs field_text in auto)
  with v len show ?thesis by auto
qed

lemma member_canonical:
  assumes "nfc_ascii nfc" and "member_value v" and "k < MAX_DEPTH"
  shows "canonical_value nfc k v"
  using assms field_canonical [OF assms(1)]
  by (auto simp: member_value_def MAX_ARRAY_ITEMS_def)

lemma small_record_canonical:
  assumes "nfc_ascii nfc" and "small_record d"
  shows "canonical_value nfc 1 (PDict d)"
proof -
  have "canonical_str nfc (fst kv) \<and> canonical_value nfc 2 (snd kv)" if "kv \<in> set d" for kv
    using assms that member_canonical [OF assms(1), of "snd kv" 2]
    by (fastforce simp: small_record_def MAX_DEPTH_def intro!: canonical_ascii)
  with assms show ?thesis
    by (simp add: small_record_def MAX_OBJECT_MEMBERS_def MAX_DEPTH_def numeral_2_eq_2)
qed

lemma small_record_text:
  assumes "small_record d"
  shows "ascii (text_of (PDict d)) \<and> length (text_of (PDict d)) \<le> 40000"
proof -
  let ?t = "\<lambda>kv. quoted (fst kv) @ [58] @ text_of (snd kv)"
  let ?ts = "map ?t (sort_key fst d)"
  have "ascii (?t kv) \<and> length (?t kv) \<le> 3497" if "kv \<in> set d" for kv
    using assms that ascii_quoted [of "fst kv"] member_text [of "snd kv"]
    by (auto simp: small_record_def)
  then have "ascii (join_with [44] ?ts) \<and> length (join_with [44] ?ts) \<le> length ?ts * (3497 + 1)"
    by (intro ascii_join) auto
  with assms show ?thesis by (auto simp: small_record_def)
qed

lemma canonicalize_small:
  assumes "nfc_ascii nfc" and "small_record d"
  shows "sdk_canonicalize nfc budget (RawValue (PDict d)) = Inr (utf8_bytes (text_of (PDict d)))"
proof -
  have c: "canonical_value nfc 1 (PDict d)" by (rule small_record_canonical [OF assms])
  have "length (utf8_bytes (text_of (PDict d))) \<le> MAX_INPUT_BYTES"
    using small_record_text [OF assms(2)]
    by (simp add: length_utf8_ascii MAX_INPUT_BYTES_def del: text_of_simps)
  then show ?thesis
    using sdk_canonicalize_eq [of nfc budget "RawValue (PDict d)", OF _ c] sdk_normalize_id [OF c]
    by (simp add: sdk_input_value_def del: One_nat_def)
qed

lemma canonical_text_small:
  "nfc_ascii nfc \<Longrightarrow> small_record d \<Longrightarrow> canonical_text nfc budget (PDict d) = Inr (PStr (text_of (PDict d)))"
  by (simp add: canonical_text_def input_of_def canonicalize_small utf8_decode_bytes
      ascii_scalars small_record_text del: text_of_simps)

lemma object_id_small:
  "nfc_ascii nfc \<Longrightarrow> small_record d \<Longrightarrow>
     object_id_of h nfc budget (PDict d) = Inr (PStr (sha256_ref h (utf8_bytes (text_of (PDict d)))))"
  by (simp add: object_id_of_def sdk_object_id_def input_of_def canonicalize_small del: text_of_simps)

lemma small_record_dpop: "small_record d \<Longrightarrow> small_record (dpop d k)"
  using le_trans [OF length_filter_le [of "\<lambda>kv. fst kv \<noteq> lit k" d]] distinct_keys_dpop [of d k]
  by (auto simp: small_record_def dpop_def)

lemma small_record_projection: "small_record d \<Longrightarrow> small_record (projection d)"
  by (simp only: projection_def small_record_dpop)

lemma derive_small:
  assumes "nfc_ascii nfc" and "small_record d" and "has_key d ''message_id''" and "has_key d ''signature''"
  shows "sdk_derive_message_id h nfc budget d =
    Inr (sha256_ref h (MESSAGE_ID_DOMAIN @ utf8_bytes (text_of (PDict (projection d)))))"
  using assms canonicalize_small [OF assms(1) small_record_projection [OF assms(2)]]
  by (simp add: sdk_derive_message_id_def projection_def Let_def del: text_of_simps)

section \<open>Field formats\<close>

lemma is_str_str_of: "is_str v \<longleftrightarrow> v = PStr (str_of v)"
  by (cases v) simp_all

lemma ascii_formats: "ascii_rx NODE_ID" "ascii_rx SHA256_REF" "ascii_rx TIMESTAMP"
  by (simp_all add: NODE_ID_def SHA256_REF_def TIMESTAMP_def digits_rx_def lower_digit_def
      hex_cls_def digit_cls_def rng_def chars_def)

lemma format_bounds: "rx_bound NODE_ID = Some 137" "rx_bound SHA256_REF = Some 71"
  "rx_bound TIMESTAMP = Some 20"
  by (simp_all add: NODE_ID_def SHA256_REF_def TIMESTAMP_def digits_rx_def)

lemma format_field:
  assumes "is_str v \<and> rx_match r (str_of v)" and "ascii_rx r" and "rx_bound r = Some n" and "n \<le> 137"
  shows "field_value v"
  using assms rx_match_ascii [of r "str_of v"] rx_match_bound [of r "str_of v" n]
  by (auto simp: field_value_def ascii_def is_str_str_of)

lemma node_id_field: "is_node_id v \<Longrightarrow> field_value v"
  unfolding is_node_id_def by (rule format_field [OF _ ascii_formats(1) format_bounds(1)]) simp_all

lemma sha256_ref_field: "is_sha256_ref v \<Longrightarrow> field_value v"
  unfolding is_sha256_ref_def by (rule format_field [OF _ ascii_formats(2) format_bounds(2)]) simp_all

lemma timestamp_field: "is_timestamp v \<Longrightarrow> field_value v"
  unfolding is_timestamp_def by (rule format_field [OF _ ascii_formats(3) format_bounds(3)]) simp_all

lemma in_cls_hex: "in_cls c hex_cls \<longleftrightarrow> (48 \<le> c \<and> c \<le> 57) \<or> (97 \<le> c \<and> c \<le> 102)"
  by (auto simp: in_cls_def hex_cls_def rng_def)

lemma is_sha256_ref_iff:
  "is_sha256_ref v \<longleftrightarrow> (\<exists>t. v = PStr (lit ''sha256:'' @ t) \<and> length t = 64 \<and>
     (\<forall>c \<in> set t. (48 \<le> c \<and> c \<le> 57) \<or> (97 \<le> c \<and> c \<le> 102)))"
  by (auto simp: is_sha256_ref_def is_str_str_of SHA256_REF_def match_lit_Rep in_cls_hex
      simp del: rlit.simps)

lemma sha256_ref_is_ref: "digest32 h \<Longrightarrow> is_sha256_ref (PStr (sha256_ref h b))"
  using hexdigest_digits
  by (auto simp: is_sha256_ref_iff sha256_ref_def length_hexdigest digest32_def)

lemma zero_ref_is_ref: "is_sha256_ref zero_ref"
  by (simp add: is_sha256_ref_iff zero_ref_def)

lemma message_class_field:
  "is_str v \<Longrightarrow> str_of v \<in> set (map lit MESSAGE_CLASSES) \<Longrightarrow> field_value v"
  by (cases v) (auto simp: field_value_def MESSAGE_CLASSES_def lit_def)

lemma literal_field: "(\<forall>c \<in> set s. of_char c < (128 :: nat)) \<Longrightarrow> length s \<le> 137 \<Longrightarrow> field_value (PS s)"
  by (auto simp: field_value_def intro: ascii_lit)

section \<open>Envelopes\<close>

definition spec_fields_ok :: "pydict \<Rightarrow> bool" where
  "spec_fields_ok s \<longleftrightarrow>
     is_node_id (dget s ''sender'') \<and> is_node_id (dget s ''recipient'') \<and>
     (\<exists>c \<in> set MESSAGE_CLASSES. dget s ''message_class'' = PS c) \<and>
     is_sha256_ref (dget s ''payload_ref'') \<and>
     (dget s ''provenance_ref'' = PNone \<or> is_sha256_ref (dget s ''provenance_ref'')) \<and>
     is_timestamp (dget s ''issued_at'') \<and>
     (dget s ''expires_at'' = PNone \<or> is_timestamp (dget s ''expires_at''))"

lemma validate_envelope_spec_iff:
  "validate_envelope_spec (PDict s) err = Inr () \<longleftrightarrow> keys_are s SPEC_KEYS \<and> spec_fields_ok s"
  by (auto simp: validate_envelope_spec_def Let_def spec_fields_ok_def is_str_str_of image_iff)

lemma validate_envelope_spec_dict: "validate_envelope_spec v err = Inr () \<Longrightarrow> \<exists>s. v = PDict s"
  by (cases v) (auto simp: validate_envelope_spec_def)

lemma spec_fields_values:
  assumes "spec_fields_ok s" and "k \<in> set SPEC_KEYS"
  shows "field_value (dget s k)"
proof -
  have "field_value (dget s ''message_class'')"
    using assms(1) message_class_field [of "dget s ''message_class''"]
    by (auto simp: spec_fields_ok_def)
  then show ?thesis
    using assms by (auto simp: SPEC_KEYS_def spec_fields_ok_def field_value_def [of PNone]
        intro: node_id_field sha256_ref_field timestamp_field)
qed

lemma dget_spec_of: "k \<in> set SPEC_KEYS \<Longrightarrow> dget (spec_of e) k = dget e k"
  by (auto simp: spec_of_def SPEC_KEYS_def)

lemma spec_of_fields: "spec_fields_ok (spec_of e) \<longleftrightarrow> spec_fields_ok e"
  by (simp add: spec_fields_ok_def dget_spec_of SPEC_KEYS_def)

lemma keys_spec_of: "keys_are (spec_of e) SPEC_KEYS"
  by (simp add: keys_are_def spec_of_def SPEC_KEYS_def)

definition envelope_ok ::
  "(bytes \<Rightarrow> bytes) \<Rightarrow> (pystr \<Rightarrow> pystr) \<Rightarrow> nat \<Rightarrow> pydict \<Rightarrow> bool" where
  "envelope_ok h nfc budget e \<longleftrightarrow>
     keys_are e ENVELOPE_KEYS \<and> dget e ''protocol'' = PS WIRE_PROTOCOL \<and>
     dget e ''authority_claim'' = PS ''none'' \<and> dget e ''signature'' = PNone \<and> spec_fields_ok e \<and>
     is_sha256_ref (dget e ''message_id'') \<and>
     (\<exists>i. sdk_derive_message_id h nfc budget e = Inr i \<and> dget e ''message_id'' = PStr i)"

lemma validate_unsigned_envelope_iff:
  "validate_unsigned_envelope h nfc budget (PDict e) = Inr () \<longleftrightarrow> envelope_ok h nfc budget e"
  by (cases "sdk_derive_message_id h nfc budget e")
    (auto simp: validate_unsigned_envelope_def Let_def envelope_ok_def bindE_eq_Inr failIf_eq_Inr
      validate_envelope_spec_iff spec_of_fields keys_spec_of)

lemma validate_unsigned_envelope_dict:
  "validate_unsigned_envelope h nfc budget v = Inr () \<Longrightarrow> \<exists>e. v = PDict e"
  by (cases v) (auto simp: validate_unsigned_envelope_def)

lemma keys_has_key: "keys_are d ks \<Longrightarrow> k \<in> set ks \<Longrightarrow> has_key d k"
  using keys_are_lookup [of d ks k] by (auto simp: has_key_def)

lemma keys_are_member: "keys_are d ks \<Longrightarrow> kv \<in> set d \<Longrightarrow> \<exists>k \<in> set ks. fst kv = lit k"
  by (force simp: keys_are_def)

lemma length_keys_are:
  assumes "keys_are d ks" and "distinct (map fst d)"
  shows "length d \<le> length ks"
proof -
  have "length d = card (set (map fst d))" using assms(2) distinct_card by force
  also have "\<dots> = card (set (map lit ks))" using assms(1) by (simp add: keys_are_def)
  also have "\<dots> \<le> length ks" using card_length [of "map lit ks"] by simp
  finally show ?thesis .
qed

lemma dget_member: "distinct (map fst d) \<Longrightarrow> (lit k, v) \<in> set d \<Longrightarrow> dget d k = v"
  by (simp add: dget_def lookup_Some_iff [THEN iffD2])

lemma envelope_small:
  assumes "envelope_ok h nfc budget e" and "distinct (map fst e)"
  shows "small_record e"
proof -
  have keys: "keys_are e ENVELOPE_KEYS" and spec: "spec_fields_ok e"
    using assms(1) by (simp_all add: envelope_ok_def)
  have "ascii (fst kv) \<and> length (fst kv) \<le> 32 \<and> field_value (snd kv)" if kv: "kv \<in> set e" for kv
  proof -
    obtain k where k: "k \<in> set ENVELOPE_KEYS" "fst kv = lit k"
      using keys_are_member [OF keys kv] by blast
    have v: "dget e k = snd kv"
      using dget_member [OF assms(2), of k "snd kv"] kv k(2) by (metis prod.collapse)
    have "field_value (dget e k)"
    proof (cases "k \<in> set SPEC_KEYS")
      case True
      then show ?thesis by (rule spec_fields_values [OF spec])
    next
      case False
      with k(1) have "k \<in> {''protocol'', ''message_id'', ''authority_claim'', ''signature''}"
        by (auto simp: ENVELOPE_KEYS_def SPEC_KEYS_def)
      then show ?thesis using assms(1)
        by (auto simp: envelope_ok_def WIRE_PROTOCOL_def field_value_def [of PNone]
            intro: sha256_ref_field intro!: literal_field)
    qed
    moreover have "ascii (lit k) \<and> length (lit k) \<le> 32"
      using k(1) by (auto simp: ENVELOPE_KEYS_def lit_def)
    ultimately show ?thesis using k v by simp
  qed
  moreover have "length e \<le> 11" using length_keys_are [OF keys assms(2)] by (simp add: ENVELOPE_KEYS_def)
  ultimately show ?thesis using assms(2) by (simp add: small_record_def member_value_def)
qed

end
