(* ===== verification/Canonical_Properties.thy ===== *)
theory Canonical_Properties
  imports Sdk_Envelope
begin

text \<open>
  The properties of the canonical JSON profile and of the identities built on it, for
  \<open>tools/qsol_canonical.py\<close> and for the Python SDK. Each is a few steps over the laws of
  \<open>Canonical_Laws\<close>, \<open>Sdk_Laws\<close> and the locale \<open>content_encoding\<close>. The witnesses run the code on
  concrete texts with a normalisation function that composes one pair of code points.
\<close>

section \<open>A concrete normalisation and a concrete digest for the witnesses\<close>

fun nfc_demo :: "pystr \<Rightarrow> pystr" where
  "nfc_demo (c # d # r) = (if c = 101 \<and> d = 769 then 233 # nfc_demo r else c # nfc_demo (d # r))"
| "nfc_demo s = s"

definition sha_demo :: "bytes \<Rightarrow> bytes" where
  "sha_demo b = take 32 (rev b @ replicate 32 0)"

lemma nfc_demo_hd: "nfc_demo (d # r) = 769 # s \<Longrightarrow> d = 769"
  by (cases r) (auto split: if_splits)

lemma nfc_demo_Cons: "\<not> (c = 101 \<and> (\<exists>s. r = 769 # s)) \<Longrightarrow> nfc_demo (c # r) = c # nfc_demo r"
  by (cases r) auto

lemma nfc_demo_idempotent: "nfc_idempotent nfc_demo"
proof -
  have "nfc_demo (nfc_demo s) = nfc_demo s" for s
  proof (induction s rule: nfc_demo.induct)
    case (1 c d r)
    show ?case
    proof (cases "c = 101 \<and> d = 769")
      case True
      then show ?thesis using 1 by (simp add: nfc_demo_Cons)
    next
      case False
      have "\<not> (c = 101 \<and> (\<exists>s. nfc_demo (d # r) = 769 # s))"
        using False nfc_demo_hd by blast
      with False 1(2) show ?thesis by (simp add: nfc_demo_Cons del: nfc_demo.simps(1))
    qed
  qed simp_all
  then show ?thesis by (simp add: nfc_idempotent_def)
qed

lemma nfc_demo_ascii: "nfc_ascii nfc_demo"
proof -
  have "ascii s \<Longrightarrow> nfc_demo s = s" for s
    by (induction s rule: nfc_demo.induct) auto
  then show ?thesis by (simp add: nfc_ascii_def)
qed

lemma sha_demo_32: "digest32 sha_demo"
  by (auto simp: digest32_def sha_demo_def min_def)

section \<open>Bytes and values\<close>

text \<open>C1: Canonicalising is idempotent: the canonical bytes decode to a text whose canonical bytes are
  themselves, whenever they still fit the input limit.\<close>

theorem canonicalize_idempotent:
  assumes "nfc_idempotent nfc" and "MAX_DEPTH \<le> budget"
    and "canonicalize nfc budget raw = Inr b" and "length b \<le> MAX_INPUT_BYTES"
  shows "\<exists>s. utf8_decode b = Inr s \<and> canonicalize nfc budget s = Inr b"
proof -
  obtain v where v: "canonical_value nfc 1 v" "b = utf8_bytes (text_of v)"
    by (rule canonicalize_Inr [OF assms(1,3)])
  have "parse nfc budget (text_of v) = Inr (ordered v)"
    using parse_text_of [OF v(1) assms(2)] assms(4) v(2) by simp
  then have "canonicalize nfc budget (text_of v) = Inr b"
    using canonicalize_eq [OF assms(1)] text_of_ordered [OF v(1)] v(2) by simp
  moreover have "utf8_decode b = Inr (text_of v)"
    using v utf8_decode_bytes scalars_text_of by simp
  ultimately show ?thesis by blast
qed

definition demo_text :: pystr where
  "demo_text = lit ''{ \"b\":[1, true,null],\"a\":\"e'' @ [769] @ lit ''\"}''"

definition demo_bytes :: bytes where
  "demo_bytes = utf8_bytes (lit ''{\"a\":\"'' @ [233] @ lit ''\",\"b\":[1,true,null]}'')"

lemma demo_canonicalize: "canonicalize nfc_demo 32 demo_text = Inr demo_bytes"
  by code_simp

theorem canonicalize_idempotent_witness:
  "\<exists>s. utf8_decode demo_bytes = Inr s \<and> canonicalize nfc_demo 32 s = Inr demo_bytes"
  by (rule canonicalize_idempotent [OF nfc_demo_idempotent _ demo_canonicalize]) code_simp+

text \<open>C2: Two inputs have the same canonical bytes exactly if they denote the same value, the order of
  object members apart.\<close>

theorem canonical_bytes_iff_same_value:
  assumes "nfc_idempotent nfc"
    and "canonicalize nfc budget raw = Inr b" and "canonicalize nfc budget raw' = Inr b'"
  shows "b = b' \<longleftrightarrow>
    (\<exists>v v'. parse nfc budget raw = Inr v \<and> parse nfc budget raw' = Inr v' \<and> ordered v = ordered v')"
proof -
  obtain v where v: "parse nfc budget raw = Inr v" "canonical_value nfc 1 v" "b = utf8_bytes (text_of v)"
    by (rule canonicalize_Inr [OF assms(1,2)])
  obtain v' where v': "parse nfc budget raw' = Inr v'" "canonical_value nfc 1 v'" "b' = utf8_bytes (text_of v')"
    by (rule canonicalize_Inr [OF assms(1,3)])
  show ?thesis using v v' text_of_eq_iff [OF v(2) v'(2)] by simp
qed

definition demo_text2 :: pystr where
  "demo_text2 = lit ''{\"a\":\"'' @ [233] @ lit ''\", \"b\": [1,true, null]}''"

lemma demo_canonicalize2: "canonicalize nfc_demo 32 demo_text2 = Inr demo_bytes"
  by code_simp

theorem canonical_bytes_iff_same_value_witness:
  "\<exists>v v'. parse nfc_demo 32 demo_text = Inr v \<and> parse nfc_demo 32 demo_text2 = Inr v' \<and>
    ordered v = ordered v'"
  using canonical_bytes_iff_same_value [OF nfc_demo_idempotent demo_canonicalize demo_canonicalize2]
  by simp

text \<open>C5: A value of the profile (depth, sizes, integer range, normalised keys and texts, distinct keys)
  is printed without error and parsed back as the same value with its members in key order.\<close>

theorem parse_serialize_roundtrip:
  assumes "canonical_value nfc 1 v" and "MAX_DEPTH \<le> budget"
    and "length (utf8_bytes (text_of v)) \<le> MAX_INPUT_BYTES"
  shows "bindE (serialize nfc v) (parse nfc budget) = Inr (ordered v)"
  using serialize_canonical [OF assms(1)] parse_text_of [OF assms] by simp

definition demo_value :: pyval where
  "demo_value = PDict [(lit ''b'', PList [PInt (-1), PBool True, PNone]), (lit ''a'', PStr [233, 9])]"

theorem parse_serialize_roundtrip_witness:
  "bindE (serialize nfc_demo demo_value) (parse nfc_demo 32) = Inr (ordered demo_value)"
  by (rule parse_serialize_roundtrip) code_simp+

text \<open>C6: Whatever \<open>parse\<close> accepts satisfies every limit of the profile: nesting of at most 32, at most
  1024 members and items, texts in normal form of at most 8192 octets without surrogates, integers
  within 53 bits, distinct keys, no floats.\<close>

theorem parse_enforces_limits:
  assumes "nfc_idempotent nfc" and "parse nfc budget raw = Inr v"
  shows "canonical_value nfc 1 v"
  by (rule parse_canonical [OF assms])

lemma demo_parse: "parse nfc_demo 32 (lit ''[{\"a\":0},7]'') =
    Inr (PList [PDict [(lit ''a'', PInt 0)], PInt 7])"
  by code_simp

theorem parse_enforces_limits_witness:
  "canonical_value nfc_demo 1 (PList [PDict [(lit ''a'', PInt 0)], PInt 7])"
  by (rule parse_enforces_limits [OF nfc_demo_idempotent demo_parse])

lemma normalize_members_map:
  "normalize_members nfc k raw seen ps = Inr d \<Longrightarrow> map fst d = map (\<lambda>kv. nfc (fst kv)) ps"
proof (induction ps arbitrary: raw seen d)
  case (Cons kv ps)
  then show ?case
    by (cases kv) (auto simp: bindE_eq_Inr nfc_str_def Let_def split: if_splits)
qed simp

fun members_distinct :: "(pystr \<Rightarrow> pystr) \<Rightarrow> pyval \<Rightarrow> bool" where
  "members_distinct nfc (PList xs) = list_all (members_distinct nfc) xs"
| "members_distinct nfc (PPairs ps) =
     (distinct (map (\<lambda>kv. nfc (fst kv)) ps) \<and> list_all (\<lambda>kv. members_distinct nfc (snd kv)) ps)"
| "members_distinct nfc _ = True"

lemma normalize_members_distinct:
  "normalize nfc k v = Inr w \<Longrightarrow> members_distinct nfc v"
  "normalize_members nfc k raw seen ps = Inr d \<Longrightarrow> list_all (\<lambda>kv. members_distinct nfc (snd kv)) ps"
  "normalize_items nfc k xs = Inr ys \<Longrightarrow> list_all (members_distinct nfc) xs"
proof (induction nfc k v and nfc k raw seen ps and nfc k xs
    arbitrary: w and d and ys rule: normalize_normalize_members_normalize_items.induct)
  case (1 nfc depth v)
  show ?case
  proof (cases v)
    case (PPairs ps)
    with "1.prems" obtain d where d: "normalize_members nfc (depth + 1) [] [] ps = Inr d"
      "depth \<le> MAX_DEPTH" "length ps \<le> MAX_OBJECT_MEMBERS"
      by (auto simp: normalize_kinds)
    with "1.IH"(2) [of ps d] PPairs normalize_members_map [OF d(1)] normalize_members_keys [OF d(1)]
    show ?thesis by auto
  next
    case (PList xs)
    with "1.prems" "1.IH"(1) show ?thesis by (auto simp: normalize_kinds)
  qed simp_all
next
  case (3 nfc depth raw seen raw_key child ps)
  from "3.prems" obtain key v d' where key: "raw_key \<notin> set raw" "nfc_str nfc raw_key = Inr key"
    "key \<notin> set seen" and v: "normalize nfc depth child = Inr v"
    and rec: "normalize_members nfc depth (raw_key # raw) (key # seen) ps = Inr d'"
    by (auto simp: bindE_eq_Inr split: if_splits)
  from "3.IH"(1) [OF key v] "3.IH"(2) [OF key v rec] show ?case by simp
next
  case (5 nfc depth x xs)
  then show ?case by (auto simp: bindE_eq_Inr)
qed simp_all

text \<open>No member of an object is ever dropped silently: a text that has, at any depth, an object with two
  keys of the same normal form is refused.\<close>

theorem duplicate_members_refused:
  assumes "json_loads canonical_hooks budget raw = Inr v" and "\<not> members_distinct nfc v"
  shows "\<exists>e. parse nfc budget raw = Inl e"
proof (rule ccontr)
  assume "\<nexists>e. parse nfc budget raw = Inl e"
  then obtain w where "parse nfc budget raw = Inr w" by (cases "parse nfc budget raw") auto
  then have "normalize nfc 1 v = Inr w"
    using assms(1) by (auto simp: parse_def bindE_eq_Inr split: if_splits)
  with normalize_members_distinct(1) assms(2) show False by blast
qed

definition demo_duplicates :: pystr where
  "demo_duplicates = lit ''[{\"e'' @ [769] @ lit ''\":1,\"'' @ [233] @ lit ''\":2}]''"

lemma demo_duplicate: "json_loads canonical_hooks 32 demo_duplicates =
    Inr (PList [PPairs [([101, 769], PInt 1), ([233], PInt 2)]])"
  by code_simp

theorem duplicate_members_refused_witness: "\<exists>e. parse nfc_demo 32 demo_duplicates = Inl e"
  by (rule duplicate_members_refused [OF demo_duplicate]) simp

text \<open>Canonicalising fails only where parsing fails: the serialiser never raises on a parsed value.\<close>

theorem canonicalize_fails_only_in_parse:
  assumes "nfc_idempotent nfc"
  shows "canonicalize nfc budget raw = Inl e \<longleftrightarrow> parse nfc budget raw = Inl e"
proof (cases "parse nfc budget raw")
  case (Inl e')
  then show ?thesis by (simp add: canonicalize_def)
next
  case (Inr v)
  then show ?thesis using canonicalize_eq [OF assms Inr] by simp
qed

theorem canonicalize_fails_only_in_parse_witness:
  "canonicalize nfc_demo 32 (lit ''[01]'') = Inl (CanonicalError ''malformed_json'')"
  using canonicalize_fails_only_in_parse [OF nfc_demo_idempotent, of 32 "lit ''[01]''"]
  by (rule iffD2) code_simp

text \<open>
  The exceptions of the scanner: it commutes with every renaming that fixes the ones it can raise.
\<close>

definition parse_exception :: "exn \<Rightarrow> bool" where
  "parse_exception e \<longleftrightarrow> (\<exists>c. e = CanonicalError c) \<or> (\<exists>c t. e = CanonicalErrorFor c t) \<or>
     e = UnicodeEncodeError \<or> e = ValueError \<or> e = RecursionError"

lemma json_loads_exception:
  assumes "json_loads canonical_hooks budget raw = Inl e"
  shows "e = JSONDecodeError \<or> parse_exception e"
proof -
  let ?f = "\<lambda>e. if e = JSONDecodeError \<or> parse_exception e then e else JSONDecodeError"
  have "hooks_agree ?f canonical_hooks canonical_hooks"
    by (auto simp: hooks_agree_def canonical_hooks_def parse_exception_def)
  from json_loads_map_err [OF this, of budget raw] assms show ?thesis
    by (auto split: if_splits)
qed

lemma normalize_exception:
  "normalize nfc k v = Inl e \<Longrightarrow> parse_exception e"
  "normalize_members nfc k raw seen ps = Inl e \<Longrightarrow> parse_exception e"
  "normalize_items nfc k xs = Inl e \<Longrightarrow> parse_exception e"
proof (induction nfc k v and nfc k raw seen ps and nfc k xs
    arbitrary: e and e and e rule: normalize_normalize_members_normalize_items.induct)
  case (1 nfc depth v)
  then show ?case
    by (cases v) (auto simp: normalize.simps [of nfc depth] nfc_str_def utf8_encode_def Let_def
        parse_exception_def bindE_eq_Inl split: if_splits)
next
  case (3 nfc depth raw seen raw_key child ps)
  then show ?case
    by (auto simp: nfc_str_def utf8_encode_def Let_def parse_exception_def bindE_eq_Inl bindE_eq_Inr
        split: if_splits) blast+
qed (auto simp: bindE_eq_Inl)

text \<open>Besides its own CanonicalError, \<open>parse\<close> lets at most three exceptions of the library through: the
  UnicodeEncodeError of a text that is not encodable, the ValueError of an integer of too many
  digits and the RecursionError of a nesting beyond the interpreter's budget.\<close>

theorem parse_exceptions:
  assumes "parse nfc budget raw = Inl e"
  shows "parse_exception e"
proof (cases "json_loads canonical_hooks budget raw")
  case (Inl x)
  with assms json_loads_exception [OF Inl] show ?thesis
    by (auto simp: parse_def parse_exception_def reraise_malformed_def utf8_encode_def bindE_eq_Inl
        split: if_splits)
next
  case (Inr v)
  with assms normalize_exception(1) [of nfc 1 v e] show ?thesis
    by (auto simp: parse_def parse_exception_def utf8_encode_def bindE_eq_Inl split: if_splits)
qed

lemma demo_surrogate: "parse nfc_demo 32 [34, 0xD800, 34] = Inl UnicodeEncodeError"
  by code_simp

theorem parse_exceptions_witness: "parse_exception UnicodeEncodeError"
  by (rule parse_exceptions [OF demo_surrogate])

lemma replicate_ones:
  "takeWhile is_digit (replicate n 49) = replicate n 49" "dropWhile is_digit (replicate n 49) = []"
  by (induction n) (simp_all add: is_digit_def)

lemma utf8_ones: "length (utf8_bytes (replicate n 49)) = n" "scalars (replicate n 49)"
  by (induction n) (simp_all add: utf8_char_def utf8_octets_def scalar_ascii)

text \<open>An integer of more than 4300 digits is not reported as a CanonicalError: the ValueError of the
  interpreter's conversion limit leaves \<open>parse\<close>, although the text is within the size limit.\<close>

theorem long_integer_escapes_as_ValueError:
  assumes "int_max_str_digits < n" and "n \<le> MAX_INPUT_BYTES"
  shows "parse nfc budget (replicate n 49) = Inl ValueError"
proof -
  obtain m where n: "n = Suc m" using assms(1) by (cases n) (auto simp: int_max_str_digits_def)
  have scan: "scan_once canonical_hooks inner (replicate n 49) = Inl ValueError" for inner
    using assms(1) unfolding n
    by (simp add: scan_once_def scan_number_def number_int_def is_digit_def replicate_ones
        number_frac_def number_exp_def py_int_def)
  have "scan_value canonical_hooks budget (replicate n 49) = Inl ValueError"
    by (cases budget) (simp_all add: scan)
  moreover have "skip_ws (replicate n 49) = replicate n 49"
    unfolding n by (simp add: is_ws_def)
  moreover have "\<not> starts_with (replicate n (49 :: nat)) [0xFEFF]"
    unfolding n by simp
  ultimately have loads: "json_loads canonical_hooks budget (replicate n 49) = Inl ValueError"
    by (simp add: json_loads_def)
  have bom: "\<not> starts_with (utf8_bytes (replicate n 49)) [0xEF, 0xBB, 0xBF]"
    unfolding n replicate_Suc by (rule utf8_starts_ascii) simp
  show ?thesis
    using assms(2) by (simp add: parse_def utf8_ones loads bom reraise_malformed_def)
qed

theorem long_integer_escapes_as_ValueError_witness:
  "parse nfc_demo 32 (replicate 4301 49) = Inl ValueError"
  by (rule long_integer_escapes_as_ValueError)
    (simp_all add: int_max_str_digits_def MAX_INPUT_BYTES_def)

section \<open>Identities\<close>

text \<open>An object identity binds the value: two texts with the same identity denote the same value, the
  order of members apart, or they exhibit a SHA-256 collision.\<close>

theorem object_id_binds_value:
  assumes "nfc_idempotent nfc"
    and "object_id h nfc budget raw = Inr i" and "object_id h nfc budget raw' = Inr i"
  shows "(\<exists>v v'. parse nfc budget raw = Inr v \<and> parse nfc budget raw' = Inr v' \<and> ordered v = ordered v')
    \<or> collision h"
proof -
  from tool_object.identity_binds [OF assms(1), of h "[]" budget raw i raw'] assms(2,3)
  show ?thesis by (auto simp: object_id_identity meaning_by_def bindE_eq_Inr)
qed

lemma demo_object_ids:
  "object_id sha_demo nfc_demo 32 demo_text = object_id sha_demo nfc_demo 32 demo_text2"
  "\<exists>i. object_id sha_demo nfc_demo 32 demo_text2 = Inr i"
  by (simp_all add: object_id_def demo_canonicalize demo_canonicalize2)

theorem object_id_binds_value_witness:
  "(\<exists>v v'. parse nfc_demo 32 demo_text = Inr v \<and> parse nfc_demo 32 demo_text2 = Inr v' \<and>
    ordered v = ordered v') \<or> collision sha_demo"
  using object_id_binds_value [OF nfc_demo_idempotent, of sha_demo 32 demo_text _ demo_text2]
    demo_object_ids by metis

text \<open>A message identity is a function of the signed projection alone: replacing \<open>message_id\<close> and
  \<open>signature\<close> or reordering members never changes it; and equal identities mean equal projections,
  or a SHA-256 collision.\<close>

theorem message_id_identifies_projection:
  assumes "nfc_idempotent nfc" and "\<not> collision h"
    and "derive_message_id h nfc budget raw = Inr i" and "derive_message_id h nfc budget raw' = Inr j"
  shows "i = j \<longleftrightarrow> (\<exists>d d'. parse nfc budget raw = Inr (PDict d) \<and> parse nfc budget raw' = Inr (PDict d') \<and>
    ordered (PDict (dpop (dpop d ''message_id'') ''signature'')) =
    ordered (PDict (dpop (dpop d' ''message_id'') ''signature'')))"
proof -
  have projected: "\<exists>d. parse nfc budget r = Inr (PDict d) \<and>
      meaning_by (envelope_projection nfc budget) r =
        Inr (ordered (PDict (dpop (dpop d ''message_id'') ''signature'')))"
    if "derive_message_id h nfc budget r = Inr k" for r k
    using that
    by (cases "parse nfc budget r"; cases "projr (parse nfc budget r)")
      (auto simp: derive_message_id_def meaning_by_def envelope_projection_def projection_def
        simp del: ordered_simps split: if_splits)
  obtain d d' where "parse nfc budget raw = Inr (PDict d)" "parse nfc budget raw' = Inr (PDict d')"
    "meaning_by (envelope_projection nfc budget) raw =
        Inr (ordered (PDict (dpop (dpop d ''message_id'') ''signature'')))"
    "meaning_by (envelope_projection nfc budget) raw' =
        Inr (ordered (PDict (dpop (dpop d' ''message_id'') ''signature'')))"
    using projected [OF assms(3)] projected [OF assms(4)] by blast
  with tool_message.identity_iff [OF assms(1,2), of MESSAGE_ID_DOMAIN budget raw i raw' j] assms(3,4)
  show ?thesis by (simp add: derive_message_id_identity del: ordered_simps)
qed

definition digest_self :: "bytes \<Rightarrow> bytes" where
  "digest_self b = b"

lemma digest_self_injective: "\<not> collision digest_self"
  by (simp add: collision_def digest_self_def)

definition demo_envelope :: "string \<Rightarrow> pystr" where
  "demo_envelope sig = lit (''{\"message_id\":\"x\",\"signature\":'' @ sig @ '',\"n\":1}'')"

lemma demo_parse_envelopes:
  "parse nfc_demo 32 (demo_envelope ''null'') =
     Inr (PDict [(lit ''message_id'', PS ''x''), (lit ''signature'', PNone), (lit ''n'', PInt 1)])"
  "parse nfc_demo 32 (demo_envelope ''[2]'') =
     Inr (PDict [(lit ''message_id'', PS ''x''), (lit ''signature'', PList [PInt 2]), (lit ''n'', PInt 1)])"
  by code_simp+

lemma demo_serialize: "serialize nfc_demo (PDict [(lit ''n'', PInt 1)]) = Inr (lit ''{\"n\":1}'')"
  "scalars (lit ''{\"n\":1}'')"
  by code_simp+

lemma demo_message_ids:
  "derive_message_id h nfc_demo 32 (demo_envelope ''null'') =
     Inr (sha256_ref h (MESSAGE_ID_DOMAIN @ utf8_bytes (lit ''{\"n\":1}'')))"
  "derive_message_id h nfc_demo 32 (demo_envelope ''[2]'') =
     Inr (sha256_ref h (MESSAGE_ID_DOMAIN @ utf8_bytes (lit ''{\"n\":1}'')))"
  by (simp_all add: derive_message_id_def demo_parse_envelopes has_key_def dpop_def demo_serialize)

theorem message_id_identifies_projection_witness:
  "\<exists>d d'. parse nfc_demo 32 (demo_envelope ''null'') = Inr (PDict d) \<and>
     parse nfc_demo 32 (demo_envelope ''[2]'') = Inr (PDict d') \<and>
    ordered (PDict (dpop (dpop d ''message_id'') ''signature'')) =
    ordered (PDict (dpop (dpop d' ''message_id'') ''signature''))"
  using message_id_identifies_projection [OF nfc_demo_idempotent digest_self_injective demo_message_ids]
  by (simp del: ordered_simps)

lemma text_of_hd: "canonical_value nfc k v \<Longrightarrow> \<exists>c t. text_of v = c # t \<and> c \<noteq> 113 \<and> c < 128"
proof (cases v)
  case (PInt i)
  then show ?thesis using digits_hd [of "nat i"] digits_hd [of "nat (-i)"]
    by (auto simp: show_int_def is_digit_def)
qed (auto simp: lit_def quoted_def)

lemma canonical_never_domain:
  assumes "canonical_value nfc k v"
  shows "utf8_bytes (text_of v) \<noteq> MESSAGE_ID_DOMAIN @ c"
proof -
  obtain a t where "text_of v = a # t" "a \<noteq> 113" "a < 128" using text_of_hd [OF assms] by blast
  then have "hd (utf8_bytes (text_of v)) = word_of_nat a" "unat (word_of_nat a :: 8 word) = a"
    by (simp_all add: utf8_char_def utf8_octets_def unat_of_nat take_bit_nat_eq_self)
  moreover have "hd (MESSAGE_ID_DOMAIN @ c) = 113"
    by (simp add: MESSAGE_ID_DOMAIN_def)
  ultimately show ?thesis using \<open>a \<noteq> 113\<close> by auto
qed

text \<open>Object identities and message identities live in separate domains: an object whose identity
  equals some message identity exhibits a SHA-256 collision.\<close>

theorem object_and_message_ids_separated:
  assumes "nfc_idempotent nfc"
    and "object_id h nfc budget raw = Inr i" and "derive_message_id h nfc budget raw' = Inr i"
  shows "collision h"
proof (rule domain_separated)
  show "identity_of h [] (canonicalize nfc budget) raw = Inr i"
    using assms(2) by (simp add: object_id_identity)
  show "identity_of h MESSAGE_ID_DOMAIN (message_bytes nfc budget) raw' = Inr i"
    using assms(3) by (simp add: derive_message_id_identity)
  show "[] @ b \<noteq> MESSAGE_ID_DOMAIN @ c"
    if "canonicalize nfc budget raw = Inr b" "message_bytes nfc budget raw' = Inr c" for b c
    by (rule canonicalize_Inr [OF assms(1) that(1)]) (simp add: canonical_never_domain)
qed

definition sha_constant :: "bytes \<Rightarrow> bytes" where
  "sha_constant b = replicate 32 7"

lemma sha_constant_ref: "sha256_ref sha_constant b = sha256_ref sha_constant []"
  by (simp add: sha256_ref_def sha_constant_def)

lemma demo_colliding_ids:
  "object_id sha_constant nfc_demo 32 demo_text = Inr (sha256_ref sha_constant [])"
  "derive_message_id sha_constant nfc_demo 32 (demo_envelope ''null'') = Inr (sha256_ref sha_constant [])"
  by (simp_all add: object_id_def demo_canonicalize demo_message_ids sha_constant_ref [of "_ @ _"]
      sha_constant_ref [of demo_bytes])

theorem object_and_message_ids_separated_witness: "collision sha_constant"
  by (rule object_and_message_ids_separated [OF nfc_demo_idempotent demo_colliding_ids])

section \<open>The SDK and the tool\<close>

text \<open>C4: On JSON text the independent SDK implementation computes what the tool computes: the same bytes,
  an exception of its own class with the same code where the tool raises one, and a refusal of its
  own only where the output exceeds the input limit.\<close>

theorem sdk_canonicalize_agrees_with_tool:
  assumes "nfc_idempotent nfc"
  shows "sdk_canonicalize nfc budget (RawText raw) = (case canonicalize nfc budget raw of
      Inl e \<Rightarrow> Inl (as_sdk e)
    | Inr b \<Rightarrow> if MAX_INPUT_BYTES < length b then Inl (SdkError ''output_too_large'') else Inr b)"
proof (cases "parse nfc budget raw")
  case (Inl e)
  then show ?thesis by (simp add: sdk_canonicalize_def sdk_input_value_def sdk_parse_eq canonicalize_def)
next
  case (Inr v)
  have "sdk_input_value nfc budget (RawText raw) = Inr v"
    by (simp add: sdk_input_value_def sdk_parse_eq Inr)
  from sdk_canonicalize_eq [OF this parse_canonical [OF assms Inr]] canonicalize_eq [OF assms Inr]
  show ?thesis by simp
qed

theorem sdk_canonicalize_agrees_with_tool_witness:
  "sdk_canonicalize nfc_demo 32 (RawText demo_text) = Inr demo_bytes"
proof -
  have "length demo_bytes \<le> MAX_INPUT_BYTES" by code_simp
  then show ?thesis
    using sdk_canonicalize_agrees_with_tool [OF nfc_demo_idempotent, of 32 demo_text]
    by (simp add: demo_canonicalize)
qed

end
