(* ===== verification/Sdk_Properties.thy ===== *)
theory Sdk_Properties
  imports Canonical_Properties
begin

text \<open>
  The properties of the records of \<open>sdk/python/qsol_fed_sdk.py\<close> and of the participant of
  \<open>examples/neutral_research_node.py\<close>, over the lemmas of \<open>Sdk_Envelope\<close>.
\<close>

section \<open>The builder of envelopes\<close>

lemma keys_draft: "map fst (draft_envelope s) = map lit ENVELOPE_KEYS"
  by (simp add: draft_envelope_def ENVELOPE_KEYS_def)

lemma dget_draft:
  "dget (draft_envelope s) ''protocol'' = PS WIRE_PROTOCOL"
  "dget (draft_envelope s) ''message_id'' = zero_ref"
  "dget (draft_envelope s) ''authority_claim'' = PS ''none''"
  "dget (draft_envelope s) ''signature'' = PNone"
  "list_all (\<lambda>k. dget (draft_envelope s) k = dget s k) SPEC_KEYS"
  by (simp_all add: draft_envelope_def SPEC_KEYS_def)

lemma dget_draft_spec: "k \<in> set SPEC_KEYS \<Longrightarrow> dget (draft_envelope s) k = dget s k"
  using dget_draft(5) by (simp add: list_all_iff)

definition sealed :: "pydict \<Rightarrow> pystr \<Rightarrow> pydict" where
  "sealed s i = dset (draft_envelope s) (lit ''message_id'') (PStr i)"

lemma sealed_keys: "map fst (sealed s i) = map lit ENVELOPE_KEYS"
  using map_fst_dset [of "lit ''message_id''" "draft_envelope s" "PStr i"] keys_draft [of s]
  by (simp add: sealed_def draft_envelope_def ENVELOPE_KEYS_def)

lemma distinct_envelope_keys: "distinct (map lit ENVELOPE_KEYS)"
  by (simp add: ENVELOPE_KEYS_def)

lemma sealed_are: "keys_are (sealed s i) ENVELOPE_KEYS" "distinct (map fst (sealed s i))"
  by (simp_all only: keys_are_def sealed_keys distinct_envelope_keys)

lemma dget_sealed: "dget (sealed s i) k = (if k = ''message_id'' then PStr i else dget (draft_envelope s) k)"
  by (simp add: sealed_def)

lemma derive_ignores_message_id:
  "sdk_derive_message_id h nfc budget (dset d (lit ''message_id'') v) =
     (if has_key d ''signature''
      then bindE (sdk_canonicalize nfc budget (RawValue (PDict (projection d))))
             (\<lambda>b. Inr (sha256_ref h (MESSAGE_ID_DOMAIN @ b)))
      else Inl (SdkError ''envelope_projection_fields_missing''))"
  by (auto simp: sdk_derive_message_id_def projection_def Let_def has_key_def lookup_dset dpop_dset)

lemma derive_sealed:
  "sdk_derive_message_id h nfc budget (sealed s i) = sdk_derive_message_id h nfc budget (draft_envelope s)"
  by (simp add: sealed_def derive_ignores_message_id)
    (simp add: sdk_derive_message_id_def projection_def Let_def has_key_def draft_envelope_def)

lemma sealed_spec_fields: "spec_fields_ok (sealed s i) \<longleftrightarrow> spec_fields_ok s"
  by (simp add: spec_fields_ok_def dget_sealed dget_draft_spec SPEC_KEYS_def)

lemma draft_small:
  assumes "spec_fields_ok s"
  shows "small_record (draft_envelope s)"
proof -
  have "member_value (dget s k)" if "k \<in> set SPEC_KEYS" for k
    using spec_fields_values [OF assms that] by (simp add: member_value_def)
  then have vals: "member_value (dget s ''sender'')" "member_value (dget s ''recipient'')"
    "member_value (dget s ''message_class'')" "member_value (dget s ''payload_ref'')"
    "member_value (dget s ''provenance_ref'')" "member_value (dget s ''issued_at'')"
    "member_value (dget s ''expires_at'')"
    by (simp_all add: SPEC_KEYS_def)
  have "member_value (PS WIRE_PROTOCOL)" "member_value zero_ref" "member_value (PS ''none'')"
    "member_value PNone"
    using sha256_ref_field [OF zero_ref_is_ref]
    by (auto simp: member_value_def WIRE_PROTOCOL_def field_value_def [of PNone] intro!: literal_field)
  with vals show ?thesis
    by (simp add: small_record_def draft_envelope_def) (simp add: lit_def)
qed

lemma build_unsigned_envelope_eq:
  assumes "nfc_ascii nfc" and "digest32 h" and "keys_are s SPEC_KEYS" and "spec_fields_ok s"
  defines "i \<equiv> sha256_ref h (MESSAGE_ID_DOMAIN @ utf8_bytes (text_of (PDict (projection (draft_envelope s)))))"
  shows "build_unsigned_envelope h nfc budget (PDict s) = Inr (sealed s i) \<and>
    envelope_ok h nfc budget (sealed s i)"
proof -
  have derive: "sdk_derive_message_id h nfc budget (draft_envelope s) = Inr i"
    unfolding i_def by (rule derive_small [OF assms(1) draft_small [OF assms(4)]])
      (simp_all add: has_key_def draft_envelope_def)
  have ok: "envelope_ok h nfc budget (sealed s i)"
    using assms(4) derive sha256_ref_is_ref [OF assms(2)]
    by (simp add: envelope_ok_def sealed_are dget_sealed dget_draft sealed_spec_fields derive_sealed i_def)
  have "validate_unsigned_envelope h nfc budget (PDict (sealed s i)) = Inr ()"
    using ok by (simp add: validate_unsigned_envelope_iff)
  moreover have "validate_envelope_spec (PDict s) ''sdk_envelope_input_invalid'' = Inr ()"
    using assms(3,4) by (simp add: validate_envelope_spec_iff)
  ultimately show ?thesis
    using ok derive by (simp add: build_unsigned_envelope_def Let_def sealed_def [symmetric])
qed

lemma envelope_value_canonical:
  assumes "nfc_ascii nfc" and "envelope_ok h nfc budget e" and "distinct (map fst e)"
  shows "meaning_by (sdk_input_value nfc budget) (sdk_projected e) = Inr (ordered (PDict (projection e)))"
proof -
  have "canonical_value nfc 1 (PDict (projection e))"
    by (rule small_record_canonical [OF assms(1) small_record_projection [OF envelope_small [OF assms(2,3)]]])
  from sdk_normalize_id [OF this] show ?thesis
    by (simp add: meaning_by_def sdk_projected_def sdk_input_value_def del: ordered_simps One_nat_def)
qed

lemma ordered_field: "field_value v \<Longrightarrow> ordered v = v"
  by (auto simp: field_value_def)

text \<open>Every key of an envelope is one of the fixed fields, or bound by the projection.\<close>

lemma envelope_fields:
  assumes "envelope_ok h nfc budget e" and "k \<in> set ENVELOPE_KEYS" and "k \<noteq> ''message_id''"
  shows "field_value (dget e k)"
proof (cases "k \<in> set SPEC_KEYS")
  case True
  then show ?thesis using assms(1) spec_fields_values by (auto simp: envelope_ok_def)
next
  case False
  with assms(2,3) have "k \<in> {''protocol'', ''authority_claim'', ''signature''}"
    by (auto simp: ENVELOPE_KEYS_def SPEC_KEYS_def)
  then show ?thesis using assms(1)
    by (auto simp: envelope_ok_def WIRE_PROTOCOL_def field_value_def [of PNone] intro!: literal_field)
qed

lemma dget_projection: "k \<noteq> ''message_id'' \<Longrightarrow> k \<noteq> ''signature'' \<Longrightarrow> dget (projection e) k = dget e k"
  by (simp add: dget_def projection_def lookup_dpop)

section \<open>Properties\<close>

text \<open>C3: The message identity binds every field: two valid envelopes with the same message identity agree
  on every field, or they exhibit a SHA-256 collision.\<close>

theorem envelope_tamper_evident:
  assumes "nfc_idempotent nfc" and "nfc_ascii nfc"
    and "validate_unsigned_envelope h nfc budget (PDict e) = Inr ()" and "distinct (map fst e)"
    and "validate_unsigned_envelope h nfc budget (PDict e') = Inr ()" and "distinct (map fst e')"
    and "dget e ''message_id'' = dget e' ''message_id''"
  shows "(\<forall>k \<in> set ENVELOPE_KEYS. dget e k = dget e' k) \<or> collision h"
proof -
  have ok: "envelope_ok h nfc budget e" "envelope_ok h nfc budget e'"
    using assms(3,5) by (simp_all add: validate_unsigned_envelope_iff)
  obtain i where i: "identity_of h MESSAGE_ID_DOMAIN (sdk_message_bytes nfc budget) e = Inr i"
    "identity_of h MESSAGE_ID_DOMAIN (sdk_message_bytes nfc budget) e' = Inr i"
    using ok assms(7) by (auto simp: envelope_ok_def sdk_derive_message_id_identity)
  have "ordered (PDict (projection e)) = ordered (PDict (projection e')) \<or> collision h"
    using sdk_message.identity_binds [OF assms(1) i]
      envelope_value_canonical [OF assms(2) ok(1) assms(4)]
      envelope_value_canonical [OF assms(2) ok(2) assms(6)]
    by (auto simp del: ordered_simps)
  moreover have "dget e k = dget e' k"
    if same: "ordered (PDict (projection e)) = ordered (PDict (projection e'))"
      and k: "k \<in> set ENVELOPE_KEYS" for k
  proof (cases "k = ''message_id'' \<or> k = ''signature''")
    case True
    then show ?thesis using assms(7) ok by (auto simp: envelope_ok_def)
  next
    case False
    have "map_option ordered (lookup (projection e) (lit k)) = map_option ordered (lookup (projection e') (lit k))"
      using ordered_dicts_agree [OF same] assms(4,6)
      by (simp add: projection_def distinct_keys_dpop)
    moreover have "has_key e k" "has_key e' k"
      using ok k by (auto simp: envelope_ok_def intro: keys_has_key)
    ultimately have "ordered (dget e k) = ordered (dget e' k)"
      using False by (auto simp: projection_def lookup_dpop dget_def has_key_def)
    with False k ok ordered_field envelope_fields show ?thesis by metis
  qed
  ultimately show ?thesis by blast
qed

definition demo_spec :: "string \<Rightarrow> pydict" where
  "demo_spec c = dict_of (neutral_spec (PS ''fed:qsol:neutral-lab-01'') c zero_ref PNone ''2026-08-23T00:00:00Z'')"

lemma demo_spec_ok:
  "keys_are (demo_spec ''hello'') SPEC_KEYS" "spec_fields_ok (demo_spec ''hello'')"
  "keys_are (demo_spec ''citation'') SPEC_KEYS" "spec_fields_ok (demo_spec ''citation'')"
  by code_simp+

lemma sha_constant_32: "digest32 sha_constant"
  by (simp add: digest32_def sha_constant_def)

definition demo_sealed :: "string \<Rightarrow> pydict" where
  "demo_sealed c = sealed (demo_spec c) (sha256_ref sha_constant [])"

lemma demo_sealed_valid:
  "validate_unsigned_envelope sha_constant nfc_demo 32 (PDict (demo_sealed ''hello'')) = Inr ()"
  "validate_unsigned_envelope sha_constant nfc_demo 32 (PDict (demo_sealed ''citation'')) = Inr ()"
  "distinct (map fst (demo_sealed c))"
  "dget (demo_sealed c) ''message_id'' = PStr (sha256_ref sha_constant [])"
  using build_unsigned_envelope_eq [OF nfc_demo_ascii sha_constant_32 demo_spec_ok(1,2), of 32]
    build_unsigned_envelope_eq [OF nfc_demo_ascii sha_constant_32 demo_spec_ok(3,4), of 32]
  by (simp_all add: validate_unsigned_envelope_iff demo_sealed_def sealed_are dget_sealed
      sha_constant_ref [of "_ @ _"])

theorem envelope_tamper_evident_witness:
  "(\<forall>k \<in> set ENVELOPE_KEYS. dget (demo_sealed ''hello'') k = dget (demo_sealed ''citation'') k)
     \<or> collision sha_constant"
  by (rule envelope_tamper_evident [OF nfc_demo_idempotent nfc_demo_ascii demo_sealed_valid(1,3)
        demo_sealed_valid(2,3)]) (simp add: demo_sealed_valid(4))

text \<open>\<open>build_unsigned_envelope\<close> is total on valid specifications: every dictionary that the validator
  of specifications accepts is turned into an envelope that copies its seven fields, claims no
  authority, carries no signature, and passes the envelope validator.\<close>

theorem build_unsigned_envelope_total:
  assumes "nfc_ascii nfc" and "digest32 h"
    and "validate_envelope_spec (PDict s) ''sdk_envelope_input_invalid'' = Inr ()"
  shows "\<exists>e. build_unsigned_envelope h nfc budget (PDict s) = Inr e \<and>
    validate_unsigned_envelope h nfc budget (PDict e) = Inr () \<and>
    dget e ''authority_claim'' = PS ''none'' \<and> dget e ''signature'' = PNone \<and>
    (\<forall>k \<in> set SPEC_KEYS. dget e k = dget s k)"
proof -
  have s: "keys_are s SPEC_KEYS" "spec_fields_ok s"
    using assms(3) by (simp_all add: validate_envelope_spec_iff)
  obtain i where "build_unsigned_envelope h nfc budget (PDict s) = Inr (sealed s i)"
    "envelope_ok h nfc budget (sealed s i)"
    using build_unsigned_envelope_eq [OF assms(1,2) s, of budget] by blast
  moreover have "dget (sealed s i) k = dget s k" if "k \<in> set SPEC_KEYS" for k
    using that dget_draft_spec [OF that] by (auto simp: dget_sealed SPEC_KEYS_def)
  ultimately show ?thesis
    by (auto simp: validate_unsigned_envelope_iff dget_sealed dget_draft)
qed

theorem build_unsigned_envelope_total_witness:
  "\<exists>e. build_unsigned_envelope sha_demo nfc_demo 32 (PDict (demo_spec ''hello'')) = Inr e \<and>
    validate_unsigned_envelope sha_demo nfc_demo 32 (PDict e) = Inr () \<and>
    dget e ''authority_claim'' = PS ''none'' \<and> dget e ''signature'' = PNone \<and>
    (\<forall>k \<in> set SPEC_KEYS. dget e k = dget (demo_spec ''hello'') k)"
  by (rule build_unsigned_envelope_total [OF nfc_demo_ascii sha_demo_32])
    (simp add: validate_envelope_spec_iff demo_spec_ok)

lemma list_all_strings: "list_all is_str xs \<Longrightarrow> list_all hashable xs"
  by (auto simp: list_all_iff is_str_hashable)

definition MANIFEST_KEYS :: "string list" where
  "MANIFEST_KEYS = [''protocol'', ''node_id'', ''capabilities'', ''authority_claim'']"

lemma capability_str: "validate_capability_id c \<Longrightarrow> is_str c"
  by (simp add: validate_capability_id_def)

text \<open>\<open>validate_node_manifest\<close> accepts exactly the dictionaries with the four members, the bootstrap
  protocol, a well-formed node identifier, no authority claim, and at most 64 distinct well-formed
  capabilities.\<close>

theorem validate_node_manifest_accepts:
  "validate_node_manifest m = Inr () \<longleftrightarrow>
     (\<exists>d caps. m = PDict d \<and> keys_are d MANIFEST_KEYS \<and> dget d ''protocol'' = PS BOOTSTRAP_PROTOCOL \<and>
        is_node_id (dget d ''node_id'') \<and> dget d ''authority_claim'' = PS ''none'' \<and>
        dget d ''capabilities'' = PList caps \<and> length caps \<le> 64 \<and> distinct caps \<and>
        list_all validate_capability_id caps)"
proof (cases m)
  case (PDict d)
  show ?thesis
  proof (cases "\<exists>caps. dget d ''capabilities'' = PList caps")
    case True
    then obtain caps where caps: "dget d ''capabilities'' = PList caps" by blast
    have strs: "has_duplicates caps = Inr False \<longleftrightarrow> distinct caps" if "list_all validate_capability_id caps"
    proof -
      have "list_all is_str caps" using that capability_str by (auto simp: list_all_iff)
      then show ?thesis
        by (simp add: has_duplicates_def list_all_strings distinct_vals_strings)
    qed
    then show ?thesis
      using PDict caps
      by (auto simp: validate_node_manifest_def Let_def failIf_eq_Inr MANIFEST_KEYS_def)
  next
    case False
    then have "\<not> is_list (dget d ''capabilities'')"
      by (cases "dget d ''capabilities''") auto
    with False PDict show ?thesis
      by (auto simp: validate_node_manifest_def Let_def failIf_eq_Inr)
  qed
qed (simp_all add: validate_node_manifest_def)

text \<open>C7: The manifest validator fails with its own error, except that hashing the capabilities lets a
  TypeError through: when the other checks pass up to that point and some capability is a list or a
  dictionary.\<close>

theorem validate_node_manifest_errors:
  "validate_node_manifest m = Inl e \<longleftrightarrow>
     (if \<exists>d caps. m = PDict d \<and> keys_are d MANIFEST_KEYS \<and> dget d ''protocol'' = PS BOOTSTRAP_PROTOCOL \<and>
          is_node_id (dget d ''node_id'') \<and> dget d ''authority_claim'' = PS ''none'' \<and>
          dget d ''capabilities'' = PList caps \<and> length caps \<le> 64 \<and> \<not> list_all hashable caps
      then e = TypeError
      else e = SdkError ''sdk_node_manifest_invalid'' \<and> validate_node_manifest m \<noteq> Inr ())"
proof (cases m)
  case (PDict d)
  show ?thesis
  proof (cases "\<exists>caps. dget d ''capabilities'' = PList caps")
    case True
    then show ?thesis using PDict
      by (auto simp: validate_node_manifest_def Let_def failIf_Cons MANIFEST_KEYS_def has_duplicates_def)
  next
    case False
    then have "\<not> is_list (dget d ''capabilities'')"
      by (cases "dget d ''capabilities''") auto
    with False PDict show ?thesis
      by (auto simp: validate_node_manifest_def Let_def failIf_Cons)
  qed
qed (auto simp: validate_node_manifest_def)

section \<open>The conformance transcript and the neutral participant\<close>

lemma profile_neutral:
  assumes "validate_third_party_profile p = Inr ()"
  shows "py_item p ''qsol_governance_adopted'' = Inr (PBool False) \<and>
    py_item p ''nexus_required'' = Inr (PBool False) \<and> py_item p ''council_required'' = Inr (PBool False)"
proof -
  obtain d where p: "p = PDict d" and keys: "keys_are d [''schema'', ''implementation'', ''governance_model'',
      ''qsol_governance_adopted'', ''nexus_required'', ''council_required'']"
    and flags: "dget d ''qsol_governance_adopted'' = PBool False" "dget d ''nexus_required'' = PBool False"
      "dget d ''council_required'' = PBool False"
    using assms by (cases p) (auto simp: validate_third_party_profile_def Let_def split: if_splits)
  then show ?thesis by (simp add: p py_item_def dindex_keys_are [OF keys])
qed

lemma eval_entries_Inr:
  "eval_entries ((k, m) # kvs) = Inr d \<longleftrightarrow>
     (\<exists>v d'. m = Inr v \<and> eval_entries kvs = Inr d' \<and> d = (lit k, v) # d')"
  "eval_entries [] = Inr d \<longleftrightarrow> d = []"
  by (auto simp: eval_entries_def bindE_eq_Inr)

lemma expect_equal_iff:
  "expect_equal r kv = Inr () \<longleftrightarrow>
     py_eq (case lookup r (fst kv) of None \<Rightarrow> PNone | Some w \<Rightarrow> w) (snd kv)"
  by (simp add: expect_equal_def case_prod_unfold)

lemma check_expected_Inr:
  "check_expected result expected = Inr r \<longleftrightarrow>
     r = result \<and> (\<exists>d. expected = PDict d \<and> eachE (expect_equal r) d = Inr ())"
  by (cases expected) (auto simp: check_expected_def bindE_eq_Inr)

definition neutral_manifest :: pydict where
  "neutral_manifest = pd [(''protocol'', PS BOOTSTRAP_PROTOCOL), (''node_id'', PS ''fed:qsol:neutral-lab-01''),
     (''capabilities'', PList [PS ''evidence.exchange/1'', PS ''federation.sdk/1'']),
     (''authority_claim'', PS ''none'')]"

text \<open>A conformance transcript, whatever the fixture, states that no governance is adopted, that
  neither the nexus nor the council is required, that it has no authority effect, and agrees with
  every expected entry of the fixture.\<close>

theorem conformance_result_neutral:
  assumes "conformance_result h nfc budget fixture = Inr r"
  shows "dget r ''authority_effect'' = PS ''none'' \<and> dget r ''qsol_governance_adopted'' = PBool False \<and>
    dget r ''nexus_required'' = PBool False \<and> dget r ''council_required'' = PBool False \<and>
    (\<exists>d. dget fixture ''expected'' = PDict d \<and>
       (\<forall>(k, v) \<in> set d. py_eq (case lookup r k of None \<Rightarrow> PNone | Some w \<Rightarrow> w) v))"
proof -
  from assms obtain profile where p: "validate_third_party_profile profile = Inr ()"
    and flags: "py_item profile ''qsol_governance_adopted'' = Inr (dget r ''qsol_governance_adopted'')"
      "py_item profile ''nexus_required'' = Inr (dget r ''nexus_required'')"
      "py_item profile ''council_required'' = Inr (dget r ''council_required'')"
    and none: "dget r ''authority_effect'' = PS ''none''"
    and expected: "\<exists>d. dindex fixture ''expected'' = Inr (PDict d) \<and> eachE (expect_equal r) d = Inr ()"
    by (auto simp: conformance_result_def bindE_eq_Inr eval_entries_Inr check_expected_Inr split: if_splits)
  from expected have "\<exists>d. dget fixture ''expected'' = PDict d \<and>
       (\<forall>(k, v) \<in> set d. py_eq (case lookup r k of None \<Rightarrow> PNone | Some w \<Rightarrow> w) v)"
    by (force simp: eachE_eq_Inr expect_equal_iff dindex_def dget_def split: option.splits)
  with profile_neutral [OF p] flags none show ?thesis by simp
qed

lemma neutral_steps:
  "validate_third_party_profile (PDict neutral_profile) = Inr ()"
  "build_node_manifest (PS ''fed:qsol:neutral-lab-01'')
     (PList [PS ''evidence.exchange/1'', PS ''federation.sdk/1'']) = Inr neutral_manifest"
  "validate_node_manifest (PDict neutral_manifest) = Inr ()"
  by code_simp+

lemma node_ids: "is_node_id (PS ''fed:qsol:neutral-lab-01'')" "is_node_id (PS ''fed:qsol:reference-node'')"
  by code_simp+

lemma timestamps: "is_timestamp (PS ''2026-08-23T00:00:00Z'')" "is_timestamp (PS ''2026-08-23T00:00:01Z'')"
  by code_simp+

lemma member_literal:
  "(\<forall>c \<in> set s. of_char c < (128 :: nat)) \<Longrightarrow> length s \<le> 137 \<Longrightarrow> member_value (PS s)"
  "member_value PNone" "member_value (PBool False)"
  by (simp_all add: member_value_def literal_field) (simp_all add: field_value_def)

lemma member_ref: "is_sha256_ref v \<Longrightarrow> member_value v"
  by (simp add: member_value_def sha256_ref_field)

lemma ascii_key: "(\<forall>c \<in> set s. of_char c < (128 :: nat)) \<Longrightarrow> ascii (lit s)"
  by (rule ascii_lit)

lemma neutral_small:
  "small_record neutral_payload" "small_record neutral_profile" "small_record neutral_manifest"
proof -
  have caps: "member_value (PList [PS ''evidence.exchange/1'', PS ''federation.sdk/1''])"
    unfolding member_value_def by (rule disjI2) (auto intro!: literal_field)
  show "small_record neutral_payload" "small_record neutral_profile" "small_record neutral_manifest"
    using caps
    by (simp_all add: small_record_def neutral_payload_def neutral_profile_def neutral_manifest_def
        BOOTSTRAP_PROTOCOL_def member_literal ascii_key)
qed

lemma neutral_spec_ok:
  assumes "is_sha256_ref p" and "r = PNone \<or> is_sha256_ref r" and "c \<in> set MESSAGE_CLASSES"
    and "is_timestamp (PS t)"
  shows "keys_are (dict_of (neutral_spec (PS ''fed:qsol:neutral-lab-01'') c p r t)) SPEC_KEYS \<and>
    spec_fields_ok (dict_of (neutral_spec (PS ''fed:qsol:neutral-lab-01'') c p r t))"
  using assms node_ids
  by (auto simp: keys_are_def SPEC_KEYS_def neutral_spec_def spec_fields_ok_def)

lemma neutral_envelope:
  assumes "nfc_ascii nfc" and "digest32 h" and "is_sha256_ref p" and "r = PNone \<or> is_sha256_ref r"
    and "c \<in> set MESSAGE_CLASSES" and "is_timestamp (PS t)"
  shows "\<exists>e i. build_unsigned_envelope h nfc budget (neutral_spec (PS ''fed:qsol:neutral-lab-01'') c p r t) = Inr e \<and>
    small_record e \<and> dindex e ''message_id'' = Inr (PStr i)"
proof -
  let ?s = "dict_of (neutral_spec (PS ''fed:qsol:neutral-lab-01'') c p r t)"
  have spec: "neutral_spec (PS ''fed:qsol:neutral-lab-01'') c p r t = PDict ?s"
    by (simp add: neutral_spec_def)
  obtain i where b: "build_unsigned_envelope h nfc budget (PDict ?s) = Inr (sealed ?s i)"
    and ok: "envelope_ok h nfc budget (sealed ?s i)"
    using build_unsigned_envelope_eq [OF assms(1,2), of ?s budget] neutral_spec_ok [OF assms(3-6)] by blast
  have "dindex (sealed ?s i) ''message_id'' = Inr (PStr i)"
    using dindex_keys_are [OF sealed_are(1), of "''message_id''"] dget_sealed [of ?s i "''message_id''"]
    by (simp add: ENVELOPE_KEYS_def)
  with b envelope_small [OF ok sealed_are(2)] spec show ?thesis by auto
qed

lemma neutral_provenance:
  assumes "is_sha256_ref p"
  shows "\<exists>d. build_provenance (PS ''fed:qsol:neutral-lab-01'') p (PS ''observed'') (PList [])
    (PS ''2026-08-23T00:00:00Z'') = Inr d \<and> small_record d"
proof -
  let ?d = "pd [(''schema'', PS PROVENANCE_SCHEMA), (''source_node'', PS ''fed:qsol:neutral-lab-01''),
    (''source_object'', p), (''relation'', PS ''observed''), (''parents'', PList []),
    (''created_at'', PS ''2026-08-23T00:00:00Z'')]"
  have "keys_are ?d [''schema'', ''source_node'', ''source_object'', ''relation'', ''parents'', ''created_at'']"
    by (simp add: keys_are_def)
  then have "validate_provenance (PDict ?d) = Inr ()"
    using assms node_ids(1) timestamps(1)
    by (simp add: validate_provenance_def failIf_eq_Inr has_duplicates_def PROVENANCE_RELATIONS_def Let_def
        bindE_eq_Inr)
  moreover have "small_record ?d"
    using member_ref [OF assms]
    by (simp add: small_record_def PROVENANCE_SCHEMA_def member_literal ascii_key)
      (simp add: member_value_def)
  ultimately show ?thesis by (simp add: build_provenance_def py_list_def Let_def)
qed

text \<open>The neutral participant always completes, for every normalisation that keeps ASCII and every
  digest of 32 octets, and its record claims no governance, no dependency and no authority.\<close>

theorem build_participation_total:
  assumes "nfc_ascii nfc" and "digest32 h"
  shows "\<exists>r. build_participation h nfc budget = Inr r \<and> dget r ''authority_effect'' = PS ''none'' \<and>
    dget r ''qsol_governance_adopted'' = PBool False \<and> dget r ''nexus_required'' = PBool False \<and>
    dget r ''council_required'' = PBool False"
proof -
  note ids = object_id_small [OF assms(1), of _ h budget]
  obtain p where p: "object_id_of h nfc budget (PDict neutral_payload) = Inr p" "is_sha256_ref p"
    using ids [OF neutral_small(1)] sha256_ref_is_ref [OF assms(2)] by blast
  obtain m where m: "object_id_of h nfc budget (PDict neutral_manifest) = Inr m" "is_sha256_ref m"
    using ids [OF neutral_small(3)] sha256_ref_is_ref [OF assms(2)] by blast
  obtain v where v: "build_provenance (PS ''fed:qsol:neutral-lab-01'') p (PS ''observed'') (PList [])
      (PS ''2026-08-23T00:00:00Z'') = Inr v" "small_record v"
    using neutral_provenance [OF p(2)] by blast
  obtain w where w: "object_id_of h nfc budget (PDict v) = Inr w" "is_sha256_ref w"
    using ids [OF v(2)] sha256_ref_is_ref [OF assms(2)] by blast
  have classes: "''hello'' \<in> set MESSAGE_CLASSES" "''evidence.offer'' \<in> set MESSAGE_CLASSES"
    by (simp_all add: MESSAGE_CLASSES_def)
  obtain e i where e: "build_unsigned_envelope h nfc budget
      (neutral_spec (PS ''fed:qsol:neutral-lab-01'') ''hello'' m PNone ''2026-08-23T00:00:00Z'') = Inr e"
    "small_record e" "dindex e ''message_id'' = Inr (PStr i)"
    using neutral_envelope [OF assms m(2) _ classes(1) timestamps(1)] by blast
  obtain e' i' where e': "build_unsigned_envelope h nfc budget
      (neutral_spec (PS ''fed:qsol:neutral-lab-01'') ''evidence.offer'' p w ''2026-08-23T00:00:01Z'') = Inr e'"
    "small_record e'" "dindex e' ''message_id'' = Inr (PStr i')"
    using neutral_envelope [OF assms p(2) _ classes(2) timestamps(2)] w(2) by blast
  have node: "dindex neutral_manifest ''node_id'' = Inr (PS ''fed:qsol:neutral-lab-01'')"
    by (simp add: dindex_def neutral_manifest_def)
  have "\<exists>r. build_participation h nfc budget = Inr (pd
      [(''schema'', PS ''third-party-federation-participation/1''),
       (''participant'', PS ''neutral-research-node''), (''wire_protocol'', PS ''qsol-fed/1''),
       (''governance_model'', PS ''local''), (''qsol_governance_adopted'', PBool False),
       (''nexus_required'', PBool False), (''council_required'', PBool False),
       (''oracle_required'', PBool False), (''ark_required'', PBool False),
       (''holodeck_required'', PBool False), (''authority_effect'', PS ''none'')] @ r)"
    unfolding build_participation_def
    by (simp add: neutral_steps p(1) m(1) v(1) w(1) e(1,3) e'(1,3) node eval_entries_def
        canonical_text_small [OF assms(1) e(2)] canonical_text_small [OF assms(1) e'(2)])
  then show ?thesis by auto
qed

theorem build_participation_total_witness:
  "\<exists>r. build_participation sha_demo nfc_demo 32 = Inr r \<and> dget r ''authority_effect'' = PS ''none'' \<and>
    dget r ''qsol_governance_adopted'' = PBool False \<and> dget r ''nexus_required'' = PBool False \<and>
    dget r ''council_required'' = PBool False"
  by (rule build_participation_total [OF nfc_demo_ascii sha_demo_32])

definition demo_fixture :: pydict where
  "demo_fixture =
     pd [(''schema'', PS ''qsol-fed-sdk-conformance/1''), (''wire_protocol'', PS WIRE_PROTOCOL),
         (''node_manifest'', PDict neutral_manifest), (''third_party_profile'', PDict neutral_profile),
         (''provenance'', PDict (pd [(''source_node'', PS ''fed:qsol:neutral-lab-01''),
            (''source_object'', zero_ref), (''relation'', PS ''observed''), (''parents'', PList []),
            (''created_at'', PS ''2026-08-23T00:00:00Z'')])),
         (''hello'', neutral_spec (PS ''fed:qsol:neutral-lab-01'') ''hello'' zero_ref PNone ''2026-08-23T00:00:00Z''),
         (''evidence_offer'', neutral_spec (PS ''fed:qsol:neutral-lab-01'') ''evidence.offer'' zero_ref zero_ref
            ''2026-08-23T00:00:01Z''),
         (''payload'', PDict neutral_payload),
         (''expected'', PDict (pd [(''authority_effect'', PS ''none'')]))]"

lemma demo_conformance: "\<exists>r. conformance_result sha_demo nfc_demo 32 demo_fixture = Inr r"
proof -
  obtain v where v: "build_provenance (PS ''fed:qsol:neutral-lab-01'') zero_ref (PS ''observed'') (PList [])
      (PS ''2026-08-23T00:00:00Z'') = Inr v" "small_record v"
    using neutral_provenance [OF zero_ref_is_ref] by blast
  have classes: "''hello'' \<in> set MESSAGE_CLASSES" "''evidence.offer'' \<in> set MESSAGE_CLASSES"
    by (simp_all add: MESSAGE_CLASSES_def)
  obtain e i where e: "build_unsigned_envelope sha_demo nfc_demo 32
      (neutral_spec (PS ''fed:qsol:neutral-lab-01'') ''hello'' zero_ref PNone ''2026-08-23T00:00:00Z'') = Inr e"
    "small_record e" "dindex e ''message_id'' = Inr (PStr i)"
    using neutral_envelope [OF nfc_demo_ascii sha_demo_32 zero_ref_is_ref _ classes(1) timestamps(1)] by blast
  obtain e' i' where e': "build_unsigned_envelope sha_demo nfc_demo 32
      (neutral_spec (PS ''fed:qsol:neutral-lab-01'') ''evidence.offer'' zero_ref zero_ref ''2026-08-23T00:00:01Z'') = Inr e'"
    "small_record e'" "dindex e' ''message_id'' = Inr (PStr i')"
    using neutral_envelope [OF nfc_demo_ascii sha_demo_32 zero_ref_is_ref _ classes(2) timestamps(2)]
      zero_ref_is_ref by blast
  note texts = canonical_text_small [OF nfc_demo_ascii] object_id_small [OF nfc_demo_ascii]
  have flags: "py_item (PDict neutral_profile) ''qsol_governance_adopted'' = Inr (PBool False)"
    "py_item (PDict neutral_profile) ''nexus_required'' = Inr (PBool False)"
    "py_item (PDict neutral_profile) ''council_required'' = Inr (PBool False)"
    using profile_neutral [OF neutral_steps(1)] by simp_all
  have fixture:
    "dget demo_fixture ''schema'' = PS ''qsol-fed-sdk-conformance/1''"
    "dget demo_fixture ''wire_protocol'' = PS WIRE_PROTOCOL"
    "dindex demo_fixture ''node_manifest'' = Inr (PDict neutral_manifest)"
    "dindex demo_fixture ''third_party_profile'' = Inr (PDict neutral_profile)"
    "dindex demo_fixture ''payload'' = Inr (PDict neutral_payload)"
    "dindex demo_fixture ''hello'' = Inr (neutral_spec (PS ''fed:qsol:neutral-lab-01'') ''hello'' zero_ref PNone ''2026-08-23T00:00:00Z'')"
    "dindex demo_fixture ''evidence_offer'' = Inr (neutral_spec (PS ''fed:qsol:neutral-lab-01'') ''evidence.offer'' zero_ref zero_ref ''2026-08-23T00:00:01Z'')"
    "dindex demo_fixture ''expected'' = Inr (PDict (pd [(''authority_effect'', PS ''none'')]))"
    "dindex demo_fixture ''provenance'' = Inr (PDict (pd [(''source_node'', PS ''fed:qsol:neutral-lab-01''),
            (''source_object'', zero_ref), (''relation'', PS ''observed''), (''parents'', PList []),
            (''created_at'', PS ''2026-08-23T00:00:00Z'')]))"
    by (simp_all add: demo_fixture_def dindex_def)
  show ?thesis
    unfolding conformance_result_def
    by (simp add: fixture neutral_steps py_item_def [of "PDict (pd _)"] py_item_def [of "PDict (_ # _)"] dindex_def [of "_ # _"]
        v(1) e(1,3) e'(1,3) flags eval_entries_def texts neutral_small v(2) e(2) e'(2)
        check_expected_def expect_equal_def del: text_of_simps)
qed

theorem conformance_result_neutral_witness:
  "\<exists>r. conformance_result sha_demo nfc_demo 32 demo_fixture = Inr r \<and>
     dget r ''authority_effect'' = PS ''none'' \<and> dget r ''nexus_required'' = PBool False"
  using demo_conformance conformance_result_neutral [of sha_demo nfc_demo 32 demo_fixture] by blast

end
