(* ===== verification/Seccomp.thy ===== *)
theory Seccomp
  imports Fed_Prelude
begin

text \<open>
  The seccomp policies of \<open>tools/moriarty_isolation.py\<close>: the classic BPF programs that
  \<open>apply_network_seccomp_policy\<close> and \<open>_apply_sensitive_host_handle_seccomp_policy\<close> assemble for
  x86_64 and aarch64, and the order in which they are installed. The kernel that runs a program is
  not part of the repository: the locale \<open>classic_bpf\<close> states the documented meaning of the four
  instructions the programs use (jumps only go forward, so a program is run on the list of its
  remaining instructions), and everything about the filters is proved from it.
\<close>

section \<open>Instructions\<close>

record sock_filter =
  bpf_code :: "16 word"
  bpf_jt :: "8 word"
  bpf_jf :: "8 word"
  bpf_k :: "32 word"

definition SockFilter :: "16 word \<Rightarrow> nat \<Rightarrow> nat \<Rightarrow> 32 word \<Rightarrow> sock_filter" where
  "SockFilter c t f v = \<lparr>bpf_code = c, bpf_jt = word_of_nat t, bpf_jf = word_of_nat f, bpf_k = v\<rparr>"

definition BPF_LD_W_ABS :: "16 word" where "BPF_LD_W_ABS = 0x20"
definition BPF_JMP_JEQ_K :: "16 word" where "BPF_JMP_JEQ_K = 0x15"
definition BPF_JMP_JSET_K :: "16 word" where "BPF_JMP_JSET_K = 0x45"
definition BPF_RET_K :: "16 word" where "BPF_RET_K = 0x06"
definition SECCOMP_RET_ALLOW :: "32 word" where "SECCOMP_RET_ALLOW = 0x7FFF0000"
definition SECCOMP_RET_ERRNO :: "32 word" where "SECCOMP_RET_ERRNO = 0x00050000"
definition SECCOMP_DATA_ARCH_OFFSET :: "32 word" where "SECCOMP_DATA_ARCH_OFFSET = 4"
definition SECCOMP_DATA_ARG0_OFFSET :: "32 word" where "SECCOMP_DATA_ARG0_OFFSET = 16"
definition AF_UNIX :: "32 word" where "AF_UNIX = 1"
definition AUDIT_ARCH_X86_64 :: "32 word" where "AUDIT_ARCH_X86_64 = 0xC000003E"
definition AUDIT_ARCH_AARCH64 :: "32 word" where "AUDIT_ARCH_AARCH64 = 0xC00000B7"
definition X32_SYSCALL_BIT :: "32 word" where "X32_SYSCALL_BIT = 0x40000000"
definition EPERM :: "32 word" where "EPERM = 1"

definition deny :: "32 word" where "deny = SECCOMP_RET_ERRNO OR EPERM"
definition allow :: "32 word" where "allow = SECCOMP_RET_ALLOW"

lemma deny_not_allow [simp]: "deny \<noteq> allow" "allow \<noteq> deny"
  by (simp_all add: deny_def allow_def SECCOMP_RET_ERRNO_def SECCOMP_RET_ALLOW_def EPERM_def)

section \<open>System call numbers\<close>

text \<open>\<open>os.uname().machine\<close>.\<close>

datatype machine = X86_64 | Aarch64 | OtherMachine

definition socket_syscalls :: "machine \<Rightarrow> (32 word \<times> 32 word \<times> 32 word \<times> 32 word) result" where
  "socket_syscalls m = (case m of
     X86_64 \<Rightarrow> Inr (41, 53, 42, AUDIT_ARCH_X86_64)
   | Aarch64 \<Rightarrow> Inr (198, 199, 203, AUDIT_ARCH_AARCH64)
   | OtherMachine \<Rightarrow> Inl (SystemExit ''moriarty_network_seccomp_arch_unsupported''))"

definition signal_syscalls :: "machine \<Rightarrow> (32 word \<times> 32 word \<times> 32 word \<times> 32 word \<times> 32 word \<times> 32 word) result" where
  "signal_syscalls m = (case m of
     X86_64 \<Rightarrow> Inr (62, 200, 234, 424, 129, 297)
   | Aarch64 \<Rightarrow> Inr (129, 130, 131, 424, 138, 240)
   | OtherMachine \<Rightarrow> Inl (SystemExit ''moriarty_signal_seccomp_arch_unsupported''))"

definition process_memory_syscalls :: "machine \<Rightarrow> (32 word list) result" where
  "process_memory_syscalls m = (case m of
     X86_64 \<Rightarrow> Inr [101, 310, 311]
   | Aarch64 \<Rightarrow> Inr [117, 270, 271]
   | OtherMachine \<Rightarrow> Inl (SystemExit ''moriarty_process_memory_seccomp_arch_unsupported''))"

definition io_uring_syscalls :: "32 word list" where
  "io_uring_syscalls = [425, 426, 427]"

definition prlimit_syscall :: "machine \<Rightarrow> (32 word) result" where
  "prlimit_syscall m = (case m of
     X86_64 \<Rightarrow> Inr 302
   | Aarch64 \<Rightarrow> Inr 261
   | OtherMachine \<Rightarrow> Inl (SystemExit ''moriarty_prlimit_seccomp_arch_unsupported''))"

definition pidfd_descriptor_syscalls :: "machine \<Rightarrow> (32 word list) result" where
  "pidfd_descriptor_syscalls m =
     (if m \<in> {X86_64, Aarch64} then Inr [434, 438]
      else Inl (SystemExit ''moriarty_pidfd_descriptor_seccomp_arch_unsupported''))"

definition keyring_syscalls :: "machine \<Rightarrow> (32 word list) result" where
  "keyring_syscalls m = (case m of
     X86_64 \<Rightarrow> Inr [248, 249, 250]
   | Aarch64 \<Rightarrow> Inr [217, 218, 219]
   | OtherMachine \<Rightarrow> Inl (SystemExit ''moriarty_keyring_seccomp_arch_unsupported''))"

section \<open>The programs\<close>

text \<open>The lines both policies start with: the architecture, then the x32 bit on x86_64.\<close>

definition prologue :: "machine \<Rightarrow> 32 word \<Rightarrow> sock_filter list" where
  "prologue m audit_arch =
     [SockFilter BPF_LD_W_ABS 0 0 SECCOMP_DATA_ARCH_OFFSET,
      SockFilter BPF_JMP_JEQ_K 1 0 audit_arch,
      SockFilter BPF_RET_K 0 0 deny,
      SockFilter BPF_LD_W_ABS 0 0 0] @
     (if m = X86_64
      then [SockFilter BPF_JMP_JSET_K 0 1 X32_SYSCALL_BIT, SockFilter BPF_RET_K 0 0 deny]
      else [])"

definition deny_numbers :: "32 word list \<Rightarrow> sock_filter list" where
  "deny_numbers numbers =
     concat (map (\<lambda>number. [SockFilter BPF_JMP_JEQ_K 0 1 number, SockFilter BPF_RET_K 0 0 deny]) numbers)"

definition prlimit_block :: "sock_filter list" where
  "prlimit_block =
     [SockFilter BPF_LD_W_ABS 0 0 SECCOMP_DATA_ARG0_OFFSET,
      SockFilter BPF_JMP_JEQ_K 1 0 0,
      SockFilter BPF_RET_K 0 0 deny,
      SockFilter BPF_LD_W_ABS 0 0 0]"

definition network_program :: "machine \<Rightarrow> (sock_filter list) result" where
  "network_program m =
     bindE (socket_syscalls m) (\<lambda>(socket_nr, socketpair_nr, connect_nr, audit_arch).
     bindE (signal_syscalls m)
       (\<lambda>(kill_nr, tkill_nr, tgkill_nr, pidfd_signal_nr, rt_sigqueueinfo_nr, rt_tgsigqueueinfo_nr).
     bindE (process_memory_syscalls m) (\<lambda>process_memory.
     bindE (prlimit_syscall m) (\<lambda>prlimit_nr. Inr (
       prologue m audit_arch @
       deny_numbers (io_uring_syscalls @
         [pidfd_signal_nr, kill_nr, tkill_nr, tgkill_nr, rt_sigqueueinfo_nr, rt_tgsigqueueinfo_nr] @
         process_memory) @
       [SockFilter BPF_JMP_JEQ_K 0 (length prlimit_block) prlimit_nr] @
       prlimit_block @
       [SockFilter BPF_JMP_JEQ_K 0 1 socket_nr,
        SockFilter BPF_RET_K 0 0 deny,
        SockFilter BPF_JMP_JEQ_K 0 1 connect_nr,
        SockFilter BPF_RET_K 0 0 deny,
        SockFilter BPF_JMP_JEQ_K 0 4 socketpair_nr,
        SockFilter BPF_LD_W_ABS 0 0 SECCOMP_DATA_ARG0_OFFSET,
        SockFilter BPF_JMP_JEQ_K 0 1 AF_UNIX,
        SockFilter BPF_RET_K 0 0 allow,
        SockFilter BPF_RET_K 0 0 deny,
        SockFilter BPF_RET_K 0 0 allow])))))"

definition sensitive_program :: "machine \<Rightarrow> (sock_filter list) result" where
  "sensitive_program m =
     bindE (socket_syscalls m) (\<lambda>(socket_nr, socketpair_nr, connect_nr, audit_arch).
     bindE (pidfd_descriptor_syscalls m) (\<lambda>pidfds.
     bindE (keyring_syscalls m) (\<lambda>keyrings. Inr (
       prologue m audit_arch @
       deny_numbers (pidfds @ keyrings) @
       [SockFilter BPF_RET_K 0 0 allow]))))"

section \<open>Installing them\<close>

text \<open>
  The \<open>prctl\<close> calls, in order, each with the errno the kernel answers (0 for success), on the part
  of the task's state they change: the flag and the stack of filters, newest first.
\<close>

datatype prctl_call = SetNoNewPrivs | SetSeccomp "sock_filter list"

record task_state =
  no_new_privs :: bool
  filters :: "sock_filter list list"

definition prctl :: "(prctl_call \<Rightarrow> task_state \<Rightarrow> nat) \<Rightarrow> prctl_call \<Rightarrow> task_state \<Rightarrow> task_state result" where
  "prctl answer call t =
     (if answer call t \<noteq> 0 then Inl (OSError (answer call t))
      else Inr (case call of
        SetNoNewPrivs \<Rightarrow> t\<lparr>no_new_privs := True\<rparr>
      | SetSeccomp program \<Rightarrow> t\<lparr>filters := program # filters t\<rparr>))"

definition linux_libc :: "bool \<Rightarrow> machine \<Rightarrow> unit result" where
  "linux_libc linux m =
     (if \<not> linux \<or> m \<notin> {X86_64, Aarch64} then Inl (SystemExit ''moriarty_linux_isolation_platform_required'')
      else Inr ())"

definition install_filter ::
  "(prctl_call \<Rightarrow> task_state \<Rightarrow> nat) \<Rightarrow> sock_filter list \<Rightarrow> task_state \<Rightarrow> task_state result" where
  "install_filter answer program t =
     bindE (prctl answer SetNoNewPrivs t) (\<lambda>t'. prctl answer (SetSeccomp program) t')"

definition apply_base_seccomp_policy ::
  "(prctl_call \<Rightarrow> task_state \<Rightarrow> nat) \<Rightarrow> bool \<Rightarrow> machine \<Rightarrow> task_state \<Rightarrow> task_state result" where
  "apply_base_seccomp_policy answer linux m t =
     bindE (linux_libc linux m) (\<lambda>_.
     bindE (network_program m) (\<lambda>program. install_filter answer program t))"

definition apply_sensitive_host_handle_seccomp_policy ::
  "(prctl_call \<Rightarrow> task_state \<Rightarrow> nat) \<Rightarrow> bool \<Rightarrow> machine \<Rightarrow> task_state \<Rightarrow> task_state result" where
  "apply_sensitive_host_handle_seccomp_policy answer linux m t =
     bindE (linux_libc linux m) (\<lambda>_.
     bindE (sensitive_program m) (\<lambda>program. install_filter answer program t))"

definition apply_network_seccomp_policy ::
  "(prctl_call \<Rightarrow> task_state \<Rightarrow> nat) \<Rightarrow> bool \<Rightarrow> machine \<Rightarrow> task_state \<Rightarrow> task_state result" where
  "apply_network_seccomp_policy answer linux m t =
     bindE (apply_base_seccomp_policy answer linux m t) (\<lambda>t'.
       apply_sensitive_host_handle_seccomp_policy answer linux m t')"

section \<open>The kernel's interpreter\<close>

record seccomp_data =
  sd_nr :: "32 word"
  sd_arch :: "32 word"
  sd_args :: "64 word list"

text \<open>The word of the data at an offset: the number, the architecture, the low half of an argument.\<close>

definition arg_low :: "seccomp_data \<Rightarrow> nat \<Rightarrow> 32 word" where
  "arg_low d i = (if i < length (sd_args d) then ucast (sd_args d ! i) else 0)"

locale classic_bpf =
  fixes run :: "sock_filter list \<Rightarrow> 32 word \<Rightarrow> seccomp_data \<Rightarrow> 32 word"
  assumes run_ld_nr: "run (SockFilter BPF_LD_W_ABS t f 0 # p) acc d = run p (sd_nr d) d"
    and run_ld_arch: "run (SockFilter BPF_LD_W_ABS t f SECCOMP_DATA_ARCH_OFFSET # p) acc d = run p (sd_arch d) d"
    and run_ld_arg0: "run (SockFilter BPF_LD_W_ABS t f SECCOMP_DATA_ARG0_OFFSET # p) acc d = run p (arg_low d 0) d"
    and run_jeq: "t < 256 \<Longrightarrow> f < 256 \<Longrightarrow>
      run (SockFilter BPF_JMP_JEQ_K t f v # p) acc d = run (drop (if acc = v then t else f) p) acc d"
    and run_jset: "t < 256 \<Longrightarrow> f < 256 \<Longrightarrow>
      run (SockFilter BPF_JMP_JSET_K t f v # p) acc d = run (drop (if acc AND v \<noteq> 0 then t else f) p) acc d"
    and run_ret: "run (SockFilter BPF_RET_K t f v # p) acc d = v"
begin

lemma run_deny_numbers:
  "run (deny_numbers ns @ p) acc d = (if acc \<in> set ns then deny else run p acc d)"
  by (induction ns) (simp_all add: deny_numbers_def run_jeq run_ret)

lemma run_prologue:
  "run (prologue m a @ p) acc d =
     (if sd_arch d \<noteq> a \<or> (m = X86_64 \<and> sd_nr d AND X32_SYSCALL_BIT \<noteq> 0) then deny else run p (sd_nr d) d)"
  by (simp add: prologue_def run_ld_arch run_ld_nr run_jeq run_jset run_ret)

end

section \<open>A reference interpreter\<close>

text \<open>The machine the laws describe, as a function: the locale has a model, and the filters run.\<close>

definition data_word :: "seccomp_data \<Rightarrow> 32 word \<Rightarrow> 32 word" where
  "data_word d off =
     (if off = 0 then sd_nr d else if off = SECCOMP_DATA_ARCH_OFFSET then sd_arch d
      else arg_low d ((unat off - 16) div 8))"

function bpf_run :: "sock_filter list \<Rightarrow> 32 word \<Rightarrow> seccomp_data \<Rightarrow> 32 word" where
  "bpf_run [] acc d = 0"
| "bpf_run (i # p) acc d =
     (if bpf_code i = BPF_LD_W_ABS then bpf_run p (data_word d (bpf_k i)) d
      else if bpf_code i = BPF_JMP_JEQ_K then bpf_run (drop (unat (if acc = bpf_k i then bpf_jt i else bpf_jf i)) p) acc d
      else if bpf_code i = BPF_JMP_JSET_K then
        bpf_run (drop (unat (if acc AND bpf_k i \<noteq> 0 then bpf_jt i else bpf_jf i)) p) acc d
      else bpf_k i)"
  by pat_completeness auto
termination by (relation "measure (\<lambda>(p, acc, d). length p)") auto

lemma opcodes_distinct [simp]:
  "BPF_JMP_JEQ_K \<noteq> BPF_LD_W_ABS" "BPF_JMP_JSET_K \<noteq> BPF_LD_W_ABS" "BPF_RET_K \<noteq> BPF_LD_W_ABS"
  "BPF_JMP_JSET_K \<noteq> BPF_JMP_JEQ_K" "BPF_RET_K \<noteq> BPF_JMP_JEQ_K" "BPF_RET_K \<noteq> BPF_JMP_JSET_K"
  by (simp_all add: BPF_LD_W_ABS_def BPF_JMP_JEQ_K_def BPF_JMP_JSET_K_def BPF_RET_K_def)

lemma offsets_distinct [simp]: "SECCOMP_DATA_ARCH_OFFSET \<noteq> 0" "SECCOMP_DATA_ARG0_OFFSET \<noteq> 0"
  "SECCOMP_DATA_ARG0_OFFSET \<noteq> SECCOMP_DATA_ARCH_OFFSET"
  by (simp_all add: SECCOMP_DATA_ARCH_OFFSET_def SECCOMP_DATA_ARG0_OFFSET_def)

lemma unat_jump: "t < 256 \<Longrightarrow> unat (word_of_nat t :: 8 word) = t"
  by (simp add: unat_of_nat take_bit_nat_eq_self)

interpretation reference: classic_bpf bpf_run
  by unfold_locales
    (simp_all add: SockFilter_def data_word_def unat_jump SECCOMP_DATA_ARG0_OFFSET_def
      SECCOMP_DATA_ARCH_OFFSET_def)

section \<open>What the policies forbid\<close>

text \<open>
  The intended policies, by system call number. On x86_64: socket 41, connect 42, kill 62,
  ptrace 101, rt_sigqueueinfo 129, tkill 200, tgkill 234, rt_tgsigqueueinfo 297, process_vm_readv
  310, process_vm_writev 311, pidfd_send_signal 424, io_uring 425-427; prlimit64 302 of another
  process; socketpair 53 of a family other than AF_UNIX. The second policy: the keyring calls
  248-250, pidfd_open 434, pidfd_getfd 438.
\<close>

definition network_forbidden :: "machine \<Rightarrow> seccomp_data \<Rightarrow> bool" where
  "network_forbidden m d \<longleftrightarrow> (case m of
     X86_64 \<Rightarrow> sd_arch d \<noteq> 0xC000003E \<or> sd_nr d AND 0x40000000 \<noteq> 0 \<or>
       sd_nr d \<in> {41, 42, 62, 101, 129, 200, 234, 297, 310, 311, 424, 425, 426, 427} \<or>
       sd_nr d = 302 \<and> arg_low d 0 \<noteq> 0 \<or> sd_nr d = 53 \<and> arg_low d 0 \<noteq> 1
   | Aarch64 \<Rightarrow> sd_arch d \<noteq> 0xC00000B7 \<or>
       sd_nr d \<in> {117, 129, 130, 131, 138, 198, 203, 240, 270, 271, 424, 425, 426, 427} \<or>
       sd_nr d = 261 \<and> arg_low d 0 \<noteq> 0 \<or> sd_nr d = 199 \<and> arg_low d 0 \<noteq> 1
   | OtherMachine \<Rightarrow> False)"

definition sensitive_forbidden :: "machine \<Rightarrow> seccomp_data \<Rightarrow> bool" where
  "sensitive_forbidden m d \<longleftrightarrow> (case m of
     X86_64 \<Rightarrow> sd_arch d \<noteq> 0xC000003E \<or> sd_nr d AND 0x40000000 \<noteq> 0 \<or> sd_nr d \<in> {248, 249, 250, 434, 438}
   | Aarch64 \<Rightarrow> sd_arch d \<noteq> 0xC00000B7 \<or> sd_nr d \<in> {217, 218, 219, 434, 438}
   | OtherMachine \<Rightarrow> False)"

lemmas syscall_tables = socket_syscalls_def signal_syscalls_def process_memory_syscalls_def
  io_uring_syscalls_def prlimit_syscall_def pidfd_descriptor_syscalls_def keyring_syscalls_def
  AUDIT_ARCH_X86_64_def AUDIT_ARCH_AARCH64_def

context classic_bpf
begin

lemma network_verdict:
  assumes "network_program m = Inr p"
  shows "run p acc d = (if network_forbidden m d then deny else allow)"
proof -
  note blocks = run_prologue run_deny_numbers run_jeq run_ret run_ld_nr run_ld_arg0 prlimit_block_def
  show ?thesis
  proof (cases m)
    case X86_64
    then show ?thesis using assms
      by (auto simp: network_program_def syscall_tables network_forbidden_def blocks X32_SYSCALL_BIT_def
          AF_UNIX_def)
  next
    case Aarch64
    then show ?thesis using assms
      by (auto simp: network_program_def syscall_tables network_forbidden_def blocks AF_UNIX_def)
  qed (use assms in \<open>simp add: network_program_def socket_syscalls_def\<close>)
qed

lemma sensitive_verdict:
  assumes "sensitive_program m = Inr p"
  shows "run p acc d = (if sensitive_forbidden m d then deny else allow)"
proof (cases m)
  case X86_64
  then show ?thesis using assms
    by (auto simp: sensitive_program_def syscall_tables sensitive_forbidden_def run_prologue
        run_deny_numbers run_ret X32_SYSCALL_BIT_def)
next
  case Aarch64
  then show ?thesis using assms
    by (auto simp: sensitive_program_def syscall_tables sensitive_forbidden_def run_prologue
        run_deny_numbers run_ret)
qed (use assms in \<open>simp add: sensitive_program_def socket_syscalls_def\<close>)

end

text \<open>A call passes a task when every installed filter allows it.\<close>

definition passes :: "(sock_filter list \<Rightarrow> 32 word \<Rightarrow> seccomp_data \<Rightarrow> 32 word) \<Rightarrow> task_state \<Rightarrow> seccomp_data \<Rightarrow> bool" where
  "passes run t d \<longleftrightarrow> (\<forall>p \<in> set (filters t). run p 0 d = allow)"

lemma install_filter_Inr:
  "install_filter answer p t = Inr t' \<longleftrightarrow>
     answer SetNoNewPrivs t = 0 \<and> answer (SetSeccomp p) (t\<lparr>no_new_privs := True\<rparr>) = 0 \<and>
     t' = t\<lparr>no_new_privs := True, filters := p # filters t\<rparr>"
  by (auto simp: install_filter_def prctl_def)

lemma apply_network_seccomp_policy_Inr:
  assumes "apply_network_seccomp_policy answer linux m t = Inr t'"
  obtains p q where "network_program m = Inr p" "sensitive_program m = Inr q" "no_new_privs t'"
    "filters t' = q # p # filters t"
  using assms
  by (auto simp: apply_network_seccomp_policy_def apply_base_seccomp_policy_def
      apply_sensitive_host_handle_seccomp_policy_def bindE_eq_Inr install_filter_Inr)

text \<open>
  The checks the kernel makes before it accepts a program: at most 4096 instructions, every jump
  inside the program, and a return at the end.
\<close>

fun jumps_inside :: "sock_filter list \<Rightarrow> bool" where
  "jumps_inside [] = True"
| "jumps_inside (i # p) =
     ((bpf_code i \<in> {BPF_JMP_JEQ_K, BPF_JMP_JSET_K} \<longrightarrow>
        unat (bpf_jt i) < length p \<and> unat (bpf_jf i) < length p) \<and> jumps_inside p)"

definition checked :: "sock_filter list \<Rightarrow> bool" where
  "checked p \<longleftrightarrow> p \<noteq> [] \<and> length p \<le> 4096 \<and> jumps_inside p \<and> bpf_code (last p) = BPF_RET_K"

section \<open>Properties\<close>

text \<open>C10: Under the documented meaning of the instructions, the network filter answers EPERM to exactly
  the calls the policy forbids - foreign architectures, x32 numbers, sockets, signals, process
  memory, io_uring, prlimit of another process, socketpairs other than AF_UNIX - and allows all
  others.\<close>

theorem network_filter_exact:
  assumes "classic_bpf run" and "network_program m = Inr p"
  shows "run p acc d = (if network_forbidden m d then deny else allow)"
  by (rule classic_bpf.network_verdict [OF assms])

definition demo_call :: "32 word \<Rightarrow> 64 word \<Rightarrow> seccomp_data" where
  "demo_call n a = \<lparr>sd_nr = n, sd_arch = 0xC000003E, sd_args = [a, 0, 0, 0, 0, 0]\<rparr>"

lemma demo_network_program: "network_program X86_64 = Inr (projr (network_program X86_64))"
  by (simp add: network_program_def syscall_tables)

theorem network_filter_exact_witness:
  "bpf_run (projr (network_program X86_64)) 0 (demo_call 62 0) = deny \<and>
   bpf_run (projr (network_program X86_64)) 0 (demo_call 302 0) = allow"
  using network_filter_exact [OF reference.classic_bpf_axioms demo_network_program, of 0 "demo_call 62 0"]
    network_filter_exact [OF reference.classic_bpf_axioms demo_network_program, of 0 "demo_call 302 0"]
  by (simp add: network_forbidden_def demo_call_def arg_low_def)

text \<open>When the policy is installed without an exception, the task can gain no new privileges and a
  system call passes exactly if it passed before and neither the network policy nor the host-handle
  policy forbids it.\<close>

theorem seccomp_policy_restricts:
  assumes "classic_bpf run" and "apply_network_seccomp_policy answer linux m t = Inr t'"
  shows "no_new_privs t' \<and>
    (passes run t' d \<longleftrightarrow> passes run t d \<and> \<not> network_forbidden m d \<and> \<not> sensitive_forbidden m d)"
proof -
  obtain p q where "network_program m = Inr p" "sensitive_program m = Inr q" "no_new_privs t'"
    "filters t' = q # p # filters t"
    by (rule apply_network_seccomp_policy_Inr [OF assms(2)])
  then show ?thesis
    using classic_bpf.network_verdict [OF assms(1)] classic_bpf.sensitive_verdict [OF assms(1)]
    by (auto simp: passes_def)
qed

definition demo_task :: task_state where
  "demo_task = \<lparr>no_new_privs = False, filters = []\<rparr>"

theorem seccomp_policy_restricts_witness:
  "\<exists>t'. apply_network_seccomp_policy (\<lambda>_ _. 0) True Aarch64 demo_task = Inr t' \<and> no_new_privs t' \<and>
     \<not> passes bpf_run t' \<lparr>sd_nr = 198, sd_arch = 0xC00000B7, sd_args = []\<rparr>"
proof -
  obtain t' where t': "apply_network_seccomp_policy (\<lambda>_ _. 0) True Aarch64 demo_task = Inr t'"
    by (simp add: apply_network_seccomp_policy_def apply_base_seccomp_policy_def linux_libc_def
        apply_sensitive_host_handle_seccomp_policy_def network_program_def sensitive_program_def
        syscall_tables install_filter_def prctl_def)
  from seccomp_policy_restricts [OF reference.classic_bpf_axioms t',
      of "\<lparr>sd_nr = 198, sd_arch = 0xC00000B7, sd_args = []\<rparr>"] t' show ?thesis
    by (auto simp: network_forbidden_def)
qed

text \<open>Every program the policies hand to the kernel passes its checks: jumps stay inside, the last
  instruction returns, and the length is within the limit, on both supported machines.\<close>

theorem seccomp_programs_well_formed:
  "case (network_program m, sensitive_program m) of
     (Inr p, Inr q) \<Rightarrow> checked p \<and> checked q
   | _ \<Rightarrow> m = OtherMachine"
proof (cases m)
  case X86_64
  show ?thesis unfolding X86_64 by code_simp
next
  case Aarch64
  show ?thesis unfolding Aarch64 by code_simp
next
  case OtherMachine
  show ?thesis unfolding OtherMachine by code_simp
qed

lemma network_program_machine: "network_program m = Inr p \<Longrightarrow> m = X86_64 \<or> m = Aarch64"
  by (cases m) (auto simp: network_program_def socket_syscalls_def)

lemma task_updates: "t\<lparr>filters := f, no_new_privs := b\<rparr> = t\<lparr>no_new_privs := b, filters := f\<rparr>"
  by (cases t) simp

text \<open>The installation fails closed: it returns only on Linux on a supported machine, and only when the
  kernel accepted each of the four calls it makes; in every other case an exception leaves it.\<close>

theorem seccomp_policy_fails_closed:
  "(\<exists>t'. apply_network_seccomp_policy answer linux m t = Inr t') \<longleftrightarrow>
     linux \<and> (\<exists>p q. network_program m = Inr p \<and> sensitive_program m = Inr q \<and>
       answer SetNoNewPrivs t = 0 \<and> answer (SetSeccomp p) (t\<lparr>no_new_privs := True\<rparr>) = 0 \<and>
       answer SetNoNewPrivs (t\<lparr>no_new_privs := True, filters := p # filters t\<rparr>) = 0 \<and>
       answer (SetSeccomp q) (t\<lparr>no_new_privs := True, filters := p # filters t\<rparr>) = 0)"
  using network_program_machine [of m]
  by (auto simp: task_updates apply_network_seccomp_policy_def apply_base_seccomp_policy_def
      apply_sensitive_host_handle_seccomp_policy_def linux_libc_def bindE_eq_Inr install_filter_Inr)

end
