(* ===== verification/Landlock.thy ===== *)
theory Landlock
  imports Fed_Prelude
begin

text \<open>
  The Landlock policy and the resource ceilings of \<open>tools/moriarty_isolation.py\<close>:
  \<open>_landlock_rights_for\<close>, \<open>_add_landlock_rule\<close>, \<open>apply_landlock_policy\<close>,
  \<open>apply_landlock_write_policy\<close>, \<open>_apply_probe_resource_limits\<close> and the order in which
  \<open>probe_isolation_preexec\<close> applies them in the child. The file system and the kernel answer through
  the record \<open>host\<close>; rights are the 64-bit masks of the code.
\<close>

section \<open>Rights\<close>

type_synonym rights = "64 word"
type_synonym path = "pystr list"

definition LL_EXECUTE :: rights where "LL_EXECUTE = push_bit 0 1"
definition LL_WRITE_FILE :: rights where "LL_WRITE_FILE = push_bit 1 1"
definition LL_READ_FILE :: rights where "LL_READ_FILE = push_bit 2 1"
definition LL_READ_DIR :: rights where "LL_READ_DIR = push_bit 3 1"
definition LL_REMOVE_DIR :: rights where "LL_REMOVE_DIR = push_bit 4 1"
definition LL_REMOVE_FILE :: rights where "LL_REMOVE_FILE = push_bit 5 1"
definition LL_MAKE_CHAR :: rights where "LL_MAKE_CHAR = push_bit 6 1"
definition LL_MAKE_DIR :: rights where "LL_MAKE_DIR = push_bit 7 1"
definition LL_MAKE_REG :: rights where "LL_MAKE_REG = push_bit 8 1"
definition LL_MAKE_SOCK :: rights where "LL_MAKE_SOCK = push_bit 9 1"
definition LL_MAKE_FIFO :: rights where "LL_MAKE_FIFO = push_bit 10 1"
definition LL_MAKE_BLOCK :: rights where "LL_MAKE_BLOCK = push_bit 11 1"
definition LL_MAKE_SYM :: rights where "LL_MAKE_SYM = push_bit 12 1"
definition LL_REFER :: rights where "LL_REFER = push_bit 13 1"
definition LL_TRUNCATE :: rights where "LL_TRUNCATE = push_bit 14 1"

definition WRITE_MASK :: rights where
  "WRITE_MASK = LL_WRITE_FILE OR LL_REMOVE_DIR OR LL_REMOVE_FILE OR LL_MAKE_CHAR OR LL_MAKE_DIR
     OR LL_MAKE_REG OR LL_MAKE_SOCK OR LL_MAKE_FIFO OR LL_MAKE_BLOCK OR LL_MAKE_SYM OR LL_REFER
     OR LL_TRUNCATE"

definition READ_MASK :: rights where "READ_MASK = LL_READ_FILE OR LL_READ_DIR"
definition READ_EXEC_MASK :: rights where "READ_EXEC_MASK = READ_MASK OR LL_EXECUTE"
definition HANDLED_MASK :: rights where "HANDLED_MASK = WRITE_MASK OR READ_EXEC_MASK"

lemmas ll_bits = LL_EXECUTE_def LL_WRITE_FILE_def LL_READ_FILE_def LL_READ_DIR_def LL_REMOVE_DIR_def
  LL_REMOVE_FILE_def LL_MAKE_CHAR_def LL_MAKE_DIR_def LL_MAKE_REG_def LL_MAKE_SOCK_def
  LL_MAKE_FIFO_def LL_MAKE_BLOCK_def LL_MAKE_SYM_def LL_REFER_def LL_TRUNCATE_def

section \<open>The host\<close>

datatype kernel_call = CreateRuleset rights | AddRule path rights | NoNewPrivs | RestrictSelf

record host =
  on_linux :: bool
  machine_supported :: bool
  landlock_abi :: int
  exists_path :: "path \<Rightarrow> bool"
  resolve_path :: "path \<Rightarrow> path result"
  open_path :: "path \<Rightarrow> unit result"
  is_dir :: "path \<Rightarrow> bool"
  own_pid :: pystr
  answer_errno :: "kernel_call \<Rightarrow> nat"

record ruleset =
  handled :: rights
  ll_rules :: "(path \<times> rights) list"

definition landlock_abi_version :: "host \<Rightarrow> int" where
  "landlock_abi_version h =
     (if \<not> on_linux h \<or> \<not> machine_supported h then 0
      else if 0 \<le> landlock_abi h then landlock_abi h else 0)"

definition libc_available :: "host \<Rightarrow> unit result" where
  "libc_available h =
     (if \<not> on_linux h \<or> \<not> machine_supported h
      then Inl (SystemExit ''moriarty_linux_isolation_platform_required'') else Inr ())"

definition ask_kernel :: "host \<Rightarrow> kernel_call \<Rightarrow> unit result" where
  "ask_kernel h call = (if answer_errno h call \<noteq> 0 then Inl (OSError (answer_errno h call)) else Inr ())"

section \<open>Rules\<close>

definition landlock_rights_for :: "host \<Rightarrow> path \<Rightarrow> rights \<Rightarrow> rights" where
  "landlock_rights_for h p r =
     (if is_dir h p then r
      else r AND (LL_EXECUTE OR LL_WRITE_FILE OR LL_READ_FILE OR LL_TRUNCATE))"

definition add_landlock_rule :: "host \<Rightarrow> ruleset \<Rightarrow> path \<Rightarrow> rights \<Rightarrow> ruleset result" where
  "add_landlock_rule h rs p r =
     bindE (resolve_path h p) (\<lambda>resolved.
     bindE (open_path h resolved) (\<lambda>_.
       let allowed = landlock_rights_for h resolved r in
       bindE (ask_kernel h (AddRule resolved allowed)) (\<lambda>_.
         Inr (rs\<lparr>ll_rules := ll_rules rs @ [(resolved, allowed)]\<rparr>))))"

definition declared_rules :: "path list \<Rightarrow> path list \<Rightarrow> path list \<Rightarrow> (path \<times> rights) list" where
  "declared_rules read_exec_paths read_paths writable_paths =
     map (\<lambda>p. (p, READ_EXEC_MASK)) read_exec_paths @
     map (\<lambda>p. (p, READ_MASK)) read_paths @
     map (\<lambda>p. (p, READ_EXEC_MASK OR WRITE_MASK)) writable_paths"

text \<open>One round of the loop, with the set of rules already added.\<close>

definition declare_rule ::
  "host \<Rightarrow> ((path \<times> rights) list \<times> ruleset) \<Rightarrow> path \<times> rights \<Rightarrow> ((path \<times> rights) list \<times> ruleset) result" where
  "declare_rule h st pr = (case (st, pr) of ((seen, rs), (p, r)) \<Rightarrow>
     if \<not> exists_path h p then Inr (seen, rs)
     else bindE (resolve_path h p) (\<lambda>resolved.
       if (resolved, r) \<in> set seen then Inr (seen, rs)
       else bindE (add_landlock_rule h rs resolved r) (\<lambda>rs'. Inr ((resolved, r) # seen, rs'))))"

definition self_proc :: "host \<Rightarrow> path" where
  "self_proc h = [lit ''proc'', own_pid h]"

definition apply_landlock_policy ::
  "host \<Rightarrow> path list \<Rightarrow> path list \<Rightarrow> path list \<Rightarrow> bool \<Rightarrow> ruleset result" where
  "apply_landlock_policy h read_exec_paths read_paths writable_paths allow_self_proc =
     (if landlock_abi_version h < 3 then Inl (OSError 0)
      else bindE (libc_available h) (\<lambda>_.
        bindE (ask_kernel h (CreateRuleset HANDLED_MASK)) (\<lambda>_.
        bindE (foldE (declare_rule h) ([], \<lparr>handled = HANDLED_MASK, ll_rules = []\<rparr>)
                 (declared_rules read_exec_paths read_paths writable_paths)) (\<lambda>(seen, rs).
        bindE (if allow_self_proc then add_landlock_rule h rs (self_proc h) READ_MASK else Inr rs) (\<lambda>rs'.
        bindE (ask_kernel h NoNewPrivs) (\<lambda>_.
        bindE (ask_kernel h RestrictSelf) (\<lambda>_. Inr rs')))))))"

definition apply_landlock_write_policy :: "host \<Rightarrow> path list \<Rightarrow> ruleset result" where
  "apply_landlock_write_policy h writable_paths =
     (if landlock_abi_version h < 3 then Inl (OSError 0)
      else bindE (libc_available h) (\<lambda>_.
        bindE (ask_kernel h (CreateRuleset WRITE_MASK)) (\<lambda>_.
        bindE (foldE (\<lambda>rs root. add_landlock_rule h rs root WRITE_MASK)
                 \<lparr>handled = WRITE_MASK, ll_rules = []\<rparr> writable_paths) (\<lambda>rs.
        bindE (ask_kernel h NoNewPrivs) (\<lambda>_.
        bindE (ask_kernel h RestrictSelf) (\<lambda>_. Inr rs))))))"

section \<open>What a ruleset allows\<close>

text \<open>
  The documented meaning: a handled access to a file is allowed when some rule on the file or on a
  directory above it grants it; an access that is not handled is not restricted.
\<close>

definition beneath :: "path \<Rightarrow> path \<Rightarrow> bool" where
  "beneath p f \<longleftrightarrow> starts_with f p"

definition ruleset_allows :: "ruleset \<Rightarrow> path \<Rightarrow> rights \<Rightarrow> bool" where
  "ruleset_allows rs f right \<longleftrightarrow>
     handled rs AND right = 0 \<or> (\<exists>(p, allowed) \<in> set (ll_rules rs). beneath p f \<and> allowed AND right \<noteq> 0)"

lemma beneath_refl [simp]: "beneath p p"
  using starts_with_append [of p "[]"] by (simp add: beneath_def)

section \<open>The rules come from the declared paths\<close>

lemma add_landlock_rule_Inr:
  "add_landlock_rule h rs p r = Inr rs' \<Longrightarrow>
     \<exists>q. resolve_path h p = Inr q \<and>
       rs' = rs\<lparr>ll_rules := ll_rules rs @ [(q, landlock_rights_for h q r)]\<rparr>"
  by (auto simp: add_landlock_rule_def Let_def bindE_eq_Inr)

lemma landlock_rights_subset:
  assumes "landlock_rights_for h p r AND right \<noteq> 0"
  shows "r AND right \<noteq> 0"
proof
  assume none: "r AND right = 0"
  have "(r AND m) AND right = (r AND right) AND m" for m
    by (simp add: ac_simps)
  with none have "(r AND m) AND right = 0" for m by simp
  with none assms show False by (simp add: landlock_rights_for_def split: if_splits)
qed

text \<open>
  A rule of the ruleset stems from a declared path that exists and resolves to the rule's path (the
  policy resolves once, \<open>_add_landlock_rule\<close> again).
\<close>

definition stems :: "host \<Rightarrow> (path \<times> rights) list \<Rightarrow> path \<times> rights \<Rightarrow> bool" where
  "stems h declared pr \<longleftrightarrow> (\<exists>(p, r) \<in> set declared. \<exists>q. exists_path h p \<and> resolve_path h p = Inr q \<and>
     resolve_path h q = Inr (fst pr) \<and> snd pr = landlock_rights_for h (fst pr) r)"

lemma declare_rule_stems:
  assumes "declare_rule h (seen, rs) (p, r) = Inr (seen', rs')"
  shows "handled rs' = handled rs \<and> (\<forall>pr \<in> set (ll_rules rs'). pr \<in> set (ll_rules rs) \<or> stems h [(p, r)] pr)"
proof (cases "ll_rules rs' = ll_rules rs \<and> handled rs' = handled rs")
  case False
  with assms obtain q where q: "exists_path h p" "resolve_path h p = Inr q"
    "add_landlock_rule h rs q r = Inr rs'"
    by (auto simp: declare_rule_def bindE_eq_Inr split: if_splits)
  from add_landlock_rule_Inr [OF q(3)] obtain q' where
    "resolve_path h q = Inr q'" "rs' = rs\<lparr>ll_rules := ll_rules rs @ [(q', landlock_rights_for h q' r)]\<rparr>"
    by blast
  with q show ?thesis by (auto simp: stems_def)
qed auto

lemma stems_mono: "stems h xs pr \<Longrightarrow> set xs \<subseteq> set ys \<Longrightarrow> stems h ys pr"
  by (auto simp: stems_def)

lemma foldE_declare_stems:
  "foldE (declare_rule h) (seen, rs) ds = Inr (seen', rs') \<Longrightarrow>
     handled rs' = handled rs \<and> (\<forall>pr \<in> set (ll_rules rs'). pr \<in> set (ll_rules rs) \<or> stems h ds pr)"
proof (induction ds arbitrary: seen rs)
  case (Cons d ds)
  from Cons.prems obtain seen1 rs1 where d: "declare_rule h (seen, rs) d = Inr (seen1, rs1)"
    and r: "foldE (declare_rule h) (seen1, rs1) ds = Inr (seen', rs')"
    by (auto simp: bindE_eq_Inr)
  obtain p r0 where pr: "d = (p, r0)" by (cases d)
  have "stems h [(p, r0)] x \<or> stems h ds x \<Longrightarrow> stems h (d # ds) x" for x
    using stems_mono [of h _ x "d # ds"] pr by auto
  with declare_rule_stems [OF d [unfolded pr]] Cons.IH [OF r] show ?case by metis
qed simp

lemma apply_landlock_policy_Inr:
  assumes "apply_landlock_policy h re rd wr self = Inr rs"
  shows "handled rs = HANDLED_MASK \<and>
    (\<forall>pr \<in> set (ll_rules rs). stems h (declared_rules re rd wr) pr \<or>
       (self \<and> resolve_path h (self_proc h) = Inr (fst pr) \<and> snd pr = landlock_rights_for h (fst pr) READ_MASK))"
proof -
  from assms obtain seen rs0 where
    f: "foldE (declare_rule h) ([], \<lparr>handled = HANDLED_MASK, ll_rules = []\<rparr>) (declared_rules re rd wr) = Inr (seen, rs0)"
    and s: "(if self then add_landlock_rule h rs0 (self_proc h) READ_MASK else Inr rs0) = Inr rs"
    by (auto simp: apply_landlock_policy_def bindE_eq_Inr split: if_splits)
  from foldE_declare_stems [OF f] s add_landlock_rule_Inr [of h rs0 "self_proc h" READ_MASK rs]
  show ?thesis by (cases self) auto
qed

section \<open>Every declared path that exists has its rule\<close>

definition granted :: "host \<Rightarrow> ruleset \<Rightarrow> path \<Rightarrow> rights \<Rightarrow> bool" where
  "granted h rs q r \<longleftrightarrow> (\<exists>q'. resolve_path h q = Inr q' \<and> (q', landlock_rights_for h q' r) \<in> set (ll_rules rs))"

lemma granted_mono: "granted h rs q r \<Longrightarrow> set (ll_rules rs) \<subseteq> set (ll_rules rs') \<Longrightarrow> granted h rs' q r"
  by (auto simp: granted_def)

lemma declare_rule_grows:
  assumes "declare_rule h (seen, rs) d = Inr (seen', rs')"
    and "\<And>q r. (q, r) \<in> set seen \<Longrightarrow> granted h rs q r"
  shows "set (ll_rules rs) \<subseteq> set (ll_rules rs') \<and> (\<forall>(q, r) \<in> set seen'. granted h rs' q r) \<and>
    (exists_path h (fst d) \<longrightarrow> (\<exists>q. resolve_path h (fst d) = Inr q \<and> granted h rs' q (snd d)))"
proof -
  obtain p r where d: "d = (p, r)" by (cases d)
  consider (none) "\<not> exists_path h p" "seen' = seen" "rs' = rs"
    | (seen) q where "exists_path h p" "resolve_path h p = Inr q" "(q, r) \<in> set seen" "seen' = seen" "rs' = rs"
    | (new) q where "exists_path h p" "resolve_path h p = Inr q" "add_landlock_rule h rs q r = Inr rs'"
        "seen' = (q, r) # seen"
    using assms(1) by (auto simp: declare_rule_def d bindE_eq_Inr split: if_splits)
  then show ?thesis
  proof cases
    case none
    then show ?thesis using assms(2) d by auto
  next
    case seen
    then show ?thesis using assms(2) d by auto
  next
    case new
    from add_landlock_rule_Inr [OF new(3)] obtain q' where
      q': "resolve_path h q = Inr q'" "rs' = rs\<lparr>ll_rules := ll_rules rs @ [(q', landlock_rights_for h q' r)]\<rparr>"
      by blast
    have mono: "set (ll_rules rs) \<subseteq> set (ll_rules rs')" using q' by auto
    have "granted h rs' q r" using q' by (auto simp: granted_def)
    with new mono d assms(2) granted_mono show ?thesis by fastforce
  qed
qed

lemma foldE_declare_grants:
  assumes "foldE (declare_rule h) (seen, rs) ds = Inr (seen', rs')"
    and "\<And>q r. (q, r) \<in> set seen \<Longrightarrow> granted h rs q r"
  shows "set (ll_rules rs) \<subseteq> set (ll_rules rs') \<and>
    (\<forall>d \<in> set ds. exists_path h (fst d) \<longrightarrow> (\<exists>q. resolve_path h (fst d) = Inr q \<and> granted h rs' q (snd d)))"
  using assms
proof (induction ds arbitrary: seen rs)
  case (Cons d ds)
  from Cons.prems obtain seen1 rs1 where d: "declare_rule h (seen, rs) d = Inr (seen1, rs1)"
    and r: "foldE (declare_rule h) (seen1, rs1) ds = Inr (seen', rs')"
    by (auto simp: bindE_eq_Inr)
  note step = declare_rule_grows [OF d Cons.prems(2)]
  have "\<And>q r. (q, r) \<in> set seen1 \<Longrightarrow> granted h rs1 q r" using step by auto
  note rest = Cons.IH [OF r this]
  from step rest show ?case using granted_mono by fastforce
qed auto

section \<open>Properties\<close>

definition WRITE_RIGHTS :: "rights list" where
  "WRITE_RIGHTS = [LL_WRITE_FILE, LL_REMOVE_DIR, LL_REMOVE_FILE, LL_MAKE_CHAR, LL_MAKE_DIR, LL_MAKE_REG,
     LL_MAKE_SOCK, LL_MAKE_FIFO, LL_MAKE_BLOCK, LL_MAKE_SYM, LL_REFER, LL_TRUNCATE]"

lemmas ll_masks = WRITE_MASK_def READ_MASK_def READ_EXEC_MASK_def HANDLED_MASK_def

lemma write_rights_masks:
  "right \<in> set WRITE_RIGHTS \<Longrightarrow>
     HANDLED_MASK AND right \<noteq> 0 \<and> READ_MASK AND right = 0 \<and> READ_EXEC_MASK AND right = 0"
  by (auto simp: WRITE_RIGHTS_def ll_masks ll_bits)

lemma exec_right_masks: "HANDLED_MASK AND LL_EXECUTE \<noteq> 0" "READ_MASK AND LL_EXECUTE = 0"
  by (simp_all add: ll_masks ll_bits)

lemma read_right_masks:
  "right \<in> {LL_READ_FILE, LL_READ_DIR} \<Longrightarrow> HANDLED_MASK AND right \<noteq> 0"
  by (auto simp: ll_masks ll_bits)

text \<open>The path of an existing declared path: what it resolves to, resolved once more.\<close>

definition declared_root :: "host \<Rightarrow> path list \<Rightarrow> path \<Rightarrow> bool" where
  "declared_root h ps q' \<longleftrightarrow> (\<exists>p \<in> set ps. \<exists>q. exists_path h p \<and> resolve_path h p = Inr q \<and> resolve_path h q = Inr q')"

lemma policy_grant:
  assumes "apply_landlock_policy h re rd wr self = Inr rs" and "ruleset_allows rs f right"
    and "HANDLED_MASK AND right \<noteq> 0"
  shows "(\<exists>q. beneath q f \<and>
     ((declared_root h re q \<and> READ_EXEC_MASK AND right \<noteq> 0) \<or> (declared_root h rd q \<and> READ_MASK AND right \<noteq> 0) \<or>
      declared_root h wr q \<or> (self \<and> resolve_path h (self_proc h) = Inr q \<and> READ_MASK AND right \<noteq> 0)))"
proof -
  note rules = apply_landlock_policy_Inr [OF assms(1)]
  obtain q a where qa: "(q, a) \<in> set (ll_rules rs)" "beneath q f" "a AND right \<noteq> 0"
    using assms(2,3) rules by (auto simp: ruleset_allows_def)
  from rules qa(1) consider
      (declared) "stems h (declared_rules re rd wr) (q, a)"
    | (self) "self" "resolve_path h (self_proc h) = Inr q" "a = landlock_rights_for h q READ_MASK"
    by auto
  then show ?thesis
  proof cases
    case declared
    then obtain p r q0 where pr: "(p, r) \<in> set (declared_rules re rd wr)" "exists_path h p"
      "resolve_path h p = Inr q0" "resolve_path h q0 = Inr q" "a = landlock_rights_for h q r"
      by (auto simp: stems_def)
    then have "r AND right \<noteq> 0" using landlock_rights_subset qa(3) by blast
    with pr qa(2) show ?thesis by (auto simp: declared_rules_def declared_root_def)
  next
    case self
    then show ?thesis using landlock_rights_subset qa by blast
  qed
qed

text \<open>Confinement: when the Landlock policy is installed, a write access of any of the twelve kinds is
  possible only beneath a declared writable root, execution only beneath a read-exec or writable
  root, and reading only beneath a declared root or the process's own proc directory.\<close>

theorem landlock_policy_confines:
  assumes "apply_landlock_policy h read_exec_paths read_paths writable_paths allow_self_proc = Inr rs"
    and "ruleset_allows rs f right"
  shows "(right \<in> set WRITE_RIGHTS \<longrightarrow> (\<exists>q. declared_root h writable_paths q \<and> beneath q f)) \<and>
    (right = LL_EXECUTE \<longrightarrow> (\<exists>q. declared_root h (read_exec_paths @ writable_paths) q \<and> beneath q f)) \<and>
    (right \<in> {LL_READ_FILE, LL_READ_DIR} \<longrightarrow>
      (\<exists>q. beneath q f \<and> (declared_root h (read_exec_paths @ read_paths @ writable_paths) q \<or>
        allow_self_proc \<and> resolve_path h (self_proc h) = Inr q)))"
proof (intro conjI impI)
  assume "right \<in> set WRITE_RIGHTS"
  from write_rights_masks [OF this] policy_grant [OF assms]
  show "\<exists>q. declared_root h writable_paths q \<and> beneath q f" by auto
next
  assume "right = LL_EXECUTE"
  with exec_right_masks policy_grant [OF assms]
  show "\<exists>q. declared_root h (read_exec_paths @ writable_paths) q \<and> beneath q f"
    by (auto simp: declared_root_def)
next
  assume "right \<in> {LL_READ_FILE, LL_READ_DIR}"
  from read_right_masks [OF this] policy_grant [OF assms]
  show "\<exists>q. beneath q f \<and> (declared_root h (read_exec_paths @ read_paths @ writable_paths) q \<or>
        allow_self_proc \<and> resolve_path h (self_proc h) = Inr q)"
    by (auto simp: declared_root_def)
qed

definition demo_host :: host where
  "demo_host = \<lparr>on_linux = True, machine_supported = True, landlock_abi = 4,
     exists_path = (\<lambda>p. p \<noteq> []), resolve_path = Inr, open_path = (\<lambda>_. Inr ()),
     is_dir = (\<lambda>p. hd p \<noteq> lit ''file''), own_pid = lit ''77'', answer_errno = (\<lambda>_. 0)\<rparr>"

lemma demo_policy:
  "\<exists>rs. apply_landlock_policy demo_host [[lit ''usr'']] [[lit ''etc'']] [[lit ''tmp'']] True = Inr rs \<and>
     ruleset_allows rs [lit ''tmp'', lit ''x''] LL_MAKE_REG"
  by (simp add: apply_landlock_policy_def landlock_abi_version_def libc_available_def ask_kernel_def
      demo_host_def declared_rules_def declare_rule_def add_landlock_rule_def self_proc_def Let_def
      ruleset_allows_def beneath_def landlock_rights_for_def ll_masks ll_bits)

theorem landlock_policy_confines_witness:
  "\<exists>q. declared_root demo_host [[lit ''tmp'']] q \<and> beneath q [lit ''tmp'', lit ''x'']"
proof -
  from demo_policy obtain rs where
    "apply_landlock_policy demo_host [[lit ''usr'']] [[lit ''etc'']] [[lit ''tmp'']] True = Inr rs"
    "ruleset_allows rs [lit ''tmp'', lit ''x''] LL_MAKE_REG" by blast
  from landlock_policy_confines [OF this] show ?thesis by (simp add: WRITE_RIGHTS_def)
qed

text \<open>The policy grants what it declares: beneath every existing writable directory all the read,
  execute and write accesses are possible, beneath every read-exec directory reading and execution.\<close>

theorem landlock_policy_grants:
  assumes "apply_landlock_policy h read_exec_paths read_paths writable_paths allow_self_proc = Inr rs"
    and "exists_path h p" and "resolve_path h p = Inr q" and "resolve_path h q = Inr q'"
    and "is_dir h q'" and "beneath q' f"
  shows "(p \<in> set writable_paths \<longrightarrow> (\<forall>right \<in> set (LL_EXECUTE # LL_READ_FILE # LL_READ_DIR # WRITE_RIGHTS).
      ruleset_allows rs f right)) \<and>
    (p \<in> set read_exec_paths \<longrightarrow> (\<forall>right \<in> {LL_EXECUTE, LL_READ_FILE, LL_READ_DIR}. ruleset_allows rs f right))"
proof -
  from assms(1) obtain seen rs0 where
    f: "foldE (declare_rule h) ([], \<lparr>handled = HANDLED_MASK, ll_rules = []\<rparr>)
          (declared_rules read_exec_paths read_paths writable_paths) = Inr (seen, rs0)"
    and s: "(if allow_self_proc then add_landlock_rule h rs0 (self_proc h) READ_MASK else Inr rs0) = Inr rs"
    by (auto simp: apply_landlock_policy_def bindE_eq_Inr split: if_splits)
  have sub: "set (ll_rules rs0) \<subseteq> set (ll_rules rs)"
    using s add_landlock_rule_Inr [of h rs0 "self_proc h" READ_MASK rs] by (cases allow_self_proc) auto
  have rule: "(q', r) \<in> set (ll_rules rs)" if "(p, r) \<in> set (declared_rules read_exec_paths read_paths writable_paths)" for r
    using foldE_declare_grants [OF f] that assms(2-5) sub
    by (fastforce simp: granted_def landlock_rights_for_def)
  have allows: "ruleset_allows rs f right" if "(q', r) \<in> set (ll_rules rs)" "r AND right \<noteq> 0" for r right
    using that assms(6) by (auto simp: ruleset_allows_def)
  have full: "(READ_EXEC_MASK OR WRITE_MASK) AND right \<noteq> 0"
    if "right \<in> set (LL_EXECUTE # LL_READ_FILE # LL_READ_DIR # WRITE_RIGHTS)" for right
    using that by (auto simp: WRITE_RIGHTS_def ll_masks ll_bits)
  have read: "READ_EXEC_MASK AND right \<noteq> 0" if "right \<in> {LL_EXECUTE, LL_READ_FILE, LL_READ_DIR}" for right
    using that by (auto simp: ll_masks ll_bits)
  have wr: "(q', READ_EXEC_MASK OR WRITE_MASK) \<in> set (ll_rules rs)" if "p \<in> set writable_paths"
    by (rule rule) (use that in \<open>simp add: declared_rules_def\<close>)
  have re: "(q', READ_EXEC_MASK) \<in> set (ll_rules rs)" if "p \<in> set read_exec_paths"
    by (rule rule) (use that in \<open>simp add: declared_rules_def\<close>)
  show ?thesis
    using allows [OF wr full] allows [OF re read] by blast
qed

theorem landlock_policy_grants_witness:
  "\<exists>rs. apply_landlock_policy demo_host [[lit ''usr'']] [[lit ''etc'']] [[lit ''tmp'']] True = Inr rs \<and>
     ruleset_allows rs [lit ''tmp'', lit ''x''] LL_REMOVE_DIR"
proof -
  from demo_policy obtain rs where
    rs: "apply_landlock_policy demo_host [[lit ''usr'']] [[lit ''etc'']] [[lit ''tmp'']] True = Inr rs" by blast
  have "exists_path demo_host [lit ''tmp'']" "resolve_path demo_host [lit ''tmp''] = Inr [lit ''tmp'']"
    "is_dir demo_host [lit ''tmp'']" "beneath [lit ''tmp''] [lit ''tmp'', lit ''x'']"
    by (simp_all add: demo_host_def beneath_def)
  from landlock_policy_grants [OF rs this(1,2,2,3,4)] rs show ?thesis by (auto simp: WRITE_RIGHTS_def)
qed

end
