(* ===== verification/Py_Text.thy ===== *)
theory Py_Text
  imports Json_Scanner
begin

text \<open>
  The text operations of Python that the tools use on kernel and git output: \<open>str.strip\<close>,
  \<open>str.split\<close>, \<open>str.splitlines\<close>, \<open>str.replace\<close> and \<open>int(text, base)\<close>. \<open>int\<close> is modelled for ASCII
  digits, which is all a text read with encoding \<open>ascii\<close> has.
\<close>

section \<open>White space\<close>

definition py_space :: "nat \<Rightarrow> bool" where
  "py_space c \<longleftrightarrow> (9 \<le> c \<and> c \<le> 13) \<or> (28 \<le> c \<and> c \<le> 32) \<or> c = 0x85 \<or> c = 0xA0 \<or> c = 0x1680 \<or>
     (0x2000 \<le> c \<and> c \<le> 0x200A) \<or> c = 0x2028 \<or> c = 0x2029 \<or> c = 0x202F \<or> c = 0x205F \<or> c = 0x3000"

definition line_break :: "nat \<Rightarrow> bool" where
  "line_break c \<longleftrightarrow> (10 \<le> c \<and> c \<le> 13) \<or> (28 \<le> c \<and> c \<le> 30) \<or> c = 0x85 \<or> c = 0x2028 \<or> c = 0x2029"

definition lstrip :: "pystr \<Rightarrow> pystr" where "lstrip s = dropWhile py_space s"
definition rstrip :: "pystr \<Rightarrow> pystr" where "rstrip s = rev (dropWhile py_space (rev s))"
definition strip :: "pystr \<Rightarrow> pystr" where "strip s = rstrip (lstrip s)"

text \<open>\<open>s.split()\<close>: the maximal runs without white space.\<close>

function split_ws :: "pystr \<Rightarrow> pystr list" where
  "split_ws s = (case dropWhile py_space s of
     [] \<Rightarrow> []
   | c # r \<Rightarrow> takeWhile (\<lambda>x. \<not> py_space x) (c # r) # split_ws (dropWhile (\<lambda>x. \<not> py_space x) r))"
  by pat_completeness auto
termination
proof (relation "measure length", goal_cases)
  case (2 s c r)
  then have "length (c # r) \<le> length s" by (metis length_dropWhile_le)
  moreover have "length (dropWhile (\<lambda>x. \<not> py_space x) r) \<le> length r" by (rule length_dropWhile_le)
  ultimately show ?case by simp
qed simp

declare split_ws.simps [simp del]

text \<open>\<open>s.splitlines()\<close>: no empty line after the last break, CR LF is one break.\<close>

fun splitlines_from :: "pystr \<Rightarrow> pystr \<Rightarrow> pystr list" where
  "splitlines_from acc [] = (if acc = [] then [] else [rev acc])"
| "splitlines_from acc (c # s) =
     (if c = 13 \<and> (case s of d # _ \<Rightarrow> d = 10 | [] \<Rightarrow> False) then splitlines_from acc s
      else if line_break c then rev acc # splitlines_from [] s
      else splitlines_from (c # acc) s)"

definition splitlines :: "pystr \<Rightarrow> pystr list" where
  "splitlines s = splitlines_from [] s"

text \<open>\<open>s.replace(old, new)\<close> for a nonempty \<open>old\<close>.\<close>

function py_replace :: "'a list \<Rightarrow> 'a list \<Rightarrow> 'a list \<Rightarrow> 'a list" where
  "py_replace old new [] = []"
| "py_replace old new (c # s) =
     (if old \<noteq> [] \<and> starts_with (c # s) old then new @ py_replace old new (drop (length old) (c # s))
      else c # py_replace old new s)"
  by pat_completeness auto
termination by (relation "measure (\<lambda>(old, new, s). length s)") auto

section \<open>Integers\<close>

definition digit_val :: "nat \<Rightarrow> nat \<Rightarrow> nat option" where
  "digit_val base c =
     (if is_digit c \<and> c - 48 < base then Some (c - 48)
      else if 97 \<le> c \<and> c \<le> 122 \<and> c - 87 < base then Some (c - 87)
      else if 65 \<le> c \<and> c \<le> 90 \<and> c - 55 < base then Some (c - 55)
      else None)"

text \<open>Digits with single underscores between them; \<open>need\<close> says that a digit must come next.\<close>

fun digit_run :: "nat \<Rightarrow> bool \<Rightarrow> nat \<Rightarrow> nat \<Rightarrow> pystr \<Rightarrow> (nat \<times> nat) option" where
  "digit_run base need count acc [] = (if need then None else Some (count, acc))"
| "digit_run base need count acc (c # s) =
     (if c = 95 then (if need then None else digit_run base True count acc s)
      else case digit_val base c of
        None \<Rightarrow> None
      | Some d \<Rightarrow> digit_run base False (count + 1) (acc * base + d) s)"

definition int_sign :: "pystr \<Rightarrow> bool \<times> pystr" where
  "int_sign s =
     (if s \<noteq> [] \<and> hd s = 45 then (True, tl s) else if s \<noteq> [] \<and> hd s = 43 then (False, tl s) else (False, s))"

definition hex_prefix :: "nat \<Rightarrow> pystr \<Rightarrow> pystr" where
  "hex_prefix base s =
     (if base = 16 \<and> (starts_with s [48, 120] \<or> starts_with s [48, 88])
      then (if starts_with (drop 2 s) [95] then drop 3 s else drop 2 s) else s)"

text \<open>
  \<open>int(text, base)\<close> for base 10 and 16, None for a ValueError: outer white space, a sign, the prefix
  \<open>0x\<close> (with an underscore after it) in base 16, and the limit on the number of decimal digits.
\<close>

definition py_int_text :: "nat \<Rightarrow> pystr \<Rightarrow> int option" where
  "py_int_text base text =
     (case int_sign (strip text) of (neg, body) \<Rightarrow>
        case digit_run base True 0 0 (hex_prefix base body) of
          None \<Rightarrow> None
        | Some (count, n) \<Rightarrow>
            if base = 10 \<and> int_max_str_digits < count then None
            else Some (if neg then - int n else int n))"

section \<open>Laws\<close>

lemma strip_no_space:
  assumes "s \<noteq> []" and "\<not> py_space (hd s)" and "\<not> py_space (last s)"
  shows "strip s = s"
proof -
  have "dropWhile py_space s = s" using assms(1,2) by (cases s) simp_all
  moreover have "dropWhile py_space (rev s) = rev s"
    using assms(1,3) by (cases "rev s") (auto simp: last_rev hd_rev dest: arg_cong [of _ _ hd])
  ultimately show ?thesis by (simp add: strip_def lstrip_def rstrip_def)
qed

lemma digit_not_space: "is_digit c \<Longrightarrow> \<not> py_space c"
  by (auto simp: is_digit_def py_space_def)

lemma digit_run_digits:
  assumes "\<forall>c \<in> set s. is_digit c" and "s \<noteq> [] \<or> \<not> need"
  shows "digit_run 10 need count acc s = Some (count + length s, foldl (\<lambda>n d. n * 10 + (d - 48)) acc s)"
  using assms
proof (induction s arbitrary: need count acc)
  case (Cons c s)
  then show ?case by (auto simp: digit_val_def is_digit_def)
qed simp

lemma py_int_digits:
  assumes "n < 10 ^ int_max_str_digits"
  shows "py_int_text 10 (digits n) = Some (int n)"
proof -
  have all: "\<forall>c \<in> set (digits n). is_digit c" using digits_all by blast
  obtain c ds where ds: "digits n = c # ds" by (cases "digits n") auto
  have c: "is_digit c" "is_digit (last (digits n))" using all ds by (auto simp: last_in_set)
  have s: "strip (digits n) = digits n"
    by (rule strip_no_space) (use c ds digit_not_space in auto)
  have len: "length (digits n) \<le> int_max_str_digits"
    by (rule length_digits [OF assms]) (simp add: int_max_str_digits_def)
  have run: "digit_run 10 True 0 0 (digits n) = Some (length (digits n), n)"
    using digit_run_digits [OF all, of True 0 0] nat_of_digits_digits [of n]
    by (simp add: nat_of_digits_def)
  show ?thesis
    using c(1) len run s unfolding ds by (simp add: py_int_text_def int_sign_def hex_prefix_def is_digit_def)
qed

end
