(* ===== verification/Probe_Host.thy ===== *)
theory Probe_Host
  imports Py_Text Landlock
begin

text \<open>
  The checks of \<open>tools/moriarty_isolation.py\<close> on the machine the probe runs on: the parser of
  \<open>/proc/self/status\<close> (\<open>_proc_status_unprivileged\<close>), the parser of \<open>/proc/self/mountinfo\<close> and the
  private tmpfs roots (\<open>_mountinfo_unescape\<close>, \<open>_tmpfs_root\<close>), and the resource ceilings
  (\<open>_apply_probe_resource_limits\<close>).
\<close>

section \<open>Process status\<close>

text \<open>The dictionary of the status fields: a later line with the same key replaces an earlier one.\<close>

definition status_fields :: "pystr \<Rightarrow> (pystr \<times> pystr) list" where
  "status_fields status_text =
     foldl (\<lambda>cols raw_line. case split_once 58 raw_line of
               (key, Some rest) \<Rightarrow> (key, strip rest) # cols
             | _ \<Rightarrow> cols)
           [] (splitlines status_text)"

definition field_ints :: "(pystr \<times> pystr) list \<Rightarrow> string \<Rightarrow> (int list) option" where
  "field_ints cols key = (case lookup cols (lit key) of
     None \<Rightarrow> None
   | Some v \<Rightarrow> those (map (py_int_text 10) (split_ws v)))"

definition field_hex :: "(pystr \<times> pystr) list \<Rightarrow> string \<Rightarrow> int option" where
  "field_hex cols key = (case lookup cols (lit key) of None \<Rightarrow> None | Some v \<Rightarrow> py_int_text 16 v)"

definition CAPABILITY_SETS :: "string list" where
  "CAPABILITY_SETS = [''CapInh'', ''CapPrm'', ''CapEff'', ''CapAmb'']"

definition all_equal :: "int list \<Rightarrow> bool" where
  "all_equal xs \<longleftrightarrow> length (remdups xs) = 1"

definition proc_status_unprivileged :: "pystr \<Rightarrow> bool" where
  "proc_status_unprivileged status_text =
     (let cols = status_fields status_text in
      case (field_ints cols ''Uid'', field_ints cols ''Gid'', those (map (field_hex cols) CAPABILITY_SETS)) of
        (Some uids, Some gids, Some capabilities) \<Rightarrow>
          length uids = 4 \<and> length gids = 4 \<and> all_equal uids \<and> all_equal gids \<and>
          uids ! 0 \<noteq> 0 \<and> gids ! 0 \<noteq> 0 \<and> list_all (\<lambda>v. v = 0) capabilities
      | _ \<Rightarrow> False)"

text \<open>\<open>read_text(encoding="ascii")\<close> of \<open>/proc/self/status\<close> is the argument.\<close>

definition require_unprivileged_probe_launcher :: "bool \<Rightarrow> pystr result \<Rightarrow> unit result" where
  "require_unprivileged_probe_launcher linux status =
     (if \<not> linux then Inl (SystemExit ''moriarty_linux_isolation_platform_required'')
      else case status of
        Inl (OSError n) \<Rightarrow> Inl (SystemExit ''moriarty_launcher_privilege_status_unavailable'')
      | Inl UnicodeDecodeError \<Rightarrow> Inl (SystemExit ''moriarty_launcher_privilege_status_unavailable'')
      | Inl e \<Rightarrow> Inl e
      | Inr text \<Rightarrow>
          if \<not> proc_status_unprivileged text
          then Inl (SystemExit ''moriarty_privileged_probe_launcher_rejected'') else Inr ())"

section \<open>Mount information\<close>

definition mountinfo_unescape :: "pystr \<Rightarrow> pystr" where
  "mountinfo_unescape value =
     py_replace (lit [CHR 0x5C] @ lit ''134'') [92]
       (py_replace (lit [CHR 0x5C] @ lit ''012'') [10]
         (py_replace (lit [CHR 0x5C] @ lit ''011'') [9]
           (py_replace (lit [CHR 0x5C] @ lit ''040'') [32] value)))"

text \<open>Iterating over a text file: CR LF and CR are line ends too, the line end is cut.\<close>

fun text_lines_from :: "pystr \<Rightarrow> pystr \<Rightarrow> pystr list" where
  "text_lines_from acc [] = (if acc = [] then [] else [rev acc])"
| "text_lines_from acc (c # s) =
     (if c = 13 \<and> (case s of d # _ \<Rightarrow> d = 10 | [] \<Rightarrow> False) then text_lines_from acc s
      else if c = 10 \<or> c = 13 then rev acc # text_lines_from [] s
      else text_lines_from (c # acc) s)"

definition text_lines :: "pystr \<Rightarrow> pystr list" where
  "text_lines s = text_lines_from [] s"

fun index_of :: "'a \<Rightarrow> 'a list \<Rightarrow> nat" where
  "index_of x [] = 0"
| "index_of x (y # ys) = (if y = x then 0 else Suc (index_of x ys))"

text \<open>The file system type of the mount whose mount point resolves to the root; the first wins.\<close>

fun mount_type :: "(pystr \<Rightarrow> path result) \<Rightarrow> path \<Rightarrow> pystr list \<Rightarrow> (pystr option) result" where
  "mount_type resolve top_dir [] = Inr None"
| "mount_type resolve top_dir (line # ls) =
     (let cols = split_ws line; separator = index_of [45] cols in
      if [45] \<notin> set cols \<or> length cols < 7 then mount_type resolve top_dir ls
      else if length cols \<le> separator + 1 then mount_type resolve top_dir ls
      else case resolve (mountinfo_unescape (cols ! 4)) of
        Inl (OSError n) \<Rightarrow> mount_type resolve top_dir ls
      | Inl e \<Rightarrow> Inl e
      | Inr resolved_mount \<Rightarrow>
          if resolved_mount = top_dir then Inr (Some (cols ! (separator + 1)))
          else mount_type resolve top_dir ls)"

record root_stat =
  st_uid :: nat
  st_mode :: nat

record mount_view =
  resolve_root :: "path result"
  stat_root :: "root_stat result"
  root_is_dir :: bool
  uid :: nat
  is_mount :: bool
  mountinfo_text :: "pystr result"
  resolve_mount :: "pystr \<Rightarrow> path result"
  statvfs_root :: "(int \<times> int) result"
  first_entry :: "bool result"

text \<open>An OSError becomes the given failure, every other exception leaves as it is.\<close>

definition on_oserror :: "exn \<Rightarrow> 'a result \<Rightarrow> 'a result" where
  "on_oserror e m = (case m of Inl (OSError n) \<Rightarrow> Inl e | _ \<Rightarrow> m)"

definition tmpfs_root :: "mount_view \<Rightarrow> int \<Rightarrow> bool \<Rightarrow> string \<Rightarrow> path result" where
  "tmpfs_root v maximum_bytes require_empty label =
     (let failed = (\<lambda>what. SystemExit (''moriarty_'' @ label @ what)) in
      bindE (on_oserror (failed ''_root_unavailable'') (resolve_root v)) (\<lambda>top_dir.
      bindE (on_oserror (failed ''_root_unavailable'') (stat_root v)) (\<lambda>info.
      if \<not> root_is_dir v \<or> st_uid info \<noteq> uid v \<or> (st_mode info mod 4096) AND 63 \<noteq> 0
      then Inl (failed ''_root_not_private'')
      else if \<not> is_mount v then Inl (failed ''_root_not_mount'')
      else bindE (on_oserror (failed ''_mountinfo_unavailable'') (mountinfo_text v)) (\<lambda>text.
      bindE (mount_type (resolve_mount v) top_dir (text_lines text)) (\<lambda>fs_type.
      if fs_type \<noteq> Some (lit ''tmpfs'') then Inl (failed ''_root_not_tmpfs'')
      else bindE (on_oserror (failed ''_statvfs_failed'') (statvfs_root v)) (\<lambda>(blocks, frsize).
      let capacity = blocks * frsize in
      if capacity \<le> 0 \<or> maximum_bytes < capacity then Inl (failed ''_capacity_invalid'')
      else if require_empty
      then bindE (on_oserror (failed ''_root_scan_failed'') (first_entry v)) (\<lambda>some.
        if some then Inl (failed ''_root_not_empty'') else Inr top_dir)
      else Inr top_dir))))))"

definition MAX_PROBE_WRITABLE_BYTES :: int where "MAX_PROBE_WRITABLE_BYTES = 2 * 1024 * 1024 * 1024"
definition MAX_CARGO_CACHE_BYTES :: int where "MAX_CARGO_CACHE_BYTES = 1024 * 1024 * 1024"

definition probe_quota_root :: "mount_view \<Rightarrow> path result" where
  "probe_quota_root v = tmpfs_root v MAX_PROBE_WRITABLE_BYTES True ''probe_quota''"

definition cargo_cache_root :: "mount_view \<Rightarrow> path result" where
  "cargo_cache_root v = tmpfs_root v MAX_CARGO_CACHE_BYTES False ''cargo_cache''"

section \<open>Resource ceilings\<close>

datatype rkind = RLIMIT_AS | RLIMIT_FSIZE | RLIMIT_NPROC | RLIMIT_NOFILE | RLIMIT_CPU | RLIMIT_CORE

text \<open>\<open>resource.RLIM_INFINITY\<close> is -1.\<close>

definition RLIM_INFINITY :: int where "RLIM_INFINITY = -1"

type_synonym limits = "rkind \<Rightarrow> int \<times> int"

definition PROBE_RLIMIT_AS_BYTES :: int where "PROBE_RLIMIT_AS_BYTES = 2 * 1024 * 1024 * 1024"
definition PROBE_RLIMIT_FSIZE_BYTES :: int where "PROBE_RLIMIT_FSIZE_BYTES = 512 * 1024 * 1024"
definition PROBE_RLIMIT_NPROC :: int where "PROBE_RLIMIT_NPROC = 128"
definition PROBE_RLIMIT_NOFILE :: int where "PROBE_RLIMIT_NOFILE = 256"
definition PROBE_RLIMIT_CPU_SECONDS :: int where "PROBE_RLIMIT_CPU_SECONDS = 330"

definition setrlimit ::
  "(rkind \<Rightarrow> int \<times> int \<Rightarrow> exn option) \<Rightarrow> rkind \<Rightarrow> int \<times> int \<Rightarrow> limits \<Rightarrow> limits result" where
  "setrlimit refuse kind pair l = (case refuse kind pair of
     Some e \<Rightarrow> Inl e
   | None \<Rightarrow> Inr (l(kind := pair)))"

definition set_ceiling ::
  "(rkind \<Rightarrow> int \<times> int \<Rightarrow> exn option) \<Rightarrow> rkind \<Rightarrow> int \<Rightarrow> limits \<Rightarrow> limits result" where
  "set_ceiling refuse kind cap l =
     (let hard = snd (l kind);
          target = (if hard = RLIM_INFINITY then cap else min cap hard) in
      if target \<le> 0 then Inl (SystemExit ''moriarty_probe_resource_limit_unavailable'')
      else setrlimit refuse kind (target, target) l)"

definition PROBE_CEILINGS :: "(rkind \<times> int) list" where
  "PROBE_CEILINGS =
     [(RLIMIT_AS, PROBE_RLIMIT_AS_BYTES), (RLIMIT_FSIZE, PROBE_RLIMIT_FSIZE_BYTES),
      (RLIMIT_NPROC, PROBE_RLIMIT_NPROC), (RLIMIT_NOFILE, PROBE_RLIMIT_NOFILE),
      (RLIMIT_CPU, PROBE_RLIMIT_CPU_SECONDS)]"

definition apply_probe_resource_limits ::
  "(rkind \<Rightarrow> int \<times> int \<Rightarrow> exn option) \<Rightarrow> limits \<Rightarrow> limits result" where
  "apply_probe_resource_limits refuse l =
     bindE (foldE (\<lambda>l (kind, cap). set_ceiling refuse kind cap l) l PROBE_CEILINGS)
       (setrlimit refuse RLIMIT_CORE (0, 0))"

section \<open>Laws\<close>

text \<open>What the kernel writes for a mount point: the characters of the set are escaped in octal.\<close>

definition octal_escape :: "nat \<Rightarrow> pystr" where
  "octal_escape c = [92, 48 + c div 64, 48 + c div 8 mod 8, 48 + c mod 8]"

definition mangle :: "nat set \<Rightarrow> pystr \<Rightarrow> pystr" where
  "mangle S s = concat (map (\<lambda>c. if c \<in> S then octal_escape c else [c]) s)"

lemma mangle_simps [simp]:
  "mangle S [] = []"
  "mangle S (c # s) = (if c \<in> S then octal_escape c else [c]) @ mangle S s"
  by (simp_all add: mangle_def)

lemma length_octal [simp]: "length (octal_escape c) = 4"
  by (simp add: octal_escape_def)

lemma octal_escape_inject: "c < 512 \<Longrightarrow> d < 512 \<Longrightarrow> octal_escape c = octal_escape d \<longleftrightarrow> c = d"
proof
  assume *: "c < 512" "d < 512" "octal_escape c = octal_escape d"
  then have "c div 64 = d div 64" "c div 8 mod 8 = d div 8 mod 8" "c mod 8 = d mod 8"
    by (simp_all add: octal_escape_def)
  moreover have "x = x div 64 * 64 + x div 8 mod 8 * 8 + x mod 8" for x :: nat
  proof -
    have "x mod (8 * 8) = 8 * (x div 8 mod 8) + x mod 8" by (rule mod_mult2_eq)
    moreover have "x = x div 64 * 64 + x mod 64" by simp
    ultimately show ?thesis by simp
  qed
  ultimately show "c = d" by metis
qed simp

lemma starts_with_same_length: "length a = length b \<Longrightarrow> starts_with (a @ r) b \<longleftrightarrow> a = b"
  by (auto simp: starts_with_iff)

lemma py_replace_skip:
  assumes "\<forall>x \<in> set w. x \<noteq> 92" and "hd old = 92" and "old \<noteq> []"
  shows "py_replace old new (w @ s) = w @ py_replace old new s"
  using assms
proof (induction w)
  case (Cons x w)
  then have "\<not> starts_with ((x # w) @ s) old" by (cases old) auto
  with Cons show ?case by simp
qed simp

lemma octal_digits: "x \<in> set (tl (octal_escape c)) \<Longrightarrow> c < 512 \<Longrightarrow> x \<noteq> 92"
proof -
  have "c div 8 mod 8 < 8" "c mod 8 < 8" by simp_all
  then show "x \<in> set (tl (octal_escape c)) \<Longrightarrow> c < 512 \<Longrightarrow> x \<noteq> 92"
    by (auto simp: octal_escape_def)
qed

text \<open>Replacing one escape decodes exactly its character, the others stay escaped.\<close>

lemma py_replace_mangle:
  assumes "c \<in> S" and "92 \<in> S" and "\<forall>x \<in> S. x < 512"
  shows "py_replace (octal_escape c) [c] (mangle S s) = mangle (S - {c}) s"
proof (induction s)
  case (Cons x s)
  have old: "hd (octal_escape c) = 92" "octal_escape c \<noteq> []" by (simp_all add: octal_escape_def)
  have c: "c < 512" using assms by blast
  show ?case
  proof (cases "x \<in> S")
    case False
    then have "x \<noteq> 92" using assms(2) by blast
    then have "py_replace (octal_escape c) [c] ([x] @ mangle S s) = [x] @ py_replace (octal_escape c) [c] (mangle S s)"
      by (intro py_replace_skip) (simp_all add: old)
    with False Cons show ?thesis by simp
  next
    case True
    then have x: "x < 512" using assms(3) by blast
    have esc: "octal_escape x = 92 # tl (octal_escape x)" by (simp add: octal_escape_def)
    show ?thesis
    proof (cases "x = c")
      case eq: True
      have "starts_with (octal_escape c @ mangle S s) (octal_escape c)" by simp
      moreover have "octal_escape c @ mangle S s = 92 # tl (octal_escape c) @ mangle S s"
        by (simp add: octal_escape_def)
      ultimately have "py_replace (octal_escape c) [c] (octal_escape c @ mangle S s) =
          [c] @ py_replace (octal_escape c) [c] (drop (length (octal_escape c)) (octal_escape c @ mangle S s))"
        using old by (metis py_replace.simps(2))
      with eq True Cons show ?thesis by simp
    next
      case False
      then have "\<not> starts_with (octal_escape x @ mangle S s) (octal_escape c)"
        using octal_escape_inject [OF x c] by (simp add: starts_with_same_length)
      then have "py_replace (octal_escape c) [c] (octal_escape x @ mangle S s) =
          92 # py_replace (octal_escape c) [c] (tl (octal_escape x) @ mangle S s)"
        using esc by (metis append_Cons py_replace.simps(2))
      also have "\<dots> = 92 # tl (octal_escape x) @ py_replace (octal_escape c) [c] (mangle S s)"
        using py_replace_skip [of "tl (octal_escape x)", OF _ old] octal_digits [OF _ x] by auto
      finally show ?thesis using True False Cons esc by simp
    qed
  qed
qed simp

lemma mangle_empty: "mangle {} s = s"
  by (induction s) simp_all

lemma mountinfo_unescape_mangle: "mountinfo_unescape (mangle {32, 9, 10, 92} s) = s"
proof -
  have esc: "lit [CHR 0x5C] @ lit ''040'' = octal_escape 32" "lit [CHR 0x5C] @ lit ''011'' = octal_escape 9"
    "lit [CHR 0x5C] @ lit ''012'' = octal_escape 10" "lit [CHR 0x5C] @ lit ''134'' = octal_escape 92"
    by (simp_all add: octal_escape_def lit_def)
  have sets: "{32, 9, 10, 92} - {32 :: nat} = {9, 10, 92}" "{9, 10, 92} - {9 :: nat} = {10, 92}"
    "{10, 92} - {10 :: nat} = {92}" "{92} - {92 :: nat} = {}"
    by auto
  show ?thesis
    unfolding mountinfo_unescape_def esc
    using py_replace_mangle [of 32 "{32, 9, 10, 92}" s] py_replace_mangle [of 9 "{9, 10, 92}" s]
      py_replace_mangle [of 10 "{10, 92}" s] py_replace_mangle [of 92 "{92}" s]
    by (simp only: sets mangle_empty) simp
qed

section \<open>Status texts as the kernel writes them\<close>

text \<open>One line per field: the key, a colon, a tab, the value.\<close>

definition status_line :: "string \<times> pystr \<Rightarrow> pystr" where
  "status_line kv = lit (fst kv) @ [58, 9] @ snd kv"

definition status_text :: "(string \<times> pystr) list \<Rightarrow> pystr" where
  "status_text kvs = concat (map (\<lambda>kv. status_line kv @ [10]) kvs)"

definition ids_text :: "nat list \<Rightarrow> pystr" where
  "ids_text ids = join_with [9] (map digits ids)"

fun hex_digits :: "nat \<Rightarrow> nat \<Rightarrow> pystr" where
  "hex_digits 0 n = []"
| "hex_digits (Suc k) n = hex_digits k (n div 16) @ [hex_digit (n mod 16)]"

lemma splitlines_from_line:
  "\<forall>c \<in> set l. \<not> line_break c \<Longrightarrow> splitlines_from acc (l @ 10 # s) = (rev acc @ l) # splitlines_from [] s"
proof (induction l arbitrary: acc)
  case Nil
  show ?case by (simp add: line_break_def)
next
  case (Cons c l)
  then show ?case by (auto simp: line_break_def)
qed

lemma splitlines_status:
  assumes "\<forall>kv \<in> set kvs. \<forall>c \<in> set (status_line kv). \<not> line_break c"
  shows "splitlines (status_text kvs) = map status_line kvs"
  using assms
proof (induction kvs)
  case (Cons kv kvs)
  have "splitlines_from [] (status_line kv @ 10 # status_text kvs) = status_line kv # splitlines_from [] (status_text kvs)"
    using splitlines_from_line [of "status_line kv" "[]" "status_text kvs"] Cons.prems by simp
  with Cons show ?case by (simp add: splitlines_def status_text_def)
qed (simp add: splitlines_def status_text_def)

lemma split_once_first: "c \<notin> set l \<Longrightarrow> split_once c (l @ c # r) = (l, Some r)"
  by (induction l) auto

definition plain_key :: "string \<Rightarrow> bool" where
  "plain_key k \<longleftrightarrow> (\<forall>c \<in> set (lit k). c \<noteq> 58 \<and> \<not> line_break c)"

lemma status_fields_text:
  assumes "\<forall>(k, v) \<in> set kvs. plain_key k \<and> (\<forall>c \<in> set v. \<not> line_break c)"
  shows "status_fields (status_text kvs) = rev (map (\<lambda>(k, v). (lit k, strip (9 # v))) kvs)"
proof -
  have lines: "splitlines (status_text kvs) = map status_line kvs"
  proof (rule splitlines_status, intro ballI)
    fix kv c assume kv: "kv \<in> set kvs" and c: "c \<in> set (status_line kv)"
    have "\<not> line_break 58" "\<not> line_break 9" by (simp_all add: line_break_def)
    with kv c assms show "\<not> line_break c" by (cases kv) (auto simp: status_line_def plain_key_def)
  qed
  have split: "split_once 58 (status_line (k, v)) = (lit k, Some (9 # v))" if "(k, v) \<in> set kvs" for k v
    using assms that split_once_first [of 58 "lit k" "9 # v"] by (fastforce simp: status_line_def plain_key_def)
  have "foldl (\<lambda>cols raw_line. case split_once 58 raw_line of
               (key, Some rest) \<Rightarrow> (key, strip rest) # cols | _ \<Rightarrow> cols) acc (map status_line xs)
      = rev (map (\<lambda>(k, v). (lit k, strip (9 # v))) xs) @ acc" if "set xs \<subseteq> set kvs" for xs acc
    using that
  proof (induction xs arbitrary: acc)
    case (Cons x xs)
    then show ?case using split [of "fst x" "snd x"] by (cases x) auto
  qed simp
  from this [of kvs "[]"] lines show ?thesis by (simp add: status_fields_def)
qed

lemma strip_tab:
  assumes "v \<noteq> []" and "\<not> py_space (hd v)" and "\<not> py_space (last v)"
  shows "strip (9 # v) = v"
  using strip_no_space [OF assms] by (simp add: strip_def lstrip_def py_space_def)

lemma split_ws_word:
  assumes "w \<noteq> []" and "\<forall>c \<in> set w. \<not> py_space c"
  shows "split_ws (w @ 9 # r) = w # split_ws r" and "split_ws w = [w]"
proof -
  obtain c t where w: "w = c # t" using assms(1) by (cases w) auto
  have t: "takeWhile (\<lambda>x. \<not> py_space x) (t @ 9 # r) = t" "dropWhile (\<lambda>x. \<not> py_space x) (t @ 9 # r) = 9 # r"
    using assms(2) w by (simp_all add: takeWhile_append2 dropWhile_append2 py_space_def)
  have ws: "split_ws (9 # r) = split_ws r" for r
    by (subst (1 2) split_ws.simps) (simp add: py_space_def)
  have nil: "split_ws [] = []" by (subst split_ws.simps) simp
  show "split_ws (w @ 9 # r) = w # split_ws r"
    using assms(2) w t ws by (subst split_ws.simps) simp
  have "takeWhile (\<lambda>x. \<not> py_space x) t = t" and drop: "dropWhile (\<lambda>x. \<not> py_space x) t = []"
    using assms(2) w by (simp_all add: takeWhile_eq_all_conv dropWhile_eq_Nil_conv)
  moreover have "split_ws (dropWhile (\<lambda>x. \<not> py_space x) t) = []"
    by (simp only: drop nil)
  ultimately show "split_ws w = [w]"
    using assms(2) w by (subst split_ws.simps) simp
qed

lemma split_ws_ids: "split_ws (ids_text ids) = map digits ids"
proof -
  have d: "digits n \<noteq> []" "\<forall>c \<in> set (digits n). \<not> py_space c" for n
    using digits_all digit_not_space by auto
  have nil: "split_ws [] = []" by (subst split_ws.simps) simp
  show ?thesis
  proof (induction ids rule: induct_list012)
    case 1
    then show ?case by (simp add: ids_text_def nil)
  next
    case (2 x)
    then show ?case by (simp add: ids_text_def split_ws_word(2) [OF d])
  next
    case (3 x y zs)
    then show ?case by (simp add: ids_text_def split_ws_word(1) [OF d])
  qed
qed

lemma ids_text_ends:
  assumes "ids \<noteq> []"
  shows "ids_text ids \<noteq> [] \<and> \<not> py_space (hd (ids_text ids)) \<and> \<not> py_space (last (ids_text ids))"
proof -
  have d: "\<not> py_space (hd (digits n))" "\<not> py_space (last (digits n))" "digits n \<noteq> []" for n
    using digits_all [of "hd (digits n)" n] digits_all [of "last (digits n)" n] digit_not_space by simp_all
  show ?thesis using assms
  proof (induction ids rule: induct_list012)
    case (3 x y zs)
    then show ?case using d [of x] by (simp add: ids_text_def)
  qed (use d in \<open>simp_all add: ids_text_def\<close>)
qed

lemma those_ints:
  "\<forall>n \<in> set ids. n < 10 ^ int_max_str_digits \<Longrightarrow> those (map (py_int_text 10) (map digits ids)) = Some (map int ids)"
  by (induction ids) (simp_all add: py_int_digits)

lemma hex_digit_run:
  "digit_run 16 need count acc (hex_digits k n @ s) =
     (if k = 0 then digit_run 16 need count acc s
      else digit_run 16 False (count + k) (acc * 16 ^ k + n mod 16 ^ k) s)"
proof (induction k arbitrary: n s need count acc)
  case (Suc k)
  have v: "digit_val 16 (hex_digit (n mod 16)) = Some (n mod 16)"
  proof -
    have "n mod 16 < 16" by simp
    then show ?thesis by (auto simp: digit_val_def hex_digit_def is_digit_def)
  qed
  have "hex_digit (n mod 16) \<noteq> 95" by (auto simp: hex_digit_def)
  moreover have "n mod 16 ^ Suc k = 16 * (n div 16 mod 16 ^ k) + n mod 16"
    using mod_mult2_eq [of n 16 "16 ^ k"] by simp
  ultimately show ?case
    using Suc.IH [of need count acc "n div 16" "hex_digit (n mod 16) # s"] v
    by (cases "k = 0") (auto simp: algebra_simps)
qed simp

lemma hex_digits_chars: "c \<in> set (hex_digits k n) \<Longrightarrow> (48 \<le> c \<and> c \<le> 57) \<or> (97 \<le> c \<and> c \<le> 102)"
proof (induction k arbitrary: n)
  case (Suc k)
  have "n mod 16 < 16" by simp
  then have "(48 \<le> hex_digit (n mod 16) \<and> hex_digit (n mod 16) \<le> 57) \<or>
      (97 \<le> hex_digit (n mod 16) \<and> hex_digit (n mod 16) \<le> 102)"
    by (auto simp: hex_digit_def)
  with Suc show ?case by auto
qed simp

lemma length_hex_digits [simp]: "length (hex_digits k n) = k"
  by (induction k arbitrary: n) simp_all

lemma py_int_hex:
  assumes "n < 16 ^ k" and "0 < k"
  shows "py_int_text 16 (hex_digits k n) = Some (int n)"
proof -
  let ?h = "hex_digits k n"
  have ne: "?h \<noteq> []" using assms(2) length_hex_digits [of k n] by (metis length_0_conv less_irrefl)
  have ch: "\<forall>c \<in> set ?h. (48 \<le> c \<and> c \<le> 57) \<or> (97 \<le> c \<and> c \<le> 102)" using hex_digits_chars by blast
  have hd: "hd ?h \<in> set ?h" "last ?h \<in> set ?h" using ne by simp_all
  have s: "strip ?h = ?h"
    by (rule strip_no_space [OF ne]) (use ch hd in \<open>fastforce simp: py_space_def\<close>)+
  have sign: "int_sign ?h = (False, ?h)"
    using ch hd by (fastforce simp: int_sign_def)
  have "\<not> starts_with ?h [48, 120]" "\<not> starts_with ?h [48, 88]"
    using ch by (auto simp: starts_with_iff)
  then have "hex_prefix 16 ?h = ?h" by (simp add: hex_prefix_def)
  then show ?thesis
    using hex_digit_run [of True 0 0 k n "[]"] assms by (simp add: py_int_text_def s sign)
qed

section \<open>Properties\<close>

lemma lookup_rev_distinct: "distinct (map fst kvs) \<Longrightarrow> lookup (rev kvs) k = lookup kvs k"
proof (cases "lookup kvs k")
  case None
  then have "lookup (rev kvs) k = None" by (simp add: lookup_None_iff)
  with None show ?thesis by simp
next
  case (Some v)
  moreover assume "distinct (map fst kvs)"
  moreover from this have "distinct (map fst (rev kvs))" by (simp flip: rev_map)
  ultimately show ?thesis by (metis lookup_Some_iff set_rev)
qed

definition kernel_status :: "(string \<times> pystr) list \<Rightarrow> nat list \<Rightarrow> nat list \<Rightarrow> (string \<Rightarrow> nat) \<Rightarrow> bool" where
  "kernel_status kvs uids gids caps \<longleftrightarrow>
     distinct (map fst kvs) \<and> (\<forall>(k, v) \<in> set kvs. plain_key k \<and> (\<forall>c \<in> set v. \<not> line_break c)) \<and>
     (''Uid'', ids_text uids) \<in> set kvs \<and> (''Gid'', ids_text gids) \<in> set kvs \<and>
     (\<forall>k \<in> set CAPABILITY_SETS. (k, hex_digits 16 (caps k)) \<in> set kvs \<and> caps k < 2 ^ 64) \<and>
     (\<forall>n \<in> set uids \<union> set gids. n < 2 ^ 32)"

lemma status_lookup:
  assumes "kernel_status kvs uids gids caps" and "(k, v) \<in> set kvs"
  shows "lookup (status_fields (status_text kvs)) (lit k) = Some (strip (9 # v))"
proof -
  have "status_fields (status_text kvs) = rev (map (\<lambda>(k, v). (lit k, strip (9 # v))) kvs)"
    by (rule status_fields_text) (use assms(1) in \<open>simp add: kernel_status_def\<close>)
  moreover have d: "distinct (map fst (map (\<lambda>(k, v). (lit k, strip (9 # v))) kvs))"
    using assms(1) by (simp add: kernel_status_def distinct_map inj_on_def comp_def case_prod_unfold)
  moreover have "lookup (map (\<lambda>(k, v). (lit k, strip (9 # v))) kvs) (lit k) = Some (strip (9 # v))"
    using assms(2) by (force simp: lookup_Some_iff [OF d])
  ultimately show ?thesis using lookup_rev_distinct [OF d] by simp
qed

lemma small_decimal: "(n :: nat) < 2 ^ 32 \<Longrightarrow> n < 10 ^ int_max_str_digits"
proof -
  assume "n < 2 ^ 32"
  also have "(2 :: nat) ^ 32 \<le> 10 ^ 10" by simp
  also have "(10 :: nat) ^ 10 \<le> 10 ^ int_max_str_digits"
    by (rule power_increasing) (simp_all add: int_max_str_digits_def)
  finally show ?thesis .
qed

lemma field_ints_text:
  assumes "kernel_status kvs uids gids caps" and "(k, ids_text ids) \<in> set kvs" and "ids \<noteq> []"
    and "\<forall>n \<in> set ids. n < 2 ^ 32"
  shows "field_ints (status_fields (status_text kvs)) k = Some (map int ids)"
proof -
  have "those (map (py_int_text 10) (map digits ids)) = Some (map int ids)"
    by (rule those_ints) (use assms(4) small_decimal in blast)
  then show ?thesis
    using status_lookup [OF assms(1,2)] strip_tab [of "ids_text ids"] ids_text_ends [OF assms(3)]
    by (simp add: field_ints_def split_ws_ids del: map_map)
qed

lemma field_hex_text:
  assumes "kernel_status kvs uids gids caps" and "k \<in> set CAPABILITY_SETS"
  shows "field_hex (status_fields (status_text kvs)) k = Some (int (caps k))"
proof -
  have k: "(k, hex_digits 16 (caps k)) \<in> set kvs" "caps k < 2 ^ 64"
    using assms by (simp_all add: kernel_status_def)
  let ?h = "hex_digits 16 (caps k)"
  have ne: "?h \<noteq> []" using length_hex_digits [of 16 "caps k"] by (metis length_0_conv zero_neq_numeral)
  then have "hd ?h \<in> set ?h" "last ?h \<in> set ?h" by simp_all
  then have "strip (9 # ?h) = ?h"
    using strip_tab [OF ne] hex_digits_chars [of _ 16 "caps k"] by (fastforce simp: py_space_def)
  then show ?thesis
    using status_lookup [OF assms(1) k(1)] py_int_hex [of "caps k" 16] k(2) by (simp add: field_hex_def)
qed

lemma all_equal_ints: "all_equal (map int xs) \<longleftrightarrow> xs \<noteq> [] \<and> (\<forall>x \<in> set xs. x = hd xs)"
proof -
  have "length (remdups (map int xs)) = card (int ` set xs)"
    by (simp add: length_remdups_card_conv)
  also have "card (int ` set xs) = card (set xs)"
    by (simp add: card_image inj_on_def)
  finally have "all_equal (map int xs) \<longleftrightarrow> card (set xs) = 1" by (simp add: all_equal_def)
  then show ?thesis by (cases xs) (auto simp: card_1_singleton_iff)
qed

text \<open>On every status text as the kernel writes it, whatever other fields it has, the launcher counts as
  unprivileged exactly if its four user ids are one nonzero id, its four group ids are one nonzero
  id, and all four capability sets are empty.\<close>

theorem proc_status_unprivileged_iff:
  assumes "kernel_status kvs uids gids caps" and "length uids = 4" and "length gids = 4"
  shows "proc_status_unprivileged (status_text kvs) \<longleftrightarrow>
    (\<exists>u g. u \<noteq> 0 \<and> g \<noteq> 0 \<and> uids = [u, u, u, u] \<and> gids = [g, g, g, g]) \<and>
    (\<forall>k \<in> set CAPABILITY_SETS. caps k = 0)"
proof -
  have ne: "uids \<noteq> []" "gids \<noteq> []" using assms(2,3) by auto
  have u: "field_ints (status_fields (status_text kvs)) ''Uid'' = Some (map int uids)"
    by (rule field_ints_text [OF assms(1) _ ne(1)]) (use assms(1) in \<open>auto simp: kernel_status_def\<close>)
  have g: "field_ints (status_fields (status_text kvs)) ''Gid'' = Some (map int gids)"
    by (rule field_ints_text [OF assms(1) _ ne(2)]) (use assms(1) in \<open>auto simp: kernel_status_def\<close>)
  have c: "those (map (field_hex (status_fields (status_text kvs))) CAPABILITY_SETS) =
      Some (map (\<lambda>k. int (caps k)) CAPABILITY_SETS)"
    using field_hex_text [OF assms(1)] by (simp add: CAPABILITY_SETS_def)
  have four: "xs = [a, a, a, a] \<longleftrightarrow> hd xs = a \<and> (\<forall>x \<in> set xs. x = hd xs)" if "length xs = 4" for xs :: "nat list" and a
    using that by (auto simp: numeral_eq_Suc length_Suc_conv)
  have "proc_status_unprivileged (status_text kvs) \<longleftrightarrow>
      all_equal (map int uids) \<and> all_equal (map int gids) \<and> hd uids \<noteq> 0 \<and> hd gids \<noteq> 0 \<and>
      (\<forall>k \<in> set CAPABILITY_SETS. caps k = 0)"
    using assms(2,3) ne by (simp add: proc_status_unprivileged_def u g c Let_def list_all_iff hd_conv_nth)
  also have "\<dots> \<longleftrightarrow> (\<exists>u. u \<noteq> 0 \<and> uids = [u, u, u, u]) \<and> (\<exists>g. g \<noteq> 0 \<and> gids = [g, g, g, g]) \<and>
      (\<forall>k \<in> set CAPABILITY_SETS. caps k = 0)"
    unfolding all_equal_ints four [OF assms(2)] four [OF assms(3)] using ne by auto
  finally show ?thesis by blast
qed

definition demo_status :: "(string \<times> pystr) list" where
  "demo_status =
     [(''Name'', lit ''probe: x''), (''Uid'', ids_text [1000, 1000, 1000, 1000]),
      (''Gid'', ids_text [100, 100, 100, 100]), (''CapInh'', hex_digits 16 0), (''CapPrm'', hex_digits 16 0),
      (''CapEff'', hex_digits 16 0), (''CapBnd'', hex_digits 16 0x1ffffffffff), (''CapAmb'', hex_digits 16 0)]"

theorem proc_status_unprivileged_iff_witness: "proc_status_unprivileged (status_text demo_status)"
proof -
  have "kernel_status demo_status [1000, 1000, 1000, 1000] [100, 100, 100, 100] (\<lambda>_. 0)"
    by code_simp
  from proc_status_unprivileged_iff [OF this] show ?thesis by simp
qed

text \<open>The mount point unescaper inverts the kernel's escaping of blanks, tabs, newlines and backslashes,
  although it replaces the four escapes one after the other.\<close>

theorem mountinfo_unescape_inverts_kernel: "mountinfo_unescape (mangle {32, 9, 10, 92} s) = s"
  by (rule mountinfo_unescape_mangle)

lemma set_ceiling_Inr:
  "set_ceiling refuse kind cap l = Inr l' \<Longrightarrow>
     \<exists>n. 0 < n \<and> n \<le> cap \<and> (snd (l kind) \<noteq> RLIM_INFINITY \<longrightarrow> n \<le> snd (l kind)) \<and>
       l' = l(kind := (n, n))"
  by (rule exI [of _ "if snd (l kind) = RLIM_INFINITY then cap else min cap (snd (l kind))"])
    (auto simp: set_ceiling_def setrlimit_def Let_def not_le split: if_splits option.splits)

text \<open>When the resource limits are applied without an exception, each of the five resources has equal,
  positive soft and hard limits that exceed neither the ceiling of the harness nor the hard limit
  that was in force, and core dumps are disabled.\<close>

lemma resource_limits_capped:
  assumes "apply_probe_resource_limits refuse l = Inr l'"
  shows "(\<forall>(kind, cap) \<in> set PROBE_CEILINGS. \<exists>n. l' kind = (n, n) \<and> 0 < n \<and> n \<le> cap \<and>
      (snd (l kind) \<noteq> RLIM_INFINITY \<longrightarrow> n \<le> snd (l kind))) \<and> l' RLIMIT_CORE = (0, 0)"
proof -
  from assms obtain l1 l2 l3 l4 l5 where
    "set_ceiling refuse RLIMIT_AS PROBE_RLIMIT_AS_BYTES l = Inr l1"
    "set_ceiling refuse RLIMIT_FSIZE PROBE_RLIMIT_FSIZE_BYTES l1 = Inr l2"
    "set_ceiling refuse RLIMIT_NPROC PROBE_RLIMIT_NPROC l2 = Inr l3"
    "set_ceiling refuse RLIMIT_NOFILE PROBE_RLIMIT_NOFILE l3 = Inr l4"
    "set_ceiling refuse RLIMIT_CPU PROBE_RLIMIT_CPU_SECONDS l4 = Inr l5"
    "setrlimit refuse RLIMIT_CORE (0, 0) l5 = Inr l'"
    by (auto simp: apply_probe_resource_limits_def PROBE_CEILINGS_def bindE_eq_Inr)
  moreover from this(6) have "l' = l5(RLIMIT_CORE := (0, 0))"
    by (auto simp: setrlimit_def split: option.splits)
  ultimately show ?thesis
    by (auto dest!: set_ceiling_Inr simp: PROBE_CEILINGS_def)
qed

lemma mount_type_Some:
  "mount_type resolve p ls = Inr (Some t) \<Longrightarrow>
     \<exists>line \<in> set ls. 7 \<le> length (split_ws line) \<and> [45] \<in> set (split_ws line) \<and>
       resolve (mountinfo_unescape (split_ws line ! 4)) = Inr p \<and>
       t = split_ws line ! (index_of [45] (split_ws line) + 1)"
proof (induction ls)
  case (Cons line ls)
  then show ?case
    by (auto simp: Let_def split: if_splits sum.splits exn.splits)
qed simp

lemma on_oserror_Inr [simp]: "on_oserror e m = Inr x \<longleftrightarrow> m = Inr x"
  by (auto simp: on_oserror_def split: sum.splits exn.splits)

text \<open>A directory is accepted as a quota root only if it is a mount point of type tmpfs, owned by the
  caller with no access for others, of a positive capacity of at most 2 GiB, and empty.\<close>

theorem probe_quota_root_sound:
  assumes "probe_quota_root v = Inr p"
  shows "resolve_root v = Inr p \<and> root_is_dir v \<and> is_mount v \<and>
    (\<exists>info. stat_root v = Inr info \<and> st_uid info = uid v \<and> (st_mode info mod 4096) AND 63 = 0) \<and>
    (\<exists>text. mountinfo_text v = Inr text \<and>
      (\<exists>line \<in> set (text_lines text). resolve_mount v (mountinfo_unescape (split_ws line ! 4)) = Inr p \<and>
        split_ws line ! (index_of [45] (split_ws line) + 1) = lit ''tmpfs'')) \<and>
    (\<exists>b f. statvfs_root v = Inr (b, f) \<and> 0 < b * f \<and> b * f \<le> 2 ^ 31) \<and>
    first_entry v = Inr False"
proof -
  from assms obtain info raw b f where *: "resolve_root v = Inr p" "stat_root v = Inr info"
    "root_is_dir v" "st_uid info = uid v" "(st_mode info mod 4096) AND 63 = 0" "is_mount v"
    "mountinfo_text v = Inr raw" "mount_type (resolve_mount v) p (text_lines raw) = Inr (Some (lit ''tmpfs''))"
    "statvfs_root v = Inr (b, f)" "0 < b * f" "b * f \<le> MAX_PROBE_WRITABLE_BYTES" "first_entry v = Inr False"
    by (auto simp: probe_quota_root_def tmpfs_root_def Let_def bindE_eq_Inr split: if_splits)
  with mount_type_Some [OF *(8)] show ?thesis by (auto simp: MAX_PROBE_WRITABLE_BYTES_def)
qed

definition demo_mount :: mount_view where
  "demo_mount = \<lparr>resolve_root = Inr [lit ''q''], stat_root = Inr \<lparr>st_uid = 1000, st_mode = 16832\<rparr>,
     root_is_dir = True, uid = 1000, is_mount = True,
     mountinfo_text = Inr (lit ''36 35 98:0 / /q rw,noatime - tmpfs tmpfs rw''),
     resolve_mount = (\<lambda>t. Inr [tl t]), statvfs_root = Inr (1024, 4096), first_entry = Inr False\<rparr>"

theorem probe_quota_root_sound_witness:
  "is_mount demo_mount \<and> probe_quota_root demo_mount = Inr [lit ''q'']"
proof -
  have "probe_quota_root demo_mount = Inr [lit ''q'']" by code_simp
  from this probe_quota_root_sound [OF this] show ?thesis by blast
qed

end
