(* ===== verification/Writable_Scan.thy ===== *)
theory Writable_Scan
  imports Fed_Prelude
begin

text \<open>
  \<open>_probe_writable_tree_scan\<close> of \<open>tools/moriarty_isolation.py\<close>: the accounting of what a probe may
  write. The tree may change while it is scanned, so every system call is answered by the operations
  of an arbitrary world, which also changes; the scan restarts from its roots when a name it
  discovered has vanished or was replaced, at most eight times, and stops at fixed bounds. The
  functions below are total: their termination proofs are the proof that the loops end.
\<close>

section \<open>The world\<close>

type_synonym path = "pystr list"

datatype file_kind = Directory | Regular | Symlink | Special

record file_info =
  kind :: file_kind
  dev :: nat
  ino :: nat
  size_of :: nat

text \<open>FileNotFoundError is OSError with errno ENOENT.\<close>

definition ENOENT :: nat where "ENOENT = 2"

record ('w, 'fd) world_ops =
  op_resolve :: "path \<Rightarrow> 'w \<Rightarrow> path result \<times> 'w"
  op_stat :: "path \<Rightarrow> 'w \<Rightarrow> file_info result \<times> 'w"
  op_open :: "path \<Rightarrow> 'w \<Rightarrow> 'fd result \<times> 'w"
  op_fstat :: "'fd \<Rightarrow> 'w \<Rightarrow> file_info result \<times> 'w"
  op_scandir :: "'fd \<Rightarrow> 'w \<Rightarrow> unit result \<times> 'w"
  op_next :: "'fd \<Rightarrow> 'w \<Rightarrow> (pystr option) result \<times> 'w"
  op_entry_stat :: "'fd \<Rightarrow> pystr \<Rightarrow> 'w \<Rightarrow> file_info result \<times> 'w"
  op_close :: "'fd \<Rightarrow> 'w \<Rightarrow> 'w"

definition MAX_PROBE_WRITABLE_BYTES :: nat where "MAX_PROBE_WRITABLE_BYTES = 2 * 1024 * 1024 * 1024"
definition MAX_PROBE_WRITABLE_ENTRIES :: nat where "MAX_PROBE_WRITABLE_ENTRIES = 65536"
definition MAX_PROBE_WRITABLE_DEPTH :: nat where "MAX_PROBE_WRITABLE_DEPTH = 64"
definition PROBE_WRITABLE_SCAN_MAX_RESTARTS :: nat where "PROBE_WRITABLE_SCAN_MAX_RESTARTS = 8"

section \<open>One directory\<close>

text \<open>A queued directory: its path, its depth, the device and inode it was discovered with.\<close>

type_synonym queued = "path \<times> nat \<times> nat \<times> nat"

text \<open>
  How a part of a pass ends: the scan returns a value, raises, has to restart, or goes on with the
  stack (top first), the bytes and the entries counted so far.
\<close>

datatype outcome = Returns bool | Raises exn | Restart | Goes "queued list" nat nat

text \<open>An OSError during enumeration: vanished directories restart the pass, others end the scan.\<close>

definition scan_failure :: "bool \<Rightarrow> exn \<Rightarrow> outcome" where
  "scan_failure at_root e = (case e of
     OSError n \<Rightarrow> if n = ENOENT \<and> \<not> at_root then Restart else Returns False
   | _ \<Rightarrow> Raises e)"

function scan_entries ::
  "('w, 'fd) world_ops \<Rightarrow> path \<Rightarrow> bool \<Rightarrow> nat \<Rightarrow> 'fd \<Rightarrow> queued list \<Rightarrow> nat \<Rightarrow> nat \<Rightarrow> 'w \<Rightarrow> outcome \<times> 'w" where
  "scan_entries ops current at_root depth fd stack bytes entries w =
     (case op_next ops fd w of
        (Inl e, w1) \<Rightarrow> (scan_failure at_root e, w1)
      | (Inr None, w1) \<Rightarrow> (Goes stack bytes entries, w1)
      | (Inr (Some name), w1) \<Rightarrow>
          if MAX_PROBE_WRITABLE_ENTRIES < entries + 1 then (Returns False, w1)
          else case op_entry_stat ops fd name w1 of
            (Inl (OSError n), w2) \<Rightarrow> (if n = ENOENT then Restart else Returns False, w2)
          | (Inl e, w2) \<Rightarrow> (Raises e, w2)
          | (Inr info, w2) \<Rightarrow>
              if kind info = Directory
              then scan_entries ops current at_root depth fd
                     ((current @ [name], depth + 1, dev info, ino info) # stack) bytes (entries + 1) w2
              else if kind info = Regular \<or> kind info = Symlink
              then (if MAX_PROBE_WRITABLE_BYTES < bytes + size_of info then (Returns False, w2)
                    else scan_entries ops current at_root depth fd stack (bytes + size_of info) (entries + 1) w2)
              else (Returns False, w2))"
  by pat_completeness auto
termination
  by (relation "measure (\<lambda>(ops, current, at_root, depth, fd, stack, bytes, entries, w).
        MAX_PROBE_WRITABLE_ENTRIES - entries)") auto

declare scan_entries.simps [simp del]

definition scan_directory ::
  "('w, 'fd) world_ops \<Rightarrow> path \<Rightarrow> queued \<Rightarrow> queued list \<Rightarrow> nat \<Rightarrow> nat \<Rightarrow> 'w \<Rightarrow> outcome \<times> 'w" where
  "scan_directory ops start q stack bytes entries w = (case q of (current, depth, expected_dev, expected_ino) \<Rightarrow>
     if MAX_PROBE_WRITABLE_DEPTH < depth then (Returns False, w)
     else case op_open ops current w of
       (Inl (OSError n), w1) \<Rightarrow> (if n = ENOENT \<and> current \<noteq> start then Restart else Returns False, w1)
     | (Inl e, w1) \<Rightarrow> (Raises e, w1)
     | (Inr fd, w1) \<Rightarrow>
         let (out, w2) =
           (case op_fstat ops fd w1 of
              (Inl e, w2) \<Rightarrow> (Raises e, w2)
            | (Inr opened, w2) \<Rightarrow>
                if kind opened \<noteq> Directory \<or> dev opened \<noteq> expected_dev \<or> ino opened \<noteq> expected_ino
                then (if current = start then Returns False else Restart, w2)
                else case op_scandir ops fd w2 of
                  (Inl e, w3) \<Rightarrow> (scan_failure (current = start) e, w3)
                | (Inr _, w3) \<Rightarrow> scan_entries ops current (current = start) depth fd stack bytes entries w3)
         in (out, op_close ops fd w2))"

section \<open>One pass\<close>

definition within_bounds :: "queued list \<Rightarrow> nat \<Rightarrow> nat \<Rightarrow> queued list \<Rightarrow> nat \<Rightarrow> nat \<Rightarrow> bool" where
  "within_bounds stack bytes entries stack' bytes' entries' \<longleftrightarrow>
     (MAX_PROBE_WRITABLE_ENTRIES - entries') + length stack' \<le> (MAX_PROBE_WRITABLE_ENTRIES - entries) + length stack \<and>
     (entries \<le> MAX_PROBE_WRITABLE_ENTRIES \<longrightarrow> entries' \<le> MAX_PROBE_WRITABLE_ENTRIES) \<and>
     (bytes \<le> MAX_PROBE_WRITABLE_BYTES \<longrightarrow> bytes' \<le> MAX_PROBE_WRITABLE_BYTES)"

lemma scan_entries_bounds:
  "scan_entries ops current at_root depth fd stack bytes entries w = (Goes stack' bytes' entries', w') \<Longrightarrow>
     within_bounds stack bytes entries stack' bytes' entries'"
proof (induction ops current at_root depth fd stack bytes entries w
    arbitrary: stack' bytes' entries' w' rule: scan_entries.induct)
  case (1 ops current at_root depth fd stack bytes entries w)
  note unfolded = "1.prems"(1) [unfolded scan_entries.simps [of ops current at_root depth fd stack bytes entries w]]
  obtain r w1 where n: "op_next ops fd w = (r, w1)" by (cases "op_next ops fd w")
  show ?case
  proof (cases r)
    case (Inl e)
    with unfolded n show ?thesis by (auto simp: scan_failure_def split: exn.splits if_splits)
  next
    case (Inr o')
    show ?thesis
    proof (cases o')
      case None
      with unfolded n Inr show ?thesis by (auto simp: within_bounds_def)
    next
      case (Some name)
      obtain r2 w2 where s: "op_entry_stat ops fd name w1 = (r2, w2)" by (cases "op_entry_stat ops fd name w1")
      from unfolded n Inr Some have more: "\<not> MAX_PROBE_WRITABLE_ENTRIES < entries + 1"
        by (auto split: if_splits)
      from unfolded n Inr Some s more obtain info where i: "r2 = Inr info"
        by (cases r2) (auto split: exn.splits if_splits)
      note IH = "1.IH" [OF n [symmetric] Inr Some more s [symmetric] i]
      show ?thesis
      proof (cases "kind info = Directory")
        case True
        with unfolded n Inr Some s i more have
          "scan_entries ops current at_root depth fd ((current @ [name], depth + 1, dev info, ino info) # stack)
             bytes (entries + 1) w2 = (Goes stack' bytes' entries', w')" by simp
        from IH(1) [OF True this] more show ?thesis by (auto simp: within_bounds_def)
      next
        case False
        with unfolded n Inr Some s i more have counted: "kind info = Regular \<or> kind info = Symlink"
          "\<not> MAX_PROBE_WRITABLE_BYTES < bytes + size_of info"
          "scan_entries ops current at_root depth fd stack (bytes + size_of info) (entries + 1) w2 =
             (Goes stack' bytes' entries', w')" by (auto split: if_splits)
        from IH(2) [OF False counted] counted(2) more show ?thesis by (auto simp: within_bounds_def)
      qed
    qed
  qed
qed

lemma scan_directory_bounds:
  assumes "scan_directory ops start q stack bytes entries w = (Goes stack' bytes' entries', w')"
  shows "within_bounds stack bytes entries stack' bytes' entries'"
proof -
  from assms obtain current at_root depth fd w3 w4 where
    "scan_entries ops current at_root depth fd stack bytes entries w3 = (Goes stack' bytes' entries', w4)"
    by (auto simp: scan_directory_def scan_failure_def Let_def
        split: prod.splits if_splits sum.splits exn.splits)
  from scan_entries_bounds [OF this] show ?thesis .
qed

text \<open>
  The loop over the stack. An entry is pushed only after it was counted, so the remaining entries
  plus the length of the stack decrease.
\<close>

function scan_stack ::
  "('w, 'fd) world_ops \<Rightarrow> path \<Rightarrow> queued list \<Rightarrow> nat \<Rightarrow> nat \<Rightarrow> 'w \<Rightarrow> outcome \<times> 'w" where
  "scan_stack ops start [] bytes entries w = (Goes [] bytes entries, w)"
| "scan_stack ops start (q # stack) bytes entries w =
     (case scan_directory ops start q stack bytes entries w of
        (Goes stack' bytes' entries', w') \<Rightarrow> scan_stack ops start stack' bytes' entries' w'
      | (out, w') \<Rightarrow> (out, w'))"
  by pat_completeness auto
termination
proof (relation "measure (\<lambda>(ops, start, stack, bytes, entries, w).
    (MAX_PROBE_WRITABLE_ENTRIES - entries) + length stack)", goal_cases)
  case (2 ops start q stack bytes entries w out w' stack' bytes' entries')
  then have "scan_directory ops start q stack bytes entries w = (Goes stack' bytes' entries', w')" by simp
  from scan_directory_bounds [OF this] show ?case by (simp add: within_bounds_def)
qed simp

fun scan_roots ::
  "('w, 'fd) world_ops \<Rightarrow> (path \<times> nat \<times> nat) list \<Rightarrow> nat \<Rightarrow> nat \<Rightarrow> 'w \<Rightarrow> outcome \<times> 'w" where
  "scan_roots ops [] bytes entries w = (Goes [] bytes entries, w)"
| "scan_roots ops ((start, root_dev, root_ino) # rest) bytes entries w =
     (case scan_stack ops start [(start, 0, root_dev, root_ino)] bytes entries w of
        (Goes _ bytes' entries', w') \<Rightarrow> scan_roots ops rest bytes' entries' w'
      | (out, w') \<Rightarrow> (out, w'))"

section \<open>The scan\<close>

fun scan_attempts ::
  "('w, 'fd) world_ops \<Rightarrow> (path \<times> nat \<times> nat) list \<Rightarrow> nat \<Rightarrow> 'w \<Rightarrow> bool result \<times> 'w" where
  "scan_attempts ops roots 0 w = (Inr False, w)"
| "scan_attempts ops roots (Suc n) w =
     (case scan_roots ops roots 0 0 w of
        (Goes _ _ _, w') \<Rightarrow> (Inr True, w')
      | (Returns b, w') \<Rightarrow> (Inr b, w')
      | (Raises e, w') \<Rightarrow> (Inl e, w')
      | (Restart, w') \<Rightarrow> scan_attempts ops roots n w')"

text \<open>Resolving the supplied roots; None when the scan returns False.\<close>

fun bind_roots ::
  "('w, 'fd) world_ops \<Rightarrow> path list \<Rightarrow> 'w \<Rightarrow> ((path \<times> nat \<times> nat) list option) result \<times> 'w" where
  "bind_roots ops [] w = (Inr (Some []), w)"
| "bind_roots ops (p # ps) w =
     (case op_resolve ops p w of
        (Inl (OSError n), w1) \<Rightarrow> (Inr None, w1)
      | (Inl e, w1) \<Rightarrow> (Inl e, w1)
      | (Inr start, w1) \<Rightarrow>
          case op_stat ops start w1 of
            (Inl (OSError n), w2) \<Rightarrow> (Inr None, w2)
          | (Inl e, w2) \<Rightarrow> (Inl e, w2)
          | (Inr info, w2) \<Rightarrow>
              if kind info \<noteq> Directory then (Inr None, w2)
              else case bind_roots ops ps w2 of
                (Inr (Some roots), w3) \<Rightarrow> (Inr (Some ((start, dev info, ino info) # roots)), w3)
              | (other, w3) \<Rightarrow> (other, w3))"

definition probe_writable_tree_scan ::
  "('w, 'fd) world_ops \<Rightarrow> path list \<Rightarrow> 'w \<Rightarrow> bool result \<times> 'w" where
  "probe_writable_tree_scan ops paths w =
     (case bind_roots ops paths w of
        (Inl e, w') \<Rightarrow> (Inl e, w')
      | (Inr None, w') \<Rightarrow> (Inr False, w')
      | (Inr (Some roots), w') \<Rightarrow> scan_attempts ops roots (PROBE_WRITABLE_SCAN_MAX_RESTARTS + 1) w')"

section \<open>A quiescent tree\<close>

text \<open>
  The reference: a tree that does not change (the probe is suspended while it is scanned), and what
  the scan is meant to decide on it. A world answers from the tree; its state is the list of names
  that the open directory stream has still to return.
\<close>

datatype tree = Node (info: file_info) (children: "(pystr \<times> tree) list")

fun subtree :: "tree \<Rightarrow> path \<Rightarrow> tree option" where
  "subtree t [] = Some t"
| "subtree t (n # p) = (case map_of (children t) n of None \<Rightarrow> None | Some c \<Rightarrow> subtree c p)"

fun wf_tree :: "tree \<Rightarrow> bool" where
  "wf_tree (Node i cs) \<longleftrightarrow> (kind i \<noteq> Directory \<longrightarrow> cs = []) \<and> distinct (map fst cs) \<and>
     (\<forall>c \<in> set cs. wf_tree (snd c))"

definition stat_of :: "tree \<Rightarrow> path \<Rightarrow> file_info result" where
  "stat_of t p = (case subtree t p of None \<Rightarrow> Inl (OSError ENOENT) | Some c \<Rightarrow> Inr (info c))"

definition quiescent :: "tree \<Rightarrow> (pystr list, path) world_ops" where
  "quiescent t =
     \<lparr>op_resolve = (\<lambda>p w. (case subtree t p of None \<Rightarrow> Inl (OSError ENOENT) | Some c \<Rightarrow> Inr p, w)),
      op_stat = (\<lambda>p w. (stat_of t p, w)),
      op_open = (\<lambda>p w. (case subtree t p of
          None \<Rightarrow> Inl (OSError ENOENT)
        | Some c \<Rightarrow> if kind (info c) = Directory then Inr p else Inl (OSError 20), w)),
      op_fstat = (\<lambda>p w. (stat_of t p, w)),
      op_scandir = (\<lambda>p w. (Inr (), case subtree t p of None \<Rightarrow> [] | Some c \<Rightarrow> map fst (children c))),
      op_next = (\<lambda>p w. (case w of [] \<Rightarrow> (Inr None, []) | n # ns \<Rightarrow> (Inr (Some n), ns))),
      op_entry_stat = (\<lambda>p n w. (stat_of t (p @ [n]), w)),
      op_close = (\<lambda>p w. w)\<rparr>"

text \<open>Entries below a node, bytes of the files and links below it, no special files, the depth.\<close>

fun entry_count :: "tree \<Rightarrow> nat" where
  "entry_count (Node i cs) = length cs + sum_list (map (\<lambda>c. entry_count (snd c)) cs)"

definition own_bytes :: "tree \<Rightarrow> nat" where
  "own_bytes c = (if kind (info c) = Regular \<or> kind (info c) = Symlink then size_of (info c) else 0)"

fun byte_count :: "tree \<Rightarrow> nat" where
  "byte_count (Node i cs) = sum_list (map (\<lambda>c. own_bytes (snd c) + byte_count (snd c)) cs)"

fun no_special :: "tree \<Rightarrow> bool" where
  "no_special (Node i cs) \<longleftrightarrow> (\<forall>c \<in> set cs. kind (info (snd c)) \<noteq> Special \<and> no_special (snd c))"

fun depth_fits :: "nat \<Rightarrow> tree \<Rightarrow> bool" where
  "depth_fits d (Node i cs) \<longleftrightarrow> d \<le> MAX_PROBE_WRITABLE_DEPTH \<and>
     (\<forall>c \<in> set cs. kind (info (snd c)) = Directory \<longrightarrow> depth_fits (d + 1) (snd c))"

definition tree_fits :: "tree list \<Rightarrow> bool" where
  "tree_fits ts \<longleftrightarrow> (\<forall>t \<in> set ts. no_special t \<and> depth_fits 0 t) \<and>
     sum_list (map entry_count ts) \<le> MAX_PROBE_WRITABLE_ENTRIES \<and>
     sum_list (map byte_count ts) \<le> MAX_PROBE_WRITABLE_BYTES"

subsection \<open>Lemmas\<close>

lemma leaf_counts:
  "wf_tree c \<Longrightarrow> kind (info c) \<noteq> Directory \<Longrightarrow> entry_count c = 0 \<and> byte_count c = 0 \<and> no_special c"
  by (cases c) auto

lemma subtree_snoc:
  "subtree t (p @ [n]) = (case subtree t p of None \<Rightarrow> None | Some c \<Rightarrow> map_of (children c) n)"
  by (induction t p rule: subtree.induct) (auto split: option.splits)

lemma wf_subtree: "wf_tree t \<Longrightarrow> subtree t p = Some c \<Longrightarrow> wf_tree c"
proof (induction t p rule: subtree.induct)
  case (2 t n p)
  then obtain c' where c': "map_of (children t) n = Some c'" "subtree c' p = Some c"
    by (auto split: option.splits)
  then have "wf_tree c'" using "2.prems"(1) by (cases t) (auto dest: map_of_SomeD)
  with "2.IH" [OF c'(1)] c'(2) show ?case by simp
qed simp

definition dirs_of :: "path \<Rightarrow> nat \<Rightarrow> (pystr \<times> tree) list \<Rightarrow> queued list" where
  "dirs_of p d cs = map (\<lambda>c. (p @ [fst c], d + 1, dev (info (snd c)), ino (info (snd c))))
     (filter (\<lambda>c. kind (info (snd c)) = Directory) cs)"

definition plain_files :: "(pystr \<times> tree) list \<Rightarrow> nat \<Rightarrow> nat \<Rightarrow> bool" where
  "plain_files cs bytes entries \<longleftrightarrow> (\<forall>c \<in> set cs. kind (info (snd c)) \<noteq> Special) \<and>
     entries + length cs \<le> MAX_PROBE_WRITABLE_ENTRIES \<and>
     bytes + sum_list (map (\<lambda>c. own_bytes (snd c)) cs) \<le> MAX_PROBE_WRITABLE_BYTES"

lemma scan_entries_quiescent:
  assumes "subtree t p = Some (Node i cs0)" and "distinct (map fst cs0)"
  shows "set cs \<subseteq> set cs0 \<Longrightarrow> bytes \<le> MAX_PROBE_WRITABLE_BYTES \<Longrightarrow> entries \<le> MAX_PROBE_WRITABLE_ENTRIES \<Longrightarrow>
    fst (scan_entries (quiescent t) p at_root d p stack bytes entries (map fst cs)) =
      (if plain_files cs bytes entries
       then Goes (rev (dirs_of p d cs) @ stack) (bytes + sum_list (map (\<lambda>c. own_bytes (snd c)) cs)) (entries + length cs)
       else Returns False)"
proof (induction cs arbitrary: stack bytes entries)
  case Nil
  have ops: "op_next (quiescent t) p [] = (Inr None, [])" by (simp add: quiescent_def)
  show ?case
    using Nil by (simp add: scan_entries.simps [of "quiescent t" p at_root d p stack bytes entries "[]"]
        ops plain_files_def dirs_of_def)
next
  case (Cons c cs)
  have "map_of cs0 (fst c) = Some (snd c)"
    using Cons.prems(1) assms(2) by (simp add: map_of_eq_Some_iff)
  then have st: "stat_of t (p @ [fst c]) = Inr (info (snd c))"
    by (simp add: stat_of_def subtree_snoc assms(1))
  note step = scan_entries.simps [of "quiescent t" p at_root d p stack bytes entries "fst c # map fst cs"]
  have ops: "op_next (quiescent t) p (fst c # map fst cs) = (Inr (Some (fst c)), map fst cs)"
    "op_entry_stat (quiescent t) p (fst c) w = (Inr (info (snd c)), w)" for w
    using st by (simp_all add: quiescent_def)
  show ?case
  proof (cases "entries + 1 \<le> MAX_PROBE_WRITABLE_ENTRIES")
    case False
    then show ?thesis by (simp add: step ops plain_files_def)
  next
    case True
    note IH = Cons.IH [OF _ _ True]
    show ?thesis
    proof (cases "kind (info (snd c))")
      case Directory
      then show ?thesis using IH [of bytes] Cons.prems True
        by (simp add: step ops plain_files_def own_bytes_def dirs_of_def)
    next
      case Special
      then show ?thesis using True by (simp add: step ops plain_files_def)
    next
      case Regular
      show ?thesis
      proof (cases "bytes + size_of (info (snd c)) \<le> MAX_PROBE_WRITABLE_BYTES")
        case small: True
        then show ?thesis using IH [of "bytes + size_of (info (snd c))"] Cons.prems True Regular
          by (simp add: step ops plain_files_def own_bytes_def dirs_of_def add.assoc)
      next
        case False
        then show ?thesis using True Regular by (simp add: step ops plain_files_def own_bytes_def)
      qed
    next
      case Symlink
      show ?thesis
      proof (cases "bytes + size_of (info (snd c)) \<le> MAX_PROBE_WRITABLE_BYTES")
        case small: True
        then show ?thesis using IH [of "bytes + size_of (info (snd c))"] Cons.prems True Symlink
          by (simp add: step ops plain_files_def own_bytes_def dirs_of_def add.assoc)
      next
        case False
        then show ?thesis using True Symlink by (simp add: step ops plain_files_def own_bytes_def)
      qed
    qed
  qed
qed

text \<open>A stack of queued directories that are where the scan found them.\<close>

definition queued_tree :: "tree \<Rightarrow> queued \<Rightarrow> tree \<Rightarrow> bool" where
  "queued_tree t q c \<longleftrightarrow> (case q of (p, d, dv, io) \<Rightarrow>
     subtree t p = Some c \<and> kind (info c) = Directory \<and> dev (info c) = dv \<and> ino (info c) = io)"

lemma scan_directory_quiescent:
  assumes "wf_tree t" and "queued_tree t (p, d, dv, io) (Node i cs)"
    and "bytes \<le> MAX_PROBE_WRITABLE_BYTES" and "entries \<le> MAX_PROBE_WRITABLE_ENTRIES"
  shows "fst (scan_directory (quiescent t) start (p, d, dv, io) stack bytes entries w) =
    (if d \<le> MAX_PROBE_WRITABLE_DEPTH \<and> plain_files cs bytes entries
     then Goes (rev (dirs_of p d cs) @ stack) (bytes + sum_list (map (\<lambda>c. own_bytes (snd c)) cs)) (entries + length cs)
     else Returns False)"
proof -
  have sub: "subtree t p = Some (Node i cs)" and i: "kind i = Directory" "dev i = dv" "ino i = io"
    using assms(2) by (simp_all add: queued_tree_def)
  have dist: "distinct (map fst cs)" using wf_subtree [OF assms(1) sub] by simp
  have ops: "op_open (quiescent t) p w = (Inr p, w)" "op_fstat (quiescent t) p w = (Inr i, w)"
    "op_scandir (quiescent t) p w = (Inr (), map fst cs)" for w
    using sub i by (simp_all add: quiescent_def stat_of_def)
  note E = scan_entries_quiescent [OF sub dist subset_refl assms(3,4), of "p = start" d stack]
  show ?thesis
    using E i by (auto simp: scan_directory_def ops case_prod_unfold Let_def)
qed

text \<open>The queue as the scan builds it, with the tree behind each queued directory.\<close>

type_synonym item = "path \<times> nat \<times> tree"

definition queue_of :: "item list \<Rightarrow> queued list" where
  "queue_of items = map (\<lambda>(p, d, c). (p, d, dev (info c), ino (info c))) items"

definition located :: "tree \<Rightarrow> item list \<Rightarrow> bool" where
  "located t items \<longleftrightarrow> (\<forall>(p, d, c) \<in> set items. subtree t p = Some c \<and> kind (info c) = Directory)"

definition kids :: "path \<Rightarrow> nat \<Rightarrow> (pystr \<times> tree) list \<Rightarrow> item list" where
  "kids p d cs = rev (map (\<lambda>c. (p @ [fst c], d + 1, snd c)) (filter (\<lambda>c. kind (info (snd c)) = Directory) cs))"

definition items_fit :: "item list \<Rightarrow> nat \<Rightarrow> nat \<Rightarrow> bool" where
  "items_fit items bytes entries \<longleftrightarrow> (\<forall>(p, d, c) \<in> set items. no_special c \<and> depth_fits d c) \<and>
     entries + sum_list (map (\<lambda>(p, d, c). entry_count c) items) \<le> MAX_PROBE_WRITABLE_ENTRIES \<and>
     bytes + sum_list (map (\<lambda>(p, d, c). byte_count c) items) \<le> MAX_PROBE_WRITABLE_BYTES"

lemma queue_of_kids: "rev (dirs_of p d cs) = queue_of (kids p d cs)"
  by (simp add: dirs_of_def queue_of_def kids_def rev_map)

lemma sum_dirs:
  assumes "\<And>c. c \<in> set cs \<Longrightarrow> \<not> P c \<Longrightarrow> f c = (0 :: nat)"
  shows "sum_list (map f (filter P cs)) = sum_list (map f cs)"
  using assms by (induction cs) auto

lemma kids_counts:
  assumes "\<forall>c \<in> set cs. wf_tree (snd c)"
  shows "sum_list (map (\<lambda>(p, d, c). entry_count c) (kids p d cs)) = sum_list (map (\<lambda>c. entry_count (snd c)) cs)"
    and "sum_list (map (\<lambda>(p, d, c). byte_count c) (kids p d cs)) = sum_list (map (\<lambda>c. byte_count (snd c)) cs)"
  using assms leaf_counts
  by (auto simp: kids_def comp_def rev_map sum_list_rev simp flip: rev_map intro!: sum_dirs)

lemma items_fit_step:
  assumes "wf_tree (Node i cs)"
  shows "items_fit ((p, d, Node i cs) # items) bytes entries \<longleftrightarrow>
     d \<le> MAX_PROBE_WRITABLE_DEPTH \<and> plain_files cs bytes entries \<and>
     items_fit (kids p d cs @ items) (bytes + sum_list (map (\<lambda>c. own_bytes (snd c)) cs)) (entries + length cs)"
proof -
  have wf: "\<forall>c \<in> set cs. wf_tree (snd c)" using assms by simp
  have leaf: "no_special (snd c)" if "c \<in> set cs" "kind (info (snd c)) \<noteq> Directory" for c
    using wf leaf_counts that by blast
  have all: "(\<forall>(p, d, c) \<in> set (kids p d cs). no_special c \<and> depth_fits d c) \<longleftrightarrow>
      (\<forall>c \<in> set cs. no_special (snd c)) \<and>
      (\<forall>c \<in> set cs. kind (info (snd c)) = Directory \<longrightarrow> depth_fits (d + 1) (snd c))"
    (is "?l \<longleftrightarrow> ?r")
  proof
    assume ?r then show ?l by (auto simp: kids_def)
  next
    assume l: ?l
    have "no_special (snd c) \<and> depth_fits (d + 1) (snd c)" if "c \<in> set cs" "kind (info (snd c)) = Directory" for c
    proof -
      have "(p @ [fst c], d + 1, snd c) \<in> set (kids p d cs)" using that by (auto simp: kids_def)
      from bspec [OF l this] show ?thesis by simp
    qed
    with leaf show ?r by blast
  qed
  have split: "(\<forall>x \<in> set (a @ b). P x) \<longleftrightarrow> (\<forall>x \<in> set a. P x) \<and> (\<forall>x \<in> set b. P x)" for a b :: "item list" and P
    by auto
  show ?thesis
    unfolding items_fit_def split all
    by (auto simp: plain_files_def kids_counts [OF wf] sum_list_addf)
qed

lemma located_kids:
  assumes "wf_tree t" and "located t ((p, d, Node i cs) # items)"
  shows "located t (kids p d cs @ items)"
proof -
  have sub: "subtree t p = Some (Node i cs)" using assms(2) by (simp add: located_def)
  have "distinct (map fst cs)" using wf_subtree [OF assms(1) sub] by simp
  then have "map_of cs (fst c) = Some (snd c)" if "c \<in> set cs" for c
    using that by (simp add: map_of_eq_Some_iff)
  then show ?thesis using assms(2) by (auto simp: located_def kids_def subtree_snoc sub)
qed

lemma scan_stack_quiescent:
  assumes "wf_tree t"
  shows "located t items \<Longrightarrow> stack = queue_of items \<Longrightarrow> bytes \<le> MAX_PROBE_WRITABLE_BYTES \<Longrightarrow>
    entries \<le> MAX_PROBE_WRITABLE_ENTRIES \<Longrightarrow>
    fst (scan_stack (quiescent t) start stack bytes entries w) =
      (if items_fit items bytes entries
       then Goes [] (bytes + sum_list (map (\<lambda>(p, d, c). byte_count c) items))
                    (entries + sum_list (map (\<lambda>(p, d, c). entry_count c) items))
       else Returns False)"
proof (induction "quiescent t" start stack bytes entries w arbitrary: items rule: scan_stack.induct)
  case (1 start bytes entries w)
  then show ?case by (simp add: queue_of_def items_fit_def)
next
  case (2 start q stack bytes entries w)
  from "2.prems"(2) obtain p d c rest where items: "items = (p, d, c) # rest"
    and q: "q = (p, d, dev (info c), ino (info c))" and stack: "stack = queue_of rest"
    by (cases items) (auto simp: queue_of_def)
  obtain i cs where c: "c = Node i cs" by (cases c)
  have sub: "subtree t p = Some (Node i cs)" using "2.prems"(1) by (simp add: located_def items c)
  have wf: "wf_tree (Node i cs)" by (rule wf_subtree [OF assms sub])
  then have kid_wf: "\<forall>c \<in> set cs. wf_tree (snd c)" by simp
  have queued: "queued_tree t (p, d, dev i, ino i) (Node i cs)"
    using "2.prems"(1) by (simp add: queued_tree_def located_def items c)
  note D = scan_directory_quiescent [OF assms queued "2.prems"(3,4), of start stack w]
  obtain out w' where out: "scan_directory (quiescent t) start q stack bytes entries w = (out, w')"
    by (cases "scan_directory (quiescent t) start q stack bytes entries w")
  show ?case
  proof (cases "d \<le> MAX_PROBE_WRITABLE_DEPTH \<and> plain_files cs bytes entries")
    case False
    then have "out = Returns False" using D out q c by auto
    then show ?thesis using False items_fit_step [OF wf] by (auto simp: out items c)
  next
    case True
    let ?b = "bytes + sum_list (map (\<lambda>c. own_bytes (snd c)) cs)" and ?e = "entries + length cs"
    have o': "out = Goes (queue_of (kids p d cs @ rest)) ?b ?e"
      using True D out q c stack queue_of_kids [of p d cs] by (auto simp: queue_of_def)
    have ok: "?b \<le> MAX_PROBE_WRITABLE_BYTES" "?e \<le> MAX_PROBE_WRITABLE_ENTRIES"
      using True by (simp_all add: plain_files_def)
    have loc: "located t (kids p d cs @ rest)"
      using located_kids [OF assms] "2.prems"(1) by (simp add: items c)
    note IH = "2.hyps" [OF out [symmetric, folded o'] o' loc refl ok]
    show ?thesis
      using IH True items_fit_step [OF wf, of p d rest bytes entries]
      by (simp add: out o' items c kids_counts [OF kid_wf] sum_list_addf ac_simps)
  qed
qed

section \<open>The decision on a quiescent tree\<close>

definition roots_of :: "tree \<Rightarrow> path list \<Rightarrow> tree list" where
  "roots_of t paths = map (\<lambda>p. the (subtree t p)) paths"

definition start_of :: "tree \<Rightarrow> path \<Rightarrow> path \<times> nat \<times> nat" where
  "start_of t p = (p, dev (info (the (subtree t p))), ino (info (the (subtree t p))))"

definition is_directory :: "tree \<Rightarrow> path \<Rightarrow> bool" where
  "is_directory t p \<longleftrightarrow> (case subtree t p of None \<Rightarrow> False | Some c \<Rightarrow> kind (info c) = Directory)"

lemma bind_roots_quiescent:
  "bind_roots (quiescent t) paths w =
     (Inr (if \<forall>p \<in> set paths. is_directory t p then Some (map (start_of t) paths) else None), w)"
proof (induction paths arbitrary: w)
  case (Cons p paths)
  have ops: "op_resolve (quiescent t) p w = (case subtree t p of None \<Rightarrow> Inl (OSError ENOENT) | Some c \<Rightarrow> Inr p, w)"
    "op_stat (quiescent t) p w = (stat_of t p, w)" for w by (simp_all add: quiescent_def)
  show ?case
    by (cases "subtree t p") (auto simp: ops stat_of_def is_directory_def start_of_def Cons.IH)
qed simp

lemma scan_roots_quiescent:
  assumes "wf_tree t"
  shows "\<forall>p \<in> set paths. is_directory t p \<Longrightarrow> bytes \<le> MAX_PROBE_WRITABLE_BYTES \<Longrightarrow>
    entries \<le> MAX_PROBE_WRITABLE_ENTRIES \<Longrightarrow>
    fst (scan_roots (quiescent t) (map (start_of t) paths) bytes entries w) =
      (if (\<forall>c \<in> set (roots_of t paths). no_special c \<and> depth_fits 0 c) \<and>
          entries + sum_list (map entry_count (roots_of t paths)) \<le> MAX_PROBE_WRITABLE_ENTRIES \<and>
          bytes + sum_list (map byte_count (roots_of t paths)) \<le> MAX_PROBE_WRITABLE_BYTES
       then Goes [] (bytes + sum_list (map byte_count (roots_of t paths)))
                    (entries + sum_list (map entry_count (roots_of t paths)))
       else Returns False)"
proof (induction paths arbitrary: bytes entries w)
  case (Cons p paths)
  from Cons.prems(1) obtain c where c: "subtree t p = Some c" "kind (info c) = Directory"
    by (auto simp: is_directory_def split: option.splits)
  have start: "start_of t p = (p, dev (info c), ino (info c))" by (simp add: start_of_def c)
  have located: "located t [(p, 0, c)]" by (simp add: located_def c)
  have queue: "[(p, 0, dev (info c), ino (info c))] = queue_of [(p, 0, c)]" by (simp add: queue_of_def)
  note S = scan_stack_quiescent [OF assms located queue Cons.prems(2,3), of p w]
  obtain out w' where out: "scan_stack (quiescent t) p [(p, 0, dev (info c), ino (info c))] bytes entries w = (out, w')"
    by (cases "scan_stack (quiescent t) p [(p, 0, dev (info c), ino (info c))] bytes entries w")
  have roots: "roots_of t (p # paths) = c # roots_of t paths" by (simp add: roots_of_def c)
  show ?case
  proof (cases "items_fit [(p, 0, c)] bytes entries")
    case False
    then have "out = Returns False" using S out by simp
    then show ?thesis using False by (auto simp: start out roots items_fit_def simp del: scan_stack.simps)
  next
    case True
    then have o': "out = Goes [] (bytes + byte_count c) (entries + entry_count c)" using S out by simp
    have le: "bytes + byte_count c \<le> MAX_PROBE_WRITABLE_BYTES" "entries + entry_count c \<le> MAX_PROBE_WRITABLE_ENTRIES"
      "no_special c" "depth_fits 0 c" using True by (simp_all add: items_fit_def)
    show ?thesis using Cons.IH [OF _ le(1,2)] Cons.prems(1) le
      by (simp add: start out o' roots add.assoc del: scan_stack.simps)
  qed
qed (simp add: roots_of_def)

lemma scan_attempts_quiescent:
  assumes "wf_tree t" and "\<forall>p \<in> set paths. is_directory t p"
  shows "fst (scan_attempts (quiescent t) (map (start_of t) paths) (Suc n) w) = Inr (tree_fits (roots_of t paths))"
proof -
  note R = scan_roots_quiescent [OF assms, of 0 0 w]
  obtain out w' where out: "scan_roots (quiescent t) (map (start_of t) paths) 0 0 w = (out, w')"
    by (cases "scan_roots (quiescent t) (map (start_of t) paths) 0 0 w")
  show ?thesis
    using R by (cases "tree_fits (roots_of t paths)") (auto simp: out tree_fits_def)
qed

section \<open>A scan under an adversary\<close>

text \<open>What one complete pass observed: no failure, no restart, and counts within the limits.\<close>

definition complete_pass :: "('w, 'fd) world_ops \<Rightarrow> (path \<times> nat \<times> nat) list \<Rightarrow> 'w \<Rightarrow> bool" where
  "complete_pass ops roots w \<longleftrightarrow> (\<exists>bytes entries w'. scan_roots ops roots 0 0 w = (Goes [] bytes entries, w') \<and>
     bytes \<le> MAX_PROBE_WRITABLE_BYTES \<and> entries \<le> MAX_PROBE_WRITABLE_ENTRIES)"

lemma scan_stack_bounds:
  "scan_stack ops start stack bytes entries w = (Goes stack' bytes' entries', w') \<Longrightarrow>
     stack' = [] \<and> (entries \<le> MAX_PROBE_WRITABLE_ENTRIES \<longrightarrow> entries' \<le> MAX_PROBE_WRITABLE_ENTRIES) \<and>
     (bytes \<le> MAX_PROBE_WRITABLE_BYTES \<longrightarrow> bytes' \<le> MAX_PROBE_WRITABLE_BYTES)"
proof (induction ops start stack bytes entries w rule: scan_stack.induct)
  case (2 ops start q stack bytes entries w)
  then obtain s1 b1 e1 w1 where d: "scan_directory ops start q stack bytes entries w = (Goes s1 b1 e1, w1)"
    and r: "scan_stack ops start s1 b1 e1 w1 = (Goes stack' bytes' entries', w')"
    by (auto split: prod.splits outcome.splits)
  from "2.IH" [OF d [symmetric] refl r] scan_directory_bounds [OF d] show ?case
    by (auto simp: within_bounds_def)
qed simp

lemma scan_roots_bounds:
  "scan_roots ops roots bytes entries w = (Goes stack' bytes' entries', w') \<Longrightarrow>
     stack' = [] \<and> (entries \<le> MAX_PROBE_WRITABLE_ENTRIES \<longrightarrow> entries' \<le> MAX_PROBE_WRITABLE_ENTRIES) \<and>
     (bytes \<le> MAX_PROBE_WRITABLE_BYTES \<longrightarrow> bytes' \<le> MAX_PROBE_WRITABLE_BYTES)"
proof (induction ops roots bytes entries w rule: scan_roots.induct)
  case (2 ops start root_dev root_ino rest bytes entries w)
  then obtain s1 b1 e1 w1 where
    d: "scan_stack ops start [(start, 0, root_dev, root_ino)] bytes entries w = (Goes s1 b1 e1, w1)"
    and r: "scan_roots ops rest b1 e1 w1 = (Goes stack' bytes' entries', w')"
    by (auto simp del: scan_stack.simps split: prod.splits outcome.splits)
  from "2.IH" [OF d [symmetric] refl r] scan_stack_bounds [OF d] show ?case by auto
qed simp

lemma scan_never_claims_true:
  "scan_failure r e \<noteq> Returns True"
  by (auto simp: scan_failure_def split: exn.splits)

lemma scan_entries_never_true: "fst (scan_entries ops current r depth fd stack bytes entries w) \<noteq> Returns True"
proof (induction ops current r depth fd stack bytes entries w rule: scan_entries.induct)
  case (1 ops current at_root depth fd stack bytes entries w)
  show ?case
    unfolding scan_entries.simps [of ops current at_root depth fd stack bytes entries w]
    using 1 by (auto simp: scan_never_claims_true split: prod.splits sum.splits option.splits exn.splits)
qed

lemma scan_entries_not_true: "scan_entries ops current r depth fd stack bytes entries w = (Returns True, w') \<Longrightarrow> False"
  using scan_entries_never_true [of ops current r depth fd stack bytes entries w] by simp

lemma scan_directory_never_true: "fst (scan_directory ops start q stack bytes entries w) \<noteq> Returns True"
  by (auto simp: scan_directory_def Let_def scan_never_claims_true
      split: prod.splits sum.splits exn.splits dest: scan_entries_not_true)

lemma scan_stack_never_true: "fst (scan_stack ops start stack bytes entries w) \<noteq> Returns True"
proof (induction ops start stack bytes entries w rule: scan_stack.induct)
  case (2 ops start q stack bytes entries w)
  then show ?case using scan_directory_never_true [of ops start q stack bytes entries w]
    by (auto split: prod.splits outcome.splits)
qed simp

lemma scan_roots_never_true: "fst (scan_roots ops roots bytes entries w) \<noteq> Returns True"
proof (induction ops roots bytes entries w rule: scan_roots.induct)
  case (2 ops start root_dev root_ino rest bytes entries w)
  then show ?case
    using scan_stack_never_true [of ops start "[(start, 0, root_dev, root_ino)]" bytes entries w]
    by (auto simp del: scan_stack.simps split: prod.splits outcome.splits)
qed simp

text \<open>The pass that \<open>True\<close> rests on started in a state reached by fewer than nine restarted passes.\<close>

fun restarted :: "('w, 'fd) world_ops \<Rightarrow> (path \<times> nat \<times> nat) list \<Rightarrow> nat \<Rightarrow> 'w \<Rightarrow> 'w option" where
  "restarted ops roots 0 w = Some w"
| "restarted ops roots (Suc n) w =
     (case scan_roots ops roots 0 0 w of (Restart, w') \<Rightarrow> restarted ops roots n w' | _ \<Rightarrow> None)"

lemma scan_attempts_True:
  "fst (scan_attempts ops roots n w) = Inr True \<Longrightarrow>
     \<exists>k w'. k < n \<and> restarted ops roots k w = Some w' \<and> complete_pass ops roots w'"
proof (induction ops roots n w rule: scan_attempts.induct)
  case (2 ops roots n w)
  obtain out w' where out: "scan_roots ops roots 0 0 w = (out, w')" by (cases "scan_roots ops roots 0 0 w")
  show ?case
  proof (cases out)
    case (Goes s b e)
    with out scan_roots_bounds [of ops roots 0 0 w s b e w'] have "complete_pass ops roots w"
      by (auto simp: complete_pass_def)
    then show ?thesis by (intro exI [of _ 0] exI [of _ w]) simp
  next
    case Restart
    then have "\<exists>k w''. k < n \<and> restarted ops roots k w' = Some w'' \<and> complete_pass ops roots w''"
      using 2 out by auto
    then obtain k w'' where "k < n" "restarted ops roots k w' = Some w''" "complete_pass ops roots w''" by blast
    then show ?thesis using out Restart by (intro exI [of _ "Suc k"] exI [of _ w'']) simp
  qed (use 2 out scan_roots_never_true [of ops roots 0 0 w] in auto)
qed simp

section \<open>Properties\<close>

text \<open>C12: On a tree that does not change while it is scanned, the scan decides the accounting limits
  exactly: it answers True if and only if every supplied root is a directory, no special file is
  below one, no directory lies deeper than the depth limit, and the entries and the bytes of regular
  files and links below all the roots together are within their limits. It neither raises nor needs
  a restart.\<close>

theorem probe_writable_tree_scan_exact:
  assumes "wf_tree t"
  shows "fst (probe_writable_tree_scan (quiescent t) paths w) =
    Inr ((\<forall>p \<in> set paths. is_directory t p) \<and> tree_fits (roots_of t paths))"
  using scan_attempts_quiescent [OF assms]
  by (cases "\<forall>p \<in> set paths. is_directory t p")
    (auto simp: probe_writable_tree_scan_def bind_roots_quiescent simp del: scan_attempts.simps)

definition sample_tree :: tree where
  "sample_tree =
     (let leaf = (\<lambda>k n s. Node \<lparr>kind = k, dev = 1, ino = n, size_of = s\<rparr> []);
          folder = (\<lambda>n cs. Node \<lparr>kind = Directory, dev = 1, ino = n, size_of = 4096\<rparr> cs)
      in folder 1 [(lit ''a'', folder 2 [(lit ''f'', leaf Regular 3 100)]),
                   (lit ''b'', folder 4 [(lit ''p'', leaf Special 5 0)])])"

theorem probe_writable_tree_scan_exact_witness:
  "fst (probe_writable_tree_scan (quiescent sample_tree) [[lit ''a'']] []) = Inr True \<and>
   fst (probe_writable_tree_scan (quiescent sample_tree) [[lit ''a''], [lit ''b'']] []) = Inr False"
proof -
  have wf: "wf_tree sample_tree" by (simp add: sample_tree_def Let_def)
  show ?thesis
    by (simp add: probe_writable_tree_scan_exact [OF wf])
      (simp add: sample_tree_def Let_def is_directory_def roots_of_def tree_fits_def own_bytes_def
        MAX_PROBE_WRITABLE_DEPTH_def MAX_PROBE_WRITABLE_ENTRIES_def MAX_PROBE_WRITABLE_BYTES_def)
qed

text \<open>Whatever the file system answers and however it changes during the scan, the scan ends, and
  it answers True only if one of at most nine passes ran to its end over all the bound roots: without
  a failure, without a name that vanished or was replaced, and with no more entries and bytes counted
  than the limits.\<close>

theorem probe_writable_tree_scan_sound:
  assumes "fst (probe_writable_tree_scan ops paths w) = Inr True"
  shows "\<exists>roots w0 k w1. bind_roots ops paths w = (Inr (Some roots), w0) \<and>
    k \<le> PROBE_WRITABLE_SCAN_MAX_RESTARTS \<and> restarted ops roots k w0 = Some w1 \<and> complete_pass ops roots w1"
proof -
  obtain r w0 where b: "bind_roots ops paths w = (r, w0)" by (cases "bind_roots ops paths w")
  with assms obtain roots where r: "r = Inr (Some roots)"
    by (auto simp: probe_writable_tree_scan_def split: sum.splits option.splits)
  with assms b have "fst (scan_attempts ops roots (PROBE_WRITABLE_SCAN_MAX_RESTARTS + 1) w0) = Inr True"
    by (simp add: probe_writable_tree_scan_def)
  from scan_attempts_True [OF this] b r show ?thesis by (auto simp: less_Suc_eq_le)
qed

theorem probe_writable_tree_scan_sound_witness:
  "\<exists>roots w0 k w1. bind_roots (quiescent sample_tree) [[lit ''a'']] [] = (Inr (Some roots), w0) \<and>
    k \<le> PROBE_WRITABLE_SCAN_MAX_RESTARTS \<and> restarted (quiescent sample_tree) roots k w0 = Some w1 \<and>
    complete_pass (quiescent sample_tree) roots w1"
proof (rule probe_writable_tree_scan_sound)
  have "wf_tree sample_tree" by (simp add: sample_tree_def Let_def)
  moreover have "is_directory sample_tree [lit ''a''] \<and> tree_fits (roots_of sample_tree [[lit ''a'']])"
    by (simp add: sample_tree_def Let_def is_directory_def roots_of_def tree_fits_def own_bytes_def
        MAX_PROBE_WRITABLE_DEPTH_def MAX_PROBE_WRITABLE_ENTRIES_def MAX_PROBE_WRITABLE_BYTES_def)
  ultimately show "fst (probe_writable_tree_scan (quiescent sample_tree) [[lit ''a'']] []) = Inr True"
    using scan_attempts_quiescent [of sample_tree "[[lit ''a'']]"]
    by (simp add: probe_writable_tree_scan_def bind_roots_quiescent del: scan_attempts.simps bind_roots.simps)
qed

end
