(* ===== verification/Trusted_Exec.thy ===== *)
theory Trusted_Exec
  imports Regex Py_Text Utf8
begin

text \<open>
  The pinned executables of \<open>tools/run_moriarty.py\<close>: \<open>_directory_chain_safe\<close>,
  \<open>_trusted_executable\<close>, \<open>_trusted_exact_path\<close>, \<open>trusted_executable_matches\<close>, \<open>trusted_run\<close>,
  \<open>trusted_capture_bounded\<close>, the rustup discovery and the choice of the Rust toolchain. A path is
  the list of its components below the root directory. The file system and the processes are
  parameters; every system call has its own answer, so that what changes between two calls is part
  of the model.
\<close>

section \<open>Inodes and paths\<close>

type_synonym path = "pystr list"

record inode_info =
  st_dev :: nat
  st_ino :: nat
  st_size :: nat
  st_mtime_ns :: nat
  st_mode :: nat

definition S_ISREG :: "nat \<Rightarrow> bool" where "S_ISREG mode \<longleftrightarrow> mode AND 0xF000 = 0x8000"
definition S_IMODE :: "nat \<Rightarrow> nat" where "S_IMODE mode = mode AND 0xFFF"
definition any_exec :: "nat \<Rightarrow> bool" where "any_exec mode \<longleftrightarrow> mode AND 0x49 \<noteq> 0"
definition others_write :: "nat \<Rightarrow> bool" where "others_write mode \<longleftrightarrow> mode AND (0x10 OR 0x02) \<noteq> 0"

definition same_inode_state :: "inode_info \<Rightarrow> inode_info \<Rightarrow> bool" where
  "same_inode_state a b \<longleftrightarrow> st_dev a = st_dev b \<and> st_ino a = st_ino b \<and> st_size a = st_size b \<and>
     st_mtime_ns a = st_mtime_ns b \<and> S_IMODE (st_mode a) = S_IMODE (st_mode b)"

text \<open>\<open>p == q or q in p.parents\<close>, and \<open>q in p.parents\<close>.\<close>

definition inside :: "path \<Rightarrow> path \<Rightarrow> bool" where "inside q p \<longleftrightarrow> starts_with p q"
definition strictly_inside :: "path \<Rightarrow> path \<Rightarrow> bool" where "strictly_inside q p \<longleftrightarrow> starts_with p q \<and> p \<noteq> q"

text \<open>
  The world: ROOT, REAL_HOME and the answers of the system calls; None is an OSError that the code
  handles, an \<open>Inl\<close> of \<open>open_path\<close> the errno of one that it may not.
\<close>

record exec_world =
  ROOT :: path
  REAL_HOME :: path
  resolve_strict :: "path \<Rightarrow> path option"
  stat_path :: "path \<Rightarrow> inode_info option"
  is_file :: "path \<Rightarrow> bool"
  access_x :: "path \<Rightarrow> bool"
  open_path :: "path \<Rightarrow> nat + (nat \<times> inode_info)"

function directory_chain_from :: "exec_world \<Rightarrow> path \<Rightarrow> bool" where
  "directory_chain_from w current = (case stat_path w current of
     None \<Rightarrow> False
   | Some i \<Rightarrow> if others_write (st_mode i) then False
               else if current = [] then True
               else directory_chain_from w (butlast current))"
  by pat_completeness auto
termination by (relation "measure (\<lambda>(w, p). length p)") auto

declare directory_chain_from.simps [simp del]

definition directory_chain_safe :: "exec_world \<Rightarrow> path \<Rightarrow> bool" where
  "directory_chain_safe w p = directory_chain_from w (butlast p)"

section \<open>Pinning\<close>

record trusted_executable =
  tx_name :: string
  invocation :: path
  executable :: path
  tx_device :: nat
  tx_inode :: nat
  tx_size :: nat
  tx_mtime_ns :: nat
  tx_mode :: nat
  tx_fd :: nat

definition pin :: "string \<Rightarrow> path \<Rightarrow> path \<Rightarrow> nat \<Rightarrow> inode_info \<Rightarrow> trusted_executable" where
  "pin nm invoked target handle pinned =
     \<lparr>tx_name = nm, invocation = invoked, executable = target, tx_device = st_dev pinned, tx_inode = st_ino pinned,
      tx_size = st_size pinned, tx_mtime_ns = st_mtime_ns pinned, tx_mode = S_IMODE (st_mode pinned), tx_fd = handle\<rparr>"

definition candidates :: "exec_world \<Rightarrow> string \<Rightarrow> path option \<Rightarrow> path list" where
  "candidates w nm preferred =
     (case preferred of None \<Rightarrow> [] | Some p \<Rightarrow> [p]) @
     [[lit ''usr'', lit ''local'', lit ''cargo'', lit ''bin'', lit nm],
      [lit ''usr'', lit ''local'', lit ''bin'', lit nm],
      [lit ''usr'', lit ''bin'', lit nm],
      [lit ''bin'', lit nm],
      REAL_HOME w @ [lit ''.cargo'', lit ''bin'', lit nm]]"

text \<open>One round of the loop: None is \<open>continue\<close>.\<close>

definition try_candidate :: "exec_world \<Rightarrow> string \<Rightarrow> path \<Rightarrow> trusted_executable option" where
  "try_candidate w nm invoked = (case resolve_strict w invoked of
     None \<Rightarrow> None
   | Some target \<Rightarrow> (case stat_path w target of
       None \<Rightarrow> None
     | Some target_stat \<Rightarrow>
         if \<not> is_file w target \<or> \<not> access_x w invoked then None
         else if inside (ROOT w) target \<or> inside (ROOT w) invoked then None
         else if \<not> directory_chain_safe w invoked \<or> \<not> directory_chain_safe w target then None
         else if \<not> S_ISREG (st_mode target_stat) \<or> \<not> any_exec (st_mode target_stat) then None
         else case open_path w target of
           Inl _ \<Rightarrow> None
         | Inr (handle, pinned) \<Rightarrow>
             if \<not> same_inode_state pinned target_stat then None
             else Some (pin nm invoked target handle pinned)))"

fun first_candidate :: "exec_world \<Rightarrow> string \<Rightarrow> path list \<Rightarrow> trusted_executable result" where
  "first_candidate w nm [] = Inl (SystemExitFor ''moriarty_trusted_executable_unavailable:'' (lit nm))"
| "first_candidate w nm (p # ps) = (case try_candidate w nm p of
     Some t \<Rightarrow> Inr t | None \<Rightarrow> first_candidate w nm ps)"

definition trusted_executable :: "exec_world \<Rightarrow> string \<Rightarrow> path option \<Rightarrow> trusted_executable result" where
  "trusted_executable w nm preferred = first_candidate w nm (candidates w nm preferred)"

definition trusted_exact_path :: "exec_world \<Rightarrow> string \<Rightarrow> path \<Rightarrow> trusted_executable result" where
  "trusted_exact_path w nm invoked =
     (let failed = (\<lambda>what. SystemExitFor (''moriarty_trusted_exact_path_'' @ what @ '':'') (lit nm)) in
      case resolve_strict w invoked of
        None \<Rightarrow> Inl (failed ''unavailable'')
      | Some target \<Rightarrow> (case stat_path w target of
          None \<Rightarrow> Inl (failed ''unavailable'')
        | Some target_stat \<Rightarrow>
            if \<not> is_file w target \<or> \<not> access_x w invoked then Inl (failed ''not_executable'')
            else if inside (ROOT w) target \<or> inside (ROOT w) invoked then Inl (failed ''in_repository'')
            else if \<not> directory_chain_safe w invoked \<or> \<not> directory_chain_safe w target
            then Inl (failed ''directory_unsafe'')
            else if \<not> S_ISREG (st_mode target_stat) \<or> \<not> any_exec (st_mode target_stat)
            then Inl (failed ''type_invalid'')
            else case open_path w target of
              Inl n \<Rightarrow> Inl (OSError n)
            | Inr (handle, pinned) \<Rightarrow>
                if \<not> same_inode_state pinned target_stat then Inl (failed ''changed'')
                else Inr (pin nm invoked target handle pinned)))"

definition trusted_executable_optional :: "exec_world \<Rightarrow> string \<Rightarrow> (trusted_executable option) result" where
  "trusted_executable_optional w nm = (case trusted_executable w nm None of
     Inr t \<Rightarrow> Inr (Some t)
   | Inl (SystemExit _) \<Rightarrow> Inr None
   | Inl (SystemExitFor _ _) \<Rightarrow> Inr None
   | Inl e \<Rightarrow> Inl e)"

definition same_trusted_inode :: "trusted_executable \<Rightarrow> trusted_executable \<Rightarrow> bool" where
  "same_trusted_inode l r \<longleftrightarrow> tx_device l = tx_device r \<and> tx_inode l = tx_inode r"

text \<open>The answer of \<open>os.fstat(trusted.fd)\<close> at the time of the call.\<close>

definition trusted_executable_matches :: "trusted_executable \<Rightarrow> inode_info option \<Rightarrow> bool" where
  "trusted_executable_matches t now = (case now of
     None \<Rightarrow> False
   | Some i \<Rightarrow> S_ISREG (st_mode i) \<and> any_exec (st_mode i) \<and> st_dev i = tx_device t \<and> st_ino i = tx_inode t \<and>
       st_size i = tx_size t \<and> st_mtime_ns i = tx_mtime_ns t \<and> S_IMODE (st_mode i) = tx_mode t)"

section \<open>Running\<close>

text \<open>
  What one process does: the descriptor before it is started and after it ended, the chunks that
  its standard output delivers, its standard error and its return code.
\<close>

record process =
  fd_before :: "inode_info option"
  stdout_chunks :: "bytes list"
  stderr_bytes :: bytes
  returncode :: int
  fd_after :: "inode_info option"

type_synonym processes = "trusted_executable \<Rightarrow> pystr list \<Rightarrow> process"

definition changed :: "trusted_executable \<Rightarrow> exn" where
  "changed t = SystemExitFor ''moriarty_trusted_executable_changed:'' (lit (tx_name t))"

definition trusted_run :: "processes \<Rightarrow> trusted_executable \<Rightarrow> pystr list \<Rightarrow> (int \<times> bytes \<times> bytes) result" where
  "trusted_run ps t args =
     (let p = ps t args in
      if \<not> trusted_executable_matches t (fd_before p) then Inl (changed t)
      else Inr (returncode p, concat (stdout_chunks p), stderr_bytes p))"

text \<open>\<open>process.stdout.read(n)\<close> on an unbuffered pipe returns at most n of the bytes that are there.\<close>

fun read_pipe :: "nat \<Rightarrow> bytes list \<Rightarrow> bytes \<times> bytes list" where
  "read_pipe n [] = ([], [])"
| "read_pipe n (c # cs) =
     (if c = [] then read_pipe n cs else (take n c, if length c \<le> n then cs else drop n c # cs))"

lemma read_pipe_concat: "fst (read_pipe n cs) @ concat (snd (read_pipe n cs)) = concat cs"
  by (induction cs) auto

lemma read_pipe_length: "length (fst (read_pipe n cs)) \<le> n"
  by (induction cs) auto

lemma read_pipe_end: "0 < n \<Longrightarrow> fst (read_pipe n cs) = [] \<longleftrightarrow> concat cs = []"
  by (induction cs) auto

function capture_loop :: "string \<Rightarrow> nat \<Rightarrow> bytes \<Rightarrow> bytes list \<Rightarrow> bytes result" where
  "capture_loop overflow_error limit got cs =
     (case read_pipe (min 65536 (limit - length got + 1)) cs of (chunk, rest) \<Rightarrow>
        if chunk = [] then Inr got
        else if limit < length got + length chunk then Inl (SystemExit overflow_error)
        else capture_loop overflow_error limit (got @ chunk) rest)"
  by pat_completeness auto
termination
proof (relation "measure (\<lambda>(e, limit, got, cs). length (concat cs))", goal_cases)
  case (2 e limit got cs chunk rest)
  then have "chunk @ concat rest = concat cs"
    using read_pipe_concat [of "min 65536 (limit - length got + 1)" cs] by (metis fst_conv snd_conv)
  then have "length chunk + length (concat rest) = length (concat cs)" by (metis length_append)
  with 2 show ?case by (cases chunk) auto
qed simp

declare capture_loop.simps [simp del]

definition trusted_capture_bounded ::
  "processes \<Rightarrow> trusted_executable \<Rightarrow> pystr list \<Rightarrow> int \<Rightarrow> string \<Rightarrow> string \<Rightarrow> bytes result" where
  "trusted_capture_bounded ps t args limit overflow_error command_error =
     (let p = ps t args in
      if limit < 0 \<or> \<not> trusted_executable_matches t (fd_before p)
      then Inl (SystemExitFor ''moriarty_trusted_capture_invalid:'' (lit (tx_name t)))
      else bindE (capture_loop overflow_error (nat limit) [] (stdout_chunks p)) (\<lambda>got.
        if returncode p \<noteq> 0 then Inl (SystemExit command_error)
        else if \<not> trusted_executable_matches t (fd_after p) then Inl (changed t)
        else Inr got))"

lemma capture_loop_exact:
  "length got \<le> limit \<Longrightarrow> capture_loop e limit got cs =
     (if length got + length (concat cs) \<le> limit then Inr (got @ concat cs) else Inl (SystemExit e))"
proof (induction e limit got cs rule: capture_loop.induct)
  case (1 e limit got cs)
  let ?n = "min 65536 (limit - length got + 1)"
  obtain chunk rest where r: "read_pipe ?n cs = (chunk, rest)" by (cases "read_pipe ?n cs")
  have whole: "concat cs = chunk @ concat rest" using read_pipe_concat [of ?n cs] r by simp
  show ?case
  proof (cases "chunk = []")
    case True
    then have "concat cs = []" using read_pipe_end [of ?n cs] r by simp
    then show ?thesis using True r 1(2)
      by (simp add: capture_loop.simps [of e limit got cs] del: concat_eq_Nil_conv)
  next
    case False
    show ?thesis
    proof (cases "limit < length got + length chunk")
      case True
      then show ?thesis using r False whole by (simp add: capture_loop.simps [of e limit got cs])
    next
      case fits: False
      then show ?thesis using "1.IH" [OF r [symmetric] False fits] r False whole fits
        by (simp add: capture_loop.simps [of e limit got cs] add.assoc)
    qed
  qed
qed

section \<open>The Rust toolchain\<close>

definition TOOLCHAIN_RE :: rx where
  "TOOLCHAIN_RE = Rep (Cls ([rng CHR ''A'' CHR ''Z'', rng CHR ''a'' CHR ''z'', rng CHR ''0'' CHR ''9''] @ chars ''._+-'')) 1 128"

text \<open>\<open>completed.stdout.decode("utf-8", errors="strict")\<close> with the handler's own exception.\<close>

definition decode_or :: "exn \<Rightarrow> bytes \<Rightarrow> pystr result" where
  "decode_or e b = (case utf8_decode b of Inl _ \<Rightarrow> Inl e | Inr s \<Rightarrow> Inr s)"

definition rustup_active_toolchain :: "processes \<Rightarrow> trusted_executable \<Rightarrow> pystr result" where
  "rustup_active_toolchain ps rustup =
     bindE (trusted_run ps rustup [lit ''show'', lit ''active-toolchain'']) (\<lambda>(status, out, err).
     if status \<noteq> 0 then Inl (SystemExit ''moriarty_rustup_active_toolchain_unavailable'')
     else bindE (decode_or (SystemExit ''moriarty_rustup_active_toolchain_invalid'') out) (\<lambda>s.
       case split_ws (strip s) of
         [] \<Rightarrow> Inl (SystemExit ''moriarty_rustup_active_toolchain_invalid'')
       | toolchain # _ \<Rightarrow>
           if rx_match TOOLCHAIN_RE toolchain then Inr toolchain
           else Inl (SystemExit ''moriarty_rustup_active_toolchain_invalid'')))"

text \<open>\<open>Path(text).resolve(strict=True)\<close> of a text that a tool printed; None is an OSError.\<close>

type_synonym resolve_text = "pystr \<Rightarrow> path option"

definition rustup_which ::
  "exec_world \<Rightarrow> resolve_text \<Rightarrow> processes \<Rightarrow> trusted_executable \<Rightarrow> pystr \<Rightarrow> string \<Rightarrow> trusted_executable result" where
  "rustup_which w rt ps rustup toolchain component =
     bindE (trusted_run ps rustup [lit ''which'', lit ''--toolchain'', toolchain, lit component]) (\<lambda>(status, out, err).
     if status \<noteq> 0 then Inl (SystemExitFor ''moriarty_rustup_component_unavailable:'' (lit component))
     else bindE (decode_or (SystemExitFor ''moriarty_rustup_component_path_invalid:'' (lit component)) out) (\<lambda>s.
     case resolve_strict w (REAL_HOME w @ [lit ''.rustup'', lit ''toolchains'']) of
       None \<Rightarrow> Inl (OSError 2)
     | Some toolchain_root \<Rightarrow> (case rt (strip s) of
         None \<Rightarrow> Inl (OSError 2)
       | Some resolved \<Rightarrow>
           if \<not> strictly_inside toolchain_root resolved
           then Inl (SystemExitFor ''moriarty_rustup_component_outside_toolchains:'' (lit component))
           else trusted_exact_path w component resolved)))"

text \<open>\<open>is_dir\<close> answers for the directories below the sysroot.\<close>

definition direct_toolchain_root ::
  "exec_world \<Rightarrow> resolve_text \<Rightarrow> (path \<Rightarrow> bool) \<Rightarrow> processes \<Rightarrow> trusted_executable \<Rightarrow> trusted_executable \<Rightarrow> path result" where
  "direct_toolchain_root w rt is_dir ps cargo rustc =
     bindE (trusted_run ps rustc [lit ''--print'', lit ''sysroot'']) (\<lambda>(status, out, err).
     if status \<noteq> 0 then Inl (SystemExit ''moriarty_direct_rustc_sysroot_unavailable'')
     else bindE (decode_or (SystemExit ''moriarty_direct_rustc_sysroot_invalid'') out) (\<lambda>s.
     case rt (strip s) of
       None \<Rightarrow> Inl (SystemExit ''moriarty_direct_rustc_sysroot_invalid'')
     | Some sysroot \<Rightarrow>
         let expected_bin = sysroot @ [lit ''bin'']; system_roots = [[], [lit ''usr''], [lit ''usr'', lit ''local'']] in
         if sysroot \<in> set system_roots \<or> butlast (executable cargo) \<noteq> expected_bin
            \<or> butlast (executable rustc) \<noteq> expected_bin
            \<or> \<not> is_dir (sysroot @ [lit ''lib'', lit ''rustlib''])
            \<or> \<not> is_file w (expected_bin @ [lit ''rustdoc''])
         then Inl (SystemExit ''moriarty_direct_toolchain_not_self_contained'')
         else Inr sysroot))"

record rust_toolchain =
  CARGO_TRUSTED :: trusted_executable
  RUSTC_TRUSTED :: trusted_executable
  RUSTUP_DISCOVERY_USED :: bool
  RUST_TOOLCHAIN_ID :: "pystr option"

text \<open>
  The module level code: with \<open>MORIARTY_RUST_TOOLCHAIN_ROOT\<close> (a nonempty text) the tools of that
  snapshot, otherwise the tools on the fixed paths, which may be proxies of rustup.
\<close>

definition snapshot_toolchain ::
  "exec_world \<Rightarrow> resolve_text \<Rightarrow> (path \<Rightarrow> bool) \<Rightarrow> pystr \<Rightarrow> rust_toolchain result" where
  "snapshot_toolchain w rt is_dir snapshot_value = (case rt snapshot_value of
     None \<Rightarrow> Inl (SystemExit ''moriarty_ci_rust_snapshot_unavailable'')
   | Some snap \<Rightarrow>
       if \<not> is_dir snap \<or> inside (ROOT w) snap then Inl (SystemExit ''moriarty_ci_rust_snapshot_invalid'')
       else bindE (trusted_exact_path w ''cargo'' (snap @ [lit ''bin'', lit ''cargo''])) (\<lambda>cargo.
            bindE (trusted_exact_path w ''rustc'' (snap @ [lit ''bin'', lit ''rustc''])) (\<lambda>rustc.
            Inr \<lparr>CARGO_TRUSTED = cargo, RUSTC_TRUSTED = rustc, RUSTUP_DISCOVERY_USED = False,
                 RUST_TOOLCHAIN_ID = Some (lit ''ci-snapshot'')\<rparr>)))"

definition rustup_toolchain ::
  "exec_world \<Rightarrow> resolve_text \<Rightarrow> processes \<Rightarrow> trusted_executable \<Rightarrow> rust_toolchain result" where
  "rustup_toolchain w rt ps rustup =
     bindE (rustup_active_toolchain ps rustup) (\<lambda>toolchain.
     bindE (rustup_which w rt ps rustup toolchain ''cargo'') (\<lambda>cargo.
     bindE (rustup_which w rt ps rustup toolchain ''rustc'') (\<lambda>rustc.
       if same_trusted_inode cargo rustup \<or> same_trusted_inode rustc rustup
       then Inl (SystemExit ''moriarty_rustup_concrete_toolchain_not_pinned'')
       else if butlast (executable cargo) \<noteq> butlast (executable rustc)
       then Inl (SystemExit ''moriarty_rustup_toolchain_component_mismatch'')
       else Inr \<lparr>CARGO_TRUSTED = cargo, RUSTC_TRUSTED = rustc, RUSTUP_DISCOVERY_USED = True,
                 RUST_TOOLCHAIN_ID = Some toolchain\<rparr>)))"

definition discovered_toolchain :: "exec_world \<Rightarrow> resolve_text \<Rightarrow> processes \<Rightarrow> rust_toolchain result" where
  "discovered_toolchain w rt ps =
     bindE (trusted_executable w ''cargo'' None) (\<lambda>cargo_entry.
     bindE (trusted_executable w ''rustc'' None) (\<lambda>rustc_entry.
     bindE (trusted_executable_optional w ''rustup'') (\<lambda>found.
       let direct = Inr \<lparr>CARGO_TRUSTED = cargo_entry, RUSTC_TRUSTED = rustc_entry,
                         RUSTUP_DISCOVERY_USED = False, RUST_TOOLCHAIN_ID = None\<rparr> in
       case found of
         None \<Rightarrow> direct
       | Some rustup \<Rightarrow>
           if same_trusted_inode cargo_entry rustup \<or> same_trusted_inode rustc_entry rustup
           then if \<not> (same_trusted_inode cargo_entry rustup \<and> same_trusted_inode rustc_entry rustup)
                then Inl (SystemExit ''moriarty_mixed_rustup_toolchain_entrypoints'')
                else rustup_toolchain w rt ps rustup
           else direct)))"

definition rust_toolchain ::
  "exec_world \<Rightarrow> resolve_text \<Rightarrow> (path \<Rightarrow> bool) \<Rightarrow> processes \<Rightarrow> pystr option \<Rightarrow> rust_toolchain result" where
  "rust_toolchain w rt is_dir ps snapshot_value =
     (if snapshot_value \<noteq> None \<and> snapshot_value \<noteq> Some []
      then snapshot_toolchain w rt is_dir (the snapshot_value)
      else discovered_toolchain w rt ps)"

definition trusted_version :: "processes \<Rightarrow> trusted_executable \<Rightarrow> pystr result" where
  "trusted_version ps t =
     bindE (trusted_run ps t [lit ''--version'']) (\<lambda>(status, out, err).
     if status \<noteq> 0 then Inl (SystemExitFor ''moriarty_toolchain_version_unavailable:'' (lit (tx_name t)))
     else bindE (decode_or (SystemExitFor ''moriarty_toolchain_version_invalid:'' (lit (tx_name t)))
                  (if out \<noteq> [] then out else err)) (\<lambda>s. Inr (strip s)))"

text \<open>The expected versions of the environment, in the order python, rustc, cargo.\<close>

definition require_expected_toolchain_versions ::
  "processes \<Rightarrow> (trusted_executable \<times> pystr option) list \<Rightarrow> unit result" where
  "require_expected_toolchain_versions ps bindings =
     eachE (\<lambda>(t, expected). case expected of
         None \<Rightarrow> Inr ()
       | Some v \<Rightarrow> bindE (trusted_version ps t) (\<lambda>actual.
           guardE (actual = v) (SystemExitFor ''moriarty_toolchain_version_drift:'' (lit (tx_name t)))))
       bindings"

section \<open>Lemmas\<close>

lemma take_of_butlast: "k \<le> length p - 1 \<Longrightarrow> take k (butlast p) = take k p"
  by (simp add: butlast_conv_take take_take min.absorb1)

lemma directory_chain_from_iff:
  "directory_chain_from w p \<longleftrightarrow>
     (\<forall>k \<le> length p. \<exists>i. stat_path w (take k p) = Some i \<and> \<not> others_write (st_mode i))"
proof (induction w p rule: directory_chain_from.induct)
  case (1 w p)
  show ?case
  proof (cases "p = []")
    case True
    then show ?thesis by (simp add: directory_chain_from.simps [of w "[]"] split: option.splits)
  next
    case False
    have bounds: "(\<forall>k \<le> length p. Q k) \<longleftrightarrow> Q (length p) \<and> (\<forall>k \<le> length (butlast p). Q k)" for Q
      using False by (cases p rule: rev_cases) (auto simp: le_Suc_eq)
    have takes: "k \<le> length (butlast p) \<Longrightarrow> take k (butlast p) = take k p" for k
      by (simp add: take_of_butlast)
    show ?thesis
      using 1 False
      by (auto simp: directory_chain_from.simps [of w p] bounds takes split: option.splits)
  qed
qed

text \<open>What every pinned executable satisfies.\<close>

definition safely_pinned :: "exec_world \<Rightarrow> trusted_executable \<Rightarrow> bool" where
  "safely_pinned w t \<longleftrightarrow>
     resolve_strict w (invocation t) = Some (executable t) \<and>
     \<not> inside (ROOT w) (invocation t) \<and> \<not> inside (ROOT w) (executable t) \<and>
     (\<forall>p \<in> {invocation t, executable t}. \<forall>k \<le> length p - 1.
        \<exists>i. stat_path w (take k p) = Some i \<and> \<not> others_write (st_mode i)) \<and>
     (\<exists>i h pinned. stat_path w (executable t) = Some i \<and> S_ISREG (st_mode i) \<and> any_exec (st_mode i) \<and>
        open_path w (executable t) = Inr (h, pinned) \<and> same_inode_state pinned i \<and>
        t = pin (tx_name t) (invocation t) (executable t) h pinned)"

lemma chain_takes:
  "(\<forall>k \<le> length p - Suc 0. \<exists>i. stat_path w (take k p) = Some i \<and> \<not> others_write (st_mode i))
     \<longleftrightarrow> directory_chain_safe w p"
  using take_of_butlast [of _ p] by (force simp: directory_chain_safe_def directory_chain_from_iff)

lemma pin_simps [simp]:
  "tx_name (pin nm v e h i) = nm" "invocation (pin nm v e h i) = v" "executable (pin nm v e h i) = e"
  "tx_fd (pin nm v e h i) = h"
  by (simp_all add: pin_def)

lemma try_candidate_safe:
  "try_candidate w nm p = Some t \<Longrightarrow> safely_pinned w t \<and> tx_name t = nm \<and> invocation t = p"
  by (auto simp: try_candidate_def safely_pinned_def chain_takes split: option.splits if_splits sum.splits)

lemma trusted_exact_path_safe:
  "trusted_exact_path w nm p = Inr t \<Longrightarrow> safely_pinned w t \<and> tx_name t = nm \<and> invocation t = p"
  by (auto simp: trusted_exact_path_def Let_def safely_pinned_def chain_takes split: option.splits if_splits sum.splits)

lemma first_candidate_Inr:
  "first_candidate w nm ps = Inr t \<longleftrightarrow>
     (\<exists>n < length ps. try_candidate w nm (ps ! n) = Some t \<and> (\<forall>m < n. try_candidate w nm (ps ! m) = None))"
proof (induction ps)
  case (Cons p ps)
  show ?case
    unfolding length_Cons Ex_less_Suc2 using Cons
    by (cases "try_candidate w nm p") (auto simp: All_less_Suc2)
qed simp

lemma trusted_executable_safe:
  "trusted_executable w nm preferred = Inr t \<Longrightarrow> safely_pinned w t \<and> tx_name t = nm"
  by (auto simp: trusted_executable_def first_candidate_Inr dest: try_candidate_safe)

lemma rustup_which_safe:
  assumes "rustup_which w rt ps rustup toolchain component = Inr t"
  shows "safely_pinned w t \<and> tx_name t = component \<and>
    (\<exists>top. resolve_strict w (REAL_HOME w @ [lit ''.rustup'', lit ''toolchains'']) = Some top \<and>
       strictly_inside top (invocation t))"
  using assms
  by (auto simp: rustup_which_def bindE_eq_Inr split: prod.splits if_splits option.splits
      dest!: trusted_exact_path_safe)

text \<open>A bounded capture returns exactly the whole output of a successful, unchanged process.\<close>

lemma trusted_capture_exact:
  "trusted_capture_bounded ps t args limit overflow command = Inr b \<longleftrightarrow>
     0 \<le> limit \<and> trusted_executable_matches t (fd_before (ps t args)) \<and>
     b = concat (stdout_chunks (ps t args)) \<and> int (length b) \<le> limit \<and>
     returncode (ps t args) = 0 \<and> trusted_executable_matches t (fd_after (ps t args))"
  by (auto simp: trusted_capture_bounded_def Let_def bindE_eq_Inr capture_loop_exact split: if_splits)

section \<open>Properties\<close>

text \<open>C15: Whichever way the Rust toolchain is chosen, cargo and rustc are pinned safely: their invocation
  path and the file it resolves to lie outside the repository, no directory above either is writable
  by group or others, the file is a regular executable, and the descriptor that is kept open is the
  inode that was examined. When rustup chose them, both are concrete tools of one directory below the
  toolchains root and neither is the rustup proxy.\<close>

theorem rust_toolchain_pinned:
  assumes "rust_toolchain w rt is_dir ps snapshot_value = Inr r"
  shows "safely_pinned w (CARGO_TRUSTED r) \<and> safely_pinned w (RUSTC_TRUSTED r) \<and>
    tx_name (CARGO_TRUSTED r) = ''cargo'' \<and> tx_name (RUSTC_TRUSTED r) = ''rustc'' \<and>
    (RUSTUP_DISCOVERY_USED r \<longrightarrow>
       butlast (executable (CARGO_TRUSTED r)) = butlast (executable (RUSTC_TRUSTED r)) \<and>
       (\<exists>top. resolve_strict w (REAL_HOME w @ [lit ''.rustup'', lit ''toolchains'']) = Some top \<and>
          strictly_inside top (invocation (CARGO_TRUSTED r)) \<and> strictly_inside top (invocation (RUSTC_TRUSTED r))) \<and>
       (\<exists>rustup. trusted_executable w ''rustup'' None = Inr rustup \<and>
          \<not> same_trusted_inode (CARGO_TRUSTED r) rustup \<and> \<not> same_trusted_inode (RUSTC_TRUSTED r) rustup))"
proof (cases "snapshot_value \<noteq> None \<and> snapshot_value \<noteq> Some []")
  case True
  with assms have "snapshot_toolchain w rt is_dir (the snapshot_value) = Inr r" by (simp add: rust_toolchain_def)
  then show ?thesis
    by (auto simp: snapshot_toolchain_def bindE_eq_Inr split: option.splits if_splits
        dest!: trusted_exact_path_safe)
next
  case False
  with assms have d: "discovered_toolchain w rt ps = Inr r" by (auto simp: rust_toolchain_def)
  then obtain cargo rustc found where entry: "trusted_executable w ''cargo'' None = Inr cargo"
    "trusted_executable w ''rustc'' None = Inr rustc" "trusted_executable_optional w ''rustup'' = Inr found"
    by (auto simp: discovered_toolchain_def bindE_eq_Inr)
  have "r = \<lparr>CARGO_TRUSTED = cargo, RUSTC_TRUSTED = rustc, RUSTUP_DISCOVERY_USED = False, RUST_TOOLCHAIN_ID = None\<rparr>
      \<or> (\<exists>rustup. found = Some rustup \<and> rustup_toolchain w rt ps rustup = Inr r)"
    using d unfolding discovered_toolchain_def entry bindE_simps Let_def
    by (cases found) (simp_all split: if_splits)
  then consider (direct) "r = \<lparr>CARGO_TRUSTED = cargo, RUSTC_TRUSTED = rustc, RUSTUP_DISCOVERY_USED = False,
      RUST_TOOLCHAIN_ID = None\<rparr>"
    | (rustup) rustup where "found = Some rustup" "rustup_toolchain w rt ps rustup = Inr r"
    by blast
  then show ?thesis
  proof cases
    case direct
    then show ?thesis using trusted_executable_safe [OF entry(1)] trusted_executable_safe [OF entry(2)] by simp
  next
    case rustup
    have found: "trusted_executable w ''rustup'' None = Inr rustup"
      using entry(3) rustup(1) by (auto simp: trusted_executable_optional_def split: sum.splits exn.splits)
    obtain toolchain c rc where parts: "rustup_which w rt ps rustup toolchain ''cargo'' = Inr c"
      "rustup_which w rt ps rustup toolchain ''rustc'' = Inr rc"
      "\<not> same_trusted_inode c rustup" "\<not> same_trusted_inode rc rustup"
      "butlast (executable c) = butlast (executable rc)" "CARGO_TRUSTED r = c" "RUSTC_TRUSTED r = rc"
      using rustup(2) by (auto simp: rustup_toolchain_def bindE_eq_Inr split: if_splits)
    from rustup_which_safe [OF parts(1)] rustup_which_safe [OF parts(2)] show ?thesis
      using parts(3-7) found by auto
  qed
qed

text \<open>A world whose cargo and rustc in \<open>/usr/bin\<close> are proxies of rustup.\<close>

definition demo_inode :: "nat \<Rightarrow> inode_info" where
  "demo_inode n = \<lparr>st_dev = 1, st_ino = n, st_size = 100, st_mtime_ns = 7, st_mode = 0x81ED\<rparr>"

definition demo_dir :: inode_info where
  "demo_dir = \<lparr>st_dev = 1, st_ino = 2, st_size = 0, st_mtime_ns = 0, st_mode = 0x41ED\<rparr>"

definition demo_files :: "(path \<times> nat) list" where
  "demo_files =
     [([lit ''usr'', lit ''bin'', lit ''cargo''], 10), ([lit ''usr'', lit ''bin'', lit ''rustc''], 10),
      ([lit ''usr'', lit ''bin'', lit ''rustup''], 10),
      ([lit ''h'', lit ''.rustup'', lit ''toolchains'', lit ''stable'', lit ''bin'', lit ''cargo''], 11),
      ([lit ''h'', lit ''.rustup'', lit ''toolchains'', lit ''stable'', lit ''bin'', lit ''rustc''], 12)]"

definition demo_world :: exec_world where
  "demo_world =
     \<lparr>ROOT = [lit ''work''], REAL_HOME = [lit ''h''],
      resolve_strict = (\<lambda>p. if lookup demo_files p \<noteq> None \<or> length p \<le> 3 \<and> hd (p @ [[]]) = lit ''h'' then Some p else None),
      stat_path = (\<lambda>p. case lookup demo_files p of Some n \<Rightarrow> Some (demo_inode n) | None \<Rightarrow> Some demo_dir),
      is_file = (\<lambda>p. lookup demo_files p \<noteq> None), access_x = (\<lambda>p. True),
      open_path = (\<lambda>p. case lookup demo_files p of Some n \<Rightarrow> Inr (n, demo_inode n) | None \<Rightarrow> Inl 2)\<rparr>"

definition demo_processes :: processes where
  "demo_processes t args =
     \<lparr>fd_before = Some (demo_inode (tx_inode t)),
      stdout_chunks = (if args = [lit ''show'', lit ''active-toolchain'']
        then [map word_of_nat (lit ''stable''), map word_of_nat (lit '' (default)'')]
        else [map word_of_nat (last args)]),
      stderr_bytes = [], returncode = 0, fd_after = Some (demo_inode (tx_inode t))\<rparr>"

definition demo_resolve_text :: resolve_text where
  "demo_resolve_text s = Some [lit ''h'', lit ''.rustup'', lit ''toolchains'', lit ''stable'', lit ''bin'', s]"

definition demo_toolchain :: rust_toolchain where
  "demo_toolchain = (case rust_toolchain demo_world demo_resolve_text (\<lambda>_. True) demo_processes None of
     Inr r \<Rightarrow> r | Inl _ \<Rightarrow> undefined)"

lemma demo_toolchain_chosen:
  "rust_toolchain demo_world demo_resolve_text (\<lambda>_. True) demo_processes None = Inr demo_toolchain"
  unfolding demo_toolchain_def by code_simp

theorem rust_toolchain_pinned_witness:
  "safely_pinned demo_world (CARGO_TRUSTED demo_toolchain) \<and> RUSTUP_DISCOVERY_USED demo_toolchain"
proof -
  have "RUSTUP_DISCOVERY_USED demo_toolchain" by code_simp
  with rust_toolchain_pinned [OF demo_toolchain_chosen] show ?thesis by blast
qed

end
