(* ===== verification/Git_Objects.thy ===== *)
theory Git_Objects
  imports Content_Identity Trusted_Exec
begin

text \<open>
  Reading a commit from the object database without trusting it: the bootstrap reader
  (\<open>_bootstrap_git_object\<close>, \<open>_bootstrap_tree_entry\<close>, \<open>_bootstrap_verified_blob\<close>,
  \<open>_load_verified_source_module\<close>) and the bounded reader (\<open>_verified_git_object\<close>,
  \<open>_verified_commit_files\<close>) of \<open>tools/run_moriarty.py\<close>. Both rehash what \<open>git cat-file\<close> prints; the
  locale \<open>object_reader\<close> states just that and proves that two databases that answer the same
  identity agree, or exhibit a SHA-1 collision. SHA-1 and git are parameters.
\<close>

section \<open>Objects\<close>

definition TARGET_RE :: rx where
  "TARGET_RE = Rep (Cls [rng CHR ''0'' CHR ''9'', rng CHR ''a'' CHR ''f'']) 40 40"

definition object_header :: "string \<Rightarrow> nat \<Rightarrow> bytes" where
  "object_header kind n = utf8_bytes (lit kind @ [32] @ digits n @ [0])"

definition git_object_id :: "(bytes \<Rightarrow> bytes) \<Rightarrow> string \<Rightarrow> bytes \<Rightarrow> pystr" where
  "git_object_id sha1 kind payload = hexdigest (sha1 (object_header kind (length payload) @ payload))"

section \<open>The bootstrap reader\<close>

text \<open>
  \<open>_bootstrap_git\<close>: the descriptor of git that was opened at start up must still be the inode that
  was examined; \<open>now\<close> is the answer of \<open>os.fstat\<close>, \<open>answer\<close> what git then prints and returns.
\<close>

record boot_git =
  git_info :: inode_info
  git_now :: "pystr list \<Rightarrow> inode_info option"
  git_answer :: "pystr list \<Rightarrow> int \<times> bytes"

definition bootstrap_git :: "boot_git \<Rightarrow> pystr list \<Rightarrow> (int \<times> bytes) result" where
  "bootstrap_git g args = (case git_now g args of
     None \<Rightarrow> Inl (SystemExit ''moriarty_bootstrap_system_git_unavailable'')
   | Some current \<Rightarrow>
       if \<not> same_inode_state current (git_info g)
       then Inl (SystemExit ''moriarty_bootstrap_system_git_changed'')
       else Inr (git_answer g args))"

definition bootstrap_git_object :: "(bytes \<Rightarrow> bytes) \<Rightarrow> boot_git \<Rightarrow> string \<Rightarrow> pystr \<Rightarrow> bytes result" where
  "bootstrap_git_object sha1 g kind oid =
     (if \<not> rx_match TARGET_RE oid then Inl (SystemExit ''moriarty_bootstrap_object_id_invalid'')
      else bindE (bootstrap_git g [lit ''cat-file'', lit kind, oid]) (\<lambda>(status, payload).
        if status \<noteq> 0 then Inl (SystemExit (''moriarty_bootstrap_'' @ kind @ ''_read_failed''))
        else if git_object_id sha1 kind payload \<noteq> oid
        then Inl (SystemExit (''moriarty_bootstrap_'' @ kind @ ''_hash_mismatch''))
        else Inr payload))"

text \<open>The command line: every \<open>--target-commit VALUE\<close> and \<open>--target-commit=VALUE\<close>.\<close>

fun target_arguments :: "pystr list \<Rightarrow> (pystr list) result" where
  "target_arguments [] = Inr []"
| "target_arguments (a # args) =
     (if a = lit ''--target-commit''
      then (case args of
              [] \<Rightarrow> Inl (SystemExit ''moriarty_bootstrap_target_missing'')
            | v # rest \<Rightarrow>
                if starts_with v (lit ''--'') then Inl (SystemExit ''moriarty_bootstrap_target_missing'')
                else bindE (target_arguments rest) (\<lambda>vs. Inr (v # vs)))
      else if starts_with a (lit ''--target-commit='')
      then bindE (target_arguments args) (\<lambda>vs. Inr (drop 16 a # vs))
      else target_arguments args)"

definition ascii_decode :: "bytes \<Rightarrow> pystr result" where
  "ascii_decode b = (if \<forall>x \<in> set b. unat x < 128 then Inr (map unat b) else Inl UnicodeDecodeError)"

definition bootstrap_target :: "boot_git \<Rightarrow> pystr list \<Rightarrow> pystr result" where
  "bootstrap_target g args =
     bindE (target_arguments args) (\<lambda>values.
       if 1 < length values then Inl (SystemExit ''moriarty_bootstrap_target_duplicate'')
       else bindE (case values of
           v # _ \<Rightarrow> Inr v
         | [] \<Rightarrow> bindE (bootstrap_git g [lit ''rev-parse'', lit ''HEAD'']) (\<lambda>(status, out).
             if status \<noteq> 0 then Inl (SystemExit ''moriarty_bootstrap_target_unavailable'')
             else case ascii_decode out of
               Inl _ \<Rightarrow> Inl (SystemExit ''moriarty_bootstrap_target_invalid'')
             | Inr s \<Rightarrow> Inr (strip s)))
         (\<lambda>target. if rx_match TARGET_RE target then Inr target
                   else Inl (SystemExit ''moriarty_bootstrap_target_invalid'')))"

text \<open>
  One record of a tree object at a cursor, as both readers split it off: \<open>bytes.find\<close> of the blank
  and of the NUL, the 20 octets of the identity and the next cursor; None when it is malformed.
\<close>

definition byte_find :: "8 word \<Rightarrow> bytes \<Rightarrow> nat \<Rightarrow> nat option" where
  "byte_find b payload start =
     (if b \<in> set (drop start payload)
      then Some (start + length (takeWhile (\<lambda>x. x \<noteq> b) (drop start payload))) else None)"

definition slice :: "'a list \<Rightarrow> nat \<Rightarrow> nat \<Rightarrow> 'a list" where
  "slice xs i j = take (j - i) (drop i xs)"

definition tree_record :: "bytes \<Rightarrow> nat \<Rightarrow> (bytes \<times> bytes \<times> bytes \<times> nat) option" where
  "tree_record payload cursor = (case byte_find 0x20 payload cursor of
     None \<Rightarrow> None
   | Some space \<Rightarrow> if space \<le> cursor then None
     else (case byte_find 0 payload (space + 1) of
        None \<Rightarrow> None
      | Some nul \<Rightarrow> if nul \<le> space \<or> length payload < nul + 21 then None
        else Some (slice payload cursor space, slice payload (space + 1) nul,
                   slice payload (nul + 1) (nul + 21), nul + 21)))"

lemma tree_record_advances:
  "tree_record payload cursor = Some (m, n, i, next) \<Longrightarrow> cursor < next \<and> next \<le> length payload"
  by (auto simp: tree_record_def split: option.splits if_splits)

function bootstrap_tree_from :: "bytes \<Rightarrow> pystr \<Rightarrow> nat \<Rightarrow> (pystr \<times> pystr) result" where
  "bootstrap_tree_from payload wanted cursor =
     (if length payload \<le> cursor then Inl (SystemExitFor ''moriarty_bootstrap_path_missing:'' wanted)
      else case tree_record payload cursor of
        None \<Rightarrow> Inl (SystemExit ''moriarty_bootstrap_tree_malformed'')
      | Some (mode_bytes, name_bytes, id_bytes, next) \<Rightarrow>
          bindE (ascii_decode mode_bytes) (\<lambda>mode.
          bindE (utf8_decode name_bytes) (\<lambda>name.
            if name = wanted then Inr (mode, hexdigest id_bytes)
            else bootstrap_tree_from payload wanted next)))"
  by pat_completeness auto
termination
  by (relation "measure (\<lambda>(payload, wanted, cursor). length payload - cursor)")
    (auto dest: tree_record_advances)

declare bootstrap_tree_from.simps [simp del]

definition bootstrap_tree_entry :: "bytes \<Rightarrow> pystr \<Rightarrow> (pystr \<times> pystr) result" where
  "bootstrap_tree_entry payload wanted = bootstrap_tree_from payload wanted 0"

text \<open>\<open>commit_payload.split(b"\n", 1)[0]\<close>.\<close>

definition first_line :: "bytes \<Rightarrow> bytes" where
  "first_line payload = takeWhile (\<lambda>x. x \<noteq> 10) payload"

text \<open>The reader is a parameter of the walk, so that it can be any reader of objects.\<close>

type_synonym reader = "string \<Rightarrow> pystr \<Rightarrow> bytes result"

fun bootstrap_walk :: "reader \<Rightarrow> pystr \<Rightarrow> pystr list \<Rightarrow> bytes result" where
  "bootstrap_walk get tree_id [] = Inl (SystemExit ''moriarty_bootstrap_path_invalid'')"
| "bootstrap_walk get tree_id (part # parts) =
     bindE (get ''tree'' tree_id) (\<lambda>tree_payload.
     bindE (bootstrap_tree_entry tree_payload part) (\<lambda>(mode, oid).
       if parts \<noteq> []
       then (if mode \<noteq> lit ''40000'' then Inl (SystemExit ''moriarty_bootstrap_path_not_tree'')
             else bootstrap_walk get oid parts)
       else if mode \<noteq> lit ''100644'' \<and> mode \<noteq> lit ''100755''
       then Inl (SystemExit ''moriarty_bootstrap_source_not_regular'')
       else get ''blob'' oid))"

definition bootstrap_verified_blob :: "reader \<Rightarrow> pystr \<Rightarrow> pystr \<Rightarrow> bytes result" where
  "bootstrap_verified_blob get target relative =
     bindE (get ''commit'' target) (\<lambda>commit_payload.
       let line = first_line commit_payload in
       if \<not> starts_with line (utf8_bytes (lit ''tree ''))
       then Inl (SystemExit ''moriarty_bootstrap_commit_tree_missing'')
       else bindE (ascii_decode (drop 5 line)) (\<lambda>tree_id.
         bootstrap_walk get tree_id (split_all 47 relative)))"

text \<open>The source of a module is executed only if it equals the blob of the target commit.\<close>

definition load_verified_source_module :: "reader \<Rightarrow> pystr \<Rightarrow> pystr \<Rightarrow> bytes option \<Rightarrow> bytes result" where
  "load_verified_source_module get target nm on_disk =
     bindE (bootstrap_verified_blob get target (lit ''tools/'' @ nm @ lit ''.py'')) (\<lambda>expected.
       case on_disk of
         None \<Rightarrow> Inl (SystemExitFor ''moriarty_bootstrap_source_unavailable:'' nm)
       | Some actual \<Rightarrow>
           if actual \<noteq> expected then Inl (SystemExitFor ''moriarty_bootstrap_source_mismatch:'' nm)
           else Inr expected)"

section \<open>The interface of a reader\<close>

locale object_reader =
  fixes sha1 :: "bytes \<Rightarrow> bytes"
    and get :: "string \<Rightarrow> pystr \<Rightarrow> 'limit \<Rightarrow> bytes result"
  assumes rehashed: "get kind i limit = Inr payload \<Longrightarrow> git_object_id sha1 kind payload = i"

lemma split_at_marker:
  assumes "x \<notin> set a" and "x \<notin> set b" and "a @ x # p = b @ x # q"
  shows "p = q"
proof -
  have drop: "dropWhile (\<lambda>y. y \<noteq> x) (c @ x # r) = x # r" if "x \<notin> set c" for c r
    using that by (induction c) auto
  from drop [OF assms(1), of p] drop [OF assms(2), of q] assms(3) show ?thesis by simp
qed

lemma object_header_inject:
  assumes "object_header kind m @ p = object_header kind n @ q"
  shows "p = q"
proof -
  have split: "object_header kind k = utf8_bytes (lit kind @ [32]) @ utf8_bytes (digits k) @ [0]" for k
    by (simp add: object_header_def utf8_bytes_append utf8_char_def utf8_octets_def)
  have no_zero: "(0 :: 8 word) \<notin> set (utf8_bytes (digits k))" for k
  proof -
    have "utf8_bytes s = map word_of_nat s" if "\<forall>c \<in> set s. is_digit c" for s
      using that by (induction s) (auto simp: utf8_char_def utf8_octets_def is_digit_def)
    moreover have "(word_of_nat c :: 8 word) \<noteq> 0" if "is_digit c" for c
    proof -
      have "unat (word_of_nat c :: 8 word) = c"
        using that by (auto simp: is_digit_def unsigned_of_nat take_bit_eq_mod)
      with that show ?thesis by (auto simp: is_digit_def)
    qed
    ultimately show ?thesis using digits_all [of _ k] by force
  qed
  have "utf8_bytes (digits m) @ 0 # p = utf8_bytes (digits n) @ 0 # q"
    using assms by (simp add: split)
  then show ?thesis
    by (rule split_at_marker [OF no_zero [of m] no_zero [of n]])
qed

lemma git_object_id_inject:
  "git_object_id sha1 kind p = git_object_id sha1 kind q \<Longrightarrow> p = q \<or> collision sha1"
  unfolding git_object_id_def collision_def
  using object_header_inject [of kind "length p" p "length q" q] by (blast dest: hexdigest_inject)

section \<open>Encoded trees\<close>

text \<open>A tree object as git writes it: mode, blank, name, NUL and the 20 octets of the identity.\<close>

type_synonym git_entry = "pystr \<times> pystr \<times> bytes"

fun encode_entry :: "git_entry \<Rightarrow> bytes" where
  "encode_entry (m, n, i) = utf8_bytes m @ 0x20 # utf8_bytes n @ 0 # i"

fun wf_entry :: "git_entry \<Rightarrow> bool" where
  "wf_entry (m, n, i) \<longleftrightarrow> m \<noteq> [] \<and> (\<forall>c \<in> set m. c < 128 \<and> c \<noteq> 32) \<and> scalars n \<and> 0 \<notin> set n \<and> length i = 20"

definition encode_tree :: "git_entry list \<Rightarrow> bytes" where
  "encode_tree es = concat (map encode_entry es)"

lemma utf8_bytes_ascii: "\<forall>c \<in> set s. c < 128 \<Longrightarrow> utf8_bytes s = map word_of_nat s"
  by (induction s) (auto simp: utf8_char_def utf8_octets_def)

lemma unat_ascii: "c < 128 \<Longrightarrow> unat (word_of_nat c :: 8 word) = c"
  by (simp add: unsigned_of_nat take_bit_eq_mod)

lemma ascii_decode_bytes:
  assumes "\<forall>c \<in> set s. c < 128"
  shows "ascii_decode (utf8_bytes s) = Inr s"
proof -
  have "map (unat \<circ> (word_of_nat :: nat \<Rightarrow> 8 word)) s = s"
    using assms by (intro map_idI) (simp add: unat_ascii)
  then show ?thesis using assms by (auto simp: ascii_decode_def utf8_bytes_ascii unat_ascii)
qed

lemma octet_not_in_utf8:
  assumes "scalars s" and "k < 128" and "k \<notin> set s"
  shows "(word_of_nat k :: 8 word) \<notin> set (utf8_bytes s)"
proof
  assume "(word_of_nat k :: 8 word) \<in> set (utf8_bytes s)"
  then obtain c where c: "c \<in> set s" "(word_of_nat k :: 8 word) \<in> set (utf8_char c)"
    by (auto simp: utf8_bytes_def)
  have c_bound: "c \<le> 0x10FFFF" using c(1) assms(1) by (auto simp: list_all_iff scalar_def)
  have "unat (word_of_nat k :: 8 word) \<in> set (map unat (utf8_char c))" using c(2) by auto
  then have "k \<in> set (utf8_octets c)" using unat_utf8_char [OF c_bound] unat_ascii [OF assms(2)] by simp
  then have "k = c" using assms(2) by (auto simp: utf8_octets_def split: if_splits)
  with c(1) assms(3) show False by simp
qed

lemma byte_find_at:
  assumes "b \<notin> set m"
  shows "byte_find b (pre @ m @ b # rest) (length pre) = Some (length pre + length m)"
  using assms by (simp add: byte_find_def takeWhile_append)

lemma tree_record_encode:
  assumes "wf_entry (m, n, i)"
  shows "tree_record (pre @ encode_entry (m, n, i) @ rest) (length pre) =
    Some (utf8_bytes m, utf8_bytes n, i, length pre + length (encode_entry (m, n, i)))"
proof -
  let ?M = "utf8_bytes m" and ?N = "utf8_bytes n"
  have "scalars m" using assms by (auto simp: list_all_iff scalar_def surrogate_def dest!: bspec)
  then have free: "(0x20 :: 8 word) \<notin> set ?M" "(0 :: 8 word) \<notin> set ?N"
    using octet_not_in_utf8 [of m 32] octet_not_in_utf8 [of n 0] assms by auto
  have M: "0 < length ?M" using assms by (cases m) (simp_all add: utf8_char_nonempty)
  have space: "byte_find 0x20 (pre @ ?M @ 0x20 # ?N @ 0 # i @ rest) (length pre) = Some (length pre + length ?M)"
    using byte_find_at [OF free(1)] .
  have nul: "byte_find 0 (pre @ ?M @ 0x20 # ?N @ 0 # i @ rest) (Suc (length pre + length ?M)) =
      Some (Suc (length pre + length ?M) + length ?N)"
    using byte_find_at [OF free(2), of "pre @ ?M @ [0x20]" "i @ rest"] by simp
  show ?thesis
    using M assms by (simp add: tree_record_def space nul slice_def)
qed

lemma bootstrap_tree_encode:
  "\<forall>e \<in> set es. wf_entry e \<Longrightarrow> bootstrap_tree_from (pre @ encode_tree es) wanted (length pre) =
     (case find (\<lambda>(m, n, i). n = wanted) es of
        None \<Rightarrow> Inl (SystemExitFor ''moriarty_bootstrap_path_missing:'' wanted)
      | Some (m, n, i) \<Rightarrow> Inr (m, hexdigest i))"
proof (induction es arbitrary: pre)
  case Nil
  then show ?case by (simp add: bootstrap_tree_from.simps [of pre] encode_tree_def)
next
  case (Cons e es)
  obtain m n i where e: "e = (m, n, i)" by (cases e)
  have wf: "wf_entry (m, n, i)" using Cons.prems e by simp
  have whole: "pre @ encode_tree (e # es) = (pre @ encode_entry (m, n, i)) @ encode_tree es"
    by (simp add: encode_tree_def e)
  note rec = tree_record_encode [OF wf, of pre "encode_tree es"]
  note IH = Cons.IH [of "pre @ encode_entry (m, n, i)"]
  have decoded: "ascii_decode (utf8_bytes m) = Inr m" "utf8_decode (utf8_bytes n) = Inr n"
    using wf by (auto intro: ascii_decode_bytes utf8_decode_bytes)
  have "encode_entry (m, n, i) \<noteq> []" by simp
  then show ?case
    using IH Cons.prems rec decoded unfolding whole append_assoc
    by (simp add: bootstrap_tree_from.simps [of "pre @ encode_entry (m, n, i) @ encode_tree es"] e del: encode_entry.simps)
qed

lemma bootstrap_tree_entry_encode:
  "\<forall>e \<in> set es. wf_entry e \<Longrightarrow> bootstrap_tree_entry (encode_tree es) wanted =
     (case find (\<lambda>(m, n, i). n = wanted) es of
        None \<Rightarrow> Inl (SystemExitFor ''moriarty_bootstrap_path_missing:'' wanted)
      | Some (m, n, i) \<Rightarrow> Inr (m, hexdigest i))"
  using bootstrap_tree_encode [of es "[]"] by (simp add: bootstrap_tree_entry_def)

section \<open>Two databases\<close>

locale reader_pair =
  left: object_reader sha1 get1 + right: object_reader sha1 get2
  for sha1 :: "bytes \<Rightarrow> bytes"
    and get1 :: "string \<Rightarrow> pystr \<Rightarrow> 'limit1 \<Rightarrow> bytes result"
    and get2 :: "string \<Rightarrow> pystr \<Rightarrow> 'limit2 \<Rightarrow> bytes result"

context reader_pair begin

lemma same_object:
  "get1 kind i l = Inr p \<Longrightarrow> get2 kind i l' = Inr q \<Longrightarrow> p = q \<or> collision sha1"
  using left.rehashed [of kind i l p] right.rehashed [of kind i l' q]
    git_object_id_inject [of sha1 kind p q] by simp

lemma same_walk:
  assumes "\<not> collision sha1"
  shows "bootstrap_walk (\<lambda>k i. get1 k i l) t parts = Inr b \<Longrightarrow>
    bootstrap_walk (\<lambda>k i. get2 k i l') t parts = Inr c \<Longrightarrow> b = c"
proof (induction parts arbitrary: t)
  case (Cons part parts)
  from Cons.prems obtain p q m i m' i' where
    r: "get1 ''tree'' t l = Inr p" "get2 ''tree'' t l' = Inr q"
    and e: "bootstrap_tree_entry p part = Inr (m, i)" "bootstrap_tree_entry q part = Inr (m', i')"
    by (auto simp: bindE_eq_Inr)
  have "p = q" using same_object [OF r] assms by simp
  with e have same: "m' = m" "i' = i" by simp_all
  show ?case
  proof (cases "parts = []")
    case True
    then show ?thesis using Cons.prems r e same same_object [of "''blob''" i l b l' c] assms
      by (auto split: if_splits)
  next
    case False
    then show ?thesis using Cons.prems Cons.IH [of i] r e same by (auto split: if_splits)
  qed
qed simp

lemma same_blob:
  assumes "bootstrap_verified_blob (\<lambda>k i. get1 k i l) target relative = Inr b"
    and "bootstrap_verified_blob (\<lambda>k i. get2 k i l') target relative = Inr c"
  shows "b = c \<or> collision sha1"
proof (cases "collision sha1")
  case False
  from assms obtain p q where r: "get1 ''commit'' target l = Inr p" "get2 ''commit'' target l' = Inr q"
    by (auto simp: bootstrap_verified_blob_def bindE_eq_Inr)
  have "p = q" using same_object [OF r] False by simp
  then obtain t where "bootstrap_walk (\<lambda>k i. get1 k i l) t (split_all 47 relative) = Inr b"
    "bootstrap_walk (\<lambda>k i. get2 k i l') t (split_all 47 relative) = Inr c"
    using assms r by (auto simp: bootstrap_verified_blob_def bindE_eq_Inr Let_def split: if_splits)
  from same_walk [OF False this] show ?thesis by simp
qed simp

end

lemma bootstrap_reader: "object_reader sha1 (\<lambda>kind i (u :: unit). bootstrap_git_object sha1 g kind i)"
  by unfold_locales (auto simp: bootstrap_git_object_def bindE_eq_Inr split: prod.splits if_splits)

interpretation bootstrap: object_reader sha1 "\<lambda>kind i (u :: unit). bootstrap_git_object sha1 g kind i"
  for sha1 g
  by (rule bootstrap_reader)

interpretation bootstrap_pair: reader_pair sha1 "\<lambda>kind i (u :: unit). bootstrap_git_object sha1 g kind i"
    "\<lambda>kind i (u :: unit). bootstrap_git_object sha1 g' kind i"
  for sha1 g g'
  by (intro reader_pair.intro bootstrap_reader)

section \<open>Properties\<close>

text \<open>C17: The bootstrap executes only what the target commit names: whatever two object databases answer,
  if the source of a module is accepted under the same target commit from both, it is the same
  source, or the two answers exhibit a SHA-1 collision.\<close>

theorem verified_source_bound_to_commit:
  assumes "load_verified_source_module (bootstrap_git_object sha1 g) target nm d = Inr src"
    and "load_verified_source_module (bootstrap_git_object sha1 g') target nm d' = Inr src'"
  shows "d = Some src \<and> d' = Some src' \<and> (src = src' \<or> collision sha1)"
proof -
  have "bootstrap_verified_blob (bootstrap_git_object sha1 g) target (lit ''tools/'' @ nm @ lit ''.py'') = Inr src"
    "bootstrap_verified_blob (bootstrap_git_object sha1 g') target (lit ''tools/'' @ nm @ lit ''.py'') = Inr src'"
    and "d = Some src" "d' = Some src'"
    using assms by (auto simp: load_verified_source_module_def bindE_eq_Inr split: option.splits if_splits)
  then show ?thesis using bootstrap_pair.same_blob by blast
qed

text \<open>A commit with one module; the digest of the example is the length.\<close>

definition demo_sha1 :: "bytes \<Rightarrow> bytes" where
  "demo_sha1 b = replicate 19 0 @ [word_of_nat (length b)]"

definition demo_object :: "string \<Rightarrow> bytes \<Rightarrow> pystr \<times> bytes" where
  "demo_object kind payload = (git_object_id demo_sha1 kind payload, payload)"

definition demo_oid :: "nat \<Rightarrow> bytes" where "demo_oid n = replicate 19 0 @ [word_of_nat n]"

definition demo_database :: "(pystr \<times> bytes) list" where
  "demo_database =
     [demo_object ''blob'' [1, 2],
      demo_object ''tree'' (encode_tree [(lit ''100644'', lit ''mm.py'', demo_oid 9)]),
      demo_object ''tree'' (encode_tree [(lit ''40000'', lit ''tools'', demo_oid 41)]),
      demo_object ''commit'' (utf8_bytes (lit ''tree '' @ hexdigest (demo_oid 40) @ [10]))]"

definition demo_boot_git :: boot_git where
  "demo_boot_git = \<lparr>git_info = demo_inode 1, git_now = (\<lambda>args. Some (demo_inode 1)),
     git_answer = (\<lambda>args. case lookup demo_database (last args) of None \<Rightarrow> (1, []) | Some p \<Rightarrow> (0, p))\<rparr>"

lemma demo_source_accepted:
  "load_verified_source_module (bootstrap_git_object demo_sha1 demo_boot_git) (hexdigest (demo_oid 56)) (lit ''mm'')
     (Some [1, 2]) = Inr [1, 2]"
  by code_simp

theorem verified_source_bound_to_commit_witness:
  "load_verified_source_module (bootstrap_git_object demo_sha1 demo_boot_git) (hexdigest (demo_oid 56)) (lit ''mm'')
     (Some [1, 2]) = Inr [1, 2] \<and> ([1, 2] = ([1, 2] :: bytes) \<or> collision demo_sha1)"
  using verified_source_bound_to_commit [OF demo_source_accepted demo_source_accepted] demo_source_accepted
  by simp

text \<open>A tree object as git writes it is read back exactly: the entry found is the first one with the
  wanted name, with its mode and its identity, and a name that is not there is reported missing.\<close>

theorem bootstrap_tree_entry_reads_encoding:
  assumes "\<forall>e \<in> set es. wf_entry e"
  shows "bootstrap_tree_entry (encode_tree es) wanted =
    (case find (\<lambda>(m, n, i). n = wanted) es of
       None \<Rightarrow> Inl (SystemExitFor ''moriarty_bootstrap_path_missing:'' wanted)
     | Some (m, n, i) \<Rightarrow> Inr (m, hexdigest i))"
  by (rule bootstrap_tree_entry_encode [OF assms])

theorem bootstrap_tree_entry_reads_encoding_witness:
  "bootstrap_tree_entry (encode_tree [(lit ''40000'', lit ''sub'', replicate 20 1), (lit ''100644'', lit ''f'', replicate 20 2)])
     (lit ''f'') = Inr (lit ''100644'', hexdigest (replicate 20 2))"
proof -
  have "\<forall>e \<in> set [(lit ''40000'', lit ''sub'', replicate 20 1), (lit ''100644'', lit ''f'', replicate 20 2 :: bytes)]. wf_entry e"
    by code_simp
  from bootstrap_tree_entry_reads_encoding [OF this, of "lit ''f''"] show ?thesis by simp
qed

end
