(* ===== verification/Commit_Files.thy ===== *)
theory Commit_Files
  imports Git_Objects
begin

text \<open>
  The bounded reader of a commit and what \<open>tools/run_moriarty.py\<close> builds on it:
  \<open>_verified_git_object\<close>, \<open>_verified_commit_files\<close>, the index and the work tree checks,
  \<open>tracked_tree_clean\<close> and \<open>harness_files_match_target\<close>. The loops of the walk are total functions:
  their termination proofs are the proof that an adversarial tree cannot keep the walk running.
\<close>

section \<open>Reading objects\<close>

definition MAX_GIT_ARCHIVE_BYTES :: nat where "MAX_GIT_ARCHIVE_BYTES = 64 * 1024 * 1024"
definition MAX_GIT_TREE_METADATA_BYTES :: nat where "MAX_GIT_TREE_METADATA_BYTES = 16 * 1024 * 1024"
definition MAX_GIT_TREE_ENTRIES :: nat where "MAX_GIT_TREE_ENTRIES = 32768"
definition MAX_GIT_TREE_DEPTH :: nat where "MAX_GIT_TREE_DEPTH = 64"
definition MAX_GIT_PATH_BYTES :: nat where "MAX_GIT_PATH_BYTES = 4096"

text \<open>\<open>git(...)\<close> and \<open>git_commit_exists\<close>; \<open>g\<close> is GIT_TRUSTED.\<close>

definition git :: "processes \<Rightarrow> trusted_executable \<Rightarrow> pystr list \<Rightarrow> (int \<times> bytes) result" where
  "git ps g args = bindE (trusted_run ps g args) (\<lambda>(status, out, err). Inr (status, out))"

definition git_head :: "processes \<Rightarrow> trusted_executable \<Rightarrow> pystr result" where
  "git_head ps g =
     bindE (git ps g [lit ''rev-parse'', lit ''HEAD'']) (\<lambda>(status, out).
     if status \<noteq> 0 then Inl (SystemExit ''moriarty_git_head_unavailable'')
     else case ascii_decode out of
       Inl _ \<Rightarrow> Inl (SystemExit ''moriarty_git_head_non_ascii'')
     | Inr s \<Rightarrow> if rx_match TARGET_RE (strip s) then Inr (strip s)
                else Inl (SystemExit ''moriarty_git_head_invalid''))"

definition git_commit_exists :: "processes \<Rightarrow> trusted_executable \<Rightarrow> pystr \<Rightarrow> bool result" where
  "git_commit_exists ps g commit =
     (if \<not> rx_match TARGET_RE commit then Inr False
      else bindE (git ps g [lit ''cat-file'', lit ''-t'', commit]) (\<lambda>(status, out).
        Inr (status = 0 \<and> out = utf8_bytes (lit ''commit'' @ [10]))))"

definition git_is_ancestor :: "processes \<Rightarrow> trusted_executable \<Rightarrow> pystr \<Rightarrow> pystr \<Rightarrow> bool result" where
  "git_is_ancestor ps g ancestor descendant =
     bindE (git_commit_exists ps g ancestor) (\<lambda>a. if \<not> a then Inr False
     else bindE (git_commit_exists ps g descendant) (\<lambda>d. if \<not> d then Inr False
     else bindE (git ps g [lit ''merge-base'', lit ''--is-ancestor'', ancestor, descendant]) (\<lambda>(status, out).
       Inr (status = 0))))"

definition verified_git_object ::
  "(bytes \<Rightarrow> bytes) \<Rightarrow> processes \<Rightarrow> trusted_executable \<Rightarrow> string \<Rightarrow> pystr \<Rightarrow> nat \<Rightarrow> bytes result" where
  "verified_git_object sha1 ps g kind oid limit =
     (if \<not> rx_match TARGET_RE oid then Inl (SystemExit ''moriarty_git_object_id_invalid'')
      else bindE (trusted_capture_bounded ps g [lit ''cat-file'', lit kind, oid] (int limit)
          ''moriarty_git_object_too_large'' ''moriarty_git_object_read_failed'') (\<lambda>payload.
        if git_object_id sha1 kind payload \<noteq> oid
        then Inl (SystemExit (''moriarty_git_'' @ kind @ ''_object_hash_mismatch''))
        else Inr payload))"

section \<open>The walk\<close>

type_synonym bounded_reader = "string \<Rightarrow> pystr \<Rightarrow> nat \<Rightarrow> bytes result"
type_synonym commit_files = "(pystr \<times> pystr \<times> pystr \<times> bytes) list"
type_synonym pending = "pystr \<times> pystr \<times> nat"

record walk =
  files :: commit_files
  total_payload :: nat
  total_tree_metadata :: nat
  entry_count :: nat

definition invalid_name :: "pystr \<Rightarrow> bool" where
  "invalid_name n \<longleftrightarrow> n = [] \<or> n = lit ''.'' \<or> n = lit ''..'' \<or> 47 \<in> set n \<or> 92 \<in> set n"

definition relative_path :: "pystr \<Rightarrow> pystr \<Rightarrow> pystr" where
  "relative_path prefix n = (if prefix \<noteq> [] then prefix @ [47] @ n else n)"

text \<open>One entry, with the child trees found so far.\<close>

definition walk_entry ::
  "bounded_reader \<Rightarrow> pystr \<Rightarrow> nat \<Rightarrow> bytes \<times> bytes \<times> bytes \<Rightarrow> walk \<Rightarrow> pending list \<Rightarrow> (walk \<times> pending list) result" where
  "walk_entry get prefix depth entry w children = (case entry of (mode_bytes, name_bytes, id_bytes) \<Rightarrow>
     let w1 = w\<lparr>entry_count := entry_count w + 1\<rparr>; oid = hexdigest id_bytes in
     if MAX_GIT_TREE_ENTRIES < entry_count w1 then Inl (SystemExit ''moriarty_git_tree_entry_count_exceeded'')
     else case (ascii_decode mode_bytes, utf8_decode name_bytes) of
       (Inr mode, Inr nm) \<Rightarrow>
         let relative = relative_path prefix nm in
         if invalid_name nm then Inl (SystemExit ''moriarty_git_tree_entry_name_invalid'')
         else bindE (utf8_encode relative) (\<lambda>encoded.
         if MAX_GIT_PATH_BYTES < length encoded then Inl (SystemExit ''moriarty_git_tree_path_too_long'')
         else if lookup (files w1) relative \<noteq> None then Inl (SystemExit ''moriarty_git_tree_duplicate_path'')
         else if mode = lit ''40000''
         then (if MAX_GIT_TREE_DEPTH \<le> depth then Inl (SystemExit ''moriarty_git_tree_depth_exceeded'')
               else Inr (w1, children @ [(oid, relative, depth + 1)]))
         else if mode = lit ''100644'' \<or> mode = lit ''100755''
         then (if MAX_GIT_ARCHIVE_BYTES \<le> total_payload w1
               then Inl (SystemExit ''moriarty_exact_export_archive_too_large'')
               else bindE (get ''blob'' oid (MAX_GIT_ARCHIVE_BYTES - total_payload w1)) (\<lambda>blob.
                 if MAX_GIT_ARCHIVE_BYTES < total_payload w1 + length blob
                 then Inl (SystemExit ''moriarty_exact_export_archive_too_large'')
                 else Inr (w1\<lparr>files := files w1 @ [(relative, mode, oid, blob)],
                              total_payload := total_payload w1 + length blob\<rparr>, children)))
         else Inl (SystemExit ''moriarty_exact_export_nonregular_entry_forbidden''))
     | _ \<Rightarrow> Inl (SystemExit ''moriarty_git_tree_entry_encoding_invalid''))"

function walk_payload ::
  "bounded_reader \<Rightarrow> bytes \<Rightarrow> pystr \<Rightarrow> nat \<Rightarrow> nat \<Rightarrow> walk \<Rightarrow> pending list \<Rightarrow> (walk \<times> pending list) result" where
  "walk_payload get payload prefix depth cursor w children =
     (if length payload \<le> cursor
      then (if cursor \<noteq> length payload then Inl (SystemExit ''moriarty_git_tree_object_malformed'')
            else Inr (w, children))
      else case tree_record payload cursor of
        None \<Rightarrow> Inl (SystemExit ''moriarty_git_tree_object_malformed'')
      | Some (mode_bytes, name_bytes, id_bytes, next) \<Rightarrow>
          bindE (walk_entry get prefix depth (mode_bytes, name_bytes, id_bytes) w children) (\<lambda>(w', children').
            walk_payload get payload prefix depth next w' children'))"
  by pat_completeness auto
termination
  by (relation "measure (\<lambda>(get, payload, prefix, depth, cursor, w, children). length payload - cursor)")
    (auto dest: tree_record_advances)

declare walk_payload.simps [simp del]

text \<open>One tree popped off the stack.\<close>

definition walk_tree ::
  "bounded_reader \<Rightarrow> pending \<Rightarrow> walk \<Rightarrow> (walk \<times> pending list) result" where
  "walk_tree get item w = (case item of (tree_id, prefix, depth) \<Rightarrow>
     if MAX_GIT_TREE_DEPTH < depth then Inl (SystemExit ''moriarty_git_tree_depth_exceeded'')
     else if MAX_GIT_TREE_METADATA_BYTES \<le> total_tree_metadata w
     then Inl (SystemExit ''moriarty_git_tree_metadata_exceeded'')
     else bindE (get ''tree'' tree_id (MAX_GIT_TREE_METADATA_BYTES - total_tree_metadata w)) (\<lambda>payload.
       let w1 = w\<lparr>total_tree_metadata := total_tree_metadata w + length payload\<rparr> in
       if MAX_GIT_TREE_METADATA_BYTES < total_tree_metadata w1
       then Inl (SystemExit ''moriarty_git_tree_metadata_exceeded'')
       else walk_payload get payload prefix depth 0 w1 []))"

text \<open>Every child counted an entry, so the entries left plus the trees pending decrease.\<close>

lemma walk_entry_counts:
  assumes "walk_entry get prefix depth e w children = Inr (w', children')"
  shows "entry_count w' = entry_count w + 1 \<and> entry_count w' \<le> MAX_GIT_TREE_ENTRIES \<and>
    length children' \<le> length children + 1"
  using assms
  by (auto simp: walk_entry_def Let_def bindE_eq_Inr split: prod.splits if_splits sum.splits)

lemma walk_payload_Inr:
  "walk_payload get payload prefix depth cursor w children = Inr (w', children') \<longleftrightarrow>
     cursor = length payload \<and> w' = w \<and> children' = children \<or>
     cursor < length payload \<and> (\<exists>m n i nx w1 c1. tree_record payload cursor = Some (m, n, i, nx) \<and>
       walk_entry get prefix depth (m, n, i) w children = Inr (w1, c1) \<and>
       walk_payload get payload prefix depth nx w1 c1 = Inr (w', children'))"
  by (subst walk_payload.simps) (auto simp: bindE_eq_Inr split: option.splits)

lemma walk_payload_invariant:
  assumes "\<And>e w c w' c'. P w c \<Longrightarrow> walk_entry get prefix depth e w c = Inr (w', c') \<Longrightarrow> P w' c'"
  shows "walk_payload get payload prefix depth cursor w children = Inr (w', children') \<Longrightarrow> P w children \<Longrightarrow> P w' children'"
proof (induction "length payload - cursor" arbitrary: cursor w children rule: less_induct)
  case less
  from less.prems(1) consider "w' = w" "children' = children"
    | m n i nx w1 c1 where "cursor < length payload" "tree_record payload cursor = Some (m, n, i, nx)"
      "walk_entry get prefix depth (m, n, i) w children = Inr (w1, c1)"
      "walk_payload get payload prefix depth nx w1 c1 = Inr (w', children')"
    unfolding walk_payload_Inr [of get payload prefix depth cursor] by blast
  then show ?case
  proof cases
    case 2
    from tree_record_advances [OF 2(2)] 2(1) have "length payload - nx < length payload - cursor" by linarith
    from less.hyps [OF this 2(4) assms [OF less.prems(2) 2(3)]] show ?thesis .
  qed (use less.prems in simp)
qed

lemma walk_payload_counts:
  assumes "walk_payload get payload prefix depth cursor w children = Inr (w', children')"
  shows "entry_count w + (length children' - length children) \<le> entry_count w' \<and>
     (entry_count w' \<noteq> entry_count w \<longrightarrow> entry_count w' \<le> MAX_GIT_TREE_ENTRIES)"
  by (rule walk_payload_invariant [where P = "\<lambda>w' c'. entry_count w + (length c' - length children) \<le> entry_count w' \<and>
     (entry_count w' \<noteq> entry_count w \<longrightarrow> entry_count w' \<le> MAX_GIT_TREE_ENTRIES)", OF _ assms])
    (auto dest!: walk_entry_counts)

function walk_trees :: "bounded_reader \<Rightarrow> pending list \<Rightarrow> walk \<Rightarrow> walk result" where
  "walk_trees get [] w = Inr w"
| "walk_trees get (item # stack) w =
     bindE (walk_tree get item w) (\<lambda>(w', children). walk_trees get (children @ stack) w')"
  by pat_completeness auto
termination
proof (relation "measure (\<lambda>(get, stack, w). (MAX_GIT_TREE_ENTRIES - entry_count w) + length stack)", goal_cases)
  case (2 get item stack w x w' children)
  then have "walk_tree get item w = Inr (w', children)" by simp
  then obtain p pre d w1 where "walk_payload get p pre d 0 w1 [] = Inr (w', children)" "entry_count w1 = entry_count w"
    by (auto simp: walk_tree_def Let_def bindE_eq_Inr split: prod.splits if_splits)
  from walk_payload_counts [OF this(1)] this(2) show ?case by (auto simp: not_le)
qed simp

definition start_walk :: walk where
  "start_walk = \<lparr>files = [], total_payload = 0, total_tree_metadata = 0, entry_count = 0\<rparr>"

text \<open>\<open>_verified_commit_files\<close> below its cache, for any reader and any test of the commit's existence.\<close>

definition commit_files_by ::
  "bounded_reader \<Rightarrow> (pystr \<Rightarrow> bool result) \<Rightarrow> pystr \<Rightarrow> commit_files result" where
  "commit_files_by get exists commit =
     bindE (exists commit) (\<lambda>found.
     if \<not> found then Inl (SystemExit ''moriarty_exact_export_commit_missing'')
     else bindE (get ''commit'' commit 1048576) (\<lambda>commit_payload.
     let line = first_line commit_payload in
     if \<not> starts_with line (utf8_bytes (lit ''tree ''))
     then Inl (SystemExit ''moriarty_commit_tree_header_missing'')
     else case ascii_decode (drop 5 line) of
       Inl _ \<Rightarrow> Inl (SystemExit ''moriarty_commit_tree_id_invalid'')
     | Inr root_tree \<Rightarrow>
         if \<not> rx_match TARGET_RE root_tree then Inl (SystemExit ''moriarty_commit_tree_id_invalid'')
         else bindE (walk_trees get [(root_tree, [], 0)] start_walk) (\<lambda>w. Inr (files w))))"

text \<open>The cache holds the last commit that was read completely.\<close>

type_synonym tree_cache = "(pystr \<times> commit_files) option"

definition verified_commit_files ::
  "(bytes \<Rightarrow> bytes) \<Rightarrow> processes \<Rightarrow> trusted_executable \<Rightarrow> pystr \<Rightarrow> tree_cache \<Rightarrow> commit_files result \<times> tree_cache" where
  "verified_commit_files sha1 ps g commit cache =
     (case cache of
        Some (c, fs) \<Rightarrow> if c = commit then (Inr fs, cache)
          else (case commit_files_by (verified_git_object sha1 ps g) (git_commit_exists ps g) commit of
                  Inl e \<Rightarrow> (Inl e, cache) | Inr fs' \<Rightarrow> (Inr fs', Some (commit, fs')))
      | None \<Rightarrow> (case commit_files_by (verified_git_object sha1 ps g) (git_commit_exists ps g) commit of
                  Inl e \<Rightarrow> (Inl e, cache) | Inr fs' \<Rightarrow> (Inr fs', Some (commit, fs'))))"

section \<open>The index and the work tree\<close>

definition is_lower :: "nat \<Rightarrow> bool" where
  "is_lower c \<longleftrightarrow> 97 \<le> c \<and> c \<le> 122"

text \<open>\<open>tag.islower()\<close> for the tags that git prints, which are ASCII letters.\<close>

definition index_flags_output_clean :: "bytes \<Rightarrow> bool" where
  "index_flags_output_clean raw = (case utf8_decode raw of
     Inl _ \<Rightarrow> False
   | Inr s \<Rightarrow> list_all (\<lambda>line. 2 \<le> length line \<and> line ! 1 = 32 \<and> line ! 0 \<noteq> 83 \<and> \<not> is_lower (line ! 0)) (splitlines s))"

definition index_flags_clean :: "processes \<Rightarrow> trusted_executable \<Rightarrow> bool result" where
  "index_flags_clean ps g =
     bindE (git ps g [lit ''ls-files'', lit ''-t'', lit ''-v'']) (\<lambda>(status, out).
       Inr (status = 0 \<and> index_flags_output_clean out))"

type_synonym index = "(pystr \<times> pystr \<times> pystr) list"

text \<open>One record of \<open>git ls-files -s -z\<close>; None is \<open>return None\<close>.\<close>

definition index_record :: "index \<Rightarrow> bytes \<Rightarrow> index option" where
  "index_record entries record_bytes =
     (if record_bytes = [] then Some entries
      else case split_once 9 record_bytes of
        (metadata, None) \<Rightarrow> None
      | (metadata, Some raw_path) \<Rightarrow> (case (ascii_decode metadata, utf8_decode raw_path) of
          (Inr meta, Inr path) \<Rightarrow> (case split_all 32 meta of
              [mode, oid, stage] \<Rightarrow>
                if stage \<noteq> lit ''0'' \<or> \<not> (mode = lit ''100644'' \<or> mode = lit ''100755'')
                   \<or> \<not> rx_match TARGET_RE oid \<or> lookup entries path \<noteq> None
                then None else Some (entries @ [(path, mode, oid)])
            | _ \<Rightarrow> None)
        | _ \<Rightarrow> None))"

fun index_records :: "index \<Rightarrow> bytes list \<Rightarrow> index option" where
  "index_records entries [] = Some entries"
| "index_records entries (r # rs) = (case index_record entries r of
     None \<Rightarrow> None | Some entries' \<Rightarrow> index_records entries' rs)"

definition index_entries :: "processes \<Rightarrow> trusted_executable \<Rightarrow> (index option) result" where
  "index_entries ps g =
     bindE (git ps g [lit ''ls-files'', lit ''-s'', lit ''-z'']) (\<lambda>(status, out).
       Inr (if status \<noteq> 0 then None else index_records [] (split_all 0 out)))"

text \<open>
  \<open>_worktree_file_matches\<close>: lstat, open without following links, fstat, read to the end, fstat;
  each system call has its own answer.
\<close>

record opened_file =
  fstat_opened :: inode_info
  read_chunks :: "bytes list"
  fstat_final :: inode_info

record work_tree =
  lstat_of :: "pystr \<Rightarrow> inode_info option"
  is_symlink :: "pystr \<Rightarrow> bool"
  open_file :: "pystr \<Rightarrow> opened_file option"
  read_bytes :: "pystr \<Rightarrow> bytes option"

definition worktree_file_matches ::
  "(bytes \<Rightarrow> bytes) \<Rightarrow> work_tree \<Rightarrow> pystr \<Rightarrow> pystr \<Rightarrow> pystr \<Rightarrow> nat \<Rightarrow> bool" where
  "worktree_file_matches sha1 wt path mode oid expected_size = (case lstat_of wt path of
     None \<Rightarrow> False
   | Some initial \<Rightarrow>
       if \<not> S_ISREG (st_mode initial) \<or> is_symlink wt path then False
       else if any_exec (st_mode initial) \<noteq> (mode = lit ''100755'') \<or> st_size initial \<noteq> expected_size then False
       else (case open_file wt path of
         None \<Rightarrow> False
       | Some f \<Rightarrow>
           let opened = fstat_opened f; final = fstat_final f; content = concat (read_chunks f) in
           if st_dev opened \<noteq> st_dev initial \<or> st_ino opened \<noteq> st_ino initial \<or> st_size opened \<noteq> st_size initial
           then False
           else length content = expected_size \<and> st_dev final = st_dev opened \<and> st_ino final = st_ino opened \<and>
                st_size final = st_size opened \<and> st_mtime_ns final = st_mtime_ns opened \<and>
                hexdigest (sha1 (object_header ''blob'' (st_size initial) @ content)) = oid))"

text \<open>Equality of the two dictionaries does not depend on the order of their items.\<close>

definition same_dict :: "('k \<times> 'v) list \<Rightarrow> ('k \<times> 'v) list \<Rightarrow> bool" where
  "same_dict a b \<longleftrightarrow> set a = set b"

definition expected_index :: "commit_files \<Rightarrow> index" where
  "expected_index fs = map (\<lambda>(path, mode, oid, blob). (path, mode, oid)) fs"

definition tracked_tree_clean ::
  "(bytes \<Rightarrow> bytes) \<Rightarrow> processes \<Rightarrow> trusted_executable \<Rightarrow> work_tree \<Rightarrow> tree_cache \<Rightarrow> bool result \<times> tree_cache" where
  "tracked_tree_clean sha1 ps g wt cache =
     (case index_flags_clean ps g of
        Inl e \<Rightarrow> (Inl e, cache)
      | Inr False \<Rightarrow> (Inr False, cache)
      | Inr True \<Rightarrow> (case git_head ps g of
          Inl e \<Rightarrow> (Inr False, cache)
        | Inr target \<Rightarrow> (case verified_commit_files sha1 ps g target cache of
            (Inl e, cache') \<Rightarrow> (Inr False, cache')
          | (Inr fs, cache') \<Rightarrow> (case index_entries ps g of
              Inl e \<Rightarrow> (Inl e, cache')
            | Inr None \<Rightarrow> (Inr False, cache')
            | Inr (Some idx) \<Rightarrow>
                (Inr (same_dict idx (expected_index fs) \<and>
                      list_all (\<lambda>(path, mode, oid, blob). worktree_file_matches sha1 wt path mode oid (length blob)) fs),
                 cache')))))"

definition HARNESS_PATHS :: "string list" where
  "HARNESS_PATHS = [''tools/run_moriarty.py'', ''tools/moriarty_isolation.py'', ''tools/qsol_canonical.py'']"

definition harness_files_match_target ::
  "(bytes \<Rightarrow> bytes) \<Rightarrow> processes \<Rightarrow> trusted_executable \<Rightarrow> work_tree \<Rightarrow> pystr \<Rightarrow> pystr list \<Rightarrow> tree_cache \<Rightarrow> bool \<times> tree_cache" where
  "harness_files_match_target sha1 ps g wt target extra_paths cache =
     (case verified_commit_files sha1 ps g target cache of
        (Inl e, cache') \<Rightarrow> (False, cache')
      | (Inr fs, cache') \<Rightarrow>
          (list_all (\<lambda>path. case lookup fs path of
              None \<Rightarrow> False
            | Some (mode, oid, blob) \<Rightarrow> (case read_bytes wt path of None \<Rightarrow> False | Some actual \<Rightarrow> actual = blob))
            (map lit HARNESS_PATHS @ extra_paths), cache'))"

section \<open>What the walk guarantees\<close>

definition safe_path :: "pystr \<Rightarrow> bool" where
  "safe_path p \<longleftrightarrow> (\<forall>part \<in> set (split_all 47 p). \<not> invalid_name part)"

definition file_ok :: "(bytes \<Rightarrow> bytes) \<Rightarrow> pystr \<times> pystr \<times> pystr \<times> bytes \<Rightarrow> bool" where
  "file_ok sha1 f = (case f of (path, mode, oid, blob) \<Rightarrow>
     safe_path path \<and> scalars path \<and> length (utf8_bytes path) \<le> MAX_GIT_PATH_BYTES \<and>
     (mode = lit ''100644'' \<or> mode = lit ''100755'') \<and> git_object_id sha1 ''blob'' blob = oid)"

text \<open>The invariant of the walk; a pending tree lies at a safe path.\<close>

definition walk_ok :: "(bytes \<Rightarrow> bytes) \<Rightarrow> walk \<Rightarrow> bool" where
  "walk_ok sha1 w \<longleftrightarrow> distinct (map fst (files w)) \<and> (\<forall>f \<in> set (files w). file_ok sha1 f) \<and>
     total_payload w = sum_list (map (\<lambda>(_, _, _, blob). length blob) (files w)) \<and>
     total_payload w \<le> MAX_GIT_ARCHIVE_BYTES \<and> total_tree_metadata w \<le> MAX_GIT_TREE_METADATA_BYTES \<and>
     length (files w) \<le> entry_count w \<and> entry_count w \<le> MAX_GIT_TREE_ENTRIES"

definition pending_ok :: "pending \<Rightarrow> bool" where
  "pending_ok item = (case item of (tree_id, prefix, depth) \<Rightarrow>
     (prefix = [] \<or> safe_path prefix) \<and> depth \<le> MAX_GIT_TREE_DEPTH)"

lemma split_all_snoc:
  "47 \<notin> set n \<Longrightarrow> split_all 47 (p @ 47 # n) = split_all 47 p @ split_all 47 n"
  by (induction p) (auto split: list.splits)

lemma split_all_plain: "47 \<notin> set n \<Longrightarrow> split_all 47 n = [n]"
  by (induction n) auto

lemma relative_safe:
  assumes "prefix = [] \<or> safe_path prefix" and "\<not> invalid_name n"
  shows "safe_path (relative_path prefix n)"
proof -
  have "47 \<notin> set n" using assms(2) by (simp add: invalid_name_def)
  then show ?thesis using assms by (auto simp: safe_path_def relative_path_def split_all_snoc split_all_plain)
qed

context object_reader begin

lemma walk_entry_ok:
  fixes l :: "nat \<Rightarrow> 'limit"
  assumes "walk_entry (\<lambda>k i n. get k i (l n)) prefix depth e w children = Inr (w', children')"
    and "walk_ok sha1 w" and "prefix = [] \<or> safe_path prefix" and "\<forall>c \<in> set children. pending_ok c"
  shows "walk_ok sha1 w' \<and> (\<forall>c \<in> set children'. pending_ok c)"
proof -
  obtain mb nb ib where e: "e = (mb, nb, ib)" by (cases e)
  from assms(1) obtain mode nm enc where d: "ascii_decode mb = Inr mode" "utf8_decode nb = Inr nm"
    and valid: "\<not> invalid_name nm" "utf8_encode (relative_path prefix nm) = Inr enc" "length enc \<le> MAX_GIT_PATH_BYTES"
      "lookup (files w) (relative_path prefix nm) = None" "entry_count w + 1 \<le> MAX_GIT_TREE_ENTRIES"
    by (auto simp: walk_entry_def e Let_def bindE_eq_Inr split: if_splits sum.splits)
  have safe: "safe_path (relative_path prefix nm)" by (rule relative_safe [OF assms(3) valid(1)])
  show ?thesis
  proof (cases "mode = lit ''40000''")
    case True
    with assms(1) d valid have "w' = w\<lparr>entry_count := entry_count w + 1\<rparr>" "depth < MAX_GIT_TREE_DEPTH"
      "children' = children @ [(hexdigest ib, relative_path prefix nm, depth + 1)]"
      by (auto simp: walk_entry_def e Let_def bindE_eq_Inr split: if_splits)
    with assms(2,4) valid safe show ?thesis by (auto simp: walk_ok_def pending_ok_def)
  next
    case False
    with assms(1) d valid obtain blob where b: "get ''blob'' (hexdigest ib) (l (MAX_GIT_ARCHIVE_BYTES - total_payload w)) = Inr blob"
      "total_payload w + length blob \<le> MAX_GIT_ARCHIVE_BYTES" "mode = lit ''100644'' \<or> mode = lit ''100755''"
      "w' = w\<lparr>entry_count := entry_count w + 1, files := files w @ [(relative_path prefix nm, mode, hexdigest ib, blob)],
              total_payload := total_payload w + length blob\<rparr>" "children' = children"
      by (auto simp: walk_entry_def e Let_def bindE_eq_Inr split: if_splits)
    have "file_ok sha1 (relative_path prefix nm, mode, hexdigest ib, blob)"
      using safe valid(2,3) b(3) rehashed [OF b(1)] by (auto simp: file_ok_def utf8_encode_eq_Inr)
    moreover have "relative_path prefix nm \<notin> fst ` set (files w)" using valid(4) by (simp add: lookup_None_iff)
    ultimately show ?thesis using assms(2,4) valid(5) b by (auto simp: walk_ok_def)
  qed
qed

lemma walk_tree_ok:
  fixes l :: "nat \<Rightarrow> 'limit"
  assumes "walk_tree (\<lambda>k i n. get k i (l n)) item w = Inr (w', children)"
    and "walk_ok sha1 w" and "pending_ok item"
  shows "walk_ok sha1 w' \<and> (\<forall>c \<in> set children. pending_ok c)"
proof -
  obtain t prefix depth where item: "item = (t, prefix, depth)" by (cases item)
  have prefix: "prefix = [] \<or> safe_path prefix" using assms(3) by (simp add: item pending_ok_def)
  from assms(1) obtain payload where p: "walk_payload (\<lambda>k i n. get k i (l n)) payload prefix depth 0
       (w\<lparr>total_tree_metadata := total_tree_metadata w + length payload\<rparr>) [] = Inr (w', children)"
    and m: "total_tree_metadata w + length payload \<le> MAX_GIT_TREE_METADATA_BYTES"
    by (auto simp: walk_tree_def item Let_def bindE_eq_Inr split: if_splits)
  have "walk_ok sha1 (w\<lparr>total_tree_metadata := total_tree_metadata w + length payload\<rparr>)"
    using assms(2) m by (simp add: walk_ok_def)
  then show ?thesis
    using walk_payload_invariant [where P = "\<lambda>w c. walk_ok sha1 w \<and> (\<forall>x \<in> set c. pending_ok x)", OF _ p]
      walk_entry_ok [OF _ _ prefix] by auto
qed

lemma walk_trees_ok:
  fixes l :: "nat \<Rightarrow> 'limit"
  shows "walk_trees (\<lambda>k i n. get k i (l n)) stack w = Inr w' \<Longrightarrow> walk_ok sha1 w \<Longrightarrow>
    \<forall>c \<in> set stack. pending_ok c \<Longrightarrow> walk_ok sha1 w'"
proof (induction "\<lambda>k i n. get k i (l n)" stack w arbitrary: w' rule: walk_trees.induct)
  case (2 item stack w)
  from "2.prems"(1) obtain w1 children where
    t: "walk_tree (\<lambda>k i n. get k i (l n)) item w = Inr (w1, children)"
    and r: "walk_trees (\<lambda>k i n. get k i (l n)) (children @ stack) w1 = Inr w'"
    by (auto simp: bindE_eq_Inr)
  from walk_tree_ok [OF t "2.prems"(2)] "2.prems"(3) "2.hyps" [OF t refl r] show ?case by auto
qed simp

lemma commit_files_ok:
  fixes l :: "nat \<Rightarrow> 'limit"
  assumes "commit_files_by (\<lambda>k i n. get k i (l n)) exists commit = Inr fs"
  shows "\<exists>w. walk_ok sha1 w \<and> files w = fs"
proof -
  from assms obtain root_tree w where
    "walk_trees (\<lambda>k i n. get k i (l n)) [(root_tree, [], 0)] start_walk = Inr w" "files w = fs"
    by (auto simp: commit_files_by_def bindE_eq_Inr Let_def split: if_splits sum.splits)
  from walk_trees_ok [OF this(1)] this(2) show ?thesis
    by (auto simp: walk_ok_def start_walk_def pending_ok_def)
qed

end

section \<open>Two databases\<close>

text \<open>Two readers that agree wherever both succeed make the walks agree wherever both succeed.\<close>

definition readers_agree :: "bounded_reader \<Rightarrow> bounded_reader \<Rightarrow> bool" where
  "readers_agree get get' \<longleftrightarrow> (\<forall>k i n p q. get k i n = Inr p \<longrightarrow> get' k i n = Inr q \<longrightarrow> p = q)"

lemma walk_entry_agree:
  assumes "readers_agree get get'"
    and "walk_entry get prefix depth e w c = Inr r" and "walk_entry get' prefix depth e w c = Inr r'"
  shows "r = r'"
proof -
  obtain mb nb ib where e: "e = (mb, nb, ib)" by (cases e)
  let ?lim = "MAX_GIT_ARCHIVE_BYTES - total_payload w"
  have same: "p = q" if "get ''blob'' (hexdigest ib) ?lim = Inr p" "get' ''blob'' (hexdigest ib) ?lim = Inr q" for p q
    using assms(1) that by (auto simp: readers_agree_def)
  show ?thesis
    using assms(2,3) same
    by (cases "get ''blob'' (hexdigest ib) ?lim"; cases "get' ''blob'' (hexdigest ib) ?lim")
      (auto simp: walk_entry_def e Let_def bindE_eq_Inr split: if_splits sum.splits)
qed

lemma walk_payload_agree:
  assumes "readers_agree get get'"
  shows "walk_payload get payload prefix depth cursor w c = Inr r \<Longrightarrow>
    walk_payload get' payload prefix depth cursor w c = Inr r' \<Longrightarrow> r = r'"
proof (induction "length payload - cursor" arbitrary: cursor w c rule: less_induct)
  case less
  obtain w1 c1 w2 c2 where r: "r = (w1, c1)" "r' = (w2, c2)" by (cases r, cases r')
  show ?case
  proof (cases "cursor < length payload")
    case True
    with less.prems [unfolded r walk_payload_Inr [of _ payload prefix depth cursor]]
    obtain m n i nx a b a' b' where s: "tree_record payload cursor = Some (m, n, i, nx)"
      "walk_entry get prefix depth (m, n, i) w c = Inr (a, b)" "walk_payload get payload prefix depth nx a b = Inr r"
      "walk_entry get' prefix depth (m, n, i) w c = Inr (a', b')" "walk_payload get' payload prefix depth nx a' b' = Inr r'"
      by (auto simp: r)
    have "a' = a" "b' = b" using walk_entry_agree [OF assms s(2,4)] by simp_all
    moreover have "length payload - nx < length payload - cursor" using tree_record_advances [OF s(1)] True by linarith
    ultimately show ?thesis using less.hyps [OF _ s(3)] s(5) by simp
  next
    case False
    with less.prems [unfolded r walk_payload_Inr [of _ payload prefix depth cursor]] show ?thesis by (auto simp: r)
  qed
qed

lemma walk_tree_agree:
  assumes "readers_agree get get'"
    and "walk_tree get item w = Inr r" and "walk_tree get' item w = Inr r'"
  shows "r = r'"
proof -
  obtain t prefix depth where item: "item = (t, prefix, depth)" by (cases item)
  from assms(2,3) obtain p q where r: "get ''tree'' t (MAX_GIT_TREE_METADATA_BYTES - total_tree_metadata w) = Inr p"
    "get' ''tree'' t (MAX_GIT_TREE_METADATA_BYTES - total_tree_metadata w) = Inr q"
    "walk_payload get p prefix depth 0 (w\<lparr>total_tree_metadata := total_tree_metadata w + length p\<rparr>) [] = Inr r"
    "walk_payload get' q prefix depth 0 (w\<lparr>total_tree_metadata := total_tree_metadata w + length q\<rparr>) [] = Inr r'"
    by (auto simp: walk_tree_def item Let_def bindE_eq_Inr split: if_splits)
  have "p = q" using assms(1) r(1,2) by (auto simp: readers_agree_def)
  with walk_payload_agree [OF assms(1) r(3)] r(4) show ?thesis by simp
qed

lemma walk_trees_agree:
  "readers_agree get get' \<Longrightarrow> walk_trees get stack w = Inr r \<Longrightarrow> walk_trees get' stack w = Inr r' \<Longrightarrow> r = r'"
proof (induction get stack w rule: walk_trees.induct)
  case (2 get item stack w)
  from "2.prems"(2,3) obtain w1 c1 w2 c2 where t: "walk_tree get item w = Inr (w1, c1)"
    "walk_tree get' item w = Inr (w2, c2)" "walk_trees get (c1 @ stack) w1 = Inr r"
    "walk_trees get' (c2 @ stack) w2 = Inr r'" by (auto simp: bindE_eq_Inr)
  have "w2 = w1" "c2 = c1" using walk_tree_agree [OF "2.prems"(1) t(1,2)] by simp_all
  with "2.IH" [OF t(1) refl "2.prems"(1) t(3)] t(4) show ?case by simp
qed simp

lemma commit_files_agree:
  assumes "readers_agree get get'"
    and "commit_files_by get ex commit = Inr fs" and "commit_files_by get' ex' commit = Inr fs'"
  shows "fs = fs'"
proof -
  from assms(2,3) obtain p q where r: "get ''commit'' commit 1048576 = Inr p" "get' ''commit'' commit 1048576 = Inr q"
    by (auto simp: commit_files_by_def bindE_eq_Inr split: if_splits)
  have "p = q" using assms(1) r by (auto simp: readers_agree_def)
  with assms(2,3) r obtain t w w' where
    "walk_trees get [(t, [], 0)] start_walk = Inr w" "files w = fs"
    "walk_trees get' [(t, [], 0)] start_walk = Inr w'" "files w' = fs'"
    by (auto simp: commit_files_by_def bindE_eq_Inr Let_def simp del: walk_trees.simps split: if_splits sum.splits)
  with walk_trees_agree [OF assms(1)] show ?thesis by blast
qed

lemma verified_reader: "object_reader sha1 (verified_git_object sha1 ps g)"
  by unfold_locales
    (auto simp: verified_git_object_def bindE_eq_Inr split: if_splits)

interpretation verified: object_reader sha1 "verified_git_object sha1 ps g"
  for sha1 ps g
  by (rule verified_reader)

interpretation verified_pair: reader_pair sha1 "verified_git_object sha1 ps g" "verified_git_object sha1 ps' g'"
  for sha1 ps g ps' g'
  by (intro reader_pair.intro verified_reader)

interpretation boot_and_verified: reader_pair sha1 "\<lambda>kind i (u :: unit). bootstrap_git_object sha1 b kind i"
    "verified_git_object sha1 ps g"
  for sha1 b ps g
  by (intro reader_pair.intro bootstrap_reader verified_reader)

lemma verified_readers_agree:
  "\<not> collision sha1 \<Longrightarrow> readers_agree (verified_git_object sha1 ps g) (verified_git_object sha1 ps' g')"
  unfolding readers_agree_def using verified_pair.same_object by blast

lemma verified_files_ok:
  assumes "verified_commit_files sha1 ps g commit cache = (Inr fs, cache')"
    and "\<forall>c fs. cache = Some (c, fs) \<longrightarrow> (\<exists>w. walk_ok sha1 w \<and> files w = fs)"
  shows "(\<exists>w. walk_ok sha1 w \<and> files w = fs) \<and> cache' = Some (commit, fs)"
  using assms verified.commit_files_ok [of sha1 ps g "\<lambda>n. n"]
  by (auto simp: verified_commit_files_def split: option.splits sum.splits if_splits)

lemma worktree_content:
  assumes "worktree_file_matches sha1 wt path mode oid (length blob)" and "git_object_id sha1 ''blob'' blob = oid"
  shows "\<exists>f. open_file wt path = Some f \<and> \<not> is_symlink wt path \<and> (concat (read_chunks f) = blob \<or> collision sha1)"
proof -
  from assms(1) obtain f where f: "open_file wt path = Some f" "\<not> is_symlink wt path"
    "length (concat (read_chunks f)) = length blob"
    "hexdigest (sha1 (object_header ''blob'' (length blob) @ concat (read_chunks f))) = oid"
    by (auto simp: worktree_file_matches_def Let_def split: option.splits if_splits)
  have "git_object_id sha1 ''blob'' (concat (read_chunks f)) = git_object_id sha1 ''blob'' blob"
    using f assms(2) by (simp add: git_object_id_def)
  with git_object_id_inject f show ?thesis by blast
qed

text \<open>A repository with one file, an index and a work tree that agree with it.\<close>

definition demo_head :: pystr where "demo_head = hexdigest (demo_oid 56)"

definition demo_git :: trusted_executable where
  "demo_git = pin ''git'' [lit ''usr'', lit ''bin'', lit ''git''] [lit ''usr'', lit ''bin'', lit ''git''] 5 (demo_inode 5)"

definition demo_git_output :: "pystr list \<Rightarrow> bytes" where
  "demo_git_output args =
     (if args = [lit ''rev-parse'', lit ''HEAD''] then utf8_bytes (demo_head @ [10])
      else if args = [lit ''ls-files'', lit ''-t'', lit ''-v''] then utf8_bytes (lit ''H tools/mm.py'' @ [10])
      else if args = [lit ''ls-files'', lit ''-s'', lit ''-z'']
      then utf8_bytes (lit ''100644 '' @ hexdigest (demo_oid 9) @ lit '' 0'' @ [9] @ lit ''tools/mm.py'' @ [0])
      else if args ! 1 = lit ''-t'' then utf8_bytes (lit ''commit'' @ [10])
      else case lookup demo_database (last args) of None \<Rightarrow> [] | Some p \<Rightarrow> p)"

definition demo_git_processes :: processes where
  "demo_git_processes t args =
     \<lparr>fd_before = Some (demo_inode 5), stdout_chunks = [demo_git_output args], stderr_bytes = [],
      returncode = 0, fd_after = Some (demo_inode 5)\<rparr>"

definition demo_commit_files :: commit_files where
  "demo_commit_files = [(lit ''tools/mm.py'', lit ''100644'', hexdigest (demo_oid 9), [1, 2])]"

definition demo_work_info :: inode_info where
  "demo_work_info = \<lparr>st_dev = 1, st_ino = 3, st_size = 2, st_mtime_ns = 7, st_mode = 0x81A4\<rparr>"

definition demo_work_tree :: work_tree where
  "demo_work_tree =
     \<lparr>lstat_of = (\<lambda>_. Some demo_work_info), is_symlink = (\<lambda>_. False),
      open_file = (\<lambda>_. Some \<lparr>fstat_opened = demo_work_info, read_chunks = [[1], [2]], fstat_final = demo_work_info\<rparr>),
      read_bytes = (\<lambda>_. Some [1, 2])\<rparr>"

lemma demo_commit_read:
  "verified_commit_files demo_sha1 demo_git_processes demo_git demo_head None =
     (Inr demo_commit_files, Some (demo_head, demo_commit_files))"
  by code_simp

lemma demo_tree_clean:
  "tracked_tree_clean demo_sha1 demo_git_processes demo_git demo_work_tree None =
     (Inr True, Some (demo_head, demo_commit_files))"
  by code_simp

section \<open>Properties\<close>

text \<open>C18: The files of a commit are determined by its identity: whatever two object databases and git
  processes answer, two successful reads of the same commit give the same files - paths, modes,
  identities and contents - or exhibit a SHA-1 collision.\<close>

theorem commit_files_determined:
  assumes "verified_commit_files sha1 ps g commit None = (Inr fs, cache)"
    and "verified_commit_files sha1 ps' g' commit None = (Inr fs', cache')"
  shows "fs = fs' \<or> collision sha1"
  using assms commit_files_agree [OF verified_readers_agree [of sha1 ps g ps' g']]
  by (auto simp: verified_commit_files_def split: sum.splits)

theorem commit_files_determined_witness: "demo_commit_files = demo_commit_files \<or> collision demo_sha1"
  by (rule commit_files_determined [OF demo_commit_read demo_commit_read])

text \<open>C19: Every file a successful read returns is confined and within the limits: the paths are distinct, of
  at most 4096 bytes, and made of components that are not empty, dot, dot dot or contain a separator;
  every content hashes to its identity; there are at most 32768 files of together at most 64 MiB. The
  cache, if it was right before, is right after.\<close>

theorem commit_files_bounded:
  assumes "verified_commit_files sha1 ps g commit cache = (Inr fs, cache')"
    and "\<forall>c fs. cache = Some (c, fs) \<longrightarrow> (\<exists>w. walk_ok sha1 w \<and> files w = fs)"
  shows "distinct (map fst fs) \<and> (\<forall>f \<in> set fs. file_ok sha1 f) \<and> length fs \<le> MAX_GIT_TREE_ENTRIES \<and>
    sum_list (map (\<lambda>(_, _, _, blob). length blob) fs) \<le> MAX_GIT_ARCHIVE_BYTES \<and> cache' = Some (commit, fs)"
  using verified_files_ok [OF assms] by (auto simp: walk_ok_def)

theorem commit_files_bounded_witness:
  "length demo_commit_files \<le> MAX_GIT_TREE_ENTRIES \<and> list_all (file_ok demo_sha1) demo_commit_files"
  using commit_files_bounded [OF demo_commit_read] by (simp add: list_all_iff)

text \<open>C21: When the tree counts as clean, every file of the head commit is in the index with the same mode and
  identity and nothing else is, and the bytes read from the work tree are the bytes of the commit, or
  they exhibit a SHA-1 collision.\<close>

theorem tracked_tree_clean_sound:
  assumes "tracked_tree_clean sha1 ps g wt None = (Inr True, cache)"
  shows "\<exists>head fs idx. git_head ps g = Inr head \<and> cache = Some (head, fs) \<and>
    index_entries ps g = Inr (Some idx) \<and> set idx = set (expected_index fs) \<and>
    (\<forall>(path, mode, oid, blob) \<in> set fs. \<exists>f. open_file wt path = Some f \<and> \<not> is_symlink wt path \<and>
       (concat (read_chunks f) = blob \<or> collision sha1))"
proof -
  from assms obtain head fs idx where h: "git_head ps g = Inr head"
    "verified_commit_files sha1 ps g head None = (Inr fs, cache)" "index_entries ps g = Inr (Some idx)"
    "same_dict idx (expected_index fs)"
    "list_all (\<lambda>(path, mode, oid, blob). worktree_file_matches sha1 wt path mode oid (length blob)) fs"
    by (auto simp: tracked_tree_clean_def split: sum.splits bool.splits prod.splits option.splits)
  have cache: "cache = Some (head, fs)" using h(2) by (auto simp: verified_commit_files_def split: sum.splits)
  have ok: "\<forall>f \<in> set fs. file_ok sha1 f" using verified_files_ok [OF h(2)] by (auto simp: walk_ok_def)
  have "\<exists>f. open_file wt path = Some f \<and> \<not> is_symlink wt path \<and> (concat (read_chunks f) = blob \<or> collision sha1)"
    if "(path, mode, oid, blob) \<in> set fs" for path mode oid blob
  proof -
    have "worktree_file_matches sha1 wt path mode oid (length blob)" using h(5) that by (auto simp: list_all_iff)
    moreover have "git_object_id sha1 ''blob'' blob = oid" using ok that by (auto simp: file_ok_def)
    ultimately show ?thesis by (rule worktree_content)
  qed
  with h cache show ?thesis by (auto simp: same_dict_def)
qed

theorem tracked_tree_clean_sound_witness:
  "\<exists>head fs idx. git_head demo_git_processes demo_git = Inr head \<and> Some (demo_head, demo_commit_files) = Some (head, fs) \<and>
    index_entries demo_git_processes demo_git = Inr (Some idx) \<and> set idx = set (expected_index fs) \<and>
    list_all (\<lambda>(path, mode, oid, blob). \<exists>f. open_file demo_work_tree path = Some f \<and>
       \<not> is_symlink demo_work_tree path \<and> (concat (read_chunks f) = blob \<or> collision demo_sha1)) fs"
  unfolding list_all_iff by (rule tracked_tree_clean_sound [OF demo_tree_clean])

end
