(* ===== verification/Cargo_Manifest.thy ===== *)
theory Cargo_Manifest
  imports Py_Values
begin

text \<open>
  The frozen Cargo target surface of \<open>tools/run_moriarty.py\<close>:
  \<open>_cargo_dependency_table_reject_path\<close>, \<open>_reject_repository_cargo_execution_hooks\<close> and
  \<open>validate_rust_target_topology\<close>. The manifest is the value that \<open>tomllib\<close> returns (TOML keys are
  texts), the directory tree is what the system calls of the validator answer.
\<close>

section \<open>Dependency tables\<close>

definition colon :: "pystr \<Rightarrow> pystr \<Rightarrow> pystr" where "colon a b = a @ [58] @ b"

definition cargo_dependency_table_reject_path :: "pyval \<Rightarrow> pystr \<Rightarrow> unit result" where
  "cargo_dependency_table_reject_path table label =
     (if table = PNone then Inr ()
      else if \<not> is_dict table then Inl (SystemExitFor ''moriarty_cargo_dependency_table_invalid:'' label)
      else eachE (\<lambda>(dependency_name, specification).
          if dependency_name = [] then Inl (SystemExitFor ''moriarty_cargo_dependency_name_invalid:'' label)
          else if is_dict specification \<and> lookup (dict_of specification) (lit ''path'') \<noteq> None
          then Inl (SystemExitFor ''moriarty_cargo_path_dependency_forbidden:'' (colon label dependency_name))
          else Inr ())
        (dict_of table))"

definition DEPENDENCY_TABLES :: "string list" where
  "DEPENDENCY_TABLES = [''dependencies'', ''dev-dependencies'', ''build-dependencies'']"

text \<open>The loop over the three tables, for the manifest and for one target selector.\<close>

definition dependency_tables :: "pydict \<Rightarrow> (string \<Rightarrow> pystr) \<Rightarrow> string \<Rightarrow> unit result" where
  "dependency_tables d label forbidden =
     eachE (\<lambda>table_name. let table = dget d table_name in
         bindE (cargo_dependency_table_reject_path table (label table_name)) (\<lambda>_.
         if table_name = ''build-dependencies'' \<and> is_dict table \<and> dict_of table \<noteq> []
         then Inl (SystemExit forbidden) else Inr ()))
       DEPENDENCY_TABLES"

definition has :: "pydict \<Rightarrow> string \<Rightarrow> bool" where
  "has d k \<longleftrightarrow> lookup d (lit k) \<noteq> None"

definition reject_repository_cargo_execution_hooks :: "pydict \<Rightarrow> bool \<Rightarrow> unit result" where
  "reject_repository_cargo_execution_hooks manifest build_rs_exists =
     (let package = dget manifest ''package''; targets = dget manifest ''target'' in
      if \<not> is_dict package then Inl (SystemExit ''moriarty_cargo_package_identity_drift'')
      else if \<not> (dget (dict_of package) ''build'' = PNone \<or> py_eq (dget (dict_of package) ''build'') (PBool False))
              \<or> build_rs_exists
      then Inl (SystemExit ''moriarty_cargo_package_build_script_forbidden'')
      else if has (dict_of package) ''links'' then Inl (SystemExit ''moriarty_cargo_package_links_forbidden'')
      else if has manifest ''patch'' \<or> has manifest ''replace''
      then Inl (SystemExit ''moriarty_cargo_dependency_override_forbidden'')
      else bindE (dependency_tables manifest lit ''moriarty_cargo_build_dependencies_forbidden'') (\<lambda>_.
        if targets = PNone then Inr ()
        else if \<not> is_dict targets
        then Inl (SystemExit ''moriarty_cargo_target_dependency_table_invalid'')
        else eachE (\<lambda>(selector, target_tables).
            if \<not> is_dict target_tables
            then Inl (SystemExit ''moriarty_cargo_target_dependency_table_invalid'')
            else dependency_tables (dict_of target_tables)
                   (\<lambda>table_name. colon (lit ''target:'' @ selector) (lit table_name))
                   ''moriarty_cargo_target_build_dependencies_forbidden'')
          (dict_of targets)))"

section \<open>The topology\<close>

datatype lstat_answer = NotFound | Unreadable | Found

record source_tree =
  cargo_toml :: "pydict option"
  config_lstat :: "string \<Rightarrow> lstat_answer"
  build_rs :: bool
  lib_is_file :: bool
  lib_is_symlink :: bool
  bin_entries :: "(pystr \<times> bool \<times> bool) list option"

definition EXPECTED_RUST_BIN_TARGETS :: "string list" where
  "EXPECTED_RUST_BIN_TARGETS =
     [''qsol-fed.rs'', ''qsol-fed-bundle.rs'', ''qsol-fed-oracle.rs'', ''qsol-fed-sdk-conformance.rs'']"

definition AUTO_FLAGS :: "string list" where
  "AUTO_FLAGS = [''autolib'', ''autobins'', ''autoexamples'', ''autotests'', ''autobenches'']"

definition EXPLICIT_TARGETS :: "string list" where
  "EXPLICIT_TARGETS = [''lib'', ''bin'', ''example'', ''test'', ''bench'', ''workspace'']"

text \<open>\<open>entry.suffix == ".rs"\<close>: the name ends in .rs and does not start there.\<close>

definition suffix_rs :: "pystr \<Rightarrow> bool" where
  "suffix_rs nm \<longleftrightarrow> 3 < length nm \<and> drop (length nm - 3) nm = lit ''.rs''"

definition actual_bins :: "(pystr \<times> bool \<times> bool) list \<Rightarrow> pystr set" where
  "actual_bins entries = fst ` set (filter (\<lambda>(nm, is_file, is_symlink). is_file \<and> \<not> is_symlink \<and> suffix_rs nm) entries)"

definition reject_project_config :: "source_tree \<Rightarrow> unit result" where
  "reject_project_config t =
     eachE (\<lambda>config_name. case config_lstat t config_name of
         NotFound \<Rightarrow> Inr ()
       | Unreadable \<Rightarrow> Inl (SystemExit ''moriarty_cargo_project_config_unreadable'')
       | Found \<Rightarrow> Inl (SystemExitFor ''moriarty_cargo_project_config_forbidden:'' (lit config_name)))
     [''config'', ''config.toml'']"

definition validate_rust_target_topology :: "source_tree \<Rightarrow> unit result" where
  "validate_rust_target_topology t = (case cargo_toml t of
     None \<Rightarrow> Inl (SystemExit ''moriarty_cargo_manifest_invalid'')
   | Some manifest \<Rightarrow>
       bindE (reject_project_config t) (\<lambda>_.
       let package = dget manifest ''package'' in
       if \<not> is_dict package \<or> \<not> py_eq (dget (dict_of package) ''name'') (PStr (lit ''qsol-fed''))
       then Inl (SystemExit ''moriarty_cargo_package_identity_drift'')
       else bindE (reject_repository_cargo_execution_hooks manifest (build_rs t)) (\<lambda>_.
       bindE (eachE (\<lambda>flag. guardE (lookup (dict_of package) (lit flag) = None \<or>
                lookup (dict_of package) (lit flag) = Some (PBool True))
                (SystemExitFor ''moriarty_cargo_auto_target_disabled:'' (lit flag))) AUTO_FLAGS) (\<lambda>_.
       bindE (eachE (\<lambda>key. guardE (\<not> has manifest key)
                (SystemExitFor ''moriarty_cargo_explicit_target_override:'' (lit key))) EXPLICIT_TARGETS) (\<lambda>_.
       if \<not> lib_is_file t \<or> lib_is_symlink t then Inl (SystemExit ''moriarty_cargo_library_target_missing'')
       else case bin_entries t of
         None \<Rightarrow> Inl (SystemExit ''moriarty_cargo_bin_target_directory_missing'')
       | Some entries \<Rightarrow>
           guardE (actual_bins entries = lit ` set EXPECTED_RUST_BIN_TARGETS)
             (SystemExit ''moriarty_cargo_bin_target_surface_drift''))))))"

section \<open>The specification\<close>

text \<open>A table that names no local path, and a table of tables without build dependencies.\<close>

definition plain_table :: "pyval \<Rightarrow> bool" where
  "plain_table table \<longleftrightarrow> table = PNone \<or> is_dict table \<and>
     (\<forall>(nm, spec) \<in> set (dict_of table). nm \<noteq> [] \<and> (is_dict spec \<longrightarrow> lookup (dict_of spec) (lit ''path'') = None))"

definition plain_tables :: "pydict \<Rightarrow> bool" where
  "plain_tables d \<longleftrightarrow> plain_table (dget d ''dependencies'') \<and> plain_table (dget d ''dev-dependencies'') \<and>
     (dget d ''build-dependencies'' = PNone \<or> dget d ''build-dependencies'' = PDict [])"

definition hook_free :: "pydict \<Rightarrow> bool" where
  "hook_free manifest \<longleftrightarrow>
     (\<exists>package. dget manifest ''package'' = PDict package \<and>
        (dget package ''build'' = PNone \<or> py_eq (dget package ''build'') (PBool False)) \<and> \<not> has package ''links'') \<and>
     \<not> has manifest ''patch'' \<and> \<not> has manifest ''replace'' \<and> plain_tables manifest \<and>
     (dget manifest ''target'' = PNone \<or>
      (\<exists>targets. dget manifest ''target'' = PDict targets \<and>
         (\<forall>(selector, tables) \<in> set targets. \<exists>d. tables = PDict d \<and> plain_tables d)))"

lemma is_dict_iff: "is_dict v \<longleftrightarrow> (\<exists>d. v = PDict d)"
  by (cases v) auto

lemma reject_path_Inr: "cargo_dependency_table_reject_path table label = Inr () \<longleftrightarrow> plain_table table"
  by (auto simp: cargo_dependency_table_reject_path_def plain_table_def eachE_eq_Inr case_prod_unfold split: if_splits)

lemma dependency_tables_Inr: "dependency_tables d label e = Inr () \<longleftrightarrow> plain_tables d"
proof -
  have "plain_table t \<and> \<not> (is_dict t \<and> dict_of t \<noteq> []) \<longleftrightarrow> t = PNone \<or> t = PDict []" for t
    by (auto simp: plain_table_def is_dict_iff)
  then show ?thesis
    by (auto simp: dependency_tables_def DEPENDENCY_TABLES_def plain_tables_def bindE_eq_Inr reject_path_Inr Let_def
        split: if_splits)
qed

lemma target_tables_Inr:
  "(if \<not> is_dict v then Inl e else dependency_tables (dict_of v) l f) = Inr () \<longleftrightarrow> (\<exists>d. v = PDict d \<and> plain_tables d)"
  by (cases v) (simp_all add: dependency_tables_Inr)

lemma hooks_Inr:
  "reject_repository_cargo_execution_hooks manifest b = Inr () \<longleftrightarrow> hook_free manifest \<and> \<not> b"
  by (auto simp: reject_repository_cargo_execution_hooks_def hook_free_def Let_def bindE_eq_Inr eachE_eq_Inr
      target_tables_Inr dependency_tables_Inr is_dict_iff [of "dget manifest _"] case_prod_unfold split: if_splits)

lemma project_config_Inr:
  "reject_project_config t = Inr () \<longleftrightarrow> config_lstat t ''config'' = NotFound \<and> config_lstat t ''config.toml'' = NotFound"
  by (cases "config_lstat t ''config''"; cases "config_lstat t ''config.toml''")
    (simp_all add: reject_project_config_def)

lemma eachE_guardE [simp]: "eachE (\<lambda>x. guardE (p x) (e x)) xs = Inr () \<longleftrightarrow> (\<forall>x \<in> set xs. p x)"
  by (simp add: eachE_eq_Inr)

section \<open>Properties\<close>

text \<open>The topology check accepts a source tree exactly if its manifest is readable, is the qsol-fed package
  with no build script, no links key, no patched, replaced or path dependency and no build dependency in
  any of its own or target-specific tables, with every automatic target discovery on and no target
  declared by hand; no Cargo configuration file is there, the library is a plain file, and the binary
  targets are exactly the four expected ones.\<close>

theorem rust_topology_accepts_iff:
  "validate_rust_target_topology t = Inr () \<longleftrightarrow>
     config_lstat t ''config'' = NotFound \<and> config_lstat t ''config.toml'' = NotFound \<and>
     (\<exists>manifest package. cargo_toml t = Some manifest \<and> dget manifest ''package'' = PDict package \<and>
        py_eq (dget package ''name'') (PStr (lit ''qsol-fed'')) \<and> hook_free manifest \<and>
        list_all (\<lambda>flag. lookup package (lit flag) = None \<or> lookup package (lit flag) = Some (PBool True)) AUTO_FLAGS \<and>
        \<not> list_ex (has manifest) EXPLICIT_TARGETS) \<and>
     \<not> build_rs t \<and> lib_is_file t \<and> \<not> lib_is_symlink t \<and>
     (\<exists>entries. bin_entries t = Some entries \<and> actual_bins entries = lit ` set EXPECTED_RUST_BIN_TARGETS)"
  by (cases "cargo_toml t"; cases "bin_entries t")
    (auto simp: validate_rust_target_topology_def Let_def bindE_eq_Inr project_config_Inr hooks_Inr is_dict_iff
      list_all_iff list_ex_iff split: if_splits)

end
