(* ===== verification/Moriarty_Registry.thy ===== *)
theory Moriarty_Registry
  imports Sdk_Envelope Git_Objects
begin

text \<open>
  The attack corpus, the counterexamples and their registry in \<open>tools/run_moriarty.py\<close>:
  \<open>validate_attack_corpus\<close>, \<open>validate_counterexample_shape\<close>, \<open>validate_registry\<close>,
  \<open>generated_counterexample\<close> and \<open>counterexample_failure_matches\<close>. A counterexample is named by the
  digest of its discovery facts; SHA-256, normalisation and the answers of git are parameters.
\<close>

section \<open>Constants\<close>

definition PROTOCOL :: string where "PROTOCOL = ''MORIARTY/1''"
definition REPORT_SCHEMA :: string where "REPORT_SCHEMA = ''moriarty-report/1''"
definition COUNTEREXAMPLE_SCHEMA :: string where "COUNTEREXAMPLE_SCHEMA = ''moriarty-counterexample/1''"
definition ATTACK_CORPUS_SCHEMA :: string where "ATTACK_CORPUS_SCHEMA = ''moriarty-attack-corpus/1''"
definition REGISTRY_SCHEMA :: string where "REGISTRY_SCHEMA = ''moriarty-counterexample-registry/1''"
definition MAX_PROBE_OUTPUT_BYTES :: nat where "MAX_PROBE_OUTPUT_BYTES = 1048576"
definition MAX_ACCEPTED_COUNTEREXAMPLES :: nat where "MAX_ACCEPTED_COUNTEREXAMPLES = 32"
definition MAX_OWNER_PHASES :: nat where "MAX_OWNER_PHASES = 12"
definition MAX_BOUNDARY_IDS :: nat where "MAX_BOUNDARY_IDS = 32"
definition MAX_ATTACK_PROBE_IDS :: nat where "MAX_ATTACK_PROBE_IDS = 16"

definition EXPECTED_FAMILIES :: "string list" where
  "EXPECTED_FAMILIES =
     [''canonical_parser_differentials'', ''signature_domain_key_role_confusion'', ''replay_downgrade_clock'',
      ''http_rate_proxy_ddos_shape'', ''ssrf_decompression'', ''crash_fsync_restart'',
      ''lifecycle_partition_history'', ''import_provenance_authority_laundering'', ''adapter_confusion'',
      ''holodeck_escape'', ''safeguard_persuasion'', ''nested_world_amplification'',
      ''assembly_capture_representation'', ''transport_nat_relay_store_forward_archive'',
      ''cross_phase_contradictions'']"

definition ALLOWED_OWNER_PHASES :: "string list" where
  "ALLOWED_OWNER_PHASES = [''0'', ''1'', ''2'', ''3'', ''4'', ''5A'', ''5'', ''5C'', ''6'', ''7'', ''8'', ''cross-phase'']"

definition PROBES :: "string list" where
  "PROBES = [''constitution'', ''phase0'', ''phase1'', ''phase2'', ''phase3'', ''phase4'', ''phase5a'', ''phase5'',
     ''phase5c'', ''phase6'', ''phase7'', ''phase8'', ''rust_all'']"

definition ATTACK_ID :: rx where
  "ATTACK_ID = Seq (rlit ''MOR-'') (Rep (Cls [rng CHR ''0'' CHR ''9'']) 3 3)"

definition BOUNDARY_ID :: rx where
  "BOUNDARY_ID = Rep (Cls ([rng CHR ''a'' CHR ''z'', rng CHR ''0'' CHR ''9''] @ chars ''_./-'')) 1 128"

section \<open>Shapes\<close>

definition one_of :: "string list \<Rightarrow> pystr \<Rightarrow> bool" where
  "one_of ks s \<longleftrightarrow> s \<in> set (map lit ks)"

text \<open>The operands that refuse a value which is not a list of 1 to n distinct texts with a property.\<close>

definition bad_strings :: "nat \<Rightarrow> (pystr \<Rightarrow> bool) \<Rightarrow> pyval \<Rightarrow> (bool result) list" where
  "bad_strings n p v =
     [Inr (\<not> is_list v), Inr (\<not> (1 \<le> length (items_of v) \<and> length (items_of v) \<le> n)),
      Inr (\<not> list_all (\<lambda>x. is_str x \<and> p (str_of x)) (items_of v)), has_duplicates (items_of v)]"

definition matches :: "rx \<Rightarrow> pyval \<Rightarrow> bool" where
  "matches r v \<longleftrightarrow> is_str v \<and> rx_match r (str_of v)"

definition CORPUS_KEYS :: "string list" where
  "CORPUS_KEYS = [''schema'', ''protocol'', ''attacks'', ''production_credentials_allowed'',
     ''production_targets_allowed'', ''constitutional_bypass_allowed'', ''authority_effect'']"

definition ATTACK_KEYS :: "string list" where
  "ATTACK_KEYS = [''id'', ''family'', ''owner_phases'', ''boundary_ids'', ''probe_ids'']"

text \<open>One attack, with the identifiers and families seen before it.\<close>

definition validate_attack :: "pystr list \<times> pystr list \<Rightarrow> pyval \<Rightarrow> (pystr list \<times> pystr list) result" where
  "validate_attack seen attack = (case seen of (ids, families) \<Rightarrow>
     let a = dict_of attack; i = dget a ''id''; f = dget a ''family'' in
     if \<not> is_dict attack then Inl (SystemExit ''moriarty_attack_record_invalid'')
     else if \<not> keys_are a ATTACK_KEYS then Inl (SystemExit ''moriarty_attack_field_set_invalid'')
     else bindE (failIf (SystemExit ''moriarty_attack_invalid:'')
         ([Inr (\<not> matches ATTACK_ID i \<or> str_of i \<in> set ids),
           Inr (\<not> is_str f \<or> \<not> one_of EXPECTED_FAMILIES (str_of f) \<or> str_of f \<in> set families)] @
          bad_strings MAX_OWNER_PHASES (one_of ALLOWED_OWNER_PHASES) (dget a ''owner_phases'') @
          bad_strings MAX_BOUNDARY_IDS (rx_match BOUNDARY_ID) (dget a ''boundary_ids'') @
          bad_strings MAX_ATTACK_PROBE_IDS (one_of PROBES) (dget a ''probe_ids''))) (\<lambda>_.
       Inr (str_of i # ids, str_of f # families)))"

definition validate_attack_corpus :: "pydict \<Rightarrow> (pydict list) result" where
  "validate_attack_corpus corpus =
     (let attacks = dget corpus ''attacks'' in
      if \<not> keys_are corpus CORPUS_KEYS then Inl (SystemExit ''moriarty_attack_corpus_field_set_invalid'')
      else if \<not> py_eq (dget corpus ''schema'') (PS ATTACK_CORPUS_SCHEMA)
         \<or> \<not> py_eq (dget corpus ''protocol'') (PS PROTOCOL)
         \<or> dget corpus ''production_credentials_allowed'' \<noteq> PBool False
         \<or> dget corpus ''production_targets_allowed'' \<noteq> PBool False
         \<or> dget corpus ''constitutional_bypass_allowed'' \<noteq> PBool False
         \<or> \<not> py_eq (dget corpus ''authority_effect'') (PS ''none'')
      then Inl (SystemExit ''moriarty_attack_corpus_boundary_invalid'')
      else if \<not> is_list attacks \<or> length (items_of attacks) \<noteq> 15
      then Inl (SystemExit ''moriarty_attack_count_invalid'')
      else bindE (foldE validate_attack ([], []) (items_of attacks)) (\<lambda>(ids, families).
        if set families \<noteq> set (map lit EXPECTED_FAMILIES)
        then Inl (SystemExit ''moriarty_attack_family_set_drift'')
        else Inr (map dict_of (items_of attacks))))"

section \<open>Counterexamples\<close>

definition canonical_ref :: "(bytes \<Rightarrow> bytes) \<Rightarrow> (pystr \<Rightarrow> pystr) \<Rightarrow> pyval \<Rightarrow> pystr result" where
  "canonical_ref sha256 nfc v =
     bindE (serialize nfc v) (\<lambda>t. bindE (utf8_encode t) (\<lambda>b. Inr (sha256_ref sha256 b)))"

definition MUTABLE_KEYS :: "string list" where
  "MUTABLE_KEYS = [''counterexample_id'', ''status'', ''resolution_commit'']"

definition counterexample_identity_projection :: "pydict \<Rightarrow> pydict" where
  "counterexample_identity_projection item = filter (\<lambda>(key, value). \<not> one_of MUTABLE_KEYS key) item"

definition COUNTEREXAMPLE_KEYS :: "string list" where
  "COUNTEREXAMPLE_KEYS =
     [''schema'', ''counterexample_id'', ''target_commit'', ''attack_id'', ''family'',
      ''owner_phases'', ''boundary_ids'', ''regression_probe_ids'', ''failure_kind'',
      ''observed_exit_code'', ''stdout_sha256'', ''stderr_sha256'', ''stdout_bytes'',
      ''stderr_bytes'', ''stdout_truncated'', ''stderr_truncated'', ''status'', ''resolution_commit'',
      ''production_credentials_used'', ''production_targets_used'', ''constitutional_bypass_used'',
      ''authority_effect'']"

definition bad_count :: "pyval \<Rightarrow> bool" where
  "bad_count v \<longleftrightarrow> \<not> is_int v \<or> is_bool v \<or> \<not> (0 \<le> int_of v \<and> int_of v \<le> int MAX_PROBE_OUTPUT_BYTES)"

text \<open>\<open>probe_id in PROBES\<close> hashes the item, whatever it is.\<close>

definition counterexample_boundary :: "pydict \<Rightarrow> (bool result) list" where
  "counterexample_boundary d =
     [Inr (\<not> py_eq (dget d ''schema'') (PS COUNTEREXAMPLE_SCHEMA)),
      Inr (\<not> matches SHA256_REF (dget d ''counterexample_id'')),
      Inr (\<not> matches TARGET_RE (dget d ''target_commit'')),
      Inr (\<not> matches ATTACK_ID (dget d ''attack_id'')),
      notE' (in_strs (dget d ''family'') (map lit EXPECTED_FAMILIES))] @
     bad_strings MAX_OWNER_PHASES (one_of ALLOWED_OWNER_PHASES) (dget d ''owner_phases'') @
     bad_strings MAX_BOUNDARY_IDS (rx_match BOUNDARY_ID) (dget d ''boundary_ids'') @
     [Inr (\<not> is_list (dget d ''regression_probe_ids'')),
      Inr (length (items_of (dget d ''regression_probe_ids'')) \<noteq> 1),
      notE' (everyE (\<lambda>p. in_strs p (map lit PROBES)) (items_of (dget d ''regression_probe_ids''))),
      notE' (in_strs (dget d ''failure_kind'') (map lit [''exit_nonzero'', ''timeout'', ''tool_error''])),
      notE' (in_strs (dget d ''status'') (map lit [''unresolved'', ''resolved''])),
      Inr (dget d ''production_credentials_used'' \<noteq> PBool False),
      Inr (dget d ''production_targets_used'' \<noteq> PBool False),
      Inr (dget d ''constitutional_bypass_used'' \<noteq> PBool False),
      Inr (\<not> py_eq (dget d ''authority_effect'') (PS ''none'')),
      Inr (\<not> matches SHA256_REF (dget d ''stdout_sha256'')),
      Inr (\<not> matches SHA256_REF (dget d ''stderr_sha256'')),
      Inr (bad_count (dget d ''stdout_bytes'')), Inr (bad_count (dget d ''stderr_bytes'')),
      Inr (\<not> (\<exists>b. dget d ''stdout_truncated'' = PBool b)), Inr (\<not> (\<exists>b. dget d ''stderr_truncated'' = PBool b))]"

definition validate_counterexample_shape ::
  "(bytes \<Rightarrow> bytes) \<Rightarrow> (pystr \<Rightarrow> pystr) \<Rightarrow> pyval \<Rightarrow> unit result" where
  "validate_counterexample_shape sha256 nfc item =
     (let d = dict_of item; code = dget d ''observed_exit_code''; res = dget d ''resolution_commit'' in
      if \<not> is_dict item then Inl (SystemExit ''moriarty_counterexample_not_object'')
      else if \<not> keys_are d COUNTEREXAMPLE_KEYS then Inl (SystemExit ''moriarty_counterexample_field_set_invalid'')
      else bindE (failIf (SystemExit ''moriarty_counterexample_boundary_invalid'') (counterexample_boundary d)) (\<lambda>_.
      bindE (if py_eq (dget d ''failure_kind'') (PS ''exit_nonzero'')
             then guardE (is_int code \<and> \<not> is_bool code \<and> int_of code \<noteq> 0 \<and>
                          - (2 ^ 31) \<le> int_of code \<and> int_of code \<le> 2 ^ 31 - 1)
                    (SystemExit ''moriarty_exit_failure_requires_nonzero_exit_code'')
             else guardE (code = PNone) (SystemExit ''moriarty_nonexit_failure_exit_code_must_be_null'')) (\<lambda>_.
      bindE (if py_eq (dget d ''status'') (PS ''unresolved'')
             then guardE (res = PNone) (SystemExit ''moriarty_unresolved_counterexample_has_resolution_commit'')
             else guardE (matches TARGET_RE res)
                    (SystemExit ''moriarty_resolved_counterexample_missing_resolution_commit'')) (\<lambda>_.
      bindE (canonical_ref sha256 nfc (PDict (counterexample_identity_projection d))) (\<lambda>i.
        guardE (py_eq (dget d ''counterexample_id'') (PStr i))
          (SystemExit ''moriarty_counterexample_identity_mismatch''))))))"

section \<open>The registry\<close>

record history =
  commit_exists :: "pystr \<Rightarrow> bool result"
  is_ancestor :: "pystr \<Rightarrow> pystr \<Rightarrow> bool result"

definition requireE :: "bool result \<Rightarrow> string \<Rightarrow> unit result" where
  "requireE m code = bindE m (\<lambda>b. guardE b (SystemExit code))"

text \<open>\<open>{attack["id"]: attack for attack in attacks}.get(i)\<close>: the last attack with the identifier.\<close>

definition attack_by_id :: "pydict list \<Rightarrow> pyval \<Rightarrow> pydict option" where
  "attack_by_id attacks i = find (\<lambda>a. py_eq (dget a ''id'') i) (rev attacks)"

definition validate_resolution :: "history \<Rightarrow> pystr \<Rightarrow> pystr \<Rightarrow> pystr \<Rightarrow> unit result" where
  "validate_resolution h reviewed finding resolution =
     (if resolution = finding then Inl (SystemExit ''moriarty_resolution_commit_must_follow_finding_target'')
      else bindE (requireE (commit_exists h resolution) ''moriarty_resolution_commit_missing'') (\<lambda>_.
           bindE (requireE (is_ancestor h finding resolution) ''moriarty_resolution_not_descendant_of_finding_target'') (\<lambda>_.
           requireE (is_ancestor h resolution reviewed) ''moriarty_resolution_not_in_reviewed_history'')))"

text \<open>One item, with the identifiers seen and the unresolved items counted before it.\<close>

definition validate_entry ::
  "(bytes \<Rightarrow> bytes) \<Rightarrow> (pystr \<Rightarrow> pystr) \<Rightarrow> history \<Rightarrow> pydict list \<Rightarrow> pystr \<Rightarrow> pystr list \<times> nat \<Rightarrow> pyval \<Rightarrow>
     (pystr list \<times> nat) result" where
  "validate_entry sha256 nfc h attacks reviewed st item = (case st of (seen_ids, unresolved) \<Rightarrow>
     bindE (validate_counterexample_shape sha256 nfc item) (\<lambda>_.
     let d = dict_of item; i = str_of (dget d ''counterexample_id''); finding = str_of (dget d ''target_commit'') in
     if i \<in> set seen_ids then Inl (SystemExit ''moriarty_counterexample_registry_duplicate'')
     else case attack_by_id attacks (dget d ''attack_id'') of
       None \<Rightarrow> Inl (SystemExit ''moriarty_counterexample_attack_not_in_corpus'')
     | Some attack \<Rightarrow>
         if \<not> py_eq (dget d ''family'') (dget attack ''family'')
         then Inl (SystemExit ''moriarty_counterexample_family_mismatch'')
         else if \<not> py_eq (dget d ''owner_phases'') (dget attack ''owner_phases'')
         then Inl (SystemExit ''moriarty_counterexample_owner_phase_mismatch'')
         else if \<not> py_eq (dget d ''boundary_ids'') (dget attack ''boundary_ids'')
         then Inl (SystemExit ''moriarty_counterexample_boundary_set_mismatch'')
         else if \<not> list_all (\<lambda>p. list_ex (py_eq p) (items_of (dget attack ''probe_ids'')))
                    (items_of (dget d ''regression_probe_ids''))
         then Inl (SystemExit ''moriarty_counterexample_probe_not_bound_to_attack'')
         else bindE (requireE (commit_exists h finding) ''moriarty_counterexample_target_commit_missing'') (\<lambda>_.
              bindE (requireE (is_ancestor h finding reviewed) ''moriarty_counterexample_target_not_in_reviewed_history'') (\<lambda>_.
              if py_eq (dget d ''status'') (PS ''unresolved'') then Inr (i # seen_ids, unresolved + 1)
              else bindE (validate_resolution h reviewed finding (str_of (dget d ''resolution_commit''))) (\<lambda>_.
                   Inr (i # seen_ids, unresolved))))))"

definition REGISTRY_KEYS :: "string list" where
  "REGISTRY_KEYS = [''schema'', ''protocol'', ''counterexamples'', ''unresolved_counterexamples'', ''authority_effect'']"

definition validate_registry ::
  "(bytes \<Rightarrow> bytes) \<Rightarrow> (pystr \<Rightarrow> pystr) \<Rightarrow> history \<Rightarrow> pydict \<Rightarrow> pydict list \<Rightarrow> pystr \<Rightarrow> (pydict list) result" where
  "validate_registry sha256 nfc h registry attacks reviewed =
     (let cs = dget registry ''counterexamples''; n = dget registry ''unresolved_counterexamples'' in
      if \<not> keys_are registry REGISTRY_KEYS
      then Inl (SystemExit ''moriarty_counterexample_registry_field_set_invalid'')
      else if \<not> py_eq (dget registry ''schema'') (PS REGISTRY_SCHEMA) \<or> \<not> py_eq (dget registry ''protocol'') (PS PROTOCOL)
         \<or> \<not> py_eq (dget registry ''authority_effect'') (PS ''none'')
      then Inl (SystemExit ''moriarty_counterexample_registry_boundary_invalid'')
      else if \<not> is_list cs \<or> MAX_ACCEPTED_COUNTEREXAMPLES < length (items_of cs)
      then Inl (SystemExit ''moriarty_counterexample_registry_count_invalid'')
      else bindE (foldE (validate_entry sha256 nfc h attacks reviewed) ([], 0) (items_of cs)) (\<lambda>(ids, unresolved).
        if \<not> is_int n \<or> is_bool n
        then Inl (SystemExit ''moriarty_counterexample_registry_unresolved_type_invalid'')
        else if int_of n \<noteq> int unresolved
        then Inl (SystemExit ''moriarty_counterexample_registry_unresolved_count_drift'')
        else Inr (map dict_of (items_of cs))))"

section \<open>Generated counterexamples\<close>

record probe_result =
  pr_probe_id :: string
  pr_ok :: bool
  pr_exit_code :: "int option"
  pr_failure_kind :: "string option"
  pr_stdout_sha256 :: pystr
  pr_stderr_sha256 :: pystr
  pr_stdout_bytes :: nat
  pr_stderr_bytes :: nat
  pr_stdout_truncated :: bool
  pr_stderr_truncated :: bool
  pr_diagnostic_class :: "string option"

definition py_int_opt :: "int option \<Rightarrow> pyval" where
  "py_int_opt o' = (case o' of None \<Rightarrow> PNone | Some i \<Rightarrow> PInt i)"

definition py_str_opt :: "string option \<Rightarrow> pyval" where
  "py_str_opt o' = (case o' of None \<Rightarrow> PNone | Some s \<Rightarrow> PS s)"

definition unidentified_counterexample :: "pystr \<Rightarrow> pydict \<Rightarrow> probe_result \<Rightarrow> pydict" where
  "unidentified_counterexample target attack r =
     pd [(''schema'', PS COUNTEREXAMPLE_SCHEMA),
         (''counterexample_id'', PStr (lit ''sha256:'' @ replicate 64 48)),
         (''target_commit'', PStr target), (''attack_id'', dget attack ''id''), (''family'', dget attack ''family''),
         (''owner_phases'', dget attack ''owner_phases''), (''boundary_ids'', dget attack ''boundary_ids''),
         (''regression_probe_ids'', PList [PS (pr_probe_id r)]), (''failure_kind'', py_str_opt (pr_failure_kind r)),
         (''observed_exit_code'', py_int_opt (pr_exit_code r)),
         (''stdout_sha256'', PStr (pr_stdout_sha256 r)), (''stderr_sha256'', PStr (pr_stderr_sha256 r)),
         (''stdout_bytes'', PInt (int (pr_stdout_bytes r))), (''stderr_bytes'', PInt (int (pr_stderr_bytes r))),
         (''stdout_truncated'', PBool (pr_stdout_truncated r)), (''stderr_truncated'', PBool (pr_stderr_truncated r)),
         (''status'', PS ''unresolved''), (''resolution_commit'', PNone),
         (''production_credentials_used'', PBool False), (''production_targets_used'', PBool False),
         (''constitutional_bypass_used'', PBool False), (''authority_effect'', PS ''none'')]"

definition generated_counterexample ::
  "(bytes \<Rightarrow> bytes) \<Rightarrow> (pystr \<Rightarrow> pystr) \<Rightarrow> pystr \<Rightarrow> pydict \<Rightarrow> probe_result \<Rightarrow> pydict result" where
  "generated_counterexample sha256 nfc target attack r =
     (let item = unidentified_counterexample target attack r in
      bindE (canonical_ref sha256 nfc (PDict (counterexample_identity_projection item))) (\<lambda>i.
      let item' = dset item (lit ''counterexample_id'') (PStr i) in
      bindE (validate_counterexample_shape sha256 nfc (PDict item')) (\<lambda>_. Inr item')))"

definition counterexample_failure_matches :: "pydict \<Rightarrow> probe_result \<Rightarrow> bool" where
  "counterexample_failure_matches item r \<longleftrightarrow>
     \<not> pr_ok r \<and>
     py_eq (py_str_opt (pr_failure_kind r)) (dget item ''failure_kind'') \<and>
     py_eq (py_int_opt (pr_exit_code r)) (dget item ''observed_exit_code'') \<and>
     py_eq (PStr (pr_stdout_sha256 r)) (dget item ''stdout_sha256'') \<and>
     py_eq (PStr (pr_stderr_sha256 r)) (dget item ''stderr_sha256'') \<and>
     py_eq (PInt (int (pr_stdout_bytes r))) (dget item ''stdout_bytes'') \<and>
     py_eq (PInt (int (pr_stderr_bytes r))) (dget item ''stderr_bytes'') \<and>
     dget item ''stdout_truncated'' = PBool (pr_stdout_truncated r) \<and>
     dget item ''stderr_truncated'' = PBool (pr_stderr_truncated r)"

definition report_probe_result :: "probe_result \<Rightarrow> pydict" where
  "report_probe_result r =
     pd [(''probe_id'', PS (pr_probe_id r)), (''ok'', PBool (pr_ok r)), (''exit_code'', py_int_opt (pr_exit_code r)),
         (''failure_kind'', py_str_opt (pr_failure_kind r)),
         (''stdout_sha256'', PStr (pr_stdout_sha256 r)), (''stderr_sha256'', PStr (pr_stderr_sha256 r)),
         (''stdout_bytes'', PInt (int (pr_stdout_bytes r))), (''stderr_bytes'', PInt (int (pr_stderr_bytes r))),
         (''stdout_truncated'', PBool (pr_stdout_truncated r)), (''stderr_truncated'', PBool (pr_stderr_truncated r))]"

end
