(* ===== verification/Registry_Laws.thy ===== *)
theory Registry_Laws
  imports Moriarty_Registry
begin

text \<open>
  What the validators of the registry establish: the accepted shape of a counterexample as one
  predicate, the identity as a digest of the discovery facts, the history of resolved findings, and
  the agreement of the generator with the validator.
\<close>

section \<open>Accepted shapes\<close>

definition str_list :: "nat \<Rightarrow> (pystr \<Rightarrow> bool) \<Rightarrow> pyval \<Rightarrow> bool" where
  "str_list n p v \<longleftrightarrow> (\<exists>xs. v = PList (map PStr xs) \<and> 1 \<le> length xs \<and> length xs \<le> n \<and> (\<forall>x \<in> set xs. p x) \<and> distinct xs)"

lemma strings_map: "list_all is_str vs \<Longrightarrow> \<exists>xs. vs = map PStr xs"
proof (induction vs)
  case (Cons v vs)
  then obtain s xs where "v = PStr s" "vs = map PStr xs" by (cases v) auto
  then show ?case by (intro exI [of _ "s # xs"]) simp
qed simp

lemma has_duplicates_strings: "has_duplicates (map PStr xs) = Inr (\<not> distinct xs)"
proof -
  have "list_all is_str (map PStr xs)" by (simp add: list_all_iff)
  then show ?thesis
    using distinct_vals_strings [of "map PStr xs"]
    by (auto simp: has_duplicates_def list_all_iff distinct_map inj_on_def)
qed

lemma bad_strings_Inr:
  "(\<forall>c \<in> set (bad_strings n p v). c = Inr False) \<longleftrightarrow> str_list n p v"
proof
  assume l: "\<forall>c \<in> set (bad_strings n p v). c = Inr False"
  then obtain vs where v: "v = PList vs" by (cases v) (auto simp: bad_strings_def)
  with l have "list_all is_str vs" by (auto simp: bad_strings_def list_all_iff)
  then obtain xs where "vs = map PStr xs" using strings_map by blast
  with l v show "str_list n p v"
    by (auto simp: bad_strings_def str_list_def has_duplicates_strings list_all_iff)
next
  assume "str_list n p v"
  then show "\<forall>c \<in> set (bad_strings n p v). c = Inr False"
    by (auto simp: bad_strings_def str_list_def has_duplicates_strings list_all_iff)
qed

definition boundary_ok :: "pydict \<Rightarrow> bool" where
  "boundary_ok d \<longleftrightarrow>
     dget d ''schema'' = PS COUNTEREXAMPLE_SCHEMA \<and> matches SHA256_REF (dget d ''counterexample_id'') \<and>
     matches TARGET_RE (dget d ''target_commit'') \<and> matches ATTACK_ID (dget d ''attack_id'') \<and>
     (\<exists>f \<in> set EXPECTED_FAMILIES. dget d ''family'' = PS f) \<and>
     str_list MAX_OWNER_PHASES (one_of ALLOWED_OWNER_PHASES) (dget d ''owner_phases'') \<and>
     str_list MAX_BOUNDARY_IDS (rx_match BOUNDARY_ID) (dget d ''boundary_ids'') \<and>
     (\<exists>p \<in> set PROBES. dget d ''regression_probe_ids'' = PList [PS p]) \<and>
     (\<exists>f \<in> {''exit_nonzero'', ''timeout'', ''tool_error''}. dget d ''failure_kind'' = PS f) \<and>
     (\<exists>f \<in> {''unresolved'', ''resolved''}. dget d ''status'' = PS f) \<and>
     dget d ''production_credentials_used'' = PBool False \<and> dget d ''production_targets_used'' = PBool False \<and>
     dget d ''constitutional_bypass_used'' = PBool False \<and> dget d ''authority_effect'' = PS ''none'' \<and>
     matches SHA256_REF (dget d ''stdout_sha256'') \<and> matches SHA256_REF (dget d ''stderr_sha256'') \<and>
     (\<exists>n \<le> MAX_PROBE_OUTPUT_BYTES. dget d ''stdout_bytes'' = PInt (int n)) \<and>
     (\<exists>n \<le> MAX_PROBE_OUTPUT_BYTES. dget d ''stderr_bytes'' = PInt (int n)) \<and>
     (\<exists>b. dget d ''stdout_truncated'' = PBool b) \<and> (\<exists>b. dget d ''stderr_truncated'' = PBool b)"

lemma in_strs_True: "in_strs v (map lit ks) = Inr True \<longleftrightarrow> (\<exists>k \<in> set ks. v = PS k)"
  by (cases v) (auto simp: in_strs_def)

lemma not_bad_count: "\<not> bad_count v \<longleftrightarrow> (\<exists>n \<le> MAX_PROBE_OUTPUT_BYTES. v = PInt (int n))"
proof (cases v)
  case (PInt i)
  then show ?thesis by (auto simp: bad_count_def intro!: exI [of _ "nat i"])
qed (auto simp: bad_count_def)

lemma one_probe:
  "is_list v \<and> length (items_of v) = 1 \<and> everyE (\<lambda>p. in_strs p (map lit PROBES)) (items_of v) = Inr True \<longleftrightarrow>
     (\<exists>p \<in> set PROBES. v = PList [PS p])"
  by (cases v) (auto simp: length_Suc_conv everyE_Inr_True in_strs_True)

lemma counterexample_boundary_Inr:
  "(\<forall>c \<in> set (counterexample_boundary d). c = Inr False) \<longleftrightarrow> boundary_ok d"
  unfolding counterexample_boundary_def boundary_ok_def set_append ball_Un bad_strings_Inr
    one_probe [symmetric]
  using in_strs_True [of "dget d ''failure_kind''" "[''exit_nonzero'', ''timeout'', ''tool_error'']"]
    in_strs_True [of "dget d ''status''" "[''unresolved'', ''resolved'']"]
  by (simp add: notE'_eq in_strs_True not_bad_count)

lemma is_int_cases: "is_int v \<and> \<not> is_bool v \<and> P (int_of v) \<longleftrightarrow> (\<exists>i. v = PInt i \<and> P i)"
  by (cases v) auto

definition exit_ok :: "pydict \<Rightarrow> bool" where
  "exit_ok d \<longleftrightarrow>
     (if dget d ''failure_kind'' = PS ''exit_nonzero''
      then \<exists>i. dget d ''observed_exit_code'' = PInt i \<and> i \<noteq> 0 \<and> - (2 ^ 31) \<le> i \<and> i \<le> 2 ^ 31 - 1
      else dget d ''observed_exit_code'' = PNone)"

definition resolution_ok :: "pydict \<Rightarrow> bool" where
  "resolution_ok d \<longleftrightarrow>
     (if dget d ''status'' = PS ''unresolved'' then dget d ''resolution_commit'' = PNone
      else matches TARGET_RE (dget d ''resolution_commit''))"

lemma validate_counterexample_shape_iff:
  "validate_counterexample_shape h nfc item = Inr () \<longleftrightarrow>
     (\<exists>d i. item = PDict d \<and> keys_are d COUNTEREXAMPLE_KEYS \<and> boundary_ok d \<and> exit_ok d \<and> resolution_ok d \<and>
        canonical_ref h nfc (PDict (counterexample_identity_projection d)) = Inr i \<and>
        dget d ''counterexample_id'' = PStr i)"
proof (cases item)
  case (PDict d)
  show ?thesis
    using is_int_cases [of "dget d ''observed_exit_code''" "\<lambda>i. i \<noteq> 0 \<and> - (2 ^ 31) \<le> i \<and> i \<le> 2 ^ 31 - 1"]
    by (auto simp: PDict validate_counterexample_shape_def Let_def bindE_eq_Inr failIf_eq_Inr
        counterexample_boundary_Inr exit_ok_def resolution_ok_def split: if_splits)
qed (simp_all add: validate_counterexample_shape_def Let_def)

section \<open>The identity\<close>

text \<open>The values of the discovery facts: small ASCII texts, lists of them, numbers, truth values.\<close>

definition fact_value :: "pyval \<Rightarrow> bool" where
  "fact_value v \<longleftrightarrow> v = PNone \<or> (\<exists>b. v = PBool b) \<or>
     (\<exists>i. v = PInt i \<and> - (2 ^ 31) \<le> i \<and> i \<le> 2 ^ 31 - 1) \<or>
     (\<exists>s. v = PStr s \<and> ascii s \<and> length s \<le> 137) \<or>
     (\<exists>xs. v = PList (map PStr xs) \<and> length xs \<le> 32 \<and> (\<forall>x \<in> set xs. ascii x \<and> length x \<le> 137))"

lemma fact_canonical: "nfc_ascii nfc \<Longrightarrow> fact_value v \<Longrightarrow> canonical_value nfc 2 v"
  by (auto simp: fact_value_def canonical_ascii MAX_DEPTH_def MAX_ARRAY_ITEMS_def SAFE_INTEGER_MIN_def SAFE_INTEGER_MAX_def)

lemma fact_ordered: "fact_value v \<Longrightarrow> ordered v = v"
  by (auto simp: fact_value_def)

lemma matches_fact:
  assumes "matches r v" and "ascii_rx r" and "rx_bound r = Some n" and "n \<le> 137"
  shows "fact_value v"
  using assms rx_match_ascii [of r "str_of v"] rx_match_bound [of r "str_of v" n]
  by (auto simp: fact_value_def matches_def ascii_def is_str_str_of)

lemma registry_formats:
  "ascii_rx TARGET_RE" "ascii_rx ATTACK_ID" "ascii_rx BOUNDARY_ID"
  "rx_bound TARGET_RE = Some 40" "rx_bound ATTACK_ID = Some 7" "rx_bound BOUNDARY_ID = Some 128"
  by code_simp+

lemma literal_facts:
  "\<forall>k \<in> set EXPECTED_FAMILIES. fact_value (PS k)" "\<forall>k \<in> set PROBES. ascii (lit k) \<and> length k \<le> 137"
  "\<forall>k \<in> set ALLOWED_OWNER_PHASES. ascii (lit k) \<and> length k \<le> 137"
  "fact_value (PS COUNTEREXAMPLE_SCHEMA)" "fact_value (PS ''none'')"
  "fact_value (PS ''exit_nonzero'')" "fact_value (PS ''timeout'')" "fact_value (PS ''tool_error'')"
  by (simp_all add: fact_value_def EXPECTED_FAMILIES_def PROBES_def ALLOWED_OWNER_PHASES_def COUNTEREXAMPLE_SCHEMA_def lit_def)

lemma str_list_fact:
  assumes "str_list n p v" and "n \<le> 32" and "\<And>x. p x \<Longrightarrow> ascii x \<and> length x \<le> 137"
  shows "fact_value v"
proof -
  obtain xs where v: "v = PList (map PStr xs)" and "length xs \<le> n" and "\<forall>x \<in> set xs. p x"
    using assms(1) by (auto simp: str_list_def)
  with assms(2,3) have "length xs \<le> 32 \<and> (\<forall>x \<in> set xs. ascii x \<and> length x \<le> 137)" by auto
  with v show ?thesis unfolding fact_value_def by blast
qed

definition FACT_KEYS :: "string list" where
  "FACT_KEYS = filter (\<lambda>k. k \<notin> set MUTABLE_KEYS) COUNTEREXAMPLE_KEYS"

lemma facts:
  assumes "boundary_ok d" and "exit_ok d" and "k \<in> set FACT_KEYS"
  shows "fact_value (dget d k)"
proof -
  have own: "fact_value (dget d ''owner_phases'')"
  proof (rule str_list_fact)
    show "str_list MAX_OWNER_PHASES (one_of ALLOWED_OWNER_PHASES) (dget d ''owner_phases'')"
      using assms(1) by (simp add: boundary_ok_def)
    show "ascii x \<and> length x \<le> 137" if "one_of ALLOWED_OWNER_PHASES x" for x
      using that literal_facts(3) by (auto simp: one_of_def)
  qed (simp add: MAX_OWNER_PHASES_def)
  have bnd: "fact_value (dget d ''boundary_ids'')"
  proof (rule str_list_fact)
    show "str_list MAX_BOUNDARY_IDS (rx_match BOUNDARY_ID) (dget d ''boundary_ids'')"
      using assms(1) by (simp add: boundary_ok_def)
    show "ascii x \<and> length x \<le> 137" if "rx_match BOUNDARY_ID x" for x
      using rx_match_ascii [OF that registry_formats(3)] rx_match_bound [OF that registry_formats(6)]
      by (simp add: ascii_def)
  qed (simp add: MAX_BOUNDARY_IDS_def)
  have probe: "fact_value (dget d ''regression_probe_ids'')"
  proof -
    obtain p where p: "p \<in> set PROBES" "dget d ''regression_probe_ids'' = PList [PS p]"
      using assms(1) by (auto simp: boundary_ok_def)
    have "\<exists>xs. PList [PS p] = PList (map PStr xs) \<and> length xs \<le> 32 \<and> (\<forall>x \<in> set xs. ascii x \<and> length x \<le> 137)"
      by (rule exI [of _ "[lit p]"]) (use literal_facts(2) p in simp)
    then show ?thesis unfolding p(2) fact_value_def by blast
  qed
  have formats: "fact_value (dget d ''target_commit'')" "fact_value (dget d ''attack_id'')"
    "fact_value (dget d ''stdout_sha256'')" "fact_value (dget d ''stderr_sha256'')"
    using assms(1) matches_fact [OF _ registry_formats(1,4)] matches_fact [OF _ registry_formats(2,5)]
      matches_fact [OF _ ascii_formats(2) format_bounds(2)] by (simp_all add: boundary_ok_def)
  have counts: "fact_value (dget d ''stdout_bytes'')" "fact_value (dget d ''stderr_bytes'')"
    using assms(1) by (auto simp: boundary_ok_def fact_value_def MAX_PROBE_OUTPUT_BYTES_def)
  have code: "fact_value (dget d ''observed_exit_code'')"
    using assms(2) by (auto simp: exit_ok_def fact_value_def split: if_splits)
  have rest: "fact_value (dget d ''schema'')" "fact_value (dget d ''family'')" "fact_value (dget d ''failure_kind'')"
    "fact_value (dget d ''authority_effect'')" "fact_value (dget d ''stdout_truncated'')"
    "fact_value (dget d ''stderr_truncated'')" "fact_value (dget d ''production_credentials_used'')"
    "fact_value (dget d ''production_targets_used'')" "fact_value (dget d ''constitutional_bypass_used'')"
    using assms(1) literal_facts by (auto simp: boundary_ok_def fact_value_def [of "PBool _"])
  show ?thesis
    using assms(3) own bnd probe formats counts code rest
    by (auto simp: FACT_KEYS_def COUNTEREXAMPLE_KEYS_def MUTABLE_KEYS_def)
qed

lemma projection_keys:
  "fst ` set (counterexample_identity_projection d) = fst ` set d - lit ` set MUTABLE_KEYS"
  by (auto simp: counterexample_identity_projection_def one_of_def image_iff)

lemma lookup_projection:
  "lookup (counterexample_identity_projection d) (lit k) = (if k \<in> set MUTABLE_KEYS then None else lookup d (lit k))"
proof (cases "k \<in> set MUTABLE_KEYS")
  case True
  then show ?thesis using projection_keys [of d] by (simp add: lookup_None_iff)
next
  case False
  then have "\<not> one_of MUTABLE_KEYS (lit k)" by (auto simp: one_of_def)
  then show ?thesis using False
    by (induction d) (auto simp: counterexample_identity_projection_def split: if_splits)
qed

lemma projection_canonical:
  assumes "nfc_ascii nfc" and "keys_are d COUNTEREXAMPLE_KEYS" and "distinct (map fst d)" and "boundary_ok d" and "exit_ok d"
  shows "canonical_value nfc 1 (PDict (counterexample_identity_projection d))"
proof -
  let ?p = "counterexample_identity_projection d"
  have dist: "distinct (map fst ?p)"
    using assms(3) by (simp add: counterexample_identity_projection_def distinct_map_filter)
  have "length d = card (set (map fst d))" using distinct_card [OF assms(3)] by simp
  also have "\<dots> = card (set (map lit COUNTEREXAMPLE_KEYS))" using assms(2) by (simp add: keys_are_def)
  also have "\<dots> \<le> length COUNTEREXAMPLE_KEYS" using card_length [of "map lit COUNTEREXAMPLE_KEYS"] by simp
  finally have len: "length ?p \<le> MAX_OBJECT_MEMBERS"
    using le_trans [OF length_filter_le [of "\<lambda>(key, value). \<not> one_of MUTABLE_KEYS key" d]]
    by (simp add: counterexample_identity_projection_def COUNTEREXAMPLE_KEYS_def MAX_OBJECT_MEMBERS_def)
  have "canonical_str nfc (fst kv) \<and> canonical_value nfc 2 (snd kv)" if kv: "kv \<in> set ?p" for kv
  proof -
    have "fst kv \<in> fst ` set d - lit ` set MUTABLE_KEYS" using kv projection_keys [of d] by blast
    then obtain k where k: "k \<in> set COUNTEREXAMPLE_KEYS" "k \<notin> set MUTABLE_KEYS" "fst kv = lit k"
      using assms(2) by (auto simp: keys_are_def)
    have "lookup ?p (lit k) = Some (snd kv)"
      using lookup_Some_iff [OF dist] kv k(3) by (metis prod.collapse)
    then have "dget d k = snd kv" using k(2) by (simp add: lookup_projection dget_def)
    moreover have "k \<in> set FACT_KEYS" using k by (simp add: FACT_KEYS_def)
    moreover have "\<forall>k \<in> set COUNTEREXAMPLE_KEYS. ascii (lit k) \<and> length k \<le> 137"
      by (simp add: COUNTEREXAMPLE_KEYS_def lit_def)
    ultimately show ?thesis
      using facts [OF assms(4,5)] fact_canonical [OF assms(1)] canonical_ascii [OF assms(1)] k by fastforce
  qed
  with dist len show ?thesis by (simp add: MAX_DEPTH_def numeral_2_eq_2)
qed

lemma canonical_ref_value:
  "canonical_value nfc k v \<Longrightarrow> canonical_ref h nfc v = Inr (sha256_ref h (utf8_bytes (text_of v)))"
  by (simp add: canonical_ref_def serialize_canonical scalars_text_of)

section \<open>Attacks\<close>

definition attack_ok :: "pydict \<Rightarrow> bool" where
  "attack_ok a \<longleftrightarrow> keys_are a ATTACK_KEYS \<and> matches ATTACK_ID (dget a ''id'') \<and>
     (\<exists>f \<in> set EXPECTED_FAMILIES. dget a ''family'' = PS f) \<and>
     str_list MAX_OWNER_PHASES (one_of ALLOWED_OWNER_PHASES) (dget a ''owner_phases'') \<and>
     str_list MAX_BOUNDARY_IDS (rx_match BOUNDARY_ID) (dget a ''boundary_ids'') \<and>
     str_list MAX_ATTACK_PROBE_IDS (one_of PROBES) (dget a ''probe_ids'')"

lemma validate_attack_Inr:
  assumes "validate_attack (ids, families) attack = Inr st"
  shows "attack_ok (dict_of attack) \<and> st = (str_of (dget (dict_of attack) ''id'') # ids, str_of (dget (dict_of attack) ''family'') # families) \<and>
    str_of (dget (dict_of attack) ''id'') \<notin> set ids \<and> str_of (dget (dict_of attack) ''family'') \<notin> set families"
proof -
  let ?a = "dict_of attack"
  from assms have keys: "keys_are ?a ATTACK_KEYS"
    and f: "\<forall>c \<in> set ([Inr (\<not> matches ATTACK_ID (dget ?a ''id'') \<or> str_of (dget ?a ''id'') \<in> set ids),
           Inr (\<not> is_str (dget ?a ''family'') \<or> \<not> one_of EXPECTED_FAMILIES (str_of (dget ?a ''family'')) \<or> str_of (dget ?a ''family'') \<in> set families)] @
          bad_strings MAX_OWNER_PHASES (one_of ALLOWED_OWNER_PHASES) (dget ?a ''owner_phases'') @
          bad_strings MAX_BOUNDARY_IDS (rx_match BOUNDARY_ID) (dget ?a ''boundary_ids'') @
          bad_strings MAX_ATTACK_PROBE_IDS (one_of PROBES) (dget ?a ''probe_ids'')). c = Inr False"
    and st: "st = (str_of (dget ?a ''id'') # ids, str_of (dget ?a ''family'') # families)"
    by (auto simp: validate_attack_def Let_def bindE_eq_Inr failIf_eq_Inr simp del: set_append split: if_splits)
  from f have "str_list MAX_OWNER_PHASES (one_of ALLOWED_OWNER_PHASES) (dget ?a ''owner_phases'')"
    "str_list MAX_BOUNDARY_IDS (rx_match BOUNDARY_ID) (dget ?a ''boundary_ids'')"
    "str_list MAX_ATTACK_PROBE_IDS (one_of PROBES) (dget ?a ''probe_ids'')"
    unfolding set_append ball_Un bad_strings_Inr by simp_all
  moreover from f have "matches ATTACK_ID (dget ?a ''id'')" "str_of (dget ?a ''id'') \<notin> set ids"
    "is_str (dget ?a ''family'')" "one_of EXPECTED_FAMILIES (str_of (dget ?a ''family''))"
    "str_of (dget ?a ''family'') \<notin> set families" by simp_all
  moreover from this(3,4) have "\<exists>k \<in> set EXPECTED_FAMILIES. dget ?a ''family'' = PS k"
    by (auto simp: one_of_def is_str_str_of)
  ultimately show ?thesis using keys st by (simp add: attack_ok_def)
qed

lemma validate_attacks_Inr:
  "foldE validate_attack (ids, families) attacks = Inr (ids', families') \<Longrightarrow> distinct ids \<Longrightarrow> distinct families \<Longrightarrow>
     (\<forall>a \<in> set attacks. attack_ok (dict_of a)) \<and> distinct ids' \<and> distinct families' \<and>
     ids' = rev (map (\<lambda>a. str_of (dget (dict_of a) ''id'')) attacks) @ ids \<and>
     families' = rev (map (\<lambda>a. str_of (dget (dict_of a) ''family'')) attacks) @ families"
proof (induction attacks arbitrary: ids families)
  case (Cons a attacks)
  from Cons.prems(1) obtain st where st: "validate_attack (ids, families) a = Inr st"
    "foldE validate_attack st attacks = Inr (ids', families')" by (auto simp: bindE_eq_Inr)
  note a = validate_attack_Inr [OF st(1)]
  from Cons.IH [of "str_of (dget (dict_of a) ''id'') # ids" "str_of (dget (dict_of a) ''family'') # families"] st(2) a Cons.prems(2,3)
  show ?case by (auto simp del: distinct_append)
qed simp

section \<open>The registry\<close>

text \<open>An entry that is bound to its attack and lies in the reviewed history.\<close>

definition in_history :: "history \<Rightarrow> pystr \<Rightarrow> pydict \<Rightarrow> bool" where
  "in_history hist reviewed d \<longleftrightarrow>
     (let finding = str_of (dget d ''target_commit''); resolution = str_of (dget d ''resolution_commit'') in
      commit_exists hist finding = Inr True \<and> is_ancestor hist finding reviewed = Inr True \<and>
      (dget d ''status'' = PS ''resolved'' \<longrightarrow>
         resolution \<noteq> finding \<and> commit_exists hist resolution = Inr True \<and>
         is_ancestor hist finding resolution = Inr True \<and> is_ancestor hist resolution reviewed = Inr True))"

definition bound_to_attack :: "pydict list \<Rightarrow> pydict \<Rightarrow> bool" where
  "bound_to_attack attacks d \<longleftrightarrow> (\<exists>a \<in> set attacks. py_eq (dget a ''id'') (dget d ''attack_id'') \<and>
     py_eq (dget d ''family'') (dget a ''family'') \<and> py_eq (dget d ''owner_phases'') (dget a ''owner_phases'') \<and>
     py_eq (dget d ''boundary_ids'') (dget a ''boundary_ids'') \<and>
     (\<forall>p \<in> set (items_of (dget d ''regression_probe_ids'')). \<exists>q \<in> set (items_of (dget a ''probe_ids'')). py_eq p q))"

definition unresolved :: "pyval \<Rightarrow> bool" where
  "unresolved item \<longleftrightarrow> dget (dict_of item) ''status'' = PS ''unresolved''"

lemma requireE_Inr: "requireE m code = Inr () \<longleftrightarrow> m = Inr True"
  by (cases m) (simp_all add: requireE_def)

lemma validate_resolution_Inr:
  "validate_resolution hist reviewed finding resolution = Inr () \<longleftrightarrow>
     resolution \<noteq> finding \<and> commit_exists hist resolution = Inr True \<and>
     is_ancestor hist finding resolution = Inr True \<and> is_ancestor hist resolution reviewed = Inr True"
  by (simp add: validate_resolution_def bindE_eq_Inr requireE_Inr)

lemma find_in: "find p xs = Some x \<Longrightarrow> x \<in> set xs \<and> p x"
  by (induction xs) (auto split: if_splits)

lemma attack_by_id_Some: "attack_by_id attacks i = Some a \<Longrightarrow> a \<in> set attacks \<and> py_eq (dget a ''id'') i"
  by (auto simp: attack_by_id_def dest: find_in)

definition entry_ok ::
  "(bytes \<Rightarrow> bytes) \<Rightarrow> (pystr \<Rightarrow> pystr) \<Rightarrow> history \<Rightarrow> pydict list \<Rightarrow> pystr \<Rightarrow> pyval \<Rightarrow> bool" where
  "entry_ok h nfc hist attacks reviewed item \<longleftrightarrow> validate_counterexample_shape h nfc item = Inr () \<and>
     bound_to_attack attacks (dict_of item) \<and> in_history hist reviewed (dict_of item)"

lemma validate_entry_Inr:
  assumes "validate_entry h nfc hist attacks reviewed (ids, n) item = Inr st"
  shows "entry_ok h nfc hist attacks reviewed item \<and> str_of (dget (dict_of item) ''counterexample_id'') \<notin> set ids \<and>
    st = (str_of (dget (dict_of item) ''counterexample_id'') # ids, if unresolved item then n + 1 else n)"
proof -
  let ?d = "dict_of item"
  from assms have shape: "validate_counterexample_shape h nfc item = Inr ()"
    by (auto simp: validate_entry_def bindE_eq_Inr)
  from assms shape obtain a where a: "attack_by_id attacks (dget ?d ''attack_id'') = Some a"
    by (auto simp: validate_entry_def bindE_eq_Inr Let_def split: if_splits option.splits)
  from assms shape a have bound: "py_eq (dget ?d ''family'') (dget a ''family'')"
    "py_eq (dget ?d ''owner_phases'') (dget a ''owner_phases'')" "py_eq (dget ?d ''boundary_ids'') (dget a ''boundary_ids'')"
    "list_all (\<lambda>p. list_ex (py_eq p) (items_of (dget a ''probe_ids''))) (items_of (dget ?d ''regression_probe_ids''))"
    by (auto simp: validate_entry_def bindE_eq_Inr Let_def split: if_splits)
  have "bound_to_attack attacks ?d"
    using bound attack_by_id_Some [OF a] by (auto simp: bound_to_attack_def list_all_iff list_ex_iff)
  moreover have "in_history hist reviewed ?d"
    using assms shape a bound
    by (auto simp: validate_entry_def bindE_eq_Inr Let_def requireE_Inr validate_resolution_Inr in_history_def split: if_splits)
  moreover have "str_of (dget ?d ''counterexample_id'') \<notin> set ids \<and>
      st = (str_of (dget ?d ''counterexample_id'') # ids, if unresolved item then n + 1 else n)"
    using assms shape a bound
    by (auto simp: validate_entry_def bindE_eq_Inr Let_def unresolved_def split: if_splits)
  ultimately show ?thesis using shape by (simp add: entry_ok_def)
qed

lemma validate_entries_Inr:
  "foldE (validate_entry h nfc hist attacks reviewed) (ids, n) items = Inr (ids', n') \<Longrightarrow> distinct ids \<Longrightarrow>
     (\<forall>item \<in> set items. entry_ok h nfc hist attacks reviewed item) \<and> distinct ids' \<and>
     ids' = rev (map (\<lambda>item. str_of (dget (dict_of item) ''counterexample_id'')) items) @ ids \<and>
     n' = n + length (filter unresolved items)"
proof (induction items arbitrary: ids n)
  case (Cons item items)
  from Cons.prems(1) obtain st where st: "validate_entry h nfc hist attacks reviewed (ids, n) item = Inr st"
    "foldE (validate_entry h nfc hist attacks reviewed) st items = Inr (ids', n')" by (auto simp: bindE_eq_Inr)
  note e = validate_entry_Inr [OF st(1)]
  from Cons.IH [of "str_of (dget (dict_of item) ''counterexample_id'') # ids" "if unresolved item then n + 1 else n"] st(2) e Cons.prems(2)
  show ?case by (auto simp del: distinct_append)
qed simp

section \<open>Generation\<close>

definition result_ok :: "probe_result \<Rightarrow> bool" where
  "result_ok r \<longleftrightarrow> pr_probe_id r \<in> set PROBES \<and>
     (pr_failure_kind r = Some ''exit_nonzero'' \<and>
        (\<exists>i. pr_exit_code r = Some i \<and> i \<noteq> 0 \<and> - (2 ^ 31) \<le> i \<and> i \<le> 2 ^ 31 - 1) \<or>
      (pr_failure_kind r = Some ''timeout'' \<or> pr_failure_kind r = Some ''tool_error'') \<and> pr_exit_code r = None) \<and>
     rx_match SHA256_REF (pr_stdout_sha256 r) \<and> rx_match SHA256_REF (pr_stderr_sha256 r) \<and>
     pr_stdout_bytes r \<le> MAX_PROBE_OUTPUT_BYTES \<and> pr_stderr_bytes r \<le> MAX_PROBE_OUTPUT_BYTES"

lemma projection_dset:
  "k \<in> set MUTABLE_KEYS \<Longrightarrow>
     counterexample_identity_projection (dset d (lit k) v) = counterexample_identity_projection d"
  by (induction d "lit k" v rule: dset.induct)
    (auto simp: counterexample_identity_projection_def one_of_def)

lemma dget_dset_lit: "dget (dset d (lit k) v) k' = (if k' = k then v else dget d k')"
  by (simp add: dget_def lookup_dset)

lemma dget_pd: "dget (pd kvs) k = (case map_of kvs k of None \<Rightarrow> PNone | Some v \<Rightarrow> v)"
  by (induction kvs) (auto simp: dget_def)

definition identified :: "pystr \<Rightarrow> pydict \<Rightarrow> probe_result \<Rightarrow> pystr \<Rightarrow> pydict" where
  "identified target a r i = dset (unidentified_counterexample target a r) (lit ''counterexample_id'') (PStr i)"

lemma identified_keys: "keys_are (identified target a r i) COUNTEREXAMPLE_KEYS" "distinct (map fst (identified target a r i))"
proof -
  have "map fst (identified target a r i) = map lit COUNTEREXAMPLE_KEYS"
    by (simp add: identified_def unidentified_counterexample_def COUNTEREXAMPLE_KEYS_def)
  then show "keys_are (identified target a r i) COUNTEREXAMPLE_KEYS" "distinct (map fst (identified target a r i))"
    by (simp_all add: keys_are_def distinct_map inj_on_def COUNTEREXAMPLE_KEYS_def)
qed

lemma exit_identified:
  "exit_ok (identified target a r i) \<longleftrightarrow>
     (if pr_failure_kind r = Some ''exit_nonzero''
      then \<exists>i. pr_exit_code r = Some i \<and> i \<noteq> 0 \<and> - (2 ^ 31) \<le> i \<and> i \<le> 2 ^ 31 - 1
      else pr_exit_code r = None)"
  by (cases "pr_failure_kind r"; cases "pr_exit_code r")
    (auto simp: exit_ok_def identified_def dget_dset_lit unidentified_counterexample_def dget_pd py_str_opt_def py_int_opt_def)

lemma boundary_identified:
  assumes "attack_ok a" and "rx_match TARGET_RE target" and "rx_match SHA256_REF i"
  shows "boundary_ok (identified target a r i) \<longleftrightarrow>
    pr_probe_id r \<in> set PROBES \<and> pr_failure_kind r \<in> Some ` {''exit_nonzero'', ''timeout'', ''tool_error''} \<and>
    rx_match SHA256_REF (pr_stdout_sha256 r) \<and> rx_match SHA256_REF (pr_stderr_sha256 r) \<and>
    pr_stdout_bytes r \<le> MAX_PROBE_OUTPUT_BYTES \<and> pr_stderr_bytes r \<le> MAX_PROBE_OUTPUT_BYTES"
  using assms
  by (cases "pr_failure_kind r")
    (auto simp: boundary_ok_def attack_ok_def identified_def dget_dset_lit unidentified_counterexample_def dget_pd py_str_opt_def matches_def)

lemma generated_iff:
  assumes "nfc_ascii nfc" and "digest32 h" and "attack_ok a" and "rx_match TARGET_RE target"
  shows "generated_counterexample h nfc target a r = Inr item \<longleftrightarrow>
    result_ok r \<and> item = identified target a r (sha256_ref h (utf8_bytes (text_of (PDict
       (counterexample_identity_projection (unidentified_counterexample target a r))))))"
    (is "_ \<longleftrightarrow> _ \<and> item = identified target a r ?i")
proof -
  have sha: "rx_match SHA256_REF (sha256_ref h b)" for b
    using sha256_ref_is_ref [OF assms(2)] by (simp add: is_sha256_ref_def)
  have proj: "counterexample_identity_projection (identified target a r j) =
      counterexample_identity_projection (unidentified_counterexample target a r)" for j
    by (simp add: identified_def projection_dset MUTABLE_KEYS_def)
  have ok: "boundary_ok (identified target a r j) \<and> exit_ok (identified target a r j) \<longleftrightarrow> result_ok r"
    if "rx_match SHA256_REF j" for j
    using boundary_identified [OF assms(3,4) that] exit_identified by (auto simp: result_ok_def)
  have res: "resolution_ok (identified target a r j)" for j
    by (simp add: resolution_ok_def identified_def dget_dset_lit unidentified_counterexample_def dget_pd)
  have id: "dget (identified target a r j) ''counterexample_id'' = PStr j" for j
    by (simp add: identified_def dget_dset_lit)
  show ?thesis
  proof
    assume gen: "generated_counterexample h nfc target a r = Inr item"
    then obtain j where j: "canonical_ref h nfc (PDict (counterexample_identity_projection (unidentified_counterexample target a r))) = Inr j"
      "validate_counterexample_shape h nfc (PDict (identified target a r j)) = Inr ()" "item = identified target a r j"
      by (auto simp: generated_counterexample_def Let_def bindE_eq_Inr identified_def)
    have "rx_match SHA256_REF j" using j(1) sha by (auto simp: canonical_ref_def bindE_eq_Inr)
    with j(2) ok have r: "result_ok r" by (auto simp: validate_counterexample_shape_iff)
    have "canonical_value nfc 1 (PDict (counterexample_identity_projection (unidentified_counterexample target a r)))"
      using projection_canonical [OF assms(1) identified_keys] ok [OF sha] r proj by metis
    from canonical_ref_value [OF this, of h] j(1) have "j = ?i" by (metis sum.inject(2))
    with j(3) r show "result_ok r \<and> item = identified target a r ?i" by metis
  next
    assume *: "result_ok r \<and> item = identified target a r ?i"
    have "canonical_value nfc 1 (PDict (counterexample_identity_projection (unidentified_counterexample target a r)))"
      using projection_canonical [OF assms(1) identified_keys] ok [OF sha] * proj by metis
    then have ref: "canonical_ref h nfc (PDict (counterexample_identity_projection (unidentified_counterexample target a r))) = Inr ?i"
      by (rule canonical_ref_value)
    have "validate_counterexample_shape h nfc (PDict (identified target a r ?i)) = Inr ()"
      unfolding validate_counterexample_shape_iff
      using ok [OF sha] * res id identified_keys ref proj by auto
    then show "generated_counterexample h nfc target a r = Inr item"
      using ref * by (simp add: generated_counterexample_def Let_def identified_def)
  qed
qed

lemma py_eq_simple [simp]: "py_eq (PInt i) (PInt j) \<longleftrightarrow> i = j"
  by (auto simp: num_of_def)

lemma identified_matches:
  assumes "\<not> pr_ok r"
  shows "counterexample_failure_matches (identified target a r i) r"
  using assms
  by (cases "pr_failure_kind r"; cases "pr_exit_code r")
    (simp_all add: counterexample_failure_matches_def identified_def dget_dset_lit unidentified_counterexample_def
      dget_pd py_str_opt_def py_int_opt_def num_of_def)

lemma option_ordered:
  "map_option ordered m = map_option ordered m' \<Longrightarrow>
     ordered (case m of None \<Rightarrow> PNone | Some v \<Rightarrow> v) = ordered (case m' of None \<Rightarrow> PNone | Some v \<Rightarrow> v)"
  by (cases m; cases m') (simp_all del: ordered_simps)

lemma corpus_attack_ok:
  assumes "validate_attack_corpus corpus = Inr attacks" and "a \<in> set attacks"
  shows "attack_ok a"
proof -
  from assms(1) obtain ids families where
    "foldE validate_attack ([], []) (items_of (dget corpus ''attacks'')) = Inr (ids, families)"
    "attacks = map dict_of (items_of (dget corpus ''attacks''))"
    by (auto simp: validate_attack_corpus_def Let_def bindE_eq_Inr split: if_splits)
  with validate_attacks_Inr [OF this(1)] assms(2) show ?thesis by auto
qed

section \<open>Properties\<close>

text \<open>C14: The identity of a counterexample binds its discovery facts: two accepted counterexamples with the
  same identity agree on every field but their resolution state, or they exhibit a SHA-256 collision.\<close>

theorem counterexample_id_binds_facts:
  assumes "nfc_ascii nfc"
    and "validate_counterexample_shape h nfc (PDict d) = Inr ()" and "distinct (map fst d)"
    and "validate_counterexample_shape h nfc (PDict d') = Inr ()" and "distinct (map fst d')"
    and "dget d ''counterexample_id'' = dget d' ''counterexample_id''"
  shows "(\<forall>k \<in> set FACT_KEYS. dget d k = dget d' k) \<or> collision h"
proof -
  let ?p = "counterexample_identity_projection d" and ?p' = "counterexample_identity_projection d'"
  obtain i where v: "keys_are d COUNTEREXAMPLE_KEYS" "boundary_ok d" "exit_ok d" "canonical_ref h nfc (PDict ?p) = Inr i"
    "keys_are d' COUNTEREXAMPLE_KEYS" "boundary_ok d'" "exit_ok d'" "canonical_ref h nfc (PDict ?p') = Inr i"
    using assms(2,4,6) by (auto simp: validate_counterexample_shape_iff)
  note c = projection_canonical [OF assms(1) v(1) assms(3) v(2,3)]
  note c' = projection_canonical [OF assms(1) v(5) assms(5) v(6,7)]
  have "sha256_ref h (utf8_bytes (text_of (PDict ?p))) = sha256_ref h (utf8_bytes (text_of (PDict ?p')))"
    using canonical_ref_value [OF c, of h] canonical_ref_value [OF c', of h] v(4,8) by simp
  from sha256_ref_inject [OF this] text_of_eq_iff [OF c c']
  have "ordered (PDict ?p) = ordered (PDict ?p') \<or> collision h" by blast
  moreover have "dget d k = dget d' k" if same: "ordered (PDict ?p) = ordered (PDict ?p')" and k: "k \<in> set FACT_KEYS" for k
  proof -
    have "map_option ordered (lookup ?p (lit k)) = map_option ordered (lookup ?p' (lit k))"
      using ordered_dicts_agree [OF same] assms(3,5)
      by (simp add: counterexample_identity_projection_def distinct_map_filter)
    then have "map_option ordered (lookup d (lit k)) = map_option ordered (lookup d' (lit k))"
      using k by (simp add: lookup_projection FACT_KEYS_def)
    then have "ordered (dget d k) = ordered (dget d' k)" unfolding dget_def by (rule option_ordered)
    then show ?thesis
      unfolding fact_ordered [OF facts [OF v(2,3) k]] fact_ordered [OF facts [OF v(6,7) k]] .
  qed
  ultimately show ?thesis by blast
qed

text \<open>The harness generates a counterexample exactly for the results within the recorded limits, whatever
  attack of an accepted corpus it belongs to: the item it builds passes the validator, is unresolved and
  matches the failure it was built from; a result whose output counts exceed the limit makes it fail.\<close>

theorem generated_counterexample_exact:
  assumes "nfc_ascii nfc" and "digest32 h" and "validate_attack_corpus corpus = Inr attacks" and "a \<in> set attacks"
    and "rx_match TARGET_RE target" and "\<not> pr_ok r"
  shows "((\<exists>item. generated_counterexample h nfc target a r = Inr item) \<longleftrightarrow> result_ok r) \<and>
    (\<forall>item. generated_counterexample h nfc target a r = Inr item \<longrightarrow>
      validate_counterexample_shape h nfc (PDict item) = Inr () \<and> counterexample_failure_matches item r \<and>
      dget item ''status'' = PS ''unresolved'' \<and> dget item ''target_commit'' = PStr target)"
proof -
  have a: "attack_ok a" by (rule corpus_attack_ok [OF assms(3,4)])
  note gen = generated_iff [OF assms(1,2) a assms(5)]
  have "validate_counterexample_shape h nfc (PDict item) = Inr () \<and> counterexample_failure_matches item r \<and>
      dget item ''status'' = PS ''unresolved'' \<and> dget item ''target_commit'' = PStr target"
    if item: "generated_counterexample h nfc target a r = Inr item" for item
  proof -
    obtain i where i: "item = identified target a r i" using item gen by blast
    have "validate_counterexample_shape h nfc (PDict item) = Inr ()"
      using item by (auto simp: generated_counterexample_def Let_def bindE_eq_Inr)
    moreover have "counterexample_failure_matches item r" unfolding i by (rule identified_matches [OF assms(6)])
    ultimately show ?thesis
      by (simp add: i identified_def dget_dset_lit unidentified_counterexample_def dget_pd)
  qed
  with gen show ?thesis by blast
qed

text \<open>C13: An accepted registry holds at most 32 counterexamples with distinct identities, each of the accepted
  shape, bound to an attack of the corpus and found at an ancestor of the reviewed commit; a resolved one
  was resolved by a later commit between the two; the recorded number of unresolved ones is the number.\<close>

theorem registry_sound:
  assumes "validate_registry h nfc hist registry attacks reviewed = Inr accepted"
  shows "length accepted \<le> MAX_ACCEPTED_COUNTEREXAMPLES \<and>
    distinct (map (\<lambda>d. str_of (dget d ''counterexample_id'')) accepted) \<and>
    (\<forall>d \<in> set accepted. validate_counterexample_shape h nfc (PDict d) = Inr () \<and> bound_to_attack attacks d \<and>
       in_history hist reviewed d) \<and>
    dget registry ''unresolved_counterexamples'' = PInt (int (length (filter (\<lambda>d. unresolved (PDict d)) accepted)))"
proof -
  let ?items = "items_of (dget registry ''counterexamples'')"
  from assms obtain ids n where f: "foldE (validate_entry h nfc hist attacks reviewed) ([], 0) ?items = Inr (ids, n)"
    "accepted = map dict_of ?items" "length ?items \<le> MAX_ACCEPTED_COUNTEREXAMPLES"
    "is_int (dget registry ''unresolved_counterexamples'') \<and> \<not> is_bool (dget registry ''unresolved_counterexamples'') \<and>
      int_of (dget registry ''unresolved_counterexamples'') = int n"
    by (auto simp: validate_registry_def Let_def bindE_eq_Inr split: if_splits)
  note e = validate_entries_Inr [OF f(1), simplified]
  then have ids: "ids = rev (map (\<lambda>item. str_of (dget (dict_of item) ''counterexample_id'')) ?items)" "distinct ids"
    using e by blast+
  have dict: "PDict (dict_of item) = item" if "item \<in> set ?items" for item
    using e that by (auto simp: entry_ok_def validate_counterexample_shape_iff)
  have "filter (\<lambda>d. unresolved (PDict d)) accepted = map dict_of (filter unresolved ?items)"
    using dict by (auto simp: f(2) filter_map comp_def intro!: arg_cong [of _ _ "map dict_of"] filter_cong)
  moreover have "distinct (map (\<lambda>d. str_of (dget d ''counterexample_id'')) accepted)"
    unfolding f(2) map_map comp_def using ids by (metis distinct_rev)
  moreover have "\<forall>d \<in> set accepted. validate_counterexample_shape h nfc (PDict d) = Inr () \<and> bound_to_attack attacks d \<and>
       in_history hist reviewed d"
    using e dict by (auto simp: f(2) entry_ok_def)
  moreover have "dget registry ''unresolved_counterexamples'' = PInt (int n)"
    using f(4) by (cases "dget registry ''unresolved_counterexamples''") auto
  ultimately show ?thesis using e f(2,3) by simp
qed

text \<open>In an accepted corpus each of the fifteen attack families occurs exactly once.\<close>

theorem corpus_covers_families:
  assumes "validate_attack_corpus corpus = Inr attacks"
  shows "length attacks = 15 \<and> distinct (map (\<lambda>a. dget a ''id'') attacks) \<and>
    distinct (map (\<lambda>a. dget a ''family'') attacks) \<and>
    set (map (\<lambda>a. dget a ''family'') attacks) = PS ` set EXPECTED_FAMILIES"
proof -
  let ?items = "items_of (dget corpus ''attacks'')"
  from assms obtain ids families where f: "foldE validate_attack ([], []) ?items = Inr (ids, families)"
    "attacks = map dict_of ?items" "length ?items = 15" "set families = set (map lit EXPECTED_FAMILIES)"
    by (auto simp: validate_attack_corpus_def Let_def bindE_eq_Inr split: if_splits)
  note e = validate_attacks_Inr [OF f(1), simplified]
  have str: "dget a ''id'' = PStr (str_of (dget a ''id''))" "dget a ''family'' = PStr (str_of (dget a ''family''))"
    if "a \<in> set attacks" for a
    using e that by (auto simp: f(2) attack_ok_def matches_def is_str_str_of)
  then have m: "map (\<lambda>a. dget a ''id'') attacks = map PStr (map (\<lambda>a. str_of (dget a ''id'')) attacks)"
    "map (\<lambda>a. dget a ''family'') attacks = map PStr (map (\<lambda>a. str_of (dget a ''family'')) attacks)"
    by (auto intro!: map_cong)
  have ids: "ids = rev (map (\<lambda>a. str_of (dget a ''id'')) attacks)"
    and fams: "families = rev (map (\<lambda>a. str_of (dget a ''family'')) attacks)"
    using e by (auto simp: f(2) comp_def)
  have "set (map (\<lambda>a. dget a ''family'') attacks) = PStr ` set families"
    unfolding m(2) fams set_map set_rev by (rule refl)
  also have "\<dots> = PS ` set EXPECTED_FAMILIES" using f(4) by (simp add: image_image)
  finally have cover: "set (map (\<lambda>a. dget a ''family'') attacks) = PS ` set EXPECTED_FAMILIES" .
  have "length attacks = 15" by (simp add: f(2,3))
  moreover have "distinct (map (\<lambda>a. dget a ''id'') attacks)"
  proof -
    have "distinct (map (\<lambda>a. str_of (dget a ''id'')) attacks)" using e ids by (metis distinct_rev)
    then show ?thesis unfolding m(1) distinct_map by (simp add: inj_on_def)
  qed
  moreover have "distinct (map (\<lambda>a. dget a ''family'') attacks)"
  proof -
    have "distinct (map (\<lambda>a. str_of (dget a ''family'')) attacks)" using e fams by (metis distinct_rev)
    then show ?thesis unfolding m(2) distinct_map by (simp add: inj_on_def)
  qed
  ultimately show ?thesis using cover by blast
qed

section \<open>Concrete corpora\<close>

definition demo_attack :: "string \<Rightarrow> string \<Rightarrow> pyval" where
  "demo_attack i f = PDict (pd [(''id'', PS i), (''family'', PS f), (''owner_phases'', PList [PS ''8'']),
     (''boundary_ids'', PList [PS ''core/limits'']), (''probe_ids'', PList [PS ''phase8'', PS ''rust_all''])])"

definition demo_corpus :: pydict where
  "demo_corpus = pd [(''schema'', PS ATTACK_CORPUS_SCHEMA), (''protocol'', PS PROTOCOL),
     (''attacks'', PList (map2 demo_attack
        [''MOR-001'', ''MOR-002'', ''MOR-003'', ''MOR-004'', ''MOR-005'', ''MOR-006'', ''MOR-007'', ''MOR-008'',
         ''MOR-009'', ''MOR-010'', ''MOR-011'', ''MOR-012'', ''MOR-013'', ''MOR-014'', ''MOR-015''] EXPECTED_FAMILIES)),
     (''production_credentials_allowed'', PBool False), (''production_targets_allowed'', PBool False),
     (''constitutional_bypass_allowed'', PBool False), (''authority_effect'', PS ''none'')]"

definition demo_attacks :: "pydict list" where
  "demo_attacks = map dict_of (items_of (dget demo_corpus ''attacks''))"

definition demo_digest :: "bytes \<Rightarrow> bytes" where "demo_digest b = replicate 32 7"
definition demo_commit :: pystr where "demo_commit = replicate 40 97"

definition demo_failure :: probe_result where
  "demo_failure = \<lparr>pr_probe_id = ''phase8'', pr_ok = False, pr_exit_code = Some 1, pr_failure_kind = Some ''exit_nonzero'',
     pr_stdout_sha256 = sha256_ref demo_digest [], pr_stderr_sha256 = sha256_ref demo_digest [],
     pr_stdout_bytes = 0, pr_stderr_bytes = 12, pr_stdout_truncated = False, pr_stderr_truncated = False,
     pr_diagnostic_class = None\<rparr>"

definition demo_counterexample :: pydict where
  "demo_counterexample = (case generated_counterexample demo_digest (\<lambda>s. s) demo_commit (hd demo_attacks) demo_failure of
     Inr item \<Rightarrow> item | Inl e \<Rightarrow> [])"

definition demo_registry :: pydict where
  "demo_registry = pd [(''schema'', PS REGISTRY_SCHEMA), (''protocol'', PS PROTOCOL),
     (''counterexamples'', PList [PDict demo_counterexample]), (''unresolved_counterexamples'', PInt 1),
     (''authority_effect'', PS ''none'')]"

definition demo_history :: history where
  "demo_history = \<lparr>commit_exists = \<lambda>c. Inr True, is_ancestor = \<lambda>a b. Inr True\<rparr>"

lemma demo_digest_32: "digest32 demo_digest"
  by (simp add: digest32_def demo_digest_def)

lemma bad_count_code [code]: "bad_count v \<longleftrightarrow> \<not> is_int v \<or> is_bool v \<or> \<not> (0 \<le> int_of v \<and> int_of v \<le> 1048576)"
  by (simp add: bad_count_def MAX_PROBE_OUTPUT_BYTES_def)

lemma demo_accepted: "validate_attack_corpus demo_corpus = Inr demo_attacks"
  by code_simp

lemma demo_commit_matches: "rx_match TARGET_RE demo_commit"
  by code_simp

lemma demo_attack_1:
  "dget (hd demo_attacks) ''id'' = PS ''MOR-001''"
  "dget (hd demo_attacks) ''family'' = PS ''canonical_parser_differentials''"
  "dget (hd demo_attacks) ''owner_phases'' = PList [PS ''8'']"
  "dget (hd demo_attacks) ''boundary_ids'' = PList [PS ''core/limits'']"
  "dget (hd demo_attacks) ''probe_ids'' = PList [PS ''phase8'', PS ''rust_all'']"
  by (simp_all add: demo_attacks_def demo_corpus_def dget_pd EXPECTED_FAMILIES_def demo_attack_def)

lemma demo_generated:
  "generated_counterexample demo_digest (\<lambda>s. s) demo_commit (hd demo_attacks) demo_failure = Inr demo_counterexample"
proof -
  have "\<exists>e. validate_attack ([], []) (hd (items_of (dget demo_corpus ''attacks''))) = Inr e" by (rule exI) code_simp
  then have "attack_ok (hd demo_attacks)"
    using validate_attack_Inr by (auto simp: demo_attacks_def demo_corpus_def EXPECTED_FAMILIES_def)
  moreover have "result_ok demo_failure" by (simp add: result_ok_def demo_failure_def PROBES_def) code_simp
  ultimately have "\<exists>item. generated_counterexample demo_digest (\<lambda>s. s) demo_commit (hd demo_attacks) demo_failure = Inr item"
    using generated_iff [OF _ demo_digest_32 _ demo_commit_matches] by (simp add: nfc_ascii_def)
  then show ?thesis by (auto simp: demo_counterexample_def)
qed

lemma demo_shape: "validate_counterexample_shape demo_digest (\<lambda>s. s) (PDict demo_counterexample) = Inr ()"
  using demo_generated by (auto simp: generated_counterexample_def Let_def bindE_eq_Inr)

lemma demo_fields:
  "distinct (map fst demo_counterexample)" "dget demo_counterexample ''attack_id'' = PS ''MOR-001''"
  "dget demo_counterexample ''family'' = PS ''canonical_parser_differentials''"
  "dget demo_counterexample ''owner_phases'' = PList [PS ''8'']"
  "dget demo_counterexample ''boundary_ids'' = PList [PS ''core/limits'']"
  "dget demo_counterexample ''regression_probe_ids'' = PList [PS ''phase8'']"
  "dget demo_counterexample ''status'' = PS ''unresolved''"
proof -
  obtain i where i: "demo_counterexample = identified demo_commit (hd demo_attacks) demo_failure i"
    using demo_generated unfolding generated_counterexample_def Let_def bindE_eq_Inr identified_def
    by (metis Inr_inject)
  show "distinct (map fst demo_counterexample)" unfolding i by (rule identified_keys)
  show "dget demo_counterexample ''attack_id'' = PS ''MOR-001''"
    "dget demo_counterexample ''family'' = PS ''canonical_parser_differentials''"
    "dget demo_counterexample ''owner_phases'' = PList [PS ''8'']"
    "dget demo_counterexample ''boundary_ids'' = PList [PS ''core/limits'']"
    "dget demo_counterexample ''regression_probe_ids'' = PList [PS ''phase8'']"
    "dget demo_counterexample ''status'' = PS ''unresolved''"
    by (simp_all add: i identified_def dget_dset_lit unidentified_counterexample_def dget_pd demo_attack_1 demo_failure_def)
qed

lemma demo_registry_accepted:
  "validate_registry demo_digest (\<lambda>s. s) demo_history demo_registry demo_attacks demo_commit = Inr [demo_counterexample]"
proof -
  have "attack_by_id demo_attacks (PS ''MOR-001'') = Some (hd demo_attacks)" by code_simp
  then have "validate_entry demo_digest (\<lambda>s. s) demo_history demo_attacks demo_commit ([], 0) (PDict demo_counterexample) =
      Inr ([str_of (dget demo_counterexample ''counterexample_id'')], 1)"
    by (simp add: validate_entry_def demo_shape demo_fields demo_attack_1 demo_history_def requireE_def Let_def)
  then show ?thesis
    by (simp add: validate_registry_def demo_registry_def dget_pd keys_are_def REGISTRY_KEYS_def MAX_ACCEPTED_COUNTEREXAMPLES_def)
qed

lemma counterexample_id_binds_facts_witness:
  "list_all (\<lambda>k. dget demo_counterexample k = dget demo_counterexample k) FACT_KEYS \<or> collision demo_digest"
  unfolding list_all_iff
  by (rule counterexample_id_binds_facts [of "\<lambda>s. s" demo_digest demo_counterexample demo_counterexample])
    (simp_all add: nfc_ascii_def demo_shape demo_fields(1))

lemma generated_counterexample_exact_witness:
  "(\<exists>item. generated_counterexample demo_digest (\<lambda>s. s) demo_commit (hd demo_attacks) demo_failure = Inr item) \<longleftrightarrow>
     result_ok demo_failure"
  using generated_counterexample_exact [of "\<lambda>s. s" demo_digest demo_corpus demo_attacks "hd demo_attacks" demo_commit demo_failure]
    demo_digest_32 demo_accepted demo_commit_matches
  by (simp add: nfc_ascii_def demo_failure_def demo_attacks_def demo_corpus_def EXPECTED_FAMILIES_def)

lemma registry_sound_witness: "length [demo_counterexample] \<le> MAX_ACCEPTED_COUNTEREXAMPLES"
  using registry_sound [OF demo_registry_accepted] by blast

lemma corpus_covers_families_witness: "length demo_attacks = 15"
  using corpus_covers_families [OF demo_accepted] by blast

end
