(* ===== verification/Process_Tree.thy ===== *)
theory Process_Tree
  imports Py_Text "HOL-Library.AList"
begin

text \<open>
  Finding and killing the processes of a probe in \<open>tools/run_moriarty.py\<close>: the parent map read from
  \<open>/proc\<close>, the descendants of a process, the kill rounds and the reaping of adopted children. The
  process table, the answers of \<open>kill\<close> and of \<open>waitpid\<close> are parameters; the table may be another one
  at each scan.
\<close>

section \<open>The parent map\<close>

text \<open>The entries of \<open>/proc\<close> with the text of their status file, None when it cannot be read.\<close>

type_synonym process_table = "(pystr \<times> pystr option) list"
type_synonym parent_map = "(int \<times> int) list"

text \<open>\<open>str.isdigit\<close> for the ASCII names of \<open>/proc\<close>.\<close>

definition isdigit :: "pystr \<Rightarrow> bool" where
  "isdigit s \<longleftrightarrow> s \<noteq> [] \<and> list_all is_digit s"

text \<open>\<open>int(entry.name)\<close> and \<open>int(line.split()[1])\<close> of the first line that starts with \<open>PPid:\<close>.\<close>

definition parent_entry :: "pystr \<times> pystr option \<Rightarrow> (int \<times> int) option" where
  "parent_entry e = (case e of (name, status) \<Rightarrow>
     if \<not> isdigit name then None
     else case status of
       None \<Rightarrow> None
     | Some text' \<Rightarrow>
         (case find (\<lambda>line. starts_with line (lit ''PPid:'')) (splitlines text') of
           None \<Rightarrow> None
         | Some line \<Rightarrow>
             (case split_ws line of
               _ # parent # _ \<Rightarrow>
                 (case (py_int_text 10 parent, py_int_text 10 name) of
                   (Some q, Some p) \<Rightarrow> Some (p, q)
                 | _ \<Rightarrow> None)
             | _ \<Rightarrow> None)))"

definition process_parent_map :: "process_table \<Rightarrow> parent_map" where
  "process_parent_map table =
     foldl (\<lambda>parents e. case parent_entry e of None \<Rightarrow> parents | Some (p, q) \<Rightarrow> AList.update p q parents) [] table"

section \<open>Descendants\<close>

definition next_frontier :: "parent_map \<Rightarrow> int list \<Rightarrow> int list \<Rightarrow> int list" where
  "next_frontier parents frontier descendants =
     map fst (filter (\<lambda>(pid, parent). parent \<in> set frontier \<and> pid \<notin> set descendants) parents)"

lemma set_next_frontier:
  "set (next_frontier parents frontier descendants) =
     {pid. \<exists>parent. (pid, parent) \<in> set parents \<and> parent \<in> set frontier \<and> pid \<notin> set descendants}"
  by (force simp: next_frontier_def)

function descend :: "parent_map \<Rightarrow> int list \<Rightarrow> int list \<Rightarrow> int list" where
  "descend parents frontier descendants =
     (if frontier = [] then descendants
      else let new = next_frontier parents frontier descendants in descend parents new (descendants @ new))"
  by pat_completeness auto
termination
proof (relation "measures [\<lambda>(parents, frontier, descendants). card (fst ` set parents - set descendants),
    \<lambda>(parents, frontier, descendants). length frontier]", goal_cases)
  case (2 parents frontier descendants new)
  show ?case
  proof (cases "new = []")
    case False
    then obtain pid where "pid \<in> set new" by (cases new) auto
    then have "pid \<in> fst ` set parents - set descendants" using 2 set_next_frontier by force
    moreover have "pid \<notin> fst ` set parents - set (descendants @ new)" using \<open>pid \<in> set new\<close> by simp
    ultimately have "fst ` set parents - set (descendants @ new) \<subset> fst ` set parents - set descendants" by auto
    then have "card (fst ` set parents - set (descendants @ new)) < card (fst ` set parents - set descendants)"
      by (intro psubset_card_mono) simp_all
    then show ?thesis by simp
  qed (use 2 in simp)
qed simp

declare descend.simps [simp del]

definition descendant_pids :: "int \<Rightarrow> process_table \<Rightarrow> int list" where
  "descendant_pids top_pid table = descend (process_parent_map table) [top_pid] []"

section \<open>Killing\<close>

datatype kill_answer = Sent | NoProcess | KillError nat

text \<open>What the kernel answers: to the kill of the group, and at each scan the table and the kills.\<close>

record kill_world =
  killpg_answer :: kill_answer
  scan_table :: "nat \<Rightarrow> process_table"
  kill_answers :: "nat \<Rightarrow> int \<Rightarrow> kill_answer"
  harness :: int

fun kill_each :: "kill_world \<Rightarrow> nat \<Rightarrow> int list \<Rightarrow> int list \<Rightarrow> int list \<times> unit result" where
  "kill_each w scan [] signalled = (signalled, Inr ())"
| "kill_each w scan (pid # pids) signalled =
     (case kill_answers w scan pid of
        KillError errno \<Rightarrow> (signalled @ [pid], Inl (OSError errno))
      | _ \<Rightarrow> kill_each w scan pids (signalled @ [pid]))"

text \<open>The rounds that are left, with the number of the scan that comes next.\<close>

fun kill_rounds :: "kill_world \<Rightarrow> nat \<Rightarrow> nat \<Rightarrow> int list \<Rightarrow> int list \<times> unit result" where
  "kill_rounds w 0 scan signalled = (signalled, Inr ())"
| "kill_rounds w (Suc rounds) scan signalled =
     (let descendants = descendant_pids (harness w) (scan_table w scan) in
      if descendants = [] then (signalled, Inr ())
      else case kill_each w scan (rev (sort descendants)) signalled of
        (signalled', Inl e) \<Rightarrow> (signalled', Inl e)
      | (signalled', Inr _) \<Rightarrow> kill_rounds w rounds (scan + 1) signalled')"

text \<open>\<open>cgroup\<close> is the result of \<open>kill_probe_cgroup\<close> on the active cgroup, when there is one.\<close>

definition kill_probe_tree :: "kill_world \<Rightarrow> unit result option \<Rightarrow> int list \<times> unit result" where
  "kill_probe_tree w cgroup =
     (case killpg_answer w of
        KillError errno \<Rightarrow> ([], Inl (OSError errno))
      | _ \<Rightarrow> (case cgroup of
                Some (Inl e) \<Rightarrow> ([], Inl e)
              | _ \<Rightarrow> kill_rounds w 4 0 []))"

text \<open>
  \<open>waitpid(-1, WNOHANG)\<close> until there is no child left (None) or none has exited (0); the result is
  None when the answers end before the loop does.
\<close>

fun reap_adopted_children :: "int option list \<Rightarrow> int list option" where
  "reap_adopted_children [] = None"
| "reap_adopted_children (None # _) = Some []"
| "reap_adopted_children (Some pid # answers) =
     (if pid = 0 then Some [] else map_option ((#) pid) (reap_adopted_children answers))"

section \<open>Laws\<close>

definition child_of :: "parent_map \<Rightarrow> (int \<times> int) set" where
  "child_of parents = {(q, p). (p, q) \<in> set parents}"

lemma descend_closure:
  assumes "set descendants \<subseteq> {p. (top_pid, p) \<in> (child_of parents)\<^sup>+}"
    and "set frontier \<subseteq> insert top_pid (set descendants)"
    and "\<And>p q. (p, q) \<in> set parents \<Longrightarrow> q \<in> insert top_pid (set descendants) - set frontier \<Longrightarrow> p \<in> set descendants"
    and "top_pid \<in> set frontier \<or> (\<forall>p. (p, top_pid) \<in> set parents \<longrightarrow> p \<in> set descendants)"
  shows "set (descend parents frontier descendants) = {p. (top_pid, p) \<in> (child_of parents)\<^sup>+}"
  using assms
proof (induction parents frontier descendants rule: descend.induct)
  case (1 parents frontier descendants)
  let ?new = "next_frontier parents frontier descendants"
  show ?case
  proof (cases "frontier = []")
    case True
    have "p \<in> set descendants" if "(top_pid, p) \<in> (child_of parents)\<^sup>+" for p
      using that
    proof (induction rule: trancl_induct)
      case (base p)
      then show ?case using 1(5) True by (auto simp: child_of_def)
    next
      case (step q p)
      then show ?case using 1(4) True by (auto simp: child_of_def)
    qed
    with 1(2) True show ?thesis by (auto simp: descend.simps [of parents "[]"])
  next
    case False
    have new: "(top_pid, p) \<in> (child_of parents)\<^sup>+" if p: "p \<in> set ?new" for p
    proof -
      obtain q where q: "(p, q) \<in> set parents" "q \<in> set frontier" using p by (auto simp: set_next_frontier)
      then have "(q, p) \<in> child_of parents" by (simp add: child_of_def)
      moreover have "q = top_pid \<or> (top_pid, q) \<in> (child_of parents)\<^sup>+" using q 1(2,3) by auto
      ultimately show ?thesis by (auto intro: trancl_into_trancl)
    qed
    have closed: "p \<in> set (descendants @ ?new)"
      if "(p, q) \<in> set parents" "q \<in> insert top_pid (set (descendants @ ?new)) - set ?new" for p q
      using 1(4,5) that by (auto simp: set_next_frontier)
    have "set (descend parents ?new (descendants @ ?new)) = {p. (top_pid, p) \<in> (child_of parents)\<^sup>+}"
    proof (rule 1(1) [OF False refl])
      show "top_pid \<in> set ?new \<or> (\<forall>p. (p, top_pid) \<in> set parents \<longrightarrow> p \<in> set (descendants @ ?new))"
        using 1(5) by (auto simp: set_next_frontier)
    qed (use new 1(2) closed in auto)
    then show ?thesis using False by (simp add: descend.simps [of parents frontier] Let_def)
  qed
qed

lemma kill_each_Inr:
  "kill_each w scan pids signalled = (signalled', Inr ()) \<Longrightarrow> signalled' = signalled @ pids"
  by (induction w scan pids signalled rule: kill_each.induct) (auto split: kill_answer.splits)

text \<open>The scans that a successful kill makes: each but the last found descendants.\<close>

lemma kill_rounds_Inr:
  "kill_rounds w rounds scan signalled = (signalled', Inr ()) \<Longrightarrow>
     \<exists>n \<le> rounds. (n = rounds \<or> descendant_pids (harness w) (scan_table w (scan + n)) = []) \<and>
       set signalled' = set signalled \<union> (\<Union>i < n. set (descendant_pids (harness w) (scan_table w (scan + i))))"
proof (induction w rounds scan signalled rule: kill_rounds.induct)
  case (2 w rounds scan signalled)
  let ?d = "descendant_pids (harness w) (scan_table w scan)"
  show ?case
  proof (cases "?d = []")
    case True
    with 2(2) show ?thesis by (intro exI [of _ 0]) simp
  next
    case False
    with 2(2) have k: "kill_each w scan (rev (sort ?d)) signalled = (signalled @ rev (sort ?d), Inr ())"
      using kill_each_Inr by (fastforce split: prod.splits sum.splits)
    with 2(2) False have r: "kill_rounds w rounds (scan + 1) (signalled @ rev (sort ?d)) = (signalled', Inr ())"
      by simp
    obtain n where n: "n \<le> rounds"
      "n = rounds \<or> descendant_pids (harness w) (scan_table w (scan + 1 + n)) = []"
      "set signalled' = set (signalled @ rev (sort ?d)) \<union>
         (\<Union>i < n. set (descendant_pids (harness w) (scan_table w (scan + 1 + i))))"
      using 2(1) [OF refl False k [symmetric] refl r] by blast
    have "(\<Union>i < Suc n. set (descendant_pids (harness w) (scan_table w (scan + i)))) =
        set ?d \<union> (\<Union>i < n. set (descendant_pids (harness w) (scan_table w (scan + 1 + i))))"
      unfolding lessThan_Suc_eq_insert_0 by (simp add: image_image)
    with n show ?thesis by (intro exI [of _ "Suc n"]) auto
  qed
qed auto

section \<open>Properties\<close>

text \<open>The descendants found in one process table are exactly the processes that reach the top_pid by
  following parents, however the table is ordered and also when it has cycles.\<close>

theorem descendant_pids_transitive:
  "set (descendant_pids top_pid table) = {p. (top_pid, p) \<in> (child_of (process_parent_map table))\<^sup>+}"
  unfolding descendant_pids_def by (rule descend_closure) auto

text \<open>A kill that reports success sent SIGKILL to every descendant seen in its scans, and either a scan
  found none left or all four scans were made.\<close>

theorem kill_probe_tree_covers:
  assumes "kill_probe_tree w cgroup = (signalled, Inr ())"
  shows "\<exists>n \<le> 4. (n = 4 \<or> descendant_pids (harness w) (scan_table w n) = []) \<and>
    set signalled = (\<Union>i < n. set (descendant_pids (harness w) (scan_table w i)))"
proof -
  have "kill_rounds w 4 0 [] = (signalled, Inr ())"
    using assms by (auto simp: kill_probe_tree_def split: kill_answer.splits option.splits sum.splits)
  from kill_rounds_Inr [OF this] show ?thesis by simp
qed

definition demo_table :: "nat \<Rightarrow> process_table" where
  "demo_table scan = (if 2 \<le> scan then [(lit ''5'', Some (lit ''Name: x'' @ [10] @ lit ''PPid: 4''))]
     else [(lit ''9'', Some (lit ''PPid: 7'')), (lit ''7'', Some (lit ''PPid: 5'')), (lit ''self'', None), (lit ''8'', Some (lit ''PPid: 1''))])"

definition demo_kills :: kill_world where
  "demo_kills = \<lparr>killpg_answer = NoProcess, scan_table = demo_table, kill_answers = (\<lambda>i p. Sent), harness = 5\<rparr>"

lemma demo_killed: "kill_probe_tree demo_kills (Some (Inr ())) = ([9, 7, 9, 7], Inr ())"
  by code_simp

theorem kill_probe_tree_covers_witness:
  "\<exists>n. n \<le> 4 \<and> (n = 4 \<or> descendant_pids (harness demo_kills) (scan_table demo_kills n) = []) \<and>
    set [9, 7, 9, 7] = (\<Union>i < n. set (descendant_pids (harness demo_kills) (scan_table demo_kills i)))"
  using kill_probe_tree_covers [OF demo_killed] by blast

end
