(* ===== verification/Probe_Output.thy ===== *)
theory Probe_Output
  imports Moriarty_Registry Py_Text
begin

text \<open>
  The output of a probe in \<open>tools/run_moriarty.py\<close>: the bounded capture
  (\<open>bounded_output_update\<close>), the diagnostic class of a failed Rust probe
  (\<open>_classify_rust_failure\<close>), the normalisation of paths and run times
  (\<open>_normalize_probe_output\<close>, \<open>_RUNTIME_NORMALIZATIONS\<close>) and the result of a probe that fails before
  it runs (\<open>_probe_failure_result\<close>). \<open>str.lower\<close> and SHA-256 are parameters.
\<close>

section \<open>Bounded capture\<close>

text \<open>\<open>digest\<close> stands for the bytes that were fed to the hash object.\<close>

definition bounded_output_update :: "bytes \<Rightarrow> nat \<Rightarrow> bytes \<Rightarrow> bytes \<times> nat \<times> bool" where
  "bounded_output_update digest count chunk =
     (let remaining = MAX_PROBE_OUTPUT_BYTES - count; accepted = take remaining chunk in
      (digest @ accepted, count + length accepted, remaining < length chunk))"

section \<open>Diagnostics\<close>

text \<open>The octets that one replacement character stands for in a malformed sequence.\<close>

definition bad_prefix :: "nat list \<Rightarrow> nat" where
  "bad_prefix bs = (case bs of
     b0 # b1 # r \<Rightarrow>
       if (b0 = 0xE0 \<and> 0xA0 \<le> b1 \<and> b1 \<le> 0xBF) \<or> (b0 = 0xED \<and> 0x80 \<le> b1 \<and> b1 \<le> 0x9F) \<or>
          (0xE1 \<le> b0 \<and> b0 \<le> 0xEF \<and> b0 \<noteq> 0xED \<and> cont b1) then 2
       else if (b0 = 0xF0 \<and> 0x90 \<le> b1 \<and> b1 \<le> 0xBF) \<or> (b0 = 0xF4 \<and> 0x80 \<le> b1 \<and> b1 \<le> 0x8F) \<or>
          (0xF1 \<le> b0 \<and> b0 \<le> 0xF3 \<and> cont b1)
       then (case r of b2 # _ \<Rightarrow> if cont b2 then 3 else 2 | [] \<Rightarrow> 2)
       else 1
   | _ \<Rightarrow> 1)"

text \<open>\<open>bytes.decode("utf-8", errors="replace")\<close>.\<close>

function decode_replace :: "nat list \<Rightarrow> pystr" where
  "decode_replace bs =
     (if bs = [] then []
      else case utf8_next bs of
        Some (c, n) \<Rightarrow> c # decode_replace (drop (max 1 n) bs)
      | None \<Rightarrow> 0xFFFD # decode_replace (drop (bad_prefix bs) bs))"
  by pat_completeness auto
termination
  by (relation "measure length") (auto simp: bad_prefix_def split: list.splits)

declare decode_replace.simps [simp del]

fun contains :: "'a list \<Rightarrow> 'a list \<Rightarrow> bool" where
  "contains [] p = (p = [])"
| "contains (c # s) p = (starts_with (c # s) p \<or> contains s p)"

definition mentions :: "pystr \<Rightarrow> string \<Rightarrow> bool" where
  "mentions s word = contains s (lit word)"

definition classify_rust_failure :: "(pystr \<Rightarrow> pystr) \<Rightarrow> bytes \<Rightarrow> string" where
  "classify_rust_failure lower stderr =
     (let t = lower (decode_replace (map unat stderr));
          denied = mentions t ''permission denied'' \<or> mentions t ''os error 13'';
          not_permitted = mentions t ''operation not permitted'' \<or> mentions t ''os error 1'' in
      if mentions t ''/proc/'' \<and> (denied \<or> not_permitted) then ''proc_access_denied''
      else if mentions t ''failed to run custom build command'' then ''build_script''
      else if mentions t ''linking with'' \<or> mentions t ''linker'' then ''linker''
      else if mentions t ''failed to download'' \<or> mentions t ''offline mode'' \<or>
        mentions t ''no matching package named'' then ''offline_dependency''
      else if mentions t ''could not execute process'' \<or> mentions t ''failed to run rustc'' then ''rustc_spawn''
      else if mentions t ''read-only file system'' \<or> mentions t ''os error 30'' then ''read_only_filesystem''
      else if denied then ''filesystem_permission''
      else if not_permitted then ''seccomp_or_permission''
      else if mentions t ''can't find crate for `std`'' \<or> mentions t ''couldn't find crate'' then ''rust_sysroot''
      else ''rust_exit_other'')"

section \<open>Regular expressions with a group\<close>

text \<open>
  Patterns as the backtracking matcher of Python tries them: \<open>ends p s i\<close> lists the positions at
  which a match of \<open>p\<close> that starts at \<open>i\<close> can end, in the order in which they are tried (a greedy
  repetition takes as much as it can first).
\<close>

datatype pat =
    Byte "nat list"
  | Run "nat \<Rightarrow> bool" nat
  | Then pat pat
  | Opt pat
  | LineStart
  | LineEnd
  | Nothing

text \<open>\<open>Byte cs\<close> is the literal text of the octets \<open>cs\<close>, \<open>Run q k\<close> at least \<open>k\<close> octets of the class \<open>q\<close>.\<close>

fun ends :: "pat \<Rightarrow> bytes \<Rightarrow> nat \<Rightarrow> nat list" where
  "ends (Byte cs) s i = (if starts_with (map unat (drop i s)) cs then [i + length cs] else [])"
| "ends (Run q k) s i =
     (let n = length (takeWhile (\<lambda>b. q (unat b)) (drop i s)) in rev [i + k ..< i + n + 1])"
| "ends (Then p q) s i = concat (map (ends q s) (ends p s i))"
| "ends (Opt p) s i = ends p s i @ [i]"
| "ends LineStart s i = (if i = 0 \<or> unat (s ! (i - 1)) = 10 then [i] else [])"
| "ends LineEnd s i = (if i = length s \<or> unat (s ! i) = 10 then [i] else [])"
| "ends Nothing s i = [i]"

text \<open>What comes before the group, the group, what comes after it, and the text written after the group.\<close>

record rule =
  r_before :: pat
  r_group :: pat
  r_after :: pat
  r_suffix :: string

definition match_at :: "rule \<Rightarrow> bytes \<Rightarrow> nat \<Rightarrow> (nat \<times> nat \<times> nat) option" where
  "match_at rule s i =
     (case concat (map (\<lambda>a. concat (map (\<lambda>b. map (\<lambda>e. (a, b, e)) (ends (r_after rule) s b)) (ends (r_group rule) s a)))
             (ends (r_before rule) s i)) of
        [] \<Rightarrow> None
      | m # _ \<Rightarrow> Some m)"

text \<open>\<open>pattern.sub(replacement, s)\<close> from position \<open>i\<close> on; no pattern matches the empty text.\<close>

function sub_from :: "rule \<Rightarrow> bytes \<Rightarrow> nat \<Rightarrow> bytes" where
  "sub_from rule s i =
     (if length s \<le> i then []
      else case match_at rule s i of
        Some (a, b, e) \<Rightarrow>
          if i < e then slice s a b @ map of_char (r_suffix rule) @ sub_from rule s e
          else s ! i # sub_from rule s (i + 1)
      | None \<Rightarrow> s ! i # sub_from rule s (i + 1))"
  by pat_completeness auto
termination by (relation "measure (\<lambda>(rule, s, i). length s - i)") auto

declare sub_from.simps [simp del]

definition digit_class :: "nat \<Rightarrow> bool" where "digit_class c \<longleftrightarrow> 48 \<le> c \<and> c \<le> 57"
definition space_class :: "nat \<Rightarrow> bool" where "space_class c \<longleftrightarrow> c = 32 \<or> (9 \<le> c \<and> c \<le> 13)"

definition lit_pat :: "string \<Rightarrow> pat" where "lit_pat s = Byte (lit s)"

text \<open>\<open>(?:[0-9]+m )?[0-9]+(?:\\.[0-9]+)?s\<close>.\<close>

definition seconds :: pat where
  "seconds = Then (Opt (Then (Run digit_class 1) (lit_pat ''m ''))) (Then (Run digit_class 1)
     (Then (Opt (Then (lit_pat ''.'') (Run digit_class 1))) (lit_pat ''s'')))"

definition RUNTIME_NORMALIZATIONS :: "rule list" where
  "RUNTIME_NORMALIZATIONS =
     [\<lparr>r_before = LineStart, r_group = Then (Run space_class 0) (Then (lit_pat ''Finished '') (Run (\<lambda>c. c \<noteq> 10) 0)),
       r_after = Then (lit_pat '' in '') (Then seconds LineEnd), r_suffix = '' in <T>s''\<rparr>,
      \<lparr>r_before = Nothing, r_group = Nothing, r_after = Then (lit_pat ''; finished in '') seconds,
       r_suffix = ''; finished in <T>s''\<rparr>,
      \<lparr>r_before = Nothing, r_group = Nothing, r_after = Then (lit_pat ''(pid='') (Then (Run digit_class 1) (lit_pat '')'')),
       r_suffix = ''(pid=<PID>)''\<rparr>,
      \<lparr>r_before = Nothing,
       r_group = Then (lit_pat ''thread '') (Then (Byte [39]) (Then (Run (\<lambda>c. c \<noteq> 39 \<and> c \<noteq> 13 \<and> c \<noteq> 10) 0) (Byte [39, 32]))),
       r_after = Then (lit_pat ''('') (Then (Run digit_class 1) (lit_pat '')'')), r_suffix = ''(<TID>)''\<rparr>]"

section \<open>Normalisation\<close>

definition MARKERS :: "string list" where
  "MARKERS = [''<SOURCE>'', ''<TARGET>'', ''<HOME>'', ''<CARGO_HOME>'', ''<TMP>'', ''<WORK>'']"

text \<open>The paths are the encoded resolved paths, in the order of the markers.\<close>

definition replacements :: "bytes list \<Rightarrow> (bytes \<times> bytes) list" where
  "replacements paths = sort_key (\<lambda>(raw, marker). - int (length raw)) (zip paths (map (map of_char) MARKERS))"

definition normalize_probe_output :: "string \<Rightarrow> bytes list \<Rightarrow> bytes \<Rightarrow> bytes result" where
  "normalize_probe_output probe_id paths data =
     (if [] \<in> set paths then Inl (SystemExit ''moriarty_workspace_normalization_path_invalid'')
      else let normalized = foldl (\<lambda>d (raw, marker). py_replace raw marker d) data (replacements paths) in
        Inr (if probe_id = ''rust_all'' then foldl (\<lambda>d rule. sub_from rule d 0) normalized RUNTIME_NORMALIZATIONS
             else normalized))"

section \<open>Failure results\<close>

definition bytes_ref :: "(bytes \<Rightarrow> bytes) \<Rightarrow> bytes \<Rightarrow> pystr" where
  "bytes_ref sha256 data = sha256_ref sha256 data"

definition probe_failure_result :: "(bytes \<Rightarrow> bytes) \<Rightarrow> string \<Rightarrow> string \<Rightarrow> bytes \<Rightarrow> probe_result" where
  "probe_failure_result sha256 probe_id kind diagnostic =
     (let bounded = take MAX_PROBE_OUTPUT_BYTES diagnostic in
      \<lparr>pr_probe_id = probe_id, pr_ok = False, pr_exit_code = None, pr_failure_kind = Some kind,
        pr_stdout_sha256 = bytes_ref sha256 [], pr_stderr_sha256 = bytes_ref sha256 bounded,
        pr_stdout_bytes = 0, pr_stderr_bytes = length bounded, pr_stdout_truncated = False,
        pr_stderr_truncated = (length bounded < length diagnostic),
        pr_diagnostic_class = (if probe_id = ''rust_all'' then Some ''harness_precheck'' else None)\<rparr>)"

section \<open>Laws\<close>

text \<open>However the stream is cut into chunks, the hash gets its first octets and overflow is exact.\<close>

lemma bounded_output_updates:
  "foldl (\<lambda>(d, n, over) chunk. case bounded_output_update d n chunk of (d', n', over') \<Rightarrow> (d', n', over \<or> over'))
     (take MAX_PROBE_OUTPUT_BYTES s, min (length s) MAX_PROBE_OUTPUT_BYTES, MAX_PROBE_OUTPUT_BYTES < length s) chunks =
   (take MAX_PROBE_OUTPUT_BYTES (s @ concat chunks), min (length (s @ concat chunks)) MAX_PROBE_OUTPUT_BYTES,
    MAX_PROBE_OUTPUT_BYTES < length (s @ concat chunks))"
proof (induction chunks arbitrary: s)
  case (Cons c chunks)
  have "bounded_output_update (take MAX_PROBE_OUTPUT_BYTES s) (min (length s) MAX_PROBE_OUTPUT_BYTES) c =
      (take MAX_PROBE_OUTPUT_BYTES (s @ c), min (length (s @ c)) MAX_PROBE_OUTPUT_BYTES,
       MAX_PROBE_OUTPUT_BYTES - min (length s) MAX_PROBE_OUTPUT_BYTES < length c)"
    by (auto simp: bounded_output_update_def Let_def min_def)
  moreover have "(MAX_PROBE_OUTPUT_BYTES < length s \<or> MAX_PROBE_OUTPUT_BYTES - min (length s) MAX_PROBE_OUTPUT_BYTES < length c)
      \<longleftrightarrow> MAX_PROBE_OUTPUT_BYTES < length (s @ c) \<or> (MAX_PROBE_OUTPUT_BYTES < length s)"
    by auto
  moreover have "\<dots> \<longleftrightarrow> MAX_PROBE_OUTPUT_BYTES < length (s @ c)" by auto
  ultimately show ?case using Cons.IH [of "s @ c"] by simp
qed simp

definition DIAGNOSTIC_CLASSES :: "string list" where
  "DIAGNOSTIC_CLASSES = [''proc_access_denied'', ''build_script'', ''linker'', ''offline_dependency'', ''rustc_spawn'',
     ''read_only_filesystem'', ''filesystem_permission'', ''seccomp_or_permission'', ''rust_sysroot'', ''rust_exit_other'']"

lemma classify_closed: "classify_rust_failure lower stderr \<in> set DIAGNOSTIC_CLASSES"
  unfolding classify_rust_failure_def Let_def DIAGNOSTIC_CLASSES_def by simp

lemma probe_failure_result_simps [simp]:
  "pr_ok (probe_failure_result h p k d) = False" "pr_exit_code (probe_failure_result h p k d) = None"
  "pr_failure_kind (probe_failure_result h p k d) = Some k" "pr_probe_id (probe_failure_result h p k d) = p"
  "pr_stdout_bytes (probe_failure_result h p k d) = 0"
  "pr_stderr_bytes (probe_failure_result h p k d) = min (length d) MAX_PROBE_OUTPUT_BYTES"
  "pr_stdout_sha256 (probe_failure_result h p k d) = sha256_ref h []"
  "pr_stderr_sha256 (probe_failure_result h p k d) = sha256_ref h (take MAX_PROBE_OUTPUT_BYTES d)"
  by (simp_all add: probe_failure_result_def bytes_ref_def Let_def)

section \<open>A misclassified error\<close>

text \<open>The test for \<open>os error 1\<close> also accepts the errors 10 to 19: a build that fails because a file
  exists (error 17) is reported as a seccomp or permission failure.\<close>

lemma errno_prefix_misclassified:
  "classify_rust_failure (\<lambda>s. s) (map of_char ''error: file exists (os error 17)'') = ''seccomp_or_permission''"
  by code_simp

section \<open>Normalised output\<close>

lemma contains_iff: "contains s p \<longleftrightarrow> (\<exists>a b. s = a @ p @ b)"
proof (induction s)
  case (Cons c s)
  have "(\<exists>a b. c # s = a @ p @ b) \<longleftrightarrow> (\<exists>b. c # s = p @ b) \<or> (\<exists>a b. s = a @ p @ b)"
    by (metis append_Cons append_Nil list.sel(3) neq_Nil_conv)
  then show ?case using Cons.IH by (simp add: starts_with_iff)
qed simp

lemma contains_suffix: "contains s p \<Longrightarrow> contains (a @ s) p"
  by (metis append.assoc contains_iff)

lemma contains_skip: "p \<noteq> [] \<Longrightarrow> hd p \<notin> set new \<Longrightarrow> contains (new @ s) p \<longleftrightarrow> contains s p"
  by (induction new; cases p) (auto simp: starts_with_iff)

lemma py_replace_prefix:
  "new \<noteq> [] \<Longrightarrow> hd new \<notin> set p \<Longrightarrow> starts_with (py_replace old new s) p \<Longrightarrow> starts_with s p"
proof (induction old new s arbitrary: p rule: py_replace.induct)
  case (2 old new c s)
  show ?case
  proof (cases p)
    case (Cons d q)
    with 2 show ?thesis by (cases new) (auto split: if_splits)
  qed (simp add: starts_with_iff)
qed simp

lemma py_replace_contains:
  assumes "new \<noteq> []" and "hd new \<notin> set p" and "p \<noteq> []" and "hd p \<notin> set new"
  shows "contains (py_replace old new s) p \<Longrightarrow> contains s p"
  using assms
proof (induction old new s rule: py_replace.induct)
  case (2 old new c s)
  show ?case
  proof (cases "old \<noteq> [] \<and> starts_with (c # s) old")
    case True
    with 2 have "contains (drop (length old) (c # s)) p" by (simp add: contains_skip)
    then show ?thesis by (metis append_take_drop_id contains_suffix)
  next
    case False
    with 2(3) consider "starts_with (py_replace old new (c # s)) p" | "contains (py_replace old new s) p" by auto
    then show ?thesis
    proof cases
      case 1
      with 2(4,5) have "starts_with (c # s) p" by (rule py_replace_prefix)
      then show ?thesis by simp
    next
      case 2
      with False "2.IH"(2) "2.prems" show ?thesis by simp
    qed
  qed
qed simp

lemma py_replace_removes:
  assumes "new \<noteq> []" and "hd new \<notin> set old" and "old \<noteq> []" and "hd old \<notin> set new"
  shows "\<not> contains (py_replace old new s) old"
  using assms
proof (induction old new s rule: py_replace.induct)
  case (2 old new c s)
  show ?case
  proof (cases "starts_with (c # s) old")
    case True
    with 2 show ?thesis by (simp add: contains_skip)
  next
    case False
    have "\<not> starts_with (py_replace old new (c # s)) old"
      using py_replace_prefix [of new old old "c # s"] 2(3,4) False by blast
    with 2 False show ?thesis by simp
  qed
qed simp

text \<open>An absolute path without a less-than sign.\<close>

definition plain_path :: "bytes \<Rightarrow> bool" where
  "plain_path p \<longleftrightarrow> p \<noteq> [] \<and> hd p = 47 \<and> 60 \<notin> set p"

lemma markers: "marker \<in> set (map (map of_char) MARKERS) \<Longrightarrow> marker \<noteq> [] \<and> hd marker = 60 \<and> 47 \<notin> set (marker :: bytes)"
  by (auto simp: MARKERS_def)

lemma replace_all_removes:
  assumes "\<forall>(raw, marker) \<in> set rs. plain_path raw \<and> marker \<in> set (map (map of_char) MARKERS)"
    and "plain_path p" and "\<not> contains data p \<or> p \<in> fst ` set rs"
  shows "\<not> contains (foldl (\<lambda>d (raw, marker). py_replace raw marker d) data rs) p"
  using assms
proof (induction rs arbitrary: data)
  case (Cons r rs)
  obtain raw marker where r: "r = (raw, marker)" by (cases r)
  have m: "marker \<noteq> []" "hd marker = 60" "47 \<notin> set marker" and raw: "plain_path raw"
    using Cons.prems(1) markers [of marker] by (auto simp: r)
  have "\<not> contains (py_replace raw marker data) p" if "\<not> contains data p \<or> p = raw"
    using that py_replace_contains [of marker p raw data] py_replace_removes [of marker raw data] m raw Cons.prems(2)
    by (auto simp: plain_path_def)
  with Cons.prems Cons.IH [of "py_replace raw marker data"] show ?case by (auto simp: r)
qed simp

lemma zip_markers:
  assumes "length paths = 6"
  shows "fst ` set (zip paths (map (map of_char) MARKERS :: bytes list)) = set (paths :: bytes list)"
proof -
  have "map fst (zip paths (map (map of_char) MARKERS :: bytes list)) = paths"
    by (rule map_fst_zip) (simp add: assms MARKERS_def)
  from arg_cong [OF this, of set] show ?thesis by (simp only: set_map)
qed

text \<open>
  The rules for run times: each writes a text that begins as the text it replaces does, goes on with a
  less-than sign and has no slash, so it cannot complete a path.
\<close>

definition keeps_text :: "rule \<Rightarrow> bool" where
  "keeps_text rule \<longleftrightarrow> r_before rule \<in> {LineStart, Nothing} \<and> 47 \<notin> set (map of_char (r_suffix rule) :: bytes) \<and>
     (\<exists>pre x q. r_after rule = Then (lit_pat pre) q \<and> r_suffix rule = pre @ CHR ''<'' # x)"

lemma runtime_rules: "rule \<in> set RUNTIME_NORMALIZATIONS \<Longrightarrow> keeps_text rule"
proof -
  have k: "keeps_text \<lparr>r_before = b, r_group = g, r_after = Then (lit_pat pre) q, r_suffix = pre @ CHR ''<'' # x\<rparr>"
    if "b \<in> {LineStart, Nothing}" "47 \<notin> set (map of_char (pre @ x) :: bytes)" for b g pre q x
    using that by (auto simp: keeps_text_def)
  have "list_all keeps_text RUNTIME_NORMALIZATIONS"
    unfolding RUNTIME_NORMALIZATIONS_def
    using k [where pre = "'' in ''" and x = "''T>s''" and b = LineStart]
      k [where pre = "''; finished in ''" and x = "''T>s''" and b = Nothing] k [where pre = "''(pid=''" and x = "''PID>)''" and b = Nothing]
      k [where pre = "''(''" and x = "''TID>)''" and b = Nothing]
    by simp
  then show "rule \<in> set RUNTIME_NORMALIZATIONS \<Longrightarrow> keeps_text rule" by (simp add: list_all_iff)
qed

lemma ends_ge: "e \<in> set (ends p s i) \<Longrightarrow> i \<le> e"
proof (induction p s i arbitrary: e rule: ends.induct)
  case (3 p q s i)
  then obtain m where "m \<in> set (ends p s i)" "e \<in> set (ends q s m)" by auto
  with 3 show ?case using le_trans by blast
qed (auto simp: Let_def split: if_splits)

lemma match_at_text:
  assumes "keeps_text rule" and "match_at rule s i = Some (a, b, e)"
  obtains pre x where "a = i" "i \<le> b" "r_suffix rule = pre @ CHR ''<'' # x" "starts_with (drop b s) (map of_char pre)"
proof -
  define ms where "ms = concat (map (\<lambda>a. concat (map (\<lambda>b. map (\<lambda>e. (a, b, e)) (ends (r_after rule) s b)) (ends (r_group rule) s a)))
      (ends (r_before rule) s i))"
  have "(case ms of [] \<Rightarrow> None | m # _ \<Rightarrow> Some m) = Some (a, b, e)" using assms(2) unfolding match_at_def ms_def .
  then have "(a, b, e) \<in> set ms" by (cases ms) auto
  then have m: "a \<in> set (ends (r_before rule) s i)" "b \<in> set (ends (r_group rule) s a)" "e \<in> set (ends (r_after rule) s b)"
    unfolding ms_def by auto
  obtain pre x q where k: "r_after rule = Then (lit_pat pre) q" "r_suffix rule = pre @ CHR ''<'' # x"
    using assms(1) unfolding keeps_text_def by blast
  have a: "a = i" using m(1) assms(1) by (auto simp: keeps_text_def split: if_splits)
  have "starts_with (map unat (drop b s)) (lit pre)"
    using m(3) by (auto simp: k(1) lit_pat_def split: if_splits)
  then obtain r where r: "map unat (drop b s) = lit pre @ r" by (auto simp: starts_with_iff)
  have "drop b s = map of_nat (map unat (drop b s))" by (simp add: comp_def)
  also have "\<dots> = map of_char pre @ map of_nat r" unfolding r by (simp add: lit_def comp_def of_nat_of_char)
  finally have "starts_with (drop b s) (map of_char pre)" by (auto simp: starts_with_iff)
  then show ?thesis using that a k(2) ends_ge [OF m(2)] by blast
qed

lemma starts_before: "starts_with (u @ c # v) p \<Longrightarrow> c \<notin> set p \<Longrightarrow> starts_with u p"
  by (induction u arbitrary: p) (case_tac p; auto)+

lemma starts_with_longer: "starts_with u p \<Longrightarrow> starts_with (u @ v) p"
  by (auto simp: starts_with_iff)

text \<open>A replaced text, from the group on or from inside it.\<close>

lemma replaced_starts:
  assumes "i \<le> b" and "starts_with (drop b s) (map of_char pre)" and "60 \<notin> set p"
    and "starts_with (drop d (slice s i b) @ map of_char (pre @ CHR ''<'' # x) @ rest) p"
  shows "d \<le> length (slice s i b) \<Longrightarrow> starts_with (drop d (drop i s)) (p :: bytes)"
proof -
  assume d: "d \<le> length (slice s i b)"
  have "starts_with ((drop d (slice s i b) @ map of_char pre) @ 60 # map of_char x @ rest) p" using assms(4) by simp
  from starts_before [OF this assms(3)] have p: "starts_with (drop d (slice s i b) @ map of_char pre) p" .
  obtain r where "drop b s = map of_char pre @ r" using assms(2) by (auto simp: starts_with_iff)
  moreover have "drop i s = slice s i b @ drop b s"
    using assms(1) by (metis append_take_drop_id drop_drop le_add_diff_inverse2 slice_def)
  ultimately have "drop d (drop i s) = (drop d (slice s i b) @ map of_char pre) @ r" using d by simp
  with p show ?thesis by (simp add: starts_with_longer del: drop_drop append_assoc)
qed

lemma sub_from_starts:
  "keeps_text rule \<Longrightarrow> 60 \<notin> set p \<Longrightarrow> starts_with (sub_from rule s i) p \<Longrightarrow> starts_with (drop i s) p"
proof (induction rule s i arbitrary: p rule: sub_from.induct)
  case (1 rule s i)
  show ?case
  proof (cases "length s \<le> i")
    case True
    then show ?thesis using "1.prems"(3) by (simp add: sub_from.simps)
  next
    case False
    show ?thesis
    proof (cases "\<exists>a b e. match_at rule s i = Some (a, b, e) \<and> i < e")
      case True
      then obtain a b e where m: "match_at rule s i = Some (a, b, e)" "i < e" by blast
      obtain pre x where t: "a = i" "i \<le> b" "r_suffix rule = pre @ CHR ''<'' # x" "starts_with (drop b s) (map of_char pre)"
        by (rule match_at_text [OF "1.prems"(1) m(1)])
      have "starts_with (drop 0 (slice s i b) @ map of_char (pre @ CHR ''<'' # x) @ sub_from rule s e) p"
        using "1.prems"(3) False m t by (simp add: sub_from.simps [of rule s i])
      from replaced_starts [OF t(2,4) "1.prems"(2) this] show ?thesis by simp
    next
      case none: False
      then have out: "sub_from rule s i = s ! i # sub_from rule s (i + 1)"
        using False by (auto simp: sub_from.simps [of rule s i] split: option.splits)
      have s: "drop i s = s ! i # drop (i + 1) s" using False by (simp add: Cons_nth_drop_Suc)
      show ?thesis
      proof (cases p)
        case (Cons c q)
        then have "c = s ! i" "starts_with (sub_from rule s (i + 1)) q" using "1.prems"(3) out by auto
        moreover have "starts_with (drop (i + 1) s) q"
          using none False "1.prems"(1,2) Cons calculation(2) "1.IH"
          by (cases "match_at rule s i") (auto split: prod.splits)
        ultimately show ?thesis by (simp add: s Cons)
      qed (simp add: starts_with_iff)
    qed
  qed
qed

lemma contains_append: "contains (u @ w) p \<Longrightarrow> (\<exists>d \<le> length u. starts_with (drop d u @ w) p) \<or> contains w p"
proof (induction u)
  case (Cons c u)
  then consider "starts_with ((c # u) @ w) p" | "contains (u @ w) p" by auto
  then show ?case
  proof cases
    case 1
    then show ?thesis by (intro disjI1 exI [of _ 0]) simp
  next
    case 2
    from Cons.IH [OF this] show ?thesis
    proof
      assume "\<exists>d \<le> length u. starts_with (drop d u @ w) p"
      then obtain d where "d \<le> length u" "starts_with (drop d u @ w) p" by blast
      then show ?thesis by (intro disjI1 exI [of _ "Suc d"]) simp
    qed simp
  qed
qed simp

lemma contains_drop: "starts_with (drop d s) p \<or> contains (drop d s) p \<Longrightarrow> contains s p"
  by (metis append_take_drop_id contains_iff contains_suffix starts_with_iff append_Nil)

lemma sub_from_contains:
  "keeps_text rule \<Longrightarrow> plain_path p \<Longrightarrow> contains (sub_from rule s i) p \<Longrightarrow> contains (drop i s) p"
proof (induction rule s i rule: sub_from.induct)
  case (1 rule s i)
  have p: "p \<noteq> []" "60 \<notin> set p" "hd p = 47" using "1.prems"(2) by (auto simp: plain_path_def)
  show ?case
  proof (cases "length s \<le> i")
    case True
    then show ?thesis using "1.prems"(3) by (simp add: sub_from.simps)
  next
    case False
    show ?thesis
    proof (cases "\<exists>a b e. match_at rule s i = Some (a, b, e) \<and> i < e")
      case True
      then obtain a b e where m: "match_at rule s i = Some (a, b, e)" "i < e" by blast
      obtain pre x where t: "a = i" "i \<le> b" "r_suffix rule = pre @ CHR ''<'' # x" "starts_with (drop b s) (map of_char pre)"
        by (rule match_at_text [OF "1.prems"(1) m(1)])
      have "contains (slice s i b @ map of_char (pre @ CHR ''<'' # x) @ sub_from rule s e) p"
        using "1.prems"(3) False m t by (simp add: sub_from.simps [of rule s i])
      from contains_append [OF this] show ?thesis
      proof
        assume "\<exists>d \<le> length (slice s i b). starts_with (drop d (slice s i b) @ map of_char (pre @ CHR ''<'' # x) @ sub_from rule s e) p"
        then obtain d where d: "d \<le> length (slice s i b)"
          "starts_with (drop d (slice s i b) @ map of_char (pre @ CHR ''<'' # x) @ sub_from rule s e) p" by blast
        from replaced_starts [OF t(2,4) p(2) d(2,1)] show ?thesis by (rule contains_drop [OF disjI1])
      next
        assume c: "contains (map of_char (pre @ CHR ''<'' # x) @ sub_from rule s e) p"
        have "hd p \<notin> set (map of_char (pre @ CHR ''<'' # x))"
          using "1.prems"(1) unfolding t(3) [symmetric] p(3) keeps_text_def by blast
        from contains_skip [OF p(1) this] c have "contains (sub_from rule s e) p" by blast
        from "1.IH"(2) [OF False m(1) refl refl m(2) "1.prems"(1,2) this] have "contains (drop e s) p" .
        then have "contains (drop (e - i) (drop i s)) p" using m(2) by simp
        then show ?thesis using contains_drop by blast
      qed
    next
      case none: False
      then have out: "sub_from rule s i = s ! i # sub_from rule s (i + 1)"
        using False by (auto simp: sub_from.simps [of rule s i] split: option.splits)
      have s: "drop i s = s ! i # drop (i + 1) s" using False by (simp add: Cons_nth_drop_Suc)
      consider "starts_with (sub_from rule s i) p" | "contains (sub_from rule s (i + 1)) p" using "1.prems"(3) out by auto
      then show ?thesis
      proof cases
        case 1
        from sub_from_starts [OF \<open>keeps_text rule\<close> p(2) 1] show ?thesis using contains_drop [of 0 "drop i s" p] by simp
      next
        case 2
        then have "contains (drop (i + 1) s) p"
          using none False "1.prems"(1,2) "1.IH" by (cases "match_at rule s i") (auto split: prod.splits)
        then show ?thesis by (simp add: s)
      qed
    qed
  qed
qed

lemma runtime_contains:
  "\<forall>rule \<in> set rules. keeps_text rule \<Longrightarrow> plain_path p \<Longrightarrow>
     contains (foldl (\<lambda>d rule. sub_from rule d 0) s rules) p \<Longrightarrow> contains s p"
proof (induction rules arbitrary: s)
  case (Cons rule rules)
  then have "contains (sub_from rule s 0) p" by simp
  with Cons.prems sub_from_contains [of rule p s 0] show ?case by simp
qed simp

text \<open>C30: The recorded output of a probe names none of the private directories of the run, provided the six
  paths are absolute and contain no less-than sign: every occurrence of each of them was replaced, also
  where one path lies beneath another, and the rewriting of run times in the output of the Rust probe
  brings none back.\<close>

theorem probe_output_hides_paths:
  assumes "normalize_probe_output probe_id paths data = Inr out"
    and "length paths = 6" and "\<forall>p \<in> set paths. plain_path p"
  shows "\<forall>p \<in> set paths. \<not> contains out p"
proof
  fix p assume p: "p \<in> set paths"
  define replaced where "replaced = foldl (\<lambda>d (raw, marker). py_replace raw marker d) data (replacements paths)"
  have "fst ` set (replacements paths) = set paths"
    unfolding replacements_def set_sort by (rule zip_markers [OF assms(2)])
  moreover have "\<forall>(raw, marker) \<in> set (replacements paths). plain_path raw \<and> marker \<in> set (map (map of_char) MARKERS)"
    using assms(3) by (auto simp: replacements_def dest: set_zip_leftD set_zip_rightD simp del: set_map)
  ultimately have "\<not> contains replaced p" unfolding replaced_def using p assms(3) by (intro replace_all_removes) auto
  moreover have "out = replaced \<or> out = foldl (\<lambda>d rule. sub_from rule d 0) replaced RUNTIME_NORMALIZATIONS"
    using assms(1) by (auto simp: normalize_probe_output_def Let_def replaced_def split: if_splits)
  ultimately show "\<not> contains out p" using runtime_contains [of RUNTIME_NORMALIZATIONS p replaced] runtime_rules p assms(3) by blast
qed

theorem probe_output_hides_paths_witness:
  "normalize_probe_output ''rust_all'' (map (map of_char) [''/w/s'', ''/w/t'', ''/w/h'', ''/w/c'', ''/w/m'', ''/w'']) (map of_char ''/w/s/a(pid=7)/w'') =
     Inr (map of_char ''<SOURCE>/a(pid=<PID>)<WORK>'') \<and>
   list_all (\<lambda>p. \<not> contains (map of_char ''<SOURCE>/a(pid=<PID>)<WORK>'') (map of_char p :: bytes))
     [''/w/s'', ''/w/t'', ''/w/h'', ''/w/c'', ''/w/m'', ''/w'']"
proof -
  let ?paths = "map (map of_char) [''/w/s'', ''/w/t'', ''/w/h'', ''/w/c'', ''/w/m'', ''/w''] :: bytes list"
  have n: "normalize_probe_output ''rust_all'' ?paths (map of_char ''/w/s/a(pid=7)/w'') = Inr (map of_char ''<SOURCE>/a(pid=<PID>)<WORK>'')"
    by code_simp
  have "\<forall>p \<in> set ?paths. plain_path p" by (simp add: plain_path_def)
  from n probe_output_hides_paths [OF n _ this] show ?thesis by (simp add: list_all_iff)
qed

end
