(* ===== verification/Cgroup.thy ===== *)
theory Cgroup
  imports Py_Text Complex_Main
begin

text \<open>
  The cgroup of a probe in \<open>tools/moriarty_isolation.py\<close>: \<open>probe_cgroup_root\<close>, the membership lists,
  the pidfd handles and the suspension, resumption and killing of every member. The code talks to
  the kernel only; the model keeps the trace of its calls, and the answer to a call may depend on
  its position in the trace, so the cgroup can change between any two calls.
\<close>

section \<open>Limits and membership lists\<close>

definition PROBE_CGROUP_MEMORY_BYTES :: int where "PROBE_CGROUP_MEMORY_BYTES = 2 * 1024 * 1024 * 1024"
definition PROBE_CGROUP_PIDS :: int where "PROBE_CGROUP_PIDS = 128"
definition PROBE_CGROUP_SUSPEND_TIMEOUT_SECONDS :: rat where "PROBE_CGROUP_SUSPEND_TIMEOUT_SECONDS = 1"

text \<open>A text read with encoding \<open>ascii\<close>, None for an OSError or a UnicodeError.\<close>

type_synonym answer = "pystr option"

definition parse_cgroup_limit :: "answer \<Rightarrow> int \<Rightarrow> string \<Rightarrow> int result" where
  "parse_cgroup_limit raw maximum label =
     (let bad = Inl (SystemExit (''moriarty_probe_cgroup_'' @ label @ ''_invalid'')) in
      case raw of
        None \<Rightarrow> bad
      | Some t \<Rightarrow> (case py_int_text 10 (strip t) of
          None \<Rightarrow> bad
        | Some v \<Rightarrow> if v \<le> 0 \<or> maximum < v then bad else Inr v))"

type_synonym cg_path = "pystr list"

record cgroup_files =
  resolved_root :: "cg_path option"
  resolved_mount :: "cg_path option"
  file_there :: "cg_path \<Rightarrow> bool"
  text_of_file :: "cg_path \<Rightarrow> answer"
  pidfd_support :: bool
  write_access :: "cg_path \<Rightarrow> bool"

definition CGROUP_FILES :: "string list" where
  "CGROUP_FILES = [''cgroup.procs'', ''cgroup.threads'', ''memory.max'', ''pids.max'']"

definition check_swap :: "cgroup_files \<Rightarrow> cg_path \<Rightarrow> unit result" where
  "check_swap f r =
     (let swap = r @ [lit ''memory.swap.max''] in
      if file_there f swap
      then case text_of_file f swap of
             None \<Rightarrow> Inl (SystemExit ''moriarty_probe_cgroup_swap_invalid'')
           | Some t \<Rightarrow> guardE (strip t = lit ''0'') (SystemExit ''moriarty_probe_cgroup_swap_not_disabled'')
      else Inr ())"

definition probe_cgroup_root :: "cgroup_files \<Rightarrow> cg_path result" where
  "probe_cgroup_root f =
     (case (resolved_root f, resolved_mount f) of
        (Some r, Some mount) \<Rightarrow>
          if r = mount \<or> \<not> starts_with r mount then Inl (SystemExit ''moriarty_probe_cgroup_path_invalid'')
          else if \<not> file_there f (mount @ [lit ''cgroup.controllers'']) then Inl (SystemExit ''moriarty_probe_cgroup_v2_required'')
          else if \<not> pidfd_support f then Inl (SystemExit ''moriarty_probe_cgroup_pidfd_signaling_required'')
          else bindE (eachE (\<lambda>name. guardE (file_there f (r @ [lit name])) (SystemExit (''moriarty_probe_cgroup_file_missing:'' @ name)))
                        CGROUP_FILES) (\<lambda>_.
               bindE (parse_cgroup_limit (text_of_file f (r @ [lit ''memory.max''])) PROBE_CGROUP_MEMORY_BYTES ''memory_max'') (\<lambda>_.
               bindE (parse_cgroup_limit (text_of_file f (r @ [lit ''pids.max''])) PROBE_CGROUP_PIDS ''pids_max'') (\<lambda>_.
               bindE (check_swap f r) (\<lambda>_.
                 if write_access f (r @ [lit ''cgroup.procs'']) then Inr r
                 else Inl (SystemExit ''moriarty_probe_cgroup_not_delegated'')))))
      | _ \<Rightarrow> Inl (SystemExit ''moriarty_probe_cgroup_unavailable''))"

text \<open>\<open>tuple(sorted(int(value) for value in values if value))\<close>.\<close>

fun all_some :: "'a option list \<Rightarrow> 'a list option" where
  "all_some [] = Some []"
| "all_some (x # xs) = (case (x, all_some xs) of (Some y, Some ys) \<Rightarrow> Some (y # ys) | _ \<Rightarrow> None)"

definition read_ids :: "answer \<Rightarrow> int list option" where
  "read_ids raw = (case raw of
     None \<Rightarrow> None
   | Some t \<Rightarrow> map_option sort (all_some (map (py_int_text 10) (filter (\<lambda>l. l \<noteq> []) (splitlines t)))))"

definition probe_cgroup_pids :: "answer \<Rightarrow> int list result" where
  "probe_cgroup_pids raw = (case read_ids raw of
     None \<Rightarrow> Inl (SystemExit ''moriarty_probe_cgroup_process_list_invalid'') | Some ids \<Rightarrow> Inr ids)"

definition probe_cgroup_threads :: "answer \<Rightarrow> int list result" where
  "probe_cgroup_threads raw = (case read_ids raw of
     None \<Rightarrow> Inl (SystemExit ''moriarty_probe_cgroup_thread_list_invalid'')
   | Some ids \<Rightarrow> if distinct ids then Inr ids else Inl (SystemExit ''moriarty_probe_cgroup_thread_list_duplicate''))"

datatype status_answer = Gone | Unreadable | Status pystr

definition probe_task_stopped :: "status_answer \<Rightarrow> bool option" where
  "probe_task_stopped a = (case a of
     Gone \<Rightarrow> None
   | Unreadable \<Rightarrow> Some False
   | Status t \<Rightarrow>
       (case find (\<lambda>line. starts_with line (lit ''State:'')) (splitlines t) of
          None \<Rightarrow> Some False
        | Some line \<Rightarrow> (case split_ws line of
            _ # s # _ \<Rightarrow> Some (s = lit ''T'' \<or> s = lit ''t'')
          | _ \<Rightarrow> Some False)))"

section \<open>Calls and traces\<close>

datatype sig = PROBE | SIGSTOP | SIGCONT | SIGKILL

datatype call =
    ReadProcs
  | ReadThreads
  | ReadStatus int
  | PidfdOpen int
  | PidfdOpened int nat
  | PidfdClose nat
  | PidfdSignal nat sig
  | ReadClock
  | SleepBriefly
  | ScanTrees

type_synonym trace = "call list"

datatype open_answer = Opened nat | OpenNoProcess | OpenFails
datatype signal_answer = Delivered | SignalNoProcess | SignalFails

text \<open>The answers of the kernel; the number is the length of the trace before the call.\<close>

record kernel =
  procs_text :: "nat \<Rightarrow> answer"
  threads_text :: "nat \<Rightarrow> answer"
  status_text :: "nat \<Rightarrow> int \<Rightarrow> status_answer"
  pidfd_open :: "nat \<Rightarrow> int \<Rightarrow> open_answer"
  pidfd_signal :: "nat \<Rightarrow> nat \<Rightarrow> sig \<Rightarrow> signal_answer"
  monotonic :: "nat \<Rightarrow> rat"
  trees_fit :: "nat \<Rightarrow> bool result"

type_synonym handles = "(int \<times> nat) list"

definition read_pids :: "kernel \<Rightarrow> trace \<Rightarrow> int list result \<times> trace" where
  "read_pids k tr = (probe_cgroup_pids (procs_text k (length tr)), tr @ [ReadProcs])"

definition read_threads :: "kernel \<Rightarrow> trace \<Rightarrow> int list result \<times> trace" where
  "read_threads k tr = (probe_cgroup_threads (threads_text k (length tr)), tr @ [ReadThreads])"

definition close_pidfds :: "handles \<Rightarrow> trace \<Rightarrow> trace" where
  "close_pidfds handles tr = tr @ map (\<lambda>(pid, fd). PidfdClose fd) handles"

definition send :: "kernel \<Rightarrow> nat \<Rightarrow> sig \<Rightarrow> trace \<Rightarrow> signal_answer \<times> trace" where
  "send k fd s tr = (pidfd_signal k (length tr) fd s, tr @ [PidfdSignal fd s])"

text \<open>\<open>all(_probe_task_stopped(tid) is True for tid in threads)\<close>, and with \<open>is not True\<close>.\<close>

fun all_tasks :: "(bool option \<Rightarrow> bool) \<Rightarrow> kernel \<Rightarrow> int list \<Rightarrow> trace \<Rightarrow> bool \<times> trace" where
  "all_tasks p k [] tr = (True, tr)"
| "all_tasks p k (tid # tids) tr =
     (let tr' = tr @ [ReadStatus tid] in
      if p (probe_task_stopped (status_text k (length tr) tid)) then all_tasks p k tids tr' else (False, tr'))"

section \<open>Handles\<close>

fun open_each :: "kernel \<Rightarrow> int list \<Rightarrow> handles \<Rightarrow> trace \<Rightarrow> handles option \<times> trace" where
  "open_each k [] opened tr = (Some opened, tr)"
| "open_each k (pid # pids) opened tr =
     (case pidfd_open k (length tr) pid of
        Opened fd \<Rightarrow> open_each k pids (opened @ [(pid, fd)]) (tr @ [PidfdOpened pid fd])
      | OpenNoProcess \<Rightarrow> open_each k pids opened (tr @ [PidfdOpen pid])
      | OpenFails \<Rightarrow> (None, close_pidfds opened (tr @ [PidfdOpen pid])))"

text \<open>The second loop; \<open>opened\<close> are all handles, \<open>todo\<close> those that are left, \<open>kept\<close> those found present.\<close>

fun keep_each :: "kernel \<Rightarrow> int list \<Rightarrow> handles \<Rightarrow> handles \<Rightarrow> handles \<Rightarrow> trace \<Rightarrow> handles option \<times> trace" where
  "keep_each k current opened [] kept tr = (Some kept, tr)"
| "keep_each k current opened ((pid, fd) # todo) kept tr =
     (if pid \<notin> set current then keep_each k current opened todo kept (tr @ [PidfdClose fd])
      else case send k fd PROBE tr of (answer, tr') \<Rightarrow>
        (case answer of
           Delivered \<Rightarrow> keep_each k current opened todo (kept @ [(pid, fd)]) tr'
         | SignalNoProcess \<Rightarrow> keep_each k current opened todo kept (tr' @ [PidfdClose fd])
         | SignalFails \<Rightarrow>
             (None, close_pidfds (filter (\<lambda>(p, f). \<not> (f = fd \<or> (p, f) \<in> set kept)) opened)
                      (close_pidfds kept (tr' @ [PidfdClose fd])))))"

definition open_probe_cgroup_pidfds :: "kernel \<Rightarrow> int list \<Rightarrow> trace \<Rightarrow> handles option \<times> trace" where
  "open_probe_cgroup_pidfds k pids tr =
     (case open_each k pids [] tr of
        (None, tr1) \<Rightarrow> (None, tr1)
      | (Some opened, tr1) \<Rightarrow>
          (case read_pids k tr1 of
             (Inl e, tr2) \<Rightarrow> (None, close_pidfds opened tr2)
           | (Inr current, tr2) \<Rightarrow> keep_each k current opened opened [] tr2))"

fun signal_probe_pidfds :: "kernel \<Rightarrow> handles \<Rightarrow> sig \<Rightarrow> bool \<Rightarrow> trace \<Rightarrow> bool \<times> trace" where
  "signal_probe_pidfds k [] s require_present tr = (True, tr)"
| "signal_probe_pidfds k ((pid, fd) # handles) s require_present tr =
     (case send k fd s tr of (answer, tr') \<Rightarrow>
        (case answer of
           Delivered \<Rightarrow> signal_probe_pidfds k handles s require_present tr'
         | SignalNoProcess \<Rightarrow> if require_present then (False, tr') else signal_probe_pidfds k handles s require_present tr'
         | SignalFails \<Rightarrow> (False, tr')))"

text \<open>\<open>_signal_probe_pidfds(handles, SIGCONT); _close_probe_pidfds(handles)\<close>.\<close>

definition release :: "kernel \<Rightarrow> handles \<Rightarrow> trace \<Rightarrow> trace" where
  "release k handles tr = close_pidfds handles (snd (signal_probe_pidfds k handles SIGCONT False tr))"

section \<open>Suspension\<close>

datatype converged = Quiet | GiveUp | Again

text \<open>
  The inner loop of \<open>_suspend_probe_cgroup\<close>: Quiet returns the handles, GiveUp returns None, Again is
  the \<open>break\<close> to the outer loop.
\<close>

definition confirm_quiet :: "kernel \<Rightarrow> int list \<Rightarrow> int list \<Rightarrow> handles \<Rightarrow> trace \<Rightarrow> converged option \<times> trace" where
  "confirm_quiet k pids threads handles tr =
     (case read_threads k tr of
        (Inl e, tr1) \<Rightarrow> (Some GiveUp, release k handles tr1)
      | (Inr threads', tr1) \<Rightarrow>
          (case read_pids k tr1 of
             (Inl e, tr2) \<Rightarrow> (Some GiveUp, release k handles tr2)
           | (Inr pids', tr2) \<Rightarrow>
               if threads' = threads \<and> pids' = pids
               then case all_tasks (\<lambda>a. a = Some True) k threads' tr2 of
                      (True, tr3) \<Rightarrow> (Some Quiet, tr3)
                    | (False, tr3) \<Rightarrow> (None, tr3)
               else (None, tr2)))"

definition converge_round ::
  "kernel \<Rightarrow> rat \<Rightarrow> int list \<Rightarrow> handles \<Rightarrow> trace \<Rightarrow> converged option \<times> trace" where
  "converge_round k limit pids handles tr =
     (case read_pids k tr of
        (Inl e, tr1) \<Rightarrow> (Some GiveUp, release k handles tr1)
      | (Inr current, tr1) \<Rightarrow>
          (case read_threads k tr1 of
             (Inl e, tr2) \<Rightarrow> (Some GiveUp, release k handles tr2)
           | (Inr threads, tr2) \<Rightarrow>
               if current \<noteq> pids then (Some Again, release k handles tr2)
               else case (if threads = [] then (False, tr2) else all_tasks (\<lambda>a. a = Some True) k threads tr2) of
                 (quiet, tr3) \<Rightarrow>
                   (case (if quiet then confirm_quiet k pids threads handles tr3 else (None, tr3)) of
                      (Some outcome, tr4) \<Rightarrow> (Some outcome, tr4)
                    | (None, tr4) \<Rightarrow>
                        if limit \<le> monotonic k (length tr4) then (Some GiveUp, release k handles (tr4 @ [ReadClock]))
                        else case signal_probe_pidfds k handles SIGSTOP True (tr4 @ [ReadClock]) of
                               (True, tr5) \<Rightarrow> (None, tr5 @ [SleepBriefly])
                             | (False, tr5) \<Rightarrow> (Some Again, release k handles tr5))))"

partial_function (option) converge ::
  "kernel \<Rightarrow> rat \<Rightarrow> int list \<Rightarrow> handles \<Rightarrow> trace \<Rightarrow> (converged \<times> trace) option" where
  "converge k limit pids handles tr =
     (case converge_round k limit pids handles tr of
        (Some outcome, tr') \<Rightarrow> Some (outcome, tr')
      | (None, tr') \<Rightarrow> converge k limit pids handles tr')"

text \<open>The outer loop up to the inner one: a result, a new round (None), or handles that were stopped.\<close>

datatype acquired = Done "handles option" | Retry | Stopped "int list" handles

definition acquire :: "kernel \<Rightarrow> rat \<Rightarrow> trace \<Rightarrow> acquired \<times> trace" where
  "acquire k limit tr =
     (case read_pids k tr of
        (Inl e, tr1) \<Rightarrow> (Done None, tr1)
      | (Inr pids, tr1) \<Rightarrow>
          if pids = [] then (Done (Some []), tr1)
          else case open_probe_cgroup_pidfds k pids tr1 of
            (None, tr2) \<Rightarrow> (Done None, tr2)
          | (Some handles, tr2) \<Rightarrow>
              if map fst handles \<noteq> pids
              then let tr3 = close_pidfds handles tr2 in
                   (if limit \<le> monotonic k (length tr3) then Done None else Retry, tr3 @ [ReadClock])
              else case signal_probe_pidfds k handles SIGSTOP True tr2 of
                (True, tr3) \<Rightarrow> (Stopped pids handles, tr3)
              | (False, tr3) \<Rightarrow>
                  let tr4 = release k handles tr3 in
                  (if limit \<le> monotonic k (length tr4) then Done None else Retry, tr4 @ [ReadClock]))"

partial_function (option) suspend_loop :: "kernel \<Rightarrow> rat \<Rightarrow> trace \<Rightarrow> (handles option \<times> trace) option" where
  "suspend_loop k limit tr =
     (case acquire k limit tr of
        (Done result, tr1) \<Rightarrow> Some (result, tr1)
      | (Retry, tr1) \<Rightarrow> suspend_loop k limit tr1
      | (Stopped pids handles, tr1) \<Rightarrow>
          (case converge k limit pids handles tr1 of
             None \<Rightarrow> None
           | Some (Quiet, tr2) \<Rightarrow> Some (Some handles, tr2)
           | Some (GiveUp, tr2) \<Rightarrow> Some (None, tr2)
           | Some (Again, tr2) \<Rightarrow> suspend_loop k limit tr2))"

definition suspend_probe_cgroup :: "kernel \<Rightarrow> trace \<Rightarrow> (handles option \<times> trace) option" where
  "suspend_probe_cgroup k tr =
     suspend_loop k (monotonic k (length tr) + PROBE_CGROUP_SUSPEND_TIMEOUT_SECONDS) (tr @ [ReadClock])"

section \<open>Resumption\<close>

text \<open>One round of the loop: the value returned, None to go on.\<close>

definition resume_round :: "kernel \<Rightarrow> rat \<Rightarrow> trace \<Rightarrow> bool option \<times> trace" where
  "resume_round k limit tr =
     (case read_pids k tr of
        (Inl e, tr1) \<Rightarrow> (Some False, tr1)
      | (Inr pids, tr1) \<Rightarrow>
          if pids = [] then (Some True, tr1)
          else case read_threads k tr1 of
            (Inl e, tr2) \<Rightarrow> (Some False, tr2)
          | (Inr threads, tr2) \<Rightarrow>
              (case (case all_tasks (\<lambda>a. a \<noteq> Some True) k threads tr2 of
                       (False, tr3) \<Rightarrow> (None, tr3)
                     | (True, tr3) \<Rightarrow>
                         (case read_threads k tr3 of
                            (Inl e, tr4) \<Rightarrow> (Some False, tr4)
                          | (Inr threads', tr4) \<Rightarrow>
                              (case read_pids k tr4 of
                                 (Inl e, tr5) \<Rightarrow> (Some False, tr5)
                               | (Inr pids', tr5) \<Rightarrow>
                                   if threads' = threads \<and> pids' = pids
                                   then case all_tasks (\<lambda>a. a \<noteq> Some True) k threads' tr5 of
                                          (True, tr6) \<Rightarrow> (Some True, tr6) | (False, tr6) \<Rightarrow> (None, tr6)
                                   else (None, tr5)))) of
                 (Some b, tr7) \<Rightarrow> (Some b, tr7)
               | (None, tr7) \<Rightarrow>
                   if limit \<le> monotonic k (length tr7) then (Some False, tr7 @ [ReadClock])
                   else (None, tr7 @ [ReadClock, SleepBriefly])))"

partial_function (option) resume_loop :: "kernel \<Rightarrow> rat \<Rightarrow> trace \<Rightarrow> (bool \<times> trace) option" where
  "resume_loop k limit tr =
     (case resume_round k limit tr of
        (Some b, tr') \<Rightarrow> Some (b, tr')
      | (None, tr') \<Rightarrow> resume_loop k limit tr')"

definition resume_probe_cgroup :: "kernel \<Rightarrow> handles \<Rightarrow> trace \<Rightarrow> (bool \<times> trace) option" where
  "resume_probe_cgroup k handles tr =
     (let limit = monotonic k (length tr) + PROBE_CGROUP_SUSPEND_TIMEOUT_SECONDS in
      case signal_probe_pidfds k handles SIGCONT False (tr @ [ReadClock]) of
        (False, tr1) \<Rightarrow> Some (False, close_pidfds handles tr1)
      | (True, tr1) \<Rightarrow> map_option (\<lambda>(b, tr2). (b, close_pidfds handles tr2)) (resume_loop k limit tr1))"

section \<open>Killing\<close>

text \<open>The rounds that are left.\<close>

fun kill_cgroup_rounds :: "nat \<Rightarrow> kernel \<Rightarrow> trace \<Rightarrow> unit result \<times> trace" where
  "kill_cgroup_rounds 0 k tr =
     (case read_pids k tr of
        (Inl e, tr1) \<Rightarrow> (Inl e, tr1)
      | (Inr pids, tr1) \<Rightarrow>
          (if pids \<noteq> [] then Inl (SystemExit ''moriarty_probe_cgroup_descendants_survived'') else Inr (), tr1))"
| "kill_cgroup_rounds (Suc n) k tr =
     (case read_pids k tr of
        (Inl e, tr1) \<Rightarrow> (Inl e, tr1)
      | (Inr pids, tr1) \<Rightarrow>
          if pids = [] then (Inr (), tr1)
          else case open_probe_cgroup_pidfds k pids tr1 of
            (None, tr2) \<Rightarrow> (Inl (SystemExit ''moriarty_probe_cgroup_pidfd_open_failed''), tr2)
          | (Some handles, tr2) \<Rightarrow>
              (case signal_probe_pidfds k handles SIGKILL False tr2 of
                 (False, tr3) \<Rightarrow>
                   (Inl (SystemExit ''moriarty_probe_cgroup_pidfd_kill_failed''), close_pidfds handles tr3)
               | (True, tr3) \<Rightarrow> kill_cgroup_rounds n k (close_pidfds handles tr3 @ [SleepBriefly])))"

definition kill_probe_cgroup :: "kernel \<Rightarrow> trace \<Rightarrow> unit result \<times> trace" where
  "kill_probe_cgroup k tr = kill_cgroup_rounds 8 k tr"

section \<open>The scan under suspension\<close>

definition probe_writable_tree_within_limits ::
  "cg_path result option \<Rightarrow> kernel \<Rightarrow> trace \<Rightarrow> (bool result \<times> trace) option" where
  "probe_writable_tree_within_limits cgroup k tr =
     (case cgroup of
        None \<Rightarrow> Some (trees_fit k (length tr), tr @ [ScanTrees])
      | Some (Inl e) \<Rightarrow> Some (Inr False, tr)
      | Some (Inr p) \<Rightarrow>
          (case read_pids k tr of
             (Inl e, tr1) \<Rightarrow> Some (Inr False, tr1)
           | (Inr pids, tr1) \<Rightarrow>
               if pids = [] then Some (trees_fit k (length tr1), tr1 @ [ScanTrees])
               else case suspend_probe_cgroup k tr1 of
                 None \<Rightarrow> None
               | Some (None, tr2) \<Rightarrow> Some (Inr False, tr2)
               | Some (Some handles, tr2) \<Rightarrow>
                   map_option (\<lambda>(resumed, tr3).
                       (bindE (trees_fit k (length tr2)) (\<lambda>fit. Inr (fit \<and> resumed)), tr3))
                     (resume_probe_cgroup k handles (tr2 @ [ScanTrees]))))"

end
