(* ===== verification/Cgroup_Laws.thy ===== *)
theory Cgroup_Laws
  imports Cgroup
begin

text \<open>
  What the handling of the cgroup guarantees: descriptors are closed and nobody is left stopped,
  unless continuing a process raises an OSError; a suspension that succeeds has seen every thread
  stopped, a kill that succeeds has seen the cgroup empty; and when the suspension ends.
\<close>

section \<open>The monitor\<close>

text \<open>
  The descriptors that are open, those that were stopped and not continued, whether one was closed
  while it was stopped, and whether continuing one raised an OSError, which ends the loop over the
  handles. What a signal did is the kernel's answer to the call at its position in the trace.
\<close>

record monitor =
  live :: "nat set"
  halted :: "nat set"
  abandoned :: bool
  refused :: bool

fun observe :: "kernel \<Rightarrow> nat \<Rightarrow> monitor \<Rightarrow> call \<Rightarrow> monitor" where
  "observe k n m (PidfdOpened pid fd) = m\<lparr>live := insert fd (live m)\<rparr>"
| "observe k n m (PidfdClose fd) =
     m\<lparr>live := live m - {fd}, halted := halted m - {fd}, abandoned := abandoned m \<or> fd \<in> halted m\<rparr>"
| "observe k n m (PidfdSignal fd SIGSTOP) = m\<lparr>halted := insert fd (halted m)\<rparr>"
| "observe k n m (PidfdSignal fd SIGCONT) =
     (if pidfd_signal k n fd SIGCONT = SignalFails then m\<lparr>refused := True\<rparr> else m\<lparr>halted := halted m - {fd}\<rparr>)"
| "observe k n m c = m"

definition watch :: "kernel \<Rightarrow> trace \<Rightarrow> monitor" where
  "watch k tr = foldl (\<lambda>m (n, c). observe k n m c) \<lparr>live = {}, halted = {}, abandoned = False, refused = False\<rparr>
     (zip [0..<length tr] tr)"

lemma watch_snoc [simp]: "watch k (tr @ [c]) = observe k (length tr) (watch k tr) c"
  by (simp add: watch_def)

lemma watch_snoc2 [simp]: "watch k (tr @ [c, d]) = observe k (Suc (length tr)) (observe k (length tr) (watch k tr) c) d"
  using watch_snoc [of k "tr @ [c]" d] by simp

abbreviation fds :: "handles \<Rightarrow> nat set" where
  "fds hs \<equiv> snd ` set hs"

text \<open>Only the handles are open, and, unless a SIGCONT was refused, only they may be stopped.\<close>

definition held :: "kernel \<Rightarrow> handles \<Rightarrow> trace \<Rightarrow> bool" where
  "held k hs tr \<longleftrightarrow> live (watch k tr) \<subseteq> fds hs \<and>
     (refused (watch k tr) \<or> halted (watch k tr) \<subseteq> fds hs \<and> \<not> abandoned (watch k tr))"

definition running :: "kernel \<Rightarrow> trace \<Rightarrow> bool" where
  "running k tr \<longleftrightarrow> refused (watch k tr) \<or> halted (watch k tr) = {}"

text \<open>Every descriptor is closed, and nobody is left stopped unless continuing a process raised an OSError.\<close>

definition idle :: "kernel \<Rightarrow> trace \<Rightarrow> bool" where
  "idle k tr \<longleftrightarrow> live (watch k tr) = {} \<and>
     (refused (watch k tr) \<or> halted (watch k tr) = {} \<and> \<not> abandoned (watch k tr))"

lemma idle_held: "idle k tr \<longleftrightarrow> held k [] tr" "idle k tr \<longleftrightarrow> held k hs tr \<and> live (watch k tr) = {} \<and> running k tr"
  by (auto simp: idle_def held_def running_def)

text \<open>Calls that the monitor does not note.\<close>

definition quiet_call :: "call \<Rightarrow> bool" where
  "quiet_call c \<longleftrightarrow> (\<forall>k n m. observe k n m c = m)"

lemma quiet_calls [simp]:
  "quiet_call ReadProcs" "quiet_call ReadThreads" "quiet_call (ReadStatus i)" "quiet_call (PidfdOpen p)"
  "quiet_call ReadClock" "quiet_call SleepBriefly" "quiet_call ScanTrees" "quiet_call (PidfdSignal fd PROBE)"
  "quiet_call (PidfdSignal fd SIGKILL)"
  by (simp_all add: quiet_call_def)

lemma watch_quiet: "\<forall>c \<in> set cs. quiet_call c \<Longrightarrow> watch k (tr @ cs) = watch k tr"
proof (induction cs rule: rev_induct)
  case (snoc c cs)
  then show ?case using watch_snoc [of k "tr @ cs" c] by (simp add: quiet_call_def)
qed simp

lemma read_pids_trace: "read_pids k tr = (r, tr') \<Longrightarrow> tr' = tr @ [ReadProcs]"
  by (simp add: read_pids_def)

lemma read_threads_trace: "read_threads k tr = (r, tr') \<Longrightarrow> tr' = tr @ [ReadThreads]"
  by (simp add: read_threads_def)

lemma all_tasks_trace:
  "all_tasks p k tids tr = (b, tr') \<Longrightarrow> \<exists>n \<le> length tids. tr' = tr @ map ReadStatus (take n tids)"
proof (induction p k tids tr rule: all_tasks.induct)
  case (2 p k tid tids tr)
  show ?case
  proof (cases "p (probe_task_stopped (status_text k (length tr) tid))")
    case True
    with 2 obtain n where "n \<le> length tids" "tr' = (tr @ [ReadStatus tid]) @ map ReadStatus (take n tids)"
      by (auto simp: Let_def)
    then show ?thesis by (intro exI [of _ "Suc n"]) simp
  next
    case False
    with 2(2) show ?thesis by (intro exI [of _ 1]) (simp add: Let_def)
  qed
qed simp

lemma all_tasks_watch: "all_tasks p k tids tr = (b, tr') \<Longrightarrow> watch k tr' = watch k tr"
  using all_tasks_trace [of p k tids tr b tr'] by (auto intro!: watch_quiet dest: in_set_takeD)

lemma close_pidfds_Cons: "close_pidfds ((pid, fd) # hs) tr = close_pidfds hs (tr @ [PidfdClose fd])"
  by (simp add: close_pidfds_def)

lemma close_pidfds_watch:
  "live (watch k (close_pidfds hs tr)) = live (watch k tr) - fds hs \<and>
   halted (watch k (close_pidfds hs tr)) = halted (watch k tr) - fds hs \<and>
   refused (watch k (close_pidfds hs tr)) = refused (watch k tr) \<and>
   (abandoned (watch k (close_pidfds hs tr)) \<longleftrightarrow> abandoned (watch k tr) \<or> (\<exists>fd \<in> fds hs. fd \<in> halted (watch k tr)))"
proof (induction hs arbitrary: tr)
  case (Cons h hs)
  obtain pid fd where h: "h = (pid, fd)" by (cases h)
  show ?case by (simp add: h close_pidfds_Cons Cons.IH) blast
qed (simp add: close_pidfds_def)

lemma close_idle: "held k hs tr \<Longrightarrow> running k tr \<Longrightarrow> idle k (close_pidfds hs tr)"
  using close_pidfds_watch [of k hs tr] by (auto simp: held_def running_def idle_def)

section \<open>Handles\<close>

lemma signal_watch:
  assumes "signal_probe_pidfds k hs s need tr = (b, tr')"
  shows "live (watch k tr') = live (watch k tr) \<and> (abandoned (watch k tr') \<longleftrightarrow> abandoned (watch k tr)) \<and>
    (refused (watch k tr) \<longrightarrow> refused (watch k tr')) \<and>
    halted (watch k tr') \<subseteq> halted (watch k tr) \<union> fds hs \<and> (s \<noteq> SIGSTOP \<longrightarrow> halted (watch k tr') \<subseteq> halted (watch k tr))"
  using assms
proof (induction k hs s need tr rule: signal_probe_pidfds.induct)
  case (2 k pid fd hs s need tr)
  let ?t = "tr @ [PidfdSignal fd s]"
  have w: "live (watch k ?t) = live (watch k tr)" "abandoned (watch k ?t) = abandoned (watch k tr)"
    "refused (watch k tr) \<Longrightarrow> refused (watch k ?t)"
    "halted (watch k ?t) \<subseteq> insert fd (halted (watch k tr))" "s \<noteq> SIGSTOP \<Longrightarrow> halted (watch k ?t) \<subseteq> halted (watch k tr)"
    by (cases s; auto)+
  from 2(3) consider "tr' = ?t" | "signal_probe_pidfds k hs s need ?t = (b, tr')"
    by (auto simp: send_def split: signal_answer.splits if_splits)
  then show ?case
  proof cases
    case 1
    then show ?thesis using w by auto
  next
    case 2
    have "live (watch k tr') = live (watch k ?t) \<and> (abandoned (watch k tr') \<longleftrightarrow> abandoned (watch k ?t)) \<and>
        (refused (watch k ?t) \<longrightarrow> refused (watch k tr')) \<and>
        halted (watch k tr') \<subseteq> halted (watch k ?t) \<union> fds hs \<and> (s \<noteq> SIGSTOP \<longrightarrow> halted (watch k tr') \<subseteq> halted (watch k ?t))"
      using "2.IH" 2 "2.prems" by (auto simp: send_def split: signal_answer.splits if_splits)
    with w have "live (watch k tr') = live (watch k tr)" "abandoned (watch k tr') = abandoned (watch k tr)"
      "refused (watch k tr) \<Longrightarrow> refused (watch k tr')" "halted (watch k tr') \<subseteq> halted (watch k tr) \<union> fds ((pid, fd) # hs)"
      "s \<noteq> SIGSTOP \<Longrightarrow> halted (watch k tr') \<subseteq> halted (watch k tr)"
      by fastforce+
    then show ?thesis by blast
  qed
qed simp

text \<open>Continuing the members reaches all of them, or an OSError was seen.\<close>

lemma signal_cont:
  "signal_probe_pidfds k hs SIGCONT False tr = (b, tr') \<Longrightarrow>
     refused (watch k tr') \<or> b \<and> halted (watch k tr') = halted (watch k tr) - fds hs"
proof (induction hs arbitrary: tr)
  case (Cons h hs)
  obtain pid fd where h: "h = (pid, fd)" by (cases h)
  show ?case
  proof (cases "pidfd_signal k (length tr) fd SIGCONT = SignalFails")
    case True
    then show ?thesis using Cons.prems by (auto simp: h send_def)
  next
    case False
    then have "signal_probe_pidfds k hs SIGCONT False (tr @ [PidfdSignal fd SIGCONT]) = (b, tr')"
      using Cons.prems by (auto simp: h send_def split: signal_answer.splits)
    from Cons.IH [OF this] False show ?thesis by (auto simp: h)
  qed
qed simp

lemma cont_held:
  assumes "signal_probe_pidfds k hs SIGCONT False tr = (b, tr')" and "held k hs tr"
  shows "held k hs tr'" and "running k tr'"
  using signal_watch [OF assms(1)] signal_cont [OF assms(1)] assms(2) by (auto simp: held_def running_def)

lemma release_idle: "held k hs tr \<Longrightarrow> idle k (release k hs tr)"
  using cont_held close_idle by (cases "signal_probe_pidfds k hs SIGCONT False tr") (auto simp: release_def)

lemma open_each_held:
  "open_each k pids opened tr = (r, tr') \<Longrightarrow> held k opened tr \<Longrightarrow> running k tr \<Longrightarrow>
     (case r of None \<Rightarrow> idle k tr' | Some hs \<Rightarrow> held k hs tr' \<and> running k tr')"
proof (induction pids arbitrary: opened tr)
  case (Cons pid pids)
  have quiet: "watch k (tr @ [PidfdOpen pid]) = watch k tr" by simp
  show ?case
  proof (cases "pidfd_open k (length tr) pid")
    case (Opened fd)
    then have "open_each k pids (opened @ [(pid, fd)]) (tr @ [PidfdOpened pid fd]) = (r, tr')" using Cons.prems(1) by simp
    moreover have "held k (opened @ [(pid, fd)]) (tr @ [PidfdOpened pid fd])" "running k (tr @ [PidfdOpened pid fd])"
      using Cons.prems(2,3) by (auto simp: held_def running_def)
    ultimately show ?thesis by (rule Cons.IH)
  next
    case OpenNoProcess
    then have "open_each k pids opened (tr @ [PidfdOpen pid]) = (r, tr')" using Cons.prems(1) by simp
    moreover have "held k opened (tr @ [PidfdOpen pid])" "running k (tr @ [PidfdOpen pid])"
      using Cons.prems(2,3) by (simp_all add: held_def running_def)
    ultimately show ?thesis by (rule Cons.IH)
  next
    case OpenFails
    then have "r = None" "tr' = close_pidfds opened (tr @ [PidfdOpen pid])" using Cons.prems(1) by simp_all
    moreover have "held k opened (tr @ [PidfdOpen pid])" "running k (tr @ [PidfdOpen pid])"
      using Cons.prems(2,3) by (simp_all add: held_def running_def)
    ultimately show ?thesis using close_idle by simp
  qed
qed (cases r; simp)

lemma keep_each_held:
  "keep_each k current opened todo kept tr = (r, tr') \<Longrightarrow> held k (kept @ todo) tr \<Longrightarrow> running k tr \<Longrightarrow>
     set todo \<subseteq> set opened \<Longrightarrow> (case r of None \<Rightarrow> idle k tr' | Some hs \<Rightarrow> held k hs tr' \<and> running k tr')"
proof (induction todo arbitrary: kept tr)
  case (Cons h todo)
  obtain pid fd where h: "h = (pid, fd)" by (cases h)
  let ?sent = "tr @ [PidfdSignal fd PROBE]"
  have dropped: "held k (kept @ todo) (t @ [PidfdClose fd]) \<and> running k (t @ [PidfdClose fd])" if "watch k t = watch k tr" for t
    using Cons.prems(2,3) that by (auto simp: held_def running_def h)
  show ?case
  proof (cases "pid \<in> set current")
    case False
    then have "keep_each k current opened todo kept (tr @ [PidfdClose fd]) = (r, tr')" using Cons.prems(1) by (simp add: h)
    from Cons.IH [OF this] dropped [of tr] Cons.prems(4) show ?thesis by simp
  next
    case True
    note step = Cons.prems(1) [unfolded h keep_each.simps send_def]
    show ?thesis
    proof (cases "pidfd_signal k (length tr) fd PROBE")
      case Delivered
      then have "keep_each k current opened todo (kept @ [(pid, fd)]) ?sent = (r, tr')" using step True by simp
      from Cons.IH [OF this] Cons.prems(2,3,4) show ?thesis by (simp add: held_def running_def h)
    next
      case SignalNoProcess
      then have "keep_each k current opened todo kept (?sent @ [PidfdClose fd]) = (r, tr')" using step True by simp
      from Cons.IH [OF this] dropped [of ?sent] Cons.prems(4) show ?thesis by simp
    next
      case SignalFails
      let ?rest = "filter (\<lambda>(p, f). \<not> (f = fd \<or> (p, f) \<in> set kept)) opened"
      have r: "r = None" "tr' = close_pidfds ?rest (close_pidfds kept (?sent @ [PidfdClose fd]))"
        using step True SignalFails by simp_all
      have "x \<in> fds ?rest \<or> x \<in> fds kept \<or> x = fd" if "x \<in> fds (kept @ h # todo)" for x
      proof -
        have "\<exists>p. (p, x) \<in> set kept \<or> x = fd \<or> (p, x) \<in> set todo" using that by (auto simp: h)
        then obtain p where "(p, x) \<in> set kept \<or> x = fd \<or> (p, x) \<in> set todo" by blast
        then have "x = fd \<or> (p, x) \<in> set kept \<or> (p, x) \<in> set ?rest" using Cons.prems(4) by auto
        then show ?thesis using imageI [of "(p, x)" "set kept" snd] imageI [of "(p, x)" "set ?rest" snd] by auto
      qed
      moreover have "live (watch k tr) \<subseteq> fds (kept @ h # todo)" using Cons.prems(2) by (simp add: held_def)
      ultimately have "live (watch k tr) \<subseteq> fds ?rest \<union> fds kept \<union> {fd}" by blast
      then have "live (watch k tr') = {}" by (auto simp: r close_pidfds_watch)
      moreover have "refused (watch k tr') \<or> halted (watch k tr') = {} \<and> \<not> abandoned (watch k tr')"
        using Cons.prems(2,3) by (auto simp: r close_pidfds_watch held_def running_def)
      ultimately show ?thesis by (simp add: r idle_def)
    qed
  qed
qed (cases r; simp)

lemma open_pidfds_held:
  assumes "open_probe_cgroup_pidfds k pids tr = (r, tr')" and "idle k tr"
  shows "case r of None \<Rightarrow> idle k tr' | Some hs \<Rightarrow> held k hs tr' \<and> running k tr'"
proof -
  obtain r1 tr1 where o1: "open_each k pids [] tr = (r1, tr1)" by (metis surj_pair)
  have start: "held k [] tr" "running k tr" using assms(2) idle_held by (auto simp: idle_def running_def)
  note h = open_each_held [OF o1 start]
  show ?thesis
  proof (cases r1)
    case None
    with o1 h assms(1) show ?thesis by (simp add: open_probe_cgroup_pidfds_def)
  next
    case (Some opened)
    obtain c tr2 where c: "read_pids k tr1 = (c, tr2)" by (metis surj_pair)
    have w: "watch k tr2 = watch k tr1" using read_pids_trace [OF c] by simp
    then have h2: "held k opened tr2" "running k tr2" using h Some by (simp_all add: held_def running_def)
    show ?thesis
    proof (cases c)
      case (Inl e)
      with assms(1) o1 Some c have "r = None" "tr' = close_pidfds opened tr2"
        by (simp_all add: open_probe_cgroup_pidfds_def)
      with close_idle [OF h2] show ?thesis by simp
    next
      case (Inr current)
      with assms(1) o1 Some c have "keep_each k current opened opened [] tr2 = (r, tr')"
        by (simp add: open_probe_cgroup_pidfds_def)
      from keep_each_held [OF this _ h2(2)] h2(1) show ?thesis by simp
    qed
  qed
qed

section \<open>Suspension\<close>

lemma held_watch: "watch k tr' = watch k tr \<Longrightarrow> held k hs tr' \<longleftrightarrow> held k hs tr"
  by (simp add: held_def)

lemma signal_held: "signal_probe_pidfds k hs s need tr = (b, tr') \<Longrightarrow> held k hs tr \<Longrightarrow> held k hs tr'"
  using signal_watch [of k hs s need tr b tr'] by (auto simp: held_def)

text \<open>The last call has read an empty cgroup.\<close>

definition seen_empty :: "kernel \<Rightarrow> trace \<Rightarrow> bool" where
  "seen_empty k tr \<longleftrightarrow> (\<exists>t. tr = t @ [ReadProcs] \<and> probe_cgroup_pids (procs_text k (length t)) = Inr [])"

lemma read_pids_empty: "read_pids k tr = (Inr [], tr') \<Longrightarrow> seen_empty k tr'"
  by (auto simp: read_pids_def seen_empty_def)

lemma acquire_held:
  assumes "acquire k limit tr = (r, tr')" and "idle k tr"
  shows "case r of Stopped pids hs \<Rightarrow> held k hs tr' \<and> map fst hs = pids \<and> pids \<noteq> [] | Retry \<Rightarrow> idle k tr' | Done x \<Rightarrow> idle k tr' \<and> (x = None \<or> x = Some [] \<and> seen_empty k tr')"
proof -
  obtain p tr1 where p: "read_pids k tr = (p, tr1)" by (metis surj_pair)
  have w1: "watch k tr1 = watch k tr" using read_pids_trace [OF p] by simp
  then have i1: "idle k tr1" using assms(2) by (simp add: idle_def)
  show ?thesis
  proof (cases p)
    case (Inl e)
    then show ?thesis using assms(1) p i1 by (simp add: acquire_def) (auto)
  next
    case (Inr pids)
    show ?thesis
    proof (cases "pids = []")
      case True
      then show ?thesis using assms(1) p Inr i1 read_pids_empty [of k tr tr1] by (simp add: acquire_def) (auto)
    next
      case False
      obtain o2 tr2 where o2: "open_probe_cgroup_pidfds k pids tr1 = (o2, tr2)" by (metis surj_pair)
      note h = open_pidfds_held [OF o2 i1]
      note step = assms(1) [unfolded acquire_def p prod.case Inr sum.case o2 if_not_P [OF False]]
      show ?thesis
      proof (cases o2)
        case None
        then show ?thesis using step h by auto
      next
        case (Some hs)
        have h2: "held k hs tr2" "running k tr2" using h Some by simp_all
        show ?thesis
        proof (cases "map fst hs = pids")
          case False
          then have "tr' = close_pidfds hs tr2 @ [ReadClock]" "r = (if limit \<le> monotonic k (length (close_pidfds hs tr2)) then Done None else Retry)"
            using step Some by (simp_all add: Let_def)
          with close_idle [OF h2] show ?thesis by (auto simp: idle_def)
        next
          case True
          obtain b tr3 where s: "signal_probe_pidfds k hs SIGSTOP True tr2 = (b, tr3)" by (metis surj_pair)
          note h3 = signal_held [OF s h2(1)]
          show ?thesis
          proof (cases b)
            case True
            then have "r = Stopped pids hs" "tr' = tr3" using step Some s \<open>map fst hs = pids\<close> by auto
            then show ?thesis using h3 \<open>map fst hs = pids\<close> \<open>pids \<noteq> []\<close> by simp
          next
            case False
            then have "tr' = release k hs tr3 @ [ReadClock]"
              "r = (if limit \<le> monotonic k (length (release k hs tr3)) then Done None else Retry)"
              using step Some s \<open>map fst hs = pids\<close> by (simp_all add: Let_def)
            with release_idle [OF h3] show ?thesis by (auto simp: idle_def)
          qed
        qed
      qed
    qed
  qed
qed

text \<open>What the confirmation has read at the end of the trace.\<close>

definition all_stopped :: "kernel \<Rightarrow> int list \<Rightarrow> trace \<Rightarrow> bool" where
  "all_stopped k pids tr \<longleftrightarrow> (\<exists>n threads.
     threads \<noteq> [] \<and> probe_cgroup_threads (threads_text k n) = Inr threads \<and>
     probe_cgroup_pids (procs_text k (Suc n)) = Inr pids \<and>
     length tr = n + 2 + length threads \<and>
     drop n tr = [ReadThreads, ReadProcs] @ map ReadStatus threads \<and>
     (\<forall>i < length threads. probe_task_stopped (status_text k (n + 2 + i) (threads ! i)) = Some True))"

lemma all_tasks_true:
  "all_tasks p k tids tr = (True, tr') \<Longrightarrow> tr' = tr @ map ReadStatus tids \<and>
     (\<forall>i < length tids. p (probe_task_stopped (status_text k (length tr + i) (tids ! i))))"
proof (induction p k tids tr rule: all_tasks.induct)
  case (2 p k tid tids tr)
  then have p: "p (probe_task_stopped (status_text k (length tr) tid))"
    and rest: "all_tasks p k tids (tr @ [ReadStatus tid]) = (True, tr')" by (auto simp: Let_def split: if_splits)
  from 2(1) [OF refl p rest] p show ?case by (auto simp: less_Suc_eq_0_disj)
qed simp

lemma confirm_quiet_held:
  assumes "confirm_quiet k pids threads hs tr = (r, tr')" and "held k hs tr" and "threads \<noteq> []"
  shows "case r of None \<Rightarrow> held k hs tr' | Some Quiet \<Rightarrow> held k hs tr' \<and> all_stopped k pids tr' | Some x \<Rightarrow> idle k tr'"
proof -
  obtain t tr1 where t: "read_threads k tr = (t, tr1)" by (metis surj_pair)
  obtain p tr2 where p: "read_pids k tr1 = (p, tr2)" by (metis surj_pair)
  have "watch k tr1 = watch k tr" "watch k tr2 = watch k tr1" using read_threads_trace [OF t] read_pids_trace [OF p] by simp_all
  then have h: "held k hs tr1" "held k hs tr2" using assms(2) by (simp_all add: held_def)
  show ?thesis
  proof (cases "\<exists>e. t = Inl e \<or> p = Inl e")
    case True
    then have "r = Some GiveUp" "tr' = release k hs tr1 \<or> tr' = release k hs tr2"
      using assms(1) t p by (auto simp: confirm_quiet_def split: sum.splits)
    then show ?thesis using release_idle h by auto
  next
    case False
    then obtain threads' pids' where e: "t = Inr threads'" "p = Inr pids'" by (metis sumE)
    obtain b tr3 where a: "all_tasks (\<lambda>a. a = Some True) k threads' tr2 = (b, tr3)" by (metis surj_pair)
    have h3: "held k hs tr3" using all_tasks_watch [OF a] h held_watch by blast
    note step = assms(1) [unfolded confirm_quiet_def t p e prod.case sum.case a]
    show ?thesis
    proof (cases "threads' = threads \<and> pids' = pids \<and> b")
      case True
      then have r: "r = Some Quiet" "tr' = tr3" and a': "all_tasks (\<lambda>a. a = Some True) k threads tr2 = (True, tr3)"
        using step a by auto
      note tasks = all_tasks_true [OF a']
      have trs: "tr1 = tr @ [ReadThreads]" "tr2 = tr @ [ReadThreads, ReadProcs]"
        using read_threads_trace [OF t] read_pids_trace [OF p] by simp_all
      have "probe_cgroup_threads (threads_text k (length tr)) = Inr threads"
        "probe_cgroup_pids (procs_text k (Suc (length tr))) = Inr pids"
        using t p e True trs by (auto simp: read_threads_def read_pids_def)
      then have "all_stopped k pids tr3" unfolding all_stopped_def
        using tasks trs assms(3) by (intro exI [of _ "length tr"] exI [of _ threads]) simp
      with r h3 show ?thesis by simp
    next
      case False
      then have "r = None" "tr' = tr2 \<or> tr' = tr3" using step by (auto split: if_splits bool.splits)
      then show ?thesis using h h3 by auto
    qed
  qed
qed


lemma converge_round_held:
  assumes "converge_round k limit pids hs tr = (r, tr')" and "held k hs tr"
  shows "case r of None \<Rightarrow> held k hs tr' | Some Quiet \<Rightarrow> held k hs tr' \<and> all_stopped k pids tr' | Some x \<Rightarrow> idle k tr'"
proof -
  obtain p tr1 where p: "read_pids k tr = (p, tr1)" by (metis surj_pair)
  obtain t tr2 where t: "read_threads k tr1 = (t, tr2)" by (metis surj_pair)
  have h: "held k hs tr1" "held k hs tr2"
    using read_pids_trace [OF p] read_threads_trace [OF t] assms(2) by (simp_all add: held_def)
  note free = release_idle
  show ?thesis
  proof (cases "(\<exists>e. p = Inl e \<or> t = Inl e) \<or> p \<noteq> Inr pids")
    case True
    then have "r = Some GiveUp \<or> r = Some Again" "tr' = release k hs tr1 \<or> tr' = release k hs tr2"
      using assms(1) p t by (auto simp: converge_round_def split: sum.splits)
    then show ?thesis using free h by auto
  next
    case False
    then obtain threads where e: "p = Inr pids" "t = Inr threads" by (metis sumE)
    obtain quiet tr3 where a: "(if threads = [] then (False, tr2) else all_tasks (\<lambda>a. a = Some True) k threads tr2) = (quiet, tr3)"
      by (metis surj_pair)
    have h3: "held k hs tr3" using a all_tasks_watch [of _ k threads tr2 quiet tr3] h by (auto simp: held_def split: if_splits)
    obtain c tr4 where c: "(if quiet then confirm_quiet k pids threads hs tr3 else (None, tr3)) = (c, tr4)" by (metis surj_pair)
    have h4: "case c of None \<Rightarrow> held k hs tr4 | Some Quiet \<Rightarrow> held k hs tr4 \<and> all_stopped k pids tr4 | Some x \<Rightarrow> idle k tr4"
    proof (cases quiet)
      case True
      then have "confirm_quiet k pids threads hs tr3 = (c, tr4)" "threads \<noteq> []" using c a by auto
      then show ?thesis using confirm_quiet_held [OF _ h3] by blast
    qed (use c h3 in auto)
    have step: "(case (c, tr4) of
          (Some outcome, tr4) \<Rightarrow> (Some outcome, tr4)
        | (None, tr4) \<Rightarrow>
            if limit \<le> monotonic k (length tr4) then (Some GiveUp, release k hs (tr4 @ [ReadClock]))
            else case signal_probe_pidfds k hs SIGSTOP True (tr4 @ [ReadClock]) of
                   (True, tr5) \<Rightarrow> (None, tr5 @ [SleepBriefly])
                 | (False, tr5) \<Rightarrow> (Some Again, release k hs tr5)) = (r, tr')"
      using assms(1) by (simp only: converge_round_def p t e prod.case sum.case a c HOL.simp_thms if_False)
    show ?thesis
    proof (cases c)
      case (Some outcome)
      then show ?thesis using step h4 by auto
    next
      case None
      with h4 have h5: "held k hs (tr4 @ [ReadClock])" by (simp add: held_def)
      obtain b tr5 where s: "signal_probe_pidfds k hs SIGSTOP True (tr4 @ [ReadClock]) = (b, tr5)" by (metis surj_pair)
      note h6 = signal_held [OF s h5]
      consider "r = Some GiveUp" "tr' = release k hs (tr4 @ [ReadClock])"
        | "r = None" "tr' = tr5 @ [SleepBriefly]" | "r = Some Again" "tr' = release k hs tr5"
        using step None s by (auto split: if_splits bool.splits)
      then show ?thesis using h6 free [OF h5] free [OF h6] by cases (simp_all add: held_def)
    qed
  qed
qed

lemma converge_held:
  assumes "converge k limit pids hs tr = Some (r, tr')" and "held k hs tr"
  shows "case r of Quiet \<Rightarrow> held k hs tr' \<and> all_stopped k pids tr' | x \<Rightarrow> idle k tr'"
proof -
  let ?Q = "\<lambda>k pids hs (y :: converged \<times> trace). case fst y of Quiet \<Rightarrow> held k hs (snd y) \<and> all_stopped k pids (snd y) | x \<Rightarrow> idle k (snd y)"
  let ?P = "\<lambda>k (l :: rat) pids hs tr (y :: converged \<times> trace). held k hs tr \<longrightarrow> ?Q k pids hs y"
  have "?P k limit pids hs tr (r, tr')"
  proof (rule converge.raw_induct [where P = ?P, OF _ assms(1)])
    fix f k l pids hs tr y
    assume IH: "\<And>k l pids hs tr y. f k l pids hs tr = Some y \<Longrightarrow> ?P k l pids hs tr y"
      and body: "(case converge_round k l pids hs tr of
          (None, tr') \<Rightarrow> f k l pids hs tr' | (Some outcome, tr') \<Rightarrow> Some (outcome, tr')) = Some y"
    obtain c tr1 where c: "converge_round k l pids hs tr = (c, tr1)" by (metis surj_pair)
    show "?P k l pids hs tr y"
    proof (intro impI)
      assume h: "held k hs tr"
      note round = converge_round_held [OF c h]
      show "?Q k pids hs y"
      proof (cases c)
        case None
        then have "f k l pids hs tr1 = Some y" "held k hs tr1" using body c round by simp_all
        then show ?thesis using IH by blast
      next
        case (Some outcome)
        then have "y = (outcome, tr1)" using body c by simp
        then show ?thesis using round Some by (cases outcome) simp_all
      qed
    qed
  qed
  then show ?thesis using assms(2) by (cases r) simp_all
qed

text \<open>What a suspension leaves: handles of stopped threads, or nothing.\<close>

definition suspended :: "kernel \<Rightarrow> handles option \<Rightarrow> trace \<Rightarrow> bool" where
  "suspended k r tr \<longleftrightarrow> (case r of
     None \<Rightarrow> idle k tr
   | Some [] \<Rightarrow> idle k tr \<and> seen_empty k tr
   | Some hs \<Rightarrow> held k hs tr \<and> all_stopped k (map fst hs) tr)"

lemma suspend_loop_held:
  assumes "suspend_loop k limit tr = Some (r, tr')" and "idle k tr"
  shows "suspended k r tr'"
proof -
  let ?P = "\<lambda>k (l :: rat) tr (y :: handles option \<times> trace). idle k tr \<longrightarrow> suspended k (fst y) (snd y)"
  have "?P k limit tr (r, tr')"
  proof (rule suspend_loop.raw_induct [where P = ?P, OF _ assms(1)])
    fix f k l tr y
    assume IH: "\<And>k l tr y. f k l tr = Some y \<Longrightarrow> ?P k l tr y"
      and body: "(case acquire k l tr of
          (Done result, tr1) \<Rightarrow> Some (result, tr1)
        | (Retry, tr1) \<Rightarrow> f k l tr1
        | (Stopped pids handles, tr1) \<Rightarrow>
            (case converge k l pids handles tr1 of
               None \<Rightarrow> None
             | Some (Quiet, tr2) \<Rightarrow> Some (Some handles, tr2)
             | Some (GiveUp, tr2) \<Rightarrow> Some (None, tr2)
             | Some (Again, tr2) \<Rightarrow> f k l tr2)) = Some y"
    obtain a tr1 where a: "acquire k l tr = (a, tr1)" by (metis surj_pair)
    show "?P k l tr y"
    proof (intro impI)
      assume h: "idle k tr"
      note acq = acquire_held [OF a h]
      show "suspended k (fst y) (snd y)"
      proof (cases a)
        case (Done x)
        then show ?thesis using body a acq by (auto simp: suspended_def)
      next
        case Retry
        then have "f k l tr1 = Some y" "idle k tr1" using body a acq by simp_all
        then show ?thesis using IH by blast
      next
        case (Stopped pids hs)
        then have h1: "held k hs tr1" "map fst hs = pids" "pids \<noteq> []" using acq by simp_all
        obtain c tr2 where c: "converge k l pids hs tr1 = Some (c, tr2)" using body a Stopped by (auto split: option.splits)
        note conv = converge_held [OF c h1(1)]
        show ?thesis
        proof (cases c)
          case Quiet
          then have "y = (Some hs, tr2)" using body a Stopped c by simp
          moreover have "hs \<noteq> []" using h1 by auto
          ultimately show ?thesis using conv Quiet h1(2) by (cases hs) (auto simp: suspended_def)
        next
          case GiveUp
          then have "y = (None, tr2)" using body a Stopped c by simp
          then show ?thesis using conv GiveUp by (simp add: suspended_def)
        next
          case Again
          then have "f k l tr2 = Some y" "idle k tr2" using body a Stopped c conv by simp_all
          then show ?thesis using IH by blast
        qed
      qed
    qed
  qed
  then show ?thesis using assms(2) by simp
qed

section \<open>Resumption and the scan\<close>

lemma resume_round_watch:
  assumes "resume_round k limit tr = (r, tr')"
  shows "watch k tr' = watch k tr"
  using assms
  by (auto simp: resume_round_def watch_quiet dest!: read_pids_trace read_threads_trace all_tasks_watch
      split: prod.splits sum.splits if_splits bool.splits option.splits)

lemma resume_loop_watch:
  assumes "resume_loop k limit tr = Some (b, tr')"
  shows "watch k tr' = watch k tr"
proof -
  let ?P = "\<lambda>k (l :: rat) tr (y :: bool \<times> trace). watch k (snd y) = watch k tr"
  have "?P k limit tr (b, tr')"
  proof (rule resume_loop.raw_induct [where P = ?P, OF _ assms(1)])
    fix f k l tr y
    assume IH: "\<And>k l tr y. f k l tr = Some y \<Longrightarrow> ?P k l tr y"
      and body: "(case resume_round k l tr of (None, tr') \<Rightarrow> f k l tr' | (Some b, tr') \<Rightarrow> Some (b, tr')) = Some y"
    obtain c tr1 where c: "resume_round k l tr = (c, tr1)" by (metis surj_pair)
    show "?P k l tr y"
    proof (cases c)
      case None
      then have "f k l tr1 = Some y" using body c by simp
      from IH [OF this] resume_round_watch [OF c] show ?thesis by simp
    next
      case (Some b)
      then show ?thesis using body c resume_round_watch [OF c] by auto
    qed
  qed
  then show ?thesis by simp
qed

lemma resume_idle:
  assumes "resume_probe_cgroup k hs tr = Some (b, tr')" and "held k hs tr"
  shows "idle k tr'"
proof -
  obtain c tr1 where s: "signal_probe_pidfds k hs SIGCONT False (tr @ [ReadClock]) = (c, tr1)" by (metis surj_pair)
  have h: "held k hs (tr @ [ReadClock])" using assms(2) by (simp add: held_def)
  note h1 = cont_held [OF s h]
  consider "tr' = close_pidfds hs tr1"
    | tr2 where "resume_loop k (monotonic k (length tr) + PROBE_CGROUP_SUSPEND_TIMEOUT_SECONDS) tr1 = Some (b, tr2)"
      "tr' = close_pidfds hs tr2"
    using assms(1) s by (auto simp: resume_probe_cgroup_def Let_def split: bool.splits)
  then show ?thesis
  proof cases
    case 2
    have "held k hs tr2" "running k tr2" using resume_loop_watch [OF 2(1)] h1 by (simp_all add: held_def running_def)
    with 2(2) close_idle show ?thesis by simp
  qed (use close_idle [OF h1] in simp)
qed

definition extends :: "trace \<Rightarrow> trace \<Rightarrow> bool" where
  "extends tr tr' \<longleftrightarrow> (\<exists>rest. tr' = tr @ rest)"

lemma extends_refl [simp]: "extends tr tr" "extends tr (tr @ cs)"
  by (auto simp: extends_def)

lemma extends_trans: "extends a b \<Longrightarrow> extends b c \<Longrightarrow> extends a c"
  by (auto simp: extends_def)

lemma extends_snoc: "extends (tr @ cs) tr' \<Longrightarrow> extends tr tr'"
  by (auto simp: extends_def)

lemma extends_length: "extends tr tr' \<Longrightarrow> length tr \<le> length tr'"
  by (auto simp: extends_def)

lemma signal_extends: "signal_probe_pidfds k hs s need tr = (b, tr') \<Longrightarrow> extends tr tr'"
  by (induction k hs s need tr rule: signal_probe_pidfds.induct)
    (auto simp: send_def split: signal_answer.splits if_splits dest: extends_snoc)

lemma close_extends [simp]: "extends tr (close_pidfds hs tr)"
  by (simp add: close_pidfds_def)

lemma release_extends: "extends tr (release k hs tr)"
proof -
  obtain b tr' where s: "signal_probe_pidfds k hs SIGCONT False tr = (b, tr')" by (metis surj_pair)
  show ?thesis using signal_extends [OF s] extends_trans close_extends by (simp add: release_def s)
qed

lemma all_tasks_extends: "all_tasks p k tids tr = (b, tr') \<Longrightarrow> extends tr tr'"
  using all_tasks_trace [of p k tids tr b tr'] by (auto simp: extends_def)

lemma resume_round_extends:
  assumes "resume_round k limit tr = (r, tr')"
  shows "extends tr tr'"
  using assms
  by (auto simp: resume_round_def extends_def dest!: read_pids_trace read_threads_trace all_tasks_extends [unfolded extends_def]
      split: prod.splits sum.splits if_splits bool.splits option.splits)

lemma resume_loop_extends:
  assumes "resume_loop k limit tr = Some (b, tr')"
  shows "extends tr tr'"
proof -
  let ?P = "\<lambda>k (l :: rat) tr (y :: bool \<times> trace). extends tr (snd y)"
  have "?P k limit tr (b, tr')"
  proof (rule resume_loop.raw_induct [where P = ?P, OF _ assms(1)])
    fix f k l tr y
    assume IH: "\<And>k l tr y. f k l tr = Some y \<Longrightarrow> ?P k l tr y"
      and body: "(case resume_round k l tr of (None, tr') \<Rightarrow> f k l tr' | (Some b, tr') \<Rightarrow> Some (b, tr')) = Some y"
    obtain c tr1 where c: "resume_round k l tr = (c, tr1)" by (metis surj_pair)
    note e = resume_round_extends [OF c]
    show "?P k l tr y"
    proof (cases c)
      case None
      then have "f k l tr1 = Some y" using body c by simp
      from extends_trans [OF e IH [OF this]] show ?thesis .
    qed (use body c e in auto)
  qed
  then show ?thesis by simp
qed

lemma resume_extends:
  assumes "resume_probe_cgroup k hs tr = Some (b, tr')"
  shows "extends tr tr'"
proof -
  obtain c tr1 where s: "signal_probe_pidfds k hs SIGCONT False (tr @ [ReadClock]) = (c, tr1)" by (metis surj_pair)
  have e: "extends tr tr1" using extends_snoc [OF signal_extends [OF s]] .
  consider "tr' = close_pidfds hs tr1"
    | tr2 where "resume_loop k (monotonic k (length tr) + PROBE_CGROUP_SUSPEND_TIMEOUT_SECONDS) tr1 = Some (b, tr2)"
      "tr' = close_pidfds hs tr2"
    using assms s by (auto simp: resume_probe_cgroup_def Let_def split: bool.splits)
  then show ?thesis
  proof cases
    case 1
    then show ?thesis using e extends_trans close_extends by blast
  next
    case 2
    from extends_trans [OF extends_trans [OF e resume_loop_extends [OF 2(1)]] close_extends] 2(2) show ?thesis by simp
  qed
qed

lemma suspend_suspended:
  assumes "suspend_probe_cgroup k tr = Some (r, tr')" and "idle k tr"
  shows "suspended k r tr'"
  using suspend_loop_held [of k _ "tr @ [ReadClock]" r tr'] assms by (simp add: suspend_probe_cgroup_def idle_def)

lemma idle_quiet: "watch k tr' = watch k tr \<Longrightarrow> idle k tr' \<longleftrightarrow> idle k tr"
  by (simp add: idle_def)

text \<open>The scan, of a trace that ends with it or goes on.\<close>

definition scanned_at_rest :: "kernel \<Rightarrow> trace \<Rightarrow> bool" where
  "scanned_at_rest k tr' \<longleftrightarrow> (\<exists>tr. extends (tr @ [ScanTrees]) tr' \<and> trees_fit k (length tr) = Inr True \<and>
     (seen_empty k tr \<or> (\<exists>pids. all_stopped k pids tr)))"

lemma scan_cases:
  assumes "probe_writable_tree_within_limits (Some c) k tr = Some (r, tr')" and "idle k tr"
  shows "idle k tr' \<and> (r = Inr True \<longrightarrow> scanned_at_rest k tr')"
proof (cases c)
  case (Inl e)
  then show ?thesis using assms by (auto simp: probe_writable_tree_within_limits_def)
next
  case (Inr root)
  obtain p tr1 where p: "read_pids k tr = (p, tr1)" by (metis surj_pair)
  have i1: "idle k tr1" using read_pids_trace [OF p] assms(2) by (simp add: idle_def)
  note step = assms(1) [unfolded probe_writable_tree_within_limits_def Inr option.case sum.case p prod.case]
  show ?thesis
  proof (cases p)
    case (Inl e)
    then show ?thesis using step i1 by auto
  next
    case (Inr pids)
    show ?thesis
    proof (cases "pids = []")
      case True
      then have r: "r = trees_fit k (length tr1)" "tr' = tr1 @ [ScanTrees]" using step Inr by auto
      have "seen_empty k tr1" using read_pids_empty p Inr True by simp
      then have "r = Inr True \<longrightarrow> scanned_at_rest k tr'" using r extends_refl(1) unfolding scanned_at_rest_def by metis
      then show ?thesis using r i1 by (simp add: idle_def)
    next
      case False
      then obtain sr tr2 where sus: "suspend_probe_cgroup k tr1 = Some (sr, tr2)"
        using step Inr by (auto split: option.splits)
      note s = suspend_suspended [OF sus i1]
      show ?thesis
      proof (cases sr)
        case None
        then show ?thesis using step Inr False sus s by (auto simp: suspended_def)
      next
        case (Some hs)
        then obtain b where b: "resume_probe_cgroup k hs (tr2 @ [ScanTrees]) = Some (b, tr')"
          and r: "r = bindE (trees_fit k (length tr2)) (\<lambda>fit. Inr (fit \<and> b))"
          using step Inr False sus by auto
        have h: "held k hs tr2" "seen_empty k tr2 \<or> all_stopped k (map fst hs) tr2"
          using s Some idle_held by (auto simp: suspended_def split: list.splits)
        have "idle k tr'" by (rule resume_idle [OF b]) (use h(1) in \<open>simp add: held_def\<close>)
        moreover have "scanned_at_rest k tr'" if "r = Inr True"
          using that r h(2) resume_extends [OF b] by (auto simp: scanned_at_rest_def bindE_eq_Inr)
        ultimately show ?thesis by blast
      qed
    qed
  qed
qed

section \<open>Killing\<close>

lemma kill_rounds_idle:
  assumes "kill_cgroup_rounds n k tr = (r, tr')" and "idle k tr"
  shows "idle k tr' \<and> (r = Inr () \<longrightarrow> seen_empty k tr')"
  using assms
proof (induction n arbitrary: tr)
  case 0
  obtain p tr1 where p: "read_pids k tr = (p, tr1)" by (metis surj_pair)
  have "idle k tr1" using read_pids_trace [OF p] "0.prems"(2) by (simp add: idle_def)
  then show ?case using 0 p read_pids_empty by (cases p) (auto split: if_splits)
next
  case (Suc n)
  obtain p tr1 where p: "read_pids k tr = (p, tr1)" by (metis surj_pair)
  have i1: "idle k tr1" using read_pids_trace [OF p] Suc.prems(2) by (simp add: idle_def)
  note step = Suc.prems(1) [unfolded kill_cgroup_rounds.simps p prod.case]
  show ?case
  proof (cases "p = Inr [] \<or> (\<exists>e. p = Inl e)")
    case True
    then show ?thesis using step i1 p read_pids_empty by auto
  next
    case False
    then obtain pids where pids: "p = Inr pids" "pids \<noteq> []" by (metis sumE)
    obtain o2 tr2 where o2: "open_probe_cgroup_pidfds k pids tr1 = (o2, tr2)" by (metis surj_pair)
    note h = open_pidfds_held [OF o2 i1]
    show ?thesis
    proof (cases o2)
      case None
      then show ?thesis using step pids o2 h by auto
    next
      case (Some hs)
      obtain b tr3 where s: "signal_probe_pidfds k hs SIGKILL False tr2 = (b, tr3)" by (metis surj_pair)
      have h2: "held k hs tr2" "running k tr2" using h Some by simp_all
      have "held k hs tr3" "running k tr3" using signal_held [OF s h2(1)] signal_watch [OF s] h2(2) by (auto simp: running_def)
      then have i4: "idle k (close_pidfds hs tr3)" by (rule close_idle)
      show ?thesis
      proof (cases b)
        case True
        then have "kill_cgroup_rounds n k (close_pidfds hs tr3 @ [SleepBriefly]) = (r, tr')" using step pids o2 Some s by simp
        from Suc.IH [OF this] i4 show ?thesis by (simp add: idle_def)
      next
        case False
        then show ?thesis using step pids o2 Some s i4 by auto
      qed
    qed
  qed
qed

section \<open>Termination\<close>

lemma close_extends_trans: "extends tr t \<Longrightarrow> extends tr (close_pidfds hs t)"
  using extends_trans close_extends by blast

lemma release_extends_trans: "extends tr t \<Longrightarrow> extends tr (release k hs t)"
  using extends_trans release_extends by blast

lemma snoc_extends_trans: "extends tr t \<Longrightarrow> extends tr (t @ cs)"
  by (auto simp: extends_def)

lemmas extends_intros = extends_refl close_extends_trans release_extends_trans snoc_extends_trans

lemma open_each_extends: "open_each k pids opened tr = (r, tr') \<Longrightarrow> extends tr tr'"
  by (induction k pids opened tr rule: open_each.induct)
    (auto split: open_answer.splits intro: extends_intros dest: extends_snoc)

lemma keep_each_extends: "keep_each k current opened todo kept tr = (r, tr') \<Longrightarrow> extends tr tr'"
  by (induction k current opened todo kept tr rule: keep_each.induct)
    (auto simp: send_def split: signal_answer.splits if_splits intro: extends_intros dest: extends_snoc)

lemma open_pidfds_extends: "open_probe_cgroup_pidfds k pids tr = (r, tr') \<Longrightarrow> extends tr tr'"
  by (auto simp: open_probe_cgroup_pidfds_def dest!: open_each_extends read_pids_trace keep_each_extends
      split: prod.splits option.splits sum.splits intro: extends_intros dest: extends_snoc extends_trans)

lemma confirm_quiet_extends: "confirm_quiet k pids threads hs tr = (r, tr') \<Longrightarrow> extends tr tr'"
  by (auto simp: confirm_quiet_def dest!: read_pids_trace read_threads_trace all_tasks_extends
      split: prod.splits sum.splits if_splits bool.splits intro: extends_intros dest: extends_snoc)

text \<open>The rounds take time: a round that goes on or that gives up late has looked at the clock.\<close>

lemma acquire_progress:
  assumes "acquire k limit tr = (r, tr')"
  shows "extends (tr @ [ReadProcs]) tr'"
    and "r = Retry \<Longrightarrow> \<exists>t. tr' = t @ [ReadClock] \<and> monotonic k (length t) < limit"
    and "r = Stopped pids hs \<Longrightarrow> probe_cgroup_pids (procs_text k (length tr)) = Inr pids"
proof -
  have e: "extends (tr @ [ReadProcs]) t" if "open_probe_cgroup_pidfds k ps (tr @ [ReadProcs]) = (x, t)" for ps x t
    using open_pidfds_extends [OF that] .
  have e2: "extends (tr @ [ReadProcs]) u"
    if "open_probe_cgroup_pidfds k ps (tr @ [ReadProcs]) = (x, t)" "signal_probe_pidfds k hs s need t = (b, u)" for ps x t hs s need b u
    using extends_trans [OF e [OF that(1)] signal_extends [OF that(2)]] .
  show "extends (tr @ [ReadProcs]) tr'" using assms
    by (auto simp: acquire_def read_pids_def Let_def split: sum.splits if_splits prod.splits option.splits bool.splits
        intro: extends_intros e e2)
  show "\<exists>t. tr' = t @ [ReadClock] \<and> monotonic k (length t) < limit" if "r = Retry"
    using assms that
    by (auto simp: acquire_def read_pids_def Let_def not_le split: sum.splits if_splits prod.splits option.splits bool.splits)
  show "probe_cgroup_pids (procs_text k (length tr)) = Inr pids" if "r = Stopped pids hs"
    using assms that
    by (auto simp: acquire_def read_pids_def Let_def split: sum.splits if_splits prod.splits option.splits bool.splits)
qed


lemma converge_round_progress:
  assumes "converge_round k limit pids hs tr = (r, tr')"
  shows "extends (tr @ [ReadProcs]) tr'"
    and "r = None \<or> r = Some Again \<Longrightarrow> probe_cgroup_pids (procs_text k (length tr)) = Inr pids \<Longrightarrow>
      \<exists>n \<ge> length tr. monotonic k n < limit"
    and "r = None \<Longrightarrow> \<exists>n \<ge> length tr. monotonic k n < limit"
proof -
  let ?tr1 = "tr @ [ReadProcs]"
  let ?tr2 = "tr @ [ReadProcs, ReadThreads]"
  have "extends ?tr1 tr' \<and> (r = None \<or> r = Some Again \<and> probe_cgroup_pids (procs_text k (length tr)) = Inr pids \<longrightarrow>
      (\<exists>n \<ge> length tr. monotonic k n < limit))"
  proof (cases "(\<exists>e. fst (read_pids k tr) = Inl e \<or> fst (read_threads k ?tr1) = Inl e) \<or> fst (read_pids k tr) \<noteq> Inr pids")
    case True
    then have "r = Some GiveUp \<or> r = Some Again \<and> probe_cgroup_pids (procs_text k (length tr)) \<noteq> Inr pids"
      "tr' = release k hs ?tr1 \<or> tr' = release k hs ?tr2"
      using assms by (auto simp: converge_round_def read_pids_def read_threads_def split: sum.splits if_splits)
    moreover have "extends ?tr1 (release k hs ?tr1)" "extends ?tr1 (release k hs ?tr2)"
      using release_extends extends_snoc [of "?tr1" "[ReadThreads]"] by auto
    ultimately show ?thesis by auto
  next
    case False
    then obtain threads where e: "read_pids k tr = (Inr pids, ?tr1)" "read_threads k ?tr1 = (Inr threads, ?tr2)"
      by (auto simp: read_pids_def read_threads_def) (metis sumE)
    obtain quiet tr3 where a: "(if threads = [] then (False, ?tr2) else all_tasks (\<lambda>a. a = Some True) k threads ?tr2) = (quiet, tr3)"
      by (metis surj_pair)
    have x3: "extends ?tr2 tr3" using a all_tasks_extends by (auto split: if_splits)
    obtain c tr4 where c: "(if quiet then confirm_quiet k pids threads hs tr3 else (None, tr3)) = (c, tr4)" by (metis surj_pair)
    have "extends tr3 tr4" using c confirm_quiet_extends by (auto split: if_splits)
    with x3 have x4: "extends ?tr2 tr4" using extends_trans by blast
    then have x1: "extends ?tr1 tr4" using extends_snoc [of ?tr1 "[ReadThreads]" tr4] by simp
    have step: "(case (c, tr4) of
          (Some outcome, tr4) \<Rightarrow> (Some outcome, tr4)
        | (None, tr4) \<Rightarrow>
            if limit \<le> monotonic k (length tr4) then (Some GiveUp, release k hs (tr4 @ [ReadClock]))
            else case signal_probe_pidfds k hs SIGSTOP True (tr4 @ [ReadClock]) of
                   (True, tr5) \<Rightarrow> (None, tr5 @ [SleepBriefly])
                 | (False, tr5) \<Rightarrow> (Some Again, release k hs tr5)) = (r, tr')"
      using assms(1) by (simp only: converge_round_def e prod.case sum.case a c HOL.simp_thms if_False)
    show ?thesis
    proof (cases c)
      case (Some outcome)
      then have "r = Some outcome" "tr' = tr4" using step by auto
      moreover have "outcome \<noteq> Again" using c Some by (auto simp: confirm_quiet_def split: if_splits prod.splits sum.splits bool.splits)
      ultimately show ?thesis using x1 by simp
    next
      case None
      obtain b tr5 where s: "signal_probe_pidfds k hs SIGSTOP True (tr4 @ [ReadClock]) = (b, tr5)" by (metis surj_pair)
      have x5: "extends ?tr1 tr5" using extends_trans [OF x1 extends_snoc [OF signal_extends [OF s]]] .
      have "length tr \<le> length tr4" using extends_length [OF x1] by simp
      consider "r = Some GiveUp" "tr' = release k hs (tr4 @ [ReadClock])"
        | "monotonic k (length tr4) < limit" "tr' = tr5 @ [SleepBriefly] \<or> tr' = release k hs tr5"
        using step None s by (auto simp: not_le split: if_splits bool.splits)
      then show ?thesis
      proof cases
        case 1
        then show ?thesis using extends_intros x1 by simp
      next
        case 2
        then have "extends ?tr1 tr'" using extends_intros x5 by auto
        with 2(1) \<open>length tr \<le> length tr4\<close> show ?thesis by blast
      qed
    qed
  qed
  then show "extends ?tr1 tr'"
    and "r = None \<or> r = Some Again \<Longrightarrow> probe_cgroup_pids (procs_text k (length tr)) = Inr pids \<Longrightarrow>
      \<exists>n \<ge> length tr. monotonic k n < limit"
    and "r = None \<Longrightarrow> \<exists>n \<ge> length tr. monotonic k n < limit" by blast+
qed

text \<open>From the step \<open>N\<close> on the clock is past the deadline and the list of processes stays as it is.\<close>

definition settles :: "kernel \<Rightarrow> rat \<Rightarrow> nat \<Rightarrow> bool" where
  "settles k limit N \<longleftrightarrow> (\<forall>n \<ge> N. limit \<le> monotonic k n \<and> procs_text k n = procs_text k N)"

lemma settles_clock: "settles k limit N \<Longrightarrow> \<exists>n \<ge> m. monotonic k n < limit \<Longrightarrow> m < N"
  by (meson le_trans not_le settles_def)

lemma settles_procs: "settles k limit N \<Longrightarrow> N \<le> n \<Longrightarrow> procs_text k n = procs_text k N"
  unfolding settles_def by blast

lemma converge_returns:
  assumes "settles k limit N"
  shows "\<exists>r tr'. converge k limit pids hs tr = Some (r, tr') \<and> extends tr tr' \<and>
    (r = Again \<longrightarrow> length tr < N \<or> probe_cgroup_pids (procs_text k N) \<noteq> Inr pids)"
proof (induction "N - length tr" arbitrary: tr rule: less_induct)
  case less
  obtain c tr1 where c: "converge_round k limit pids hs tr = (c, tr1)" by (metis surj_pair)
  note p = converge_round_progress [OF c]
  have x: "extends tr tr1" using extends_snoc [OF p(1)] .
  show ?case
  proof (cases c)
    case (Some outcome)
    have "length tr < N \<or> probe_cgroup_pids (procs_text k N) \<noteq> Inr pids" if "outcome = Again"
    proof (rule ccontr)
      assume "\<not> ?thesis"
      then have "probe_cgroup_pids (procs_text k (length tr)) = Inr pids" "\<not> length tr < N"
        using settles_procs [OF assms, of "length tr"] by simp_all
      moreover have "c = None \<or> c = Some Again" using Some that by simp
      ultimately show False using settles_clock [OF assms p(2)] by blast
    qed
    then show ?thesis using c x Some by (subst converge.simps) simp
  next
    case None
    have "length tr < N" using settles_clock [OF assms p(3) [OF None]] .
    moreover have "length tr < length tr1" using extends_length [OF p(1)] by simp
    ultimately obtain r tr' where "converge k limit pids hs tr1 = Some (r, tr')" "extends tr1 tr'"
      using less [of tr1] by force
    then show ?thesis using c None \<open>length tr < N\<close> extends_trans [OF x] by (subst converge.simps) auto
  qed
qed

lemma suspend_loop_returns:
  assumes "settles k limit N"
  shows "suspend_loop k limit tr \<noteq> None"
proof (induction "N - length tr" arbitrary: tr rule: less_induct)
  case less
  obtain a tr1 where a: "acquire k limit tr = (a, tr1)" by (metis surj_pair)
  note p = acquire_progress [OF a]
  have longer: "length tr < length tr1" using extends_length [OF p(1)] by simp
  show ?case
  proof (cases a)
    case (Done x)
    then show ?thesis using a by (subst suspend_loop.simps) simp
  next
    case Retry
    then obtain t where "tr1 = t @ [ReadClock]" "monotonic k (length t) < limit" using p(2) by blast
    then have "\<exists>n \<ge> length tr. monotonic k n < limit" using longer by (intro exI [of _ "length t"]) simp
    then have "length tr < N" by (rule settles_clock [OF assms])
    then have "suspend_loop k limit tr1 \<noteq> None" using less [of tr1] longer by simp
    then show ?thesis using a Retry by (subst suspend_loop.simps) simp
  next
    case (Stopped pids hs)
    obtain r tr2 where c: "converge k limit pids hs tr1 = Some (r, tr2)" "extends tr1 tr2"
      and r: "r = Again \<longrightarrow> length tr1 < N \<or> probe_cgroup_pids (procs_text k N) \<noteq> Inr pids"
      using converge_returns [OF assms] by blast
    have "suspend_loop k limit tr2 \<noteq> None" if "r = Again"
    proof -
      have "length tr < N"
      proof (rule ccontr)
        assume "\<not> length tr < N"
        then have "procs_text k (length tr) = procs_text k N" by (intro settles_procs [OF assms]) simp
        then show False using p(3) [OF Stopped] r that \<open>\<not> length tr < N\<close> longer by simp
      qed
      then show ?thesis using less [of tr2] longer extends_length [OF c(2)] by simp
    qed
    then show ?thesis using a Stopped c(1) by (subst suspend_loop.simps) (cases r; simp)
  qed
qed

section \<open>A cgroup that never settles\<close>

text \<open>
  A process 2 that is seen only by the reading after the stop. The clock advances by a second with
  every call, so the deadline is over almost at once; the branch of \<open>_suspend_probe_cgroup\<close> that
  notices the difference does not look at the clock, and neither does the next attempt.
\<close>

definition drift :: kernel where
  "drift = \<lparr>procs_text = (\<lambda>n. Some (lit ''1'' @ (if n mod 9 = 6 then 10 # lit ''2'' else []))),
     threads_text = (\<lambda>_. Some (lit ''1'')), status_text = (\<lambda>_ _. Gone), pidfd_open = (\<lambda>_ _. Opened 5),
     pidfd_signal = (\<lambda>_ _ _. Delivered), monotonic = rat_of_nat, trees_fit = (\<lambda>_. Inr True)\<rparr>"

lemma drift_pids: "probe_cgroup_pids (procs_text drift n) = Inr (if n mod 9 = 6 then [1, 2] else [1])"
proof -
  have "probe_cgroup_pids (Some (lit ''1'')) = Inr [1]" "probe_cgroup_pids (Some (lit ''1'' @ 10 # lit ''2'')) = Inr [1, 2]"
    "probe_cgroup_threads (Some (lit ''1'')) = Inr [1]" by code_simp+
  then show ?thesis by (simp add: drift_def)
qed

lemma drift_threads: "probe_cgroup_threads (threads_text drift n) = Inr [1]"
proof -
  have "probe_cgroup_threads (Some (lit ''1'')) = Inr [1]" by code_simp
  then show ?thesis by (simp add: drift_def)
qed

lemma drift_answers: "pidfd_open drift n p = Opened 5" "pidfd_signal drift n fd s = Delivered"
  by (simp_all add: drift_def)

lemma drift_acquires:
  assumes "length tr mod 9 = 1"
  shows "acquire drift limit tr = (Stopped [1] [(1, 5)],
    tr @ [ReadProcs, PidfdOpened 1 5, ReadProcs, PidfdSignal 5 PROBE, PidfdSignal 5 SIGSTOP])"
proof -
  have "length tr mod 9 \<noteq> 6" "Suc (Suc (length tr)) mod 9 \<noteq> 6" using assms by presburger+
  then show ?thesis
    by (simp add: acquire_def read_pids_def drift_pids drift_answers open_probe_cgroup_pidfds_def send_def)
qed

lemma drift_breaks:
  assumes "length tr mod 9 = 6"
  shows "converge drift limit [1] [(1, 5)] tr =
    Some (Again, tr @ [ReadProcs, ReadThreads, PidfdSignal 5 SIGCONT, PidfdClose 5])"
proof -
  have "converge_round drift limit [1] [(1, 5)] tr =
      (Some Again, tr @ [ReadProcs, ReadThreads, PidfdSignal 5 SIGCONT, PidfdClose 5])" using assms
    by (simp add: converge_round_def read_pids_def read_threads_def drift_pids drift_threads drift_answers release_def close_pidfds_def send_def)
  then show ?thesis by (subst converge.simps) simp
qed

lemma drift_loops:
  assumes "length tr mod 9 = 1"
  shows "suspend_loop drift limit tr = None"
proof (rule ccontr)
  assume "suspend_loop drift limit tr \<noteq> None"
  then obtain y where y: "suspend_loop drift limit tr = Some y" by blast
  let ?P = "\<lambda>k (l :: rat) tr (y :: handles option \<times> trace). k = drift \<longrightarrow> length tr mod 9 \<noteq> 1"
  have "?P drift limit tr y"
  proof (rule suspend_loop.raw_induct [where P = ?P, OF _ y])
    fix f k l tr y
    assume IH: "\<And>k l tr y. f k l tr = Some y \<Longrightarrow> ?P k l tr y"
      and body: "(case acquire k l tr of
          (Done result, tr1) \<Rightarrow> Some (result, tr1)
        | (Retry, tr1) \<Rightarrow> f k l tr1
        | (Stopped pids handles, tr1) \<Rightarrow>
            (case converge k l pids handles tr1 of
               None \<Rightarrow> None
             | Some (Quiet, tr2) \<Rightarrow> Some (Some handles, tr2)
             | Some (GiveUp, tr2) \<Rightarrow> Some (None, tr2)
             | Some (Again, tr2) \<Rightarrow> f k l tr2)) = Some y"
    show "?P k l tr y"
    proof (intro impI notI)
      assume k: "k = drift" and n: "length tr mod 9 = 1"
      let ?tr1 = "tr @ [ReadProcs, PidfdOpened 1 5, ReadProcs, PidfdSignal 5 PROBE, PidfdSignal 5 SIGSTOP]"
      have "length ?tr1 mod 9 = 6" using n by simp presburger
      from body [unfolded k drift_acquires [OF n] prod.case acquired.case drift_breaks [OF this]]
      have "f drift l (?tr1 @ [ReadProcs, ReadThreads, PidfdSignal 5 SIGCONT, PidfdClose 5]) = Some y" by simp
      from IH [OF this] n show False by simp
    qed
  qed
  with assms show False by simp
qed

section \<open>The properties\<close>

text \<open>C29: The suspension can go on for ever although the clock advances by a second with every call: there is
  a cgroup whose membership differs each time it is read after the stop, and the branch for changed
  membership starts the next attempt without looking at the deadline.\<close>

theorem suspend_may_diverge: "\<exists>k. monotonic k = rat_of_nat \<and> suspend_probe_cgroup k [] = None"
proof (intro exI conjI)
  show "monotonic drift = rat_of_nat" by (simp add: drift_def)
  show "suspend_probe_cgroup drift [] = None" by (simp add: suspend_probe_cgroup_def drift_loops)
qed

text \<open>C28: The suspension returns as soon as the cgroup settles: if from some call on the clock is past the
  deadline and the list of processes stays as it is, the loops end, whatever the other answers are.\<close>

theorem suspend_returns:
  assumes "settles k (monotonic k (length tr) + PROBE_CGROUP_SUSPEND_TIMEOUT_SECONDS) N"
  shows "\<exists>r tr'. suspend_probe_cgroup k tr = Some (r, tr')"
  using suspend_loop_returns [OF assms] by (auto simp: suspend_probe_cgroup_def)

text \<open>C27: The scan under suspension gives back what it took, whatever the cgroup does between two calls: when it
  returns, every descriptor it opened is closed, and nobody is left stopped and no descriptor was closed
  while its process was stopped, unless continuing a process raised an OSError, after which the code
  skips the remaining processes; and a positive result was read while the cgroup was empty or every
  thread of its processes had just been seen stopped.\<close>

theorem scan_at_rest_and_released:
  assumes "probe_writable_tree_within_limits (Some c) k [] = Some (r, tr)"
  shows "live (watch k tr) = {} \<and>
    (refused (watch k tr) \<or> halted (watch k tr) = {} \<and> \<not> abandoned (watch k tr)) \<and>
    (r = Inr True \<longrightarrow> scanned_at_rest k tr)"
proof -
  have "idle k []" by (simp add: idle_def watch_def)
  from scan_cases [OF assms this] show ?thesis unfolding idle_def by blast
qed

text \<open>A kill that succeeds has seen the cgroup empty, and it closes every descriptor.\<close>

theorem kill_probe_cgroup_empties:
  assumes "kill_probe_cgroup k tr = (r, tr')" and "idle k tr"
  shows "idle k tr' \<and> (r = Inr () \<longrightarrow> seen_empty k tr')"
  using kill_rounds_idle [of 8 k tr r tr'] assms by (simp add: kill_probe_cgroup_def)

text \<open>A process that stops, is scanned and runs again.\<close>

definition calm :: kernel where
  "calm = \<lparr>procs_text = (\<lambda>n. Some (if n < 30 then lit ''7'' else [])), threads_text = (\<lambda>_. Some (lit ''7'')),
     status_text = (\<lambda>n _. Status (if n < 13 then lit ''State: T'' else lit ''State: R'')),
     pidfd_open = (\<lambda>_ _. Opened 5), pidfd_signal = (\<lambda>_ _ _. Delivered), monotonic = (\<lambda>_. 0), trees_fit = (\<lambda>_. Inr True)\<rparr>"

declare suspend_loop.simps [code] converge.simps [code] resume_loop.simps [code]

lemma calm_scans:
  "map_option fst (probe_writable_tree_within_limits (Some (Inr [])) calm []) = Some (Inr True)"
  by code_simp

lemma calm_never_refused: "\<not> refused (watch calm tr)"
  by (induction tr rule: rev_induct) (simp add: watch_def, rename_tac c tr, case_tac "(calm, length tr, watch calm tr, c)" rule: observe.cases,
    auto simp: calm_def)

theorem scan_at_rest_and_released_witness:
  "\<exists>tr. probe_writable_tree_within_limits (Some (Inr [])) calm [] = Some (Inr True, tr) \<and>
     live (watch calm tr) = {} \<and> halted (watch calm tr) = {} \<and> scanned_at_rest calm tr"
proof -
  obtain tr where r: "probe_writable_tree_within_limits (Some (Inr [])) calm [] = Some (Inr True, tr)"
    using calm_scans by (cases "probe_writable_tree_within_limits (Some (Inr [])) calm []") auto
  from scan_at_rest_and_released [OF r] calm_never_refused r show ?thesis by blast
qed

lemma calm_killed: "fst (kill_probe_cgroup (calm\<lparr>procs_text := (\<lambda>n. Some (if n < 5 then lit ''7'' else []))\<rparr>) []) = Inr ()"
  by code_simp

theorem kill_probe_cgroup_empties_witness:
  "\<exists>k tr'. kill_probe_cgroup k [] = (Inr (), tr') \<and> length tr' > 1 \<and> idle k tr' \<and> seen_empty k tr'"
proof -
  let ?k = "calm\<lparr>procs_text := (\<lambda>n. Some (if n < 5 then lit ''7'' else []))\<rparr>"
  obtain tr' where r: "kill_probe_cgroup ?k [] = (Inr (), tr')" using calm_killed by (metis prod.collapse)
  have "idle ?k []" by (simp add: idle_def watch_def)
  from kill_probe_cgroup_empties [OF r this] have "idle ?k tr'" "seen_empty ?k tr'" by auto
  moreover have "1 < length (snd (kill_probe_cgroup ?k []))" by code_simp
  ultimately show ?thesis using r by (intro exI conjI) auto
qed

theorem suspend_returns_witness:
  "\<exists>r tr'. suspend_probe_cgroup (calm\<lparr>monotonic := rat_of_nat\<rparr>) [] = Some (r, tr')"
  by (rule suspend_returns [where N = 30])
    (auto simp: settles_def calm_def PROBE_CGROUP_SUSPEND_TIMEOUT_SECONDS_def)

end
