(* ===== verification/Probe_Scan.thy ===== *)
theory Probe_Scan
  imports Cgroup_Laws
begin

text \<open>
  The storage scan as the harness calls it: one call of \<open>probe_writable_tree_within_limits\<close> with the
  answers it meets. The call may raise an exception, and it may not return at all (see
  \<open>suspend_may_diverge\<close>); here is the condition under which it does.
\<close>

section \<open>One call\<close>

text \<open>The cgroup of the environment (None when the variable is empty) and the kernel's answers during the call.\<close>

record scan_world =
  scan_cgroup :: "cg_path result option"
  scan_kernel :: kernel

definition writable_tree_scan :: "scan_world \<Rightarrow> bool result option" where
  "writable_tree_scan s = map_option fst (probe_writable_tree_within_limits (scan_cgroup s) (scan_kernel s) [])"

section \<open>Values that may not return\<close>

text \<open>Sequencing of steps that return, raise an exception, or run for ever (None).\<close>

definition andThen :: "('a result) option \<Rightarrow> ('a \<Rightarrow> ('b result) option) \<Rightarrow> ('b result) option" where
  "andThen m k = (case m of None \<Rightarrow> None | Some (Inl e) \<Rightarrow> Some (Inl e) | Some (Inr x) \<Rightarrow> k x)"

lemma andThen_Inr: "andThen m k = Some (Inr y) \<longleftrightarrow> (\<exists>x. m = Some (Inr x) \<and> k x = Some (Inr y))"
  by (auto simp: andThen_def split: option.splits sum.splits)

lemma andThen_simps [simp]: "andThen (Some (Inr x)) k = k x" "andThen (Some (Inl e)) k = Some (Inl e)" "andThen None k = None"
  by (simp_all add: andThen_def)

lemma andThen_total: "m \<noteq> None \<Longrightarrow> (\<And>x. m = Some (Inr x) \<Longrightarrow> k x \<noteq> None) \<Longrightarrow> andThen m k \<noteq> None"
  by (auto simp: andThen_def simp del: not_None_eq split: sum.splits option.splits)

section \<open>Return of the scan\<close>

text \<open>During the call the clock passes every bound and the list of processes stops changing.\<close>

definition scan_settles :: "scan_world \<Rightarrow> bool" where
  "scan_settles s \<longleftrightarrow> (\<forall>b. \<exists>N. \<forall>n \<ge> N. b \<le> monotonic (scan_kernel s) n) \<and>
     (\<exists>N. \<forall>n \<ge> N. procs_text (scan_kernel s) n = procs_text (scan_kernel s) N)"

lemma scan_settles_limit:
  assumes "scan_settles s"
  shows "\<exists>N. settles (scan_kernel s) limit N"
proof -
  obtain N1 N2 where "\<forall>n \<ge> N1. limit \<le> monotonic (scan_kernel s) n"
    "\<forall>n \<ge> N2. procs_text (scan_kernel s) n = procs_text (scan_kernel s) N2"
    using assms unfolding scan_settles_def by metis
  then have "settles (scan_kernel s) limit (max N1 N2)" unfolding settles_def by (metis max.bounded_iff max.cobounded2)
  then show ?thesis by blast
qed

lemma resume_round_progress:
  assumes "resume_round k limit tr = (None, tr')"
  shows "\<exists>t. extends tr t \<and> tr' = t @ [ReadClock, SleepBriefly] \<and> monotonic k (length t) < limit"
proof -
  obtain t where t: "tr' = t @ [ReadClock, SleepBriefly]" "monotonic k (length t) < limit"
    using assms by (auto simp: resume_round_def split: prod.splits sum.splits if_splits bool.splits option.splits)
  have "extends tr t"
    using assms t(1)
    by (auto simp: resume_round_def dest!: read_pids_trace read_threads_trace all_tasks_extends
        split: prod.splits sum.splits if_splits bool.splits option.splits intro: extends_intros dest: extends_snoc)
      (blast dest: extends_snoc intro: extends_trans)
  with t show ?thesis by blast
qed

lemma resume_loop_returns:
  assumes "settles k limit N"
  shows "resume_loop k limit tr \<noteq> None"
proof (induction "N - length tr" arbitrary: tr rule: less_induct)
  case less
  obtain b tr1 where r: "resume_round k limit tr = (b, tr1)" by (metis surj_pair)
  show ?case
  proof (cases b)
    case None
    obtain t where t: "extends tr t" "tr1 = t @ [ReadClock, SleepBriefly]" "monotonic k (length t) < limit"
      using resume_round_progress r None by blast
    then have "\<exists>n \<ge> length tr. monotonic k n < limit" using extends_length [OF t(1)] by blast
    then have "length tr < N" by (rule settles_clock [OF assms])
    then have "resume_loop k limit tr1 \<noteq> None" using less [of tr1] t(2) extends_length [OF t(1)] by simp
    then show ?thesis using r None by (subst resume_loop.simps) simp
  next
    case (Some x)
    then show ?thesis using r by (subst resume_loop.simps) simp
  qed
qed

lemma resume_returns:
  assumes "\<And>limit. \<exists>N. settles k limit N"
  shows "resume_probe_cgroup k hs tr \<noteq> None"
proof -
  have "resume_loop k limit tr1 \<noteq> None" for limit tr1 using assms [of limit] resume_loop_returns by blast
  then show ?thesis by (auto simp: resume_probe_cgroup_def Let_def simp del: not_None_eq split: prod.splits bool.splits)
qed

lemma suspend_returns_settled:
  assumes "\<And>limit. \<exists>N. settles k limit N"
  shows "suspend_probe_cgroup k tr \<noteq> None"
  using assms suspend_loop_returns unfolding suspend_probe_cgroup_def by blast

lemma writable_tree_scan_returns:
  assumes "scan_settles s"
  shows "writable_tree_scan s \<noteq> None"
proof -
  note limit = scan_settles_limit [OF assms]
  note returns = suspend_returns_settled [OF limit] resume_returns [OF limit]
  show ?thesis unfolding writable_tree_scan_def probe_writable_tree_within_limits_def option.map_disc_iff
    using returns by (auto simp del: not_None_eq split: option.splits sum.splits prod.splits)
qed

section \<open>A scan of a process that is stopped and continued\<close>

definition demo_scan :: scan_world where
  "demo_scan = \<lparr>scan_cgroup = Some (Inr []), scan_kernel = calm\<lparr>monotonic := (\<lambda>n. of_nat n / 1000)\<rparr>\<rparr>"

lemma demo_scan_fits: "writable_tree_scan demo_scan = Some (Inr True)"
  by code_simp

lemma demo_scan_settles: "scan_settles demo_scan"
proof -
  have "\<exists>N. \<forall>n \<ge> N. b \<le> (of_nat n / 1000 :: rat)" for b
  proof -
    obtain N where "1000 * b \<le> (of_nat N :: rat)" using real_arch_simple [of "1000 * b"] by blast
    then have "b \<le> of_nat n / 1000" if "N \<le> n" for n
    proof -
      have "(of_nat N :: rat) \<le> of_nat n" using that by simp
      then show ?thesis using \<open>1000 * b \<le> of_nat N\<close> by simp
    qed
    then show ?thesis by blast
  qed
  moreover have "\<exists>N. \<forall>n \<ge> N. procs_text calm n = procs_text calm N"
    by (rule exI [of _ 30]) (simp add: calm_def)
  ultimately show ?thesis by (simp add: scan_settles_def demo_scan_def)
qed

end
