(* ===== verification/Probe_Run.thy ===== *)
theory Probe_Run
  imports Probe_Output Process_Tree Cargo_Manifest Trusted_Exec Probe_Scan Complex_Main
begin

text \<open>
  One probe, \<open>run_probe\<close> in \<open>tools/run_moriarty.py\<close>: the checks before it starts, the loop that
  reads its two pipes under the time, output and storage limits, the wait for its exit, the checks
  afterwards and the result. A time is a rational number of seconds. Everything the code asks the
  operating system for is an answer of the record \<open>probe_world\<close>, one for every call, so the
  answers may change between two calls. None is a probe that does not return: the loop reads on for
  ever, or a storage scan does not come back from the suspension of the processes.
\<close>

section \<open>Constants\<close>

definition TIMEOUT_SECONDS :: rat where "TIMEOUT_SECONDS = 300"
definition MAX_DIAGNOSTIC_SAMPLE_BYTES :: nat where "MAX_DIAGNOSTIC_SAMPLE_BYTES = 65536"
definition POST_EXIT_DRAIN_SECONDS :: rat where "POST_EXIT_DRAIN_SECONDS = 2"
definition TERMINATION_DRAIN_SECONDS :: rat where "TERMINATION_DRAIN_SECONDS = 2"
definition PROBE_WRITABLE_CHECK_INTERVAL_SECONDS :: rat where "PROBE_WRITABLE_CHECK_INTERVAL_SECONDS = 1"

section \<open>Environment and paths of the process\<close>

definition path_text :: "path \<Rightarrow> pystr" where
  "path_text p = 47 # join_with [47] p"

definition abs_path :: "string list \<Rightarrow> path" where "abs_path ps = map lit ps"

text \<open>The arguments of \<open>run_probe\<close>, and the paths derived from them.\<close>

record probe_paths =
  home :: path
  source_root :: path
  cargo_home :: path
  target_dir :: path
  python_exec :: path
  cargo_exec :: path
  rustc_exec :: path
  rustdoc_exec :: "path option"
  rust_runtime :: "path option"

definition temp_dir :: "probe_paths \<Rightarrow> path" where
  "temp_dir a = butlast (target_dir a) @ [lit ''tmp-'' @ (if target_dir a = [] then [] else last (target_dir a))]"

text \<open>The dictionary of the environment, with the optional entries after the fixed ones.\<close>

definition probe_environment ::
  "path \<Rightarrow> path \<Rightarrow> path \<Rightarrow> path \<Rightarrow> path list \<Rightarrow> path option \<Rightarrow> path option \<Rightarrow> path option \<Rightarrow> (string \<times> pystr) list" where
  "probe_environment home' cargo target temp tool_paths rustc_path rustdoc_path rust_lib =
     [(''PATH'', join_with [58] (map path_text tool_paths @ [lit ''/usr/bin'', lit ''/bin''])),
      (''HOME'', path_text home'), (''CARGO_HOME'', path_text cargo), (''CARGO_TARGET_DIR'', path_text target),
      (''CARGO_NET_OFFLINE'', lit ''true''), (''CARGO_BUILD_JOBS'', lit ''2''), (''CARGO_TERM_COLOR'', lit ''never''),
      (''RUST_BACKTRACE'', lit ''0''), (''PYTHONNOUSERSITE'', lit ''1''), (''PYTHONDONTWRITEBYTECODE'', lit ''1''),
      (''TMPDIR'', path_text temp), (''TMP'', path_text temp), (''TEMP'', path_text temp),
      (''LANG'', lit ''C.UTF-8''), (''LC_ALL'', lit ''C.UTF-8'')] @
     (case rustc_path of None \<Rightarrow> [] | Some p \<Rightarrow> [(''RUSTC'', path_text p)]) @
     (case rustdoc_path of None \<Rightarrow> [] | Some p \<Rightarrow> [(''RUSTDOC'', path_text p)]) @
     (case rust_lib of None \<Rightarrow> [] | Some p \<Rightarrow> [(''LD_LIBRARY_PATH'', path_text p)])"

definition system_read_exec_paths :: "(path \<Rightarrow> bool) \<Rightarrow> path list" where
  "system_read_exec_paths exists =
     filter exists (map abs_path [[''usr'', ''bin''], [''usr'', ''lib''], [''usr'', ''libexec''], [''bin''], [''lib''], [''lib64'']])"

definition system_read_paths :: "(path \<Rightarrow> bool) \<Rightarrow> path list" where
  "system_read_paths plain_file =
     filter plain_file (map abs_path
       [[''etc'', ''ld.so.cache''], [''etc'', ''localtime''], [''etc'', ''nsswitch.conf''], [''etc'', ''passwd''],
        [''etc'', ''group''], [''etc'', ''hosts''], [''dev'', ''urandom''], [''dev'', ''random'']])"

definition system_writable_files :: "(path \<Rightarrow> bool) \<Rightarrow> path list" where
  "system_writable_files exists = filter exists [abs_path [''dev'', ''null'']]"

text \<open>What is started: the executable, its environment and the paths of the Landlock policy.\<close>

record command =
  executable_path :: path
  environment :: "(string \<times> pystr) list"
  read_exec_of :: "path list"
  read_of :: "path list"
  writable_of :: "path list"

definition private_writable_paths :: "probe_paths \<Rightarrow> path list" where
  "private_writable_paths a = [home a, cargo_home a, target_dir a, temp_dir a]"

definition probe_command :: "(path \<Rightarrow> bool) \<Rightarrow> (path \<Rightarrow> bool) \<Rightarrow> string \<Rightarrow> probe_paths \<Rightarrow> command" where
  "probe_command exists plain_file probe_id a =
     (let rust = probe_id = ''rust_all'';
          executable' = (if rust then cargo_exec a else python_exec a);
          python_dir = butlast (python_exec a);
          tool_paths = (case rust_runtime a of
             Some r \<Rightarrow> [r @ [lit ''bin''], python_dir]
           | None \<Rightarrow> if rust then [butlast (cargo_exec a), python_dir] else [python_dir]);
          rust_lib = map_option (\<lambda>r. r @ [lit ''lib'']) (rust_runtime a);
          read_exec = [source_root a, butlast executable'] @ system_read_exec_paths exists @
            (case rust_runtime a of
               Some r \<Rightarrow> [r]
             | None \<Rightarrow> if rust then [butlast (cargo_exec a), butlast (rustc_exec a)] else [])
      in \<lparr>executable_path = executable',
          environment = probe_environment (home a) (cargo_home a) (target_dir a) (temp_dir a) tool_paths
            (if rust then Some (rustc_exec a) else None) (if rust then rustdoc_exec a else None) rust_lib,
          read_exec_of = read_exec, read_of = system_read_paths plain_file,
          writable_of = private_writable_paths a @ system_writable_files exists\<rparr>)"

section \<open>The state of the loop\<close>

datatype stream = Stdout | Stderr

record probe_state =
  open_streams :: "stream list"
  digests :: "stream \<Rightarrow> bytes"
  counts :: "stream \<Rightarrow> nat"
  truncated :: "stream \<Rightarrow> bool"
  captured :: "stream \<Rightarrow> bytes"
  stderr_sample :: bytes
  deadline :: rat
  post_exit_deadline :: "rat option"
  termination_deadline :: "rat option"
  failure_kind :: "string option"
  next_writable_check :: rat
  kills :: nat

text \<open>
  The answers in one round of the loop: the clock, those to the storage scan (should one be due) with
  the clock before and after it, \<open>poll\<close>, and the streams that \<open>select\<close> reports with the octets read (none at the end of the
  stream) and the clock at that moment.
\<close>

record probe_round =
  now_at :: rat
  round_scan :: scan_world
  scan_started :: rat
  scan_finished :: rat
  polled :: "int option"
  events :: "(stream \<times> bytes \<times> rat) list"

text \<open>\<open>kill_result k\<close> is what the kill number \<open>k\<close> of the process tree raises, if it does.\<close>

record loop_world =
  rounds :: "nat \<Rightarrow> probe_round"
  kill_result :: "nat \<Rightarrow> unit result"

definition start_state :: "rat \<Rightarrow> rat \<Rightarrow> probe_state" where
  "start_state now now' =
     \<lparr>open_streams = [Stdout, Stderr], digests = (\<lambda>_. []), counts = (\<lambda>_. 0), truncated = (\<lambda>_. False),
       captured = (\<lambda>_. []), stderr_sample = [], deadline = now + TIMEOUT_SECONDS, post_exit_deadline = None,
       termination_deadline = None, failure_kind = None,
       next_writable_check = now' + PROBE_WRITABLE_CHECK_INTERVAL_SECONDS, kills = 0\<rparr>"

section \<open>One round\<close>

text \<open>\<open>failure_kind = kind; _kill_probe_tree(process); termination_deadline = now + ...\<close>.\<close>

definition stop_probe :: "loop_world \<Rightarrow> string \<Rightarrow> rat \<Rightarrow> probe_state \<Rightarrow> probe_state result" where
  "stop_probe w kind now st =
     bindE (kill_result w (kills st)) (\<lambda>_.
       Inr (st\<lparr>failure_kind := Some kind, kills := kills st + 1,
              termination_deadline := Some (now + TERMINATION_DRAIN_SECONDS)\<rparr>))"

text \<open>The scan and the deadline, the time of the next check and the clock after it.\<close>

definition timed_writable_check :: "probe_round \<Rightarrow> rat \<Rightarrow> ((bool \<times> rat \<times> rat \<times> rat) result) option" where
  "timed_writable_check r deadline' =
     andThen (writable_tree_scan (round_scan r)) (\<lambda>within_limits.
       Some (if scan_finished r < scan_started r then Inl (SystemExit ''moriarty_writable_scan_monotonic_clock_regressed'')
             else Inr (within_limits, deadline' + (scan_finished r - scan_started r),
                       scan_finished r + PROBE_WRITABLE_CHECK_INTERVAL_SECONDS, scan_finished r)))"

definition scan_due :: "probe_round \<Rightarrow> probe_state \<Rightarrow> bool" where
  "scan_due r st \<longleftrightarrow> failure_kind st = None \<and> next_writable_check st \<le> now_at r"

definition check_storage :: "loop_world \<Rightarrow> probe_round \<Rightarrow> probe_state \<Rightarrow> ((probe_state \<times> rat) result) option" where
  "check_storage w r st =
     (if scan_due r st
      then andThen (timed_writable_check r (deadline st)) (\<lambda>(within_limits, deadline', next_check, now).
             let st' = st\<lparr>deadline := deadline', next_writable_check := next_check\<rparr> in
             Some (if within_limits then Inr (st', now)
                   else bindE (stop_probe w ''tool_error'' now st') (\<lambda>st''. Inr (st'', now))))
      else Some (Inr (st, now_at r)))"

definition check_time :: "loop_world \<Rightarrow> bool \<Rightarrow> rat \<Rightarrow> probe_state \<Rightarrow> probe_state result" where
  "check_time w direct_exited now st =
     (if deadline st - now \<le> 0 \<and> failure_kind st = None then stop_probe w ''timeout'' now st
      else if direct_exited \<and> failure_kind st = None
      then (case post_exit_deadline st of
              None \<Rightarrow> Inr (st\<lparr>post_exit_deadline := Some (now + POST_EXIT_DRAIN_SECONDS)\<rparr>)
            | Some limit \<Rightarrow> if limit \<le> now then stop_probe w ''tool_error'' now st else Inr st)
      else Inr st)"

definition set_termination :: "rat \<Rightarrow> probe_state \<Rightarrow> probe_state" where
  "set_termination now st =
     (if failure_kind st \<noteq> None \<and> termination_deadline st = None
      then st\<lparr>termination_deadline := Some (now + TERMINATION_DRAIN_SECONDS)\<rparr> else st)"

text \<open>What a chunk changes, and whether it went over the limit.\<close>

definition receive :: "string \<Rightarrow> stream \<Rightarrow> bytes \<Rightarrow> probe_state \<Rightarrow> probe_state \<times> bool" where
  "receive probe_id s chunk st =
     (let sample = (if probe_id = ''rust_all'' \<and> s = Stderr
                    then stderr_sample st @ take (MAX_DIAGNOSTIC_SAMPLE_BYTES - length (stderr_sample st)) chunk
                    else stderr_sample st);
          captured' = captured st s @ take (MAX_PROBE_OUTPUT_BYTES - length (captured st s)) chunk
      in case bounded_output_update (digests st s) (counts st s) chunk of (digest', count', overflow) \<Rightarrow>
        (st\<lparr>stderr_sample := sample, captured := (captured st)(s := captured'),
            digests := (digests st)(s := digest'), counts := (counts st)(s := count'),
            truncated := (truncated st)(s := truncated st s \<or> overflow)\<rparr>, overflow))"

text \<open>One event; \<open>select\<close> reports registered streams only.\<close>

definition read_event :: "loop_world \<Rightarrow> string \<Rightarrow> probe_state \<Rightarrow> stream \<times> bytes \<times> rat \<Rightarrow> probe_state result" where
  "read_event w probe_id st ev = (case ev of (s, chunk, clock) \<Rightarrow>
     if s \<notin> set (open_streams st) then Inr st
     else if chunk = [] then Inr (st\<lparr>open_streams := removeAll s (open_streams st)\<rparr>)
     else case receive probe_id s chunk st of (st', overflow) \<Rightarrow>
       if overflow \<and> failure_kind st' = None then stop_probe w ''tool_error'' clock st' else Inr st')"

text \<open>A round after its storage check, with the clock; the flag says that the loop was left with \<open>break\<close>.\<close>

definition serve_streams :: "loop_world \<Rightarrow> string \<Rightarrow> probe_round \<Rightarrow> probe_state \<Rightarrow> rat \<Rightarrow> (probe_state \<times> bool) result" where
  "serve_streams w probe_id r st now =
     bindE (check_time w (polled r \<noteq> None) now st) (\<lambda>st2.
     let st3 = set_termination now st2 in
     case termination_deadline st3 of
       Some limit \<Rightarrow>
         if limit \<le> now then Inr (st3\<lparr>open_streams := []\<rparr>, True)
         else bindE (foldE (read_event w probe_id) st3 (events r)) (\<lambda>st4. Inr (st4, False))
     | None \<Rightarrow> bindE (foldE (read_event w probe_id) st3 (events r)) (\<lambda>st4. Inr (st4, False)))"

definition probe_round ::
  "loop_world \<Rightarrow> string \<Rightarrow> probe_round \<Rightarrow> probe_state \<Rightarrow> ((probe_state \<times> bool) result) option" where
  "probe_round w probe_id r st =
     andThen (check_storage w r st) (\<lambda>(st1, now). Some (serve_streams w probe_id r st1 now))"

partial_function (option) probe_loop ::
  "loop_world \<Rightarrow> string \<Rightarrow> nat \<Rightarrow> probe_state \<Rightarrow> (probe_state result) option" where
  "probe_loop w probe_id n st =
     (if open_streams st = [] then Some (Inr st)
      else case probe_round w probe_id (rounds w n) st of
        None \<Rightarrow> None
      | Some (Inl e) \<Rightarrow> Some (Inl e)
      | Some (Inr p) \<Rightarrow> if snd p then Some (Inr (fst p)) else probe_loop w probe_id (n + 1) (fst p))"

section \<open>The whole probe\<close>

text \<open>
  The answers outside the loop. \<open>tree_clean\<close> are the outcomes of \<open>tracked_tree_clean\<close> before and after
  the probe, \<open>cgroup_lists k\<close> and \<open>scans k\<close> the readings of the cgroup and the answers to the scans of
  the writable trees (0 before the probe, then after it), \<open>fstats k\<close> the descriptors of the pinned
  executables (0 and 1 before, 2 and 3 after), \<open>reaped\<close> the answers to \<open>waitpid\<close> when children are reaped.
\<close>

record probe_world =
  in_loop :: loop_world
  tree_clean :: "bool result \<times> bool result"
  landlock_version :: int
  seccomp_supported :: bool
  topology_source :: source_tree
  active_cgroup :: "path option"
  cgroup_lists :: "nat \<Rightarrow> int list result"
  mkdir_errno :: "path \<Rightarrow> nat option"
  pinned_for :: "string \<Rightarrow> trusted_executable"
  pinned_rustc :: trusted_executable
  fstats :: "nat \<Rightarrow> inode_info option"
  scans :: "nat \<Rightarrow> scan_world"
  path_exists :: "path \<Rightarrow> bool"
  plain_file_at :: "path \<Rightarrow> bool"
  preexec_built :: "unit result"
  popen_error :: "command \<Rightarrow> bytes option"
  clocks :: "rat \<times> rat"
  polled_after :: "int option"
  waited :: "int option"
  waited_after_kill :: "int option"
  table_after :: process_table
  reaped :: "int option list"
  own_process :: int
  encoded_path :: "path \<Rightarrow> bytes"
  lower_text :: "pystr \<Rightarrow> pystr"

definition exn_text :: "exn \<Rightarrow> bytes" where
  "exn_text e = (case e of
     SystemExit code \<Rightarrow> map of_char code
   | SystemExitFor code t \<Rightarrow> map of_char code @ utf8_bytes t
   | _ \<Rightarrow> [])"

definition is_exit :: "exn \<Rightarrow> bool" where
  "is_exit e = (case e of SystemExit _ \<Rightarrow> True | SystemExitFor _ _ \<Rightarrow> True | _ \<Rightarrow> False)"

definition probe_cgroup :: "probe_world \<Rightarrow> path result" where
  "probe_cgroup w = (case active_cgroup w of
     None \<Rightarrow> Inl (SystemExit ''moriarty_probe_cgroup_not_initialized'') | Some p \<Rightarrow> Inr p)"

definition make_dirs :: "probe_world \<Rightarrow> path list \<Rightarrow> unit result" where
  "make_dirs w = eachE (\<lambda>p. case mkdir_errno w p of None \<Rightarrow> Inr () | Some errno \<Rightarrow> Inl (OSError errno))"

text \<open>\<open>failure_kind = failure_kind or kind\<close>, without and with a kill.\<close>

definition or_failure :: "string \<Rightarrow> probe_state \<Rightarrow> probe_state" where
  "or_failure kind st = (if failure_kind st = None then st\<lparr>failure_kind := Some kind\<rparr> else st)"

definition or_failure_kill :: "probe_world \<Rightarrow> string \<Rightarrow> probe_state \<Rightarrow> probe_state result" where
  "or_failure_kill w kind st =
     bindE (kill_result (in_loop w) (kills st)) (\<lambda>_. Inr (or_failure kind (st\<lparr>kills := kills st + 1\<rparr>)))"

definition wait_for_exit :: "probe_world \<Rightarrow> probe_state \<Rightarrow> (probe_state \<times> int option) result" where
  "wait_for_exit w st =
     (case polled_after w of
        Some code \<Rightarrow> Inr (st, Some code)
      | None \<Rightarrow> (case waited w of
          Some code \<Rightarrow> Inr (st, Some code)
        | None \<Rightarrow> bindE (or_failure_kill w ''timeout'' st) (\<lambda>st'. Inr (st', waited_after_kill w))))"

text \<open>The checks after the exit.\<close>

definition mark :: "bool \<Rightarrow> probe_state \<Rightarrow> probe_state" where
  "mark bad st = (if bad then or_failure ''tool_error'' st else st)"

definition check_members :: "probe_world \<Rightarrow> probe_state \<Rightarrow> (probe_state result) option" where
  "check_members w st =
     andThen (Some (bindE (cgroup_lists w 1) (\<lambda>members.
        if descendant_pids (own_process w) (table_after w) \<noteq> [] \<or> members \<noteq> []
        then or_failure_kill w ''tool_error'' st else Inr st))) (\<lambda>st1.
     andThen (map_option Inr (reap_adopted_children (reaped w))) (\<lambda>_.
       Some (bindE (cgroup_lists w 2) (\<lambda>members'. Inr (mark (members' \<noteq> []) st1)))))"

definition check_leaks :: "probe_world \<Rightarrow> probe_state \<Rightarrow> (probe_state result) option" where
  "check_leaks w st =
     andThen (check_members w st) (\<lambda>st1.
     andThen (writable_tree_scan (scans w 1)) (\<lambda>within_limits. Some (Inr (mark (\<not> within_limits) st1))))"

definition probe_report ::
  "(bytes \<Rightarrow> bytes) \<Rightarrow> probe_world \<Rightarrow> string \<Rightarrow> probe_paths \<Rightarrow> probe_state \<Rightarrow> int option \<Rightarrow> probe_result result" where
  "probe_report sha256 w probe_id a st code =
     (let ok = (failure_kind st = None \<and> code = Some 0);
          kind = (if ok then None else if failure_kind st = None then Some ''exit_nonzero'' else failure_kind st);
          paths = map (encoded_path w)
            [source_root a, target_dir a, home a, cargo_home a, temp_dir a, butlast (source_root a)] in
      bindE (normalize_probe_output probe_id paths (captured st Stdout)) (\<lambda>out.
      bindE (normalize_probe_output probe_id paths (captured st Stderr)) (\<lambda>err.
        Inr \<lparr>pr_probe_id = probe_id, pr_ok = ok,
          pr_exit_code = (if kind = Some ''exit_nonzero'' \<or> ok then code else None), pr_failure_kind = kind,
          pr_stdout_sha256 = bytes_ref sha256 out, pr_stderr_sha256 = bytes_ref sha256 err,
          pr_stdout_bytes = length out, pr_stderr_bytes = length err,
          pr_stdout_truncated = truncated st Stdout, pr_stderr_truncated = truncated st Stderr,
          pr_diagnostic_class = (if probe_id = ''rust_all'' \<and> \<not> ok
            then Some (classify_rust_failure (lower_text w) (stderr_sample st)) else None)\<rparr>)))"

text \<open>\<open>early\<close> is a check that ends the probe with a failure result when its condition holds.\<close>

definition early :: "(bytes \<Rightarrow> bytes) \<Rightarrow> string \<Rightarrow> bool \<Rightarrow> bytes \<Rightarrow> (probe_result result) option \<Rightarrow> (probe_result result) option" where
  "early sha256 probe_id bad diagnostic rest =
     (if bad then Some (Inr (probe_failure_result sha256 probe_id ''tool_error'' diagnostic)) else rest)"

text \<open>From the end of the loop on.\<close>

definition after_loop ::
  "(bytes \<Rightarrow> bytes) \<Rightarrow> probe_world \<Rightarrow> string \<Rightarrow> probe_paths \<Rightarrow> probe_state \<Rightarrow> (probe_result result) option" where
  "after_loop sha256 w probe_id a st =
     andThen (Some (wait_for_exit w st)) (\<lambda>(st1, code).
     andThen (check_leaks w st1) (\<lambda>st2.
     andThen (Some (snd (tree_clean w))) (\<lambda>clean.
       early sha256 probe_id (\<not> clean) (map of_char ''tracked_tree_or_index_flags_dirty_after_probe'')
       (early sha256 probe_id (\<not> trusted_executable_matches (pinned_for w probe_id) (fstats w 2))
          (map of_char ''trusted_executable_fd_invalid_after_probe'')
       (early sha256 probe_id (probe_id = ''rust_all'' \<and> \<not> trusted_executable_matches (pinned_rustc w) (fstats w 3))
          (map of_char ''trusted_rustc_fd_invalid_after_probe'')
       (Some (probe_report sha256 w probe_id a st2 code)))))))"

definition start_probe ::
  "(bytes \<Rightarrow> bytes) \<Rightarrow> probe_world \<Rightarrow> string \<Rightarrow> probe_paths \<Rightarrow> (probe_result result) option" where
  "start_probe sha256 w probe_id a =
     (case preexec_built w of
        Inl e \<Rightarrow> Some (Inl e)
      | Inr _ \<Rightarrow>
         (case popen_error w (probe_command (path_exists w) (plain_file_at w) probe_id a) of
            Some message \<Rightarrow> Some (Inr (probe_failure_result sha256 probe_id ''tool_error'' message))
          | None \<Rightarrow>
             (case probe_loop (in_loop w) probe_id 0 (start_state (fst (clocks w)) (snd (clocks w))) of
                None \<Rightarrow> None
              | Some (Inl e) \<Rightarrow> Some (Inl e)
              | Some (Inr st) \<Rightarrow> after_loop sha256 w probe_id a st)))"

text \<open>The check of the Rust targets ends the probe with a failure result when it exits.\<close>

definition check_topology ::
  "(bytes \<Rightarrow> bytes) \<Rightarrow> probe_world \<Rightarrow> string \<Rightarrow> (probe_result result) option \<Rightarrow> (probe_result result) option" where
  "check_topology sha256 w probe_id rest =
     (case (if probe_id = ''rust_all'' then validate_rust_target_topology (topology_source w) else Inr ()) of
        Inl e \<Rightarrow> Some (if is_exit e then Inr (probe_failure_result sha256 probe_id ''tool_error'' (exn_text e)) else Inl e)
      | Inr _ \<Rightarrow> rest)"

definition run_probe ::
  "(bytes \<Rightarrow> bytes) \<Rightarrow> probe_world \<Rightarrow> string \<Rightarrow> probe_paths \<Rightarrow> (probe_result result) option" where
  "run_probe sha256 w probe_id a =
     andThen (Some (fst (tree_clean w))) (\<lambda>clean.
     early sha256 probe_id (\<not> clean) (map of_char ''tracked_tree_or_index_flags_dirty_before_probe'')
     (early sha256 probe_id (landlock_version w < 3) (map of_char ''landlock_abi3_unavailable'')
     (early sha256 probe_id (\<not> seccomp_supported w) (map of_char ''network_seccomp_unavailable'')
     (check_topology sha256 w probe_id
     (andThen (Some (bindE (probe_cgroup w) (\<lambda>_. cgroup_lists w 0))) (\<lambda>members.
     early sha256 probe_id (members \<noteq> []) (map of_char ''probe_cgroup_not_empty_before_probe'')
     (andThen (Some (make_dirs w [home a, target_dir a, temp_dir a])) (\<lambda>_.
     early sha256 probe_id (\<not> trusted_executable_matches (pinned_for w probe_id) (fstats w 0))
       (map of_char ''trusted_executable_fd_invalid_before_probe'')
     (early sha256 probe_id (probe_id = ''rust_all'' \<and> \<not> trusted_executable_matches (pinned_rustc w) (fstats w 1))
       (map of_char ''trusted_rustc_fd_invalid_before_probe'')
     (andThen (writable_tree_scan (scans w 0)) (\<lambda>within_limits.
     early sha256 probe_id (\<not> within_limits) (map of_char ''writable_resource_limit_exceeded_before_probe'')
     (start_probe sha256 w probe_id a))))))))))))"

end
