(* ===== verification/Probe_Laws.thy ===== *)
theory Probe_Laws
  imports Probe_Run Registry_Laws
begin

text \<open>
  What a probe establishes: the invariants of its loop, the end of the loop, the shape of every
  result and what a green result means.
\<close>

section \<open>Invariants of the loop\<close>

text \<open>
  A predicate that every primitive step keeps holds at the end of the loop. The steps are those of
  \<open>run_probe\<close>: ending the probe with a failure, moving the clocks, noting the exit, closing
  streams and handling an event.
\<close>

locale loop_invariant =
  fixes w :: loop_world and probe_id :: string and I :: "probe_state \<Rightarrow> bool"
  assumes stop: "I st \<Longrightarrow> failure_kind st = None \<Longrightarrow> kind \<in> {''tool_error'', ''timeout''} \<Longrightarrow>
      I (st\<lparr>failure_kind := Some kind, kills := k, termination_deadline := Some t\<rparr>)"
    and clock: "I st \<Longrightarrow> I (st\<lparr>deadline := t, next_writable_check := t'\<rparr>)"
    and exited: "I st \<Longrightarrow> I (st\<lparr>post_exit_deadline := Some t\<rparr>)"
    and grace: "I st \<Longrightarrow> failure_kind st \<noteq> None \<Longrightarrow> I (st\<lparr>termination_deadline := Some t\<rparr>)"
    and close: "I st \<Longrightarrow> I (st\<lparr>open_streams := []\<rparr>)"
    and receive: "I st \<Longrightarrow> read_event w probe_id st ev = Inr st' \<Longrightarrow> I st'"
begin

lemma stop_probe:
  "stop_probe w kind now st = Inr st' \<Longrightarrow> I st \<Longrightarrow> failure_kind st = None \<Longrightarrow> kind \<in> {''tool_error'', ''timeout''} \<Longrightarrow> I st'"
  using stop by (auto simp: stop_probe_def bindE_eq_Inr)

lemma check_storage:
  assumes "check_storage w r st = Some (Inr (st', now))" and "I st"
  shows "I st'"
proof (cases "scan_due r st")
  case True
  then obtain within_limits d c where t: "timed_writable_check r (deadline st) = Some (Inr (within_limits, d, c, now))"
    "(if within_limits then Inr (st\<lparr>deadline := d, next_writable_check := c\<rparr>, now)
      else bindE (stop_probe w ''tool_error'' now (st\<lparr>deadline := d, next_writable_check := c\<rparr>)) (\<lambda>st''. Inr (st'', now))) = Inr (st', now)"
    using assms(1) by (auto simp: check_storage_def andThen_Inr Let_def bindE_eq_Inr split: if_splits)
  have "I (st\<lparr>deadline := d, next_writable_check := c\<rparr>)" "failure_kind st = None"
    using clock assms(2) True by (simp_all add: scan_due_def)
  with t(2) stop_probe show ?thesis by (auto simp: bindE_eq_Inr split: if_splits)
qed (use assms in \<open>simp add: check_storage_def\<close>)

lemma check_time:
  assumes "check_time w ended now st = Inr st'" and "I st"
  shows "I st'"
  using assms exited stop_probe
  by (auto simp: check_time_def split: if_splits option.splits)

lemma set_termination: "I st \<Longrightarrow> I (set_termination now st)"
  using grace by (simp add: set_termination_def)

lemma events: "foldE (read_event w probe_id) st evs = Inr st' \<Longrightarrow> I st \<Longrightarrow> I st'"
  by (rule foldE_invariant [where P = I]) (auto intro: receive)

lemma serve_streams:
  assumes "serve_streams w probe_id r st now = Inr (st', stop)" and "I st"
  shows "I st'"
proof -
  obtain st2 where s: "check_time w (polled r \<noteq> None) now st = Inr st2"
    "(case termination_deadline (set_termination now st2) of
        Some limit \<Rightarrow>
          if limit \<le> now then Inr ((set_termination now st2)\<lparr>open_streams := []\<rparr>, True)
          else bindE (foldE (read_event w probe_id) (set_termination now st2) (events r)) (\<lambda>st4. Inr (st4, False))
      | None \<Rightarrow> bindE (foldE (read_event w probe_id) (set_termination now st2) (events r)) (\<lambda>st4. Inr (st4, False))) =
     Inr (st', stop)"
    using assms(1) by (auto simp: serve_streams_def bindE_eq_Inr Let_def simp del: option.case_eq_if)
  have I3: "I (set_termination now st2)" using assms(2) check_time [OF s(1)] set_termination by blast
  from s(2) events [OF _ I3] close [OF I3] show ?thesis
    by (auto simp: bindE_eq_Inr split: option.splits if_splits)
qed

lemma round:
  assumes "probe_round w probe_id r st = Some (Inr (st', stop))" and "I st"
  shows "I st'"
proof -
  obtain st1 now where "check_storage w r st = Some (Inr (st1, now))" "serve_streams w probe_id r st1 now = Inr (st', stop)"
    using assms(1) by (auto simp: probe_round_def andThen_Inr)
  then show ?thesis using check_storage serve_streams assms(2) by blast
qed

lemma loop:
  assumes "probe_loop w probe_id n st = Some (Inr st')" and "I st"
  shows "I st'"
proof -
  let ?P = "\<lambda>w' p' n st (y :: probe_state result). w' = w \<and> p' = probe_id \<and> I st \<longrightarrow> (\<forall>st'. y = Inr st' \<longrightarrow> I st')"
  have "?P w probe_id n st (Inr st')"
  proof (rule probe_loop.raw_induct [where P = ?P, OF _ assms(1)])
    fix f w' p' n st y
    assume IH: "\<And>w' p' n st y. f w' p' n st = Some y \<Longrightarrow> ?P w' p' n st y"
      and body: "(if open_streams st = [] then Some (Inr st)
        else case probe_round w' p' (rounds w' n) st of
          None \<Rightarrow> None
        | Some (Inl e) \<Rightarrow> Some (Inl e)
        | Some (Inr p) \<Rightarrow> if snd p then Some (Inr (fst p)) else f w' p' (n + 1) (fst p)) = Some y"
    show "?P w' p' n st y"
    proof (intro impI allI, elim conjE)
      fix st' assume eq: "w' = w" "p' = probe_id" "I st" "y = Inr st'"
      show "I st'"
      proof (cases "open_streams st = []")
        case True
        with body eq show ?thesis by simp
      next
        case False
        with body eq obtain p where p: "probe_round w probe_id (rounds w n) st = Some (Inr p)"
          "(if snd p then Some (Inr (fst p)) else f w probe_id (n + 1) (fst p)) = Some (Inr st')"
          by (auto split: sum.splits option.splits)
        have "I (fst p)" using round [of "rounds w n" st "fst p" "snd p"] p(1) eq(3) by simp
        with IH [of w probe_id "n + 1" "fst p" "Inr st'"] p(2) show ?thesis by (auto split: if_splits)
      qed
    qed
  qed
  with assms(2) show ?thesis by blast
qed

end

text \<open>The captured octets are what the hashes were fed, and never more than the limit.\<close>

definition capture_ok :: "probe_state \<Rightarrow> bool" where
  "capture_ok st \<longleftrightarrow> (\<forall>s. captured st s = digests st s \<and> counts st s = length (captured st s) \<and>
     counts st s \<le> MAX_PROBE_OUTPUT_BYTES \<and> (truncated st s \<longrightarrow> counts st s = MAX_PROBE_OUTPUT_BYTES)) \<and>
     length (stderr_sample st) \<le> MAX_DIAGNOSTIC_SAMPLE_BYTES"

text \<open>A probe that is being ended has a deadline, and lost output is a failure.\<close>

definition failure_ok :: "probe_state \<Rightarrow> bool" where
  "failure_ok st \<longleftrightarrow> failure_kind st \<in> {None, Some ''tool_error'', Some ''timeout''} \<and>
     (failure_kind st = None \<longleftrightarrow> termination_deadline st = None) \<and>
     (failure_kind st = None \<longrightarrow> (\<forall>s. \<not> truncated st s))"

lemma capture_receive:
  assumes r: "receive probe_id s chunk st = (st', overflow)" and ok: "capture_ok st"
  shows "capture_ok st'"
proof -
  let ?c = "captured st s @ take (MAX_PROBE_OUTPUT_BYTES - length (captured st s)) chunk"
  have c: "digests st s = captured st s" "counts st s = length (captured st s)"
    "length (captured st s) \<le> MAX_PROBE_OUTPUT_BYTES" "truncated st s \<longrightarrow> length (captured st s) = MAX_PROBE_OUTPUT_BYTES"
    "length (stderr_sample st) \<le> MAX_DIAGNOSTIC_SAMPLE_BYTES"
    using ok unfolding capture_ok_def by metis+
  have st': "captured st' = (captured st)(s := ?c)" "digests st' = (digests st)(s := ?c)"
    "counts st' = (counts st)(s := length ?c)" "length (stderr_sample st') \<le> MAX_DIAGNOSTIC_SAMPLE_BYTES"
    "truncated st' = (truncated st)(s := truncated st s \<or> MAX_PROBE_OUTPUT_BYTES - length (captured st s) < length chunk)"
    using r c by (auto simp: receive_def bounded_output_update_def Let_def)
  have len: "length ?c \<le> MAX_PROBE_OUTPUT_BYTES"
    "truncated st s \<or> MAX_PROBE_OUTPUT_BYTES - length (captured st s) < length chunk \<Longrightarrow> length ?c = MAX_PROBE_OUTPUT_BYTES"
    using c(3,4) by auto
  have "captured st' s' = digests st' s' \<and> counts st' s' = length (captured st' s') \<and>
      counts st' s' \<le> MAX_PROBE_OUTPUT_BYTES \<and> (truncated st' s' \<longrightarrow> counts st' s' = MAX_PROBE_OUTPUT_BYTES)" for s'
  proof (cases "s' = s")
    case True
    show ?thesis unfolding st'(1,2,3,5) True fun_upd_same using len by blast
  next
    case False
    then show ?thesis unfolding st'(1,2,3,5) fun_upd_other [OF False] using ok unfolding capture_ok_def by blast
  qed
  with st'(4) show ?thesis unfolding capture_ok_def by blast
qed

lemma capture_ok_update:
  "capture_ok (st\<lparr>failure_kind := k\<rparr>) \<longleftrightarrow> capture_ok st"
  "capture_ok (st\<lparr>kills := n\<rparr>) \<longleftrightarrow> capture_ok st"
  "capture_ok (st\<lparr>open_streams := ss\<rparr>) \<longleftrightarrow> capture_ok st"
  "capture_ok (st\<lparr>deadline := d\<rparr>) \<longleftrightarrow> capture_ok st"
  "capture_ok (st\<lparr>next_writable_check := c\<rparr>) \<longleftrightarrow> capture_ok st"
  "capture_ok (st\<lparr>post_exit_deadline := t\<rparr>) \<longleftrightarrow> capture_ok st"
  "capture_ok (st\<lparr>termination_deadline := t\<rparr>) \<longleftrightarrow> capture_ok st"
  by (simp_all add: capture_ok_def)

interpretation capture: loop_invariant w probe_id capture_ok for w probe_id
proof
  fix st ev st'
  assume ok: "capture_ok st" and ev: "read_event w probe_id st ev = Inr st'"
  obtain s chunk t st1 overflow where e: "ev = (s, chunk, t)" "receive probe_id s chunk st = (st1, overflow)"
    by (metis surj_pair)
  from capture_receive [OF e(2) ok] ev ok show "capture_ok st'"
    by (auto simp: e read_event_def stop_probe_def bindE_eq_Inr capture_ok_update split: if_splits)
qed (simp_all add: capture_ok_update)

lemma receive_failure:
  "receive probe_id s chunk st = (st', overflow) \<Longrightarrow>
     failure_kind st' = failure_kind st \<and> termination_deadline st' = termination_deadline st \<and>
     deadline st' = deadline st \<and> truncated st' = (truncated st)(s := truncated st s \<or> overflow)"
  by (auto simp: receive_def Let_def split: prod.splits)

interpretation failure: loop_invariant w probe_id failure_ok for w probe_id
proof
  fix st ev st'
  assume ok: "failure_ok st" and ev: "read_event w probe_id st ev = Inr st'"
  obtain s chunk t st1 overflow where e: "ev = (s, chunk, t)" "receive probe_id s chunk st = (st1, overflow)"
    by (metis surj_pair)
  note r = receive_failure [OF e(2)]
  show "failure_ok st'"
  proof (cases "failure_kind st = None")
    case True
    with ev ok r show ?thesis
      by (auto simp: e read_event_def stop_probe_def bindE_eq_Inr failure_ok_def split: if_splits)
  next
    case False
    with ev ok r show ?thesis by (auto simp: e read_event_def failure_ok_def split: if_splits)
  qed
qed (auto simp: failure_ok_def)

section \<open>The end of the loop\<close>

text \<open>The time that the storage scans before round \<open>n\<close> can have taken.\<close>

definition suspended :: "loop_world \<Rightarrow> nat \<Rightarrow> rat" where
  "suspended w n = (\<Sum>i < n. scan_finished (rounds w i) - scan_started (rounds w i))"

text \<open>
  The clock moves forward and, the scans not counted, past every bound.
\<close>

definition clock_advances :: "loop_world \<Rightarrow> bool" where
  "clock_advances w \<longleftrightarrow>
     (\<forall>n. now_at (rounds w n) \<le> scan_started (rounds w n) \<and> scan_started (rounds w n) \<le> scan_finished (rounds w n)) \<and>
     (\<forall>b. \<exists>n0. \<forall>n \<ge> n0. b \<le> now_at (rounds w n) - suspended w n)"

lemma suspended_Suc:
  "suspended w (Suc n) = suspended w n + (scan_finished (rounds w n) - scan_started (rounds w n))"
  by (simp add: suspended_def)

lemma suspended_nonneg: "clock_advances w \<Longrightarrow> 0 \<le> suspended w n"
  by (auto simp: suspended_def clock_advances_def intro!: sum_nonneg)

lemma clock_passes:
  assumes "clock_advances w"
  shows "\<exists>n0. \<forall>n \<ge> n0. t \<le> now_at (rounds w n)"
proof -
  obtain n0 where "\<forall>n \<ge> n0. t \<le> now_at (rounds w n) - suspended w n"
    using assms unfolding clock_advances_def by blast
  then have "t \<le> now_at (rounds w n)" if "n0 \<le> n" for n
    using suspended_nonneg [OF assms, of n] that by (metis add_increasing2 diff_add_cancel)
  then show ?thesis by blast
qed

lemma probe_loop_step:
  "open_streams st \<noteq> [] \<Longrightarrow> probe_round w p (rounds w n) st = Some (Inr (st', stop)) \<Longrightarrow>
     probe_loop w p n st = (if stop then Some (Inr st') else probe_loop w p (n + 1) st')"
  by (simp add: probe_loop.simps [of w p n st])

text \<open>A failure is kept.\<close>

lemma read_event_failed:
  assumes "read_event w p st ev = Inr st'" and "failure_kind st \<noteq> None"
  shows "failure_kind st' = failure_kind st \<and> termination_deadline st' = termination_deadline st"
proof -
  obtain s chunk t st1 overflow where e: "ev = (s, chunk, t)" "receive p s chunk st = (st1, overflow)"
    by (metis surj_pair)
  show ?thesis using assms receive_failure [OF e(2)] by (auto simp: e read_event_def split: if_splits)
qed

interpretation failed: loop_invariant w probe_id "\<lambda>st. failure_kind st \<noteq> None" for w probe_id
  by unfold_locales (auto dest: read_event_failed simp del: not_None_eq)

lemma events_ending:
  "foldE (read_event w p) st evs = Inr st' \<Longrightarrow> failure_kind st \<noteq> None \<Longrightarrow>
     failure_kind st' = failure_kind st \<and> termination_deadline st' = termination_deadline st"
proof (induction evs arbitrary: st)
  case (Cons ev evs)
  from Cons.prems obtain st1 where st1: "read_event w p st ev = Inr st1" "foldE (read_event w p) st1 evs = Inr st'"
    by (auto simp: bindE_eq_Inr)
  have "failure_kind st1 = failure_kind st \<and> termination_deadline st1 = termination_deadline st"
    by (rule read_event_failed [OF st1(1) Cons.prems(2)])
  with Cons.IH [OF st1(2)] Cons.prems(2) show ?case by simp
qed simp

lemma events_deadline:
  "foldE (read_event w p) st evs = Inr st' \<Longrightarrow> deadline st' = deadline st"
proof (induction evs arbitrary: st)
  case (Cons ev evs)
  from Cons.prems obtain st1 where st1: "read_event w p st ev = Inr st1" "foldE (read_event w p) st1 evs = Inr st'"
    by (auto simp: bindE_eq_Inr)
  have "deadline st1 = deadline st"
    using st1(1) receive_failure
    by (fastforce simp: read_event_def stop_probe_def bindE_eq_Inr split: prod.splits if_splits)
  with Cons.IH [OF st1(2)] show ?case by simp
qed simp

text \<open>
  The time that the scan of a round takes, and the clock of the round without it: with the scan, the
  deadline moves by that time, so it is the time at which the scan started that counts.
\<close>

definition scan_time :: "probe_round \<Rightarrow> probe_state \<Rightarrow> rat" where
  "scan_time r st = (if scan_due r st then scan_finished r - scan_started r else 0)"

definition time_used :: "probe_round \<Rightarrow> probe_state \<Rightarrow> rat" where
  "time_used r st = (if scan_due r st then scan_started r else now_at r)"

lemma storage_deadline:
  assumes "check_storage w r st = Some (Inr (st1, now))"
  shows "deadline st1 = deadline st + scan_time r st" and "deadline st1 - now = deadline st - time_used r st"
    and "scan_due r st \<Longrightarrow> writable_tree_scan (round_scan r) = Some (Inr True) \<or> failure_kind st1 \<noteq> None"
    and "0 \<le> scan_time r st"
  using assms
  by (auto simp: check_storage_def timed_writable_check_def stop_probe_def andThen_Inr bindE_eq_Inr Let_def scan_time_def
      time_used_def split: if_splits)

lemma time_deadline:
  assumes "check_time w ended now st1 = Inr st2"
  shows "deadline st2 = deadline st1" and "deadline st1 \<le> now \<Longrightarrow> failure_kind st2 \<noteq> None"
    and "failure_kind st1 \<noteq> None \<Longrightarrow> failure_kind st2 = failure_kind st1 \<and> termination_deadline st2 = termination_deadline st1"
  using assms by (auto simp: check_time_def stop_probe_def bindE_eq_Inr split: if_splits option.splits)

lemma serve_streams_facts:
  assumes "serve_streams w p r st1 now = Inr (st', stop)"
  shows "deadline st' = deadline st1" and "deadline st1 \<le> now \<Longrightarrow> failure_kind st' \<noteq> None"
    and "failure_kind st1 \<noteq> None \<Longrightarrow> failure_kind st' \<noteq> None"
    and "failure_kind st1 \<noteq> None \<Longrightarrow> termination_deadline st1 = Some t \<Longrightarrow>
      (stop \<longleftrightarrow> t \<le> now) \<and> (\<not> stop \<longrightarrow> termination_deadline st' = Some t)"
    and "stop \<Longrightarrow> failure_ok st1 \<Longrightarrow> failure_kind st' \<noteq> None"
proof -
  obtain st2 where t: "check_time w (polled r \<noteq> None) now st1 = Inr st2"
    and rest: "(case termination_deadline (set_termination now st2) of
        Some limit \<Rightarrow>
          if limit \<le> now then Inr ((set_termination now st2)\<lparr>open_streams := []\<rparr>, True)
          else bindE (foldE (read_event w p) (set_termination now st2) (events r)) (\<lambda>st4. Inr (st4, False))
      | None \<Rightarrow> bindE (foldE (read_event w p) (set_termination now st2) (events r)) (\<lambda>st4. Inr (st4, False))) =
     Inr (st', stop)"
    using assms(1) by (auto simp: serve_streams_def bindE_eq_Inr Let_def simp del: option.case_eq_if)
  let ?st3 = "set_termination now st2"
  have s3: "failure_kind ?st3 = failure_kind st2" "deadline ?st3 = deadline st2" by (simp_all add: set_termination_def)
  consider (ended) limit where "termination_deadline ?st3 = Some limit" "limit \<le> now" "st' = ?st3\<lparr>open_streams := []\<rparr>" "stop"
    | (served) "foldE (read_event w p) ?st3 (events r) = Inr st'" "\<not> stop"
      "\<And>limit. termination_deadline ?st3 = Some limit \<Longrightarrow> now < limit"
    using rest by (auto simp: bindE_eq_Inr not_le split: option.splits if_splits)
  note cases = this
  show "deadline st' = deadline st1" using cases time_deadline(1) [OF t] s3 events_deadline by cases auto
  have kept: "failure_kind st' = failure_kind st2" if "failure_kind st2 \<noteq> None"
    using cases that s3 events_ending by cases auto
  show "deadline st1 \<le> now \<Longrightarrow> failure_kind st' \<noteq> None" using time_deadline(2) [OF t] kept by simp
  show "failure_kind st1 \<noteq> None \<Longrightarrow> failure_kind st' \<noteq> None" using time_deadline(3) [OF t] kept by simp
  show "(stop \<longleftrightarrow> t \<le> now) \<and> (\<not> stop \<longrightarrow> termination_deadline st' = Some t)"
    if f: "failure_kind st1 \<noteq> None" "termination_deadline st1 = Some t" for t
  proof -
    have "termination_deadline ?st3 = Some t" "failure_kind ?st3 \<noteq> None"
      using time_deadline(3) [OF t f(1)] f s3 by (simp_all add: set_termination_def)
    with cases events_ending show ?thesis by cases auto
  qed
  show "failure_kind st' \<noteq> None" if "stop" "failure_ok st1"
  proof -
    have "failure_ok ?st3" using failure.check_time [OF t that(2)] failure.set_termination by blast
    with cases that(1) show ?thesis by cases (auto simp: failure_ok_def)
  qed
qed

lemma round_facts:
  assumes "probe_round w p r st = Some (Inr (st', stop))"
  shows "deadline st' = deadline st + scan_time r st" and "0 \<le> scan_time r st"
    and "deadline st \<le> time_used r st \<Longrightarrow> failure_kind st' \<noteq> None"
    and "scan_due r st \<Longrightarrow> writable_tree_scan (round_scan r) \<noteq> Some (Inr True) \<Longrightarrow> failure_kind st' \<noteq> None"
    and "stop \<Longrightarrow> failure_ok st \<Longrightarrow> failure_kind st' \<noteq> None"
proof -
  obtain st1 now where s: "check_storage w r st = Some (Inr (st1, now))" "serve_streams w p r st1 now = Inr (st', stop)"
    using assms(1) by (auto simp: probe_round_def andThen_Inr)
  note d = storage_deadline [OF s(1)] and f = serve_streams_facts [OF s(2)]
  show "deadline st' = deadline st + scan_time r st" "0 \<le> scan_time r st" using d(1,4) f(1) by simp_all
  show "deadline st \<le> time_used r st \<Longrightarrow> failure_kind st' \<noteq> None" using d(2) f(2) by simp
  show "scan_due r st \<Longrightarrow> writable_tree_scan (round_scan r) \<noteq> Some (Inr True) \<Longrightarrow> failure_kind st' \<noteq> None"
    using d(3) f(3) by blast
  show "stop \<Longrightarrow> failure_ok st \<Longrightarrow> failure_kind st' \<noteq> None" using f(5) failure.check_storage [OF s(1)] by blast
qed

text \<open>A probe that is being ended: the round ends the loop when the drain time is over.\<close>

lemma round_ending:
  assumes "probe_round w p r st = Some (Inr (st', stop))" and "failure_kind st \<noteq> None" and "termination_deadline st = Some t"
  shows "stop \<longleftrightarrow> t \<le> now_at r"
    and "\<not> stop \<Longrightarrow> failure_kind st' \<noteq> None \<and> termination_deadline st' = Some t"
proof -
  have "serve_streams w p r st (now_at r) = Inr (st', stop)"
    using assms(1,2) by (auto simp: probe_round_def check_storage_def scan_due_def andThen_Inr)
  from serve_streams_facts(3,4) [OF this] assms(2,3)
  show "stop \<longleftrightarrow> t \<le> now_at r" and "\<not> stop \<Longrightarrow> failure_kind st' \<noteq> None \<and> termination_deadline st' = Some t" by blast+
qed

text \<open>Every scan of the loop returns.\<close>

definition loop_scans_return :: "loop_world \<Rightarrow> bool" where
  "loop_scans_return w \<longleftrightarrow> (\<forall>n. writable_tree_scan (round_scan (rounds w n)) \<noteq> None)"

lemma round_returns: "loop_scans_return w \<Longrightarrow> probe_round w p (rounds w n) st \<noteq> None"
  unfolding probe_round_def check_storage_def timed_writable_check_def loop_scans_return_def
  by (intro andThen_total) (auto simp: Let_def andThen_total simp del: not_None_eq split: prod.splits)

lemma round_outcome:
  assumes "loop_scans_return w"
  obtains "open_streams st = []" | e where "probe_round w p (rounds w n) st = Some (Inl e)"
    | st' stop where "open_streams st \<noteq> []" "probe_round w p (rounds w n) st = Some (Inr (st', stop))"
  using round_returns [OF assms, of p n st] by (metis not_None_eq old.sum.exhaust surj_pair)

lemma loop_ends_ending:
  assumes "loop_scans_return w" and "failure_kind st \<noteq> None" and "termination_deadline st = Some t"
    and "\<forall>n \<ge> n0. t \<le> now_at (rounds w n)"
  shows "probe_loop w p n st \<noteq> None"
  using assms(2,3)
proof (induction "n0 - n" arbitrary: n st rule: less_induct)
  case less
  show ?case
  proof (rule round_outcome [OF assms(1), where st = st and p = p and n = n])
    fix st' stop assume r: "open_streams st \<noteq> []" "probe_round w p (rounds w n) st = Some (Inr (st', stop))"
    note e = round_ending [OF r(2) less.prems]
    show ?thesis
    proof (cases stop)
      case False
      then have "n < n0" using e(1) assms(4) by (meson not_less)
      then have "probe_loop w p (n + 1) st' \<noteq> None" using less.hyps [of "n + 1" st'] e(2) False by auto
      then show ?thesis using probe_loop_step [OF r] False by simp
    qed (simp add: probe_loop_step [OF r])
  qed (auto simp: probe_loop.simps [of w p n st])
qed

text \<open>A probe that runs: the deadline moves by the time of the scans only, and after it the round fails.\<close>

lemma loop_ends_running:
  assumes "clock_advances w" and "loop_scans_return w" and "\<forall>n \<ge> n0. d \<le> now_at (rounds w n) - suspended w n"
    and "failure_ok st" and "failure_kind st = None" and "deadline st \<le> d + suspended w n"
  shows "probe_loop w p n st \<noteq> None"
  using assms(4-)
proof (induction "n0 - n" arbitrary: n st rule: less_induct)
  case less
  have clocks: "now_at (rounds w n) \<le> scan_started (rounds w n)" "scan_started (rounds w n) \<le> scan_finished (rounds w n)"
    using assms(1) by (auto simp: clock_advances_def)
  show ?case
  proof (rule round_outcome [OF assms(2), where st = st and p = p and n = n])
    fix st' stop assume r: "open_streams st \<noteq> []" "probe_round w p (rounds w n) st = Some (Inr (st', stop))"
    note e = round_facts [OF r(2)]
    have ok: "failure_ok st'" by (rule failure.round [OF r(2) less.prems(1)])
    have "stop \<or> probe_loop w p (n + 1) st' \<noteq> None"
    proof (cases "failure_kind st' = None")
      case True
      then have "time_used (rounds w n) st < deadline st" using e(3) by (meson not_less)
      then have "now_at (rounds w n) - suspended w n < d"
        using less.prems(3) clocks by (auto simp: time_used_def split: if_splits)
      then have "n < n0" using assms(3) by (meson leD not_less)
      moreover have "deadline st' \<le> d + suspended w (n + 1)"
        using e(1) clocks less.prems(3) by (auto simp: suspended_Suc scan_time_def split: if_splits)
      ultimately show ?thesis using less.hyps [of "n + 1" st'] ok True by auto
    next
      case False
      with ok obtain t where t: "termination_deadline st' = Some t" by (auto simp: failure_ok_def)
      obtain n1 where "\<forall>n \<ge> n1. t \<le> now_at (rounds w n)" using clock_passes [OF assms(1)] by blast
      from loop_ends_ending [OF assms(2) False t this] show ?thesis by blast
    qed
    then show ?thesis by (cases stop) (simp_all add: probe_loop_step [OF r])
  qed (auto simp: probe_loop.simps [of w p n st])
qed

lemma start_ok: "capture_ok (start_state t t')" "failure_ok (start_state t t')"
  by (simp_all add: start_state_def capture_ok_def failure_ok_def)

lemma probe_loop_returns:
  assumes "clock_advances w" and "loop_scans_return w"
  shows "probe_loop w p 0 (start_state t t') \<noteq> None"
proof -
  obtain n0 where "\<forall>n \<ge> n0. t + TIMEOUT_SECONDS \<le> now_at (rounds w n) - suspended w n"
    using assms unfolding clock_advances_def by blast
  from loop_ends_running [OF assms this start_ok(2)] show ?thesis
    by (simp add: start_state_def suspended_def)
qed

section \<open>The rounds of the loop\<close>

text \<open>Round \<open>n\<close> starts in \<open>st\<close>, after scans that took the time \<open>t\<close> together.\<close>

inductive reaches :: "loop_world \<Rightarrow> string \<Rightarrow> probe_state \<Rightarrow> nat \<Rightarrow> rat \<Rightarrow> probe_state \<Rightarrow> bool" for w probe_id st0 where
  first: "reaches w probe_id st0 0 0 st0"
| again: "reaches w probe_id st0 n t st \<Longrightarrow> open_streams st \<noteq> [] \<Longrightarrow>
    probe_round w probe_id (rounds w n) st = Some (Inr (st', False)) \<Longrightarrow>
    reaches w probe_id st0 (n + 1) (t + scan_time (rounds w n) st) st'"

text \<open>What every round finds: what the invariants say, and the deadline moved by the scans only.\<close>

lemma reaches_facts:
  assumes "reaches w probe_id st0 n t st" and "capture_ok st0" and "failure_ok st0"
  shows "capture_ok st" and "failure_ok st" and "deadline st = deadline st0 + t" and "0 \<le> t"
    and "probe_loop w probe_id 0 st0 = probe_loop w probe_id n st"
  using assms
proof (induction rule: reaches.induct)
  case (again n t st st')
  { case 1 then show ?case using again.IH(1) capture.round [OF again.hyps(3)] by blast }
  { case 2 then show ?case using again.IH(2) failure.round [OF again.hyps(3)] by blast }
  { case 3 then show ?case using again.IH(3) round_facts(1) [OF again.hyps(3)] by simp }
  { case 4 then show ?case using again.IH(4) round_facts(2) [OF again.hyps(3)] by simp }
  { case 5 then show ?case using again.IH(5) probe_loop_step [OF again.hyps(2,3)] by simp }
qed simp_all

lemma loop_round:
  assumes "probe_loop w p n st = Some (Inr final)" and "open_streams st \<noteq> []"
  obtains st' stop where "probe_round w p (rounds w n) st = Some (Inr (st', stop))"
    "failure_kind st' \<noteq> None \<Longrightarrow> failure_kind final \<noteq> None"
proof -
  obtain q where q: "probe_round w p (rounds w n) st = Some (Inr q)"
    "(if snd q then Some (Inr (fst q)) else probe_loop w p (n + 1) (fst q)) = Some (Inr final)"
    using assms by (subst (asm) probe_loop.simps) (auto split: option.splits sum.splits)
  have "failure_kind (fst q) \<noteq> None \<Longrightarrow> failure_kind final \<noteq> None"
    using q(2) failed.loop by (auto simp del: not_None_eq split: if_splits)
  with q(1) that [of "fst q" "snd q"] show ?thesis by simp
qed

text \<open>
  The rounds of a loop that has ended: a round whose time is used up, or whose due scan was not within
  the limits, makes the probe fail.
\<close>

lemma loop_rounds:
  assumes "probe_loop w probe_id 0 st0 = Some (Inr st)" and "capture_ok st0" and "failure_ok st0"
    and "reaches w probe_id st0 n t r" and "open_streams r \<noteq> []"
  shows "deadline st0 + t \<le> time_used (rounds w n) r \<Longrightarrow> failure_kind st \<noteq> None"
    and "scan_due (rounds w n) r \<Longrightarrow> writable_tree_scan (round_scan (rounds w n)) \<noteq> Some (Inr True) \<Longrightarrow> failure_kind st \<noteq> None"
proof -
  note f = reaches_facts [OF assms(4,2,3)]
  have "probe_loop w probe_id n r = Some (Inr st)" using f(5) assms(1) by simp
  from loop_round [OF this assms(5)] obtain st' stop where
    q: "probe_round w probe_id (rounds w n) r = Some (Inr (st', stop))" "failure_kind st' \<noteq> None \<Longrightarrow> failure_kind st \<noteq> None" by blast
  show "deadline st0 + t \<le> time_used (rounds w n) r \<Longrightarrow> failure_kind st \<noteq> None"
    using round_facts(3) [OF q(1)] q(2) f(3) by simp
  show "scan_due (rounds w n) r \<Longrightarrow> writable_tree_scan (round_scan (rounds w n)) \<noteq> Some (Inr True) \<Longrightarrow> failure_kind st \<noteq> None"
    using round_facts(4) [OF q(1)] q(2) by blast
qed

text \<open>A loop that ends without a failure: both streams ended, in time, and every scan was within the limits.\<close>

definition loop_green :: "loop_world \<Rightarrow> string \<Rightarrow> probe_state \<Rightarrow> bool" where
  "loop_green w probe_id st0 \<longleftrightarrow> (\<forall>n t r. reaches w probe_id st0 n t r \<longrightarrow> open_streams r \<noteq> [] \<longrightarrow>
     time_used (rounds w n) r < deadline st0 + t \<and>
     (scan_due (rounds w n) r \<longrightarrow> writable_tree_scan (round_scan (rounds w n)) = Some (Inr True)))"

lemma loop_green:
  assumes "probe_loop w probe_id 0 st0 = Some (Inr st)" and "capture_ok st0" and "failure_ok st0" and "failure_kind st = None"
  shows "loop_green w probe_id st0"
  unfolding loop_green_def using loop_rounds [OF assms(1-3)] assms(4) not_less by blast

section \<open>After the loop\<close>

definition kind_ok :: "probe_state \<Rightarrow> bool" where
  "kind_ok st \<longleftrightarrow> failure_kind st \<in> {None, Some ''tool_error'', Some ''timeout''}"

text \<open>What a step after the loop keeps, and that it only adds failures.\<close>

definition only_fails :: "probe_state \<Rightarrow> probe_state \<Rightarrow> bool" where
  "only_fails st st' \<longleftrightarrow> (kind_ok st \<longrightarrow> kind_ok st') \<and> captured st' = captured st \<and> truncated st' = truncated st \<and>
     (failure_kind st' = None \<longrightarrow> failure_kind st = None)"

lemma only_fails_refl [simp]: "only_fails st st"
  by (simp add: only_fails_def)

lemma only_fails_trans: "only_fails st st' \<Longrightarrow> only_fails st' st'' \<Longrightarrow> only_fails st st''"
  by (simp add: only_fails_def)

lemma or_failure_fails [simp]:
  "k \<in> {''tool_error'', ''timeout''} \<Longrightarrow> only_fails st (or_failure k st)" "failure_kind (or_failure k st) \<noteq> None"
  by (auto simp: or_failure_def only_fails_def kind_ok_def)

lemma or_failure_kill_Inr:
  assumes "or_failure_kill w k st = Inr st'" and "k \<in> {''tool_error'', ''timeout''}"
  shows "only_fails st st' \<and> failure_kind st' \<noteq> None"
proof -
  have st': "st' = or_failure k (st\<lparr>kills := kills st + 1\<rparr>)"
    using assms(1) by (auto simp: or_failure_kill_def bindE_eq_Inr)
  have "only_fails st (st\<lparr>kills := kills st + 1\<rparr>)" by (simp add: only_fails_def kind_ok_def)
  from only_fails_trans [OF this or_failure_fails(1) [OF assms(2)]] show ?thesis by (simp add: st')
qed

lemma wait_for_exit_Inr:
  assumes "wait_for_exit w st = Inr (st1, code)"
  shows "only_fails st st1" and "failure_kind st1 = None \<Longrightarrow> code \<noteq> None"
    and "code \<in> {polled_after w, waited w, waited_after_kill w}"
proof -
  have "only_fails st st1 \<and> (failure_kind st1 = None \<longrightarrow> code \<noteq> None) \<and>
      code \<in> {polled_after w, waited w, waited_after_kill w}"
  proof (cases "polled_after w = None \<and> waited w = None")
    case True
    with assms have "or_failure_kill w ''timeout'' st = Inr st1" "code = waited_after_kill w"
      by (auto simp: wait_for_exit_def bindE_eq_Inr)
    with or_failure_kill_Inr [OF this(1)] show ?thesis by blast
  next
    case False
    then obtain c where c: "polled_after w = Some c \<or> polled_after w = None \<and> waited w = Some c"
      by (cases "polled_after w"; cases "waited w") auto
    then have "wait_for_exit w st = Inr (st, Some c)" by (auto simp: wait_for_exit_def)
    with assms have "st1 = st" "code = Some c" by simp_all
    with c show ?thesis by auto
  qed
  then show "only_fails st st1" and "failure_kind st1 = None \<Longrightarrow> code \<noteq> None"
    and "code \<in> {polled_after w, waited w, waited_after_kill w}" by blast+
qed

lemma mark_fails: "only_fails t (mark b t) \<and> (failure_kind (mark b t) = None \<longrightarrow> \<not> b)"
  by (cases b) (simp_all add: mark_def)

lemma check_members_Inr:
  assumes "check_members w st = Some (Inr st')"
  shows "only_fails st st'" and "failure_kind st' = None \<Longrightarrow> descendant_pids (own_process w) (table_after w) = [] \<and>
       cgroup_lists w 1 = Inr [] \<and> cgroup_lists w 2 = Inr []"
proof -
  let ?leak = "\<lambda>members. descendant_pids (own_process w) (table_after w) \<noteq> [] \<or> members \<noteq> []"
  from assms obtain m st1 m' where s: "cgroup_lists w 1 = Inr m" "cgroup_lists w 2 = Inr m'"
    "(if ?leak m then or_failure_kill w ''tool_error'' st else Inr st) = Inr st1" "st' = mark (m' \<noteq> []) st1"
    unfolding check_members_def andThen_Inr bindE_eq_Inr option.inject by blast
  have 1: "only_fails st st1 \<and> (failure_kind st1 = None \<longrightarrow> \<not> ?leak m)"
  proof (cases "?leak m")
    case True
    with s(3) have "or_failure_kill w ''tool_error'' st = Inr st1" by simp
    from or_failure_kill_Inr [OF this] show ?thesis by blast
  next
    case False
    with s(3) show ?thesis by simp
  qed
  note marks = mark_fails [of st1 "m' \<noteq> []"]
  show "only_fails st st'" unfolding s(4) using 1 marks only_fails_trans by blast
  assume "failure_kind st' = None"
  then have "m' = [] \<and> failure_kind st1 = None" using marks unfolding s(4) only_fails_def by blast
  then show "descendant_pids (own_process w) (table_after w) = [] \<and> cgroup_lists w 1 = Inr [] \<and> cgroup_lists w 2 = Inr []"
    using 1 s(1,2) by blast
qed

lemma check_leaks_Inr:
  assumes "check_leaks w st = Some (Inr st')"
  shows "only_fails st st'" and "failure_kind st' = None \<Longrightarrow> descendant_pids (own_process w) (table_after w) = [] \<and>
       cgroup_lists w 1 = Inr [] \<and> cgroup_lists w 2 = Inr [] \<and> writable_tree_scan (scans w 1) = Some (Inr True)"
proof -
  from assms obtain st1 b where s: "check_members w st = Some (Inr st1)" "writable_tree_scan (scans w 1) = Some (Inr b)"
    "st' = mark (\<not> b) st1" by (auto simp: check_leaks_def andThen_Inr)
  note m = check_members_Inr [OF s(1)] and b = mark_fails [of st1 "\<not> b"]
  show "only_fails st st'" unfolding s(3) using m(1) b only_fails_trans by blast
  assume "failure_kind st' = None"
  then have "b \<and> failure_kind st1 = None" using b unfolding s(3) only_fails_def by blast
  then show "descendant_pids (own_process w) (table_after w) = [] \<and>
       cgroup_lists w 1 = Inr [] \<and> cgroup_lists w 2 = Inr [] \<and> writable_tree_scan (scans w 1) = Some (Inr True)"
    using m(2) s(2) by simp
qed

text \<open>What the result of a probe looks like, whichever way the probe ended.\<close>

definition result_shape :: "(bytes \<Rightarrow> bytes) \<Rightarrow> string \<Rightarrow> probe_result \<Rightarrow> bool" where
  "result_shape h probe_id r \<longleftrightarrow> pr_probe_id r = probe_id \<and>
     (if pr_ok r then pr_failure_kind r = None \<and> pr_exit_code r = Some 0
      else pr_failure_kind r = Some ''exit_nonzero'' \<and> pr_exit_code r \<notin> {None, Some 0} \<or>
           pr_failure_kind r \<in> {Some ''timeout'', Some ''tool_error''} \<and> pr_exit_code r = None) \<and>
     (\<exists>out. pr_stdout_sha256 r = sha256_ref h out \<and> pr_stdout_bytes r = length out) \<and>
     (\<exists>err. pr_stderr_sha256 r = sha256_ref h err \<and> pr_stderr_bytes r = length err) \<and>
     pr_diagnostic_class r \<in> {None, Some ''harness_precheck''} \<union> Some ` set DIAGNOSTIC_CLASSES"

lemma failure_result_shape: "result_shape h p (probe_failure_result h p ''tool_error'' d)"
  by (auto simp: result_shape_def probe_failure_result_def bytes_ref_def Let_def)

lemma probe_report_Inr:
  assumes "probe_report h w p a st code = Inr r" and "kind_ok st" and "failure_kind st = None \<longrightarrow> code \<noteq> None"
  shows "result_shape h p r \<and> pr_exit_code r \<in> {None, code} \<and>
    (pr_ok r \<longrightarrow> failure_kind st = None \<and> pr_stdout_truncated r = truncated st Stdout \<and> pr_stderr_truncated r = truncated st Stderr)"
proof -
  let ?ok = "failure_kind st = None \<and> code = Some 0"
  let ?kind = "if ?ok then None else if failure_kind st = None then Some ''exit_nonzero'' else failure_kind st"
  from assms(1) obtain out err where r: "r = \<lparr>pr_probe_id = p, pr_ok = ?ok,
      pr_exit_code = (if ?kind = Some ''exit_nonzero'' \<or> ?ok then code else None), pr_failure_kind = ?kind,
      pr_stdout_sha256 = bytes_ref h out, pr_stderr_sha256 = bytes_ref h err,
      pr_stdout_bytes = length out, pr_stderr_bytes = length err,
      pr_stdout_truncated = truncated st Stdout, pr_stderr_truncated = truncated st Stderr,
      pr_diagnostic_class = (if p = ''rust_all'' \<and> \<not> ?ok
        then Some (classify_rust_failure (lower_text w) (stderr_sample st)) else None)\<rparr>"
    by (auto simp: probe_report_def Let_def bindE_eq_Inr)
  have "pr_diagnostic_class r \<in> {None, Some ''harness_precheck''} \<union> Some ` set DIAGNOSTIC_CLASSES"
    using classify_closed by (simp add: r)
  moreover have "if ?ok then ?kind = None \<and> code = Some 0
      else ?kind = Some ''exit_nonzero'' \<and> code \<notin> {None, Some 0} \<or> ?kind \<in> {Some ''timeout'', Some ''tool_error''} \<and> ?kind \<noteq> Some ''exit_nonzero''"
    using assms(2,3) by (auto simp: kind_ok_def)
  ultimately show ?thesis by (auto simp: r result_shape_def bytes_ref_def split: if_splits)
qed

lemma early_Inr:
  "early h p bad d rest = Some (Inr r) \<longleftrightarrow>
     (if bad then r = probe_failure_result h p ''tool_error'' d else rest = Some (Inr r))"
  by (auto simp: early_def)

lemma early_None: "early h p bad d rest = None \<longleftrightarrow> \<not> bad \<and> rest = None"
  by (simp add: early_def)

lemma early_total: "rest \<noteq> None \<Longrightarrow> early h p bad d rest \<noteq> None"
  by (simp add: early_None)

lemma case_prod_total: "(\<And>x y. f x y \<noteq> None) \<Longrightarrow> case_prod f s \<noteq> None"
  by (cases s) simp

text \<open>A result after the loop, with what holds when it is green.\<close>

definition green_after :: "probe_world \<Rightarrow> string \<Rightarrow> probe_state \<Rightarrow> probe_result \<Rightarrow> bool" where
  "green_after w p st r \<longleftrightarrow> snd (tree_clean w) = Inr True \<and> trusted_executable_matches (pinned_for w p) (fstats w 2) \<and>
     (p = ''rust_all'' \<longrightarrow> trusted_executable_matches (pinned_rustc w) (fstats w 3)) \<and>
     descendant_pids (own_process w) (table_after w) = [] \<and> cgroup_lists w 1 = Inr [] \<and> cgroup_lists w 2 = Inr [] \<and>
     writable_tree_scan (scans w 1) = Some (Inr True) \<and> failure_kind st = None \<and>
     pr_stdout_truncated r = truncated st Stdout \<and> pr_stderr_truncated r = truncated st Stderr"

lemma after_loop_Inr:
  assumes "after_loop h w p a st = Some (Inr r)" and "kind_ok st"
  shows "result_shape h p r \<and> pr_exit_code r \<in> {None, polled_after w, waited w, waited_after_kill w} \<and>
    (pr_ok r \<longrightarrow> green_after w p st r)"
proof -
  from assms(1) obtain st1 st2 code clean where
    s: "wait_for_exit w st = Inr (st1, code)" "check_leaks w st1 = Some (Inr st2)" "snd (tree_clean w) = Inr clean"
    and e: "early h p (\<not> clean) (map of_char ''tracked_tree_or_index_flags_dirty_after_probe'')
          (early h p (\<not> trusted_executable_matches (pinned_for w p) (fstats w 2))
             (map of_char ''trusted_executable_fd_invalid_after_probe'')
          (early h p (p = ''rust_all'' \<and> \<not> trusted_executable_matches (pinned_rustc w) (fstats w 3))
             (map of_char ''trusted_rustc_fd_invalid_after_probe'')
          (Some (probe_report h w p a st2 code)))) = Some (Inr r)"
    by (auto simp: after_loop_def andThen_Inr)
  note w = wait_for_exit_Inr [OF s(1)] and l = check_leaks_Inr [OF s(2)]
  have kind: "kind_ok st2" and none: "failure_kind st2 = None \<longrightarrow> failure_kind st = None \<and> code \<noteq> None"
    and tr: "truncated st2 = truncated st"
    using w(1,2) l(1) assms(2) by (simp_all add: only_fails_def)
  show ?thesis
  proof (cases "clean \<and> trusted_executable_matches (pinned_for w p) (fstats w 2) \<and>
      \<not> (p = ''rust_all'' \<and> \<not> trusted_executable_matches (pinned_rustc w) (fstats w 3))")
    case True
    with e have "probe_report h w p a st2 code = Inr r" by (simp add: early_Inr)
    from probe_report_Inr [OF this kind] none have rep: "result_shape h p r" "pr_exit_code r \<in> {None, code}"
      "pr_ok r \<longrightarrow> failure_kind st2 = None \<and> pr_stdout_truncated r = truncated st2 Stdout \<and>
         pr_stderr_truncated r = truncated st2 Stderr" by blast+
    have "green_after w p st r" if "pr_ok r"
      using rep(3) that none l(2) True tr s(3) unfolding green_after_def by metis
    with rep(1,2) w(3) show ?thesis by blast
  next
    case False
    with e have "\<exists>d. r = probe_failure_result h p ''tool_error'' d" by (auto simp: early_Inr split: if_splits)
    then show ?thesis using failure_result_shape by auto
  qed
qed

text \<open>A result of the whole probe.\<close>

definition green_before :: "probe_world \<Rightarrow> string \<Rightarrow> bool" where
  "green_before w p \<longleftrightarrow> fst (tree_clean w) = Inr True \<and> 3 \<le> landlock_version w \<and> seccomp_supported w \<and>
     (p = ''rust_all'' \<longrightarrow> validate_rust_target_topology (topology_source w) = Inr ()) \<and>
     cgroup_lists w 0 = Inr [] \<and> trusted_executable_matches (pinned_for w p) (fstats w 0) \<and>
     (p = ''rust_all'' \<longrightarrow> trusted_executable_matches (pinned_rustc w) (fstats w 1)) \<and>
     writable_tree_scan (scans w 0) = Some (Inr True)"

text \<open>What holds of the start and of the loop of a green probe.\<close>

definition green_run :: "probe_world \<Rightarrow> string \<Rightarrow> probe_paths \<Rightarrow> probe_state \<Rightarrow> bool" where
  "green_run w p a st \<longleftrightarrow> preexec_built w = Inr () \<and>
     popen_error w (probe_command (path_exists w) (plain_file_at w) p a) = None \<and>
     probe_loop (in_loop w) p 0 (start_state (fst (clocks w)) (snd (clocks w))) = Some (Inr st)"

lemma start_probe_Inr:
  assumes "start_probe h w p a = Some (Inr r)"
  shows "result_shape h p r \<and> pr_exit_code r \<in> {None, polled_after w, waited w, waited_after_kill w} \<and>
    (pr_ok r \<longrightarrow> (\<exists>st. green_run w p a st \<and> green_after w p st r))"
proof (cases "popen_error w (probe_command (path_exists w) (plain_file_at w) p a)")
  case None
  with assms obtain st where
    st: "probe_loop (in_loop w) p 0 (start_state (fst (clocks w)) (snd (clocks w))) = Some (Inr st)"
    "after_loop h w p a st = Some (Inr r)" "preexec_built w = Inr ()"
    by (auto simp: start_probe_def split: sum.splits option.splits)
  have "failure_ok st" by (rule failure.loop [OF st(1) start_ok(2)])
  then have "kind_ok st" unfolding failure_ok_def kind_ok_def by blast
  from after_loop_Inr [OF st(2) this] st(1,3) None show ?thesis unfolding green_run_def by auto
next
  case (Some m)
  with assms have "r = probe_failure_result h p ''tool_error'' m"
    by (auto simp: start_probe_def split: sum.splits)
  then show ?thesis by (simp add: failure_result_shape)
qed

lemma check_topology_Inr:
  "check_topology h w p rest = Some (Inr r) \<longleftrightarrow>
     (\<exists>e. p = ''rust_all'' \<and> validate_rust_target_topology (topology_source w) = Inl e \<and> is_exit e \<and>
        r = probe_failure_result h p ''tool_error'' (exn_text e)) \<or>
     (p = ''rust_all'' \<longrightarrow> validate_rust_target_topology (topology_source w) = Inr ()) \<and> rest = Some (Inr r)"
  by (cases "validate_rust_target_topology (topology_source w)") (auto simp: check_topology_def)

lemma run_probe_Inr:
  assumes "run_probe h w p a = Some (Inr r)"
  shows "result_shape h p r \<and> pr_exit_code r \<in> {None, polled_after w, waited w, waited_after_kill w} \<and>
    (pr_ok r \<longrightarrow> green_before w p \<and> (\<exists>st. green_run w p a st \<and> green_after w p st r))"
proof (cases "\<exists>d. r = probe_failure_result h p ''tool_error'' d")
  case True
  then show ?thesis using failure_result_shape by auto
next
  case False
  with assms have "start_probe h w p a = Some (Inr r) \<and> green_before w p"
    by (auto simp: run_probe_def andThen_Inr early_Inr check_topology_Inr bindE_eq_Inr not_less green_before_def split: if_splits)
  with start_probe_Inr [of h w p a r] show ?thesis by blast
qed

section \<open>Properties\<close>

text \<open>C24: A green result means that every check was made and held: the tree was clean before and after, Landlock and
  the system call filter were there, the Cargo surface was the frozen one, the cgroup was empty before and
  after, no descendant was left, the pinned executable, and for the Rust probe the pinned rustc as well,
  were unchanged before and after, the writable trees were within their limits before, after, and in every
  round in which a storage check was due, no round used up the time, no output was cut off and the exit
  code is 0.\<close>

theorem run_probe_green:
  assumes "run_probe h w probe_id a = Some (Inr r)" and "pr_ok r"
  shows "tree_clean w = (Inr True, Inr True) \<and> 3 \<le> landlock_version w \<and> seccomp_supported w \<and>
    (probe_id = ''rust_all'' \<longrightarrow> validate_rust_target_topology (topology_source w) = Inr ()) \<and>
    cgroup_lists w 0 = Inr [] \<and> cgroup_lists w 1 = Inr [] \<and> cgroup_lists w 2 = Inr [] \<and>
    descendant_pids (own_process w) (table_after w) = [] \<and>
    trusted_executable_matches (pinned_for w probe_id) (fstats w 0) \<and>
    trusted_executable_matches (pinned_for w probe_id) (fstats w 2) \<and>
    (probe_id = ''rust_all'' \<longrightarrow> trusted_executable_matches (pinned_rustc w) (fstats w 1) \<and>
       trusted_executable_matches (pinned_rustc w) (fstats w 3)) \<and>
    writable_tree_scan (scans w 0) = Some (Inr True) \<and> writable_tree_scan (scans w 1) = Some (Inr True) \<and>
    preexec_built w = Inr () \<and> popen_error w (probe_command (path_exists w) (plain_file_at w) probe_id a) = None \<and>
    loop_green (in_loop w) probe_id (start_state (fst (clocks w)) (snd (clocks w))) \<and>
    pr_exit_code r = Some 0 \<and> \<not> pr_stdout_truncated r \<and> \<not> pr_stderr_truncated r"
proof -
  from run_probe_Inr [OF assms(1)] assms(2) obtain st where
    g: "result_shape h probe_id r" "green_before w probe_id" "green_run w probe_id a st" "green_after w probe_id st r" by blast
  have l: "probe_loop (in_loop w) probe_id 0 (start_state (fst (clocks w)) (snd (clocks w))) = Some (Inr st)"
    "failure_kind st = None" using g(3,4) by (simp_all add: green_run_def green_after_def)
  have "tree_clean w = (Inr True, Inr True)" using g(2,4) by (cases "tree_clean w") (simp add: green_before_def green_after_def)
  moreover have "pr_exit_code r = Some 0" using g(1) assms(2) by (simp add: result_shape_def)
  moreover have "\<not> pr_stdout_truncated r \<and> \<not> pr_stderr_truncated r"
    using g(4) failure.loop [OF l(1) start_ok(2)] unfolding green_after_def failure_ok_def by metis
  moreover have "loop_green (in_loop w) probe_id (start_state (fst (clocks w)) (snd (clocks w)))"
    by (rule loop_green [OF l(1) start_ok l(2)])
  ultimately show ?thesis using g(2,3,4) unfolding green_before_def green_run_def green_after_def by blast
qed

text \<open>C25: Every result a probe returns has one of three shapes: green with exit code 0, a failure by exit with
  a nonzero code, or a timeout or tool error without exit code; the digests are those of contents of
  the recorded lengths and the diagnostic class is one of the closed list.\<close>

theorem run_probe_shape:
  assumes "run_probe h w probe_id a = Some (Inr r)"
  shows "result_shape h probe_id r"
  using run_probe_Inr [OF assms] by blast

text \<open>C26: The loop of a probe keeps its invariant, in every round and at the end: what is captured is what was
  hashed and at most 1 MiB of each stream, the diagnostic sample has at most 64 KiB, the counts are the
  lengths, a truncated stream is filled to the limit and makes the probe fail, and a failing probe has a
  deadline for its end. In every round the deadline is the time limit from the start on, moved by exactly
  the time that the storage scans have taken; and a round that finds this time used up makes the probe
  fail, as does one whose storage scan is due and does not report that the trees are within the limits.\<close>

theorem probe_loop_invariant:
  assumes "probe_loop w probe_id 0 (start_state now now') = Some (Inr st)"
  shows "capture_ok st \<and> failure_ok st \<and>
    (\<forall>n t r. reaches w probe_id (start_state now now') n t r \<longrightarrow>
       capture_ok r \<and> failure_ok r \<and> 0 \<le> t \<and> deadline r = now + TIMEOUT_SECONDS + t \<and>
       (open_streams r \<noteq> [] \<longrightarrow>
         (now + TIMEOUT_SECONDS + t \<le> time_used (rounds w n) r \<longrightarrow> failure_kind st \<noteq> None) \<and>
         (scan_due (rounds w n) r \<and> writable_tree_scan (round_scan (rounds w n)) \<noteq> Some (Inr True) \<longrightarrow>
            failure_kind st \<noteq> None)))"
proof -
  have d: "deadline (start_state now now') = now + TIMEOUT_SECONDS" by (simp add: start_state_def)
  have "capture_ok st \<and> failure_ok st"
    using capture.loop [OF assms start_ok(1)] failure.loop [OF assms start_ok(2)] by blast
  moreover have "capture_ok r \<and> failure_ok r \<and> 0 \<le> t \<and> deadline r = now + TIMEOUT_SECONDS + t"
    if "reaches w probe_id (start_state now now') n t r" for n t r
    using reaches_facts(1-4) [OF that start_ok] d by simp
  ultimately show ?thesis using loop_rounds [OF assms start_ok] unfolding d by blast
qed

text \<open>Every scan of a probe returns.\<close>

definition probe_scans_return :: "probe_world \<Rightarrow> bool" where
  "probe_scans_return w \<longleftrightarrow> loop_scans_return (in_loop w) \<and> writable_tree_scan (scans w 0) \<noteq> None \<and>
     writable_tree_scan (scans w 1) \<noteq> None"

lemma run_probe_total:
  assumes "clock_advances (in_loop w)" and "probe_scans_return w" and "reap_adopted_children (reaped w) \<noteq> None"
  shows "run_probe h w probe_id a \<noteq> None"
proof -
  have scans: "loop_scans_return (in_loop w)" "writable_tree_scan (scans w 0) \<noteq> None" "writable_tree_scan (scans w 1) \<noteq> None"
    using assms(2) by (simp_all add: probe_scans_return_def)
  have loop: "\<exists>y. probe_loop (in_loop w) probe_id 0 (start_state t t') = Some y" for t t'
    using probe_loop_returns [OF assms(1) scans(1)] by blast
  have "map_option Inr (reap_adopted_children (reaped w)) \<noteq> None" using assms(3) by simp
  then have members: "check_members w st \<noteq> None" for st
    unfolding check_members_def by (intro andThen_total) simp_all
  have leaks: "check_leaks w st \<noteq> None" for st
    unfolding check_leaks_def using scans(3) members by (intro andThen_total) (simp_all del: not_None_eq)
  have after: "after_loop h w probe_id a st \<noteq> None" for st
    unfolding after_loop_def
    by (intro andThen_total case_prod_total early_total leaks) simp_all
  have start: "start_probe h w probe_id a \<noteq> None"
    using loop [of "fst (clocks w)" "snd (clocks w)"] after
    by (auto simp: start_probe_def split: sum.splits option.splits)
  have topology: "check_topology h w probe_id m \<noteq> None" if "m \<noteq> None" for m
    using that by (auto simp: check_topology_def simp del: not_None_eq split: sum.splits)
  show ?thesis unfolding run_probe_def
    by (intro andThen_total early_total topology start scans(2)) simp_all
qed

text \<open>During every scan the clock passes every bound and the list of processes stops changing.\<close>

definition probe_scans_settle :: "probe_world \<Rightarrow> bool" where
  "probe_scans_settle w \<longleftrightarrow> (\<forall>n. scan_settles (round_scan (rounds (in_loop w) n))) \<and> scan_settles (scans w 0) \<and> scan_settles (scans w 1)"

lemma probe_scans: "probe_scans_settle w \<Longrightarrow> probe_scans_return w"
  unfolding probe_scans_settle_def probe_scans_return_def loop_scans_return_def using writable_tree_scan_returns by blast

text \<open>A probe always returns when the clock moves on, its storage scans settle and the reaping of children
  comes to an end, whatever the process does: with the time of the scans not counted the clock passes the
  deadline, and then the drain time.\<close>

theorem run_probe_returns:
  assumes "clock_advances (in_loop w)" and "probe_scans_settle w" and "reap_adopted_children (reaped w) \<noteq> None"
  shows "\<exists>result. run_probe h w probe_id a = Some result"
  using run_probe_total [OF assms(1) probe_scans [OF assms(2)] assms(3)] by blast

text \<open>The harness can register a failure of a probe exactly if the normalised output fits the recorded
  limits: every failed result of a fixed probe whose exit codes are 32-bit becomes a valid
  counterexample of the attack, unless normalisation made its output longer than 1 MiB.\<close>

theorem failed_probe_registered:
  assumes "nfc_ascii nfc" and "digest32 h" and "validate_attack_corpus corpus = Inr attacks" and "attack \<in> set attacks"
    and "rx_match TARGET_RE target" and "probe_id \<in> set PROBES"
    and "\<forall>c. Some c \<in> {polled_after w, waited w, waited_after_kill w} \<longrightarrow> - (2 ^ 31) \<le> c \<and> c \<le> 2 ^ 31 - 1"
    and "run_probe h w probe_id a = Some (Inr r)" and "\<not> pr_ok r"
  shows "(\<exists>item. generated_counterexample h nfc target attack r = Inr item) \<longleftrightarrow>
    pr_stdout_bytes r \<le> MAX_PROBE_OUTPUT_BYTES \<and> pr_stderr_bytes r \<le> MAX_PROBE_OUTPUT_BYTES"
proof -
  have attack: "attack_ok attack" by (rule corpus_attack_ok [OF assms(3,4)])
  note r = run_probe_Inr [OF assms(8)]
  have sha: "rx_match SHA256_REF (sha256_ref h b)" for b
    using sha256_ref_is_ref [OF assms(2)] by (simp add: is_sha256_ref_def)
  have shape: "pr_probe_id r = probe_id" "rx_match SHA256_REF (pr_stdout_sha256 r)" "rx_match SHA256_REF (pr_stderr_sha256 r)"
    "pr_failure_kind r = Some ''exit_nonzero'' \<and> pr_exit_code r \<notin> {None, Some 0} \<or>
       pr_failure_kind r \<in> {Some ''timeout'', Some ''tool_error''} \<and> pr_exit_code r = None"
    using r assms(9) sha by (auto simp: result_shape_def)
  have code: "- (2 ^ 31) \<le> c \<and> c \<le> 2 ^ 31 - 1" if "pr_exit_code r = Some c" for c
    using r that assms(7) by auto
  have "result_ok r \<longleftrightarrow> pr_stdout_bytes r \<le> MAX_PROBE_OUTPUT_BYTES \<and> pr_stderr_bytes r \<le> MAX_PROBE_OUTPUT_BYTES"
    using shape code assms(6) unfolding result_ok_def by (cases "pr_exit_code r") auto
  with generated_iff [OF assms(1,2) attack assms(5)] show ?thesis by blast
qed

section \<open>A concrete probe\<close>

definition demo_rounds :: "nat \<Rightarrow> probe_round" where
  "demo_rounds n = \<lparr>now_at = of_nat n, round_scan = demo_scan, scan_started = of_nat n, scan_finished = of_nat n,
     polled = (if n = 0 then None else Some 0),
     events = (if n = 0 then [(Stdout, [104, 105], 0)] else [(Stdout, [], 1), (Stderr, [], 1)])\<rparr>"

definition demo_pinned :: trusted_executable where
  "demo_pinned = pin ''python3'' [lit ''usr'', lit ''bin'', lit ''python3''] [lit ''usr'', lit ''bin'', lit ''python3''] 5 (demo_inode 5)"

definition demo_probe_world :: "int \<Rightarrow> probe_world" where
  "demo_probe_world code =
     \<lparr>in_loop = \<lparr>rounds = demo_rounds, kill_result = (\<lambda>_. Inr ())\<rparr>, tree_clean = (Inr True, Inr True), landlock_version = 4,
       seccomp_supported = True,
       topology_source = \<lparr>cargo_toml = None, config_lstat = (\<lambda>_. NotFound), build_rs = False, lib_is_file = True,
         lib_is_symlink = False, bin_entries = None\<rparr>,
       active_cgroup = Some [lit ''sys''], cgroup_lists = (\<lambda>_. Inr []), mkdir_errno = (\<lambda>_. None),
       pinned_for = (\<lambda>_. demo_pinned), pinned_rustc = demo_pinned, fstats = (\<lambda>_. Some (demo_inode 5)),
       scans = (\<lambda>_. demo_scan), path_exists = (\<lambda>_. True), plain_file_at = (\<lambda>_. True), preexec_built = Inr (),
       popen_error = (\<lambda>_. None), clocks = (0, 0), polled_after = Some code, waited = None, waited_after_kill = None,
       table_after = [], reaped = [None], own_process = 7, encoded_path = (\<lambda>p. map of_nat (path_text p)), lower_text = (\<lambda>t. t)\<rparr>"

definition demo_paths :: probe_paths where
  "demo_paths = \<lparr>home = [lit ''w'', lit ''h''], source_root = [lit ''x'', lit ''s''], cargo_home = [lit ''w'', lit ''c''],
     target_dir = [lit ''w'', lit ''t''], python_exec = [lit ''x'', lit ''p'', lit ''python3''], cargo_exec = [lit ''x'', lit ''cargo''],
     rustc_exec = [lit ''x'', lit ''rustc''], rustdoc_exec = None, rust_runtime = None\<rparr>"

lemma demo_clock: "clock_advances (in_loop (demo_probe_world code))"
proof -
  have s: "suspended (in_loop (demo_probe_world code)) n = 0" for n
    by (simp add: suspended_def demo_probe_world_def demo_rounds_def)
  have "\<exists>n0. \<forall>n \<ge> n0. b \<le> (of_nat n :: rat)" for b
  proof -
    obtain n0 where "b \<le> (of_nat n0 :: rat)" using real_arch_simple [of b] by blast
    then show ?thesis by (meson of_nat_le_iff order_trans)
  qed
  then show ?thesis by (simp add: clock_advances_def s) (simp add: demo_probe_world_def demo_rounds_def)
qed

lemma demo_loop:
  "\<exists>st. probe_loop (in_loop (demo_probe_world code)) ''phase1'' 0 (start_state 0 0) = Some (Inr st) \<and>
     failure_kind st = None \<and> captured st Stdout = [104, 105] \<and> captured st Stderr = []"
  by (simp add: probe_loop.simps demo_probe_world_def demo_rounds_def start_state_def probe_round_def check_storage_def
      serve_streams_def check_time_def set_termination_def scan_due_def timed_writable_check_def demo_scan_fits read_event_def receive_def bounded_output_update_def
      TIMEOUT_SECONDS_def PROBE_WRITABLE_CHECK_INTERVAL_SECONDS_def MAX_PROBE_OUTPUT_BYTES_def Let_def)

lemma demo_normal:
  "normalize_probe_output ''phase1'' (map (\<lambda>p. map of_nat (path_text p))
     [source_root demo_paths, target_dir demo_paths, home demo_paths, cargo_home demo_paths, temp_dir demo_paths,
      butlast (source_root demo_paths)]) [104, 105] = Inr [104, 105]"
  "normalize_probe_output ''phase1'' (map (\<lambda>p. map of_nat (path_text p))
     [source_root demo_paths, target_dir demo_paths, home demo_paths, cargo_home demo_paths, temp_dir demo_paths,
      butlast (source_root demo_paths)]) [] = Inr []"
  by code_simp+

lemma demo_pinned_matches: "trusted_executable_matches demo_pinned (Some (demo_inode 5))"
  by code_simp

lemma demo_world_fields:
  "tree_clean (demo_probe_world c) = (Inr True, Inr True)" "landlock_version (demo_probe_world c) = 4"
  "seccomp_supported (demo_probe_world c)" "active_cgroup (demo_probe_world c) = Some [lit ''sys'']"
  "cgroup_lists (demo_probe_world c) n = Inr []" "mkdir_errno (demo_probe_world c) p = None"
  "pinned_for (demo_probe_world c) s = demo_pinned" "fstats (demo_probe_world c) n = Some (demo_inode 5)"
  "scans (demo_probe_world c) n = demo_scan" "preexec_built (demo_probe_world c) = Inr ()"
  "popen_error (demo_probe_world c) k = None" "clocks (demo_probe_world c) = (0, 0)"
  by (simp_all add: demo_probe_world_def)

lemma demo_run:
  "\<exists>r. run_probe demo_digest (demo_probe_world code) ''phase1'' demo_paths = Some (Inr r) \<and>
     pr_ok r = (code = 0) \<and> pr_stdout_bytes r = 2 \<and> pr_stderr_bytes r = 0"
proof -
  obtain st where st: "probe_loop (in_loop (demo_probe_world code)) ''phase1'' 0 (start_state 0 0) = Some (Inr st)"
    "failure_kind st = None" "captured st Stdout = [104, 105]" "captured st Stderr = []" using demo_loop by blast
  have enc: "encoded_path (demo_probe_world code) = (\<lambda>p. map of_nat (path_text p))" by (simp add: demo_probe_world_def)
  have w: "wait_for_exit (demo_probe_world code) st = Inr (st, Some code)" "check_leaks (demo_probe_world code) st = Some (Inr st)"
    by (simp_all add: wait_for_exit_def check_leaks_def check_members_def mark_def demo_scan_fits demo_probe_world_def descendant_pids_def
        process_parent_map_def descend.simps next_frontier_def)
  have "\<exists>r. probe_report demo_digest (demo_probe_world code) ''phase1'' demo_paths st (Some code) = Inr r \<and>
      pr_ok r = (code = 0) \<and> pr_stdout_bytes r = 2 \<and> pr_stderr_bytes r = 0"
    unfolding probe_report_def Let_def enc st(3,4) demo_normal bindE_simps by (simp add: st(2))
  moreover have "run_probe demo_digest (demo_probe_world code) ''phase1'' demo_paths =
      Some (probe_report demo_digest (demo_probe_world code) ''phase1'' demo_paths st (Some code))"
    using st(1) w
    by (simp add: run_probe_def early_def check_topology_def start_probe_def after_loop_def probe_cgroup_def make_dirs_def
        demo_world_fields demo_pinned_matches demo_scan_fits)
  ultimately show ?thesis by simp
qed

text \<open>The properties at the concrete probe.\<close>

theorem run_probe_green_witness:
  "\<exists>r. run_probe demo_digest (demo_probe_world 0) ''phase1'' demo_paths = Some (Inr r) \<and> pr_exit_code r = Some 0 \<and>
     loop_green (in_loop (demo_probe_world 0)) ''phase1'' (start_state (fst (clocks (demo_probe_world 0))) (snd (clocks (demo_probe_world 0))))"
  using demo_run [of 0] run_probe_green by blast

theorem run_probe_shape_witness:
  "\<exists>r. run_probe demo_digest (demo_probe_world 0) ''phase1'' demo_paths = Some (Inr r) \<and> result_shape demo_digest ''phase1'' r"
  using demo_run [of 0] run_probe_shape by blast

theorem probe_loop_invariant_witness:
  "\<exists>st. probe_loop (in_loop (demo_probe_world 0)) ''phase1'' 0 (start_state 0 0) = Some (Inr st) \<and> capture_ok st"
  using demo_loop [of 0] probe_loop_invariant by blast

lemma demo_scans: "probe_scans_settle (demo_probe_world code)"
  by (simp add: probe_scans_settle_def demo_probe_world_def demo_rounds_def demo_scan_settles)

lemma demo_reaped: "reap_adopted_children (reaped (demo_probe_world code)) \<noteq> None"
  by (simp add: demo_probe_world_def)

theorem run_probe_returns_witness: "\<exists>result. run_probe demo_digest (demo_probe_world 3) ''phase1'' demo_paths = Some result"
  by (rule run_probe_returns [OF demo_clock demo_scans demo_reaped])

theorem failed_probe_registered_witness:
  "\<exists>r item. run_probe demo_digest (demo_probe_world 3) ''phase1'' demo_paths = Some (Inr r) \<and>
     generated_counterexample demo_digest (\<lambda>s. s) demo_commit (hd demo_attacks) r = Inr item"
proof -
  obtain r where r: "run_probe demo_digest (demo_probe_world 3) ''phase1'' demo_paths = Some (Inr r)" "\<not> pr_ok r"
    "pr_stdout_bytes r = 2" "pr_stderr_bytes r = 0" using demo_run [of 3] by auto
  have "hd demo_attacks \<in> set demo_attacks" by (simp add: demo_attacks_def demo_corpus_def EXPECTED_FAMILIES_def)
  moreover have "\<forall>c. Some c \<in> {polled_after (demo_probe_world 3), waited (demo_probe_world 3), waited_after_kill (demo_probe_world 3)}
      \<longrightarrow> - (2 ^ 31) \<le> c \<and> c \<le> 2 ^ 31 - 1"
    by (simp add: demo_probe_world_def)
  ultimately show ?thesis
    using failed_probe_registered [of "\<lambda>s. s", OF _ demo_digest_32 demo_accepted _ demo_commit_matches _ _ r(1,2)] r
    by (auto simp: nfc_ascii_def PROBES_def MAX_PROBE_OUTPUT_BYTES_def)
qed

end
