(* ===== verification/Confinement.thy ===== *)
theory Confinement
  imports Seccomp Landlock Probe_Host Cgroup
begin

text \<open>
  What a child does between \<open>fork\<close> and \<open>exec\<close>: \<open>_join_probe_cgroup\<close>, \<open>probe_isolation_preexec\<close> with the
  closure it returns, and \<open>landlock_write_preexec\<close> in \<open>tools/moriarty_isolation.py\<close>. An exception in the
  closure keeps the program from being executed. The theory puts the four mechanisms together.
\<close>

section \<open>The child\<close>

text \<open>The part of the child's state that the closure changes.\<close>

record child_state =
  ch_cgroup :: "cg_path option"
  ch_limits :: limits
  ch_ruleset :: "ruleset option"
  ch_task :: task_state

text \<open>
  The launcher's view of the host: what \<open>require_unprivileged_probe_launcher\<close> reads, the Landlock host,
  the machine, the files of the cgroup, and the answers to the system calls of the child: the errno of
  writing to \<open>cgroup.procs\<close>, the refusals of \<open>setrlimit\<close> and the errno of \<open>prctl\<close>.
\<close>

record launch_world =
  lw_linux :: bool
  lw_status :: "pystr result"
  lw_host :: host
  lw_machine :: machine
  lw_cgroup_files :: cgroup_files
  lw_join_errno :: nat
  lw_refuse :: "rkind \<Rightarrow> int \<times> int \<Rightarrow> exn option"
  lw_prctl :: "prctl_call \<Rightarrow> task_state \<Rightarrow> nat"

definition join_probe_cgroup :: "launch_world \<Rightarrow> cg_path \<Rightarrow> child_state \<Rightarrow> child_state result" where
  "join_probe_cgroup w r c =
     (if lw_join_errno w \<noteq> 0 then Inl (OSError (lw_join_errno w)) else Inr (c\<lparr>ch_cgroup := Some r\<rparr>))"

text \<open>\<open>tuple(Path(p).resolve(strict=True) for p in ps if Path(p).exists())\<close>.\<close>

definition resolve_existing :: "host \<Rightarrow> path list \<Rightarrow> path list result" where
  "resolve_existing h ps = mapE (resolve_path h) (filter (exists_path h) ps)"

text \<open>What the closure closes over.\<close>

record preexec =
  px_read_exec :: "path list"
  px_readable :: "path list"
  px_writable :: "path list"
  px_cgroup :: "cg_path option"

definition probe_isolation_preexec ::
  "launch_world \<Rightarrow> path list \<Rightarrow> path list \<Rightarrow> path list \<Rightarrow> bool \<Rightarrow> preexec result" where
  "probe_isolation_preexec w read_exec_paths read_paths writable_paths with_cgroup =
     bindE (require_unprivileged_probe_launcher (lw_linux w) (lw_status w)) (\<lambda>_.
     bindE (resolve_existing (lw_host w) read_exec_paths) (\<lambda>read_exec.
     bindE (resolve_existing (lw_host w) read_paths) (\<lambda>readable.
     bindE (resolve_existing (lw_host w) writable_paths) (\<lambda>writable.
     bindE (if with_cgroup then bindE (probe_cgroup_root (lw_cgroup_files w)) (\<lambda>r. Inr (Some r)) else Inr None) (\<lambda>cgroup.
     Inr \<lparr>px_read_exec = read_exec, px_readable = readable, px_writable = writable, px_cgroup = cgroup\<rparr>)))))"

definition apply_preexec :: "launch_world \<Rightarrow> preexec \<Rightarrow> child_state \<Rightarrow> child_state result" where
  "apply_preexec w px c =
     bindE (case px_cgroup px of None \<Rightarrow> Inr c | Some r \<Rightarrow> join_probe_cgroup w r c) (\<lambda>c1.
     bindE (apply_probe_resource_limits (lw_refuse w) (ch_limits c1)) (\<lambda>l.
     bindE (apply_landlock_policy (lw_host w) (px_read_exec px) (px_readable px) (px_writable px) True) (\<lambda>rs.
     bindE (apply_network_seccomp_policy (lw_prctl w) (lw_linux w) (lw_machine w) (ch_task c1)) (\<lambda>t.
     Inr (c1\<lparr>ch_limits := l, ch_ruleset := Some rs, ch_task := t\<rparr>)))))"

definition landlock_write_preexec :: "host \<Rightarrow> path list \<Rightarrow> path list result" where
  "landlock_write_preexec h writable_paths = mapE (resolve_path h) writable_paths"

definition apply_write_preexec :: "host \<Rightarrow> path list \<Rightarrow> child_state \<Rightarrow> child_state result" where
  "apply_write_preexec h roots c =
     bindE (apply_landlock_write_policy h roots) (\<lambda>rs. Inr (c\<lparr>ch_ruleset := Some rs\<rparr>))"

section \<open>A host that answers everything\<close>

definition demo_cgroup_files :: cgroup_files where
  "demo_cgroup_files = \<lparr>resolved_root = Some [lit ''cg'', lit ''m''], resolved_mount = Some [lit ''cg''], file_there = (\<lambda>p. last p \<noteq> lit ''memory.swap.max''),
     text_of_file = (\<lambda>_. Some (lit ''64'')), pidfd_support = True, write_access = (\<lambda>_. True)\<rparr>"

definition demo_launch :: launch_world where
  "demo_launch = \<lparr>lw_linux = True,
     lw_status = Inr (concat (map (\<lambda>l. lit l @ [10])
       [''Uid: 7 7 7 7'', ''Gid: 7 7 7 7'', ''CapInh: 0'', ''CapPrm: 0'', ''CapEff: 0'', ''CapAmb: 0''])),
     lw_host = demo_host, lw_machine = X86_64, lw_cgroup_files = demo_cgroup_files, lw_join_errno = 0,
     lw_refuse = (\<lambda>_ _. None), lw_prctl = (\<lambda>_ _. 0)\<rparr>"

definition demo_child :: child_state where
  "demo_child = \<lparr>ch_cgroup = None, ch_limits = (\<lambda>_. (-1, -1)), ch_ruleset = None, ch_task = demo_task\<rparr>"

definition demo_preexec :: preexec where
  "demo_preexec = \<lparr>px_read_exec = [[lit ''usr'']], px_readable = [[lit ''etc'']], px_writable = [[lit ''tmp'']],
     px_cgroup = Some [lit ''cg'', lit ''m'']\<rparr>"

lemma demo_preexec_made:
  "probe_isolation_preexec demo_launch [[lit ''usr'']] [[lit ''etc'']] [[lit ''tmp'']] True = Inr demo_preexec"
proof -
  have "proc_status_unprivileged (projr (lw_status demo_launch))"
    and c: "probe_cgroup_root (lw_cgroup_files demo_launch) = Inr [lit ''cg'', lit ''m'']"
    by code_simp+
  then have "require_unprivileged_probe_launcher (lw_linux demo_launch) (lw_status demo_launch) = Inr ()"
    by (simp add: require_unprivileged_probe_launcher_def demo_launch_def)
  then show ?thesis
    using c by (simp add: probe_isolation_preexec_def resolve_existing_def demo_preexec_def)
      (simp add: demo_launch_def demo_host_def)
qed

lemma demo_applied: "\<exists>c. apply_preexec demo_launch demo_preexec demo_child = Inr c"
  by (simp add: apply_preexec_def demo_launch_def demo_preexec_def demo_child_def join_probe_cgroup_def
      apply_probe_resource_limits_def PROBE_CEILINGS_def set_ceiling_def setrlimit_def Let_def
      RLIM_INFINITY_def PROBE_RLIMIT_AS_BYTES_def PROBE_RLIMIT_FSIZE_BYTES_def PROBE_RLIMIT_NPROC_def
      PROBE_RLIMIT_NOFILE_def PROBE_RLIMIT_CPU_SECONDS_def
      apply_landlock_policy_def landlock_abi_version_def libc_available_def ask_kernel_def
      demo_host_def declared_rules_def declare_rule_def add_landlock_rule_def self_proc_def
      apply_network_seccomp_policy_def apply_base_seccomp_policy_def linux_libc_def
      apply_sensitive_host_handle_seccomp_policy_def network_program_def sensitive_program_def
      syscall_tables install_filter_def prctl_def)

section \<open>Property\<close>

text \<open>C11: A probe runs confined on all sides or not at all: when the closure returns, and only then is the program
  executed, the child is in the probe's cgroup if one was asked for, its resource limits are capped, it can
  gain no privileges, the system calls that pass are exactly those that the network and the host-handle
  policy allow, and the ruleset in force allows writing only beneath a writable root, executing only
  beneath a read-exec or writable root and reading only beneath a declared root or its own proc directory.\<close>

theorem child_confined:
  assumes "classic_bpf run"
    and "probe_isolation_preexec w read_exec_paths read_paths writable_paths with_cgroup = Inr px"
    and "apply_preexec w px c = Inr c'"
  shows "(with_cgroup \<longrightarrow> (\<exists>r. probe_cgroup_root (lw_cgroup_files w) = Inr r \<and> ch_cgroup c' = Some r)) \<and>
    (\<forall>(kind, cap) \<in> set PROBE_CEILINGS. \<exists>n. ch_limits c' kind = (n, n) \<and> 0 < n \<and> n \<le> cap \<and>
      (snd (ch_limits c kind) \<noteq> RLIM_INFINITY \<longrightarrow> n \<le> snd (ch_limits c kind))) \<and>
    no_new_privs (ch_task c') \<and>
    (\<forall>d. passes run (ch_task c') d \<longleftrightarrow>
      passes run (ch_task c) d \<and> \<not> network_forbidden (lw_machine w) d \<and> \<not> sensitive_forbidden (lw_machine w) d) \<and>
    (\<exists>rs. ch_ruleset c' = Some rs \<and> (\<forall>f right. ruleset_allows rs f right \<longrightarrow>
      (right \<in> set WRITE_RIGHTS \<longrightarrow> (\<exists>q. declared_root (lw_host w) (px_writable px) q \<and> beneath q f)) \<and>
      (right = LL_EXECUTE \<longrightarrow> (\<exists>q. declared_root (lw_host w) (px_read_exec px @ px_writable px) q \<and> beneath q f)) \<and>
      (right \<in> {LL_READ_FILE, LL_READ_DIR} \<longrightarrow>
        (\<exists>q. beneath q f \<and> (declared_root (lw_host w) (px_read_exec px @ px_readable px @ px_writable px) q \<or>
          resolve_path (lw_host w) (self_proc (lw_host w)) = Inr q))))) \<and>
    mapE (resolve_path (lw_host w)) (filter (exists_path (lw_host w)) writable_paths) = Inr (px_writable px)"
proof -
  from assms(2) have px: "with_cgroup \<longrightarrow> (\<exists>r. probe_cgroup_root (lw_cgroup_files w) = Inr r \<and> px_cgroup px = Some r)"
    "resolve_existing (lw_host w) writable_paths = Inr (px_writable px)"
    by (auto simp: probe_isolation_preexec_def bindE_eq_Inr)
  from assms(3) obtain c1 l rs t where s: "(case px_cgroup px of None \<Rightarrow> Inr c | Some r \<Rightarrow> join_probe_cgroup w r c) = Inr c1"
    "apply_probe_resource_limits (lw_refuse w) (ch_limits c1) = Inr l"
    "apply_landlock_policy (lw_host w) (px_read_exec px) (px_readable px) (px_writable px) True = Inr rs"
    "apply_network_seccomp_policy (lw_prctl w) (lw_linux w) (lw_machine w) (ch_task c1) = Inr t"
    "c' = c1\<lparr>ch_limits := l, ch_ruleset := Some rs, ch_task := t\<rparr>"
    by (auto simp: apply_preexec_def bindE_eq_Inr)
  have c1: "ch_limits c1 = ch_limits c" "ch_task c1 = ch_task c" "\<forall>r. px_cgroup px = Some r \<longrightarrow> ch_cgroup c1 = Some r"
    using s(1) by (auto simp: join_probe_cgroup_def split: option.splits if_splits)
  have F: "\<exists>rs. ch_ruleset c' = Some rs \<and> (\<forall>f right. ruleset_allows rs f right \<longrightarrow>
      (right \<in> set WRITE_RIGHTS \<longrightarrow> (\<exists>q. declared_root (lw_host w) (px_writable px) q \<and> beneath q f)) \<and>
      (right = LL_EXECUTE \<longrightarrow> (\<exists>q. declared_root (lw_host w) (px_read_exec px @ px_writable px) q \<and> beneath q f)) \<and>
      (right \<in> {LL_READ_FILE, LL_READ_DIR} \<longrightarrow>
        (\<exists>q. beneath q f \<and> (declared_root (lw_host w) (px_read_exec px @ px_readable px @ px_writable px) q \<or>
          resolve_path (lw_host w) (self_proc (lw_host w)) = Inr q))))"
    using landlock_policy_confines [OF s(3)] by (simp add: s(5))
  have A: "with_cgroup \<longrightarrow> (\<exists>r. probe_cgroup_root (lw_cgroup_files w) = Inr r \<and> ch_cgroup c' = Some r)"
    using px(1) c1(3) by (auto simp: s(5))
  have B: "\<forall>(kind, cap) \<in> set PROBE_CEILINGS. \<exists>n. ch_limits c' kind = (n, n) \<and> 0 < n \<and> n \<le> cap \<and>
      (snd (ch_limits c kind) \<noteq> RLIM_INFINITY \<longrightarrow> n \<le> snd (ch_limits c kind))"
    using conjunct1 [OF resource_limits_capped [OF s(2)]] c1(1) by (simp add: s(5))
  have C: "no_new_privs (ch_task c') \<and> (passes run (ch_task c') d \<longleftrightarrow>
      passes run (ch_task c) d \<and> \<not> network_forbidden (lw_machine w) d \<and> \<not> sensitive_forbidden (lw_machine w) d)" for d
    using seccomp_policy_restricts [OF assms(1) s(4), of d] c1(2) by (simp add: s(5))
  have D: "mapE (resolve_path (lw_host w)) (filter (exists_path (lw_host w)) writable_paths) = Inr (px_writable px)"
    using px(2) by (simp add: resolve_existing_def)
  show ?thesis by (intro conjI allI A B C [THEN conjunct1] C [THEN conjunct2] D F)
qed

theorem child_confined_witness:
  "\<exists>c'. apply_preexec demo_launch demo_preexec demo_child = Inr c' \<and> ch_cgroup c' = Some [lit ''cg'', lit ''m''] \<and>
     no_new_privs (ch_task c') \<and> \<not> passes bpf_run (ch_task c') (demo_call 62 77)"
proof -
  obtain c' where c': "apply_preexec demo_launch demo_preexec demo_child = Inr c'" using demo_applied by blast
  have r: "probe_cgroup_root (lw_cgroup_files demo_launch) = Inr [lit ''cg'', lit ''m'']" by code_simp
  have f: "network_forbidden (lw_machine demo_launch) (demo_call 62 77)"
    by (simp add: demo_launch_def network_forbidden_def demo_call_def arg_low_def)
  note k = child_confined [OF reference.classic_bpf_axioms demo_preexec_made c']
  have "ch_cgroup c' = Some [lit ''cg'', lit ''m'']" using conjunct1 [OF k] r by simp
  moreover have "no_new_privs (ch_task c')" by (rule k [THEN conjunct2, THEN conjunct2, THEN conjunct1])
  moreover have "\<not> passes bpf_run (ch_task c') (demo_call 62 77)"
    using k [THEN conjunct2, THEN conjunct2, THEN conjunct2, THEN conjunct1, THEN spec, of "demo_call 62 77"] f by simp
  ultimately show ?thesis using c' by simp
qed

end
