(* ===== verification/Workspace.thy ===== *)
theory Workspace
  imports Trusted_Exec
begin

text \<open>
  The files that \<open>tools/moriarty_isolation.py\<close> makes below the workspace: a list of absolute paths with
  their entries, the two forms of \<open>mkdir\<close>, a file opened with O_CREAT and O_EXCL, and
  \<open>seal_read_only_tree\<close>. \<open>dm\<close> is the mode that \<open>mkdir\<close> without a mode gives in the process (0o777
  less its umask). What another process of the same user could change in between is not part of the
  model.
\<close>

section \<open>Entries\<close>

datatype fs_entry = Directory nat | Regular nat bytes | SymLink

type_synonym fs = "(path \<times> fs_entry) list"

definition EEXIST :: nat where "EEXIST = 17"
definition ENOENT :: nat where "ENOENT = 2"
definition ENOTDIR :: nat where "ENOTDIR = 20"

definition is_dir_in :: "fs \<Rightarrow> path \<Rightarrow> bool" where
  "is_dir_in fs p \<longleftrightarrow> (case lookup fs p of Some (Directory m) \<Rightarrow> True | _ \<Rightarrow> False)"

definition exists_in :: "fs \<Rightarrow> path \<Rightarrow> bool" where
  "exists_in fs p \<longleftrightarrow> lookup fs p \<noteq> None"

text \<open>\<open>mkdir(mode=0o700, parents=False, exist_ok=False)\<close>.\<close>

definition make_dir :: "path \<Rightarrow> fs \<Rightarrow> fs result" where
  "make_dir p fs =
     (if exists_in fs p then Inl (OSError EEXIST)
      else case lookup fs (butlast p) of
        Some (Directory m) \<Rightarrow> Inr ((p, Directory 0x1C0) # fs)
      | None \<Rightarrow> Inl (OSError ENOENT)
      | Some _ \<Rightarrow> Inl (OSError ENOTDIR))"

text \<open>\<open>mkdir(mode=0o700, parents=True, exist_ok=True)\<close> of \<open>p / n1 / n2 ...\<close>, from the outermost directory on.\<close>

fun mkdirs :: "nat \<Rightarrow> fs \<Rightarrow> path \<Rightarrow> pystr list \<Rightarrow> fs result" where
  "mkdirs dm fs p [] = Inr fs"
| "mkdirs dm fs p (n # ns) =
     (case lookup fs (p @ [n]) of
        None \<Rightarrow> mkdirs dm ((p @ [n], Directory (if ns = [] then 0x1C0 else dm)) # fs) (p @ [n]) ns
      | Some (Directory m) \<Rightarrow> mkdirs dm fs (p @ [n]) ns
      | Some _ \<Rightarrow> Inl (OSError (if ns = [] then EEXIST else ENOTDIR)))"

text \<open>Opened with O_CREAT and O_EXCL, written and closed.\<close>

definition create_file :: "path \<Rightarrow> nat \<Rightarrow> bytes \<Rightarrow> fs \<Rightarrow> fs result" where
  "create_file p m data fs =
     (if exists_in fs p then Inl (OSError EEXIST) else Inr ((p, Regular m data) # fs))"

text \<open>\<open>Path(name).parts\<close> drops empty parts and \<open>.\<close>.\<close>

definition path_parts :: "pystr \<Rightarrow> pystr list" where
  "path_parts name = filter (\<lambda>p. p \<noteq> [] \<and> p \<noteq> lit ''.'') (split_all 47 name)"

text \<open>\<open>os.chmod\<close>.\<close>

definition with_mode :: "nat \<Rightarrow> fs_entry \<Rightarrow> fs_entry" where
  "with_mode m e = (case e of Directory _ \<Rightarrow> Directory m | Regular _ data \<Rightarrow> Regular m data | SymLink \<Rightarrow> SymLink)"

definition chmod_in :: "path \<Rightarrow> nat \<Rightarrow> fs \<Rightarrow> fs" where
  "chmod_in p m fs = map (\<lambda>(q, e). (q, if q = p then with_mode m e else e)) fs"

section \<open>Sealing\<close>

definition sealed_mode :: "nat \<Rightarrow> nat" where
  "sealed_mode mode = (if any_exec mode then 0x140 else 0x100)"

definition seal_entry :: "path \<Rightarrow> path \<times> fs_entry \<Rightarrow> (path \<times> fs_entry) result" where
  "seal_entry base e = (case e of (p, entry) \<Rightarrow>
     if \<not> inside base p then Inr e
     else case entry of
       Directory m \<Rightarrow> Inr (p, Directory 0x140)
     | Regular m data \<Rightarrow> Inr (p, Regular (sealed_mode m) data)
     | SymLink \<Rightarrow> Inl (SystemExit ''moriarty_export_symlink_forbidden''))"

definition seal_read_only_tree :: "path \<Rightarrow> fs \<Rightarrow> fs result" where
  "seal_read_only_tree base fs = mapE (seal_entry base) fs"

section \<open>Laws\<close>

lemma lookup_Cons: "lookup ((p, e) # fs) q = (if q = p then Some e else lookup fs q)"
  by (simp add: lookup_eq_map_of)

lemma inside_append [simp]: "inside p (p @ q)" by (simp add: inside_def)

lemma inside_snocD: "inside (p @ [n]) q \<Longrightarrow> inside p q \<and> q \<noteq> p"
  by (auto simp: inside_def starts_with_iff)

lemma mkdirs_grows:
  "mkdirs dm fs p ns = Inr fs' \<Longrightarrow>
     lookup fs' q = lookup fs q \<or>
     lookup fs q = None \<and> (\<exists>m. lookup fs' q = Some (Directory m)) \<and> inside p q \<and> q \<noteq> p"
proof (induction dm fs p ns rule: mkdirs.induct)
  case (2 dm fs p n ns)
  have below: "inside p (p @ [n])" by simp
  show ?case
  proof (cases "lookup fs (p @ [n])")
    case None
    from 2(1) [OF None] 2(3) None below show ?thesis
      by (auto simp: lookup_Cons dest!: inside_snocD split: if_splits)
  next
    case (Some e)
    with 2 show ?thesis by (cases e) (auto dest!: inside_snocD)
  qed
qed simp

lemma mkdirs_keeps: "mkdirs dm fs p ns = Inr fs' \<Longrightarrow> lookup fs q = Some e \<Longrightarrow> lookup fs' q = Some e"
  using mkdirs_grows [of dm fs p ns fs' q] by auto

lemma mkdirs_regular: "mkdirs dm fs p ns = Inr fs' \<Longrightarrow> lookup fs' q = Some (Regular m b) \<longleftrightarrow> lookup fs q = Some (Regular m b)"
  using mkdirs_grows [of dm fs p ns fs' q] by auto

lemma mkdirs_outside: "mkdirs dm fs p ns = Inr fs' \<Longrightarrow> \<not> inside p q \<Longrightarrow> lookup fs' q = lookup fs q"
  using mkdirs_grows [of dm fs p ns fs' q] by auto

lemma make_dir_eq: "make_dir p fs = Inr fs' \<longleftrightarrow> \<not> exists_in fs p \<and> is_dir_in fs (butlast p) \<and> fs' = (p, Directory 0x1C0) # fs"
  by (auto simp: make_dir_def is_dir_in_def split: option.splits fs_entry.splits)

lemma create_file_eq: "create_file p m b fs = Inr fs' \<longleftrightarrow> lookup fs p = None \<and> fs' = (p, Regular m b) # fs"
  by (auto simp: create_file_def exists_in_def)

lemma lookup_chmod: "lookup (chmod_in p m fs) q = (if q = p then map_option (with_mode m) (lookup fs q) else lookup fs q)"
  by (induction fs) (auto simp: chmod_in_def)

lemma any_exec_sealed [simp]: "any_exec (sealed_mode m) = any_exec m"
  by (simp add: sealed_mode_def any_exec_def)

lemma sealed_mode_idem [simp]: "sealed_mode (sealed_mode m) = sealed_mode m"
  by (simp add: sealed_mode_def [of "sealed_mode m"]) (simp add: sealed_mode_def)

text \<open>The entry at a path after the sealing.\<close>

definition sealed :: "fs_entry \<Rightarrow> fs_entry" where
  "sealed e = (case e of Directory m \<Rightarrow> Directory 0x140 | Regular m data \<Rightarrow> Regular (sealed_mode m) data | SymLink \<Rightarrow> SymLink)"

lemma seal_lookup:
  assumes "seal_read_only_tree base fs = Inr fs'"
  shows "lookup fs' q = (if inside base q then map_option sealed (lookup fs q) else lookup fs q)"
  using assms unfolding seal_read_only_tree_def
proof (induction fs arbitrary: fs')
  case (Cons e fs)
  obtain p entry where e: "e = (p, entry)" by (cases e)
  from Cons.prems obtain e' fs1 where s: "seal_entry base e = Inr e'" "mapE (seal_entry base) fs = Inr fs1" "fs' = e' # fs1"
    by (auto simp: bindE_eq_Inr)
  from s(1) have "e' = (p, if inside base p then sealed entry else entry)"
    by (auto simp: seal_entry_def e sealed_def split: fs_entry.splits if_splits)
  with Cons.IH [OF s(2)] s(3) show ?case by (auto simp: e lookup_Cons)
qed simp

lemma seal_no_link:
  "seal_read_only_tree base fs = Inr fs' \<Longrightarrow> inside base q \<Longrightarrow> lookup fs q \<noteq> Some SymLink"
  unfolding seal_read_only_tree_def
proof (induction fs arbitrary: fs')
  case (Cons e fs)
  obtain p entry where e: "e = (p, entry)" by (cases e)
  from Cons.prems obtain e' fs1 where s: "seal_entry base e = Inr e'" "mapE (seal_entry base) fs = Inr fs1"
    by (auto simp: bindE_eq_Inr)
  from s(1) Cons.prems(2) have "p = q \<longrightarrow> entry \<noteq> SymLink" by (auto simp: seal_entry_def e)
  with Cons.IH [OF s(2) Cons.prems(2)] show ?case by (auto simp: e lookup_Cons)
qed simp

end
