(* ===== verification/Tar_Export.thy ===== *)
theory Tar_Export
  imports Commit_Files Workspace
begin

text \<open>
  The export of a commit into the workspace: \<open>git_archive_bytes\<close> in \<open>tools/run_moriarty.py\<close> and
  \<open>extract_exact_archive_bytes\<close>, \<open>seal_read_only_tree\<close> and \<open>create_exact_export\<close> in
  \<open>tools/moriarty_isolation.py\<close>. The workspace is a list of paths with their entries; \<open>tarfile\<close> is
  used through the operations of \<open>tar_library\<close>.
\<close>

section \<open>Archives\<close>

datatype member_kind = RegularMember | DirectoryMember | SymbolicLink | HardLink | Device | Fifo | OtherMember

record member =
  member_name :: pystr
  member_kind :: member_kind
  member_mode :: nat
  member_data :: "bytes option"

text \<open>
  Writing an archive, the position of the stream after some members, and reading an archive back
  (None when \<open>tarfile\<close> raises).
\<close>

record tar_library =
  tar_write :: "member list \<Rightarrow> bytes"
  tar_tell :: "member list \<Rightarrow> nat"
  tar_members :: "bytes \<Rightarrow> member list option"

definition archive_member :: "pystr \<times> pystr \<times> pystr \<times> bytes \<Rightarrow> member" where
  "archive_member f = (case f of (path, mode, oid, blob) \<Rightarrow>
     \<lparr>member_name = path, member_kind = RegularMember,
      member_mode = (if mode = lit ''100755'' then 0x1ED else 0x1A4), member_data = Some blob\<rparr>)"

definition archive_members :: "commit_files \<Rightarrow> member list" where
  "archive_members fs = map archive_member (sort_key fst fs)"

definition git_archive_bytes :: "tar_library \<Rightarrow> commit_files result \<Rightarrow> bytes result" where
  "git_archive_bytes lib files' =
     bindE files' (\<lambda>fs.
     let ms = archive_members fs; encoded = tar_write lib ms in
     bindE (eachE (\<lambda>n. guardE (tar_tell lib (take n ms) \<le> MAX_GIT_ARCHIVE_BYTES) (SystemExit ''moriarty_exact_export_archive_too_large''))
              [1..<length ms + 1]) (\<lambda>_.
     if MAX_GIT_ARCHIVE_BYTES < length encoded then Inl (SystemExit ''moriarty_exact_export_archive_too_large'')
     else Inr encoded))"

section \<open>Extracting\<close>

definition relative_archive_name :: "pystr \<Rightarrow> pystr list result" where
  "relative_archive_name name =
     (let parts = path_parts name in
      if starts_with name [47] \<or> parts = [] \<or> lit ''..'' \<in> set parts
      then Inl (SystemExit ''moriarty_archive_member_path_invalid'') else Inr parts)"

definition check_member :: "member \<Rightarrow> unit result" where
  "check_member m =
     bindE (relative_archive_name (member_name m)) (\<lambda>_.
     if member_kind m \<in> {SymbolicLink, HardLink, Device, Fifo} then Inl (SystemExit ''moriarty_archive_special_member_forbidden'')
     else guardE (member_kind m \<in> {DirectoryMember, RegularMember}) (SystemExit ''moriarty_archive_member_type_forbidden''))"

definition extract_member :: "nat \<Rightarrow> path \<Rightarrow> fs \<Rightarrow> member \<Rightarrow> fs result" where
  "extract_member dm dest fs m =
     bindE (relative_archive_name (member_name m)) (\<lambda>parts.
     if member_kind m = DirectoryMember then mkdirs dm fs dest parts
     else bindE (mkdirs dm fs dest (butlast parts)) (\<lambda>fs'.
       case member_data m of
         None \<Rightarrow> Inl (SystemExit ''moriarty_archive_file_unreadable'')
       | Some data \<Rightarrow> create_file (dest @ parts) (sealed_mode (member_mode m)) data fs'))"

definition extract_exact_archive_bytes :: "tar_library \<Rightarrow> bytes \<Rightarrow> nat \<Rightarrow> path \<Rightarrow> fs \<Rightarrow> fs result" where
  "extract_exact_archive_bytes lib archive dm dest fs =
     bindE (make_dir dest fs) (\<lambda>fs0.
     case tar_members lib archive of
       None \<Rightarrow> Inl TarError
     | Some ms \<Rightarrow> bindE (eachE check_member ms) (\<lambda>_. foldE (extract_member dm dest) fs0 ms))"

definition create_exact_export :: "tar_library \<Rightarrow> bytes result \<Rightarrow> nat \<Rightarrow> path \<Rightarrow> pystr \<Rightarrow> fs \<Rightarrow> (path \<times> fs) result" where
  "create_exact_export lib archive dm workspace label fs =
     (let source_root = workspace @ [label @ lit ''-src''] in
      bindE archive (\<lambda>archive_bytes.
      bindE (extract_exact_archive_bytes lib archive_bytes dm source_root fs) (\<lambda>fs1.
      bindE (seal_read_only_tree source_root fs1) (\<lambda>fs2. Inr (source_root, fs2)))))"

section \<open>What the extraction does\<close>

lemma path_parts_safe:
  assumes "safe_path p"
  shows "path_parts p = split_all 47 p"
  using assms by (auto simp: path_parts_def safe_path_def invalid_name_def intro!: filter_True)

lemma relative_archive_name_safe:
  assumes "safe_path p"
  shows "relative_archive_name p = Inr (split_all 47 p)"
proof -
  have "\<not> starts_with p [47]"
  proof
    assume "starts_with p [47]"
    then obtain q where "p = 47 # q" by (auto simp: starts_with_iff)
    with assms show False by (auto simp: safe_path_def invalid_name_def)
  qed
  moreover have "lit ''..'' \<notin> set (split_all 47 p)" using assms by (auto simp: safe_path_def invalid_name_def)
  ultimately show ?thesis by (simp add: relative_archive_name_def path_parts_safe [OF assms])
qed

definition file_mode :: "pystr \<Rightarrow> nat" where
  "file_mode mode = (if mode = lit ''100755'' then 0x140 else 0x100)"

lemma sealed_file_mode: "sealed_mode (file_mode mode) = file_mode mode"
  by (cases "mode = lit ''100755''") (simp_all add: file_mode_def sealed_mode_def any_exec_def)

lemma extract_archive_member:
  assumes "safe_path path"
  shows "extract_member dm dest fs (archive_member (path, mode, oid, blob)) =
    bindE (mkdirs dm fs dest (butlast (split_all 47 path)))
      (create_file (dest @ split_all 47 path) (file_mode mode) blob)"
proof -
  have "sealed_mode (if mode = lit ''100755'' then 0x1ED else 0x1A4) = file_mode mode"
    by (cases "mode = lit ''100755''") (simp_all add: file_mode_def sealed_mode_def any_exec_def)
  then show ?thesis by (simp add: extract_member_def archive_member_def relative_archive_name_safe [OF assms])
qed

text \<open>The entry of one file, at the path below the destination.\<close>

definition exported_file :: "commit_files \<Rightarrow> pystr list \<Rightarrow> nat \<Rightarrow> bytes \<Rightarrow> bool" where
  "exported_file cfs parts m b \<longleftrightarrow>
     list_ex (\<lambda>(path, mode, oid, blob). split_all 47 path = parts \<and> file_mode mode = m \<and> blob = b) cfs"

lemma exported_file_Cons [simp]:
  "exported_file ((path, mode, oid, blob) # cfs) parts m b \<longleftrightarrow>
     split_all 47 path = parts \<and> file_mode mode = m \<and> blob = b \<or> exported_file cfs parts m b"
  "\<not> exported_file [] parts m b"
  by (simp_all add: exported_file_def)

text \<open>What the entries below the destination are while the members are extracted.\<close>

definition extraction :: "path \<Rightarrow> fs \<Rightarrow> fs \<Rightarrow> bool" where
  "extraction dest fs fs' \<longleftrightarrow>
     (\<forall>q. \<not> inside dest q \<longrightarrow> lookup fs' q = lookup fs q) \<and>
     (\<forall>q. inside dest q \<longrightarrow> lookup fs q = None \<longrightarrow> lookup fs' q \<noteq> None \<longrightarrow>
        (\<exists>m. lookup fs' q = Some (Directory m)) \<or> (\<exists>m b. lookup fs' q = Some (Regular m b)))"

lemma extract_step:
  assumes "bindE (mkdirs dm fs dest ns) (create_file (dest @ ps) m b) = Inr fs'"
  shows "lookup fs' (dest @ q) = Some (Regular m' b') \<longleftrightarrow>
      q = ps \<and> m' = m \<and> b' = b \<or> lookup fs (dest @ q) = Some (Regular m' b')"
    and "\<not> inside dest r \<Longrightarrow> lookup fs' r = lookup fs r"
    and "lookup fs' r = Some SymLink \<Longrightarrow> lookup fs r = Some SymLink"
proof -
  from assms obtain fs1 where s: "mkdirs dm fs dest ns = Inr fs1" "lookup fs1 (dest @ ps) = None"
    "fs' = (dest @ ps, Regular m b) # fs1" by (auto simp: bindE_eq_Inr create_file_eq)
  show "lookup fs' (dest @ q) = Some (Regular m' b') \<longleftrightarrow>
      q = ps \<and> m' = m \<and> b' = b \<or> lookup fs (dest @ q) = Some (Regular m' b')"
    using mkdirs_regular [OF s(1), of "dest @ q" m' b'] s(2,3) by (auto simp: lookup_Cons)
  show "\<not> inside dest r \<Longrightarrow> lookup fs' r = lookup fs r"
    using mkdirs_outside [OF s(1)] s(3) by (auto simp: lookup_Cons)
  show "lookup fs' r = Some SymLink \<Longrightarrow> lookup fs r = Some SymLink"
    using mkdirs_grows [OF s(1), of r] s(3) by (auto simp: lookup_Cons split: if_splits)
qed

lemma extract_all:
  assumes "foldE (extract_member dm dest) fs (map archive_member cfs) = Inr fs'"
    and "\<forall>f \<in> set cfs. safe_path (fst f)"
  shows "(\<forall>q m b. lookup fs' (dest @ q) = Some (Regular m b) \<longleftrightarrow>
        exported_file cfs q m b \<or> lookup fs (dest @ q) = Some (Regular m b)) \<and>
    (\<forall>r. \<not> inside dest r \<longrightarrow> lookup fs' r = lookup fs r) \<and>
    (\<forall>r. lookup fs' r = Some SymLink \<longrightarrow> lookup fs r = Some SymLink)"
  using assms
proof (induction cfs arbitrary: fs)
  case (Cons f cfs)
  obtain path mode oid blob where f: "f = (path, mode, oid, blob)" by (cases f)
  with Cons.prems obtain fs1 where
    s: "bindE (mkdirs dm fs dest (butlast (split_all 47 path))) (create_file (dest @ split_all 47 path) (file_mode mode) blob) = Inr fs1"
    "foldE (extract_member dm dest) fs1 (map archive_member cfs) = Inr fs'"
    by (auto simp: bindE_eq_Inr [of "extract_member dm dest fs (archive_member (path, mode, oid, blob))"] extract_archive_member)
  have IH: "lookup fs' (dest @ q) = Some (Regular m b) \<longleftrightarrow> exported_file cfs q m b \<or> lookup fs1 (dest @ q) = Some (Regular m b)"
    "\<not> inside dest r \<Longrightarrow> lookup fs' r = lookup fs1 r"
    "lookup fs' r = Some SymLink \<Longrightarrow> lookup fs1 r = Some SymLink" for q m b r
    using Cons.IH [OF s(2)] Cons.prems(2) by simp_all
  show ?case
  proof (intro conjI allI impI)
    show "lookup fs' (dest @ q) = Some (Regular m b) \<longleftrightarrow>
        exported_file (f # cfs) q m b \<or> lookup fs (dest @ q) = Some (Regular m b)" for q m b
      unfolding IH(1) extract_step(1) [OF s(1)] f exported_file_Cons by blast
    show "lookup fs' r = lookup fs r" if "\<not> inside dest r" for r
      by (rule trans [OF IH(2) [OF that] extract_step(2) [OF s(1) that]])
    show "lookup fs r = Some SymLink" if "lookup fs' r = Some SymLink" for r
      by (rule extract_step(3) [OF s(1) IH(3) [OF that]])
  qed
qed simp

lemma exported_file_set: "set cfs = set cfs' \<Longrightarrow> exported_file cfs = exported_file cfs'"
  by (intro ext) (auto simp: exported_file_def list_ex_iff)

lemma export_entries:
  assumes files: "\<forall>f \<in> set cfs. safe_path (fst f)"
    and lib: "tar_members lib (tar_write lib (archive_members cfs)) = Some (archive_members cfs)"
    and fresh: "\<forall>q. inside dest q \<longrightarrow> lookup fs q = None"
    and extracted: "extract_exact_archive_bytes lib (tar_write lib (archive_members cfs)) dm dest fs = Inr fs1"
    and sealing: "seal_read_only_tree dest fs1 = Inr fs2"
  shows "lookup fs2 (dest @ q) = Some (Regular m b) \<longleftrightarrow> exported_file cfs q m b"
    and "lookup fs2 (dest @ q) = Some e \<Longrightarrow> e = Directory 0x140 \<or> (\<exists>m b. e = Regular m b)"
    and "\<not> inside dest r \<Longrightarrow> lookup fs2 r = lookup fs r"
proof -
  let ?fs0 = "(dest, Directory 0x1C0) # fs"
  have safe: "\<forall>f \<in> set (sort_key fst cfs). safe_path (fst f)" using files by simp
  from extracted have fold: "foldE (extract_member dm dest) ?fs0 (map archive_member (sort_key fst cfs)) = Inr fs1"
    by (auto simp: extract_exact_archive_bytes_def bindE_eq_Inr make_dir_eq lib [unfolded archive_members_def]
      archive_members_def)
  note all = extract_all [OF fold safe]
  have regular: "lookup fs1 (dest @ q) = Some (Regular m b) \<longleftrightarrow> exported_file cfs q m b" for q m b
    using all fresh exported_file_set [of "sort_key fst cfs" cfs] by (auto simp: lookup_Cons)
  have link: "lookup fs1 r \<noteq> Some SymLink" if "inside dest r" for r
    by (rule seal_no_link [OF sealing that])
  have mode: "sealed_mode m = m" if "exported_file cfs q m b" for q m b
    using that by (auto simp: exported_file_def list_ex_iff sealed_file_mode)
  have final: "lookup fs2 (dest @ q) = map_option sealed (lookup fs1 (dest @ q))" for q
    using seal_lookup [OF sealing, of "dest @ q"] by simp
  show "lookup fs2 (dest @ q) = Some (Regular m b) \<longleftrightarrow> exported_file cfs q m b"
    unfolding final regular [symmetric] using mode regular
    by (cases "lookup fs1 (dest @ q)") (auto simp: sealed_def split: fs_entry.splits)
  show "e = Directory 0x140 \<or> (\<exists>m b. e = Regular m b)" if "lookup fs2 (dest @ q) = Some e"
    using that link [of "dest @ q"] unfolding final
    by (cases "lookup fs1 (dest @ q)"; cases "the (lookup fs1 (dest @ q))") (auto simp: sealed_def)
  show "lookup fs2 r = lookup fs r" if out: "\<not> inside dest r"
  proof -
    have "r \<noteq> dest" using out by (auto simp: inside_def starts_with_iff)
    then show ?thesis using all out seal_lookup [OF sealing, of r] by (simp add: lookup_Cons)
  qed
qed

lemma created_export:
  assumes "create_exact_export lib (git_archive_bytes lib (Inr cfs)) dm ws label fs = Inr (dest, fs')"
  obtains fs1 where "dest = ws @ [label @ lit ''-src'']"
    "extract_exact_archive_bytes lib (tar_write lib (archive_members cfs)) dm dest fs = Inr fs1"
    "seal_read_only_tree dest fs1 = Inr fs'"
proof -
  obtain bs where a: "git_archive_bytes lib (Inr cfs) = Inr bs" using assms
    by (cases "git_archive_bytes lib (Inr cfs)") (simp_all add: create_exact_export_def)
  then have "bs = tar_write lib (archive_members cfs)"
    by (simp add: git_archive_bytes_def Let_def bindE_eq_Inr split: if_splits)
  with assms a that show ?thesis by (auto simp: create_exact_export_def Let_def bindE_eq_Inr)
qed

text \<open>A library whose only archive is the one of the commit of one file.\<close>

definition demo_tar :: tar_library where
  "demo_tar = \<lparr>tar_write = (\<lambda>ms. [0, 0]), tar_tell = (\<lambda>ms. length ms),
     tar_members = (\<lambda>_. Some (archive_members demo_commit_files))\<rparr>"

definition demo_workspace :: fs where
  "demo_workspace = [([lit ''w''], Directory 0x1C0), ([], Directory 0x1ED)]"

definition demo_export :: fs where
  "demo_export =
     [([lit ''w'', lit ''control-src'', lit ''tools'', lit ''mm.py''], Regular 0x100 [1, 2]),
      ([lit ''w'', lit ''control-src'', lit ''tools''], Directory 0x140),
      ([lit ''w'', lit ''control-src''], Directory 0x140)] @ demo_workspace"

lemma demo_export_made:
  "create_exact_export demo_tar (git_archive_bytes demo_tar (Inr demo_commit_files)) 0x1ED [lit ''w''] (lit ''control'') demo_workspace =
     Inr ([lit ''w''] @ [lit ''control'' @ lit ''-src''], demo_export)"
  by code_simp

section \<open>Property\<close>

text \<open>C20: The export of a commit is exactly the commit: once it has been made in a place that was free, the
  regular files below it are the files of the commit that were verified against their identities, at
  their paths and with their contents, readable and, for mode 100755, executable by the owner only;
  everything else below it is a directory that nobody can write to; and nothing outside it changed.\<close>

theorem export_exact:
  assumes "verified_commit_files sha1 ps g commit None = (Inr cfs, cache)"
    and "tar_members lib (tar_write lib (archive_members cfs)) = Some (archive_members cfs)"
    and "\<forall>q. inside (ws @ [label @ lit ''-src'']) q \<longrightarrow> lookup fs q = None"
    and "create_exact_export lib (git_archive_bytes lib (Inr cfs)) dm ws label fs = Inr (dest, fs')"
  shows "dest = ws @ [label @ lit ''-src''] \<and>
    (\<forall>q m b. lookup fs' (dest @ q) = Some (Regular m b) \<longleftrightarrow> exported_file cfs q m b) \<and>
    (\<forall>q e. lookup fs' (dest @ q) = Some e \<longrightarrow> e = Directory 0x140 \<or> (\<exists>m b. e = Regular m b)) \<and>
    (\<forall>r. \<not> inside dest r \<longrightarrow> lookup fs' r = lookup fs r)"
proof -
  obtain w where "walk_ok sha1 w" "files w = cfs" using verified_files_ok [OF assms(1)] by blast
  then have safe: "\<forall>f \<in> set cfs. safe_path (fst f)" by (auto simp: walk_ok_def file_ok_def)
  obtain fs1 where export: "dest = ws @ [label @ lit ''-src'']"
    "extract_exact_archive_bytes lib (tar_write lib (archive_members cfs)) dm dest fs = Inr fs1"
    "seal_read_only_tree dest fs1 = Inr fs'" by (rule created_export [OF assms(4)])
  show ?thesis
    using export(1) export_entries [OF safe assms(2) assms(3) [folded export(1)] export(2,3)] by blast
qed

theorem export_exact_witness:
  "\<exists>dest. lookup demo_export (dest @ [lit ''tools'', lit ''mm.py'']) = Some (Regular 0x100 [1, 2]) \<and>
     exported_file demo_commit_files [lit ''tools'', lit ''mm.py''] 0x100 [1, 2] \<and> dest = [lit ''w'', lit ''control-src'']"
proof -
  have lib: "tar_members demo_tar (tar_write demo_tar (archive_members demo_commit_files)) = Some (archive_members demo_commit_files)"
    by (simp add: demo_tar_def)
  have free: "\<forall>q. inside ([lit ''w''] @ [lit ''control'' @ lit ''-src'']) q \<longrightarrow> lookup demo_workspace q = None"
    by (auto simp: demo_workspace_def inside_def starts_with_iff)
  note e = export_exact [OF demo_commit_read lib free demo_export_made]
  have "exported_file demo_commit_files [lit ''tools'', lit ''mm.py''] 0x100 [1, 2]" by code_simp
  with e show ?thesis by (auto simp: lit_def)
qed

end
