(* ===== verification/File_Copies.thy ===== *)
theory File_Copies
  imports Workspace Commit_Files
begin

text \<open>
  The stable hash and the bounded copies of \<open>tools/moriarty_isolation.py\<close>: \<open>_sha256_regular_file\<close>,
  \<open>_copy_regular_file\<close> and \<open>_copy_regular_tree\<close>. What the system calls answer about a source is a
  \<open>file_view\<close>; a copy is read back through a view of its own, which \<open>reread\<close> gives for every path, so
  that a copy somebody changes before it is read back is part of the model.
\<close>

section \<open>Hashing\<close>

record file_view =
  fv_lstat :: "inode_info option"
  fv_symlink :: bool
  fv_is_file :: bool
  fv_open :: "nat + opened_file"

definition same_content_state :: "inode_info \<Rightarrow> inode_info \<Rightarrow> bool" where
  "same_content_state a b \<longleftrightarrow> st_dev a = st_dev b \<and> st_ino a = st_ino b \<and> st_size a = st_size b \<and>
     st_mtime_ns a = st_mtime_ns b"

text \<open>An empty answer of \<open>os.read\<close> is the end of the file.\<close>

definition data_chunks :: "opened_file \<Rightarrow> bytes list" where
  "data_chunks f = takeWhile (\<lambda>c. c \<noteq> []) (read_chunks f)"

definition content_read :: "opened_file \<Rightarrow> bytes" where
  "content_read f = concat (data_chunks f)"

definition over :: "nat option \<Rightarrow> nat \<Rightarrow> bool" where
  "over limit n \<longleftrightarrow> (case limit of None \<Rightarrow> False | Some m \<Rightarrow> m < n)"

fun read_bounded :: "nat option \<Rightarrow> exn \<Rightarrow> nat \<Rightarrow> bytes list \<Rightarrow> nat result" where
  "read_bounded limit err count [] = Inr count"
| "read_bounded limit err count (c # cs) =
     (if over limit (count + length c) then Inl err else read_bounded limit err (count + length c) cs)"

definition sha256_regular_file ::
  "(bytes \<Rightarrow> bytes) \<Rightarrow> file_view \<Rightarrow> nat option \<Rightarrow> exn \<Rightarrow> pystr result" where
  "sha256_regular_file sha256 v limit err = (case fv_lstat v of
     None \<Rightarrow> Inl (SystemExit ''moriarty_regular_file_unavailable'')
   | Some initial \<Rightarrow>
       if fv_symlink v \<or> \<not> S_ISREG (st_mode initial) then Inl (SystemExit ''moriarty_regular_file_required'')
       else if over limit (st_size initial) then Inl err
       else case fv_open v of
         Inl n \<Rightarrow> Inl (OSError n)
       | Inr f \<Rightarrow>
           if \<not> same_content_state (fstat_opened f) initial
           then Inl (SystemExit ''moriarty_regular_file_changed_before_hash'')
           else bindE (read_bounded limit err 0 (data_chunks f)) (\<lambda>count.
             if \<not> same_content_state (fstat_final f) (fstat_opened f) \<or> count \<noteq> st_size (fstat_opened f)
             then Inl (SystemExit ''moriarty_regular_file_changed_during_hash'')
             else Inr (hexdigest (sha256 (content_read f)))))"

section \<open>Copying a file\<close>

type_synonym reader = "path \<Rightarrow> file_view"

definition no_limit :: exn where "no_limit = SystemExit ''moriarty_regular_file_too_large''"

definition copy_regular_file ::
  "(bytes \<Rightarrow> bytes) \<Rightarrow> reader \<Rightarrow> nat \<Rightarrow> pystr \<Rightarrow> file_view \<Rightarrow> path \<Rightarrow> pystr option \<Rightarrow> nat option \<Rightarrow> exn \<Rightarrow> fs \<Rightarrow> fs result" where
  "copy_regular_file sha256 reread dm source_name v destination expected limit err fs =
     (if fv_symlink v \<or> \<not> fv_is_file v then Inl (SystemExit ''moriarty_copy_source_nonregular'')
      else bindE (mkdirs dm fs [] (butlast destination)) (\<lambda>fs1.
      case fv_open v of
        Inl n \<Rightarrow> Inl (OSError n)
      | Inr f \<Rightarrow>
          bindE (create_file destination 0x180 (content_read f) fs1) (\<lambda>fs2.
          bindE (read_bounded limit err 0 (data_chunks f)) (\<lambda>_.
          let digest = hexdigest (sha256 (content_read f)) in
          if expected \<noteq> None \<and> expected \<noteq> Some digest
          then Inl (SystemExitFor ''moriarty_cargo_archive_checksum_mismatch:'' source_name)
          else bindE (sha256_regular_file sha256 (reread destination) None no_limit) (\<lambda>copied.
            if copied \<noteq> digest then Inl (SystemExit ''moriarty_copy_digest_mismatch'') else Inr fs2)))))"

section \<open>Copying a tree\<close>

text \<open>
  One round of \<open>os.walk\<close>: the directory's path below the source, its directories, each with whether it
  is a symbolic link, and its other entries.
\<close>

record walk_round =
  wr_relative :: "pystr list"
  wr_dirs :: "(pystr \<times> bool) list"
  wr_files :: "(pystr \<times> file_view) list"

record tree_limits =
  max_entries :: "nat option"
  max_bytes :: "nat option"
  max_depth :: "nat option"
  bound_prefix :: string

record copy_state =
  cp_entries :: nat
  cp_bytes :: nat
  cp_fs :: fs

definition bound_error :: "tree_limits \<Rightarrow> string \<Rightarrow> exn" where
  "bound_error l what = SystemExit (bound_prefix l @ ''_'' @ what @ ''_exceeded'')"

definition copy_tree_file ::
  "(bytes \<Rightarrow> bytes) \<Rightarrow> reader \<Rightarrow> nat \<Rightarrow> tree_limits \<Rightarrow> path \<Rightarrow> copy_state \<Rightarrow> pystr \<times> file_view \<Rightarrow> copy_state result" where
  "copy_tree_file sha256 reread dm l output_dir st nv = (case nv of (name, v) \<Rightarrow>
     if fv_symlink v \<or> \<not> fv_is_file v then Inl (SystemExit ''moriarty_cargo_cache_nonregular_file'')
     else if over (max_bytes l) (cp_bytes st) then Inl (bound_error l ''bytes'')
     else bindE (copy_regular_file sha256 reread dm name v (output_dir @ [name]) None
         (map_option (\<lambda>m. m - cp_bytes st) (max_bytes l)) (bound_error l ''bytes'') (cp_fs st)) (\<lambda>fs'.
       case fv_lstat (reread (output_dir @ [name])) of
         None \<Rightarrow> Inl (OSError ENOENT)
       | Some info \<Rightarrow>
           if over (max_bytes l) (cp_bytes st + st_size info) then Inl (bound_error l ''bytes'')
           else Inr (st\<lparr>cp_bytes := cp_bytes st + st_size info, cp_fs := fs'\<rparr>)))"

definition copy_tree_round ::
  "(bytes \<Rightarrow> bytes) \<Rightarrow> reader \<Rightarrow> nat \<Rightarrow> tree_limits \<Rightarrow> path \<Rightarrow> copy_state \<Rightarrow> walk_round \<Rightarrow> copy_state result" where
  "copy_tree_round sha256 reread dm l destination st r =
     (let output_dir = destination @ wr_relative r;
          entries = cp_entries st + length (wr_dirs r) + length (wr_files r) in
      if over (max_depth l) (length (wr_relative r)) then Inl (bound_error l ''depth'')
      else bindE (mkdirs dm (cp_fs st) [] output_dir) (\<lambda>fs1.
      if over (max_entries l) entries then Inl (bound_error l ''entries'')
      else if list_ex snd (wr_dirs r) then Inl (SystemExit ''moriarty_cargo_cache_symlink_forbidden'')
      else foldE (copy_tree_file sha256 reread dm l output_dir) (st\<lparr>cp_entries := entries, cp_fs := fs1\<rparr>) (wr_files r)))"

text \<open>The source is None when it does not exist.\<close>

definition copy_regular_tree ::
  "(bytes \<Rightarrow> bytes) \<Rightarrow> reader \<Rightarrow> nat \<Rightarrow> tree_limits \<Rightarrow> walk_round list option \<Rightarrow> path \<Rightarrow> fs \<Rightarrow> fs result" where
  "copy_regular_tree sha256 reread dm l source destination fs = (case source of
     None \<Rightarrow> Inr fs
   | Some rounds \<Rightarrow>
       bindE (mkdirs dm fs [] destination) (\<lambda>fs1.
       bindE (foldE (copy_tree_round sha256 reread dm l destination)
         \<lparr>cp_entries = 0, cp_bytes = 0, cp_fs = fs1\<rparr> rounds) (\<lambda>st. Inr (cp_fs st))))"

section \<open>What a copy is\<close>

lemma over_simps [simp]: "over None n = False" "over (Some m) n = (m < n)"
  by (simp_all add: over_def)

lemma read_bounded_Inr:
  "read_bounded limit err count cs = Inr n \<Longrightarrow> n = count + length (concat cs) \<and> (cs = [] \<or> \<not> over limit n)"
proof (induction cs arbitrary: count)
  case (Cons c cs)
  from Cons.prems have "read_bounded limit err (count + length c) cs = Inr n" "\<not> over limit (count + length c)"
    by (auto split: if_splits)
  with Cons.IH [of "count + length c"] show ?case by auto
qed simp

lemma sha256_regular_file_Inr:
  assumes "sha256_regular_file sha256 v limit err = Inr d"
  obtains initial f where "fv_lstat v = Some initial" "S_ISREG (st_mode initial)" "\<not> fv_symlink v" "fv_open v = Inr f"
    "d = hexdigest (sha256 (content_read f))" "length (content_read f) = st_size initial" "\<not> over limit (st_size initial)"
proof -
  from assms obtain initial f count where s: "fv_lstat v = Some initial" "S_ISREG (st_mode initial)" "\<not> fv_symlink v"
    "fv_open v = Inr f" "\<not> over limit (st_size initial)" "same_content_state (fstat_opened f) initial"
    "read_bounded limit err 0 (data_chunks f) = Inr count" "count = st_size (fstat_opened f)"
    "d = hexdigest (sha256 (content_read f))"
    by (auto simp: sha256_regular_file_def bindE_eq_Inr split: option.splits if_splits sum.splits)
  with read_bounded_Inr [OF s(7)] that show ?thesis by (simp add: same_content_state_def content_read_def)
qed

lemma hexdigest_sha_inject: "hexdigest (h a) = hexdigest (h b) \<Longrightarrow> a = b \<or> collision h"
  by (auto simp: collision_def dest: hexdigest_inject)

text \<open>A copy that succeeded: the file it added, and what was read back of it.\<close>

lemma copy_regular_file_Inr:
  assumes "copy_regular_file sha256 reread dm source_name v dest expected limit err fs = Inr fs'"
  obtains fs1 f info where "mkdirs dm fs [] (butlast dest) = Inr fs1" "lookup fs1 dest = None"
    "fs' = (dest, Regular 0x180 (content_read f)) # fs1" "fv_open v = Inr f" "\<not> fv_symlink v" "fv_is_file v"
    "\<not> over limit (length (content_read f)) \<or> content_read f = []"
    "expected \<noteq> None \<Longrightarrow> expected = Some (hexdigest (sha256 (content_read f)))"
    "fv_lstat (reread dest) = Some info" "st_size info = length (content_read f) \<or> collision sha256"
proof -
  obtain f where f: "fv_open v = Inr f"
    using assms by (cases "fv_open v") (auto simp: copy_regular_file_def bindE_eq_Inr split: if_splits)
  from assms obtain fs1 n where s: "mkdirs dm fs [] (butlast dest) = Inr fs1" "\<not> fv_symlink v" "fv_is_file v"
    "fv_open v = Inr f" "lookup fs1 dest = None" "fs' = (dest, Regular 0x180 (content_read f)) # fs1"
    "read_bounded limit err 0 (data_chunks f) = Inr n"
    "expected \<noteq> None \<longrightarrow> expected = Some (hexdigest (sha256 (content_read f)))"
    "sha256_regular_file sha256 (reread dest) None no_limit = Inr (hexdigest (sha256 (content_read f)))"
    by (auto simp: copy_regular_file_def f bindE_eq_Inr create_file_eq Let_def split: if_splits)
  obtain info g where r: "fv_lstat (reread dest) = Some info" "fv_open (reread dest) = Inr g"
    "hexdigest (sha256 (content_read f)) = hexdigest (sha256 (content_read g))" "length (content_read g) = st_size info"
    by (rule sha256_regular_file_Inr [OF s(9)])
  have "content_read f = content_read g \<or> collision sha256" 
    using hexdigest_sha_inject [of sha256] r(3) by blast
  moreover have "\<not> over limit (length (content_read f)) \<or> content_read f = []"
    using read_bounded_Inr [OF s(7)] by (auto simp: content_read_def)
  ultimately show ?thesis using that [OF s(1,5,6,4,2,3) _ _ r(1)] s(8) r(4) by auto
qed

definition view_content :: "file_view \<Rightarrow> bytes" where
  "view_content v = (case fv_open v of Inr f \<Rightarrow> content_read f | Inl _ \<Rightarrow> [])"

lemma copy_regular_file_entries:
  assumes "copy_regular_file sha256 reread dm source_name v dest expected limit err fs = Inr fs'"
  shows "lookup fs' p = Some (Regular m b) \<longleftrightarrow>
      p = dest \<and> m = 0x180 \<and> b = view_content v \<or> lookup fs p = Some (Regular m b)"
    and "lookup fs' p = Some SymLink \<longleftrightarrow> lookup fs p = Some SymLink"
    and "lookup fs p = Some e \<Longrightarrow> lookup fs' p = Some e"
    and "expected \<noteq> None \<Longrightarrow> expected = Some (hexdigest (sha256 (view_content v)))"
    and "(\<exists>info. fv_lstat (reread dest) = Some info \<and> st_size info = length (view_content v)) \<or> collision sha256"
    and "\<not> fv_symlink v \<and> fv_is_file v"
    and "\<not> over limit (length (view_content v)) \<or> view_content v = []"
    and "lookup fs dest = None"
proof -
  obtain fs1 f info where s: "mkdirs dm fs [] (butlast dest) = Inr fs1" "lookup fs1 dest = None"
    "fs' = (dest, Regular 0x180 (content_read f)) # fs1" "fv_open v = Inr f" "\<not> fv_symlink v" "fv_is_file v"
    "\<not> over limit (length (content_read f)) \<or> content_read f = []"
    "expected \<noteq> None \<Longrightarrow> expected = Some (hexdigest (sha256 (content_read f)))"
    "fv_lstat (reread dest) = Some info" "st_size info = length (content_read f) \<or> collision sha256"
    by (rule copy_regular_file_Inr [OF assms]) blast
  have v: "view_content v = content_read f" by (simp add: view_content_def s(4))
  show "lookup fs' p = Some (Regular m b) \<longleftrightarrow>
      p = dest \<and> m = 0x180 \<and> b = view_content v \<or> lookup fs p = Some (Regular m b)"
    using mkdirs_regular [OF s(1), of p m b] s(2) by (auto simp: s(3) lookup_Cons v)
  show "lookup fs' p = Some SymLink \<longleftrightarrow> lookup fs p = Some SymLink"
    using mkdirs_grows [OF s(1), of p] s(2) by (auto simp: s(3) lookup_Cons)
  show "lookup fs' p = Some e" if "lookup fs p = Some e"
    using mkdirs_keeps [OF s(1) that] s(2) by (auto simp: s(3) lookup_Cons)
  show "lookup fs dest = None" using mkdirs_keeps [OF s(1)] s(2) by (cases "lookup fs dest") auto
  show "expected \<noteq> None \<Longrightarrow> expected = Some (hexdigest (sha256 (view_content v)))"
    "(\<exists>info. fv_lstat (reread dest) = Some info \<and> st_size info = length (view_content v)) \<or> collision sha256"
    "\<not> fv_symlink v \<and> fv_is_file v" "\<not> over limit (length (view_content v)) \<or> view_content v = []"
    using s(5-10) by (auto simp: v)
qed

text \<open>The files that a walk lists, at their places below the destination.\<close>

definition listed :: "path \<Rightarrow> walk_round list \<Rightarrow> (path \<times> file_view) list" where
  "listed dest rounds = concat (map (\<lambda>r. map (\<lambda>(n, v). (dest @ wr_relative r @ [n], v)) (wr_files r)) rounds)"

definition total_length :: "(path \<times> file_view) list \<Rightarrow> nat" where
  "total_length fvs = sum_list (map (\<lambda>(p, v). length (view_content v)) fvs)"

definition listed_entries :: "walk_round list \<Rightarrow> nat" where
  "listed_entries rounds = sum_list (map (\<lambda>r. length (wr_dirs r) + length (wr_files r)) rounds)"

text \<open>What copying a list of files does to the state of the copy.\<close>

definition copies :: "(bytes \<Rightarrow> bytes) \<Rightarrow> tree_limits \<Rightarrow> (path \<times> file_view) list \<Rightarrow> copy_state \<Rightarrow> copy_state \<Rightarrow> bool" where
  "copies sha256 l fvs st st' \<longleftrightarrow>
     (\<forall>p m b. lookup (cp_fs st') p = Some (Regular m b) \<longleftrightarrow>
        (m = 0x180 \<and> (\<exists>v. (p, v) \<in> set fvs \<and> b = view_content v)) \<or> lookup (cp_fs st) p = Some (Regular m b)) \<and>
     (\<forall>p. lookup (cp_fs st') p = Some SymLink \<longleftrightarrow> lookup (cp_fs st) p = Some SymLink) \<and>
     (\<forall>p e. lookup (cp_fs st) p = Some e \<longrightarrow> lookup (cp_fs st') p = Some e) \<and>
     (\<forall>(p, v) \<in> set fvs. \<not> fv_symlink v \<and> fv_is_file v) \<and>
     (cp_bytes st' = cp_bytes st + total_length fvs \<or> collision sha256) \<and>
     (fvs = [] \<and> cp_bytes st' = cp_bytes st \<or> \<not> over (max_bytes l) (cp_bytes st'))"

lemma copies_refl: "cp_fs st' = cp_fs st \<Longrightarrow> cp_bytes st' = cp_bytes st \<Longrightarrow> copies sha256 l [] st st'"
  by (simp add: copies_def total_length_def)

lemma copies_trans:
  assumes "copies sha256 l fvs st st1" and "copies sha256 l fvs' st1 st2"
  shows "copies sha256 l (fvs @ fvs') st st2"
  unfolding copies_def
proof (intro conjI allI)
  note a = assms(1) [unfolded copies_def] and b = assms(2) [unfolded copies_def]
  show "lookup (cp_fs st2) p = Some (Regular m d) \<longleftrightarrow>
      m = 0x180 \<and> (\<exists>v. (p, v) \<in> set (fvs @ fvs') \<and> d = view_content v) \<or> lookup (cp_fs st) p = Some (Regular m d)" for p m d
    using a b by auto
  show "lookup (cp_fs st2) p = Some SymLink \<longleftrightarrow> lookup (cp_fs st) p = Some SymLink" for p using a b by simp
  show "lookup (cp_fs st) p = Some e \<longrightarrow> lookup (cp_fs st2) p = Some e" for p e using a b by simp
  show "\<forall>(p, v) \<in> set (fvs @ fvs'). \<not> fv_symlink v \<and> fv_is_file v" using a b by auto
  show "cp_bytes st2 = cp_bytes st + total_length (fvs @ fvs') \<or> collision sha256" using a b by (auto simp: total_length_def)
  show "fvs @ fvs' = [] \<and> cp_bytes st2 = cp_bytes st \<or> \<not> over (max_bytes l) (cp_bytes st2)" using a b by auto
qed

lemma copy_tree_file_copies:
  assumes "copy_tree_file sha256 reread dm l out st (name, v) = Inr st'"
  shows "copies sha256 l [(out @ [name], v)] st st' \<and> cp_entries st' = cp_entries st"
proof -
  from assms obtain fs' info where c: "copy_regular_file sha256 reread dm name v (out @ [name]) None
      (map_option (\<lambda>m. m - cp_bytes st) (max_bytes l)) (bound_error l ''bytes'') (cp_fs st) = Inr fs'"
    "fv_lstat (reread (out @ [name])) = Some info" "\<not> over (max_bytes l) (cp_bytes st + st_size info)"
    "st' = st\<lparr>cp_bytes := cp_bytes st + st_size info, cp_fs := fs'\<rparr>"
    by (auto simp: copy_tree_file_def bindE_eq_Inr split: if_splits option.splits)
  note e = copy_regular_file_entries [OF c(1)]
  show ?thesis unfolding copies_def using e(1,2,3,5,6) c(2,3,4) by (auto simp: total_length_def)
qed

lemma copy_files_copies:
  "foldE (copy_tree_file sha256 reread dm l out) st nvs = Inr st' \<Longrightarrow>
     copies sha256 l (map (\<lambda>(n, v). (out @ [n], v)) nvs) st st' \<and> cp_entries st' = cp_entries st"
proof (induction nvs arbitrary: st)
  case Nil
  then show ?case by (simp add: copies_refl)
next
  case (Cons nv nvs)
  obtain n v where nv: "nv = (n, v)" by (cases nv)
  with Cons.prems obtain st1 where s: "copy_tree_file sha256 reread dm l out st (n, v) = Inr st1"
    "foldE (copy_tree_file sha256 reread dm l out) st1 nvs = Inr st'" by (auto simp: bindE_eq_Inr)
  from copy_tree_file_copies [OF s(1)] Cons.IH [OF s(2)] show ?case
    using copies_trans [of sha256 l "[(out @ [n], v)]" st st1] by (simp add: nv)
qed

lemma mkdirs_copies:
  assumes "mkdirs dm (cp_fs st) p ns = Inr fs1"
  shows "copies sha256 l [] st (st\<lparr>cp_entries := n, cp_fs := fs1\<rparr>)"
proof -
  have "lookup fs1 p = Some SymLink \<longleftrightarrow> lookup (cp_fs st) p = Some SymLink" for p
    using mkdirs_grows [OF assms, of p] by auto
  then show ?thesis unfolding copies_def
    using mkdirs_regular [OF assms] mkdirs_keeps [OF assms] by (simp add: total_length_def)
qed

lemma copy_round_copies:
  assumes "copy_tree_round sha256 reread dm l dest st r = Inr st'"
  shows "copies sha256 l (map (\<lambda>(n, v). (dest @ wr_relative r @ [n], v)) (wr_files r)) st st' \<and>
    cp_entries st' = cp_entries st + length (wr_dirs r) + length (wr_files r) \<and>
    \<not> over (max_entries l) (cp_entries st') \<and> \<not> over (max_depth l) (length (wr_relative r)) \<and>
    list_all (\<lambda>d. \<not> snd d) (wr_dirs r)"
proof -
  let ?n = "cp_entries st + length (wr_dirs r) + length (wr_files r)"
  from assms obtain fs1 where s: "mkdirs dm (cp_fs st) [] (dest @ wr_relative r) = Inr fs1"
    "foldE (copy_tree_file sha256 reread dm l (dest @ wr_relative r)) (st\<lparr>cp_entries := ?n, cp_fs := fs1\<rparr>) (wr_files r) = Inr st'"
    "\<not> over (max_entries l) ?n" "\<not> over (max_depth l) (length (wr_relative r))" "\<not> list_ex snd (wr_dirs r)"
    by (auto simp: copy_tree_round_def Let_def bindE_eq_Inr split: if_splits)
  from copy_files_copies [OF s(2)] copies_trans [OF mkdirs_copies [OF s(1), of sha256 l ?n]] s(3-5)
  show ?thesis by (simp add: list_all_iff list_ex_iff)
qed

lemma copy_rounds_copies:
  "foldE (copy_tree_round sha256 reread dm l dest) st rounds = Inr st' \<Longrightarrow>
     copies sha256 l (listed dest rounds) st st' \<and> cp_entries st' = cp_entries st + listed_entries rounds \<and>
     (rounds = [] \<or> \<not> over (max_entries l) (cp_entries st')) \<and>
     list_all (\<lambda>r. \<not> over (max_depth l) (length (wr_relative r)) \<and> list_all (\<lambda>d. \<not> snd d) (wr_dirs r)) rounds"
proof (induction rounds arbitrary: st)
  case Nil
  then show ?case by (simp add: copies_refl listed_def listed_entries_def)
next
  case (Cons r rounds)
  from Cons.prems obtain st1 where s: "copy_tree_round sha256 reread dm l dest st r = Inr st1"
    "foldE (copy_tree_round sha256 reread dm l dest) st1 rounds = Inr st'" by (auto simp: bindE_eq_Inr)
  note r = copy_round_copies [OF s(1)] and rs = Cons.IH [OF s(2)]
  have "copies sha256 l (listed dest (r # rounds)) st st'"
    using copies_trans [OF conjunct1 [OF r] conjunct1 [OF rs]] by (simp add: listed_def)
  moreover have "\<not> over (max_entries l) (cp_entries st')" using r rs s(2) by (cases "rounds = []") auto
  moreover have "cp_entries st' = cp_entries st + listed_entries (r # rounds)" using r rs by (simp add: listed_entries_def)
  moreover have "list_all (\<lambda>r. \<not> over (max_depth l) (length (wr_relative r)) \<and> list_all (\<lambda>d. \<not> snd d) (wr_dirs r)) (r # rounds)"
    using r rs by simp
  ultimately show ?case by blast
qed

text \<open>The regular files after a tree has been copied.\<close>

lemma copy_regular_tree_entries:
  assumes "copy_regular_tree sha256 reread dm l (Some rounds) dest fs = Inr fs'"
  shows "lookup fs' p = Some (Regular m b) \<longleftrightarrow>
      m = 0x180 \<and> (\<exists>v. (p, v) \<in> set (listed dest rounds) \<and> b = view_content v) \<or> lookup fs p = Some (Regular m b)"
    and "lookup fs' p = Some SymLink \<longleftrightarrow> lookup fs p = Some SymLink"
    and "lookup fs p = Some e \<Longrightarrow> lookup fs' p = Some e"
    and "rounds = [] \<or> \<not> over (max_entries l) (listed_entries rounds)"
    and "\<not> over (max_bytes l) (total_length (listed dest rounds)) \<or> listed dest rounds = [] \<or> collision sha256"
    and "list_all (\<lambda>r. \<not> over (max_depth l) (length (wr_relative r)) \<and> list_all (\<lambda>d. \<not> snd d) (wr_dirs r)) rounds"
    and "\<forall>(p, v) \<in> set (listed dest rounds). \<not> fv_symlink v \<and> fv_is_file v"
proof -
  let ?st = "\<lambda>fs. \<lparr>cp_entries = 0, cp_bytes = 0, cp_fs = fs\<rparr>"
  from assms obtain fs1 st where s: "mkdirs dm fs [] dest = Inr fs1"
    "foldE (copy_tree_round sha256 reread dm l dest) (?st fs1) rounds = Inr st" "fs' = cp_fs st"
    by (auto simp: copy_regular_tree_def bindE_eq_Inr)
  have "copies sha256 l [] (?st fs) (?st fs1)" using mkdirs_copies [of dm "?st fs" "[]" dest fs1 sha256 l 0] s(1) by simp
  from copies_trans [OF this conjunct1 [OF copy_rounds_copies [OF s(2)]]]
  have c: "copies sha256 l (listed dest rounds) (?st fs) st" by simp
  note d = c [unfolded copies_def]
  show "lookup fs' p = Some (Regular m b) \<longleftrightarrow>
      m = 0x180 \<and> (\<exists>v. (p, v) \<in> set (listed dest rounds) \<and> b = view_content v) \<or> lookup fs p = Some (Regular m b)"
    "lookup fs' p = Some SymLink \<longleftrightarrow> lookup fs p = Some SymLink"
    "lookup fs p = Some e \<Longrightarrow> lookup fs' p = Some e"
    using d by (simp_all add: s(3))
  show "\<forall>(p, v) \<in> set (listed dest rounds). \<not> fv_symlink v \<and> fv_is_file v"
    using d by blast
  show "\<not> over (max_bytes l) (total_length (listed dest rounds)) \<or> listed dest rounds = [] \<or> collision sha256"
    using d by auto
  show "rounds = [] \<or> \<not> over (max_entries l) (listed_entries rounds)"
    "list_all (\<lambda>r. \<not> over (max_depth l) (length (wr_relative r)) \<and> list_all (\<lambda>d. \<not> snd d) (wr_dirs r)) rounds"
    using copy_rounds_copies [OF s(2)] by auto
qed

end
