(* ===== verification/Py_Iter.thy ===== *)
theory Py_Iter
  imports Py_Values
begin

text \<open>Iteration over untyped values, shared by the readers of TOML and JSON documents.\<close>

text \<open>\<open>for x in v\<close>: a list, the characters of a string or the keys of a table; nothing else is iterable.\<close>

fun iterate :: "pyval \<Rightarrow> pyval list result" where
  "iterate (PList vs) = Inr vs"
| "iterate (PStr s) = Inr (map (\<lambda>c. PStr [c]) s)"
| "iterate (PDict d) = Inr (map (\<lambda>kv. PStr (fst kv)) d)"
| "iterate _ = Inl TypeError"

text \<open>\<open>v.get(k)\<close> of a value that need not be a dictionary.\<close>

definition vget :: "pyval \<Rightarrow> string \<Rightarrow> pyval result" where
  "vget v k = (case v of PDict d \<Rightarrow> Inr (dget d k) | _ \<Rightarrow> Inl AttributeError)"

lemma vget_Inr: "vget v k = Inr x \<longleftrightarrow> (\<exists>d. v = PDict d \<and> x = dget d k)"
  by (cases v) (auto simp: vget_def)

end
