(* ===== verification/Crate_Scan.thy ===== *)
theory Crate_Scan
  imports File_Copies Cargo_Manifest Py_Iter
begin

text \<open>
  The registry packages of \<open>Cargo.lock\<close> and the search for build hooks in their archives:
  \<open>_locked_registry_packages\<close>, \<open>_crate_archive_declares_build_hook\<close> and
  \<open>_unapproved_registry_build_hooks\<close> in \<open>tools/moriarty_isolation.py\<close>. \<open>tomllib\<close> is a parameter, None
  where it raises; \<open>tarfile\<close> gives the members of an archive in turn and how the archive ends.
\<close>

section \<open>The lock file\<close>

definition CARGO_PACKAGE_NAME_RE :: rx where
  "CARGO_PACKAGE_NAME_RE =
     Seq (Cls [rng CHR ''A'' CHR ''Z'', rng CHR ''a'' CHR ''z'', rng CHR ''0'' CHR ''9''])
       (Rep (Cls ([rng CHR ''A'' CHR ''Z'', rng CHR ''a'' CHR ''z'', rng CHR ''0'' CHR ''9''] @ chars ''_-'')) 0 127)"

definition CARGO_PACKAGE_VERSION_RE :: rx where
  "CARGO_PACKAGE_VERSION_RE =
     Seq (Cls [rng CHR ''A'' CHR ''Z'', rng CHR ''a'' CHR ''z'', rng CHR ''0'' CHR ''9''])
       (Rep (Cls ([rng CHR ''A'' CHR ''Z'', rng CHR ''a'' CHR ''z'', rng CHR ''0'' CHR ''9''] @ chars ''._+-'')) 0 127)"

definition MAX_CARGO_ARCHIVE_BYTES :: nat where "MAX_CARGO_ARCHIVE_BYTES = 64 * 1024 * 1024"
definition MAX_CARGO_ARCHIVE_SCAN_ENTRIES :: nat where "MAX_CARGO_ARCHIVE_SCAN_ENTRIES = 16384"
definition MAX_CARGO_ARCHIVE_SCAN_BYTES :: nat where "MAX_CARGO_ARCHIVE_SCAN_BYTES = 512 * 1024 * 1024"
definition MAX_CARGO_MANIFEST_BYTES :: nat where "MAX_CARGO_MANIFEST_BYTES = 1024 * 1024"

type_synonym package_identity = "pystr \<times> pystr \<times> pystr"

definition lower_hex :: "nat \<Rightarrow> bool" where
  "lower_hex c \<longleftrightarrow> 48 \<le> c \<and> c \<le> 57 \<or> 97 \<le> c \<and> c \<le> 102"

definition is_registry_source :: "pyval \<Rightarrow> bool" where
  "is_registry_source v \<longleftrightarrow> is_str v \<and> starts_with (str_of v) (lit ''registry+'')"

definition package_fields_ok :: "pydict \<Rightarrow> bool" where
  "package_fields_ok p \<longleftrightarrow>
     is_str (dget p ''name'') \<and> is_str (dget p ''version'') \<and> is_str (dget p ''checksum'') \<and>
     rx_match CARGO_PACKAGE_NAME_RE (str_of (dget p ''name'')) \<and>
     rx_match CARGO_PACKAGE_VERSION_RE (str_of (dget p ''version'')) \<and>
     length (str_of (dget p ''checksum'')) = 64 \<and> list_all lower_hex (str_of (dget p ''checksum''))"

definition lock_package :: "package_identity list \<Rightarrow> pyval \<Rightarrow> package_identity list result" where
  "lock_package packages package =
     (if \<not> is_dict package then Inl (SystemExit ''moriarty_cargo_lock_package_invalid'')
      else let p = dict_of package in
        if \<not> is_registry_source (dget p ''source'') then Inr packages
        else if \<not> package_fields_ok p then Inl (SystemExit ''moriarty_cargo_lock_registry_package_invalid'')
        else Inr (packages @ [(str_of (dget p ''name''), str_of (dget p ''version''), str_of (dget p ''checksum''))]))"

text \<open>\<open>lock\<close> is None when the file cannot be read, decoded or parsed.\<close>

definition locked_registry_packages :: "pydict option \<Rightarrow> package_identity list result" where
  "locked_registry_packages lock = (case lock of
     None \<Rightarrow> Inl (SystemExit ''moriarty_cargo_lock_parse_failed'')
   | Some value \<Rightarrow>
       bindE (if has_key value ''package'' then iterate (dget value ''package'') else Inr []) (\<lambda>entries.
       bindE (foldE lock_package [] entries) (\<lambda>packages.
       if packages = [] then Inl (SystemExit ''moriarty_cargo_lock_registry_packages_missing'') else Inr packages)))"

definition crate_filename :: "package_identity \<Rightarrow> pystr" where
  "crate_filename p = (case p of (name, version, checksum) \<Rightarrow> name @ lit ''-'' @ version @ lit ''.crate'')"

section \<open>The members of an archive\<close>

datatype member_read = NotAFile | ReadTarError | ReadOSError | Data bytes

record scan_member =
  sm_name :: pystr
  sm_size :: int
  sm_isfile :: bool
  sm_read :: member_read

datatype stream_end = StreamEnd | StreamTarError | StreamOSError

type_synonym member_stream = "scan_member list \<times> stream_end"

record scan =
  sc_entries :: nat
  sc_expanded :: int
  sc_manifest :: "bytes option"
  sc_build_rs :: bool

definition start_scan :: scan where
  "start_scan = \<lparr>sc_entries = 0, sc_expanded = 0, sc_manifest = None, sc_build_rs = False\<rparr>"

text \<open>\<open>s.rstrip("/")\<close>.\<close>

definition strip_slashes :: "pystr \<Rightarrow> pystr" where
  "strip_slashes s = rev (dropWhile (\<lambda>c. c = 47) (rev s))"

definition read_manifest :: "(string \<Rightarrow> exn) \<Rightarrow> scan_member \<Rightarrow> bytes result" where
  "read_manifest failed m = (case sm_read m of
     NotAFile \<Rightarrow> Inl (failed ''manifest_unreadable'')
   | ReadTarError \<Rightarrow> Inl TarError
   | ReadOSError \<Rightarrow> Inl (OSError 5)
   | Data d \<Rightarrow> if MAX_CARGO_MANIFEST_BYTES < length (take (MAX_CARGO_MANIFEST_BYTES + 1) d)
              then Inl (failed ''manifest_too_large'') else Inr (take (MAX_CARGO_MANIFEST_BYTES + 1) d))"

definition scan_one :: "(string \<Rightarrow> exn) \<Rightarrow> pystr \<Rightarrow> scan \<Rightarrow> scan_member \<Rightarrow> scan result" where
  "scan_one failed root_name s0 m =
     (let s = s0\<lparr>sc_entries := sc_entries s0 + 1, sc_expanded := sc_expanded s0 + sm_size m\<rparr>;
          raw_name = sm_name m; prefix = root_name @ [47] in
      if MAX_CARGO_ARCHIVE_SCAN_ENTRIES < sc_entries s then Inl (failed ''scan_entries_exceeded'')
      else if sm_size m < 0 then Inl (failed ''member_size_invalid'')
      else if int MAX_CARGO_ARCHIVE_SCAN_BYTES < sc_expanded s then Inl (failed ''scan_bytes_exceeded'')
      else if strip_slashes raw_name = root_name then Inr s
      else if \<not> starts_with raw_name prefix then Inl (failed ''member_root_invalid'')
      else let relative_text = drop (length prefix) raw_name; parts = path_parts relative_text in
        if starts_with relative_text [47] \<or> parts = [] \<or> lit ''..'' \<in> set parts then Inl (failed ''member_path_invalid'')
        else let s' = (if parts = [lit ''build.rs''] \<and> sm_isfile m then s\<lparr>sc_build_rs := True\<rparr> else s) in
          if parts = [lit ''Cargo.toml''] \<and> sm_isfile m
          then bindE (read_manifest failed m) (\<lambda>d. Inr (s'\<lparr>sc_manifest := Some d\<rparr>))
          else Inr s')"

definition scan_stream :: "(string \<Rightarrow> exn) \<Rightarrow> pystr \<Rightarrow> member_stream \<Rightarrow> scan result" where
  "scan_stream failed root_name stream =
     bindE (foldE (scan_one failed root_name) start_scan (fst stream)) (\<lambda>s.
     case snd stream of StreamEnd \<Rightarrow> Inr s | StreamTarError \<Rightarrow> Inl TarError | StreamOSError \<Rightarrow> Inl (OSError 5))"

section \<open>The decision\<close>

definition manifest_hook :: "(string \<Rightarrow> exn) \<Rightarrow> bool \<Rightarrow> pydict \<Rightarrow> bool result" where
  "manifest_hook failed root_build_rs manifest =
     (let package = dget manifest ''package'' in
      if \<not> is_dict package then Inl (failed ''package_invalid'')
      else let declared_build = dget (dict_of package) ''build''; links = dget (dict_of package) ''links'' in
        if declared_build \<noteq> PNone \<and> declared_build \<noteq> PBool False \<and> \<not> is_str declared_build
        then Inl (failed ''build_field_invalid'')
        else if links \<noteq> PNone \<and> \<not> is_str links then Inl (failed ''links_field_invalid'')
        else Inr (declared_build = PNone \<and> root_build_rs \<or> is_str declared_build \<or> links \<noteq> PNone))"

definition archive_failure :: "pystr \<Rightarrow> string \<Rightarrow> exn" where
  "archive_failure filename what = SystemExitFor (''moriarty_cargo_archive_'' @ what @ '':'') filename"

definition crate_archive_declares_build_hook ::
  "(pystr \<Rightarrow> pydict option) \<Rightarrow> member_stream \<Rightarrow> pystr \<Rightarrow> pystr \<Rightarrow> pystr \<Rightarrow> bool result" where
  "crate_archive_declares_build_hook toml stream filename name version =
     (let failed = archive_failure filename in
      case scan_stream failed (name @ lit ''-'' @ version) stream of
        Inl TarError \<Rightarrow> Inr False
      | Inl (OSError n) \<Rightarrow> Inl (failed ''scan_failed'')
      | Inl e \<Rightarrow> Inl e
      | Inr s \<Rightarrow> (case sc_manifest s of
          None \<Rightarrow> Inl (failed ''manifest_missing'')
        | Some manifest_bytes \<Rightarrow> (case utf8_decode manifest_bytes of
            Inl _ \<Rightarrow> Inl (failed ''manifest_invalid'')
          | Inr source \<Rightarrow> (case toml source of
              None \<Rightarrow> Inl (failed ''manifest_invalid'')
            | Some manifest \<Rightarrow> manifest_hook failed (sc_build_rs s) manifest))))"

section \<open>The cache\<close>

text \<open>
  The cache of the user: its root if it exists, the namespaces in which a file name is found, what
  paths resolve to, and what the files answer each time they are opened - for the hash before the scan,
  for the scan, for the hash of the template and for the copy.
\<close>

datatype use = HookHash | TemplateHash | TemplateCopy

record cargo_cache =
  cc_root :: "path option"
  cc_glob :: "pystr \<Rightarrow> pystr list"
  cc_resolve :: "path \<Rightarrow> path option"
  cc_view :: "use \<Rightarrow> path \<Rightarrow> file_view"
  cc_stream :: "path \<Rightarrow> member_stream"

definition resolved :: "cargo_cache \<Rightarrow> path \<Rightarrow> path result" where
  "resolved c p = (case cc_resolve c p of None \<Rightarrow> Inl (OSError ENOENT) | Some q \<Rightarrow> Inr q)"

definition cache_root_resolved :: "cargo_cache \<Rightarrow> path option result" where
  "cache_root_resolved c = (case cc_root c of
     None \<Rightarrow> Inr None | Some r \<Rightarrow> bindE (resolved c r) (\<lambda>q. Inr (Some q)))"

definition candidate_paths :: "cargo_cache \<Rightarrow> pystr \<Rightarrow> path list" where
  "candidate_paths c filename = (case cc_root c of
     None \<Rightarrow> [] | Some r \<Rightarrow> map (\<lambda>ns. r @ [ns, filename]) (sort (cc_glob c filename)))"

text \<open>The digest of a candidate that is a regular file; None is \<open>continue\<close>.\<close>

definition candidate_digest ::
  "(bytes \<Rightarrow> bytes) \<Rightarrow> cargo_cache \<Rightarrow> use \<Rightarrow> path option \<Rightarrow> pystr \<Rightarrow> path \<Rightarrow> pystr option result" where
  "candidate_digest sha256 c u root_resolved filename p =
     (let v = cc_view c u p in
      if fv_is_file v \<and> \<not> fv_symlink v
      then bindE (resolved c p) (\<lambda>q.
        if root_resolved = None \<or> \<not> inside (the root_resolved) q
        then Inl (SystemExit ''moriarty_cargo_archive_escaped_cache_root'')
        else bindE (sha256_regular_file sha256 v (Some MAX_CARGO_ARCHIVE_BYTES)
          (SystemExitFor ''moriarty_cargo_archive_too_large:'' filename)) (\<lambda>d. Inr (Some d)))
      else Inr None)"

fun first_matching ::
  "(bytes \<Rightarrow> bytes) \<Rightarrow> cargo_cache \<Rightarrow> path option \<Rightarrow> pystr \<Rightarrow> pystr \<Rightarrow> path list \<Rightarrow> path option result" where
  "first_matching sha256 c root_resolved filename checksum [] = Inr None"
| "first_matching sha256 c root_resolved filename checksum (p # ps) =
     bindE (candidate_digest sha256 c HookHash root_resolved filename p) (\<lambda>d.
       if d = Some checksum then Inr (Some p) else first_matching sha256 c root_resolved filename checksum ps)"

definition TRUSTED_REGISTRY_BUILD_HOOK_ARCHIVES :: "package_identity list" where
  "TRUSTED_REGISTRY_BUILD_HOOK_ARCHIVES = map (\<lambda>(n, v, c). (lit n, lit v, lit c))
    [(''curve25519-dalek'', ''4.1.3'', ''97fb8b7c4503de7d6ae7b42ab72a5a59857b4c937ec27a3d4539dba95b5ab2be''),
     (''generic-array'', ''0.14.7'', ''85649ca51fd72272d7821adaf274ad91c288277713d9c18820d8499a7ff69e9a''),
     (''httparse'', ''1.10.1'', ''6dbf3de79e51f3d586ab4cb9d5c3e2c14aa28ed23d180cf89b4df0454a69cc87''),
     (''libc'', ''0.2.189'', ''3eaf3ede3fee6db1a4c2ee091bf8a8b4dccdc6d17f656fb07896ee72867612f2''),
     (''num-traits'', ''0.2.19'', ''071dfc062690e90b734c0b2273ce72ad0ffa95f0c74596bc250dcfd960262841''),
     (''proc-macro2'', ''1.0.107'', ''985e7ec9bb745e6ce6535b544d84d6cd6f7ad8bd711c398938ae983b91a766d9''),
     (''quote'', ''1.0.47'', ''1fbf4db142a473a8d80c26bbf18454ed458bf8d26c8219c331daecfdbd079001''),
     (''serde'', ''1.0.229'', ''4148590afebada386688f18773da617792bf2ef03ffc1e4cbd2b1d45b023e0ba''),
     (''serde_core'', ''1.0.229'', ''67dca2c9c51e58a4791a4b1ed58308b39c64224d349a935ab5039aa360942a48''),
     (''serde_json'', ''1.0.151'', ''c841b55ecdae098c80dcae9cf767f6f8a0c2cdb3416bbef72181df4d0fe73f14''),
     (''zmij'', ''1.0.23'', ''29666d0abbfad1e3dc4dcf6144730dd3a3ab225bbbdac83319345b1b44ccfc1b'')]"

text \<open>One package: the set of unapproved identities, without repetitions, grows.\<close>

definition check_hook ::
  "(bytes \<Rightarrow> bytes) \<Rightarrow> (pystr \<Rightarrow> pydict option) \<Rightarrow> cargo_cache \<Rightarrow> path option \<Rightarrow> package_identity list \<Rightarrow> package_identity \<Rightarrow>
    package_identity list result" where
  "check_hook sha256 toml c root_resolved unapproved p = (case p of (name, version, checksum) \<Rightarrow>
     let filename = crate_filename p in
     bindE (first_matching sha256 c root_resolved filename checksum (candidate_paths c filename)) (\<lambda>selected.
     case selected of
       None \<Rightarrow> Inr unapproved
     | Some path \<Rightarrow>
         bindE (crate_archive_declares_build_hook toml (cc_stream c path) filename name version) (\<lambda>hook.
         Inr (if hook \<and> p \<notin> set TRUSTED_REGISTRY_BUILD_HOOK_ARCHIVES then List.insert p unapproved else unapproved))))"

definition unapproved_registry_build_hooks ::
  "(bytes \<Rightarrow> bytes) \<Rightarrow> (pystr \<Rightarrow> pydict option) \<Rightarrow> cargo_cache \<Rightarrow> pydict option \<Rightarrow> package_identity list result" where
  "unapproved_registry_build_hooks sha256 toml c lock =
     bindE (cache_root_resolved c) (\<lambda>root_resolved.
     bindE (locked_registry_packages lock) (\<lambda>packages.
     bindE (foldE (check_hook sha256 toml c root_resolved) [] packages) (\<lambda>unapproved.
     Inr (sort_key (\<lambda>(name, version, checksum). [name, version, checksum]) unapproved))))"

section \<open>What the decision means\<close>

text \<open>A regular member at the root of the package.\<close>

definition root_file :: "pystr \<Rightarrow> string \<Rightarrow> scan_member \<Rightarrow> bool" where
  "root_file root_name n m \<longleftrightarrow> sm_isfile m \<and> starts_with (sm_name m) (root_name @ [47]) \<and>
     path_parts (drop (length root_name + 1) (sm_name m)) = [lit n]"

lemma strip_slashes_tail:
  assumes "strip_slashes (r @ t) = r"
  shows "set t \<subseteq> {47}"
proof -
  let ?P = "\<lambda>c. c = 47" and ?xs = "rev (r @ t)"
  have d: "rev (dropWhile ?P ?xs) = r" using assms by (simp only: strip_slashes_def)
  have "r @ t = rev (dropWhile ?P ?xs) @ rev (takeWhile ?P ?xs)"
    by (metis rev_append rev_rev_ident takeWhile_dropWhile_id)
  from this [unfolded d] have "t = rev (takeWhile ?P ?xs)" by (simp only: same_append_eq)
  then have "set t = set (takeWhile ?P ?xs)" by (metis set_rev)
  then show ?thesis using set_takeWhileD by fastforce
qed

lemma split_all_slashes: "set t \<subseteq> {47} \<Longrightarrow> path_parts t = []"
proof -
  have "set t \<subseteq> {47} \<Longrightarrow> set (split_all 47 t) \<subseteq> {[]}" by (induction t) auto
  then show "set t \<subseteq> {47} \<Longrightarrow> path_parts t = []" by (auto simp: path_parts_def filter_empty_conv)
qed

lemma root_member_skipped:
  assumes "strip_slashes (sm_name m) = root_name"
  shows "\<not> root_file root_name n m"
proof
  assume r: "root_file root_name n m"
  then obtain t where t: "sm_name m = root_name @ 47 # t" by (auto simp: root_file_def starts_with_iff)
  from strip_slashes_tail [of root_name "47 # t"] assms t have "set t \<subseteq> {47}" by simp
  with split_all_slashes [of t] r t show False by (simp add: root_file_def)
qed

lemma scan_one_Inr:
  assumes "scan_one failed root_name s m = Inr s'"
  shows "sc_entries s' = sc_entries s + 1 \<and> sc_entries s' \<le> MAX_CARGO_ARCHIVE_SCAN_ENTRIES \<and>
    sc_expanded s' = sc_expanded s + sm_size m \<and> sc_expanded s' \<le> int MAX_CARGO_ARCHIVE_SCAN_BYTES \<and> 0 \<le> sm_size m \<and>
    sc_build_rs s' = (sc_build_rs s \<or> root_file root_name ''build.rs'' m) \<and>
    (if root_file root_name ''Cargo.toml'' m
     then \<exists>d. sm_read m = Data d \<and> length d \<le> MAX_CARGO_MANIFEST_BYTES \<and> sc_manifest s' = Some d
     else sc_manifest s' = sc_manifest s)"
proof (cases "strip_slashes (sm_name m) = root_name")
  case True
  with assms root_member_skipped [OF True] show ?thesis by (auto simp: scan_one_def Let_def split: if_splits)
next
  case False
  have split: "starts_with (sm_name m) (root_name @ [47])"
    using assms False by (auto simp: scan_one_def Let_def split: if_splits)
  have data: "\<exists>d. sm_read m = Data d \<and> length d \<le> MAX_CARGO_MANIFEST_BYTES \<and> x = d" if "read_manifest failed m = Inr x" for x
    using that by (auto simp: read_manifest_def split: member_read.splits if_splits)
  show ?thesis using assms False split data
    by (auto simp: scan_one_def Let_def root_file_def bindE_eq_Inr split: if_splits)
qed

lemma scan_members_Inr:
  "foldE (scan_one failed root_name) s ms = Inr s' \<Longrightarrow>
     sc_entries s' = sc_entries s + length ms \<and> (ms = [] \<or> sc_entries s' \<le> MAX_CARGO_ARCHIVE_SCAN_ENTRIES) \<and>
     sc_expanded s' = sc_expanded s + sum_list (map sm_size ms) \<and> (ms = [] \<or> sc_expanded s' \<le> int MAX_CARGO_ARCHIVE_SCAN_BYTES) \<and>
     sc_build_rs s' = (sc_build_rs s \<or> list_ex (root_file root_name ''build.rs'') ms)"
proof (induction ms arbitrary: s)
  case (Cons m ms)
  from Cons.prems obtain s1 where s: "scan_one failed root_name s m = Inr s1" "foldE (scan_one failed root_name) s1 ms = Inr s'"
    by (auto simp: bindE_eq_Inr)
  from scan_one_Inr [OF s(1)] Cons.IH [OF s(2)] s(2) show ?case by (cases "ms = []") auto
qed simp

text \<open>What an archive that needs no approval looks like.\<close>

definition hook_free :: "(pystr \<Rightarrow> pydict option) \<Rightarrow> pystr \<Rightarrow> member_stream \<Rightarrow> scan \<Rightarrow> bool" where
  "hook_free toml root_name stream s \<longleftrightarrow>
     snd stream = StreamEnd \<and> length (fst stream) \<le> MAX_CARGO_ARCHIVE_SCAN_ENTRIES \<and>
     sum_list (map sm_size (fst stream)) \<le> int MAX_CARGO_ARCHIVE_SCAN_BYTES \<and>
     (\<exists>d source manifest package. sc_manifest s = Some d \<and> utf8_decode d = Inr source \<and> toml source = Some manifest \<and>
        dget manifest ''package'' = PDict package \<and> dget package ''links'' = PNone \<and>
        (dget package ''build'' = PBool False \<or>
         dget package ''build'' = PNone \<and> list_all (\<lambda>m. \<not> root_file root_name ''build.rs'' m) (fst stream)))"

lemma manifest_hook_False:
  "manifest_hook failed rb manifest = Inr False \<longleftrightarrow>
     (\<exists>package. dget manifest ''package'' = PDict package \<and> dget package ''links'' = PNone \<and>
        (dget package ''build'' = PBool False \<or> dget package ''build'' = PNone \<and> \<not> rb))"
  by (cases "dget manifest ''package''") (auto simp: manifest_hook_def Let_def)

lemma no_hook_declared:
  assumes "crate_archive_declares_build_hook toml stream filename name version = Inr False"
  shows "scan_stream (archive_failure filename) (name @ lit ''-'' @ version) stream = Inl TarError \<or>
    (\<exists>s. scan_stream (archive_failure filename) (name @ lit ''-'' @ version) stream = Inr s \<and>
       hook_free toml (name @ lit ''-'' @ version) stream s)"
proof (cases "scan_stream (archive_failure filename) (name @ lit ''-'' @ version) stream")
  case (Inl e)
  then show ?thesis using assms by (cases e) (simp_all add: crate_archive_declares_build_hook_def Let_def)
next
  case (Inr s)
  then have fold: "foldE (scan_one (archive_failure filename) (name @ lit ''-'' @ version)) start_scan (fst stream) = Inr s"
    "snd stream = StreamEnd"
    by (cases "snd stream"; auto simp: scan_stream_def bindE_eq_Inr)+
  note f = scan_members_Inr [OF fold(1)]
  have hook: "\<exists>d source manifest. sc_manifest s = Some d \<and> utf8_decode d = Inr source \<and> toml source = Some manifest \<and>
      manifest_hook (archive_failure filename) (sc_build_rs s) manifest = Inr False"
    using assms Inr by (auto simp: crate_archive_declares_build_hook_def Let_def split: option.splits sum.splits)
  have "sc_build_rs s \<longleftrightarrow> \<not> list_all (\<lambda>m. \<not> root_file (name @ lit ''-'' @ version) ''build.rs'' m) (fst stream)"
    using f by (simp add: start_scan_def list_all_iff list_ex_iff)
  with hook fold(2) f show ?thesis
    by (cases "fst stream = []") (auto simp: Inr hook_free_def manifest_hook_False start_scan_def MAX_CARGO_ARCHIVE_SCAN_ENTRIES_def)
qed

text \<open>The hooks that are left when none is unapproved.\<close>

lemma check_hook_Nil:
  assumes "check_hook sha256 toml c rr u p = Inr []"
  shows "u = []"
  using assms by (auto simp: check_hook_def Let_def bindE_eq_Inr List.insert_def split: prod.splits option.splits if_splits)

lemma check_hooks_Nil: "foldE (check_hook sha256 toml c rr) u ps = Inr [] \<Longrightarrow>
    u = [] \<and> (\<forall>p \<in> set ps. check_hook sha256 toml c rr [] p = Inr [])"
proof (induction ps arbitrary: u)
  case (Cons p ps)
  from Cons.prems obtain u' where s: "check_hook sha256 toml c rr u p = Inr u'" "foldE (check_hook sha256 toml c rr) u' ps = Inr []"
    by (auto simp: bindE_eq_Inr)
  from Cons.IH [OF s(2)] s(1) check_hook_Nil [of sha256 toml c rr u p] show ?case by auto
qed simp

lemma hook_approved:
  assumes "check_hook sha256 toml c rr [] (name, version, checksum) = Inr []"
    and "first_matching sha256 c rr (crate_filename (name, version, checksum)) checksum
      (candidate_paths c (crate_filename (name, version, checksum))) = Inr (Some p)"
  shows "(name, version, checksum) \<in> set TRUSTED_REGISTRY_BUILD_HOOK_ARCHIVES \<or>
    crate_archive_declares_build_hook toml (cc_stream c p) (crate_filename (name, version, checksum)) name version = Inr False"
  using assms by (auto simp: check_hook_def Let_def bindE_eq_Inr split: if_splits)

end
