(* ===== verification/Cargo_Template.thy ===== *)
theory Cargo_Template
  imports Crate_Scan
begin

text \<open>
  The verified cache template and the Cargo homes made from it: \<open>create_verified_cargo_template\<close> (both
  its definitions), \<open>_owned_cargo_config\<close>, \<open>create_isolated_cargo_home\<close> and \<open>create_empty_cargo_home\<close>
  in \<open>tools/moriarty_isolation.py\<close>, and \<open>_fresh_cargo_home\<close> in \<open>tools/run_moriarty.py\<close>.
\<close>

section \<open>The template\<close>

definition MAX_CARGO_INDEX_BYTES :: nat where "MAX_CARGO_INDEX_BYTES = 16 * 1024 * 1024"
definition MAX_CARGO_INDEX_ENTRIES :: nat where "MAX_CARGO_INDEX_ENTRIES = 16384"
definition MAX_CARGO_INDEX_DEPTH :: nat where "MAX_CARGO_INDEX_DEPTH = 16"

definition index_limits :: tree_limits where
  "index_limits = \<lparr>max_entries = Some MAX_CARGO_INDEX_ENTRIES, max_bytes = Some MAX_CARGO_INDEX_BYTES,
     max_depth = Some MAX_CARGO_INDEX_DEPTH, bound_prefix = ''moriarty_cargo_index''\<rparr>"

text \<open>
  The world of a template: the cache, the lock file as it reads for the hooks and for the template, the
  walk of the index, the files read back, and the mode of a directory made without one.
\<close>

record template_world =
  tw_cache :: cargo_cache
  tw_hook_lock :: "pydict option"
  tw_lock :: "pydict option"
  tw_index :: "walk_round list option"
  tw_reread :: reader
  tw_default_mode :: nat

definition label_invalid :: "pystr \<Rightarrow> bool" where
  "label_invalid label \<longleftrightarrow> label = [] \<or> 47 \<in> set label \<or> 92 \<in> set label \<or> label = lit ''.'' \<or> label = lit ''..''"

text \<open>\<open>Path(s).name\<close>.\<close>

definition path_name :: "pystr \<Rightarrow> pystr" where
  "path_name s = (let parts = path_parts s in if parts = [] then [] else last parts)"

fun matching_candidates ::
  "(bytes \<Rightarrow> bytes) \<Rightarrow> cargo_cache \<Rightarrow> path option \<Rightarrow> pystr \<Rightarrow> pystr \<Rightarrow> path list \<Rightarrow> path list result" where
  "matching_candidates sha256 c root_resolved filename checksum [] = Inr []"
| "matching_candidates sha256 c root_resolved filename checksum (p # ps) =
     bindE (candidate_digest sha256 c TemplateHash root_resolved filename p) (\<lambda>d.
     bindE (matching_candidates sha256 c root_resolved filename checksum ps) (\<lambda>rest.
     Inr (if d = Some checksum then p # rest else rest)))"

definition registry :: "path \<Rightarrow> string \<Rightarrow> path" where
  "registry base part = base @ [lit ''registry'', lit part]"

definition template_package ::
  "(bytes \<Rightarrow> bytes) \<Rightarrow> template_world \<Rightarrow> path option \<Rightarrow> path \<Rightarrow> path \<Rightarrow> fs \<Rightarrow> package_identity \<Rightarrow> fs result" where
  "template_package sha256 w root_resolved template template_resolved fs p = (case p of (name, version, checksum) \<Rightarrow>
     let c = tw_cache w; filename = crate_filename p; candidates = candidate_paths c filename in
     if path_name filename \<noteq> filename \<or> 47 \<in> set filename \<or> 92 \<in> set filename
     then Inl (SystemExit ''moriarty_cargo_lock_registry_package_path_invalid'')
     else bindE (matching_candidates sha256 c root_resolved filename checksum candidates) (\<lambda>matching.
     case matching of
       [] \<Rightarrow> if candidates \<noteq> [] then Inl (SystemExitFor ''moriarty_cargo_archive_checksum_mismatch:'' filename) else Inr fs
     | selected # _ \<Rightarrow>
         let cache_namespace = last (butlast selected);
             destination = registry template ''cache'' @ [cache_namespace, filename] in
         if \<not> inside template destination \<or> \<not> inside template (butlast destination)
         then Inl (SystemExit ''moriarty_cargo_archive_destination_escape'')
         else bindE (copy_regular_file sha256 (tw_reread w) (tw_default_mode w) filename (cc_view c TemplateCopy selected)
             destination (Some checksum) None no_limit fs) (\<lambda>fs'.
         bindE (resolved c destination) (\<lambda>resolved_destination.
         if \<not> inside template_resolved resolved_destination
         then Inl (SystemExit ''moriarty_cargo_archive_destination_escape'') else Inr fs'))))"

definition copy_template ::
  "(bytes \<Rightarrow> bytes) \<Rightarrow> template_world \<Rightarrow> path \<Rightarrow> pystr \<Rightarrow> fs \<Rightarrow> (path \<times> fs) result" where
  "copy_template sha256 w workspace label fs =
     (if label_invalid label then Inl (SystemExit ''moriarty_cargo_template_label_invalid'')
      else let template = workspace @ [label] in
      bindE (make_dir template fs) (\<lambda>fs0.
      bindE (copy_regular_tree sha256 (tw_reread w) (tw_default_mode w) index_limits (tw_index w)
        (registry template ''index'') fs0) (\<lambda>fs1.
      bindE (cache_root_resolved (tw_cache w)) (\<lambda>root_resolved.
      bindE (resolved (tw_cache w) template) (\<lambda>template_resolved.
      bindE (locked_registry_packages (tw_lock w)) (\<lambda>packages.
      bindE (foldE (template_package sha256 w root_resolved template template_resolved) fs1 packages) (\<lambda>fs2.
      if exists_in fs2 (registry template ''src'')
      then Inl (SystemExit ''moriarty_cargo_template_must_not_copy_registry_src'')
      else bindE (seal_read_only_tree template fs2) (\<lambda>fs3. Inr (template, fs3)))))))))"

text \<open>The second definition: nothing is made while a build hook is not approved.\<close>

definition hook_detail :: "package_identity list \<Rightarrow> pystr" where
  "hook_detail ps = join_with (lit '','')
     (map (\<lambda>(name, version, checksum). name @ lit ''@'' @ version @ lit '':'' @ checksum)
       ps)"

definition create_verified_cargo_template ::
  "(bytes \<Rightarrow> bytes) \<Rightarrow> (pystr \<Rightarrow> pydict option) \<Rightarrow> template_world \<Rightarrow> path \<Rightarrow> pystr \<Rightarrow> fs \<Rightarrow> (path \<times> fs) result" where
  "create_verified_cargo_template sha256 toml w workspace label fs =
     bindE (unapproved_registry_build_hooks sha256 toml (tw_cache w) (tw_hook_lock w)) (\<lambda>unapproved.
     if unapproved \<noteq> [] then Inl (SystemExitFor ''moriarty_registry_build_hook_unapproved:'' (hook_detail unapproved))
     else copy_template sha256 w workspace label fs)"

section \<open>Cargo homes\<close>

text \<open>\<open>json.dumps\<close> of a text: ASCII only, with surrogate pairs above U+FFFF.\<close>

definition ascii_escape :: "nat \<Rightarrow> pystr" where
  "ascii_escape c =
     (if c < 127 then escape_char c
      else if c < 0x10000 then lit [CHR 0x5C, CHR ''u''] @ hex04 c
      else lit [CHR 0x5C, CHR ''u''] @ hex04 (0xD800 + (c - 0x10000) div 0x400) @
           lit [CHR 0x5C, CHR ''u''] @ hex04 (0xDC00 + (c - 0x10000) mod 0x400))"

definition json_text :: "pystr \<Rightarrow> pystr" where
  "json_text s = [34] @ concat (map ascii_escape s) @ [34]"

definition path_text :: "path \<Rightarrow> pystr" where
  "path_text p = [47] @ join_with [47] p"

text \<open>The runtime is None when it is not a directory, else what it resolves to.\<close>

definition owned_cargo_config :: "path option \<Rightarrow> pystr" where
  "owned_cargo_config runtime =
     (case runtime of
        None \<Rightarrow> []
      | Some sysroot \<Rightarrow> lit ''[build]'' @ [10] @ lit ''rustflags = [\"--sysroot\", '' @ json_text (path_text sysroot) @ lit '']'' @ [10]) @
     lit ''[net]'' @ [10] @ lit ''offline = true'' @ [10]"

definition home_limits :: tree_limits where
  "home_limits = \<lparr>max_entries = None, max_bytes = None, max_depth = None, bound_prefix = ''moriarty_copy_tree''\<rparr>"

definition home_path :: "path \<Rightarrow> pystr \<Rightarrow> path" where
  "home_path workspace label = workspace @ [lit ''cargo-home-'' @ label]"

text \<open>\<open>readback\<close> is what \<open>read_bytes\<close> gives of the configuration that was written, None for an OSError.\<close>

definition create_isolated_cargo_home ::
  "(bytes \<Rightarrow> bytes) \<Rightarrow> reader \<Rightarrow> (path \<Rightarrow> bytes option) \<Rightarrow> nat \<Rightarrow> walk_round list option \<Rightarrow> path \<Rightarrow> pystr \<Rightarrow> path option \<Rightarrow> fs \<Rightarrow>
    (path \<times> fs) result" where
  "create_isolated_cargo_home sha256 reread readback dm template workspace label runtime fs =
     (let cargo_home = home_path workspace label;
          config_toml = cargo_home @ [lit ''config.toml'']; legacy_config = cargo_home @ [lit ''config''];
          credentials_path = cargo_home @ [lit ''credentials.toml''] in
      bindE (make_dir cargo_home fs) (\<lambda>fs0.
      bindE (copy_regular_tree sha256 reread dm home_limits template cargo_home fs0) (\<lambda>fs1.
      if exists_in fs1 config_toml \<or> exists_in fs1 legacy_config \<or> exists_in fs1 credentials_path
      then Inl (SystemExit ''moriarty_cargo_home_ambient_config_or_credentials'')
      else if exists_in fs1 (registry cargo_home ''src'')
      then Inl (SystemExit ''moriarty_cargo_home_preunpacked_source_forbidden'')
      else bindE (utf8_encode (owned_cargo_config runtime)) (\<lambda>config.
      bindE (create_file legacy_config 0x180 config fs1) (\<lambda>fs2.
      case readback legacy_config of
        None \<Rightarrow> Inl (OSError ENOENT)
      | Some written \<Rightarrow>
          if written \<noteq> config \<or> exists_in fs2 config_toml \<or> exists_in fs2 credentials_path
          then Inl (SystemExit ''moriarty_cargo_home_owned_config_mismatch'') else Inr (cargo_home, fs2))))))"

definition create_empty_cargo_home :: "path \<Rightarrow> pystr \<Rightarrow> fs \<Rightarrow> (path \<times> fs) result" where
  "create_empty_cargo_home workspace label fs =
     bindE (make_dir (home_path workspace label) fs) (\<lambda>fs'. Inr (home_path workspace label, fs'))"

definition fresh_cargo_home ::
  "(bytes \<Rightarrow> bytes) \<Rightarrow> reader \<Rightarrow> (path \<Rightarrow> bytes option) \<Rightarrow> nat \<Rightarrow> pystr \<Rightarrow> walk_round list option \<Rightarrow> path \<Rightarrow> pystr \<Rightarrow> path option \<Rightarrow>
    fs \<Rightarrow> (path \<times> fs) result" where
  "fresh_cargo_home sha256 reread readback dm probe_id template workspace label runtime fs =
     (if probe_id = lit ''rust_all''
      then create_isolated_cargo_home sha256 reread readback dm template workspace label runtime fs
      else create_empty_cargo_home workspace label fs)"

section \<open>What the template holds\<close>

lemma candidate_paths_shape: "p \<in> set (candidate_paths c filename) \<Longrightarrow> \<exists>r ns. p = r @ [ns, filename]"
  by (auto simp: candidate_paths_def split: option.splits)

text \<open>Where a file below a template may come from: the walk of the index, or a locked archive.\<close>

definition locked_archive :: "(bytes \<Rightarrow> bytes) \<Rightarrow> package_identity list \<Rightarrow> path \<Rightarrow> path \<Rightarrow> bytes \<Rightarrow> bool" where
  "locked_archive sha256 packages template p b \<longleftrightarrow>
     list_ex (\<lambda>ident. (\<exists>ns. p = registry template ''cache'' @ [ns, crate_filename ident]) \<and>
       hexdigest (sha256 b) = snd (snd ident)) packages"

lemma template_package_entries:
  assumes "template_package sha256 w rr template tr fs ident = Inr fs'"
    and "lookup fs' p = Some (Regular m b)"
  shows "m = 0x180 \<and> locked_archive sha256 [ident] template p b \<or> lookup fs p = Some (Regular m b)"
proof -
  obtain name version checksum where i: "ident = (name, version, checksum)" by (cases ident)
  let ?c = "tw_cache w" and ?f = "crate_filename ident"
  from assms(1) obtain matching where g:
    "matching_candidates sha256 ?c rr ?f checksum (candidate_paths ?c ?f) = Inr matching"
    by (auto simp: template_package_def i Let_def bindE_eq_Inr split: if_splits)
  show ?thesis
  proof (cases matching)
    case Nil
    with assms g show ?thesis by (auto simp: template_package_def i Let_def split: if_splits)
  next
    case (Cons selected rest)
    obtain ns where c: "copy_regular_file sha256 (tw_reread w) (tw_default_mode w) ?f (cc_view ?c TemplateCopy selected)
        (registry template ''cache'' @ [ns, ?f]) (Some checksum) None no_limit fs = Inr fs'"
      using assms(1) g Cons by (auto simp: template_package_def i Let_def bindE_eq_Inr split: if_splits)
    from copy_regular_file_entries(1,4) [OF c] assms(2) show ?thesis by (auto simp: locked_archive_def i)
  qed
qed

lemma template_packages_entries:
  "foldE (template_package sha256 w rr template tr) fs packages = Inr fs' \<Longrightarrow> lookup fs' p = Some (Regular m b) \<Longrightarrow>
     m = 0x180 \<and> locked_archive sha256 packages template p b \<or> lookup fs p = Some (Regular m b)"
proof (induction packages arbitrary: fs)
  case (Cons ident packages)
  from Cons.prems(1) obtain fs1 where s: "template_package sha256 w rr template tr fs ident = Inr fs1"
    "foldE (template_package sha256 w rr template tr) fs1 packages = Inr fs'" by (auto simp: bindE_eq_Inr)
  from Cons.IH [OF s(2) Cons.prems(2)] template_package_entries [OF s(1)] show ?case
    by (auto simp: locked_archive_def)
qed simp

text \<open>The files of the index: at most 16384 entries of together at most 16 MiB, not more than 16 deep.\<close>

definition index_files :: "template_world \<Rightarrow> path \<Rightarrow> (path \<times> file_view) list" where
  "index_files w template = (case tw_index w of None \<Rightarrow> [] | Some rounds \<Rightarrow> listed (registry template ''index'') rounds)"

lemma index_entries:
  assumes "copy_regular_tree sha256 (tw_reread w) dm index_limits (tw_index w) (registry template ''index'') fs = Inr fs'"
  shows "lookup fs' p = Some (Regular m b) \<Longrightarrow>
      m = 0x180 \<and> (\<exists>v. (p, v) \<in> set (index_files w template) \<and> b = view_content v) \<or> lookup fs p = Some (Regular m b)"
    and "total_length (index_files w template) \<le> MAX_CARGO_INDEX_BYTES \<or> collision sha256"
    and "length (index_files w template) \<le> MAX_CARGO_INDEX_ENTRIES"
proof -
  have le: "length (listed dest rounds) \<le> listed_entries rounds" for dest rounds
    by (induction rounds) (auto simp: listed_def listed_entries_def)
  have nil: "listed dest [] = []" for dest by (simp add: listed_def)
  show "lookup fs' p = Some (Regular m b) \<Longrightarrow>
      m = 0x180 \<and> (\<exists>v. (p, v) \<in> set (index_files w template) \<and> b = view_content v) \<or> lookup fs p = Some (Regular m b)"
    "total_length (index_files w template) \<le> MAX_CARGO_INDEX_BYTES \<or> collision sha256"
    "length (index_files w template) \<le> MAX_CARGO_INDEX_ENTRIES"
    using assms
  proof (atomize (full), cases "tw_index w")
    case (Some rounds)
    with assms have c: "copy_regular_tree sha256 (tw_reread w) dm index_limits (Some rounds) (registry template ''index'') fs = Inr fs'"
      by simp
    have i: "index_files w template = listed (registry template ''index'') rounds" by (simp add: index_files_def Some)
    have "listed_entries rounds \<le> MAX_CARGO_INDEX_ENTRIES" if "rounds \<noteq> []"
      using copy_regular_tree_entries(4) [OF c] that by (simp add: index_limits_def)
    with le [of "registry template ''index''" rounds] have n: "length (listed (registry template ''index'') rounds) \<le> MAX_CARGO_INDEX_ENTRIES"
      by (cases "rounds = []") (auto simp: nil)
    have t: "total_length (listed (registry template ''index'') rounds) \<le> MAX_CARGO_INDEX_BYTES \<or> collision sha256"
      using copy_regular_tree_entries(5) [OF c] by (auto simp: index_limits_def total_length_def)
    show "(lookup fs' p = Some (Regular m b) \<longrightarrow>
        m = 0x180 \<and> (\<exists>v. (p, v) \<in> set (index_files w template) \<and> b = view_content v) \<or> lookup fs p = Some (Regular m b)) \<and>
      (total_length (index_files w template) \<le> MAX_CARGO_INDEX_BYTES \<or> collision sha256) \<and>
      length (index_files w template) \<le> MAX_CARGO_INDEX_ENTRIES"
      using n t copy_regular_tree_entries(1) [OF c, of p m b] by (simp add: i)
  qed (simp add: copy_regular_tree_def index_files_def total_length_def)
qed

lemma copied_template:
  assumes "copy_template sha256 w workspace label fs = Inr (template, fs')"
    and fresh: "\<forall>q. inside (workspace @ [label]) q \<longrightarrow> lookup fs q = None"
  shows "template = workspace @ [label] \<and>
    (\<exists>packages. locked_registry_packages (tw_lock w) = Inr packages \<and>
      (\<forall>p m b. inside template p \<longrightarrow> lookup fs' p = Some (Regular m b) \<longrightarrow> m = 0x100 \<and>
        (locked_archive sha256 packages template p b \<or> (\<exists>v. (p, v) \<in> set (index_files w template) \<and> b = view_content v)))) \<and>
    (\<forall>p. inside template p \<longrightarrow> lookup fs' p \<noteq> Some SymLink) \<and>
    lookup fs' (registry template ''src'') = None \<and>
    (total_length (index_files w template) \<le> MAX_CARGO_INDEX_BYTES \<or> collision sha256) \<and>
    length (index_files w template) \<le> MAX_CARGO_INDEX_ENTRIES"
proof -
  let ?t = "workspace @ [label]" and ?dm = "tw_default_mode w"
  from assms(1) obtain fs1 rr tr packages fs2 where t: "template = ?t"
    and s: "copy_regular_tree sha256 (tw_reread w) ?dm index_limits (tw_index w) (registry ?t ''index'') ((?t, Directory 0x1C0) # fs) = Inr fs1"
      "locked_registry_packages (tw_lock w) = Inr packages"
      "foldE (template_package sha256 w rr ?t tr) fs1 packages = Inr fs2"
      "lookup fs2 (registry ?t ''src'') = None" "seal_read_only_tree ?t fs2 = Inr fs'"
    by (auto simp: copy_template_def Let_def bindE_eq_Inr make_dir_eq exists_in_def split: if_splits)
  have src: "lookup fs' (registry ?t ''src'') = None" using seal_lookup [OF s(5), of "registry ?t ''src''"] s(4) by simp
  have "m = 0x100 \<and> (locked_archive sha256 packages ?t p b \<or> (\<exists>v. (p, v) \<in> set (index_files w ?t) \<and> b = view_content v))"
    if p: "inside ?t p" and r: "lookup fs' p = Some (Regular m b)" for p m b
  proof -
    from r seal_lookup [OF s(5), of p] p obtain e where "lookup fs2 p = Some e" "sealed e = Regular m b" by auto
    then obtain m' where e: "lookup fs2 p = Some (Regular m' b)" "m = sealed_mode m'"
      by (cases e) (auto simp: sealed_def)
    have "lookup ((?t, Directory 0x1C0) # fs) p \<noteq> Some (Regular m' b)" using fresh p by (auto simp: lookup_Cons)
    then have "m' = 0x180 \<and> (locked_archive sha256 packages ?t p b \<or> (\<exists>v. (p, v) \<in> set (index_files w ?t) \<and> b = view_content v))"
      using template_packages_entries [OF s(3) e(1)] index_entries(1) [OF s(1), of p m' b] by blast
    then show ?thesis by (simp add: e(2) sealed_mode_def any_exec_def)
  qed
  moreover have "lookup fs' p \<noteq> Some SymLink" if "inside ?t p" for p
    using seal_no_link [OF s(5) that] seal_lookup [OF s(5), of p] that
    by (cases "lookup fs2 p"; cases "the (lookup fs2 p)") (auto simp: sealed_def)
  ultimately show ?thesis using t s(2) src index_entries(2,3) [OF s(1)] by blast
qed

section \<open>A cache with one archive\<close>

definition size_digest :: "bytes \<Rightarrow> bytes" where
  "size_digest b = replicate 32 (of_nat (length b))"

definition demo_package :: package_identity where
  "demo_package = (lit ''a'', lit ''1.0'', hexdigest (size_digest [1, 2]))"

definition demo_lock :: pydict where
  "demo_lock = pd [(''package'', PList [PDict (pd [(''name'', PS ''a''), (''version'', PS ''1.0''),
     (''source'', PS ''registry+x''), (''checksum'', PStr (hexdigest (size_digest [1, 2])))])])]"

definition demo_view :: file_view where
  "demo_view = \<lparr>fv_lstat = Some demo_work_info, fv_symlink = False, fv_is_file = True,
     fv_open = Inr \<lparr>fstat_opened = demo_work_info, read_chunks = [[1], [2]], fstat_final = demo_work_info\<rparr>\<rparr>"

definition demo_stream :: member_stream where
  "demo_stream = ([\<lparr>sm_name = lit ''a-1.0/Cargo.toml'', sm_size = 1, sm_isfile = True, sm_read = Data [120]\<rparr>], StreamEnd)"

definition demo_cache :: cargo_cache where
  "demo_cache = \<lparr>cc_root = Some [lit ''c''], cc_glob = (\<lambda>_. [lit ''ns'']), cc_resolve = Some, cc_view = (\<lambda>_ _. demo_view),
     cc_stream = (\<lambda>_. demo_stream)\<rparr>"

definition demo_template_world :: template_world where
  "demo_template_world = \<lparr>tw_cache = demo_cache, tw_hook_lock = Some demo_lock, tw_lock = Some demo_lock,
     tw_index = Some [\<lparr>wr_relative = [], wr_dirs = [], wr_files = [(lit ''i'', demo_view)]\<rparr>], tw_reread = (\<lambda>_. demo_view),
     tw_default_mode = 0x1ED\<rparr>"

definition demo_toml :: "pystr \<Rightarrow> pydict option" where
  "demo_toml _ = Some (pd [(''package'', PDict (pd [(''name'', PS ''a'')]))])"

definition demo_place :: fs where
  "demo_place = [([lit ''w''], Directory 0x1C0), ([], Directory 0x1ED)]"

definition demo_dir :: "string list \<Rightarrow> path" where
  "demo_dir parts = map lit ([''w'', ''t''] @ parts)"

definition demo_indexed :: fs where
  "demo_indexed =
     [(demo_dir [''registry'', ''index'', ''i''], Regular 0x180 [1, 2]), (demo_dir [''registry'', ''index''], Directory 0x1C0),
      (demo_dir [''registry''], Directory 0x1ED), (demo_dir [], Directory 0x1C0)] @ demo_place"

definition demo_filled :: fs where
  "demo_filled =
     [(demo_dir [''registry'', ''cache'', ''ns'', ''a-1.0.crate''], Regular 0x180 [1, 2]),
      (demo_dir [''registry'', ''cache'', ''ns''], Directory 0x1C0), (demo_dir [''registry'', ''cache''], Directory 0x1ED)] @ demo_indexed"

definition demo_template :: fs where
  "demo_template = map (\<lambda>(p, e). (p, if inside (demo_dir []) p then sealed e else e)) demo_filled"

lemma demo_world [simp]:
  "tw_cache demo_template_world = demo_cache" "tw_hook_lock demo_template_world = Some demo_lock"
  "tw_lock demo_template_world = Some demo_lock" "tw_default_mode demo_template_world = 0x1ED"
  "tw_index demo_template_world = Some [\<lparr>wr_relative = [], wr_dirs = [], wr_files = [(lit ''i'', demo_view)]\<rparr>]"
  "tw_reread demo_template_world = (\<lambda>_. demo_view)"
  by (simp_all add: demo_template_world_def)

lemma demo_locked: "locked_registry_packages (Some demo_lock) = Inr [demo_package]"
  by code_simp

lemma demo_hooks: "unapproved_registry_build_hooks size_digest demo_toml demo_cache (Some demo_lock) = Inr []"
  by code_simp

lemma demo_root: "cache_root_resolved demo_cache = Inr (Some [lit ''c''])"
  by code_simp

lemma demo_index_copied:
  "copy_regular_tree size_digest (\<lambda>_. demo_view) 0x1ED index_limits
     (Some [\<lparr>wr_relative = [], wr_dirs = [], wr_files = [(lit ''i'', demo_view)]\<rparr>])
     (registry (demo_dir []) ''index'') ((demo_dir [], Directory 0x1C0) # demo_place) = Inr demo_indexed"
  by code_simp

lemma demo_name: "crate_filename demo_package = lit ''a-1.0.crate''" "path_name (lit ''a-1.0.crate'') = lit ''a-1.0.crate''"
  "47 \<notin> set (lit ''a-1.0.crate'')" "92 \<notin> set (lit ''a-1.0.crate'')"
  by code_simp+

lemma demo_candidates:
  "candidate_paths demo_cache (lit ''a-1.0.crate'') = [[lit ''c'', lit ''ns'', lit ''a-1.0.crate'']]"
  by code_simp

lemma demo_digest:
  "candidate_digest size_digest demo_cache u (Some [lit ''c'']) (lit ''a-1.0.crate'') [lit ''c'', lit ''ns'', lit ''a-1.0.crate''] =
     Inr (Some (hexdigest (size_digest [1, 2])))"
  by code_simp

lemma demo_archive_copied:
  "copy_regular_file size_digest (\<lambda>_. demo_view) 0x1ED (lit ''a-1.0.crate'') demo_view
     (demo_dir [''registry'', ''cache'', ''ns'', ''a-1.0.crate'']) (Some (hexdigest (size_digest [1, 2]))) None no_limit demo_indexed =
     Inr demo_filled"
  by code_simp

lemma demo_package_copied:
  "template_package size_digest demo_template_world (Some [lit ''c'']) (demo_dir []) (demo_dir []) demo_indexed demo_package = Inr demo_filled"
proof -
  have d: "registry (demo_dir []) ''cache'' @ [lit ''ns'', lit ''a-1.0.crate''] = demo_dir [''registry'', ''cache'', ''ns'', ''a-1.0.crate'']"
    by (simp add: registry_def demo_dir_def)
  note nm = demo_name [unfolded demo_package_def]
  have i: "inside (demo_dir []) (demo_dir ps)" for ps by (simp add: demo_dir_def inside_def)
  have r: "cc_resolve demo_cache q = Some q" "cc_view demo_cache u q = demo_view" for q u by (simp_all add: demo_cache_def)
  have b: "butlast (demo_dir [''registry'', ''cache'', ''ns'', ''a-1.0.crate'']) = demo_dir [''registry'', ''cache'', ''ns'']"
    by (simp add: demo_dir_def)
  show ?thesis
    unfolding template_package_def demo_package_def Let_def prod.case nm demo_world
    by (simp add: nm demo_candidates demo_digest d i b r resolved_def demo_archive_copied del: lit_Cons)
qed

lemma demo_sealed: "seal_read_only_tree (demo_dir []) demo_filled = Inr demo_template"
  by code_simp

lemma demo_template_made:
  "create_verified_cargo_template size_digest demo_toml demo_template_world [lit ''w''] (lit ''t'') demo_place =
     Inr ([lit ''w'', lit ''t''], demo_template)"
proof -
  have t: "[lit ''w''] @ [lit ''t''] = demo_dir []" "[lit ''w'', lit ''t''] = demo_dir []" by (simp_all add: demo_dir_def)
  have m: "make_dir (demo_dir []) demo_place = Inr ((demo_dir [], Directory 0x1C0) # demo_place)"
    and n: "lookup demo_filled (registry (demo_dir []) ''src'') = None" and l: "\<not> label_invalid (lit ''t'')"
    by code_simp+
  have r: "resolved demo_cache q = Inr q" for q by (simp add: demo_cache_def resolved_def)
  show ?thesis
    unfolding create_verified_cargo_template_def copy_template_def Let_def t demo_world
    by (simp add: l demo_hooks m demo_index_copied demo_root r demo_locked demo_package_copied n exists_in_def demo_sealed)
qed

lemma demo_template_archive:
  "lookup demo_template [lit ''w'', lit ''t'', lit ''registry'', lit ''cache'', lit ''ns'', lit ''a-1.0.crate''] = Some (Regular 0x100 [1, 2])"
  by code_simp

lemma demo_free: "\<forall>q. inside ([lit ''w''] @ [lit ''t'']) q \<longrightarrow> lookup demo_place q = None"
  by (auto simp: demo_place_def inside_def starts_with_iff)

lemma demo_selected:
  "first_matching size_digest (tw_cache demo_template_world) (Some [lit ''c'']) (crate_filename demo_package) (hexdigest (size_digest [1, 2]))
     (candidate_paths (tw_cache demo_template_world) (crate_filename demo_package)) = Inr (Some [lit ''c'', lit ''ns'', lit ''a-1.0.crate''])"
  by (simp add: demo_name demo_candidates demo_digest del: lit_Cons)

section \<open>Properties\<close>

text \<open>C22: Every regular file of a Cargo template that has been made is read-only and comes either from the
  bounded index or is the archive of a package of \<open>Cargo.lock\<close> whose SHA-256 is the checksum the lock
  file gives for it; the template holds no link and no unpacked source. The index has at most 16384
  files of together at most 16 MiB, or SHA-256 has a collision.\<close>

theorem template_only_locked_archives:
  assumes "create_verified_cargo_template sha256 toml w workspace label fs = Inr (template, fs')"
    and "\<forall>q. inside (workspace @ [label]) q \<longrightarrow> lookup fs q = None"
  shows "template = workspace @ [label] \<and>
    (\<exists>packages. locked_registry_packages (tw_lock w) = Inr packages \<and>
      (\<forall>p m b. inside template p \<longrightarrow> lookup fs' p = Some (Regular m b) \<longrightarrow> m = 0x100 \<and>
        (locked_archive sha256 packages template p b \<or> (\<exists>v. (p, v) \<in> set (index_files w template) \<and> b = view_content v)))) \<and>
    (\<forall>p. inside template p \<longrightarrow> lookup fs' p \<noteq> Some SymLink) \<and>
    lookup fs' (registry template ''src'') = None \<and>
    (total_length (index_files w template) \<le> MAX_CARGO_INDEX_BYTES \<or> collision sha256) \<and>
    length (index_files w template) \<le> MAX_CARGO_INDEX_ENTRIES"
proof (rule copied_template [OF _ assms(2)])
  show "copy_template sha256 w workspace label fs = Inr (template, fs')"
    using assms(1) by (auto simp: create_verified_cargo_template_def bindE_eq_Inr split: if_splits)
qed

theorem template_only_locked_archives_witness:
  "\<exists>packages p. locked_registry_packages (Some demo_lock) = Inr packages \<and>
     (locked_archive size_digest packages [lit ''w'', lit ''t''] p [1, 2] \<or>
      list_ex (\<lambda>(q, v). q = p) (index_files demo_template_world [lit ''w'', lit ''t''])) \<and>
     p = [lit ''w'', lit ''t'', lit ''registry'', lit ''cache'', lit ''ns'', lit ''a-1.0.crate'']"
proof -
  let ?p = "[lit ''w'', lit ''t'', lit ''registry'', lit ''cache'', lit ''ns'', lit ''a-1.0.crate'']"
  have i: "inside [lit ''w'', lit ''t''] ?p" by (simp add: inside_def)
  from template_only_locked_archives [OF demo_template_made demo_free] obtain packages where
    p: "locked_registry_packages (tw_lock demo_template_world) = Inr packages"
    and r: "\<And>p m b. inside [lit ''w'', lit ''t''] p \<Longrightarrow> lookup demo_template p = Some (Regular m b) \<Longrightarrow>
      locked_archive size_digest packages [lit ''w'', lit ''t''] p b \<or>
      (\<exists>v. (p, v) \<in> set (index_files demo_template_world [lit ''w'', lit ''t'']) \<and> b = view_content v)"
    by blast
  from r [OF i demo_template_archive] p show ?thesis
    by (auto simp: demo_template_world_def list_ex_iff)
qed

text \<open>C23: No build hook runs unreviewed: when a template has been made, the archive selected for every package
  of the lock file is on the reviewed list, or its manifest has no \<open>links\<close> and either turns the build
  script off or names none while the archive has no regular \<open>build.rs\<close> at the root - or the archive
  breaks off, which the code takes for having no hook.\<close>

theorem build_hooks_reviewed:
  assumes "create_verified_cargo_template sha256 toml w workspace label fs = Inr r"
    and "locked_registry_packages (tw_hook_lock w) = Inr packages" and "(name, version, checksum) \<in> set packages"
    and "cache_root_resolved (tw_cache w) = Inr rr"
    and "first_matching sha256 (tw_cache w) rr (crate_filename (name, version, checksum)) checksum
      (candidate_paths (tw_cache w) (crate_filename (name, version, checksum))) = Inr (Some p)"
  shows "(name, version, checksum) \<in> set TRUSTED_REGISTRY_BUILD_HOOK_ARCHIVES \<or>
    scan_stream (archive_failure (crate_filename (name, version, checksum))) (name @ lit ''-'' @ version) (cc_stream (tw_cache w) p) = Inl TarError \<or>
    (\<exists>s. scan_stream (archive_failure (crate_filename (name, version, checksum))) (name @ lit ''-'' @ version) (cc_stream (tw_cache w) p) = Inr s \<and>
       hook_free toml (name @ lit ''-'' @ version) (cc_stream (tw_cache w) p) s)"
proof -
  from assms(1) have "unapproved_registry_build_hooks sha256 toml (tw_cache w) (tw_hook_lock w) = Inr []"
    by (auto simp: create_verified_cargo_template_def bindE_eq_Inr split: if_splits)
  then have "foldE (check_hook sha256 toml (tw_cache w) rr) [] packages = Inr []"
    using assms(2,4) by (auto simp: unapproved_registry_build_hooks_def bindE_eq_Inr dest: arg_cong [where f = length])
  with check_hooks_Nil assms(3) have "check_hook sha256 toml (tw_cache w) rr [] (name, version, checksum) = Inr []" by blast
  from hook_approved [OF this assms(5)] no_hook_declared show ?thesis by blast
qed

theorem build_hooks_reviewed_witness:
  "demo_package \<in> set TRUSTED_REGISTRY_BUILD_HOOK_ARCHIVES \<or>
   scan_stream (archive_failure (crate_filename demo_package)) (lit ''a'' @ lit ''-'' @ lit ''1.0'') demo_stream = Inl TarError \<or>
   (\<exists>s. scan_stream (archive_failure (crate_filename demo_package)) (lit ''a'' @ lit ''-'' @ lit ''1.0'') demo_stream = Inr s \<and>
      hook_free demo_toml (lit ''a'' @ lit ''-'' @ lit ''1.0'') demo_stream s)"
proof -
  have c: "cc_stream demo_cache q = demo_stream" for q by (simp add: demo_cache_def)
  have "locked_registry_packages (tw_hook_lock demo_template_world) = Inr [demo_package]"
    "demo_package \<in> set [demo_package]" "cache_root_resolved (tw_cache demo_template_world) = Inr (Some [lit ''c''])"
    by (simp_all only: demo_world demo_locked demo_root list.set_intros)
  from build_hooks_reviewed [OF demo_template_made this [unfolded demo_package_def] demo_selected [unfolded demo_package_def]]
  show ?thesis unfolding demo_package_def demo_world c .
qed

end
