(* ===== verification/Toolchain_Stage.thy ===== *)
theory Toolchain_Stage
  imports File_Copies
begin

text \<open>
  The private copy of the Rust toolchain and of single executables: \<open>_copy_fd_to_path\<close>,
  \<open>stage_executable_from_fd\<close>, \<open>_stable_stage_source\<close> and \<open>stage_rust_toolchain_runtime\<close> in
  \<open>tools/moriarty_isolation.py\<close>. A source is read twice from one descriptor; both reads have their own
  answers.
\<close>

section \<open>Copying from a descriptor\<close>

definition MAX_TOOLCHAIN_STAGE_FILE_BYTES :: nat where "MAX_TOOLCHAIN_STAGE_FILE_BYTES = 1024 * 1024 * 1024"
definition MAX_TOOLCHAIN_STAGE_BYTES :: nat where "MAX_TOOLCHAIN_STAGE_BYTES = 3 * 1024 * 1024 * 1024"
definition MAX_TOOLCHAIN_STAGE_ENTRIES :: nat where "MAX_TOOLCHAIN_STAGE_ENTRIES = 32768"
definition MAX_TOOLCHAIN_STAGE_DEPTH :: nat where "MAX_TOOLCHAIN_STAGE_DEPTH = 32"

text \<open>A pinned descriptor: its \<open>fstat\<close>, whether /proc/self/fd has it, and opening and reading that path.\<close>

record pinned_fd =
  pf_stat :: inode_info
  pf_proc :: bool
  pf_open :: "nat + bytes list"

definition fd_content :: "pinned_fd \<Rightarrow> bytes" where
  "fd_content f = (case pf_open f of Inl _ \<Rightarrow> [] | Inr chunks \<Rightarrow> concat (takeWhile (\<lambda>c. c \<noteq> []) chunks))"

definition copy_fd_to_path ::
  "(bytes \<Rightarrow> bytes) \<Rightarrow> reader \<Rightarrow> nat \<Rightarrow> pinned_fd \<Rightarrow> path \<Rightarrow> nat \<Rightarrow> fs \<Rightarrow> fs result" where
  "copy_fd_to_path sha256 reread dm f destination mode fs =
     bindE (mkdirs dm fs [] (butlast destination)) (\<lambda>fs1.
     bindE (create_file destination 0x1C0 (fd_content f) fs1) (\<lambda>fs2.
     if \<not> pf_proc f then Inl (SystemExit ''moriarty_proc_fd_unavailable'')
     else case pf_open f of
       Inl n \<Rightarrow> Inl (OSError n)
     | Inr chunks \<Rightarrow>
         bindE (sha256_regular_file sha256 (reread destination) None no_limit) (\<lambda>copied.
         if copied \<noteq> hexdigest (sha256 (fd_content f)) then Inl (SystemExit ''moriarty_staged_executable_digest_mismatch'')
         else Inr (chmod_in destination mode fs2))))"

definition stage_executable_from_fd ::
  "(bytes \<Rightarrow> bytes) \<Rightarrow> reader \<Rightarrow> nat \<Rightarrow> pinned_fd \<Rightarrow> path \<Rightarrow> fs \<Rightarrow> (path \<times> fs) result" where
  "stage_executable_from_fd sha256 reread dm f destination fs =
     bindE (make_dir (butlast destination) fs) (\<lambda>fs1.
     bindE (copy_fd_to_path sha256 reread dm f destination 0x140 fs1) (\<lambda>fs2.
     Inr (destination, chmod_in (butlast destination) 0x140 fs2)))"

section \<open>Copying a source\<close>

text \<open>
  A source of the toolchain: what it resolves to, whether that is a file, its first \<open>stat\<close>, opening it,
  the two reads and the last \<open>fstat\<close>.
\<close>

record stage_source =
  sg_resolved :: "path option"
  sg_is_file :: bool
  sg_first :: inode_info
  sg_open :: "nat option"
  sg_read :: "bytes list"
  sg_reread :: "bytes list"
  sg_last :: inode_info

definition sg_data :: "stage_source \<Rightarrow> bytes" where
  "sg_data s = concat (takeWhile (\<lambda>c. c \<noteq> []) (sg_read s))"

definition stable_stage_source ::
  "(bytes \<Rightarrow> bytes) \<Rightarrow> reader \<Rightarrow> nat \<Rightarrow> stage_source \<Rightarrow> path \<Rightarrow> path \<Rightarrow> int \<Rightarrow> fs \<Rightarrow> (nat \<times> fs) result" where
  "stable_stage_source sha256 reread dm s destination root_path bound fs =
     (if bound < 0 then Inl (SystemExit ''moriarty_toolchain_stage_bytes_exceeded'')
      else case sg_resolved s of
        None \<Rightarrow> Inl (SystemExit ''moriarty_toolchain_source_unavailable'')
      | Some res \<Rightarrow>
      let file_ceiling = min MAX_TOOLCHAIN_STAGE_FILE_BYTES (nat bound);
          large = SystemExit ''moriarty_toolchain_stage_file_too_large'' in
      if \<not> inside root_path res then Inl (SystemExit ''moriarty_toolchain_symlink_escape'')
      else if \<not> sg_is_file s then Inl (SystemExit ''moriarty_toolchain_nonregular_file'')
      else if file_ceiling < st_size (sg_first s) then Inl large
      else case sg_open s of
        Some n \<Rightarrow> Inl (OSError n)
      | None \<Rightarrow>
      bindE (mkdirs dm fs [] (butlast destination)) (\<lambda>fs1.
      bindE (create_file destination 0x1C0 (sg_data s) fs1) (\<lambda>fs2.
      bindE (read_bounded (Some file_ceiling) large 0 (takeWhile (\<lambda>c. c \<noteq> []) (sg_read s))) (\<lambda>copied.
      if copied \<noteq> st_size (sg_first s) \<or> sha256 (sg_data s) \<noteq> sha256 (concat (takeWhile (\<lambda>c. c \<noteq> []) (sg_reread s)))
      then Inl (SystemExit ''moriarty_toolchain_source_changed_during_stage'')
      else if \<not> same_content_state (sg_first s) (sg_last s)
      then Inl (SystemExit ''moriarty_toolchain_source_identity_changed_during_stage'')
      else bindE (sha256_regular_file sha256 (reread destination) (Some file_ceiling) large) (\<lambda>d.
      if d \<noteq> hexdigest (sha256 (sg_data s)) then Inl (SystemExit ''moriarty_toolchain_stage_digest_mismatch'')
      else Inr (copied, chmod_in destination (sealed_mode (st_mode (sg_first s))) fs2))))))"

section \<open>Copying the toolchain\<close>

text \<open>One round of the walk; the path is relative to the toolchain's root and so starts with bin or lib.\<close>

record stage_round =
  sr_relative :: "pystr list"
  sr_dirs :: "(pystr \<times> bool) list"
  sr_files :: "(pystr \<times> stage_source) list"

record stage_state =
  st_bytes :: nat
  st_entries :: nat
  st_fs :: fs

definition skipped_pinned :: "pystr list \<Rightarrow> pystr \<Rightarrow> bool" where
  "skipped_pinned rel n \<longleftrightarrow> rel = [lit ''bin''] \<and> (n = lit ''cargo'' \<or> n = lit ''rustc'')"

definition stage_one ::
  "(bytes \<Rightarrow> bytes) \<Rightarrow> reader \<Rightarrow> nat \<Rightarrow> path \<Rightarrow> path \<Rightarrow> pystr list \<Rightarrow> stage_state \<Rightarrow> pystr \<times> stage_source \<Rightarrow> stage_state result" where
  "stage_one sha256 reread dm root_path destination rel st ns = (case ns of (n, s) \<Rightarrow>
     if skipped_pinned rel n then Inr st
     else bindE (stable_stage_source sha256 reread dm s (destination @ rel @ [n]) root_path
         (int MAX_TOOLCHAIN_STAGE_BYTES - int (st_bytes st)) (st_fs st)) (\<lambda>(copied, fs').
       if MAX_TOOLCHAIN_STAGE_BYTES < st_bytes st + copied then Inl (SystemExit ''moriarty_toolchain_stage_bytes_exceeded'')
       else Inr (st\<lparr>st_bytes := st_bytes st + copied, st_fs := fs'\<rparr>)))"

definition stage_dir ::
  "(bytes \<Rightarrow> bytes) \<Rightarrow> reader \<Rightarrow> nat \<Rightarrow> path \<Rightarrow> path \<Rightarrow> stage_state \<Rightarrow> stage_round \<Rightarrow> stage_state result" where
  "stage_dir sha256 reread dm root_path destination st r =
     (let rel = sr_relative r; entries = st_entries st + length (sr_dirs r) + length (sr_files r) in
      if MAX_TOOLCHAIN_STAGE_DEPTH < length rel then Inl (SystemExit ''moriarty_toolchain_stage_depth_exceeded'')
      else if MAX_TOOLCHAIN_STAGE_ENTRIES < entries then Inl (SystemExit ''moriarty_toolchain_stage_entries_exceeded'')
      else bindE (mkdirs dm (st_fs st) [] (destination @ rel)) (\<lambda>fs1.
      if list_ex snd (sr_dirs r) then Inl (SystemExit ''moriarty_toolchain_directory_symlink_forbidden'')
      else foldE (stage_one sha256 reread dm root_path destination rel)
        (st\<lparr>st_entries := entries, st_fs := fs1\<rparr>) (sort_key fst (sr_files r))))"

text \<open>One of bin and lib; the walk is None when it is not a directory.\<close>

definition stage_subdir ::
  "(bytes \<Rightarrow> bytes) \<Rightarrow> reader \<Rightarrow> nat \<Rightarrow> path \<Rightarrow> path \<Rightarrow> stage_state \<Rightarrow> string \<times> stage_round list option \<Rightarrow> stage_state result" where
  "stage_subdir sha256 reread dm root_path destination st sw = (case sw of (subdir, walked) \<Rightarrow>
     (case walked of
        None \<Rightarrow> Inl (SystemExit (''moriarty_toolchain_subdir_missing:'' @ subdir))
      | Some rounds \<Rightarrow> foldE (stage_dir sha256 reread dm root_path destination) st rounds))"

definition stage_pinned ::
  "(bytes \<Rightarrow> bytes) \<Rightarrow> reader \<Rightarrow> nat \<Rightarrow> path \<Rightarrow> stage_state \<Rightarrow> pinned_fd \<times> string \<Rightarrow> stage_state result" where
  "stage_pinned sha256 reread dm destination st fn = (case fn of (f, n) \<Rightarrow>
     let info = pf_stat f; entries = st_entries st + 1 in
     if \<not> S_ISREG (st_mode info) \<or> MAX_TOOLCHAIN_STAGE_FILE_BYTES < st_size info \<or> MAX_TOOLCHAIN_STAGE_ENTRIES < entries \<or>
        MAX_TOOLCHAIN_STAGE_BYTES < st_bytes st + st_size info
     then Inl (SystemExit ''moriarty_toolchain_pinned_component_bound_exceeded'')
     else bindE (copy_fd_to_path sha256 reread dm f (destination @ [lit ''bin'', lit n]) 0x140 (st_fs st)) (\<lambda>fs'.
       Inr (st\<lparr>st_bytes := st_bytes st + st_size info, st_entries := entries, st_fs := fs'\<rparr>)))"

definition is_file_in :: "fs \<Rightarrow> path \<Rightarrow> bool" where
  "is_file_in fs p \<longleftrightarrow> (case lookup fs p of Some (Regular m b) \<Rightarrow> True | _ \<Rightarrow> False)"

text \<open>The toolchain: its resolved root (None for an OSError), the two walks and the two pinned descriptors.\<close>

record toolchain =
  tc_root :: "path option"
  tc_bin :: "stage_round list option"
  tc_lib :: "stage_round list option"
  tc_cargo :: pinned_fd
  tc_rustc :: pinned_fd

definition stage_rust_toolchain_runtime ::
  "(bytes \<Rightarrow> bytes) \<Rightarrow> reader \<Rightarrow> nat \<Rightarrow> toolchain \<Rightarrow> path \<Rightarrow> fs \<Rightarrow> (path \<times> fs) result" where
  "stage_rust_toolchain_runtime sha256 reread dm tc destination fs = (case tc_root tc of
     None \<Rightarrow> Inl (OSError ENOENT)
   | Some root_path \<Rightarrow>
       bindE (make_dir destination fs) (\<lambda>fs0.
       bindE (foldE (stage_subdir sha256 reread dm root_path destination)
         \<lparr>st_bytes = 0, st_entries = 0, st_fs = fs0\<rparr> [(''bin'', tc_bin tc), (''lib'', tc_lib tc)]) (\<lambda>st1.
       bindE (foldE (stage_pinned sha256 reread dm destination) st1 [(tc_cargo tc, ''cargo''), (tc_rustc tc, ''rustc'')]) (\<lambda>st2.
       if \<not> is_file_in (st_fs st2) (destination @ [lit ''bin'', lit ''cargo'']) \<or>
          \<not> is_file_in (st_fs st2) (destination @ [lit ''bin'', lit ''rustc''])
       then Inl (SystemExit ''moriarty_staged_rust_toolchain_incomplete'')
       else bindE (seal_read_only_tree destination (st_fs st2)) (\<lambda>fs3. Inr (destination, fs3))))))"

section \<open>What is staged\<close>

lemma lookup_created:
  "lookup (chmod_in dest m ((dest, Regular m0 d) # fs)) p = (if p = dest then Some (Regular m d) else lookup fs p)"
  by (auto simp: lookup_chmod lookup_Cons with_mode_def)

lemma copy_fd_to_path_entries:
  assumes "copy_fd_to_path sha256 reread dm f dest mode fs = Inr fs'"
  shows "lookup fs' p = Some (Regular m b) \<longleftrightarrow> p = dest \<and> m = mode \<and> b = fd_content f \<or> lookup fs p = Some (Regular m b)"
    and "lookup fs' p = Some SymLink \<longleftrightarrow> lookup fs p = Some SymLink"
proof -
  obtain chunks where c: "pf_open f = Inr chunks"
    using assms by (cases "pf_open f") (auto simp: copy_fd_to_path_def bindE_eq_Inr split: if_splits)
  from assms obtain fs1 where s: "mkdirs dm fs [] (butlast dest) = Inr fs1" "lookup fs1 dest = None"
    "fs' = chmod_in dest mode ((dest, Regular 0x1C0 (fd_content f)) # fs1)"
    by (auto simp: copy_fd_to_path_def c bindE_eq_Inr create_file_eq split: if_splits)
  show "lookup fs' p = Some (Regular m b) \<longleftrightarrow> p = dest \<and> m = mode \<and> b = fd_content f \<or> lookup fs p = Some (Regular m b)"
    using mkdirs_regular [OF s(1), of p m b] s(2) by (auto simp: s(3) lookup_created)
  show "lookup fs' p = Some SymLink \<longleftrightarrow> lookup fs p = Some SymLink"
    using mkdirs_grows [OF s(1), of p] s(2) by (auto simp: s(3) lookup_created)
qed

definition source_ok :: "path \<Rightarrow> stage_source \<Rightarrow> bool" where
  "source_ok root_path s \<longleftrightarrow> (case sg_resolved s of None \<Rightarrow> False | Some res \<Rightarrow> inside root_path res) \<and> sg_is_file s \<and>
     length (sg_data s) = st_size (sg_first s) \<and> length (sg_data s) \<le> MAX_TOOLCHAIN_STAGE_FILE_BYTES"

lemma stable_stage_source_Inr:
  assumes "stable_stage_source sha256 reread dm s dest root_path bound fs = Inr (copied, fs')"
  shows "copied = length (sg_data s) \<and> source_ok root_path s"
    and "lookup fs' p = Some (Regular m b) \<longleftrightarrow>
      p = dest \<and> m = sealed_mode (st_mode (sg_first s)) \<and> b = sg_data s \<or> lookup fs p = Some (Regular m b)"
    and "lookup fs' p = Some SymLink \<longleftrightarrow> lookup fs p = Some SymLink"
proof -
  obtain res where r: "sg_resolved s = Some res" "sg_open s = None"
    using assms by (cases "sg_resolved s"; cases "sg_open s") (auto simp: stable_stage_source_def Let_def split: if_splits)
  from assms obtain fs1 where c: "inside root_path res" "sg_is_file s" "st_size (sg_first s) \<le> MAX_TOOLCHAIN_STAGE_FILE_BYTES"
    "mkdirs dm fs [] (butlast dest) = Inr fs1" "lookup fs1 dest = None" "copied = st_size (sg_first s)"
    "read_bounded (Some (min MAX_TOOLCHAIN_STAGE_FILE_BYTES (nat bound))) (SystemExit ''moriarty_toolchain_stage_file_too_large'') 0
       (takeWhile (\<lambda>c. c \<noteq> []) (sg_read s)) = Inr copied"
    "fs' = chmod_in dest (sealed_mode (st_mode (sg_first s))) ((dest, Regular 0x1C0 (sg_data s)) # fs1)"
    unfolding stable_stage_source_def r Let_def option.case
    by (clarsimp simp: bindE_eq_Inr create_file_eq not_less split: if_split_asm)
  have "copied = length (sg_data s)" using read_bounded_Inr [OF c(7)] by (simp add: sg_data_def)
  then show "copied = length (sg_data s) \<and> source_ok root_path s" using c(1-3,6) by (simp add: source_ok_def r)
  show "lookup fs' p = Some (Regular m b) \<longleftrightarrow>
      p = dest \<and> m = sealed_mode (st_mode (sg_first s)) \<and> b = sg_data s \<or> lookup fs p = Some (Regular m b)"
    using mkdirs_regular [OF c(4), of p m b] c(5) by (auto simp: c(8) lookup_created)
  show "lookup fs' p = Some SymLink \<longleftrightarrow> lookup fs p = Some SymLink"
    using mkdirs_grows [OF c(4), of p] c(5) by (auto simp: c(8) lookup_created)
qed

text \<open>What staging a list of sources does.\<close>

definition staged_length :: "(path \<times> stage_source) list \<Rightarrow> nat" where
  "staged_length xs = sum_list (map (\<lambda>(p, s). length (sg_data s)) xs)"

definition stages :: "path \<Rightarrow> (path \<times> stage_source) list \<Rightarrow> stage_state \<Rightarrow> stage_state \<Rightarrow> bool" where
  "stages root_path xs st st' \<longleftrightarrow>
     (\<forall>p m b. lookup (st_fs st') p = Some (Regular m b) \<longleftrightarrow>
        (\<exists>s. (p, s) \<in> set xs \<and> m = sealed_mode (st_mode (sg_first s)) \<and> b = sg_data s) \<or> lookup (st_fs st) p = Some (Regular m b)) \<and>
     (\<forall>p. lookup (st_fs st') p = Some SymLink \<longleftrightarrow> lookup (st_fs st) p = Some SymLink) \<and>
     (\<forall>(p, s) \<in> set xs. source_ok root_path s) \<and>
     st_bytes st' = st_bytes st + staged_length xs \<and>
     (st_bytes st \<le> MAX_TOOLCHAIN_STAGE_BYTES \<longrightarrow> st_bytes st' \<le> MAX_TOOLCHAIN_STAGE_BYTES) \<and>
     (st_entries st \<le> MAX_TOOLCHAIN_STAGE_ENTRIES \<longrightarrow> st_entries st' \<le> MAX_TOOLCHAIN_STAGE_ENTRIES)"

lemma stages_refl: "stages rp [] st st"
  by (simp add: stages_def staged_length_def)

lemma stages_trans:
  assumes "stages rp xs st st1" and "stages rp ys st1 st2"
  shows "stages rp (xs @ ys) st st2"
  unfolding stages_def
proof (intro conjI allI)
  note a = assms(1) [unfolded stages_def] and b = assms(2) [unfolded stages_def]
  show "lookup (st_fs st2) p = Some (Regular m d) \<longleftrightarrow>
      (\<exists>s. (p, s) \<in> set (xs @ ys) \<and> m = sealed_mode (st_mode (sg_first s)) \<and> d = sg_data s) \<or>
      lookup (st_fs st) p = Some (Regular m d)" for p m d
    using a b by auto
  show "lookup (st_fs st2) p = Some SymLink \<longleftrightarrow> lookup (st_fs st) p = Some SymLink" for p using a b by simp
  show "\<forall>(p, s) \<in> set (xs @ ys). source_ok rp s" using a b by auto
  show "st_bytes st2 = st_bytes st + staged_length (xs @ ys)" using a b by (simp add: staged_length_def)
  show "st_bytes st \<le> MAX_TOOLCHAIN_STAGE_BYTES \<longrightarrow> st_bytes st2 \<le> MAX_TOOLCHAIN_STAGE_BYTES"
    "st_entries st \<le> MAX_TOOLCHAIN_STAGE_ENTRIES \<longrightarrow> st_entries st2 \<le> MAX_TOOLCHAIN_STAGE_ENTRIES"
    using a b by (meson)+
qed

definition staged_files :: "path \<Rightarrow> pystr list \<Rightarrow> (pystr \<times> stage_source) list \<Rightarrow> (path \<times> stage_source) list" where
  "staged_files dest rel nss = map (\<lambda>(n, s). (dest @ rel @ [n], s)) (filter (\<lambda>(n, s). \<not> skipped_pinned rel n) nss)"

definition staged_rounds :: "path \<Rightarrow> stage_round list \<Rightarrow> (path \<times> stage_source) list" where
  "staged_rounds dest rounds = concat (map (\<lambda>r. staged_files dest (sr_relative r) (sort_key fst (sr_files r))) rounds)"

lemma stage_files_stages:
  "foldE (stage_one sha256 reread dm rp dest rel) st nss = Inr st' \<Longrightarrow> stages rp (staged_files dest rel nss) st st'"
proof (induction nss arbitrary: st)
  case Nil
  then show ?case by (simp add: stages_refl staged_files_def)
next
  case (Cons ns nss)
  obtain n s where ns: "ns = (n, s)" by (cases ns)
  from Cons.prems obtain st1 where c: "stage_one sha256 reread dm rp dest rel st (n, s) = Inr st1"
    "foldE (stage_one sha256 reread dm rp dest rel) st1 nss = Inr st'" by (auto simp: ns bindE_eq_Inr)
  have "stages rp (staged_files dest rel [(n, s)]) st st1"
  proof (cases "skipped_pinned rel n")
    case True
    then show ?thesis using c(1) by (simp add: stage_one_def staged_files_def stages_refl)
  next
    case False
    with c(1) obtain copied fs' where t: "stable_stage_source sha256 reread dm s (dest @ rel @ [n]) rp
        (int MAX_TOOLCHAIN_STAGE_BYTES - int (st_bytes st)) (st_fs st) = Inr (copied, fs')"
      "st_bytes st + copied \<le> MAX_TOOLCHAIN_STAGE_BYTES" "st1 = st\<lparr>st_bytes := st_bytes st + copied, st_fs := fs'\<rparr>"
      by (auto simp: stage_one_def bindE_eq_Inr split: if_splits)
    show ?thesis unfolding stages_def using stable_stage_source_Inr [OF t(1)] t(2,3) False
      by (auto simp: staged_files_def staged_length_def)
  qed
  from stages_trans [OF this Cons.IH [OF c(2)]] show ?case by (simp add: ns staged_files_def split: if_splits)
qed

lemma stage_dir_stages:
  assumes "stage_dir sha256 reread dm rp dest st r = Inr st'"
  shows "stages rp (staged_files dest (sr_relative r) (sort_key fst (sr_files r))) st st' \<and>
    length (sr_relative r) \<le> MAX_TOOLCHAIN_STAGE_DEPTH"
proof -
  let ?n = "st_entries st + length (sr_dirs r) + length (sr_files r)"
  from assms obtain fs1 where s: "mkdirs dm (st_fs st) [] (dest @ sr_relative r) = Inr fs1"
    "?n \<le> MAX_TOOLCHAIN_STAGE_ENTRIES" "length (sr_relative r) \<le> MAX_TOOLCHAIN_STAGE_DEPTH"
    "foldE (stage_one sha256 reread dm rp dest (sr_relative r)) (st\<lparr>st_entries := ?n, st_fs := fs1\<rparr>) (sort_key fst (sr_files r)) = Inr st'"
    by (auto simp: stage_dir_def Let_def bindE_eq_Inr split: if_splits)
  have "lookup fs1 p = Some SymLink \<longleftrightarrow> lookup (st_fs st) p = Some SymLink" for p
    using mkdirs_grows [OF s(1), of p] by auto
  then have "stages rp [] st (st\<lparr>st_entries := ?n, st_fs := fs1\<rparr>)"
    using mkdirs_regular [OF s(1)] s(2) by (simp add: stages_def staged_length_def)
  from stages_trans [OF this stage_files_stages [OF s(4)]] s(3) show ?thesis by simp
qed

lemma stage_rounds_stages:
  "foldE (stage_dir sha256 reread dm rp dest) st rounds = Inr st' \<Longrightarrow>
     stages rp (staged_rounds dest rounds) st st' \<and> list_all (\<lambda>r. length (sr_relative r) \<le> MAX_TOOLCHAIN_STAGE_DEPTH) rounds"
proof (induction rounds arbitrary: st)
  case Nil
  then show ?case by (simp add: stages_refl staged_rounds_def)
next
  case (Cons r rounds)
  from Cons.prems obtain st1 where c: "stage_dir sha256 reread dm rp dest st r = Inr st1"
    "foldE (stage_dir sha256 reread dm rp dest) st1 rounds = Inr st'" by (auto simp: bindE_eq_Inr)
  from stages_trans [OF conjunct1 [OF stage_dir_stages [OF c(1)]] conjunct1 [OF Cons.IH [OF c(2)]]]
    stage_dir_stages [OF c(1)] Cons.IH [OF c(2)]
  show ?case by (simp add: staged_rounds_def)
qed

lemma staged_not_pinned:
  "(p, s) \<in> set (staged_rounds dest rounds) \<Longrightarrow> p \<noteq> dest @ [lit ''bin'', lit ''cargo''] \<and> p \<noteq> dest @ [lit ''bin'', lit ''rustc'']"
  by (auto simp: staged_rounds_def staged_files_def skipped_pinned_def append_eq_Cons_conv)

lemma stage_pinned_Inr:
  assumes "stage_pinned sha256 reread dm dest st (f, n) = Inr st'"
  shows "copy_fd_to_path sha256 reread dm f (dest @ [lit ''bin'', lit n]) 0x140 (st_fs st) = Inr (st_fs st') \<and>
    st_bytes st' = st_bytes st + st_size (pf_stat f) \<and> st_bytes st' \<le> MAX_TOOLCHAIN_STAGE_BYTES \<and>
    st_entries st' \<le> MAX_TOOLCHAIN_STAGE_ENTRIES"
  using assms by (auto simp: stage_pinned_def Let_def bindE_eq_Inr split: if_splits)

definition toolchain_sources :: "path \<Rightarrow> toolchain \<Rightarrow> (path \<times> stage_source) list" where
  "toolchain_sources dest tc =
     (case (tc_bin tc, tc_lib tc) of (Some bs, Some ls) \<Rightarrow> staged_rounds dest bs @ staged_rounds dest ls | _ \<Rightarrow> [])"

lemma toolchain_staged:
  assumes "stage_rust_toolchain_runtime sha256 reread dm tc dest fs = Inr (dest', fs')"
    and fresh: "\<forall>q. inside dest q \<longrightarrow> lookup fs q = None"
  shows "dest' = dest"
    and "inside dest p \<Longrightarrow> lookup fs' p = Some (Regular m b) \<longleftrightarrow>
      m = 0x140 \<and> (p = dest @ [lit ''bin'', lit ''cargo''] \<and> b = fd_content (tc_cargo tc) \<or>
        p = dest @ [lit ''bin'', lit ''rustc''] \<and> b = fd_content (tc_rustc tc)) \<or>
      (\<exists>s. (p, s) \<in> set (toolchain_sources dest tc) \<and> m = sealed_mode (st_mode (sg_first s)) \<and> b = sg_data s)"
    and "inside dest p \<Longrightarrow> lookup fs' p \<noteq> Some SymLink"
    and "\<exists>rp. tc_root tc = Some rp \<and> (\<forall>(p, s) \<in> set (toolchain_sources dest tc). source_ok rp s)"
    and "staged_length (toolchain_sources dest tc) + st_size (pf_stat (tc_cargo tc)) + st_size (pf_stat (tc_rustc tc))
      \<le> MAX_TOOLCHAIN_STAGE_BYTES"
proof -
  let ?st0 = "\<lparr>st_bytes = 0, st_entries = 0, st_fs = (dest, Directory 0x1C0) # fs\<rparr>"
  let ?bin = "\<lambda>n. dest @ [lit ''bin'', lit n]"
  from assms(1) obtain rp bs ls st1 st2 st3 st4 where d: "dest' = dest" "tc_root tc = Some rp" "tc_bin tc = Some bs" "tc_lib tc = Some ls"
    and s: "foldE (stage_dir sha256 reread dm rp dest) ?st0 bs = Inr st1" "foldE (stage_dir sha256 reread dm rp dest) st1 ls = Inr st2"
      "stage_pinned sha256 reread dm dest st2 (tc_cargo tc, ''cargo'') = Inr st3"
      "stage_pinned sha256 reread dm dest st3 (tc_rustc tc, ''rustc'') = Inr st4"
      "seal_read_only_tree dest (st_fs st4) = Inr fs'"
    unfolding stage_rust_toolchain_runtime_def
    by (clarsimp simp: bindE_eq_Inr make_dir_eq stage_subdir_def split: option.splits if_split_asm)
  have x: "toolchain_sources dest tc = staged_rounds dest bs @ staged_rounds dest ls"
    by (simp add: toolchain_sources_def d)
  from stages_trans [OF conjunct1 [OF stage_rounds_stages [OF s(1)]] conjunct1 [OF stage_rounds_stages [OF s(2)]]]
  have st: "stages rp (toolchain_sources dest tc) ?st0 st2" by (simp add: x)
  note g = st [unfolded stages_def]
  note c = stage_pinned_Inr [OF s(3)] and r = stage_pinned_Inr [OF s(4)]
  have regular: "lookup (st_fs st4) p = Some (Regular m b) \<longleftrightarrow>
      m = 0x140 \<and> (p = ?bin ''cargo'' \<and> b = fd_content (tc_cargo tc) \<or> p = ?bin ''rustc'' \<and> b = fd_content (tc_rustc tc)) \<or>
      (\<exists>s. (p, s) \<in> set (toolchain_sources dest tc) \<and> m = sealed_mode (st_mode (sg_first s)) \<and> b = sg_data s)"
    if "inside dest p" for p m b
    using copy_fd_to_path_entries(1) [OF conjunct1 [OF c], of p m b] copy_fd_to_path_entries(1) [OF conjunct1 [OF r], of p m b]
      g fresh that by (auto simp: lookup_Cons)
  show "dest' = dest" by (rule d(1))
  have sealed140: "sealed_mode 0x140 = 0x140" by (simp add: sealed_mode_def any_exec_def)
  show "lookup fs' p = Some (Regular m b) \<longleftrightarrow>
      m = 0x140 \<and> (p = ?bin ''cargo'' \<and> b = fd_content (tc_cargo tc) \<or> p = ?bin ''rustc'' \<and> b = fd_content (tc_rustc tc)) \<or>
      (\<exists>s. (p, s) \<in> set (toolchain_sources dest tc) \<and> m = sealed_mode (st_mode (sg_first s)) \<and> b = sg_data s)"
    if i: "inside dest p" for p m b
  proof -
    have "lookup fs' p = Some (Regular m b) \<longleftrightarrow> (\<exists>m'. lookup (st_fs st4) p = Some (Regular m' b) \<and> m = sealed_mode m')"
      using seal_lookup [OF s(5), of p] i
      by (cases "lookup (st_fs st4) p"; cases "the (lookup (st_fs st4) p)") (auto simp: sealed_def)
    also have "\<dots> \<longleftrightarrow> m = 0x140 \<and> (p = ?bin ''cargo'' \<and> b = fd_content (tc_cargo tc) \<or> p = ?bin ''rustc'' \<and> b = fd_content (tc_rustc tc)) \<or>
      (\<exists>s. (p, s) \<in> set (toolchain_sources dest tc) \<and> m = sealed_mode (st_mode (sg_first s)) \<and> b = sg_data s)"
      unfolding regular [OF i] by (auto simp: sealed140)
    finally show ?thesis .
  qed
  show "lookup fs' p \<noteq> Some SymLink" if "inside dest p" for p
    using seal_no_link [OF s(5) that] seal_lookup [OF s(5), of p] that
    by (cases "lookup (st_fs st4) p"; cases "the (lookup (st_fs st4) p)") (auto simp: sealed_def)
  show "\<exists>rp. tc_root tc = Some rp \<and> (\<forall>(p, s) \<in> set (toolchain_sources dest tc). source_ok rp s)"
    using g d(2) by auto
  show "staged_length (toolchain_sources dest tc) + st_size (pf_stat (tc_cargo tc)) + st_size (pf_stat (tc_rustc tc))
      \<le> MAX_TOOLCHAIN_STAGE_BYTES"
    using g c r by simp
qed

text \<open>A toolchain of a library, the compiler and cargo.\<close>

definition demo_fd :: pinned_fd where
  "demo_fd = \<lparr>pf_stat = \<lparr>st_dev = 1, st_ino = 3, st_size = 2, st_mtime_ns = 7, st_mode = 0x81ED\<rparr>, pf_proc = True, pf_open = Inr [[1], [2]]\<rparr>"

definition demo_source :: stage_source where
  "demo_source = \<lparr>sg_resolved = Some [lit ''r'', lit ''lib'', lit ''x.so''], sg_is_file = True, sg_first = demo_work_info, sg_open = None,
     sg_read = [[1, 2]], sg_reread = [[1], [2]], sg_last = demo_work_info\<rparr>"

definition demo_toolchain :: toolchain where
  "demo_toolchain = \<lparr>tc_root = Some [lit ''r''],
     tc_bin = Some [\<lparr>sr_relative = [lit ''bin''], sr_dirs = [], sr_files = [(lit ''rustc'', demo_source), (lit ''cargo'', demo_source)]\<rparr>],
     tc_lib = Some [\<lparr>sr_relative = [lit ''lib''], sr_dirs = [], sr_files = [(lit ''x.so'', demo_source)]\<rparr>],
     tc_cargo = demo_fd, tc_rustc = demo_fd\<rparr>"

definition demo_copy :: reader where
  "demo_copy _ = \<lparr>fv_lstat = Some demo_work_info, fv_symlink = False, fv_is_file = True,
     fv_open = Inr \<lparr>fstat_opened = demo_work_info, read_chunks = [[1], [2]], fstat_final = demo_work_info\<rparr>\<rparr>"

definition demo_root_dir :: fs where
  "demo_root_dir = [([], Directory 0x1ED)]"

definition demo_runtime :: fs where
  "demo_runtime =
     [([lit ''t'', lit ''bin'', lit ''rustc''], Regular 0x140 [1, 2]), ([lit ''t'', lit ''bin'', lit ''cargo''], Regular 0x140 [1, 2]),
      ([lit ''t'', lit ''lib'', lit ''x.so''], Regular 0x100 [1, 2]), ([lit ''t'', lit ''lib''], Directory 0x140),
      ([lit ''t'', lit ''bin''], Directory 0x140), ([lit ''t''], Directory 0x140), ([], Directory 0x1ED)]"

lemma demo_runtime_staged:
  "stage_rust_toolchain_runtime (\<lambda>b. b) demo_copy 0x1ED demo_toolchain [lit ''t''] demo_root_dir = Inr ([lit ''t''], demo_runtime)"
  by code_simp

section \<open>Property\<close>

text \<open>C16: The staged toolchain runs the pinned compiler: below the destination, which was free, cargo and rustc
  are exactly what the pinned descriptors hold, and every other regular file is a source whose resolved
  path is inside the toolchain, with the content that was read, read-only; and there is no link. The
  lengths of the sources that were read and the sizes that \<open>fstat\<close> reports for the two pinned descriptors
  are together at most 3 GiB; the copy of a descriptor does not count its octets, so a descriptor that
  holds more than its reported size is not bounded by this.\<close>

theorem staged_toolchain_pinned:
  assumes "stage_rust_toolchain_runtime sha256 reread dm tc dest fs = Inr (dest', fs')"
    and "\<forall>q. inside dest q \<longrightarrow> lookup fs q = None"
  shows "dest' = dest \<and>
    (\<forall>p m b. inside dest p \<longrightarrow> (lookup fs' p = Some (Regular m b) \<longleftrightarrow>
      m = 0x140 \<and> (p = dest @ [lit ''bin'', lit ''cargo''] \<and> b = fd_content (tc_cargo tc) \<or>
        p = dest @ [lit ''bin'', lit ''rustc''] \<and> b = fd_content (tc_rustc tc)) \<or>
      (\<exists>s. (p, s) \<in> set (toolchain_sources dest tc) \<and> m = sealed_mode (st_mode (sg_first s)) \<and> b = sg_data s))) \<and>
    (\<forall>(p, s) \<in> set (toolchain_sources dest tc).
      p \<noteq> dest @ [lit ''bin'', lit ''cargo''] \<and> p \<noteq> dest @ [lit ''bin'', lit ''rustc'']) \<and>
    (\<exists>rp. tc_root tc = Some rp \<and> (\<forall>(p, s) \<in> set (toolchain_sources dest tc). source_ok rp s)) \<and>
    (\<forall>p. inside dest p \<longrightarrow> lookup fs' p \<noteq> Some SymLink) \<and>
    staged_length (toolchain_sources dest tc) + st_size (pf_stat (tc_cargo tc)) + st_size (pf_stat (tc_rustc tc))
      \<le> MAX_TOOLCHAIN_STAGE_BYTES"
proof (intro conjI)
  note t = toolchain_staged [OF assms]
  show "dest' = dest" by (rule t(1))
  show "\<forall>p m b. inside dest p \<longrightarrow> (lookup fs' p = Some (Regular m b) \<longleftrightarrow>
      m = 0x140 \<and> (p = dest @ [lit ''bin'', lit ''cargo''] \<and> b = fd_content (tc_cargo tc) \<or>
        p = dest @ [lit ''bin'', lit ''rustc''] \<and> b = fd_content (tc_rustc tc)) \<or>
      (\<exists>s. (p, s) \<in> set (toolchain_sources dest tc) \<and> m = sealed_mode (st_mode (sg_first s)) \<and> b = sg_data s))"
    using t(2) by blast
  show "\<forall>(p, s) \<in> set (toolchain_sources dest tc). p \<noteq> dest @ [lit ''bin'', lit ''cargo''] \<and> p \<noteq> dest @ [lit ''bin'', lit ''rustc'']"
    using staged_not_pinned by (fastforce simp: toolchain_sources_def split: option.splits)
  show "\<forall>p. inside dest p \<longrightarrow> lookup fs' p \<noteq> Some SymLink" using t(3) by blast
qed (use toolchain_staged(4,5) [OF assms] in blast)+

theorem staged_toolchain_pinned_witness:
  "lookup demo_runtime [lit ''t'', lit ''bin'', lit ''cargo''] = Some (Regular 0x140 (fd_content (tc_cargo demo_toolchain))) \<and>
   staged_length (toolchain_sources [lit ''t''] demo_toolchain) \<le> MAX_TOOLCHAIN_STAGE_BYTES"
proof -
  have "\<forall>q. inside [lit ''t''] q \<longrightarrow> lookup demo_root_dir q = None"
    by (auto simp: demo_root_dir_def inside_def starts_with_iff)
  note w = staged_toolchain_pinned [OF demo_runtime_staged this]
  have "inside [lit ''t''] ([lit ''t''] @ [lit ''bin'', lit ''cargo''])" by (rule inside_append)
  with w have "lookup demo_runtime ([lit ''t''] @ [lit ''bin'', lit ''cargo'']) = Some (Regular 0x140 (fd_content (tc_cargo demo_toolchain)))"
    by blast
  with w show ?thesis by (simp del: lit_Cons)
qed

end
