(* ===== verification/Report_File.thy ===== *)
theory Report_File
  imports Workspace
begin

text \<open>
  The publication of the report: \<open>private_directory\<close> and \<open>write_report_exclusive\<close> in
  \<open>tools/moriarty_isolation.py\<close>. The parent directory is looked at twice, by path and through the
  descriptor in which the file is then created.
\<close>

record dir_info =
  di_is_dir :: bool
  di_uid :: nat
  di_mode :: nat

datatype create_answer = Created | CreateExists | CreateFails

text \<open>
  The world: the user, what the repository's root and the parent of the output resolve to, the parent's
  \<open>stat\<close>, opening it (an errno or its \<open>fstat\<close>), and the exclusive creation in the opened directory.
\<close>

record report_world =
  rw_uid :: nat
  rw_repository :: "path option"
  rw_parent :: "path option"
  rw_stat :: "dir_info option"
  rw_open :: "nat + dir_info"
  rw_create :: create_answer

definition group_or_other :: "nat \<Rightarrow> bool" where
  "group_or_other mode \<longleftrightarrow> and (S_IMODE mode) 0x3F \<noteq> 0"

definition private_directory :: "nat \<Rightarrow> dir_info option \<Rightarrow> bool" where
  "private_directory uid info = (case info of
     None \<Rightarrow> False
   | Some i \<Rightarrow> di_is_dir i \<and> di_uid i = uid \<and> \<not> group_or_other (di_mode i))"

text \<open>
  The output is its text: absolute when it starts with a slash. The result is the directory, the name
  and the content that was written and synchronised.
\<close>

definition output_name :: "pystr \<Rightarrow> pystr" where
  "output_name out = (let parts = path_parts out in if parts = [] then [] else last parts)"

definition write_report_exclusive :: "report_world \<Rightarrow> pystr \<Rightarrow> bytes \<Rightarrow> (path \<times> pystr \<times> bytes) result" where
  "write_report_exclusive w out encoded =
     (if \<not> starts_with out [47] \<or> output_name out \<in> {[], lit ''.'', lit ''..''}
      then Inl (SystemExit ''moriarty_report_output_must_be_absolute'')
      else case (rw_repository w, rw_parent w) of
        (Some repository, Some parent) \<Rightarrow>
          if inside repository parent then Inl (SystemExit ''moriarty_report_output_inside_repository'')
          else if \<not> private_directory (rw_uid w) (rw_stat w) then Inl (SystemExit ''moriarty_report_parent_not_private'')
          else (case rw_open w of
            Inl n \<Rightarrow> Inl (OSError n)
          | Inr info \<Rightarrow>
              if di_uid info \<noteq> rw_uid w \<or> group_or_other (di_mode info) then Inl (SystemExit ''moriarty_report_parent_changed'')
              else (case rw_create w of
                CreateExists \<Rightarrow> Inl (SystemExit ''moriarty_report_output_exists'')
              | CreateFails \<Rightarrow> Inl (SystemExit ''moriarty_report_output_open_failed'')
              | Created \<Rightarrow> Inr (parent, output_name out, encoded)))
      | _ \<Rightarrow> Inl (SystemExit ''moriarty_report_parent_unavailable''))"

text \<open>A report that was written is a new file outside the repository, in a directory that is private both by
  path and by descriptor.\<close>

lemma write_report_exclusive_Inr:
  assumes "write_report_exclusive w out encoded = Inr (parent, n, content)"
  shows "content = encoded \<and> rw_parent w = Some parent \<and> rw_create w = Created \<and>
    (\<exists>repository. rw_repository w = Some repository \<and> \<not> strictly_inside repository (parent @ [n])) \<and>
    (\<exists>info. rw_open w = Inr info \<and> di_uid info = rw_uid w \<and> \<not> group_or_other (di_mode info))"
proof -
  from assms obtain repository info where s: "rw_repository w = Some repository" "rw_parent w = Some parent"
    "\<not> inside repository parent" "rw_open w = Inr info" "di_uid info = rw_uid w" "\<not> group_or_other (di_mode info)"
    "rw_create w = Created" "content = encoded" "n = output_name out" "private_directory (rw_uid w) (rw_stat w)"
    by (auto simp: write_report_exclusive_def split: if_split_asm option.splits sum.splits create_answer.splits)
  have "\<not> strictly_inside repository (parent @ [n])"
  proof
    assume "strictly_inside repository (parent @ [n])"
    then obtain ys where "parent @ [n] = repository @ ys" "ys \<noteq> []" by (auto simp: strictly_inside_def starts_with_iff)
    then have "parent = repository @ butlast ys" by (metis butlast_append butlast_snoc)
    with s(3) show False by simp
  qed
  with s show ?thesis by simp
qed

end
