(* ===== verification/Replay.thy ===== *)
theory Replay
  imports Moriarty_Registry Probe_Run Tar_Export
begin

text \<open>
  Running a probe with the removal of its files, and the replay of accepted counterexamples, in
  \<open>tools/run_moriarty.py\<close>: the export of a commit for a run, \<open>_force_remove_probe_path\<close>, the two cleanups, \<open>_run_probe_with_cleanup\<close>,
  \<open>_run_counterexample_replay_probe\<close> and \<open>verify_accepted_counterexamples\<close>.
\<close>

section \<open>Removing what a probe left\<close>

text \<open>
  The answer of a system call: it succeeds, the file is gone (FileNotFoundError), or another OSError.
  A directory is met with the answers to \<open>chmod\<close>, to the listing (the entries, then how it ends) and
  to \<open>rmdir\<close>. An entry of a listing is looked at before it is removed, and may be replaced by a
  directory in between (\<open>IsADirectoryError\<close>).
\<close>

datatype os_answer = Done | Vanished | Fails nat

datatype node =
    NoEntry
  | NoStat nat
  | Leaf os_answer
  | Folder os_answer "(pystr \<times> child) list" os_answer os_answer
and child =
    ChildGone
  | ChildNoStat nat
  | ChildFolder node
  | ChildLeaf os_answer
  | ChildReplaced node

datatype removal = Chmod path | Unlink path | Rmdir path

fun removal_path :: "removal \<Rightarrow> path" where
  "removal_path (Chmod p) = p" | "removal_path (Unlink p) = p" | "removal_path (Rmdir p) = p"

text \<open>\<open>except FileNotFoundError: pass\<close>.\<close>

definition tolerate :: "os_answer \<Rightarrow> unit result" where
  "tolerate a = (case a of Fails n \<Rightarrow> Inl (OSError n) | _ \<Rightarrow> Inr ())"

fun force_remove_probe_path :: "path \<Rightarrow> node \<Rightarrow> unit result \<times> removal list"
  and remove_children :: "path \<Rightarrow> (pystr \<times> child) list \<Rightarrow> unit result \<times> removal list"
  and remove_child :: "path \<Rightarrow> child \<Rightarrow> unit result \<times> removal list" where
  "force_remove_probe_path p NoEntry = (Inr (), [])"
| "force_remove_probe_path p (NoStat n) = (Inl (OSError n), [])"
| "force_remove_probe_path p (Leaf a) = (tolerate a, [Unlink p])"
| "force_remove_probe_path p (Folder mode es listed removed) =
     (case mode of
        Fails n \<Rightarrow> (Inl (OSError n), [Chmod p])
      | Vanished \<Rightarrow> (Inr (), [Chmod p])
      | Done \<Rightarrow>
          (case remove_children p es of
             (Inl e, fx) \<Rightarrow> (Inl e, Chmod p # fx)
           | (Inr _, fx) \<Rightarrow>
               (case listed of
                  Fails n \<Rightarrow> (Inl (OSError n), Chmod p # fx)
                | Vanished \<Rightarrow> (Inr (), Chmod p # fx)
                | Done \<Rightarrow> (tolerate removed, Chmod p # fx @ [Rmdir p]))))"
| "remove_children p [] = (Inr (), [])"
| "remove_children p ((name, c) # es) =
     (case remove_child (p @ [name]) c of
        (Inl e, fx) \<Rightarrow> (Inl e, fx)
      | (Inr _, fx) \<Rightarrow> (case remove_children p es of (r, fx') \<Rightarrow> (r, fx @ fx')))"
| "remove_child p ChildGone = (Inr (), [])"
| "remove_child p (ChildNoStat n) = (Inl (OSError n), [])"
| "remove_child p (ChildFolder nd) = force_remove_probe_path p nd"
| "remove_child p (ChildLeaf a) = (tolerate a, [Unlink p])"
| "remove_child p (ChildReplaced nd) =
     (case force_remove_probe_path p nd of (r, fx) \<Rightarrow> (r, Unlink p # fx))"

text \<open>The files that are there, by their path, when a cleanup runs.\<close>

type_synonym file_state = "path \<Rightarrow> node"

text \<open>The loop of both cleanups; \<open>code\<close> is the error of a path that is not strictly below \<open>base\<close>.\<close>

fun cleanup_below :: "string \<Rightarrow> path \<Rightarrow> file_state \<Rightarrow> path list \<Rightarrow> unit result \<times> removal list" where
  "cleanup_below code base fs [] = (Inr (), [])"
| "cleanup_below code base fs (p # ps) =
     (if p = base \<or> \<not> starts_with p base then (Inl (SystemExit code), [])
      else case force_remove_probe_path p (fs p) of
        (Inl e, fx) \<Rightarrow> (Inl e, fx)
      | (Inr _, fx) \<Rightarrow> (case cleanup_below code base fs ps of (r, fx') \<Rightarrow> (r, fx @ fx')))"

definition probe_writable_root :: "path option \<Rightarrow> path result" where
  "probe_writable_root active = (case active of
     None \<Rightarrow> Inl (SystemExit ''moriarty_probe_quota_root_not_initialized'') | Some p \<Rightarrow> Inr p)"

definition cleanup_probe_writable_paths :: "path option \<Rightarrow> file_state \<Rightarrow> path list \<Rightarrow> unit result \<times> removal list" where
  "cleanup_probe_writable_paths active fs paths =
     (case probe_writable_root active of
        Inl e \<Rightarrow> (Inl e, [])
      | Inr base \<Rightarrow> cleanup_below ''moriarty_probe_cleanup_path_escape'' base fs paths)"

definition cleanup_replay_workspace_paths :: "path \<Rightarrow> file_state \<Rightarrow> path list \<Rightarrow> unit result \<times> removal list" where
  "cleanup_replay_workspace_paths workspace fs paths =
     cleanup_below ''moriarty_replay_cleanup_path_escape'' workspace fs paths"

section \<open>One run\<close>

text \<open>\<open>finally\<close>: what the cleanup raises replaces the outcome. None is a body that does not return.\<close>

definition then_finally :: "('a result) option \<Rightarrow> unit result \<Rightarrow> ('a result) option" where
  "then_finally body cleanup = map_option (\<lambda>r. case cleanup of Inl e \<Rightarrow> Inl e | Inr _ \<Rightarrow> r) body"

definition run_probe_with_cleanup ::
  "(bytes \<Rightarrow> bytes) \<Rightarrow> path option \<Rightarrow> file_state \<Rightarrow> probe_world \<Rightarrow> string \<Rightarrow> probe_paths \<Rightarrow> (probe_result result) option" where
  "run_probe_with_cleanup sha256 active fs w probe_id a =
     then_finally (run_probe sha256 w probe_id a)
       (fst (cleanup_probe_writable_paths active fs [home a, cargo_home a, target_dir a, temp_dir a]))"

text \<open>The executables that every probe of a run shares.\<close>

record toolset =
  tool_python :: path
  tool_cargo :: path
  tool_rustc :: path
  tool_rustdoc :: "path option"
  tool_runtime :: "path option"

definition probe_arguments :: "toolset \<Rightarrow> path \<Rightarrow> path \<Rightarrow> path \<Rightarrow> path \<Rightarrow> probe_paths" where
  "probe_arguments tools home' source cargo target =
     \<lparr>home = home', source_root = source, cargo_home = cargo, target_dir = target, python_exec = tool_python tools,
      cargo_exec = tool_cargo tools, rustc_exec = tool_rustc tools, rustdoc_exec = tool_rustdoc tools,
      rust_runtime = tool_runtime tools\<rparr>"

definition probe_name :: "pystr \<Rightarrow> string" where
  "probe_name s = map char_of s"

text \<open>\<open>workspace / text\<close> for a name without a separator.\<close>

definition child_path :: "path \<Rightarrow> pystr \<Rightarrow> path" where
  "child_path p name = p @ [name]"

section \<open>The source of a run\<close>

text \<open>
  What the export of a commit meets: git and its answers, the library for archives, the mode of new
  directories, and the files of the workspace. \<open>earlier\<close> is the last reading of a commit by the same
  process, with the answers of that time: \<open>_verified_commit_files\<close> keeps what it read last.
\<close>

record export_world =
  ex_git :: trusted_executable
  ex_processes :: processes
  ex_earlier :: "(processes \<times> pystr) option"
  ex_tar :: tar_library
  ex_mode :: nat
  ex_files :: fs

definition module_cache :: "(bytes \<Rightarrow> bytes) \<Rightarrow> export_world \<Rightarrow> tree_cache" where
  "module_cache sha1 x = (case ex_earlier x of
     None \<Rightarrow> None | Some (ps, c) \<Rightarrow> snd (verified_commit_files sha1 ps (ex_git x) c None))"

text \<open>\<open>create_exact_export(commit, workspace, git_archive_bytes, label)\<close>: the directory and the files after it.\<close>

definition exact_export :: "(bytes \<Rightarrow> bytes) \<Rightarrow> export_world \<Rightarrow> pystr \<Rightarrow> path \<Rightarrow> pystr \<Rightarrow> (path \<times> fs) result" where
  "exact_export sha1 x commit workspace label =
     create_exact_export (ex_tar x)
       (git_archive_bytes (ex_tar x) (fst (verified_commit_files sha1 (ex_processes x) (ex_git x) commit (module_cache sha1 x))))
       (ex_mode x) workspace label (ex_files x)"

definition has_lock :: "path \<Rightarrow> fs \<Rightarrow> bool" where
  "has_lock source tree = (case lookup tree (source @ [lit ''Cargo.lock'']) of Some (Regular m b) \<Rightarrow> True | _ \<Rightarrow> False)"

text \<open>
  What happens in one run: the export, whether the Cargo template and the fresh Cargo home succeed, the
  answers to the probe, which depend on the files that were exported, and the files at the two cleanups.
\<close>

record run_world =
  export_answers :: export_world
  template_made :: "unit result"
  cargo_home_made :: "unit result"
  probe_answers :: "fs \<Rightarrow> probe_world"
  files_after_probe :: file_state
  files_at_end :: file_state

definition replay_label :: "nat \<Rightarrow> string \<Rightarrow> pystr" where
  "replay_label index phase = lit ''accepted-'' @ digits index @ lit ''-'' @ lit phase"

definition regression_probe :: "pydict \<Rightarrow> pystr" where
  "regression_probe item = str_of (hd (items_of (dget item ''regression_probe_ids'')))"

text \<open>The export of the commit, the lock file, the Cargo template and the Cargo home.\<close>

definition prepare_replay ::
  "(bytes \<Rightarrow> bytes) \<Rightarrow> run_world \<Rightarrow> bool \<Rightarrow> string \<Rightarrow> pystr \<Rightarrow> path \<Rightarrow> pystr \<Rightarrow> (path \<times> fs) result" where
  "prepare_replay sha1 w rust phase commit workspace label =
     bindE (exact_export sha1 (export_answers w) commit workspace label) (\<lambda>(source, tree).
       if rust \<and> \<not> has_lock source tree
       then Inl (SystemExit (''moriarty_replay_'' @ phase @ ''_cargo_lock_missing''))
       else case (if rust then validate_rust_target_topology (topology_source (probe_answers w tree)) else Inr ()) of
         Inl e \<Rightarrow> if is_exit e then Inr (source, tree) else Inl e
       | Inr _ \<Rightarrow> bindE (if rust then template_made w else Inr ()) (\<lambda>_.
           bindE (cargo_home_made w) (\<lambda>_. Inr (source, tree))))"

definition run_counterexample_replay_probe ::
  "(bytes \<Rightarrow> bytes) \<Rightarrow> (bytes \<Rightarrow> bytes) \<Rightarrow> path option \<Rightarrow> run_world \<Rightarrow> pydict \<Rightarrow> nat \<Rightarrow> string \<Rightarrow> pystr \<Rightarrow> path \<Rightarrow> toolset \<Rightarrow>
     (probe_result result) option" where
  "run_counterexample_replay_probe sha1 sha256 active w item index phase commit workspace tools =
     (let probe_id = probe_name (regression_probe item);
          label = replay_label index phase;
          rust = probe_id = ''rust_all''
      in case probe_writable_root active of
        Inl e \<Rightarrow> Some (Inl e)
      | Inr base \<Rightarrow>
          let home' = child_path base (label @ lit ''-home'');
              cargo = child_path base (lit ''cargo-home-'' @ label);
              target = child_path base (label @ lit ''-target'');
              temp = child_path base (lit ''tmp-'' @ label @ lit ''-target'');
              source_path = child_path workspace (label @ lit ''-src'');
              template = child_path workspace (label @ lit ''-template'')
          in then_finally
              (andThen (Some (prepare_replay sha1 w rust phase commit workspace label)) (\<lambda>(source, tree).
                 run_probe_with_cleanup sha256 active (files_after_probe w) (probe_answers w tree) probe_id
                   (probe_arguments tools home' source cargo target)))
              (bindE (fst (cleanup_probe_writable_paths active (files_at_end w) [home', cargo, target, temp])) (\<lambda>_.
                fst (cleanup_replay_workspace_paths workspace (files_at_end w)
                  (source_path # (if rust then [template] else []))))))"

section \<open>The replay of accepted counterexamples\<close>

record replay_record =
  rr_counterexample_id :: pyval
  rr_status :: pyval
  rr_probe_id :: pystr
  rr_ok :: bool
  rr_target_reproduced :: bool
  rr_resolution_green :: "bool option"
  rr_failure_kind :: "string option"
  rr_failure_result :: "pydict option"

definition new_record :: "pydict \<Rightarrow> replay_record" where
  "new_record item =
     \<lparr>rr_counterexample_id = dget item ''counterexample_id'', rr_status = dget item ''status'',
      rr_probe_id = regression_probe item, rr_ok = False, rr_target_reproduced = False,
      rr_resolution_green = None, rr_failure_kind = None, rr_failure_result = None\<rparr>"

text \<open>\<open>except SystemExit\<close> around a replay: a result, the exit, or another exception that escapes.\<close>

definition on_exit :: "('a result) option \<Rightarrow> 'b \<Rightarrow> ('a \<Rightarrow> ('b result) option) \<Rightarrow> ('b result) option" where
  "on_exit m fallback k = (case m of
     None \<Rightarrow> None
   | Some (Inl e) \<Rightarrow> Some (if is_exit e then Inr fallback else Inl e)
   | Some (Inr x) \<Rightarrow> k x)"

text \<open>\<open>replay phase commit\<close> is the run of the counterexample at its target or its resolution commit.\<close>

definition replay_item ::
  "(string \<Rightarrow> pystr \<Rightarrow> (probe_result result) option) \<Rightarrow> pydict \<Rightarrow> (replay_record result) option" where
  "replay_item replay item =
     (let new = new_record item in
      on_exit (replay ''target'' (str_of (dget item ''target_commit''))) (new\<lparr>rr_failure_kind := Some ''replay_setup_error''\<rparr>) (\<lambda>before.
        let reproduced = counterexample_failure_matches item before;
            seen = new\<lparr>rr_target_reproduced := reproduced\<rparr>
        in if \<not> reproduced
           then Some (Inr (seen\<lparr>rr_failure_kind := Some ''target_failure_not_reproduced'',
                  rr_failure_result := Some (report_probe_result before)\<rparr>))
           else if py_eq (dget item ''status'') (PS ''unresolved'') then Some (Inr (seen\<lparr>rr_ok := True\<rparr>))
           else if \<not> is_str (dget item ''resolution_commit'') then Some (Inl AssertionError)
           else on_exit (replay ''resolution'' (str_of (dget item ''resolution_commit'')))
              (seen\<lparr>rr_resolution_green := Some False, rr_failure_kind := Some ''replay_setup_error''\<rparr>) (\<lambda>after.
                let green = (pr_ok after \<and> pr_exit_code after = Some 0);
                    final = seen\<lparr>rr_resolution_green := Some green\<rparr>
                in Some (Inr (if \<not> green
                     then final\<lparr>rr_failure_kind := Some ''resolution_probe_not_green'',
                            rr_failure_result := Some (report_probe_result after)\<rparr>
                     else final\<lparr>rr_ok := True\<rparr>)))))"

fun verify_accepted_from ::
  "(nat \<Rightarrow> pydict \<Rightarrow> string \<Rightarrow> pystr \<Rightarrow> (probe_result result) option) \<Rightarrow> nat \<Rightarrow> pydict list \<Rightarrow> (replay_record list result) option" where
  "verify_accepted_from replay index [] = Some (Inr [])"
| "verify_accepted_from replay index (item # items) =
     (case replay_item (replay index item) item of
        None \<Rightarrow> None
      | Some (Inl e) \<Rightarrow> Some (Inl e)
      | Some (Inr r) \<Rightarrow> map_option (\<lambda>rest. bindE rest (\<lambda>rs. Inr (r # rs))) (verify_accepted_from replay (index + 1) items))"

definition verify_accepted_counterexamples ::
  "(bytes \<Rightarrow> bytes) \<Rightarrow> (bytes \<Rightarrow> bytes) \<Rightarrow> path option \<Rightarrow> (nat \<Rightarrow> string \<Rightarrow> run_world) \<Rightarrow> pydict list \<Rightarrow> path \<Rightarrow> toolset \<Rightarrow>
     (replay_record list result) option" where
  "verify_accepted_counterexamples sha1 sha256 active worlds accepted workspace tools =
     verify_accepted_from (\<lambda>index item phase commit.
       run_counterexample_replay_probe sha1 sha256 active (worlds index phase) item index phase commit workspace tools) 0 accepted"

end
