(* ===== verification/Graduation.thy ===== *)
theory Graduation
  imports Replay
begin

text \<open>
  \<open>main\<close> in \<open>tools/run_moriarty.py\<close>: the checks of the target, the workspace with its runtimes, the
  corpus and the registry, one run of every probe, the replays, the counterexamples, the report and
  the exit code. The answers of git, of the preparations and of the probes are fields of
  \<open>main_world\<close>, one for every call.
\<close>

section \<open>Constants\<close>

definition OPERATOR_PROFILE :: string where "OPERATOR_PROFILE = ''provider-neutral-fixed-probe/1''"
definition MAX_REPORT_COUNTEREXAMPLES :: nat where "MAX_REPORT_COUNTEREXAMPLES = 48"
definition MAX_REPORT_BYTES :: nat where "MAX_REPORT_BYTES = 512 * 1024"

section \<open>The inputs\<close>

text \<open>
  \<open>load_json\<close>: the decoded value of the file, or the text of the exception
  (OSError, UnicodeError or JSONDecodeError).
\<close>

definition load_json :: "path \<Rightarrow> pystr + pyval \<Rightarrow> pydict result" where
  "load_json p a = (case a of
     Inl exc \<Rightarrow> Inl (SystemExitFor ''moriarty_json_load_failed:'' (path_text p @ lit '':'' @ exc))
   | Inr v \<Rightarrow> if is_dict v then Inr (dict_of v) else Inl (SystemExitFor ''moriarty_json_object_required:'' (path_text p)))"

text \<open>
  \<open>heads k\<close>, \<open>cleans k\<close> and \<open>harness k\<close> are the answers of \<open>git_head\<close>, \<open>tracked_tree_clean\<close> and
  \<open>harness_files_match_target\<close> at the start, after the probes and after the publication. An
  environment variable is None when it is missing or empty, else the result of the check of its path.
  \<open>json_at\<close> is what reading and decoding a file of the exported tree gives.
\<close>

record main_world =
  bootstrap_target :: pystr
  heads :: "nat \<Rightarrow> pystr result"
  cleans :: "nat \<Rightarrow> bool result"
  harness :: "nat \<Rightarrow> bool result"
  quota_value :: "path result option"
  cache_result :: "path result"
  cgroup_value :: "path result option"
  cgroup_members :: "int list result"
  main_landlock :: int
  main_seccomp :: bool
  control_run :: run_world
  python_staged :: "unit result"
  snapshot_root :: "path option"
  discovery_used :: bool
  cargo_executable :: path
  direct_root :: "path result"
  runtime_staged :: "unit result"
  rustdoc_staged :: bool
  json_at :: "fs \<Rightarrow> path \<Rightarrow> pystr + pyval"
  reviewed_history :: history
  probe_runs :: "nat \<Rightarrow> run_world"
  replay_runs :: "nat \<Rightarrow> string \<Rightarrow> run_world"
  workspace_removed :: "unit result"
  report_written :: "unit result"
  diagnostic_written :: "unit result"

text \<open>\<open>git_head() != target or not tracked_tree_clean() or not harness_files_match_target(target)\<close>.\<close>

definition target_intact :: "main_world \<Rightarrow> nat \<Rightarrow> pystr \<Rightarrow> string \<Rightarrow> unit result" where
  "target_intact w k target code =
     bindE (heads w k) (\<lambda>h.
       if h \<noteq> target then Inl (SystemExit code)
       else bindE (cleans w k) (\<lambda>clean.
         if \<not> clean then Inl (SystemExit code)
         else bindE (harness w k) (\<lambda>same. guardE same (SystemExit code))))"

definition check_target :: "main_world \<Rightarrow> pystr \<Rightarrow> unit result" where
  "check_target w target =
     (if target \<noteq> bootstrap_target w then Inl (SystemExit ''moriarty_target_commit_bootstrap_mismatch'')
      else if \<not> rx_match TARGET_RE target then Inl (SystemExit ''moriarty_target_commit_invalid'')
      else bindE (heads w 0) (\<lambda>h.
        if h \<noteq> target then Inl (SystemExit ''moriarty_target_commit_does_not_match_checkout'')
        else bindE (cleans w 0) (\<lambda>clean.
          if \<not> clean then Inl (SystemExit ''moriarty_target_tracked_tree_or_index_flags_dirty'')
          else bindE (harness w 0) (\<lambda>same.
            guardE same (SystemExit ''moriarty_harness_worktree_bytes_do_not_match_target'')))))"

text \<open>The quota root, the Cargo cache and the cgroup; the quota root is the value.\<close>

definition check_resources :: "main_world \<Rightarrow> path result" where
  "check_resources w =
     (case quota_value w of
        None \<Rightarrow> Inl (SystemExit ''moriarty_probe_quota_root_required'')
      | Some quota \<Rightarrow> bindE quota (\<lambda>base. bindE (cache_result w) (\<lambda>_.
          case cgroup_value w of
            None \<Rightarrow> Inl (SystemExit ''moriarty_probe_cgroup_required'')
          | Some cgroup \<Rightarrow> bindE cgroup (\<lambda>_. bindE (cgroup_members w) (\<lambda>members.
              if members \<noteq> [] then Inl (SystemExit ''moriarty_probe_cgroup_not_empty_at_start'') else Inr base)))))"

definition rust_source_root :: "main_world \<Rightarrow> path result" where
  "rust_source_root w = (case snapshot_root w of
     Some p \<Rightarrow> Inr p
   | None \<Rightarrow> if discovery_used w then Inr (butlast (butlast (cargo_executable w))) else direct_root w)"

text \<open>The export of the target and the staged runtimes; with the tools, the exported source and its files.\<close>

definition stage_runtimes :: "(bytes \<Rightarrow> bytes) \<Rightarrow> main_world \<Rightarrow> pystr \<Rightarrow> path \<Rightarrow> (toolset \<times> path \<times> fs) result" where
  "stage_runtimes sha1 w target workspace =
     (let runtime = child_path workspace (lit ''rust-runtime'');
          bin = child_path runtime (lit ''bin'') in
      if main_landlock w < 3 then Inl (SystemExit ''moriarty_landlock_abi3_required'')
      else if \<not> main_seccomp w then Inl (SystemExit ''moriarty_network_seccomp_required'')
      else bindE (exact_export sha1 (export_answers (control_run w)) target workspace (lit ''control'')) (\<lambda>(source, tree).
        if \<not> has_lock source tree then Inl (SystemExit ''moriarty_committed_cargo_lock_missing'')
        else bindE (template_made (control_run w)) (\<lambda>_.
        bindE (python_staged w) (\<lambda>_.
        bindE (rust_source_root w) (\<lambda>_.
        bindE (runtime_staged w) (\<lambda>_.
          if \<not> rustdoc_staged w then Inl (SystemExit ''moriarty_staged_rustdoc_missing'')
          else Inr (\<lparr>tool_python = workspace @ [lit ''python-runtime'', lit ''python3''], tool_cargo = child_path bin (lit ''cargo''),
            tool_rustc = child_path bin (lit ''rustc''), tool_rustdoc = Some (child_path bin (lit ''rustdoc'')),
            tool_runtime = Some runtime\<rparr>, source, tree)))))))"

section \<open>The probes\<close>

definition strings_of :: "pyval \<Rightarrow> pystr list" where
  "strings_of v = map str_of (items_of v)"

definition requested_probe_ids :: "pydict list \<Rightarrow> pydict list \<Rightarrow> pystr list" where
  "requested_probe_ids attacks accepted =
     concat (map (\<lambda>a. strings_of (dget a ''probe_ids'')) attacks) @
     concat (map (\<lambda>i. strings_of (dget i ''regression_probe_ids'')) accepted)"

fun first_occurrences :: "'a list \<Rightarrow> 'a list \<Rightarrow> 'a list" where
  "first_occurrences seen [] = []"
| "first_occurrences seen (x # xs) =
     (if x \<in> set seen then first_occurrences seen xs else x # first_occurrences (x # seen) xs)"

definition ordered_probe_ids :: "pydict list \<Rightarrow> pydict list \<Rightarrow> pystr list" where
  "ordered_probe_ids attacks accepted = first_occurrences [] (requested_probe_ids attacks accepted)"

text \<open>\<open>probe_users[probe_id]\<close>: the attack once for every mention of the probe.\<close>

definition probe_users :: "pydict list \<Rightarrow> pystr \<Rightarrow> pydict list" where
  "probe_users attacks probe_id =
     concat (map (\<lambda>a. map (\<lambda>_. a) (filter (\<lambda>p. p = probe_id) (strings_of (dget a ''probe_ids'')))) attacks)"

text \<open>One entry of the loop over the probes, on a fresh export of the target.\<close>

definition probe_label :: "nat \<Rightarrow> pystr \<Rightarrow> pystr" where
  "probe_label index probe_id = lit ''probe-'' @ digits index @ lit ''-'' @ probe_id"

definition run_target_probe ::
  "(bytes \<Rightarrow> bytes) \<Rightarrow> (bytes \<Rightarrow> bytes) \<Rightarrow> path \<Rightarrow> run_world \<Rightarrow> pystr \<Rightarrow> nat \<Rightarrow> pystr \<Rightarrow> path \<Rightarrow> toolset \<Rightarrow> (probe_result result) option" where
  "run_target_probe sha1 sha256 base w target index probe_id workspace tools =
     (let suffix = digits index @ lit ''-'' @ probe_id; label = probe_label index probe_id in
      andThen (Some (bindE (exact_export sha1 (export_answers w) target workspace label) (\<lambda>export.
                     bindE (cargo_home_made w) (\<lambda>_. Inr export)))) (\<lambda>(source, tree).
        run_probe_with_cleanup sha256 (Some base) (files_after_probe w) (probe_answers w tree) (probe_name probe_id)
          (probe_arguments tools (child_path base (lit ''home-'' @ suffix)) source
            (child_path base (lit ''cargo-home-'' @ label)) (child_path base (lit ''target-'' @ suffix)))))"

type_synonym probe_results = "(pystr \<times> probe_result) list"

fun run_target_probes ::
  "(nat \<Rightarrow> pystr \<Rightarrow> (probe_result result) option) \<Rightarrow> nat \<Rightarrow> pystr list \<Rightarrow> (probe_results result) option" where
  "run_target_probes run index [] = Some (Inr [])"
| "run_target_probes run index (p # ps) =
     andThen (run index p) (\<lambda>r. andThen (run_target_probes run (index + 1) ps) (\<lambda>rs. Some (Inr ((p, r) # rs))))"

section \<open>Counterexamples\<close>

definition is_unresolved :: "pydict \<Rightarrow> bool" where
  "is_unresolved item \<longleftrightarrow> py_eq (dget item ''status'') (PS ''unresolved'')"

definition accepted_unresolved_failures :: "pydict list \<Rightarrow> (pystr \<times> pystr) list" where
  "accepted_unresolved_failures accepted =
     map (\<lambda>item. (str_of (dget item ''attack_id''), regression_probe item)) (filter is_unresolved accepted)"

text \<open>Whether a failing probe becomes a counterexample of its only owner.\<close>

definition generates :: "pydict list \<Rightarrow> pydict list \<Rightarrow> pystr \<times> probe_result \<Rightarrow> bool" where
  "generates attacks accepted pr = (case pr of (probe_id, r) \<Rightarrow>
     \<not> pr_ok r \<and> length (probe_users attacks probe_id) = 1 \<and>
     (\<exists>kind \<in> set [''exit_nonzero'', ''timeout'', ''tool_error'']. pr_failure_kind r = Some kind) \<and>
     (str_of (dget (hd (probe_users attacks probe_id)) ''id''), probe_id) \<notin> set (accepted_unresolved_failures accepted))"

definition generate_counterexamples ::
  "(bytes \<Rightarrow> bytes) \<Rightarrow> (pystr \<Rightarrow> pystr) \<Rightarrow> pystr \<Rightarrow> pydict list \<Rightarrow> pydict list \<Rightarrow> probe_results \<Rightarrow> (pydict list) result" where
  "generate_counterexamples sha256 nfc target attacks accepted results =
     mapE (\<lambda>(probe_id, r). generated_counterexample sha256 nfc target (hd (probe_users attacks probe_id)) r)
       (filter (generates attacks accepted) results)"

section \<open>The report\<close>

definition replay_json :: "replay_record \<Rightarrow> pyval" where
  "replay_json r = PDict (pd
     [(''counterexample_id'', rr_counterexample_id r), (''status'', rr_status r), (''probe_id'', PStr (rr_probe_id r)),
      (''ok'', PBool (rr_ok r)), (''target_reproduced'', PBool (rr_target_reproduced r)),
      (''resolution_green'', case rr_resolution_green r of None \<Rightarrow> PNone | Some b \<Rightarrow> PBool b),
      (''failure_kind'', py_str_opt (rr_failure_kind r)),
      (''failure_result'', case rr_failure_result r of None \<Rightarrow> PNone | Some d \<Rightarrow> PDict d)])"

text \<open>What the runs of the harness have established.\<close>

record findings =
  f_results :: probe_results
  f_replays :: "replay_record list"
  f_accepted :: "pydict list"
  f_generated :: "pydict list"

definition unresolved_count :: "findings \<Rightarrow> nat" where
  "unresolved_count f = length (filter is_unresolved (f_accepted f)) + length (f_generated f)"

definition graduated :: "findings \<Rightarrow> bool" where
  "graduated f \<longleftrightarrow> unresolved_count f = 0 \<and> list_all (\<lambda>(_, r). pr_ok r) (f_results f) \<and> list_all rr_ok (f_replays f)"

definition make_report :: "pystr \<Rightarrow> pystr \<Rightarrow> findings \<Rightarrow> pydict" where
  "make_report target corpus_ref f = pd
     [(''schema'', PS REPORT_SCHEMA), (''protocol'', PS PROTOCOL), (''target_commit'', PStr target),
      (''corpus_ref'', PStr corpus_ref), (''operator_profile'', PS OPERATOR_PROFILE),
      (''family_count'', PInt (int (length EXPECTED_FAMILIES))), (''executed_probe_count'', PInt (int (length (f_results f)))),
      (''probe_results'', PList (map (\<lambda>(_, r). PDict (report_probe_result r)) (f_results f))),
      (''remediation_replays'', PList (map replay_json (f_replays f))),
      (''counterexamples'', PList (map PDict (f_accepted f @ f_generated f))),
      (''unresolved_counterexamples'', PInt (int (unresolved_count f))), (''graduated'', PBool (graduated f)),
      (''production_credentials_used'', PBool False), (''production_targets_used'', PBool False),
      (''constitutional_bypass_used'', PBool False), (''security_proof'', PBool False),
      (''no_counterexample_found_implies_none_exist'', PBool False), (''authority_effect'', PS ''none'')]"

text \<open>The diagnostic of a failed Rust probe, for a report that does not graduate.\<close>

definition failure_class :: "probe_result \<Rightarrow> string" where
  "failure_class r = (case pr_diagnostic_class r of
     None \<Rightarrow> ''rust_exit_other'' | Some c \<Rightarrow> if c = [] then ''rust_exit_other'' else c)"

definition make_diagnostic :: "pystr \<Rightarrow> findings \<Rightarrow> pydict option" where
  "make_diagnostic target f =
     (case lookup (f_results f) (lit ''rust_all'') of
        None \<Rightarrow> None
      | Some r \<Rightarrow> if \<not> graduated f \<and> \<not> pr_ok r
          then Some (pd [(''schema'', PS ''moriarty-diagnostic/1''), (''target_commit'', PStr target), (''probe_id'', PS ''rust_all''),
                 (''failure_class'', PS (failure_class r)), (''authority_effect'', PS ''none'')])
          else None)"

section \<open>The whole run\<close>

text \<open>What the run leaves behind: the exit code, the octets of the report and of the diagnostic.\<close>

record outcome =
  exit_code :: int
  report_bytes :: bytes
  diagnostic_bytes :: "bytes option"
  announced_sha256 :: pystr

definition encode_json :: "(pystr \<Rightarrow> pystr) \<Rightarrow> pydict \<Rightarrow> bytes result" where
  "encode_json nfc d = bindE (serialize nfc (PDict d)) utf8_encode"

text \<open>From the finished probes on.\<close>

definition publish ::
  "(bytes \<Rightarrow> bytes) \<Rightarrow> (pystr \<Rightarrow> pystr) \<Rightarrow> main_world \<Rightarrow> pystr \<Rightarrow> pydict \<Rightarrow> findings \<Rightarrow> outcome result" where
  "publish sha256 nfc w target corpus f =
     bindE (target_intact w 1 target ''moriarty_target_or_harness_changed_during_probes'') (\<lambda>_.
     bindE (canonical_ref sha256 nfc (PDict corpus)) (\<lambda>corpus_ref.
     if MAX_REPORT_COUNTEREXAMPLES < length (f_accepted f @ f_generated f)
     then Inl (SystemExit ''moriarty_report_counterexample_count_exceeded'')
     else bindE (encode_json nfc (make_report target corpus_ref f)) (\<lambda>encoded.
     if MAX_REPORT_BYTES < length encoded then Inl (SystemExit ''moriarty_report_size_exceeded'')
     else bindE (report_written w) (\<lambda>_.
     bindE (case make_diagnostic target f of
              None \<Rightarrow> Inr None
            | Some d \<Rightarrow> bindE (encode_json nfc d) (\<lambda>b. bindE (diagnostic_written w) (\<lambda>_. Inr (Some b)))) (\<lambda>diagnostic.
     bindE (target_intact w 2 target ''moriarty_target_or_harness_changed_during_report_publication'') (\<lambda>_.
       Inr \<lparr>exit_code = (if graduated f then 0 else 1), report_bytes = encoded, diagnostic_bytes = diagnostic,
            announced_sha256 = hexdigest (sha256 encoded)\<rparr>))))))"

text \<open>The corpus and the registry of the exported source, with the attacks and the accepted counterexamples.\<close>

definition load_inputs ::
  "(bytes \<Rightarrow> bytes) \<Rightarrow> (pystr \<Rightarrow> pystr) \<Rightarrow> main_world \<Rightarrow> pystr \<Rightarrow> path \<Rightarrow> fs \<Rightarrow> (pydict \<times> pydict list \<times> pydict list) result" where
  "load_inputs sha256 nfc w target source tree =
     (let fixture = (\<lambda>name. source @ [lit ''fixtures'', lit ''phase9'', lit name]) in
      bindE (load_json (fixture ''attack-corpus.json'') (json_at w tree (fixture ''attack-corpus.json''))) (\<lambda>corpus.
      bindE (validate_attack_corpus corpus) (\<lambda>attacks.
      bindE (load_json (fixture ''accepted-counterexamples.json'') (json_at w tree (fixture ''accepted-counterexamples.json''))) (\<lambda>registry.
      bindE (validate_registry sha256 nfc (reviewed_history w) registry attacks target) (\<lambda>accepted.
        Inr (corpus, attacks, accepted))))))"

text \<open>The body of the \<open>with\<close> block: corpus, attacks, accepted counterexamples, results and replays.\<close>

definition run_workspace ::
  "(bytes \<Rightarrow> bytes) \<Rightarrow> (bytes \<Rightarrow> bytes) \<Rightarrow> (pystr \<Rightarrow> pystr) \<Rightarrow> main_world \<Rightarrow> pystr \<Rightarrow> path \<Rightarrow> path \<Rightarrow>
     ((pydict \<times> pydict list \<times> pydict list \<times> probe_results \<times> replay_record list) result) option" where
  "run_workspace sha1 sha256 nfc w target base workspace =
     andThen (Some (stage_runtimes sha1 w target workspace)) (\<lambda>(tools, source, tree).
     andThen (Some (load_inputs sha256 nfc w target source tree)) (\<lambda>(corpus, attacks, accepted).
     andThen (run_target_probes (\<lambda>index p. run_target_probe sha1 sha256 base (probe_runs w index) target index p workspace tools) 0
                (ordered_probe_ids attacks accepted)) (\<lambda>results.
     andThen (verify_accepted_counterexamples sha1 sha256 (Some base) (replay_runs w) accepted workspace tools) (\<lambda>replays.
       Some (Inr (corpus, attacks, accepted, results, replays))))))"

definition moriarty_main ::
  "(bytes \<Rightarrow> bytes) \<Rightarrow> (bytes \<Rightarrow> bytes) \<Rightarrow> (pystr \<Rightarrow> pystr) \<Rightarrow> main_world \<Rightarrow> pystr \<Rightarrow> path \<Rightarrow> (outcome result) option" where
  "moriarty_main sha1 sha256 nfc w target workspace =
     (case bindE (check_target w target) (\<lambda>_. check_resources w) of
        Inl e \<Rightarrow> Some (Inl e)
      | Inr base \<Rightarrow>
          andThen (then_finally (run_workspace sha1 sha256 nfc w target base workspace) (workspace_removed w))
            (\<lambda>(corpus, attacks, accepted, results, replays).
              Some (bindE (generate_counterexamples sha256 nfc target attacks accepted results) (\<lambda>generated.
                publish sha256 nfc w target corpus
                  \<lparr>f_results = results, f_replays = replays, f_accepted = accepted, f_generated = generated\<rparr>))))"

end
