(* ===== verification/Graduation_Laws.thy ===== *)
theory Graduation_Laws
  imports Graduation Probe_Laws
begin

text \<open>
  What a completed run of the harness has established: which runs stand behind its report, when it
  graduates a commit, that a failing probe is never lost, that the cleanups stay inside their
  directories, and that the run returns.
\<close>

section \<open>Cleanups\<close>

lemma starts_with_trans: "starts_with xs ys \<Longrightarrow> starts_with ys zs \<Longrightarrow> starts_with xs zs"
  by (auto simp: starts_with_iff)

lemma starts_with_refl [simp]: "starts_with xs xs"
  by (auto simp: starts_with_iff)

lemma below_child: "starts_with q (p @ [n]) \<Longrightarrow> starts_with q p"
  by (auto simp: starts_with_iff)

lemma remove_below:
  "force_remove_probe_path p nd = (r, fx) \<Longrightarrow> x \<in> set fx \<Longrightarrow> starts_with (removal_path x) p"
  "remove_children p es = (r, fx) \<Longrightarrow> x \<in> set fx \<Longrightarrow> starts_with (removal_path x) p"
  "remove_child p c = (r, fx) \<Longrightarrow> x \<in> set fx \<Longrightarrow> starts_with (removal_path x) p"
proof (induction p nd and p es and p c arbitrary: r fx and r fx and r fx
    rule: force_remove_probe_path_remove_children_remove_child.induct)
  case (4 p mode es listed removed)
  obtain r' fx' where c: "remove_children p es = (r', fx')" by (metis surj_pair)
  have "x = Chmod p \<or> x = Rmdir p \<or> x \<in> set fx'"
    using "4.prems" c by (auto split: os_answer.splits sum.splits)
  moreover have "starts_with (removal_path x) p" if "x \<in> set fx'"
    using that 4 c by (cases mode) auto
  ultimately show ?case by auto
next
  case (6 p name c es)
  then show ?case by (fastforce split: sum.splits prod.splits dest: below_child)
qed (auto split: prod.splits)

lemma cleanup_below_confined:
  "cleanup_below code base fs ps = (r, fx) \<Longrightarrow> x \<in> set fx \<Longrightarrow>
     starts_with (removal_path x) base \<and> removal_path x \<noteq> base \<and> (\<exists>p \<in> set ps. starts_with (removal_path x) p)"
proof (induction ps arbitrary: r fx)
  case (Cons p ps)
  show ?case
  proof (cases "p = base \<or> \<not> starts_with p base")
    case True
    then show ?thesis using Cons.prems by auto
  next
    case False
    obtain r1 fx1 where f: "force_remove_probe_path p (fs p) = (r1, fx1)" by (metis surj_pair)
    have here: "starts_with (removal_path x) p" if "x \<in> set fx1" using remove_below(1) [OF f that] .
    have "starts_with q base \<and> q \<noteq> base" if "starts_with q p" for q
      using that False by (auto simp: starts_with_iff)
    moreover obtain r2 fx2 where c: "cleanup_below code base fs ps = (r2, fx2)" by (metis surj_pair)
    moreover have "x \<in> set fx1 \<or> x \<in> set fx2" using Cons.prems False f c by (auto split: sum.splits)
    ultimately show ?thesis using here Cons.IH [OF c] by auto
  qed
qed simp

section \<open>Runs\<close>

lemma then_finally_Inr: "then_finally m c = Some (Inr x) \<longleftrightarrow> m = Some (Inr x) \<and> c = Inr ()"
  by (cases c) (auto simp: then_finally_def)

lemma then_finally_None: "then_finally m c = None \<longleftrightarrow> m = None"
  by (simp add: then_finally_def)

lemma run_probe_with_cleanup_Inr:
  "run_probe_with_cleanup sha256 active fs w probe_id a = Some (Inr r) \<Longrightarrow> run_probe sha256 w probe_id a = Some (Inr r)"
  by (simp add: run_probe_with_cleanup_def then_finally_Inr)

text \<open>
  The result \<open>r\<close> of the probe \<open>p\<close> on the source of \<open>commit\<close>: the files were read from git and verified
  against the identity of the commit, they were exported under \<open>label\<close>, and the probe ran on the export.
\<close>

definition ran_from ::
  "(bytes \<Rightarrow> bytes) \<Rightarrow> (bytes \<Rightarrow> bytes) \<Rightarrow> run_world \<Rightarrow> pystr \<Rightarrow> path \<Rightarrow> pystr \<Rightarrow> pystr \<Rightarrow> probe_result \<Rightarrow> bool" where
  "ran_from sha1 sha256 w commit workspace label p r \<longleftrightarrow>
     (\<exists>x ps cfs source tree a. x = export_answers w \<and>
        commit_files_by (verified_git_object sha1 ps (ex_git x)) (git_commit_exists ps (ex_git x)) commit = Inr cfs \<and>
        create_exact_export (ex_tar x) (git_archive_bytes (ex_tar x) (Inr cfs)) (ex_mode x) workspace label (ex_files x) =
          Inr (source, tree) \<and>
        source_root a = source \<and> run_probe sha256 (probe_answers w tree) (probe_name p) a = Some (Inr r))"

text \<open>What the module has read before is a reading of the commit too.\<close>

lemma verified_files_read:
  assumes "fst (verified_commit_files sha1 ps g commit cache) = Inr cfs"
    and "cache = None \<or> (\<exists>ps' c. cache = snd (verified_commit_files sha1 ps' g c None))"
  shows "\<exists>ps. commit_files_by (verified_git_object sha1 ps g) (git_commit_exists ps g) commit = Inr cfs"
proof -
  have fresh: "snd (verified_commit_files sha1 ps' g c None) = Some (c', fs) \<Longrightarrow>
      c' = c \<and> commit_files_by (verified_git_object sha1 ps' g) (git_commit_exists ps' g) c = Inr fs" for ps' c c' fs
    by (auto simp: verified_commit_files_def split: sum.splits)
  show ?thesis
  proof (cases cache)
    case None
    then show ?thesis using assms(1) by (auto simp: verified_commit_files_def split: sum.splits)
  next
    case (Some cf)
    obtain c fs where cf: "cf = (c, fs)" by (cases cf)
    show ?thesis
    proof (cases "c = commit")
      case True
      with assms(1) Some cf have "fs = cfs" by (simp add: verified_commit_files_def)
      moreover obtain ps' c' where "snd (verified_commit_files sha1 ps' g c' None) = Some (c, fs)"
        using assms(2) Some cf by (metis option.distinct(1))
      ultimately show ?thesis using fresh True by blast
    next
      case False
      then show ?thesis using assms(1) Some cf by (auto simp: verified_commit_files_def split: sum.splits)
    qed
  qed
qed

lemma exact_export_Inr:
  assumes "exact_export sha1 x commit workspace label = Inr (source, tree)"
  shows "\<exists>ps cfs. commit_files_by (verified_git_object sha1 ps (ex_git x)) (git_commit_exists ps (ex_git x)) commit = Inr cfs \<and>
    create_exact_export (ex_tar x) (git_archive_bytes (ex_tar x) (Inr cfs)) (ex_mode x) workspace label (ex_files x) = Inr (source, tree)"
proof -
  let ?read = "fst (verified_commit_files sha1 (ex_processes x) (ex_git x) commit (module_cache sha1 x))"
  obtain cfs where cfs: "?read = Inr cfs"
    using assms by (cases ?read) (simp_all add: exact_export_def git_archive_bytes_def create_exact_export_def Let_def)
  have "module_cache sha1 x = None \<or> (\<exists>ps c. module_cache sha1 x = snd (verified_commit_files sha1 ps (ex_git x) c None))"
    by (auto simp: module_cache_def split: option.split)
  from verified_files_read [OF cfs this] assms cfs show ?thesis by (auto simp: exact_export_def)
qed

lemma exported_run:
  assumes "exact_export sha1 (export_answers w) commit workspace label = Inr (source, tree)"
    and "run_probe sha256 (probe_answers w tree) (probe_name p) a = Some (Inr r)" and "source_root a = source"
  shows "ran_from sha1 sha256 w commit workspace label p r"
  using exact_export_Inr [OF assms(1)] assms(2,3) unfolding ran_from_def by blast

lemma prepare_replay_Inr:
  "prepare_replay sha1 w rust phase commit workspace label = Inr (source, tree) \<Longrightarrow>
     exact_export sha1 (export_answers w) commit workspace label = Inr (source, tree)"
  by (auto simp: prepare_replay_def bindE_eq_Inr split: if_splits sum.splits)

lemma replay_probe_Inr:
  assumes "run_counterexample_replay_probe sha1 sha256 active w item index phase commit workspace tools = Some (Inr r)"
  shows "ran_from sha1 sha256 w commit workspace (replay_label index phase) (regression_probe item) r"
proof -
  obtain source tree a where "prepare_replay sha1 w (probe_name (regression_probe item) = ''rust_all'') phase commit workspace
      (replay_label index phase) = Inr (source, tree)"
    "run_probe sha256 (probe_answers w tree) (probe_name (regression_probe item)) a = Some (Inr r)" "source_root a = source"
    using assms by (fastforce simp: run_counterexample_replay_probe_def Let_def then_finally_Inr andThen_Inr probe_arguments_def
        split: sum.splits dest: run_probe_with_cleanup_Inr)
  with prepare_replay_Inr exported_run show ?thesis by blast
qed

lemma on_exit_Inr:
  "on_exit m fallback k = Some (Inr y) \<longleftrightarrow>
     (\<exists>e. m = Some (Inl e) \<and> is_exit e \<and> y = fallback) \<or> (\<exists>x. m = Some (Inr x) \<and> k x = Some (Inr y))"
  by (auto simp: on_exit_def split: option.splits sum.splits)

lemma replay_item_id: "replay_item replay item = Some (Inr r) \<Longrightarrow> rr_counterexample_id r = dget item ''counterexample_id''"
  by (auto simp: replay_item_def Let_def on_exit_Inr new_record_def split: if_splits)

lemma replay_item_ok:
  assumes "replay_item replay item = Some (Inr r)"
  shows "rr_ok r \<longleftrightarrow>
    (\<exists>before. replay ''target'' (str_of (dget item ''target_commit'')) = Some (Inr before) \<and> counterexample_failure_matches item before) \<and>
    (is_unresolved item \<or>
      (\<exists>after. replay ''resolution'' (str_of (dget item ''resolution_commit'')) = Some (Inr after) \<and>
         pr_ok after \<and> pr_exit_code after = Some 0))"
  using assms
  by (auto simp: replay_item_def Let_def on_exit_Inr new_record_def is_unresolved_def split: if_splits)

lemma verify_from_Inr:
  "verify_accepted_from replay n items = Some (Inr rs) \<Longrightarrow>
     length rs = length items \<and> (\<forall>i < length items. replay_item (replay (n + i) (items ! i)) (items ! i) = Some (Inr (rs ! i)))"
proof (induction items arbitrary: n rs)
  case (Cons item items)
  from Cons.prems obtain r rs' where r: "replay_item (replay n item) item = Some (Inr r)"
    "verify_accepted_from replay (n + 1) items = Some (Inr rs')" "rs = r # rs'"
    by (auto split: option.splits sum.splits simp: bindE_eq_Inr)
  show ?case using r Cons.IH [OF r(2)] by (auto simp: nth_Cons split: nat.splits)
qed simp

lemma run_target_probes_Inr:
  "run_target_probes run n ps = Some (Inr rs) \<Longrightarrow>
     map fst rs = ps \<and> (\<forall>(p, r) \<in> set rs. \<exists>i. run i p = Some (Inr r))"
proof (induction ps arbitrary: n rs)
  case (Cons p ps)
  then show ?case by (fastforce simp: andThen_Inr)
qed simp

lemma run_target_probe_Inr:
  assumes "run_target_probe sha1 sha256 base w target index p workspace tools = Some (Inr r)"
  shows "ran_from sha1 sha256 w target workspace (probe_label index p) p r"
proof -
  obtain source tree a where "exact_export sha1 (export_answers w) target workspace (probe_label index p) = Inr (source, tree)"
    "run_probe sha256 (probe_answers w tree) (probe_name p) a = Some (Inr r)" "source_root a = source"
    using assms by (fastforce simp: run_target_probe_def Let_def andThen_Inr bindE_eq_Inr probe_arguments_def
        dest: run_probe_with_cleanup_Inr)
  then show ?thesis by (rule exported_run)
qed

lemma set_first_occurrences: "set (first_occurrences seen xs) = set xs - set seen"
  by (induction seen xs rule: first_occurrences.induct) auto

lemma distinct_first_occurrences: "distinct (first_occurrences seen xs)"
  by (induction seen xs rule: first_occurrences.induct) (auto simp: set_first_occurrences)

section \<open>A completed run\<close>

text \<open>
  What stands behind an outcome: the findings \<open>f\<close> on the attacks of the corpus. Corpus and registry are
  those of the export of the target, every probe ran on an export of the target, and the accepted
  counterexamples were replayed.
\<close>

definition established ::
  "(bytes \<Rightarrow> bytes) \<Rightarrow> (bytes \<Rightarrow> bytes) \<Rightarrow> (pystr \<Rightarrow> pystr) \<Rightarrow> main_world \<Rightarrow> pystr \<Rightarrow> path \<Rightarrow> pydict list \<Rightarrow> findings \<Rightarrow> bool" where
  "established sha1 sha256 nfc w target workspace attacks f \<longleftrightarrow>
     (\<exists>base tools source tree corpus.
        exact_export sha1 (export_answers (control_run w)) target workspace (lit ''control'') = Inr (source, tree) \<and>
        load_inputs sha256 nfc w target source tree = Inr (corpus, attacks, f_accepted f) \<and>
        run_target_probes (\<lambda>index p. run_target_probe sha1 sha256 base (probe_runs w index) target index p workspace tools) 0
          (ordered_probe_ids attacks (f_accepted f)) = Some (Inr (f_results f)) \<and>
        verify_accepted_counterexamples sha1 sha256 (Some base) (replay_runs w) (f_accepted f) workspace tools =
          Some (Inr (f_replays f))) \<and>
     generate_counterexamples sha256 nfc target attacks (f_accepted f) (f_results f) = Inr (f_generated f)"

lemma load_inputs_Inr:
  assumes "load_inputs sha256 nfc w target source tree = Inr (corpus, attacks, accepted)"
  shows "validate_attack_corpus corpus = Inr attacks"
    and "\<exists>registry. validate_registry sha256 nfc (reviewed_history w) registry attacks target = Inr accepted"
  using assms by (auto simp: load_inputs_def Let_def bindE_eq_Inr)

text \<open>The replay of one counterexample, with what stands behind its runs.\<close>

definition replayed :: "(bytes \<Rightarrow> bytes) \<Rightarrow> (bytes \<Rightarrow> bytes) \<Rightarrow> main_world \<Rightarrow> path \<Rightarrow> nat \<Rightarrow> pydict \<Rightarrow> replay_record \<Rightarrow> bool" where
  "replayed sha1 sha256 w workspace i item record \<longleftrightarrow> (\<exists>replay. replay_item replay item = Some (Inr record) \<and>
     (\<forall>phase commit x. replay phase commit = Some (Inr x) \<longrightarrow>
        ran_from sha1 sha256 (replay_runs w i phase) commit workspace (replay_label i phase) (regression_probe item) x))"

lemma verify_accepted_Inr:
  assumes "verify_accepted_counterexamples sha1 sha256 active (replay_runs w) accepted workspace tools = Some (Inr records)"
  shows "length records = length accepted"
    and "n < length accepted \<Longrightarrow> replayed sha1 sha256 w workspace n (accepted ! n) (records ! n)"
  using verify_from_Inr [OF assms [unfolded verify_accepted_counterexamples_def]] replay_probe_Inr
  unfolding replayed_def by fastforce+

lemma established_facts:
  assumes "established sha1 sha256 nfc w target workspace attacks f"
  shows "map fst (f_results f) = ordered_probe_ids attacks (f_accepted f)"
    and "(p, r) \<in> set (f_results f) \<Longrightarrow> \<exists>i. ran_from sha1 sha256 (probe_runs w i) target workspace (probe_label i p) p r"
    and "length (f_replays f) = length (f_accepted f)"
    and "n < length (f_accepted f) \<Longrightarrow> replayed sha1 sha256 w workspace n (f_accepted f ! n) (f_replays f ! n)"
    and "generate_counterexamples sha256 nfc target attacks (f_accepted f) (f_results f) = Inr (f_generated f)"
    and "\<exists>source tree corpus. exact_export sha1 (export_answers (control_run w)) target workspace (lit ''control'') = Inr (source, tree) \<and>
      load_inputs sha256 nfc w target source tree = Inr (corpus, attacks, f_accepted f)"
proof -
  obtain base tools source tree corpus where
    x: "exact_export sha1 (export_answers (control_run w)) target workspace (lit ''control'') = Inr (source, tree)"
    and l: "load_inputs sha256 nfc w target source tree = Inr (corpus, attacks, f_accepted f)"
    and p: "run_target_probes (\<lambda>index p. run_target_probe sha1 sha256 base (probe_runs w index) target index p workspace tools) 0
      (ordered_probe_ids attacks (f_accepted f)) = Some (Inr (f_results f))"
    and v: "verify_accepted_counterexamples sha1 sha256 (Some base) (replay_runs w) (f_accepted f) workspace tools = Some (Inr (f_replays f))"
    using assms unfolding established_def by blast
  show "map fst (f_results f) = ordered_probe_ids attacks (f_accepted f)" using run_target_probes_Inr [OF p] by blast
  show "(p, r) \<in> set (f_results f) \<Longrightarrow> \<exists>i. ran_from sha1 sha256 (probe_runs w i) target workspace (probe_label i p) p r" for p r
    using run_target_probes_Inr [OF p] run_target_probe_Inr by fast
  show "length (f_replays f) = length (f_accepted f)"
    and "n < length (f_accepted f) \<Longrightarrow> replayed sha1 sha256 w workspace n (f_accepted f ! n) (f_replays f ! n)"
    using verify_accepted_Inr [OF v] by blast+
  show "generate_counterexamples sha256 nfc target attacks (f_accepted f) (f_results f) = Inr (f_generated f)"
    using assms unfolding established_def by blast
  show "\<exists>source tree corpus. exact_export sha1 (export_answers (control_run w)) target workspace (lit ''control'') = Inr (source, tree) \<and>
      load_inputs sha256 nfc w target source tree = Inr (corpus, attacks, f_accepted f)"
    using x l by blast
qed

lemma main_established:
  assumes "moriarty_main sha1 sha256 nfc w target workspace = Some (Inr out)"
  shows "\<exists>attacks f corpus. established sha1 sha256 nfc w target workspace attacks f \<and> check_target w target = Inr () \<and>
    publish sha256 nfc w target corpus f = Inr out"
proof -
  from assms obtain base corpus attacks accepted results replays generated where
    c: "check_target w target = Inr ()"
    and ws: "run_workspace sha1 sha256 nfc w target base workspace = Some (Inr (corpus, attacks, accepted, results, replays))"
    and g: "generate_counterexamples sha256 nfc target attacks accepted results = Inr generated"
    and p: "publish sha256 nfc w target corpus
      \<lparr>f_results = results, f_replays = replays, f_accepted = accepted, f_generated = generated\<rparr> = Inr out"
    by (auto simp: moriarty_main_def andThen_Inr then_finally_Inr bindE_eq_Inr split: sum.splits)
  from ws obtain tools source tree where r: "stage_runtimes sha1 w target workspace = Inr (tools, source, tree)"
    "load_inputs sha256 nfc w target source tree = Inr (corpus, attacks, accepted)"
    "run_target_probes (\<lambda>index p. run_target_probe sha1 sha256 base (probe_runs w index) target index p workspace tools) 0
      (ordered_probe_ids attacks accepted) = Some (Inr results)"
    "verify_accepted_counterexamples sha1 sha256 (Some base) (replay_runs w) accepted workspace tools = Some (Inr replays)"
    by (auto simp: run_workspace_def andThen_Inr)
  have "exact_export sha1 (export_answers (control_run w)) target workspace (lit ''control'') = Inr (source, tree)"
    using r(1) by (auto simp: stage_runtimes_def Let_def bindE_eq_Inr split: if_splits)
  then have "established sha1 sha256 nfc w target workspace attacks
      \<lparr>f_results = results, f_replays = replays, f_accepted = accepted, f_generated = generated\<rparr>"
    using r(2-4) g unfolding established_def findings.simps by blast
  with c p show ?thesis by blast
qed

lemma target_intact_Inr:
  "target_intact w k target code = Inr () \<longleftrightarrow> heads w k = Inr target \<and> cleans w k = Inr True \<and> harness w k = Inr True"
  by (auto simp: target_intact_def bindE_eq_Inr)

lemma check_target_Inr:
  "check_target w target = Inr () \<Longrightarrow> heads w 0 = Inr target \<and> cleans w 0 = Inr True \<and> harness w 0 = Inr True \<and>
     rx_match TARGET_RE target"
  by (auto simp: check_target_def bindE_eq_Inr split: if_splits)

lemma publish_Inr:
  assumes "publish sha256 nfc w target corpus f = Inr out"
  shows "exit_code out = (if graduated f then 0 else 1)"
    and "\<exists>corpus_ref. encode_json nfc (make_report target corpus_ref f) = Inr (report_bytes out)"
    and "length (report_bytes out) \<le> MAX_REPORT_BYTES \<and> length (f_accepted f @ f_generated f) \<le> MAX_REPORT_COUNTEREXAMPLES"
    and "target_intact w 1 target ''moriarty_target_or_harness_changed_during_probes'' = Inr ()"
    and "target_intact w 2 target ''moriarty_target_or_harness_changed_during_report_publication'' = Inr ()"
    and "announced_sha256 out = hexdigest (sha256 (report_bytes out))"
  using assms by (auto simp: publish_def bindE_eq_Inr split: if_splits)

lemma generated_facts:
  assumes "generate_counterexamples sha256 nfc target attacks accepted results = Inr items"
  shows "list_all2 (\<lambda>(p, r) item. generated_counterexample sha256 nfc target (hd (probe_users attacks p)) r = Inr item)
    (filter (generates attacks accepted) results) items"
  using assms by (simp add: generate_counterexamples_def mapE_eq_Inr case_prod_unfold)

lemma generated_member:
  assumes "generate_counterexamples sha256 nfc target attacks accepted results = Inr items"
    and "(p, r) \<in> set (filter (generates attacks accepted) results)"
  shows "\<exists>item \<in> set items. generated_counterexample sha256 nfc target (hd (probe_users attacks p)) r = Inr item"
proof -
  obtain n where n: "n < length (filter (generates attacks accepted) results)" "filter (generates attacks accepted) results ! n = (p, r)"
    using assms(2) by (metis in_set_conv_nth)
  with generated_facts [OF assms(1)] show ?thesis
    by (intro bexI [of _ "items ! n"]) (auto simp: list_all2_conv_all_nth)
qed

lemma no_failure_no_counterexample:
  assumes "established sha1 sha256 nfc w target workspace attacks f" and "list_all (\<lambda>(_, r). pr_ok r) (f_results f)"
  shows "f_generated f = []"
proof -
  have "filter (generates attacks (f_accepted f)) (f_results f) = []"
    using assms(2) by (auto simp: filter_empty_conv generates_def list_all_iff)
  with generated_facts [of sha256 nfc target attacks "f_accepted f" "f_results f" "f_generated f"] established_facts(5) [OF assms(1)]
  show ?thesis by simp
qed

section \<open>The abstract decision\<close>

text \<open>
  The acceptance of a commit as a statement on sets: the probes that fail, the counterexamples that
  are open and the remediations that were not reproduced.
\<close>

record verdict =
  failing :: "pystr set"
  unresolved_ids :: "pyval set"
  stale_ids :: "pyval set"

definition verdict_of :: "findings \<Rightarrow> verdict" where
  "verdict_of f =
     \<lparr>failing = fst ` set (filter (\<lambda>(_, r). \<not> pr_ok r) (f_results f)),
      unresolved_ids = (\<lambda>item. dget item ''counterexample_id'') ` set (filter is_unresolved (f_accepted f)),
      stale_ids = rr_counterexample_id ` set (filter (\<lambda>r. \<not> rr_ok r) (f_replays f))\<rparr>"

definition acceptable :: "verdict \<Rightarrow> bool" where
  "acceptable v \<longleftrightarrow> failing v = {} \<and> unresolved_ids v = {} \<and> stale_ids v = {}"

lemma graduated_acceptable:
  assumes "established sha1 sha256 nfc w target workspace attacks f"
  shows "graduated f \<longleftrightarrow> acceptable (verdict_of f)"
proof -
  have "f_generated f = []" if "list_all (\<lambda>(_, r). pr_ok r) (f_results f)"
    by (rule no_failure_no_counterexample [OF assms that])
  moreover have "failing (verdict_of f) = {} \<longleftrightarrow> list_all (\<lambda>(_, r). pr_ok r) (f_results f)"
    "unresolved_ids (verdict_of f) = {} \<longleftrightarrow> filter is_unresolved (f_accepted f) = []"
    "stale_ids (verdict_of f) = {} \<longleftrightarrow> list_all rr_ok (f_replays f)"
    by (auto simp: verdict_of_def list_all_iff filter_empty_conv)
  ultimately show ?thesis unfolding graduated_def acceptable_def unresolved_count_def by auto
qed

section \<open>Return of the run\<close>

text \<open>
  The conditions of \<open>run_probe_returns\<close> for every probe, whatever files were exported to it: its clock
  moves on, during each of its storage scans the clock passes every bound and the list of processes stops
  changing, and the reaping of adopted children comes to an end.
\<close>

definition run_settles :: "run_world \<Rightarrow> bool" where
  "run_settles rw \<longleftrightarrow> (\<forall>tree. clock_advances (in_loop (probe_answers rw tree)) \<and> probe_scans_settle (probe_answers rw tree) \<and>
     reap_adopted_children (reaped (probe_answers rw tree)) \<noteq> None)"

definition runs_settle :: "main_world \<Rightarrow> bool" where
  "runs_settle w \<longleftrightarrow> (\<forall>i. run_settles (probe_runs w i)) \<and> (\<forall>i phase. run_settles (replay_runs w i phase))"

lemma case_total: "(\<And>e. f e \<noteq> None) \<Longrightarrow> (\<And>x. g x \<noteq> None) \<Longrightarrow> case_sum f g s \<noteq> None"
  by (cases s) simp_all

lemma if_total: "m \<noteq> None \<Longrightarrow> m' \<noteq> None \<Longrightarrow> (if b then m else m') \<noteq> None"
  by simp

lemma then_finally_total: "m \<noteq> None \<Longrightarrow> then_finally m c \<noteq> None"
  by (simp add: then_finally_None)

lemma run_probe_with_cleanup_total:
  "run_settles rw \<Longrightarrow> run_probe_with_cleanup sha256 active fs (probe_answers rw tree) probe_id a \<noteq> None"
  unfolding run_settles_def run_probe_with_cleanup_def then_finally_None using run_probe_total probe_scans by blast

lemma replay_probe_total:
  "run_settles rw \<Longrightarrow>
     run_counterexample_replay_probe sha1 sha256 active rw item index phase commit workspace tools \<noteq> None"
  unfolding run_counterexample_replay_probe_def Let_def
  by (intro case_total then_finally_total andThen_total case_prod_total run_probe_with_cleanup_total) simp_all

lemma on_exit_total: "m \<noteq> None \<Longrightarrow> (\<And>x. k x \<noteq> None) \<Longrightarrow> on_exit m b k \<noteq> None"
  by (cases m; cases "the m") (simp_all add: on_exit_def)

lemma replay_item_total: "(\<And>phase commit. replay phase commit \<noteq> None) \<Longrightarrow> replay_item replay item \<noteq> None"
  unfolding replay_item_def Let_def by (intro on_exit_total if_total) simp_all

lemma verify_from_total:
  "(\<And>i item phase commit. replay i item phase commit \<noteq> None) \<Longrightarrow> verify_accepted_from replay n items \<noteq> None"
proof (induction items arbitrary: n)
  case (Cons item items)
  have "replay_item (replay n item) item \<noteq> None" using Cons.prems by (rule replay_item_total)
  moreover have "verify_accepted_from replay (n + 1) items \<noteq> None" using Cons by blast
  ultimately show ?case by (auto split: option.splits sum.splits)
qed simp

lemma run_target_probes_total: "(\<And>i p. run i p \<noteq> None) \<Longrightarrow> run_target_probes run n ps \<noteq> None"
  by (induction ps arbitrary: n) (simp_all add: andThen_total)

lemma main_total:
  assumes "runs_settle w"
  shows "moriarty_main sha1 sha256 nfc w target workspace \<noteq> None"
proof -
  have probe: "run_target_probe sha1 sha256 base (probe_runs w i) target i p workspace tools \<noteq> None" for base i p tools
    unfolding run_target_probe_def Let_def
    by (intro andThen_total case_prod_total run_probe_with_cleanup_total) (use assms in \<open>simp_all add: runs_settle_def\<close>)
  have replay: "run_counterexample_replay_probe sha1 sha256 active (replay_runs w i phase) item i phase commit workspace tools \<noteq> None"
    for active i item phase commit tools
    using assms by (intro replay_probe_total) (simp add: runs_settle_def)
  have "run_workspace sha1 sha256 nfc w target base workspace \<noteq> None" for base
    unfolding run_workspace_def verify_accepted_counterexamples_def
    by (intro case_prod_total andThen_total run_target_probes_total probe verify_from_total replay) simp_all
  then show ?thesis unfolding moriarty_main_def
    by (intro case_total case_prod_total andThen_total then_finally_total) simp_all
qed

section \<open>The properties\<close>

text \<open>A probe and a remediation that were seen to succeed, on the source of the commits they are about.\<close>

definition ran_green :: "(bytes \<Rightarrow> bytes) \<Rightarrow> (bytes \<Rightarrow> bytes) \<Rightarrow> main_world \<Rightarrow> pystr \<Rightarrow> path \<Rightarrow> pystr \<Rightarrow> bool" where
  "ran_green sha1 sha256 w target workspace p \<longleftrightarrow>
     (\<exists>i r. ran_from sha1 sha256 (probe_runs w i) target workspace (probe_label i p) p r \<and> pr_ok r)"

definition remediated :: "(bytes \<Rightarrow> bytes) \<Rightarrow> (bytes \<Rightarrow> bytes) \<Rightarrow> main_world \<Rightarrow> path \<Rightarrow> pydict \<Rightarrow> bool" where
  "remediated sha1 sha256 w workspace item \<longleftrightarrow>
     (\<exists>i before after.
        ran_from sha1 sha256 (replay_runs w i ''target'') (str_of (dget item ''target_commit'')) workspace
          (replay_label i ''target'') (regression_probe item) before \<and>
        counterexample_failure_matches item before \<and>
        ran_from sha1 sha256 (replay_runs w i ''resolution'') (str_of (dget item ''resolution_commit'')) workspace
          (replay_label i ''resolution'') (regression_probe item) after \<and>
        pr_ok after \<and> pr_exit_code after = Some 0)"

text \<open>C31: The exit code 0 means what the harness promises: the checkout was the target, clean and with the
  harness of the target at the start, after the probes and after the publication; the corpus and the
  registry were those of an export of the target and accepted; every probe of every attack of the corpus
  ran on an export of the target and was green; and every accepted counterexample is resolved, its failure
  was reproduced on an export of its target commit, and its probe was green on an export of its resolution
  commit. Each of these exports holds the files that were read from git and verified against the commit.\<close>

theorem graduation_sound:
  assumes "moriarty_main sha1 sha256 nfc w target workspace = Some (Inr out)" and "exit_code out = 0"
  shows "(\<forall>k \<in> {0, 1, 2}. heads w k = Inr target \<and> cleans w k = Inr True \<and> harness w k = Inr True) \<and>
    (\<exists>source tree corpus attacks registry accepted.
       exact_export sha1 (export_answers (control_run w)) target workspace (lit ''control'') = Inr (source, tree) \<and>
       load_inputs sha256 nfc w target source tree = Inr (corpus, attacks, accepted) \<and>
       validate_attack_corpus corpus = Inr attacks \<and>
       validate_registry sha256 nfc (reviewed_history w) registry attacks target = Inr accepted \<and>
       (\<forall>attack \<in> set attacks. \<forall>p \<in> set (strings_of (dget attack ''probe_ids'')). ran_green sha1 sha256 w target workspace p) \<and>
       (\<forall>item \<in> set accepted. \<not> is_unresolved item \<and> remediated sha1 sha256 w workspace item))"
proof -
  obtain attacks f corpus where e: "established sha1 sha256 nfc w target workspace attacks f" and c: "check_target w target = Inr ()"
    and p: "publish sha256 nfc w target corpus f = Inr out" using main_established [OF assms(1)] by blast
  have g: "unresolved_count f = 0" "list_all (\<lambda>(_, r). pr_ok r) (f_results f)" "list_all rr_ok (f_replays f)"
    using publish_Inr(1) [OF p] assms(2) by (auto simp: graduated_def split: if_splits)
  have "heads w k = Inr target \<and> cleans w k = Inr True \<and> harness w k = Inr True" if "k \<in> {0, 1, 2}" for k
    using that check_target_Inr [OF c] publish_Inr(4,5) [OF p] by (auto simp: target_intact_Inr)
  moreover have "ran_green sha1 sha256 w target workspace q" if "attack \<in> set attacks" "q \<in> set (strings_of (dget attack ''probe_ids''))" for attack q
  proof -
    have "q \<in> set (map fst (f_results f))"
      using that unfolding established_facts(1) [OF e]
      by (auto simp: ordered_probe_ids_def set_first_occurrences requested_probe_ids_def)
    then obtain r where r: "(q, r) \<in> set (f_results f)" by auto
    then have "pr_ok r" using g(2) by (auto simp: list_all_iff)
    with established_facts(2) [OF e r] show ?thesis unfolding ran_green_def by blast
  qed
  moreover have "\<not> is_unresolved item \<and> remediated sha1 sha256 w workspace item" if item: "item \<in> set (f_accepted f)" for item
  proof -
    have u: "\<not> is_unresolved item" using g(1) item by (auto simp: unresolved_count_def filter_empty_conv)
    obtain n where n: "n < length (f_accepted f)" "item = f_accepted f ! n" using item by (metis in_set_conv_nth)
    obtain replay where r: "replay_item replay item = Some (Inr (f_replays f ! n))"
      "\<And>phase commit x. replay phase commit = Some (Inr x) \<Longrightarrow>
        ran_from sha1 sha256 (replay_runs w n phase) commit workspace (replay_label n phase) (regression_probe item) x"
      using established_facts(4) [OF e n(1)] n(2) unfolding replayed_def by blast
    have "rr_ok (f_replays f ! n)" using g(3) n(1) established_facts(3) [OF e] by (simp add: list_all_length)
    with replay_item_ok [OF r(1)] u obtain before after where
      t: "replay ''target'' (str_of (dget item ''target_commit'')) = Some (Inr before)" "counterexample_failure_matches item before"
      "replay ''resolution'' (str_of (dget item ''resolution_commit'')) = Some (Inr after)" "pr_ok after" "pr_exit_code after = Some 0"
      by blast
    with r(2) [OF t(1)] r(2) [OF t(3)] u show ?thesis unfolding remediated_def by blast
  qed
  moreover obtain source tree corpus' where
    l: "exact_export sha1 (export_answers (control_run w)) target workspace (lit ''control'') = Inr (source, tree)"
    "load_inputs sha256 nfc w target source tree = Inr (corpus', attacks, f_accepted f)"
    using established_facts(6) [OF e] by blast
  moreover obtain registry where "validate_registry sha256 nfc (reviewed_history w) registry attacks target = Inr (f_accepted f)"
    using load_inputs_Inr(2) [OF l(2)] by blast
  moreover note load_inputs_Inr(1) [OF l(2)]
  ultimately show ?thesis by blast
qed

text \<open>C32: The exit code refines the abstract decision: it is 0 exactly if no probe fails, no accepted
  counterexample is open and no remediation is stale, and the published report says the same.\<close>

theorem exit_code_refines_verdict:
  assumes "moriarty_main sha1 sha256 nfc w target workspace = Some (Inr out)"
  shows "\<exists>attacks f corpus_ref. established sha1 sha256 nfc w target workspace attacks f \<and>
    exit_code out = (if acceptable (verdict_of f) then 0 else 1) \<and>
    encode_json nfc (make_report target corpus_ref f) = Inr (report_bytes out) \<and>
    dget (make_report target corpus_ref f) ''graduated'' = PBool (acceptable (verdict_of f)) \<and>
    announced_sha256 out = hexdigest (sha256 (report_bytes out))"
proof -
  obtain attacks f corpus where e: "established sha1 sha256 nfc w target workspace attacks f"
    and p: "publish sha256 nfc w target corpus f = Inr out" using main_established [OF assms(1)] by blast
  obtain corpus_ref where "encode_json nfc (make_report target corpus_ref f) = Inr (report_bytes out)"
    using publish_Inr(2) [OF p] by blast
  moreover have "dget (make_report target corpus_ref f) ''graduated'' = PBool (graduated f)"
    by (simp add: make_report_def dget_pd)
  ultimately show ?thesis using e publish_Inr(1,6) [OF p] graduated_acceptable [OF e] by metis
qed

text \<open>A failing probe is never lost: whenever the run completes, each failing probe keeps the exit code
  from being 0, and if a single attack owns it and no open counterexample already accounts for it, the
  report carries a counterexample of that attack that the validator accepts and that matches the failure.\<close>

theorem failing_probe_reported:
  assumes "moriarty_main sha1 sha256 nfc w target workspace = Some (Inr out)"
  shows "\<exists>attacks f corpus_ref. established sha1 sha256 nfc w target workspace attacks f \<and>
    encode_json nfc (make_report target corpus_ref f) = Inr (report_bytes out) \<and>
    (\<forall>(p, r) \<in> set (f_results f). \<not> pr_ok r \<longrightarrow> exit_code out = 1) \<and>
    (\<forall>(p, r) \<in> set (f_results f). generates attacks (f_accepted f) (p, r) \<longrightarrow>
      (\<exists>item \<in> set (f_generated f). validate_counterexample_shape sha256 nfc (PDict item) = Inr () \<and>
         dget item ''attack_id'' = dget (hd (probe_users attacks p)) ''id'' \<and> counterexample_failure_matches item r))"
proof -
  obtain attacks f corpus where e: "established sha1 sha256 nfc w target workspace attacks f"
    and p: "publish sha256 nfc w target corpus f = Inr out" using main_established [OF assms(1)] by blast
  have "exit_code out = 1" if "(q, r) \<in> set (f_results f)" "\<not> pr_ok r" for q r
    using that publish_Inr(1) [OF p] by (auto simp: graduated_def list_all_iff)
  moreover have "\<exists>item \<in> set (f_generated f). validate_counterexample_shape sha256 nfc (PDict item) = Inr () \<and>
      dget item ''attack_id'' = dget (hd (probe_users attacks q)) ''id'' \<and> counterexample_failure_matches item r"
    if q: "(q, r) \<in> set (f_results f)" "generates attacks (f_accepted f) (q, r)" for q r
  proof -
    have "(q, r) \<in> set (filter (generates attacks (f_accepted f)) (f_results f))" using q by simp
    moreover have "generate_counterexamples sha256 nfc target attacks (f_accepted f) (f_results f) = Inr (f_generated f)"
      by (rule established_facts(5) [OF e])
    ultimately obtain item where item: "item \<in> set (f_generated f)"
      "generated_counterexample sha256 nfc target (hd (probe_users attacks q)) r = Inr item"
      using generated_member by fast
    from item(2) obtain i where i: "item = identified target (hd (probe_users attacks q)) r i"
      "validate_counterexample_shape sha256 nfc (PDict item) = Inr ()"
      by (auto simp: generated_counterexample_def Let_def bindE_eq_Inr identified_def)
    have "\<not> pr_ok r" using q(2) by (simp add: generates_def)
    then show ?thesis using item(1) i identified_matches [of r]
      by (intro bexI [of _ item]) (auto simp: identified_def dget_dset_lit unidentified_counterexample_def dget_pd)
  qed
  ultimately show ?thesis using e publish_Inr(2) [OF p] by blast
qed

text \<open>The replay of the accepted counterexamples decides each of them exactly: it is confirmed if and only
  if its failure was reproduced at the target and, when it is resolved, the probe is green at the resolution.\<close>

theorem replays_exact:
  assumes "verify_accepted_counterexamples sha1 sha256 active worlds accepted workspace tools = Some (Inr records)"
    and "i < length accepted"
  shows "rr_counterexample_id (records ! i) = dget (accepted ! i) ''counterexample_id'' \<and>
    (rr_ok (records ! i) \<longleftrightarrow>
      (\<exists>before. run_counterexample_replay_probe sha1 sha256 active (worlds i ''target'') (accepted ! i) i ''target''
           (str_of (dget (accepted ! i) ''target_commit'')) workspace tools = Some (Inr before) \<and>
         counterexample_failure_matches (accepted ! i) before) \<and>
      (is_unresolved (accepted ! i) \<or>
        (\<exists>after. run_counterexample_replay_probe sha1 sha256 active (worlds i ''resolution'') (accepted ! i) i ''resolution''
             (str_of (dget (accepted ! i) ''resolution_commit'')) workspace tools = Some (Inr after) \<and>
           pr_ok after \<and> pr_exit_code after = Some 0)))"
proof -
  from verify_from_Inr [OF assms(1) [unfolded verify_accepted_counterexamples_def]] assms(2)
  have r: "replay_item (\<lambda>phase commit. run_counterexample_replay_probe sha1 sha256 active (worlds i phase) (accepted ! i) i phase commit
      workspace tools) (accepted ! i) = Some (Inr (records ! i))" by simp
  from replay_item_ok [OF r] replay_item_id [OF r] show ?thesis by blast
qed

text \<open>The removal of probe files stays strictly inside the quota root and below the given paths, whatever
  the probe left there and whatever the system calls answer.\<close>

theorem cleanup_confined:
  assumes "cleanup_probe_writable_paths (Some base) fs paths = (r, removals)" and "x \<in> set removals"
  shows "starts_with (removal_path x) base \<and> removal_path x \<noteq> base \<and> (\<exists>p \<in> set paths. starts_with (removal_path x) p)"
  using cleanup_below_confined [of _ base fs paths r removals x] assms
  by (simp add: cleanup_probe_writable_paths_def probe_writable_root_def)

text \<open>C33: The harness returns, with a report or an error, whenever for every probe of the run the clock moves
  on, during each of its storage scans the clock passes every bound and the list of processes stops
  changing, and the reaping of adopted children comes to an end. The second condition is needed: see
  \<open>suspend_may_diverge\<close>. The calls of the operating system, of git and of the preparations are answers
  of the model, so each of them is taken to return.\<close>

theorem graduation_returns:
  assumes "runs_settle w"
  shows "\<exists>result. moriarty_main sha1 sha256 nfc w target workspace = Some result"
  using main_total [OF assms] by blast

end
