(* ===== verification/Graduation_Demo.thy ===== *)
theory Graduation_Demo
  imports Graduation_Laws
begin

text \<open>
  A concrete run of the harness on a corpus with two probes, whose exit codes are parameters; the
  properties of \<open>Graduation_Laws\<close> and \<open>Registry_Laws\<close> are applied to it.
\<close>

section \<open>The probes\<close>

definition small_world :: "int \<Rightarrow> probe_world" where
  "small_world code = (demo_probe_world code)\<lparr>encoded_path := \<lambda>_. [47]\<rparr>"

definition small_result :: "string \<Rightarrow> int \<Rightarrow> probe_result" where
  "small_result probe_id code =
     \<lparr>pr_probe_id = probe_id, pr_ok = (code = 0), pr_exit_code = Some code,
      pr_failure_kind = (if code = 0 then None else Some ''exit_nonzero''),
      pr_stdout_sha256 = sha256_ref demo_digest [], pr_stderr_sha256 = sha256_ref demo_digest [],
      pr_stdout_bytes = 2, pr_stderr_bytes = 0, pr_stdout_truncated = False, pr_stderr_truncated = False,
      pr_diagnostic_class = None\<rparr>"

lemma small_loop:
  assumes "p = ''phase1'' \<or> p = ''phase2''"
  shows "\<exists>st. probe_loop (in_loop (small_world code)) p 0 (start_state 0 0) = Some (Inr st) \<and>
     failure_kind st = None \<and> captured st Stdout = [104, 105] \<and> captured st Stderr = [] \<and>
     \<not> truncated st Stdout \<and> \<not> truncated st Stderr"
  using assms
  by (auto simp: probe_loop.simps small_world_def demo_probe_world_def demo_rounds_def start_state_def probe_round_def check_storage_def
      serve_streams_def check_time_def set_termination_def scan_due_def timed_writable_check_def demo_scan_fits read_event_def receive_def bounded_output_update_def
      TIMEOUT_SECONDS_def PROBE_WRITABLE_CHECK_INTERVAL_SECONDS_def MAX_PROBE_OUTPUT_BYTES_def Let_def)

lemma small_normal:
  "normalize_probe_output ''phase1'' (replicate 6 [47]) [104, 105] = Inr [104, 105]"
  "normalize_probe_output ''phase1'' (replicate 6 [47]) [] = Inr []"
  "normalize_probe_output ''phase2'' (replicate 6 [47]) [104, 105] = Inr [104, 105]"
  "normalize_probe_output ''phase2'' (replicate 6 [47]) [] = Inr []"
  by code_simp+

lemma small_run:
  assumes "p = ''phase1'' \<or> p = ''phase2''"
  shows "run_probe demo_digest (small_world code) p a = Some (Inr (small_result p code))"
proof -
  obtain st where st: "probe_loop (in_loop (small_world code)) p 0 (start_state 0 0) = Some (Inr st)"
    "failure_kind st = None" "captured st Stdout = [104, 105]" "captured st Stderr = []"
    "\<not> truncated st Stdout" "\<not> truncated st Stderr" using small_loop [OF assms] by blast
  have w: "wait_for_exit (small_world code) st = Inr (st, Some code)" "check_leaks (small_world code) st = Some (Inr st)"
    by (simp_all add: small_world_def wait_for_exit_def check_leaks_def check_members_def mark_def demo_scan_fits demo_probe_world_def descendant_pids_def
        process_parent_map_def descend.simps next_frontier_def)
  have "map (encoded_path (small_world code)) [source_root a, target_dir a, home a, cargo_home a, temp_dir a, butlast (source_root a)] =
      replicate 6 [47]" by (simp add: small_world_def eval_nat_numeral)
  then have "probe_report demo_digest (small_world code) p a st (Some code) = Inr (small_result p code)"
    unfolding probe_report_def Let_def st(3,4) using assms
    by (auto simp: small_normal st small_result_def bytes_ref_def sha256_ref_def demo_digest_def)
  then show ?thesis using assms st(1) w
    by (auto simp: run_probe_def early_def check_topology_def start_probe_def after_loop_def probe_cgroup_def make_dirs_def
        demo_pinned_matches small_world_def demo_world_fields demo_scan_fits)
qed

section \<open>The corpus and the harness\<close>

definition two_attack :: "string \<Rightarrow> string \<Rightarrow> pyval" where
  "two_attack i f = PDict (pd [(''id'', PS i), (''family'', PS f), (''owner_phases'', PList [PS ''8'']),
     (''boundary_ids'', PList [PS ''core/limits'']),
     (''probe_ids'', PList [if i = ''MOR-001'' then PS ''phase1'' else PS ''phase2''])])"

definition two_corpus :: pydict where
  "two_corpus = pd [(''schema'', PS ATTACK_CORPUS_SCHEMA), (''protocol'', PS PROTOCOL),
     (''attacks'', PList (map2 two_attack
        [''MOR-001'', ''MOR-002'', ''MOR-003'', ''MOR-004'', ''MOR-005'', ''MOR-006'', ''MOR-007'', ''MOR-008'',
         ''MOR-009'', ''MOR-010'', ''MOR-011'', ''MOR-012'', ''MOR-013'', ''MOR-014'', ''MOR-015''] EXPECTED_FAMILIES)),
     (''production_credentials_allowed'', PBool False), (''production_targets_allowed'', PBool False),
     (''constitutional_bypass_allowed'', PBool False), (''authority_effect'', PS ''none'')]"

definition two_attacks :: "pydict list" where
  "two_attacks = map dict_of (items_of (dget two_corpus ''attacks''))"

definition empty_registry :: pydict where
  "empty_registry = pd [(''schema'', PS REGISTRY_SCHEMA), (''protocol'', PS PROTOCOL), (''counterexamples'', PList []),
     (''unresolved_counterexamples'', PInt 0), (''authority_effect'', PS ''none'')]"

text \<open>A commit with a lock file only, whose objects all have the identity of the commit.\<close>

definition lock_sha1 :: "bytes \<Rightarrow> bytes" where
  "lock_sha1 b = replicate 20 0xAA"

definition lock_git_output :: "pystr list \<Rightarrow> bytes" where
  "lock_git_output args =
     (if args ! 1 = lit ''-t'' then utf8_bytes (lit ''commit'' @ [10])
      else if args ! 1 = lit ''commit'' then utf8_bytes (lit ''tree '' @ demo_commit @ [10])
      else if args ! 1 = lit ''tree'' then encode_tree [(lit ''100644'', lit ''Cargo.lock'', replicate 20 0xAA)]
      else [1])"

definition lock_processes :: processes where
  "lock_processes t args =
     \<lparr>fd_before = Some (demo_inode 5), stdout_chunks = [lock_git_output args], stderr_bytes = [],
      returncode = 0, fd_after = Some (demo_inode 5)\<rparr>"

definition lock_files :: commit_files where
  "lock_files = [(lit ''Cargo.lock'', lit ''100644'', demo_commit, [1])]"

definition lock_tar :: tar_library where
  "lock_tar = demo_tar\<lparr>tar_members := \<lambda>_. Some (archive_members lock_files)\<rparr>"

definition lock_export :: export_world where
  "lock_export = \<lparr>ex_git = demo_git, ex_processes = lock_processes, ex_earlier = None, ex_tar = lock_tar, ex_mode = 0x1ED,
     ex_files = demo_workspace\<rparr>"

definition lock_tree :: "pystr \<Rightarrow> fs" where
  "lock_tree label = [([lit ''w'', label @ lit ''-src'', lit ''Cargo.lock''], Regular 0x100 [1]),
     ([lit ''w'', label @ lit ''-src''], Directory 0x140)] @ demo_workspace"

lemma lock_objects:
  "git_commit_exists lock_processes demo_git demo_commit = Inr True"
  "verified_git_object lock_sha1 lock_processes demo_git ''commit'' demo_commit 1048576 = Inr (utf8_bytes (lit ''tree '' @ demo_commit @ [10]))"
  "first_line (utf8_bytes (lit ''tree '' @ demo_commit @ [10])) = utf8_bytes (lit ''tree '' @ demo_commit)"
  "starts_with (utf8_bytes (lit ''tree '' @ demo_commit)) (utf8_bytes (lit ''tree ''))"
  "ascii_decode (drop 5 (utf8_bytes (lit ''tree '' @ demo_commit))) = Inr demo_commit"
  by code_simp+

lemma lock_walked:
  "walk_trees (verified_git_object lock_sha1 lock_processes demo_git) [(demo_commit, [], 0)] start_walk =
     Inr \<lparr>files = lock_files, total_payload = 1, total_tree_metadata = 38, entry_count = 1\<rparr>"
  by code_simp

lemma lock_read: "verified_commit_files lock_sha1 lock_processes demo_git demo_commit None = (Inr lock_files, Some (demo_commit, lock_files))"
  by (simp only: verified_commit_files_def commit_files_by_def lock_objects lock_walked demo_commit_matches Let_def bindE_simps
      option.case sum.case not_True_eq_False if_False walk.simps)

lemma lock_created:
  assumes "label \<in> set [lit ''control'', lit ''probe-0-phase1'', lit ''probe-1-phase2'', lit ''accepted-0-target'']"
  shows "create_exact_export lock_tar (git_archive_bytes lock_tar (Inr lock_files)) 0x1ED [lit ''w''] label demo_workspace =
    Inr ([lit ''w'', label @ lit ''-src''], lock_tree label)"
proof -
  have "list_all (\<lambda>label. create_exact_export lock_tar (git_archive_bytes lock_tar (Inr lock_files)) 0x1ED [lit ''w''] label demo_workspace =
      Inr ([lit ''w'', label @ lit ''-src''], lock_tree label))
    [lit ''control'', lit ''probe-0-phase1'', lit ''probe-1-phase2'', lit ''accepted-0-target'']"
    by code_simp
  with assms show ?thesis unfolding list_all_iff by blast
qed

lemma lock_exported:
  assumes "label \<in> set [lit ''control'', lit ''probe-0-phase1'', lit ''probe-1-phase2'', lit ''accepted-0-target'']"
  shows "exact_export lock_sha1 lock_export demo_commit [lit ''w''] label = Inr ([lit ''w'', label @ lit ''-src''], lock_tree label)"
  using lock_created [OF assms] lock_read by (simp add: exact_export_def lock_export_def module_cache_def)

lemma lock_there: "has_lock [lit ''w'', label @ lit ''-src''] (lock_tree label)"
  by (simp add: has_lock_def lock_tree_def)

definition small_run_world :: "int \<Rightarrow> run_world" where
  "small_run_world code = \<lparr>export_answers = lock_export, template_made = Inr (), cargo_home_made = Inr (),
     probe_answers = (\<lambda>_. small_world code), files_after_probe = (\<lambda>_. NoEntry), files_at_end = (\<lambda>_. NoEntry)\<rparr>"

definition small_json :: "path \<Rightarrow> pystr + pyval" where
  "small_json p = Inr (PDict (if last p = lit ''attack-corpus.json'' then two_corpus else empty_registry))"

definition small_main :: "(nat \<Rightarrow> int) \<Rightarrow> main_world" where
  "small_main codes = \<lparr>bootstrap_target = demo_commit, heads = (\<lambda>_. Inr demo_commit), cleans = (\<lambda>_. Inr True),
     harness = (\<lambda>_. Inr True), quota_value = Some (Inr [lit ''q'']), cache_result = Inr [lit ''c''],
     cgroup_value = Some (Inr [lit ''g'']), cgroup_members = Inr [], main_landlock = 4, main_seccomp = True,
     control_run = small_run_world 0, python_staged = Inr (), snapshot_root = Some [lit ''r''], discovery_used = False,
     cargo_executable = [lit ''cargo''], direct_root = Inr [], runtime_staged = Inr (), rustdoc_staged = True,
     json_at = (\<lambda>_. small_json), reviewed_history = demo_history,
     probe_runs = (\<lambda>i. small_run_world (codes i)), replay_runs = (\<lambda>_ _. small_run_world 0),
     workspace_removed = Inr (), report_written = Inr (), diagnostic_written = Inr ()\<rparr>"

lemma two_accepted: "validate_attack_corpus two_corpus = Inr two_attacks"
  by code_simp

lemma two_probes: "ordered_probe_ids two_attacks [] = [lit ''phase1'', lit ''phase2'']"
  "length (probe_users two_attacks (lit ''phase1'')) = 1" "probe_users two_attacks (lit ''phase1'') = [hd two_attacks]"
  by code_simp+

lemma empty_accepted: "validate_registry sha256 nfc h empty_registry attacks target = Inr []"
  by (simp add: validate_registry_def empty_registry_def dget_pd keys_are_def REGISTRY_KEYS_def)

definition small_findings :: "(nat \<Rightarrow> int) \<Rightarrow> pydict list \<Rightarrow> findings" where
  "small_findings codes generated =
     \<lparr>f_results = [(lit ''phase1'', small_result ''phase1'' (codes 0)), (lit ''phase2'', small_result ''phase2'' (codes 1))],
      f_replays = [], f_accepted = [], f_generated = generated\<rparr>"

lemma small_labels: "probe_label 0 (lit ''phase1'') = lit ''probe-0-phase1''" "probe_label (Suc 0) (lit ''phase2'') = lit ''probe-1-phase2''"
  "replay_label 0 ''target'' = lit ''accepted-0-target''" "probe_name (lit ''phase1'') = ''phase1''" "probe_name (lit ''phase2'') = ''phase2''"
  by code_simp+

lemma small_cleaned:
  "fst (cleanup_probe_writable_paths (Some [lit ''q'']) (\<lambda>_. NoEntry)
     [child_path [lit ''q''] a, child_path [lit ''q''] b, child_path [lit ''q''] c, child_path [lit ''q''] d]) = Inr ()"
  by (simp add: cleanup_probe_writable_paths_def probe_writable_root_def child_path_def)

lemma small_probe:
  assumes "p = ''phase1'' \<or> p = ''phase2''"
  shows "run_probe_with_cleanup demo_digest (Some [lit ''q'']) (\<lambda>_. NoEntry) (small_world code) p
      (probe_arguments tools (child_path [lit ''q''] h) source (child_path [lit ''q''] c) (child_path [lit ''q''] t)) =
    Some (Inr (small_result p code))"
proof -
  let ?a = "probe_arguments tools (child_path [lit ''q''] h) source (child_path [lit ''q''] c) (child_path [lit ''q''] t)"
  have "temp_dir ?a = child_path [lit ''q''] (lit ''tmp-'' @ t)"
    by (simp add: temp_dir_def probe_arguments_def child_path_def)
  then show ?thesis
    using small_cleaned [of h c t "lit ''tmp-'' @ t"]
    by (simp add: run_probe_with_cleanup_def small_run [OF assms] then_finally_def) (simp add: probe_arguments_def)
qed

lemma small_target_probe:
  "run_target_probe lock_sha1 demo_digest [lit ''q''] (small_run_world code) demo_commit 0 (lit ''phase1'') [lit ''w''] tools =
     Some (Inr (small_result ''phase1'' code))"
  "run_target_probe lock_sha1 demo_digest [lit ''q''] (small_run_world code) demo_commit 1 (lit ''phase2'') [lit ''w''] tools =
     Some (Inr (small_result ''phase2'' code))"
  by (simp_all add: run_target_probe_def Let_def small_run_world_def small_labels lock_exported small_probe)

lemma small_inputs:
  "load_inputs demo_digest (\<lambda>s. s) (small_main codes) demo_commit source tree = Inr (two_corpus, two_attacks, [])"
  by (simp add: load_inputs_def Let_def small_main_def small_json_def load_json_def two_accepted empty_accepted lit_def)

lemma small_workspace:
  "run_workspace lock_sha1 demo_digest (\<lambda>s. s) (small_main codes) demo_commit [lit ''q''] [lit ''w''] =
     Some (Inr (two_corpus, two_attacks, [], f_results (small_findings codes []), []))"
proof -
  obtain tools source tree where t: "stage_runtimes lock_sha1 (small_main codes) demo_commit [lit ''w''] = Inr (tools, source, tree)"
    by (simp add: stage_runtimes_def small_main_def small_run_world_def lock_exported lock_there rust_source_root_def Let_def)
  have "probe_runs (small_main codes) i = small_run_world (codes i)" for i by (simp add: small_main_def)
  then show ?thesis
    using small_target_probe(2)
    by (simp add: run_workspace_def t small_inputs two_probes small_target_probe(1) small_findings_def
        verify_accepted_counterexamples_def)
qed

section \<open>A commit that graduates and one that does not\<close>

text \<open>Values with short ASCII texts, an executable part of the canonical ones.\<close>

fun plain_value :: "nat \<Rightarrow> pyval \<Rightarrow> bool" where
  "plain_value k (PList xs) = (k \<le> 8 \<and> length xs \<le> 99 \<and> list_all (plain_value (k + 1)) xs)"
| "plain_value k (PDict d) =
     (k \<le> 8 \<and> length d \<le> 99 \<and> distinct (map fst d) \<and>
      list_all (\<lambda>(key, v). list_all (\<lambda>c. c < 128) key \<and> length key \<le> 137 \<and> plain_value (k + 1) v) d)"
| "plain_value k (PInt i) = (k \<le> 8 \<and> 0 \<le> i \<and> i \<le> 2147483647)"
| "plain_value k (PStr s) = (k \<le> 8 \<and> list_all (\<lambda>c. c < 128) s \<and> length s \<le> 137)"
| "plain_value k PNone = (k \<le> 8)"
| "plain_value k (PBool b) = (k \<le> 8)"
| "plain_value k _ = False"

lemma plain_str: "list_all (\<lambda>c. c < 128) s \<Longrightarrow> length s \<le> 137 \<Longrightarrow> canonical_str (\<lambda>s. s) s \<and> ascii s"
  using canonical_ascii [of "\<lambda>s. s" s] by (simp add: nfc_ascii_def ascii_def list_all_iff)

lemma plain_canonical: "plain_value k v \<Longrightarrow> canonical_value (\<lambda>s. s) k v"
proof (induction k v rule: plain_value.induct)
  case (2 k d)
  have "canonical_str (\<lambda>s. s) (fst kv) \<and> canonical_value (\<lambda>s. s) (k + 1) (snd kv)" if "kv \<in> set d" for kv
    using 2(1) [OF that prod.collapse] 2(2) that plain_str [of "fst kv"] by (auto simp: list_all_iff)
  with 2(2) show ?case by (auto simp: MAX_DEPTH_def MAX_OBJECT_MEMBERS_def)
next
  case (4 k s)
  then show ?case using plain_str [of s] by (simp add: MAX_DEPTH_def)
qed (auto simp: MAX_DEPTH_def MAX_ARRAY_ITEMS_def SAFE_INTEGER_MIN_def SAFE_INTEGER_MAX_def list_all_iff)

text \<open>A bound of the length of the canonical text.\<close>

fun text_bound :: "pyval \<Rightarrow> nat" where
  "text_bound (PList xs) = 2 + sum_list (map (\<lambda>x. text_bound x + 1) xs)"
| "text_bound (PDict d) = 2 + sum_list (map (\<lambda>(key, v). 6 * length key + text_bound v + 4) d)"
| "text_bound (PInt i) = 10"
| "text_bound (PStr s) = 6 * length s + 2"
| "text_bound _ = 5"

lemma join_bound:
  "(\<And>t. t \<in> set ts \<Longrightarrow> ascii t) \<Longrightarrow> ascii (join_with [44] ts) \<and> length (join_with [44] ts) \<le> sum_list (map (\<lambda>t. length t + 1) ts)"
proof (induction "[44] :: pystr" ts rule: join_with.induct)
  case (3 x y ys)
  then have "ascii x" "ascii (join_with [44] (y # ys)) \<and>
      length (join_with [44] (y # ys)) \<le> sum_list (map (\<lambda>t. length t + 1) (y # ys))" by simp_all
  then show ?case by simp
qed auto

lemma sum_sort_key: "sum_list (map f (sort_key g xs)) = (sum_list (map f xs) :: nat)"
proof -
  have "sum_list (map f (insort_key g x ys)) = f x + sum_list (map f ys)" for x ys
    by (induction ys) simp_all
  then show ?thesis by (induction xs) simp_all
qed

lemma plain_text: "plain_value k v \<Longrightarrow> ascii (text_of v) \<and> length (text_of v) \<le> text_bound v"
proof (induction k v rule: plain_value.induct)
  case (1 k xs)
  then have x: "ascii (text_of x) \<and> length (text_of x) \<le> text_bound x" if "x \<in> set xs" for x
    using that by (auto simp: list_all_iff)
  have "ascii (join_with [44] (map text_of xs)) \<and>
      length (join_with [44] (map text_of xs)) \<le> sum_list (map (\<lambda>t. length t + 1) (map text_of xs))"
    by (rule join_bound) (use x in auto)
  moreover have "sum_list (map (\<lambda>t. length t + 1) (map text_of xs)) \<le> sum_list (map (\<lambda>x. text_bound x + 1) xs)"
    unfolding map_map comp_def by (rule sum_list_mono) (use x in simp)
  ultimately show ?case by simp
next
  case (2 k d)
  let ?t = "\<lambda>kv. quoted (fst kv) @ [58] @ text_of (snd kv)"
  let ?n = "\<lambda>kv. 6 * length (fst kv) + text_bound (snd kv) + 4"
  have t: "ascii (?t kv) \<and> length (?t kv) + 1 \<le> ?n kv" if "kv \<in> set d" for kv
    using 2(1) [OF that prod.collapse] 2(2) that plain_str [of "fst kv"] ascii_quoted [of "fst kv"]
    by (auto simp: list_all_iff)
  have "ascii (join_with [44] (map ?t (sort_key fst d))) \<and>
      length (join_with [44] (map ?t (sort_key fst d))) \<le> sum_list (map (\<lambda>t. length t + 1) (map ?t (sort_key fst d)))"
    by (rule join_bound) (use t in auto)
  moreover have "sum_list (map (\<lambda>t. length t + 1) (map ?t (sort_key fst d))) \<le> sum_list (map ?n (sort_key fst d))"
    unfolding map_map comp_def by (rule sum_list_mono) (use t in simp)
  moreover have "sum_list (map ?n (sort_key fst d)) = sum_list (map ?n d)" by (rule sum_sort_key)
  ultimately show ?case by (simp add: case_prod_unfold)
next
  case (3 k i)
  then have "digits (nat i) \<noteq> [] \<and> length (digits (nat i)) \<le> 10 \<and> (\<forall>c \<in> set (digits (nat i)). c < 128)"
    using length_digits [of "nat i" 10] digits_all by (fastforce simp: is_digit_def)
  then show ?case using 3 by (simp add: show_int_def ascii_def)
next
  case (4 k s)
  then show ?case using plain_str [of s] ascii_quoted [of s] by simp
qed (auto simp: lit_def)

lemma plain_encoded:
  assumes "plain_value 1 (PDict d)" and "text_bound (PDict d) \<le> MAX_REPORT_BYTES"
  shows "\<exists>b. encode_json (\<lambda>s. s) d = Inr b \<and> length b \<le> MAX_REPORT_BYTES"
proof -
  have c: "canonical_value (\<lambda>s. s) 1 (PDict d)" by (rule plain_canonical [OF assms(1)])
  have "encode_json (\<lambda>s. s) d = Inr (utf8_bytes (text_of (PDict d)))"
    using serialize_canonical [OF c] scalars_text_of [OF c] by (simp add: encode_json_def del: text_of_simps)
  then show ?thesis using plain_text [OF assms(1)] length_utf8_ascii assms(2) by (simp del: text_of_simps text_bound.simps)
qed

lemma corpus_ref: "canonical_ref demo_digest (\<lambda>s. s) (PDict two_corpus) = Inr (sha256_ref demo_digest [])"
proof -
  have "plain_value 1 (PDict two_corpus)" by code_simp
  from canonical_ref_value [OF plain_canonical [OF this], of demo_digest]
  show ?thesis by (simp add: sha256_ref_def demo_digest_def)
qed

lemma plain_report:
  assumes "plain_value 2 (PStr target)" and "plain_value 2 (PStr corpus_ref)"
    and "list_all (\<lambda>(_, r). plain_value 3 (PDict (report_probe_result r))) (f_results f)" and "length (f_results f) \<le> 99"
    and "list_all (\<lambda>d. plain_value 3 (PDict d)) (f_accepted f @ f_generated f)" and "length (f_accepted f @ f_generated f) \<le> 99"
    and "f_replays f = []"
  shows "plain_value 1 (PDict (make_report target corpus_ref f))"
proof -
  define rs where "rs = PList (map (\<lambda>(_, r). PDict (report_probe_result r)) (f_results f))"
  define cs where "cs = PList (map PDict (f_accepted f @ f_generated f))"
  have "plain_value 2 rs" "plain_value 2 cs"
    using assms(3-6) by (auto simp: rs_def cs_def list_all_iff case_prod_unfold simp del: plain_value.simps(2))
  moreover have "unresolved_count f \<le> 99"
    using assms(6) length_filter_le [of is_unresolved "f_accepted f"]
    by (simp add: unresolved_count_def del: length_filter_le)
  moreover have "length EXPECTED_FAMILIES = 15" by code_simp
  ultimately show ?thesis using assms(1,2,4)
    unfolding make_report_def rs_def [symmetric] cs_def [symmetric]
    by (simp add: assms(7) lit_def REPORT_SCHEMA_def PROTOCOL_def OPERATOR_PROFILE_def numeral_2_eq_2)
qed

lemma report_bound:
  assumes "length target \<le> 137" and "length corpus_ref \<le> 137" and "f_replays f = []"
  shows "text_bound (PDict (make_report target corpus_ref f)) \<le> 6000 +
    sum_list (map (\<lambda>(_, r). text_bound (PDict (report_probe_result r)) + 1) (f_results f)) +
    sum_list (map (\<lambda>d. text_bound (PDict d) + 1) (f_accepted f @ f_generated f))"
proof -
  define rs where "rs = PList (map (\<lambda>(_, r). PDict (report_probe_result r)) (f_results f))"
  define cs where "cs = PList (map PDict (f_accepted f @ f_generated f))"
  have "text_bound rs = 2 + sum_list (map (\<lambda>(_, r). text_bound (PDict (report_probe_result r)) + 1) (f_results f))"
    "text_bound cs = 2 + sum_list (map (\<lambda>d. text_bound (PDict d) + 1) (f_accepted f @ f_generated f))"
    by (simp_all add: rs_def cs_def comp_def case_prod_unfold del: text_bound.simps(2))
  moreover have "text_bound (PDict (make_report target corpus_ref f)) \<le> 5900 + text_bound rs + text_bound cs"
    using assms(1,2) unfolding make_report_def rs_def [symmetric] cs_def [symmetric]
    by (simp add: assms(3) lit_def REPORT_SCHEMA_def PROTOCOL_def OPERATOR_PROFILE_def)
  ultimately show ?thesis by linarith
qed

lemma small_plain:
  assumes "p = ''phase1'' \<or> p = ''phase2''" and "code = 0 \<or> code = 3"
  shows "plain_value 3 (PDict (report_probe_result (small_result p code)))"
    and "text_bound (PDict (report_probe_result (small_result p code))) \<le> 10000"
proof -
  have "sha256_ref demo_digest [] = lit ''sha256:'' @ concat (replicate 32 (lit ''07''))" by code_simp
  then show "plain_value 3 (PDict (report_probe_result (small_result p code)))"
    "text_bound (PDict (report_probe_result (small_result p code))) \<le> 10000"
    using assms by (auto simp: small_result_def report_probe_result_def lit_def py_str_opt_def py_int_opt_def eval_nat_numeral)
qed

lemma demo_texts: "plain_value 2 (PStr demo_commit)" "plain_value 2 (PStr (sha256_ref demo_digest []))"
  by code_simp+

text \<open>The report of a run of the two probes.\<close>

lemma small_report:
  assumes "codes 0 = 0 \<or> codes 0 = 3" and "codes 1 = 0" and "length items \<le> 1"
    and "list_all (\<lambda>d. plain_value 3 (PDict d) \<and> text_bound (PDict d) \<le> 40000) items"
  shows "\<exists>b. encode_json (\<lambda>s. s) (make_report demo_commit (sha256_ref demo_digest []) (small_findings codes items)) = Inr b \<and>
     length b \<le> MAX_REPORT_BYTES"
proof (rule plain_encoded)
  let ?f = "small_findings codes items"
  show "plain_value 1 (PDict (make_report demo_commit (sha256_ref demo_digest []) ?f))"
    by (rule plain_report)
      (use assms small_plain(1) demo_texts in \<open>auto simp: small_findings_def list_all_iff simp del: plain_value.simps\<close>)
  have "sum_list (map (\<lambda>d. text_bound (PDict d) + 1) items) \<le> 40001"
    using assms(3,4) by (cases items) (auto simp del: text_bound.simps plain_value.simps)
  moreover have "length demo_commit \<le> 137" "length (sha256_ref demo_digest []) \<le> 137" by code_simp+
  ultimately have "text_bound (PDict (make_report demo_commit (sha256_ref demo_digest []) ?f)) \<le> 6000 + 20002 + 40001"
    using report_bound [of demo_commit "sha256_ref demo_digest []" ?f] small_plain(2) [of "''phase1''" "codes 0"] small_plain(2) [of "''phase2''" "codes 1"] assms(1,2)
    by (auto simp: small_findings_def simp del: text_bound.simps)
  then show "text_bound (PDict (make_report demo_commit (sha256_ref demo_digest []) ?f)) \<le> MAX_REPORT_BYTES"
    by (simp add: MAX_REPORT_BYTES_def del: text_bound.simps)
qed

lemma small_main_publishes:
  assumes "codes 0 = 0 \<or> codes 0 = 3" and "codes 1 = 0" and "length items \<le> 1"
    and "list_all (\<lambda>d. plain_value 3 (PDict d) \<and> text_bound (PDict d) \<le> 40000) items"
    and generated: "generate_counterexamples demo_digest (\<lambda>s. s) demo_commit two_attacks [] (f_results (small_findings codes [])) = Inr items"
  shows "\<exists>out. moriarty_main lock_sha1 demo_digest (\<lambda>s. s) (small_main codes) demo_commit [lit ''w''] = Some (Inr out) \<and>
    exit_code out = (if graduated (small_findings codes items) then 0 else 1)"
proof -
  let ?w = "small_main codes" and ?f = "small_findings codes items"
  obtain b where b: "encode_json (\<lambda>s. s) (make_report demo_commit (sha256_ref demo_digest []) ?f) = Inr b" "length b \<le> MAX_REPORT_BYTES"
    using small_report [OF assms(1-4)] by blast
  have checks: "check_target ?w demo_commit = Inr ()" "check_resources ?w = Inr [lit ''q'']" "workspace_removed ?w = Inr ()"
    "report_written ?w = Inr ()" "target_intact ?w k demo_commit c = Inr ()" for k c
    by (simp_all add: check_target_def check_resources_def small_main_def demo_commit_matches target_intact_def)
  have g: "make_diagnostic demo_commit ?f = None" "f_accepted ?f = []" "f_generated ?f = items"
    by (simp_all add: small_findings_def make_diagnostic_def)
  have f: "\<lparr>f_results = f_results (small_findings codes []), f_replays = [], f_accepted = [], f_generated = items\<rparr> = ?f"
    by (simp add: small_findings_def)
  have "\<exists>out. publish demo_digest (\<lambda>s. s) ?w demo_commit two_corpus ?f = Inr out \<and> exit_code out = (if graduated ?f then 0 else 1)"
    using b g assms(3) by (simp add: publish_def checks corpus_ref MAX_REPORT_COUNTEREXAMPLES_def)
  then obtain out where out: "publish demo_digest (\<lambda>s. s) ?w demo_commit two_corpus ?f = Inr out"
    "exit_code out = (if graduated ?f then 0 else 1)" by blast
  then show ?thesis by (simp add: moriarty_main_def checks small_workspace then_finally_def generated f)
qed

lemma green_main:
  "\<exists>out. moriarty_main lock_sha1 demo_digest (\<lambda>s. s) (small_main (\<lambda>_. 0)) demo_commit [lit ''w''] = Some (Inr out) \<and> exit_code out = 0"
proof -
  have "generate_counterexamples demo_digest (\<lambda>s. s) demo_commit two_attacks [] (f_results (small_findings (\<lambda>_. 0) [])) = Inr []"
    by (simp add: generate_counterexamples_def small_findings_def generates_def small_result_def)
  moreover have "graduated (small_findings (\<lambda>_. 0) [])"
    by (simp add: graduated_def unresolved_count_def small_findings_def small_result_def)
  ultimately show ?thesis using small_main_publishes [of "\<lambda>_. 0" "[]"] by simp
qed

theorem graduation_sound_witness:
  "\<exists>out. moriarty_main lock_sha1 demo_digest (\<lambda>s. s) (small_main (\<lambda>_. 0)) demo_commit [lit ''w''] = Some (Inr out) \<and> exit_code out = 0 \<and>
     (\<exists>corpus attacks. validate_attack_corpus corpus = Inr attacks \<and>
        list_all (\<lambda>attack. list_all (ran_green lock_sha1 demo_digest (small_main (\<lambda>_. 0)) demo_commit [lit ''w'']) (strings_of (dget attack ''probe_ids''))) attacks)"
proof -
  obtain out where out: "moriarty_main lock_sha1 demo_digest (\<lambda>s. s) (small_main (\<lambda>_. 0)) demo_commit [lit ''w''] = Some (Inr out)"
    "exit_code out = 0" using green_main by blast
  from graduation_sound [OF out] out show ?thesis unfolding list_all_iff by blast
qed

theorem exit_code_refines_verdict_witness:
  "\<exists>f attacks. established lock_sha1 demo_digest (\<lambda>s. s) (small_main (\<lambda>_. 0)) demo_commit [lit ''w''] attacks f \<and> acceptable (verdict_of f)"
proof -
  obtain out where out: "moriarty_main lock_sha1 demo_digest (\<lambda>s. s) (small_main (\<lambda>_. 0)) demo_commit [lit ''w''] = Some (Inr out)"
    "exit_code out = 0" using green_main by blast
  from exit_code_refines_verdict [OF out(1)] out(2) show ?thesis by (metis zero_neq_one)
qed

lemma small_settles: "runs_settle (small_main codes)"
proof -
  have "clock_advances (in_loop (small_world code)) \<and> probe_scans_settle (small_world code) \<and>
      reap_adopted_children (reaped (small_world code)) \<noteq> None" for code
    using demo_clock [of code] demo_scans [of code] demo_reaped [of code] by (simp add: small_world_def probe_scans_settle_def)
  then show ?thesis by (simp add: runs_settle_def run_settles_def small_main_def small_run_world_def)
qed

theorem graduation_returns_witness:
  "\<exists>result. moriarty_main lock_sha1 demo_digest (\<lambda>s. s) (small_main (\<lambda>_. 0)) demo_commit [lit ''w''] = Some result"
  by (rule graduation_returns [OF small_settles])

text \<open>Probe \<open>phase1\<close> fails with exit code 3, its only owner is the first attack.\<close>

definition failing_codes :: "nat \<Rightarrow> int" where
  "failing_codes i = (if i = 0 then 3 else 0)"

lemma red_counterexample:
  "\<exists>item. generated_counterexample demo_digest (\<lambda>s. s) demo_commit (hd two_attacks) (small_result ''phase1'' 3) = Inr item \<and>
     item = identified demo_commit (hd two_attacks) (small_result ''phase1'' 3) (sha256_ref demo_digest [])"
proof -
  have "attack_ok (hd two_attacks)"
    using corpus_attack_ok [OF two_accepted, of "hd two_attacks"] by (simp add: two_attacks_def two_corpus_def EXPECTED_FAMILIES_def)
  moreover have "result_ok (small_result ''phase1'' 3)" by (simp add: result_ok_def small_result_def PROBES_def) code_simp
  moreover have "sha256_ref demo_digest b = sha256_ref demo_digest []" for b by (simp add: sha256_ref_def demo_digest_def)
  moreover have "nfc_ascii (\<lambda>s. s)" by (simp add: nfc_ascii_def)
  ultimately have "generated_counterexample demo_digest (\<lambda>s. s) demo_commit (hd two_attacks) (small_result ''phase1'' 3) =
      Inr (identified demo_commit (hd two_attacks) (small_result ''phase1'' 3) (sha256_ref demo_digest []))"
    using generated_iff [OF _ demo_digest_32 _ demo_commit_matches] by metis
  then show ?thesis by blast
qed

lemma red_item:
  "plain_value 3 (PDict (identified demo_commit (hd two_attacks) (small_result ''phase1'' 3) (sha256_ref demo_digest [])))"
  by code_simp

lemma red_item_bound:
  "text_bound (PDict (identified demo_commit (hd two_attacks) (small_result ''phase1'' 3) (sha256_ref demo_digest []))) \<le> 40000"
  by code_simp

lemma red_main:
  "\<exists>out. moriarty_main lock_sha1 demo_digest (\<lambda>s. s) (small_main failing_codes) demo_commit [lit ''w''] = Some (Inr out) \<and> exit_code out = 1"
proof -
  let ?item = "identified demo_commit (hd two_attacks) (small_result ''phase1'' 3) (sha256_ref demo_digest [])"
  have codes: "failing_codes 0 = 3" "failing_codes 1 = 0" by (simp_all add: failing_codes_def)
  have "generates two_attacks [] (lit ''phase1'', small_result ''phase1'' 3)" "\<not> generates two_attacks [] (lit ''phase2'', small_result ''phase2'' 0)"
    using two_probes by (simp_all add: generates_def small_result_def accepted_unresolved_failures_def)
  then have "generate_counterexamples demo_digest (\<lambda>s. s) demo_commit two_attacks [] (f_results (small_findings failing_codes [])) = Inr [?item]"
    using red_counterexample by (simp add: generate_counterexamples_def small_findings_def codes two_probes codes [simplified])
  moreover have "\<not> graduated (small_findings failing_codes [?item])" by (simp add: graduated_def unresolved_count_def small_findings_def)
  ultimately show ?thesis using small_main_publishes [of failing_codes "[?item]"] codes red_item red_item_bound by (simp del: plain_value.simps text_bound.simps)
qed

theorem failing_probe_reported_witness:
  "\<exists>out attacks f. moriarty_main lock_sha1 demo_digest (\<lambda>s. s) (small_main failing_codes) demo_commit [lit ''w''] = Some (Inr out) \<and>
     exit_code out = 1 \<and> established lock_sha1 demo_digest (\<lambda>s. s) (small_main failing_codes) demo_commit [lit ''w''] attacks f"
  using red_main failing_probe_reported by blast

section \<open>A replay and a cleanup\<close>

definition red_accepted :: pydict where
  "red_accepted = identified demo_commit (hd two_attacks) (small_result ''phase1'' 3) (sha256_ref demo_digest [])"

lemma red_accepted_fields: "regression_probe red_accepted = lit ''phase1''" "probe_name (lit ''phase1'') = ''phase1''"
  "is_unresolved red_accepted" "counterexample_failure_matches red_accepted (small_result ''phase1'' 3)"
proof -
  show "counterexample_failure_matches red_accepted (small_result ''phase1'' 3)"
    unfolding red_accepted_def by (rule identified_matches) (simp add: small_result_def)
  show "probe_name (lit ''phase1'') = ''phase1''" by code_simp
qed (simp_all add: red_accepted_def regression_probe_def is_unresolved_def identified_def dget_dset_lit
      unidentified_counterexample_def dget_pd small_result_def)

lemma red_replayed:
  "run_counterexample_replay_probe lock_sha1 demo_digest (Some [lit ''q'']) (small_run_world 3) red_accepted 0 ''target'' demo_commit
     [lit ''w''] tools = Some (Inr (small_result ''phase1'' 3))"
proof -
  have "fst (cleanup_replay_workspace_paths [lit ''w''] (\<lambda>_. NoEntry) [child_path [lit ''w''] p]) = Inr ()" for p
    by (simp add: cleanup_replay_workspace_paths_def child_path_def)
  then show ?thesis
    by (simp add: run_counterexample_replay_probe_def Let_def red_accepted_fields(1,2) probe_writable_root_def small_run_world_def
        prepare_replay_def small_labels lock_exported small_probe small_cleaned then_finally_def)
qed

definition demo_tools :: toolset where
  "demo_tools = \<lparr>tool_python = [lit ''w'', lit ''python3''], tool_cargo = [lit ''w'', lit ''cargo''], tool_rustc = [lit ''w'', lit ''rustc''],
     tool_rustdoc = None, tool_runtime = None\<rparr>"

theorem replays_exact_witness:
  "\<exists>records. verify_accepted_counterexamples lock_sha1 demo_digest (Some [lit ''q'']) (\<lambda>_ _. small_run_world 3) [red_accepted] [lit ''w'']
     demo_tools = Some (Inr records) \<and> rr_ok (records ! 0)"
proof -
  have target: "str_of (dget red_accepted ''target_commit'') = demo_commit"
    by (simp add: red_accepted_def identified_def dget_dset_lit unidentified_counterexample_def dget_pd)
  obtain records where r: "verify_accepted_counterexamples lock_sha1 demo_digest (Some [lit ''q'']) (\<lambda>_ _. small_run_world 3) [red_accepted]
      [lit ''w''] demo_tools = Some (Inr records)"
    using red_accepted_fields(3,4)
    by (simp add: verify_accepted_counterexamples_def replay_item_def target red_replayed on_exit_def is_unresolved_def Let_def)
  from replays_exact [OF r, of 0] red_replayed red_accepted_fields(3,4) target have "rr_ok (records ! 0)" by auto
  with r show ?thesis by blast
qed

definition leftovers :: file_state where
  "leftovers p = (if p = [lit ''q'', lit ''home'']
     then Folder Done [(lit ''link'', ChildLeaf Done), (lit ''sub'', ChildFolder (Folder Done [] Done Done))] Done Done else NoEntry)"

theorem cleanup_confined_witness:
  "\<exists>removals. cleanup_probe_writable_paths (Some [lit ''q'']) leftovers [[lit ''q'', lit ''home'']] = (Inr (), removals) \<and>
     length removals = 5 \<and> list_all (\<lambda>x. starts_with (removal_path x) [lit ''q''] \<and> removal_path x \<noteq> [lit ''q'']) removals"
proof -
  obtain removals where r: "cleanup_probe_writable_paths (Some [lit ''q'']) leftovers [[lit ''q'', lit ''home'']] = (Inr (), removals)"
    "length removals = 5"
    by (simp add: cleanup_probe_writable_paths_def probe_writable_root_def leftovers_def tolerate_def)
  from cleanup_confined [OF r(1)] r show ?thesis by (auto simp: list_all_iff)
qed

end
