(* ===== verification/Nexus_Adapter.thy ===== *)
theory Nexus_Adapter
  imports Git_Objects Py_Iter
begin

text \<open>
  \<open>tools/nexus_live_adapter.py\<close>: the attestation of the NEXUS checkout, the native verification, the
  source manifest and the council reports. The NEXUS runtime is not in this repository: its verifier
  and its \<open>SecretScrubber\<close> are parameters. The checkout is a record of the answers of the file system.
\<close>

section \<open>Constants\<close>

definition NEXUS_PINNED_COMMIT :: pystr where
  "NEXUS_PINNED_COMMIT = lit ''24cb0ce246d12ac99e7d190a8890ef2ddd598321''"

definition NEXUS_PINNED_BLOBS :: "(pystr \<times> pystr) list" where
  "NEXUS_PINNED_BLOBS = map (\<lambda>(p, b). (lit p, lit b))
    [(''nexus_runtime/persistent_world.py'', ''c71d981b946cafdc01c4862a2c54caed91247d83''),
     (''nexus_runtime/canonical.py'', ''db6369e3f7f4ccec03ced8b3f16fd44c3eae3ad3''),
     (''nexus_runtime/scrub.py'', ''be0558280efb7e98cf10bda1f1fbd6245abdc18c''),
     (''nexus_runtime/world.py'', ''785ccad3196bbf19c0185d8d4da43e42ec552770''),
     (''nexus_runtime/world_continuity.py'', ''7bd02eb5f7e35955a708cf1ec73f597faccfda1d''),
     (''nexus_runtime/world_lattice.py'', ''7d0ae0bc2e69ce7af51343648b03584b513ecf8f'')]"

definition FED_SOURCE_SCHEMA :: pyval where "FED_SOURCE_SCHEMA = PS ''qsol-fed-nexus-world-source/1''"
definition FED_REPORT_SCHEMA :: pyval where "FED_REPORT_SCHEMA = PS ''qsol-fed-nexus-council-report/1''"
definition NEXUS_EXPORT_SCHEMA :: pyval where "NEXUS_EXPORT_SCHEMA = PS ''nexus-persistent-world-export/1''"
definition NEXUS_WORLD_POLICY :: pyval where "NEXUS_WORLD_POLICY = PS ''nexus-persistent-world/1''"
definition MAX_REPORTS :: nat where "MAX_REPORTS = 64"
definition MAX_MEMBERS :: nat where "MAX_MEMBERS = 32"
definition MAX_MINORITIES :: nat where "MAX_MINORITIES = 64"
definition MAX_MEMBER_ID_CHARS :: nat where "MAX_MEMBER_ID_CHARS = 256"
definition MAX_SESSION_ID_CHARS :: nat where "MAX_SESSION_ID_CHARS = 1024"
definition MAX_EVIDENCE_STATE_CHARS :: nat where "MAX_EVIDENCE_STATE_CHARS = 128"
definition MAX_CHOICE_CHARS :: nat where "MAX_CHOICE_CHARS = 256"
definition MAX_RATIONALE_UTF8_BYTES :: nat where "MAX_RATIONALE_UTF8_BYTES = 8192"

definition hex_ref :: "string \<Rightarrow> rx" where
  "hex_ref prefix = Seq (rlit prefix) (Rep (Cls [rng CHR ''0'' CHR ''9'', rng CHR ''a'' CHR ''f'']) 64 64)"

definition OBJECT_REF :: rx where "OBJECT_REF = hex_ref ''object:''"
definition WORLD_EXPORT_REF :: rx where "WORLD_EXPORT_REF = hex_ref ''world-export:''"
definition WORLD_MANIFEST_REF :: rx where "WORLD_MANIFEST_REF = hex_ref ''world-manifest:''"
definition HEX40 :: rx where "HEX40 = Rep (Cls [rng CHR ''0'' CHR ''9'', rng CHR ''a'' CHR ''f'']) 40 40"

definition is_ref :: "rx \<Rightarrow> pyval \<Rightarrow> bool" where
  "is_ref r v \<longleftrightarrow> is_str v \<and> rx_match r (str_of v)"

section \<open>The checkout\<close>

type_synonym npath = "pystr list"

record checkout =
  ck_is_dir :: "npath \<Rightarrow> bool"
  ck_is_file :: "npath \<Rightarrow> bool"
  ck_is_symlink :: "npath \<Rightarrow> bool"
  ck_text :: "npath \<Rightarrow> pystr result"
  ck_bytes :: "npath \<Rightarrow> bytes result"
  ck_resolve :: "npath \<Rightarrow> npath"

text \<open>\<open>base / text\<close>: an absolute text replaces the base.\<close>

definition below :: "npath \<Rightarrow> pystr \<Rightarrow> npath" where
  "below base t =
     (let parts = filter (\<lambda>p. p \<noteq> [] \<and> p \<noteq> lit ''.'') (split_all 47 t) in
      if starts_with t [47] then parts else base @ parts)"

definition git_dir :: "checkout \<Rightarrow> npath \<Rightarrow> npath result" where
  "git_dir ck repo_root =
     (let marker = repo_root @ [lit ''.git''] in
      if ck_is_dir ck marker then Inr (ck_resolve ck marker)
      else if ck_is_file ck marker
      then bindE (ck_text ck marker) (\<lambda>t.
        let line = strip t in
        if \<not> starts_with line (lit ''gitdir: '') then Inl (SystemExit ''nexus_gitdir_marker_invalid'')
        else Inr (ck_resolve ck (below repo_root (drop 8 line))))
      else Inl (SystemExit ''nexus_git_metadata_missing''))"

fun packed_ref :: "pystr \<Rightarrow> pystr list \<Rightarrow> pystr option" where
  "packed_ref ref [] = None"
| "packed_ref ref (line # lines) =
     (if line = [] \<or> starts_with line [35] \<or> starts_with line [94] then packed_ref ref lines
      else case split_once 32 line of
        (val, Some name) \<Rightarrow> if name = ref \<and> rx_match HEX40 val then Some val else packed_ref ref lines
      | (_, None) \<Rightarrow> packed_ref ref lines)"

definition nexus_git_head :: "checkout \<Rightarrow> npath \<Rightarrow> pystr result" where
  "nexus_git_head ck repo_root =
     bindE (git_dir ck repo_root) (\<lambda>gd.
     let head_file = gd @ [lit ''HEAD''] in
     if \<not> ck_is_file ck head_file then Inl (SystemExit ''nexus_git_head_missing'')
     else bindE (ck_text ck head_file) (\<lambda>t.
     let head = strip t in
     if rx_match HEX40 head then Inr head
     else if \<not> starts_with head (lit ''ref: '') then Inl (SystemExit ''nexus_git_head_invalid'')
     else let ref = drop 5 head; ref_file = below gd ref in
       if ck_is_file ck ref_file
       then bindE (ck_text ck ref_file) (\<lambda>r.
         if rx_match HEX40 (strip r) then Inr (strip r) else Inl (SystemExit ''nexus_git_ref_invalid''))
       else let packed = gd @ [lit ''packed-refs''] in
         if ck_is_file ck packed
         then bindE (ck_text ck packed) (\<lambda>p.
           case packed_ref ref (splitlines p) of
             Some val \<Rightarrow> Inr val | None \<Rightarrow> Inl (SystemExit ''nexus_git_ref_unresolved''))
         else Inl (SystemExit ''nexus_git_ref_unresolved'')))"

definition git_blob_sha :: "(bytes \<Rightarrow> bytes) \<Rightarrow> checkout \<Rightarrow> npath \<Rightarrow> pystr result" where
  "git_blob_sha sha1 ck p =
     (if ck_is_symlink ck p \<or> \<not> ck_is_file ck p then Inl (SystemExit ''nexus_attested_source_file_invalid'')
      else bindE (ck_bytes ck p) (\<lambda>body. Inr (git_object_id sha1 ''blob'' body)))"

definition attest_nexus_checkout :: "(bytes \<Rightarrow> bytes) \<Rightarrow> checkout \<Rightarrow> npath \<Rightarrow> npath result" where
  "attest_nexus_checkout sha1 ck src =
     (let nexus_src = ck_resolve ck src; repo_root = butlast nexus_src in
      bindE (nexus_git_head ck repo_root) (\<lambda>head.
      if head \<noteq> NEXUS_PINNED_COMMIT then Inl (SystemExit ''nexus_checkout_commit_mismatch'')
      else bindE (eachE (\<lambda>(relative, expected_blob).
          bindE (git_blob_sha sha1 ck (below nexus_src relative)) (\<lambda>actual.
          guardE (actual = expected_blob) (SystemExitFor ''nexus_checkout_blob_mismatch:'' relative))) NEXUS_PINNED_BLOBS) (\<lambda>_.
        Inr nexus_src)))"

section \<open>The native runtime\<close>

text \<open>
  Loading: whether a runtime is already loaded, what importing a module gives (the resolved path of its
  file) and whether the two names exist. The verifier takes the bundle and may change it in place; the
  scrubber tells whether it would change a text.
\<close>

record runtime =
  rt_loaded :: bool
  rt_import :: "string \<Rightarrow> npath result"
  rt_verifier_callable :: bool
  rt_has_scrubber :: bool
  rt_verifier :: "pydict \<Rightarrow> (pyval \<times> pydict) result"
  rt_scrub_changed :: "pystr \<Rightarrow> bool"

definition load_native_runtime :: "(bytes \<Rightarrow> bytes) \<Rightarrow> checkout \<Rightarrow> runtime \<Rightarrow> npath \<Rightarrow> unit result" where
  "load_native_runtime sha1 ck rt src =
     bindE (attest_nexus_checkout sha1 ck src) (\<lambda>nexus_src.
     let package = nexus_src @ [lit ''nexus_runtime''] in
     if rt_loaded rt then Inl (SystemExit ''nexus_runtime_already_loaded'')
     else bindE (rt_import rt ''nexus_runtime.persistent_world'') (\<lambda>loaded.
     if loaded \<noteq> ck_resolve ck (package @ [lit ''persistent_world.py'']) then Inl (SystemExit ''nexus_native_verifier_import_path_mismatch'')
     else bindE (rt_import rt ''nexus_runtime.scrub'') (\<lambda>scrub.
     if scrub \<noteq> ck_resolve ck (package @ [lit ''scrub.py'']) then Inl (SystemExit ''nexus_native_scrubber_import_path_mismatch'')
     else if \<not> rt_verifier_callable rt then Inl (SystemExit ''nexus_native_verifier_missing'')
     else guardE (rt_has_scrubber rt) (SystemExit ''nexus_native_secret_scrubber_missing''))))"

text \<open>\<open>d.get("objects", [])\<close>, iterated.\<close>

definition bundle_objects :: "pydict \<Rightarrow> pyval list result" where
  "bundle_objects bundle = (if has_key bundle ''objects'' then iterate (dget bundle ''objects'') else Inr [])"

definition verify_native ::
  "(bytes \<Rightarrow> bytes) \<Rightarrow> checkout \<Rightarrow> runtime \<Rightarrow> npath \<Rightarrow> pydict \<Rightarrow> pydict result" where
  "verify_native sha1 ck rt src bundle =
     bindE (load_native_runtime sha1 ck rt src) (\<lambda>_.
     bindE (rt_verifier rt bundle) (\<lambda>(result, bundle').
     case result of
       PDict r \<Rightarrow>
         if dget r ''status'' \<noteq> PS ''verified'' \<or> dget r ''authority_effect'' \<noteq> PS ''none''
         then Inl (SystemExit ''nexus_native_verification_not_verified'')
         else if \<not> py_eq (dget r ''bundle_ref'') (dget bundle' ''bundle_ref'')
         then Inl (SystemExit ''nexus_native_verification_bundle_ref_mismatch'')
         else if \<not> py_eq (dget r ''object_count'') (dget bundle' ''object_count'')
         then Inl (SystemExit ''nexus_native_verification_object_count_mismatch'')
         else bindE (bundle_objects bundle') (\<lambda>entries.
           bindE (mapE (\<lambda>e. vget e ''object_id'') entries) (\<lambda>expected_refs.
           if \<not> py_eq (dget r ''object_refs'') (PList expected_refs)
           then Inl (SystemExit ''nexus_native_verification_object_refs_mismatch'') else Inr r))
     | _ \<Rightarrow> Inl (SystemExit ''nexus_native_verifier_result_invalid'')))"

section \<open>Texts\<close>

definition exceeds :: "nat option \<Rightarrow> nat \<Rightarrow> bool" where
  "exceeds limit n \<longleftrightarrow> (case limit of None \<Rightarrow> False | Some m \<Rightarrow> m < n)"

definition nfc_text ::
  "(pystr \<Rightarrow> pystr) \<Rightarrow> (pystr \<Rightarrow> bool) \<Rightarrow> pyval \<Rightarrow> string \<Rightarrow> nat option \<Rightarrow> nat option \<Rightarrow> pystr result" where
  "nfc_text nfc scrubs v code max_chars max_utf8_bytes =
     (if \<not> is_str v \<or> str_of v = [] then Inl (SystemExit code)
      else let normalized = nfc (str_of v) in
        if exceeds max_chars (length normalized) then Inl (SystemExit code)
        else bindE (if max_utf8_bytes = None then Inr [] else utf8_encode normalized) (\<lambda>encoded.
          if exceeds max_utf8_bytes (length encoded) then Inl (SystemExit code)
          else if scrubs normalized then Inl (SystemExit (code @ '':secret_material_rejected''))
          else Inr normalized))"

section \<open>The source manifest\<close>

definition build_source_manifest :: "pydict \<Rightarrow> pydict \<Rightarrow> pydict result" where
  "build_source_manifest bundle verification =
     (if dget bundle ''schema'' \<noteq> NEXUS_EXPORT_SCHEMA \<or> dget bundle ''world_policy'' \<noteq> NEXUS_WORLD_POLICY
      then Inl (SystemExit ''nexus_export_contract_mismatch'')
      else bindE (dindex verification ''bundle_ref'') (\<lambda>bundle_ref.
      if \<not> is_ref WORLD_EXPORT_REF bundle_ref then Inl (SystemExit ''nexus_export_bundle_ref_invalid'')
      else let source_head_ref = dget bundle ''source_head_ref'' in
      if source_head_ref \<noteq> PNone \<and> \<not> is_ref WORLD_MANIFEST_REF source_head_ref
      then Inl (SystemExit ''nexus_export_head_ref_invalid'')
      else bindE (dindex verification ''object_refs'') (\<lambda>refs.
      bindE (iterate refs) (\<lambda>object_refs.
      if object_refs = [] \<or> \<not> list_all (is_ref OBJECT_REF) object_refs
      then Inl (SystemExit ''nexus_export_object_refs_invalid'')
      else bindE (dindex bundle ''order_basis'') (\<lambda>order_basis.
        Inr (pd [(''schema'', FED_SOURCE_SCHEMA), (''nexus_export_schema'', NEXUS_EXPORT_SCHEMA),
          (''nexus_world_policy'', NEXUS_WORLD_POLICY), (''bundle_ref'', bundle_ref), (''source_head_ref'', source_head_ref),
          (''order_basis'', order_basis), (''object_refs'', PList object_refs), (''authority_effect'', PS ''none'')]))))))"

section \<open>The council reports\<close>

definition validate_member :: "(pystr \<Rightarrow> pystr) \<Rightarrow> (pystr \<Rightarrow> bool) \<Rightarrow> pyval \<Rightarrow> pydict result" where
  "validate_member nfc scrubs raw = (case raw of
     PDict m \<Rightarrow>
       bindE (nfc_text nfc scrubs (dget m ''member_id'') ''nexus_council_member_id_invalid'' (Some MAX_MEMBER_ID_CHARS) None) (\<lambda>member_id.
       if \<not> py_eq (dget m ''vote_weight'') (PInt 1) \<or> dget m ''epistemic_privilege'' \<noteq> PS ''none''
       then Inl (SystemExit ''nexus_council_equality_boundary_invalid'')
       else Inr (pd [(''member_id'', PStr member_id), (''vote_weight_observed'', PInt 1),
         (''epistemic_privilege_observed'', PS ''none''), (''vote_weight_inherited'', PBool False),
         (''epistemic_privilege_inherited'', PBool False), (''citizenship_inherited'', PBool False),
         (''authority_effect'', PS ''none'')]))
   | _ \<Rightarrow> Inl (SystemExit ''nexus_council_member_invalid''))"

definition minority_report ::
  "(pystr \<Rightarrow> pystr) \<Rightarrow> (pystr \<Rightarrow> bool) \<Rightarrow> pystr list \<Rightarrow> pyval \<Rightarrow> pydict result" where
  "minority_report nfc scrubs member_ids raw = (case raw of
     PDict m \<Rightarrow>
       bindE (nfc_text nfc scrubs (dget m ''member_id'') ''nexus_minority_report_member_invalid'' (Some MAX_MEMBER_ID_CHARS) None) (\<lambda>member_id.
       if member_id \<notin> set member_ids then Inl (SystemExit ''nexus_minority_report_nonmember'')
       else bindE (nfc_text nfc scrubs (dget m ''choice'') ''nexus_minority_report_choice_invalid'' (Some MAX_CHOICE_CHARS) None) (\<lambda>choice.
       bindE (nfc_text nfc scrubs (dget m ''rationale'') ''nexus_minority_report_rationale_invalid'' None (Some MAX_RATIONALE_UTF8_BYTES)) (\<lambda>rationale.
       Inr (pd [(''member_id'', PStr member_id), (''choice'', PStr choice), (''rationale'', PStr rationale),
         (''evidence_promotion'', PBool False), (''vote_injection'', PBool False), (''authority_effect'', PS ''none'')]))))
   | _ \<Rightarrow> Inl (SystemExit ''nexus_minority_report_invalid''))"

definition minority_reports ::
  "(pystr \<Rightarrow> pystr) \<Rightarrow> (pystr \<Rightarrow> bool) \<Rightarrow> pyval \<Rightarrow> pystr list \<Rightarrow> pydict list result" where
  "minority_reports nfc scrubs r member_ids = (case r of
     PDict d \<Rightarrow>
       (let raw_reports = (if has_key d ''minority_reports'' then dget d ''minority_reports'' else PList []) in
        if raw_reports = PNone then Inr []
        else case raw_reports of
          PList raws \<Rightarrow>
            if MAX_MINORITIES < length raws then Inl (SystemExit ''nexus_minority_reports_invalid'')
            else mapE (minority_report nfc scrubs member_ids) raws
        | _ \<Rightarrow> Inl (SystemExit ''nexus_minority_reports_invalid''))
   | _ \<Rightarrow> Inr [])"

definition evidence_state :: "pyval \<Rightarrow> pyval" where
  "evidence_state r =
     (let e = (case r of PDict d \<Rightarrow> dget d ''evidence_state'' | _ \<Rightarrow> PNone) in
      if \<not> is_str e \<or> str_of e = [] then PS ''UNSPECIFIED'' else e)"

definition council_report ::
  "(pystr \<Rightarrow> pystr) \<Rightarrow> (pystr \<Rightarrow> bool) \<Rightarrow> pyval \<Rightarrow> pyval \<Rightarrow> pydict \<Rightarrow> pydict result" where
  "council_report nfc scrubs bundle_ref session_ref payload =
     (case dget payload ''roster'' of
       PList roster \<Rightarrow>
         if roster = [] \<or> MAX_MEMBERS < length roster then Inl (SystemExit ''nexus_council_roster_invalid'')
         else bindE (mapE (validate_member nfc scrubs) roster) (\<lambda>members.
         let member_ids = map (\<lambda>m. str_of (dget m ''member_id'')) members; r = dget payload ''result'' in
         if \<not> distinct member_ids then Inl (SystemExit ''nexus_council_roster_duplicate_member_after_nfc'')
         else bindE (nfc_text nfc scrubs (evidence_state r) ''nexus_council_evidence_state_invalid'' (Some MAX_EVIDENCE_STATE_CHARS) None) (\<lambda>evidence.
         bindE (nfc_text nfc scrubs (dget payload ''session_id'') ''nexus_council_session_id_invalid'' (Some MAX_SESSION_ID_CHARS) None) (\<lambda>session_id.
         if \<not> is_ref OBJECT_REF (dget payload ''question_ref'') then Inl (SystemExit ''nexus_council_question_ref_invalid'')
         else bindE (minority_reports nfc scrubs r member_ids) (\<lambda>minorities.
         Inr (pd [(''schema'', FED_REPORT_SCHEMA), (''source_repository'', PS ''QSOLKCB/QSOL-NEXUS''),
           (''source_commit'', PStr NEXUS_PINNED_COMMIT), (''source_bundle_ref'', bundle_ref), (''source_session_ref'', session_ref),
           (''session_id'', PStr session_id), (''question_ref'', dget payload ''question_ref''),
           (''evidence_state_observed'', PStr evidence), (''members'', PList (map PDict members)),
           (''minority_reports'', PList (map PDict minorities)), (''secret_scrubbed'', PBool True), (''shared_ballot'', PBool False),
           (''vote_injection'', PBool False), (''evidence_promotion'', PBool False), (''authority_effect'', PS ''none'')])))))
     | _ \<Rightarrow> Inl (SystemExit ''nexus_council_roster_invalid''))"

text \<open>One object of the bundle; \<open>in verified_refs\<close> hashes the reference.\<close>

definition report_object ::
  "(pystr \<Rightarrow> pystr) \<Rightarrow> (pystr \<Rightarrow> bool) \<Rightarrow> pyval \<Rightarrow> pyval list \<Rightarrow> pydict list \<Rightarrow> pyval \<Rightarrow> pydict list result" where
  "report_object nfc scrubs bundle_ref verified_refs reports raw =
     bindE (vget raw ''object_type'') (\<lambda>object_type.
     if object_type \<noteq> PS ''council_session'' then Inr reports
     else bindE (vget raw ''object_id'') (\<lambda>session_ref.
     if \<not> hashable session_ref then Inl TypeError
     else if \<not> list_ex (py_eq session_ref) verified_refs then Inl (SystemExit ''nexus_council_session_not_verified'')
     else bindE (vget raw ''payload'') (\<lambda>payload.
     case payload of
       PDict p \<Rightarrow>
         bindE (council_report nfc scrubs bundle_ref session_ref p) (\<lambda>report.
         if MAX_REPORTS < length (reports @ [report]) then Inl (SystemExit ''nexus_council_report_limit'')
         else Inr (reports @ [report]))
     | _ \<Rightarrow> Inl (SystemExit ''nexus_council_session_payload_invalid''))))"

text \<open>
  \<open>verification["bundle_ref"]\<close> is looked up for each report; it is there since the source manifest was
  built before. A set of references hashes its members.
\<close>

definition build_council_reports ::
  "(pystr \<Rightarrow> pystr) \<Rightarrow> (pystr \<Rightarrow> bool) \<Rightarrow> pydict \<Rightarrow> pydict \<Rightarrow> pydict list result" where
  "build_council_reports nfc scrubs bundle verification =
     bindE (dindex verification ''object_refs'') (\<lambda>refs.
     bindE (iterate refs) (\<lambda>verified_refs.
     if \<not> list_all hashable verified_refs then Inl TypeError
     else bindE (bundle_objects bundle) (\<lambda>objects.
       foldE (report_object nfc scrubs (dget verification ''bundle_ref'') verified_refs) [] objects)))"

section \<open>The projection\<close>

text \<open>\<open>loaded\<close> is what \<open>load_json\<close> returns.\<close>

definition verified_projection ::
  "(bytes \<Rightarrow> bytes) \<Rightarrow> (pystr \<Rightarrow> pystr) \<Rightarrow> checkout \<Rightarrow> runtime \<Rightarrow> npath \<Rightarrow> pyval result \<Rightarrow> (pydict \<times> pydict list) result" where
  "verified_projection sha1 nfc ck rt src loaded =
     bindE loaded (\<lambda>v. case v of
       PDict bundle \<Rightarrow>
         bindE (verify_native sha1 ck rt src bundle) (\<lambda>verification.
         bindE (build_source_manifest bundle verification) (\<lambda>source.
         bindE (build_council_reports nfc (rt_scrub_changed rt) bundle verification) (\<lambda>reports. Inr (source, reports))))
     | _ \<Rightarrow> Inl (SystemExit ''nexus_bundle_must_be_object''))"

datatype command = SourceManifest | CouncilReports | Projection

definition projection_output :: "command \<Rightarrow> pydict \<Rightarrow> pydict list \<Rightarrow> pydict" where
  "projection_output c source reports = (case c of
     SourceManifest \<Rightarrow> source
   | CouncilReports \<Rightarrow> pd [(''reports'', PList (map PDict reports)), (''count'', PInt (int (length reports))), (''authority_effect'', PS ''none'')]
   | Projection \<Rightarrow> pd [(''schema'', PS ''qsol-fed-nexus-live-projection/1''), (''source'', PDict source),
       (''council_reports'', PList (map PDict reports)), (''native_verification_required'', PBool True),
       (''authority_effect'', PS ''none'')])"

text \<open>\<open>json.dumps(value, ensure_ascii=False, allow_nan=False, separators=(",", ":"))\<close>; \<open>float_text\<close> is \<open>repr\<close> of a float.\<close>

fun json_dumps :: "(pyfloat \<Rightarrow> pystr) \<Rightarrow> pyval \<Rightarrow> pystr result" where
  "json_dumps float_text PNone = Inr (lit ''null'')"
| "json_dumps float_text (PBool b) = Inr (if b then lit ''true'' else lit ''false'')"
| "json_dumps float_text (PInt i) = Inr (show_int i)"
| "json_dumps float_text (PFloat f) = (case f of Finite q \<Rightarrow> Inr (float_text f) | _ \<Rightarrow> Inl ValueError)"
| "json_dumps float_text (PStr s) = Inr (quoted s)"
| "json_dumps float_text (PList vs) = bindE (mapE (json_dumps float_text) vs) (\<lambda>ts. Inr ([91] @ join_with [44] ts @ [93]))"
| "json_dumps float_text (PDict d) =
     bindE (mapE (\<lambda>kv. bindE (json_dumps float_text (snd kv)) (\<lambda>t. Inr (quoted (fst kv) @ [58] @ t))) d) (\<lambda>ts.
     Inr ([123] @ join_with [44] ts @ [125]))"
| "json_dumps float_text (PPairs d) =
     bindE (mapE (\<lambda>kv. bindE (json_dumps float_text (snd kv)) (\<lambda>t. Inr ([91] @ quoted (fst kv) @ [44] @ t @ [93]))) d) (\<lambda>ts.
     Inr ([91] @ join_with [44] ts @ [93]))"

definition nexus_canonical :: "(pyfloat \<Rightarrow> pystr) \<Rightarrow> (pystr \<Rightarrow> pystr) \<Rightarrow> nat \<Rightarrow> pyval \<Rightarrow> pystr result" where
  "nexus_canonical float_text nfc budget v =
     bindE (json_dumps float_text v) (\<lambda>raw.
     case canonicalize nfc budget raw of
       Inl (CanonicalError c) \<Rightarrow> Inl (SystemExit (''fed_canonical_output_invalid:'' @ c))
     | Inl (CanonicalErrorFor c d) \<Rightarrow> Inl (SystemExit (''fed_canonical_output_invalid:'' @ c @ d))
     | Inl e \<Rightarrow> Inl e
     | Inr b \<Rightarrow> utf8_decode b)"

text \<open>\<open>main\<close> after its arguments: the text that is written.\<close>

definition nexus_main ::
  "(bytes \<Rightarrow> bytes) \<Rightarrow> (pyfloat \<Rightarrow> pystr) \<Rightarrow> (pystr \<Rightarrow> pystr) \<Rightarrow> nat \<Rightarrow> checkout \<Rightarrow> runtime \<Rightarrow> npath \<Rightarrow> pyval result \<Rightarrow> command \<Rightarrow> pystr result" where
  "nexus_main sha1 float_text nfc budget ck rt src loaded c =
     bindE (verified_projection sha1 nfc ck rt src loaded) (\<lambda>(source, reports).
     bindE (nexus_canonical float_text nfc budget (PDict (projection_output c source reports))) (\<lambda>t. Inr (t @ [10])))"

end
