(* ===== verification/Nexus_Laws.thy ===== *)
theory Nexus_Laws
  imports Nexus_Adapter
begin

text \<open>What the NEXUS adapter promises about everything it emits.\<close>

section \<open>Attestation\<close>

lemma attest_nexus_checkout_Inr:
  assumes "attest_nexus_checkout sha1 ck src = Inr nexus_src"
  shows "nexus_src = ck_resolve ck src \<and> nexus_git_head ck (butlast nexus_src) = Inr NEXUS_PINNED_COMMIT \<and>
    (\<forall>(relative, blob) \<in> set NEXUS_PINNED_BLOBS. \<not> ck_is_symlink ck (below nexus_src relative) \<and>
      (\<exists>body. ck_bytes ck (below nexus_src relative) = Inr body \<and> git_object_id sha1 ''blob'' body = blob))"
  using assms
  by (auto simp: attest_nexus_checkout_def Let_def bindE_eq_Inr eachE_eq_Inr git_blob_sha_def split: if_split_asm)

lemma load_native_runtime_Inr:
  "load_native_runtime sha1 ck rt src = Inr u \<Longrightarrow>
     \<not> rt_loaded rt \<and> (\<exists>nexus_src. attest_nexus_checkout sha1 ck src = Inr nexus_src)"
  by (auto simp: load_native_runtime_def Let_def bindE_eq_Inr split: if_split_asm)

lemma verify_native_Inr:
  assumes "verify_native sha1 ck rt src bundle = Inr r"
  obtains nexus_src bundle' entries refs where "attest_nexus_checkout sha1 ck src = Inr nexus_src" "\<not> rt_loaded rt"
    "rt_verifier rt bundle = Inr (PDict r, bundle')" "dget r ''status'' = PS ''verified''" "dget r ''authority_effect'' = PS ''none''"
    "bundle_objects bundle' = Inr entries" "mapE (\<lambda>e. vget e ''object_id'') entries = Inr refs"
    "py_eq (dget r ''object_refs'') (PList refs)" "py_eq (dget r ''bundle_ref'') (dget bundle' ''bundle_ref'')"
proof -
  from assms obtain u result bundle' where s: "load_native_runtime sha1 ck rt src = Inr u" "rt_verifier rt bundle = Inr (result, bundle')"
    by (auto simp: verify_native_def bindE_eq_Inr)
  with assms obtain r' where r': "result = PDict r'" by (cases result) (auto simp: verify_native_def)
  from assms s r' that load_native_runtime_Inr [OF s(1)] show ?thesis
    by (auto simp: verify_native_def bindE_eq_Inr split: if_split_asm)
qed

text \<open>A list of strings equals only itself.\<close>

lemma py_eq_strs: "list_all is_str xs \<Longrightarrow> py_eq (PList xs) (PList ys) \<longleftrightarrow> xs = ys"
proof -
  have "list_all is_str xs \<Longrightarrow> py_eq_list xs ys \<longleftrightarrow> xs = ys"
  proof (induction xs arbitrary: ys)
    case (Cons x xs)
    then show ?case by (cases x; cases ys) auto
  qed auto
  then show "list_all is_str xs \<Longrightarrow> py_eq (PList xs) (PList ys) \<longleftrightarrow> xs = ys" by simp
qed

lemma build_source_manifest_Inr:
  assumes "build_source_manifest bundle r = Inr source"
  obtains bundle_ref refs object_refs where "dindex r ''bundle_ref'' = Inr bundle_ref" "is_ref WORLD_EXPORT_REF bundle_ref"
    "dindex r ''object_refs'' = Inr refs" "iterate refs = Inr object_refs" "object_refs \<noteq> []" "list_all (is_ref OBJECT_REF) object_refs"
    "dget source ''bundle_ref'' = bundle_ref" "dget source ''object_refs'' = PList object_refs" "dget source ''authority_effect'' = PS ''none''"
proof -
  from assms obtain bundle_ref refs object_refs order_basis where s: "dindex r ''bundle_ref'' = Inr bundle_ref" "is_ref WORLD_EXPORT_REF bundle_ref"
    "dindex r ''object_refs'' = Inr refs" "iterate refs = Inr object_refs" "object_refs \<noteq> []" "list_all (is_ref OBJECT_REF) object_refs"
    "source = pd [(''schema'', FED_SOURCE_SCHEMA), (''nexus_export_schema'', NEXUS_EXPORT_SCHEMA),
          (''nexus_world_policy'', NEXUS_WORLD_POLICY), (''bundle_ref'', bundle_ref), (''source_head_ref'', dget bundle ''source_head_ref''),
          (''order_basis'', order_basis), (''object_refs'', PList object_refs), (''authority_effect'', PS ''none'')]"
    by (auto simp: build_source_manifest_def Let_def bindE_eq_Inr split: if_split_asm)
  then show ?thesis using that by (simp add: dget_def)
qed

lemma dindex_dget: "dindex d k = Inr v \<Longrightarrow> dget d k = v"
  by (auto simp: dindex_def dget_def split: option.splits)

section \<open>Reports\<close>















section \<open>The projection\<close>

lemma is_ref_strs: "list_all (is_ref r) xs \<Longrightarrow> list_all is_str xs"
  by (auto simp: list_all_iff is_ref_def)

lemma build_source_manifest_head:
  assumes "build_source_manifest bundle r = Inr source"
  shows "dget source ''source_head_ref'' = dget bundle ''source_head_ref''"
    and "dget bundle ''source_head_ref'' = PNone \<or> is_ref WORLD_MANIFEST_REF (dget bundle ''source_head_ref'')"
    and "dget source ''object_refs'' \<noteq> PList []"
  using assms by (auto simp: build_source_manifest_def bindE_eq_Inr Let_def dget_def split: if_splits)

lemma projection_steps:
  assumes "verified_projection sha1 nfc ck rt src loaded = Inr (source, reports)"
  obtains bndl r where "loaded = Inr (PDict bndl)" "verify_native sha1 ck rt src bndl = Inr r"
    "build_source_manifest bndl r = Inr source" "build_council_reports nfc (rt_scrub_changed rt) bndl r = Inr reports"
proof -
  from assms obtain v where v: "loaded = Inr v" by (auto simp: verified_projection_def bindE_eq_Inr)
  with assms obtain bndl where "v = PDict bndl" by (cases v) (auto simp: verified_projection_def)
  with assms v that show ?thesis by (auto simp: verified_projection_def bindE_eq_Inr)
qed

section \<open>A checkout, a bundle and a session\<close>

definition demo_source_root :: npath where "demo_source_root = [lit ''r'', lit ''s'']"

definition demo_blob_index :: "npath \<Rightarrow> nat" where
  "demo_blob_index p = (case find (\<lambda>i. below demo_source_root (fst (NEXUS_PINNED_BLOBS ! i)) = p) [0..<6] of Some i \<Rightarrow> i | None \<Rightarrow> 6)"

definition demo_checkout :: checkout where
  "demo_checkout = \<lparr>ck_is_dir = (\<lambda>_. True), ck_is_file = (\<lambda>_. True), ck_is_symlink = (\<lambda>_. False),
     ck_text = (\<lambda>_. Inr (NEXUS_PINNED_COMMIT @ [10])), ck_bytes = (\<lambda>p. Inr [of_nat (demo_blob_index p)]), ck_resolve = (\<lambda>p. p)\<rparr>"

fun unhex :: "pystr \<Rightarrow> bytes" where
  "unhex (a # b # s) = of_nat (16 * (if a < 58 then a - 48 else a - 87) + (if b < 58 then b - 48 else b - 87)) # unhex s"
| "unhex _ = []"

definition demo_blob_sha1 :: "bytes \<Rightarrow> bytes" where
  "demo_blob_sha1 b = unhex (snd (NEXUS_PINNED_BLOBS ! unat (last b)))"

definition demo_object_ref :: pyval where
  "demo_object_ref = PStr (lit ''object:'' @ replicate 64 48)"

definition demo_export_ref :: pyval where
  "demo_export_ref = PStr (lit ''world-export:'' @ replicate 64 48)"

definition demo_payload :: pydict where
  "demo_payload = pd [(''roster'', PList [PDict (pd [(''member_id'', PS ''m''), (''vote_weight'', PInt 1), (''epistemic_privilege'', PS ''none'')])]),
     (''session_id'', PS ''s''), (''question_ref'', demo_object_ref),
     (''result'', PDict (pd [(''minority_reports'', PList [PDict (pd [(''member_id'', PS ''m''), (''choice'', PS ''c''), (''rationale'', PS ''r'')])])]))]"

definition demo_bundle :: pydict where
  "demo_bundle = pd [(''schema'', NEXUS_EXPORT_SCHEMA), (''world_policy'', NEXUS_WORLD_POLICY), (''bundle_ref'', demo_export_ref),
     (''order_basis'', PS ''o''), (''object_count'', PInt 1),
     (''objects'', PList [PDict (pd [(''object_type'', PS ''council_session''), (''object_id'', demo_object_ref), (''payload'', PDict demo_payload)])])]"

definition demo_verification :: pydict where
  "demo_verification = pd [(''status'', PS ''verified''), (''authority_effect'', PS ''none''), (''bundle_ref'', demo_export_ref),
     (''object_count'', PInt 1), (''object_refs'', PList [demo_object_ref])]"

definition demo_module :: "string \<Rightarrow> npath" where
  "demo_module n = demo_source_root @ [lit ''nexus_runtime'', lit (if n = ''nexus_runtime.scrub'' then ''scrub.py'' else ''persistent_world.py'')]"

definition demo_runtime_world :: runtime where
  "demo_runtime_world = \<lparr>rt_loaded = False, rt_import = (\<lambda>n. Inr (demo_module n)), rt_verifier_callable = True, rt_has_scrubber = True,
     rt_verifier = (\<lambda>b. Inr (PDict demo_verification, b)), rt_scrub_changed = (\<lambda>t. t = lit ''secret'')\<rparr>"

abbreviation demo_blob_read :: "nat \<Rightarrow> bool" where
  "demo_blob_read i \<equiv> git_blob_sha demo_blob_sha1 demo_checkout (below demo_source_root (fst (NEXUS_PINNED_BLOBS ! i))) =
     Inr (snd (NEXUS_PINNED_BLOBS ! i))"

lemma demo_blobs_012: "demo_blob_read 0" "demo_blob_read 1" "demo_blob_read 2"
  by code_simp+

lemma demo_blobs_345: "demo_blob_read 3" "demo_blob_read 4" "demo_blob_read 5"
  by code_simp+

lemma demo_head: "nexus_git_head demo_checkout (butlast demo_source_root) = Inr NEXUS_PINNED_COMMIT"
  by code_simp

lemma demo_attested: "attest_nexus_checkout demo_blob_sha1 demo_checkout demo_source_root = Inr demo_source_root"
proof -
  have "length NEXUS_PINNED_BLOBS = 6" by (simp add: NEXUS_PINNED_BLOBS_def)
  then have "case b of (relative, blob) \<Rightarrow> git_blob_sha demo_blob_sha1 demo_checkout (below demo_source_root relative) = Inr blob"
    if b: "b \<in> set NEXUS_PINNED_BLOBS" for b
    using demo_blobs_012 demo_blobs_345 b
    by (auto simp: in_set_conv_nth less_Suc_eq numeral_eq_Suc split: prod.splits)
  then have "eachE (\<lambda>(relative, expected_blob).
          bindE (git_blob_sha demo_blob_sha1 demo_checkout (below demo_source_root relative)) (\<lambda>actual.
          guardE (actual = expected_blob) (SystemExitFor ''nexus_checkout_blob_mismatch:'' relative))) NEXUS_PINNED_BLOBS = Inr ()"
    by (fastforce simp: eachE_eq_Inr)
  moreover have "ck_resolve demo_checkout p = p" for p by (simp add: demo_checkout_def)
  ultimately show ?thesis by (simp add: attest_nexus_checkout_def demo_head)
qed

lemma demo_verified: "verify_native demo_blob_sha1 demo_checkout demo_runtime_world demo_source_root demo_bundle = Inr demo_verification"
proof -
  have "load_native_runtime demo_blob_sha1 demo_checkout demo_runtime_world demo_source_root = Inr ()"
    by (simp add: load_native_runtime_def demo_attested) (simp add: demo_runtime_world_def demo_module_def demo_checkout_def)
  moreover have "bundle_objects demo_bundle = Inr (items_of (dget demo_bundle ''objects''))"
    "mapE (\<lambda>e. vget e ''object_id'') (items_of (dget demo_bundle ''objects'')) = Inr [demo_object_ref]"
    "dget demo_bundle ''bundle_ref'' = demo_export_ref" "dget demo_bundle ''object_count'' = PInt 1"
    by (simp_all add: bundle_objects_def demo_bundle_def has_key_def dget_def vget_def)
  ultimately show ?thesis
    by (simp add: verify_native_def demo_runtime_world_def)
      (simp add: demo_verification_def dget_def demo_export_ref_def demo_object_ref_def num_of_def)
qed

lemma demo_projected:
  "\<exists>source reports. verified_projection demo_blob_sha1 (\<lambda>s. s) demo_checkout demo_runtime_world demo_source_root (Inr (PDict demo_bundle)) =
     Inr (source, reports) \<and> length reports = 1"
proof -
  have "\<not> isl (build_source_manifest demo_bundle demo_verification)" by code_simp
  then obtain source where "build_source_manifest demo_bundle demo_verification = Inr source"
    by (cases "build_source_manifest demo_bundle demo_verification") auto
  moreover have "\<not> isl (build_council_reports (\<lambda>s. s) (rt_scrub_changed demo_runtime_world) demo_bundle demo_verification)"
    and n: "length (projr (build_council_reports (\<lambda>s. s) (rt_scrub_changed demo_runtime_world) demo_bundle demo_verification)) = 1"
    by code_simp+
  then obtain reports where "build_council_reports (\<lambda>s. s) (rt_scrub_changed demo_runtime_world) demo_bundle demo_verification = Inr reports"
    by (cases "build_council_reports (\<lambda>s. s) (rt_scrub_changed demo_runtime_world) demo_bundle demo_verification") auto
  ultimately show ?thesis using n by (simp add: verified_projection_def demo_verified)
qed

section \<open>Properties\<close>

text \<open>C8: The adapter emits only what the pinned verifier verified: when a projection exists, the checkout is at
  the pinned commit and the six source files of the verifier are regular files with the pinned git
  identities, no runtime was loaded before, the verifier called the export it was given verified and
  without authority, and the source manifest names exactly the identities of the objects, each in the
  form of an object reference, and the export reference that the verifier's copy of the export has when
  it returns. Nothing is assumed of the verifier: it may have changed its copy, and only the head, which
  has the form of a manifest reference when there is one, is read from the export as it was loaded.\<close>

theorem nexus_projection_attested:
  assumes "verified_projection sha1 nfc ck rt src loaded = Inr (source, reports)"
  shows "\<exists>bndl seen nexus_src r entries refs. loaded = Inr (PDict bndl) \<and> nexus_src = ck_resolve ck src \<and>
    nexus_git_head ck (butlast nexus_src) = Inr NEXUS_PINNED_COMMIT \<and>
    (\<forall>(relative, blob) \<in> set NEXUS_PINNED_BLOBS. \<not> ck_is_symlink ck (below nexus_src relative) \<and>
      (\<exists>body. ck_bytes ck (below nexus_src relative) = Inr body \<and> git_object_id sha1 ''blob'' body = blob)) \<and>
    \<not> rt_loaded rt \<and> rt_verifier rt bndl = Inr (PDict r, seen) \<and>
    dget r ''status'' = PS ''verified'' \<and> dget r ''authority_effect'' = PS ''none'' \<and>
    bundle_objects seen = Inr entries \<and> mapE (\<lambda>e. vget e ''object_id'') entries = Inr refs \<and>
    dget source ''object_refs'' = PList refs \<and> refs \<noteq> [] \<and> list_all (is_ref OBJECT_REF) refs \<and>
    dget source ''bundle_ref'' = dget seen ''bundle_ref'' \<and> is_ref WORLD_EXPORT_REF (dget seen ''bundle_ref'') \<and>
    dget source ''source_head_ref'' = dget bndl ''source_head_ref'' \<and>
    (dget bndl ''source_head_ref'' = PNone \<or> is_ref WORLD_MANIFEST_REF (dget bndl ''source_head_ref'')) \<and>
    dget source ''authority_effect'' = PS ''none''"
proof -
  obtain bndl r where p: "loaded = Inr (PDict bndl)" "verify_native sha1 ck rt src bndl = Inr r"
    "build_source_manifest bndl r = Inr source" by (rule projection_steps [OF assms])
  obtain nexus_src seen entries refs where v: "attest_nexus_checkout sha1 ck src = Inr nexus_src" "\<not> rt_loaded rt"
    "rt_verifier rt bndl = Inr (PDict r, seen)" "dget r ''status'' = PS ''verified''" "dget r ''authority_effect'' = PS ''none''"
    "bundle_objects seen = Inr entries" "mapE (\<lambda>e. vget e ''object_id'') entries = Inr refs"
    "py_eq (dget r ''object_refs'') (PList refs)" "py_eq (dget r ''bundle_ref'') (dget seen ''bundle_ref'')"
    by (rule verify_native_Inr [OF p(2)])
  obtain bundle_ref rs object_refs where m: "dindex r ''bundle_ref'' = Inr bundle_ref" "is_ref WORLD_EXPORT_REF bundle_ref"
    "dindex r ''object_refs'' = Inr rs" "iterate rs = Inr object_refs" "list_all (is_ref OBJECT_REF) object_refs"
    "dget source ''bundle_ref'' = bundle_ref" "dget source ''object_refs'' = PList object_refs" "dget source ''authority_effect'' = PS ''none''"
    by (rule build_source_manifest_Inr [OF p(3)])
  have "rs = PList object_refs" using v(8) m(4) dindex_dget [OF m(3)] by (cases rs) auto
  then have refs: "object_refs = refs" using v(8) dindex_dget [OF m(3)] py_eq_strs [OF is_ref_strs [OF m(5)]] by simp
  have ref: "bundle_ref = dget seen ''bundle_ref''"
    using v(9) dindex_dget [OF m(1)] m(2) by (cases bundle_ref) (auto simp: is_ref_def)
  note at = attest_nexus_checkout_Inr [OF v(1)] and h = build_source_manifest_head [OF p(3)]
  show ?thesis
    by (rule exI [of _ bndl], rule exI [of _ seen], rule exI [of _ nexus_src], rule exI [of _ r], rule exI [of _ entries],
      rule exI [of _ refs], intro conjI p(1) at [THEN conjunct1] at [THEN conjunct2, THEN conjunct1] at [THEN conjunct2, THEN conjunct2]
        v(2-7) m(7) [unfolded refs] h(3) [unfolded m(7) pyval.inject refs] m(5) [unfolded refs] m(6) [unfolded ref]
        m(2) [unfolded ref] h(1,2) m(8))
qed

theorem nexus_projection_attested_witness:
  "\<exists>source reports. verified_projection demo_blob_sha1 (\<lambda>s. s) demo_checkout demo_runtime_world demo_source_root (Inr (PDict demo_bundle)) =
     Inr (source, reports) \<and> dget source ''bundle_ref'' = dget demo_bundle ''bundle_ref''"
proof -
  obtain source reports where v: "verified_projection demo_blob_sha1 (\<lambda>s. s) demo_checkout demo_runtime_world demo_source_root
      (Inr (PDict demo_bundle)) = Inr (source, reports)" using demo_projected by blast
  from nexus_projection_attested [OF v] obtain bndl seen r where
    b: "(Inr (PDict demo_bundle) :: pyval result) = Inr (PDict bndl)" "rt_verifier demo_runtime_world bndl = Inr (PDict r, seen)"
    "dget source ''bundle_ref'' = dget seen ''bundle_ref''" by blast
  have "seen = bndl" using b(2) by (simp add: demo_runtime_world_def)
  then have "dget source ''bundle_ref'' = dget demo_bundle ''bundle_ref''" using b(1,3) by (simp only: sum.inject pyval.inject)
  with v show ?thesis by blast
qed



end
