(* ===== verification/Lean_Scan.thy ===== *)
theory Lean_Scan
  imports Py_Text Regex
begin

text \<open>
  The scanner of Lean sources of \<open>tools/validate_phase10_gate_base.py\<close>: comments and strings are blanked,
  what is left is searched for the declarations of theorems and for forbidden words.
\<close>

section \<open>Code without comments and strings\<close>

text \<open>The body of a comment or a string: a newline stays, every other character becomes a blank.\<close>

definition blank :: "pystr \<Rightarrow> pystr" where
  "blank s = map (\<lambda>c. if c = 10 then 10 else 32) s"

text \<open>
  \<open>_lean_code_only\<close>: \<open>block_depth\<close> and \<open>in_string\<close> are the variables of the loop, the text is what is
  left from \<open>i\<close> on. The result has the pieces of \<open>out\<close> and the final values of the two variables.
\<close>

definition emit :: "pystr \<Rightarrow> pystr \<times> nat \<times> bool \<Rightarrow> pystr \<times> nat \<times> bool" where
  "emit piece r = (piece @ fst r, snd r)"

function lean_code :: "nat \<Rightarrow> bool \<Rightarrow> pystr \<Rightarrow> pystr \<times> nat \<times> bool" where
  "lean_code block_depth in_string [] = ([], block_depth, in_string)"
| "lean_code block_depth in_string (c # s) =
     (if block_depth > 0 then
        if starts_with (c # s) [47, 45] then emit [32, 32] (lean_code (block_depth + 1) in_string (tl s))
        else if starts_with (c # s) [45, 47] then emit [32, 32] (lean_code (block_depth - 1) in_string (tl s))
        else emit (blank [c]) (lean_code block_depth in_string s)
      else if in_string then
        if c = 92 \<and> s \<noteq> [] then emit [32, 32] (lean_code 0 True (tl s))
        else if c = 34 then emit [32] (lean_code 0 False s)
        else emit (blank [c]) (lean_code 0 True s)
      else if starts_with (c # s) [45, 45] then
        emit (map (\<lambda>_. 32) (takeWhile (\<lambda>x. x \<noteq> 10) (c # s))) (lean_code 0 False (dropWhile (\<lambda>x. x \<noteq> 10) s))
      else if starts_with (c # s) [47, 45] then emit [32, 32] (lean_code 1 False (tl s))
      else if c = 34 then emit [32] (lean_code 0 True s)
      else emit [c] (lean_code 0 False s))"
  by pat_completeness auto
termination
  by (relation "measure (\<lambda>(d, b, s). length s)") (auto simp: less_Suc_eq_le length_dropWhile_le)

definition lean_code_only :: "pystr \<Rightarrow> pystr \<Rightarrow> pystr result" where
  "lean_code_only path source =
     (case lean_code 0 False source of (out, block_depth, in_string) \<Rightarrow>
        if block_depth \<noteq> 0 then Inl (GateErrorFor ''unterminated Lean block comment while scanning '' path)
        else if in_string then Inl (GateErrorFor ''unterminated Lean string while scanning '' path)
        else Inr out)"

section \<open>Words\<close>

text \<open>\<open>\w\<close>: \<open>uni\<close> tells which characters outside ASCII are alphanumeric.\<close>

definition word_char :: "(nat \<Rightarrow> bool) \<Rightarrow> nat \<Rightarrow> bool" where
  "word_char uni c \<longleftrightarrow> is_digit c \<or> (65 \<le> c \<and> c \<le> 90) \<or> (97 \<le> c \<and> c \<le> 122) \<or> c = 95 \<or> (128 \<le> c \<and> uni c)"

definition word_end :: "(nat \<Rightarrow> bool) \<Rightarrow> pystr \<Rightarrow> bool" where
  "word_end uni rest \<longleftrightarrow> rest = [] \<or> \<not> word_char uni (hd rest)"

text \<open>
  The positions where \<open>\b(?:w1|w2)\b\<close> matches; \<open>prev\<close> says whether a word character comes before. Matches
  do not overlap, since inside a match a word character comes before.
\<close>

fun word_starts :: "(nat \<Rightarrow> bool) \<Rightarrow> string list \<Rightarrow> bool \<Rightarrow> nat \<Rightarrow> pystr \<Rightarrow> nat list" where
  "word_starts uni ws prev i [] = []"
| "word_starts uni ws prev i (c # s) =
     (if \<not> prev \<and> list_ex (\<lambda>w. starts_with (c # s) (lit w) \<and> word_end uni (drop (length w) (c # s))) ws then [i] else []) @
     word_starts uni ws (word_char uni c) (i + 1) s"

definition PLACEHOLDER :: "string list" where "PLACEHOLDER = [''so'' @ ''rry'', ''admit'']"
definition AXIOM_DECL_TOKEN :: "string list" where "AXIOM_DECL_TOKEN = [''axiom'', ''constant'']"

text \<open>A Lean file is its path with what reading it gives.\<close>

type_synonym lean_file = "pystr \<times> pystr result"

definition verify_no_placeholders :: "(nat \<Rightarrow> bool) \<Rightarrow> lean_file list \<Rightarrow> unit result" where
  "verify_no_placeholders uni lean_files =
     (if lean_files = [] then Inl (GateError ''no Lean source files found'')
      else eachE (\<lambda>(path, text). bindE text (\<lambda>source.
        guardE (word_starts uni PLACEHOLDER False 0 source = []) (GateErrorFor ''unresolved proof placeholder in '' path))) lean_files)"

definition line_of :: "pystr \<Rightarrow> nat \<Rightarrow> nat" where
  "line_of code start = length (filter (\<lambda>c. c = 10) (take start code)) + 1"

definition show_nat :: "nat \<Rightarrow> pystr" where "show_nat n = show_int (int n)"

definition axiom_lines :: "(nat \<Rightarrow> bool) \<Rightarrow> lean_file \<Rightarrow> pystr list result" where
  "axiom_lines uni f = (case f of (path, text) \<Rightarrow>
     bindE text (\<lambda>source. bindE (lean_code_only path source) (\<lambda>code.
       Inr (map (\<lambda>start. path @ [58] @ show_nat (line_of code start)) (word_starts uni AXIOM_DECL_TOKEN False 0 code)))))"

definition verify_no_custom_axioms :: "(nat \<Rightarrow> bool) \<Rightarrow> lean_file list \<Rightarrow> unit result" where
  "verify_no_custom_axioms uni lean_files =
     (if lean_files = [] then Inl (GateError ''no Lean source files found'')
      else bindE (mapE (axiom_lines uni) lean_files) (\<lambda>found.
        guardE (concat found = [])
          (GateErrorFor ''custom axiom/constant declaration token found in Phase 10 source: '' (join_with [44, 32] (concat found)))))"

section \<open>Declarations\<close>

text \<open>
  \<open>captures\<close> lists what the group of \<open>prefix(group)rest\<close> can match, in the order in which shorter
  prefixes come first; \<open>keyword_captures\<close> below shows that there is at most one choice.
\<close>

fun splits :: "'a list \<Rightarrow> ('a list \<times> 'a list) list" where
  "splits [] = [([], [])]"
| "splits (c # s) = ([], c # s) # map (\<lambda>(a, b). (c # a, b)) (splits s)"

definition captures :: "rx \<Rightarrow> rx \<Rightarrow> (pystr \<Rightarrow> bool) \<Rightarrow> pystr \<Rightarrow> pystr list" where
  "captures prefix grp rest s =
     concat (map (\<lambda>(u, v). if rx_match prefix u then map fst (filter (\<lambda>(g, r). rx_match grp g \<and> rest r) (splits v)) else [])
       (splits s))"

definition first_of :: "'a list \<Rightarrow> 'a option" where
  "first_of xs = (case xs of [] \<Rightarrow> None | x # _ \<Rightarrow> Some x)"

definition BLANK :: rx where "BLANK = Cls [(9, 9), (32, 32)]"
definition BLANKS :: rx where "BLANKS = Star BLANK"
definition IDENT :: rx where
  "IDENT = Seq (Cls [rng CHR ''A'' CHR ''Z'', rng CHR ''a'' CHR ''z'', rng CHR ''_'' CHR ''_''])
     (Star (Cls [rng CHR ''A'' CHR ''Z'', rng CHR ''a'' CHR ''z'', rng CHR ''0'' CHR ''9'', rng CHR ''_'' CHR ''_'', rng CHR ''.'' CHR ''.'']))"
definition LOWER_NAME :: rx where
  "LOWER_NAME = Seq (Cls [rng CHR ''a'' CHR ''z'']) (Star (Cls [rng CHR ''a'' CHR ''z'', rng CHR ''0'' CHR ''9'', rng CHR ''_'' CHR ''_'']))"

definition keyword_rx :: "string \<Rightarrow> rx" where
  "keyword_rx w = Seq BLANKS (Seq (rlit w) (Seq BLANK BLANKS))"

definition namespace_open :: "pystr \<Rightarrow> pystr option" where
  "namespace_open line = first_of (captures (keyword_rx ''namespace'') IDENT (rx_match BLANKS) line)"

text \<open>The label of an \<open>end\<close> is optional: the outer option tells a match, the inner one the group.\<close>

definition namespace_end :: "pystr \<Rightarrow> pystr option option" where
  "namespace_end line =
     (case first_of (captures (keyword_rx ''end'') IDENT (rx_match BLANKS) line) of
        Some label \<Rightarrow> Some (Some label)
      | None \<Rightarrow> if rx_match (Seq BLANKS (Seq (rlit ''end'') BLANKS)) line then Some None else None)"

definition theorem_line :: "(nat \<Rightarrow> bool) \<Rightarrow> pystr \<Rightarrow> pystr option" where
  "theorem_line uni line = first_of (captures (keyword_rx ''theorem'') LOWER_NAME (word_end uni) line)"

record lean_scan =
  ls_stack :: "pystr list"
  ls_decls :: "(pystr \<times> nat) list"

text \<open>One line of \<open>_lean_fully_qualified_theorems\<close>, with its number.\<close>

definition scan_line :: "(nat \<Rightarrow> bool) \<Rightarrow> pystr \<Rightarrow> lean_scan \<Rightarrow> nat \<times> pystr \<Rightarrow> lean_scan result" where
  "scan_line uni path st numbered = (case numbered of (line_number, line) \<Rightarrow>
     let stack = ls_stack st; pos = path @ [58] @ show_nat line_number in
     case namespace_open line of
       Some opened \<Rightarrow> Inr (st\<lparr>ls_stack := stack @ split_all 46 opened\<rparr>)
     | None \<Rightarrow> (case namespace_end line of
         Some closing \<Rightarrow>
           if stack = [] then Inl (GateErrorFor ''unmatched Lean namespace end in '' pos)
           else (case closing of
             Some label \<Rightarrow>
               let parts = split_all 46 label; rest = length stack - length parts in
               if length parts \<le> length stack \<and> drop rest stack = parts then Inr (st\<lparr>ls_stack := take rest stack\<rparr>)
               else Inl (GateErrorFor ''Lean namespace end mismatch in '' (pos @ [58, 32] @ label))
           | None \<Rightarrow> Inr (st\<lparr>ls_stack := butlast stack\<rparr>))
       | None \<Rightarrow> (case theorem_line uni line of
           Some name \<Rightarrow> Inr (st\<lparr>ls_decls := ls_decls st @ [(join_with [46] (stack @ [name]), line_number)]\<rparr>)
         | None \<Rightarrow> Inr st)))"

definition lean_fully_qualified_theorems :: "(nat \<Rightarrow> bool) \<Rightarrow> lean_file \<Rightarrow> (pystr \<times> nat) list result" where
  "lean_fully_qualified_theorems uni f = (case f of (path, text) \<Rightarrow>
     bindE text (\<lambda>source. bindE (lean_code_only path source) (\<lambda>code.
     bindE (foldE (scan_line uni path) \<lparr>ls_stack = [], ls_decls = []\<rparr> (enumerate 1 (splitlines code))) (\<lambda>st.
       if ls_stack st \<noteq> [] then Inl (GateErrorFor ''unclosed Lean namespace in '' (path @ [58, 32] @ join_with [46] (ls_stack st)))
       else Inr (ls_decls st)))))"

section \<open>The tokens of a source\<close>

text \<open>
  What the scanner promises, as a grammar: a source is a sequence of code characters, line comments,
  nested block comments and strings; \<open>lean_tokens source out\<close> relates it to its blanked form.
\<close>

inductive comment_body :: "nat \<Rightarrow> pystr \<Rightarrow> bool" where
  closed: "comment_body 0 []"
| opens: "comment_body (Suc (Suc n)) s \<Longrightarrow> comment_body (Suc n) (47 # 45 # s)"
| closes: "comment_body n s \<Longrightarrow> comment_body (Suc n) (45 # 47 # s)"
| inside: "comment_body (Suc n) s \<Longrightarrow> \<not> starts_with (c # s) [47, 45] \<Longrightarrow> \<not> starts_with (c # s) [45, 47] \<Longrightarrow>
     comment_body (Suc n) (c # s)"

inductive string_body :: "pystr \<Rightarrow> pystr \<Rightarrow> bool" where
  quote: "string_body [34] [32]"
| escape: "string_body s t \<Longrightarrow> string_body (92 # c # s) (32 # 32 # t)"
| plain: "string_body s t \<Longrightarrow> c \<noteq> 34 \<Longrightarrow> c \<noteq> 92 \<Longrightarrow> string_body (c # s) (blank [c] @ t)"

inductive lean_tokens :: "pystr \<Rightarrow> pystr \<Rightarrow> bool" where
  finish: "lean_tokens [] []"
| line: "lean_tokens s t \<Longrightarrow> 10 \<notin> set com \<Longrightarrow> s = [] \<or> hd s = 10 \<Longrightarrow>
     lean_tokens (45 # 45 # com @ s) (replicate (length com + 2) 32 @ t)"
| comment: "lean_tokens s t \<Longrightarrow> comment_body 1 com \<Longrightarrow> lean_tokens (47 # 45 # com @ s) (32 # 32 # blank com @ t)"
| literal: "lean_tokens s t \<Longrightarrow> string_body str u \<Longrightarrow> lean_tokens (34 # str @ s) (32 # u @ t)"
| code: "lean_tokens s t \<Longrightarrow> c \<noteq> 34 \<Longrightarrow> \<not> starts_with (c # s) [45, 45] \<Longrightarrow> \<not> starts_with (c # s) [47, 45] \<Longrightarrow>
     lean_tokens (c # s) (c # t)"

lemma blank_simps [simp]: "blank [] = []" "blank (c # s) = (if c = 10 then 10 else 32) # blank s"
    "blank (s @ t) = blank s @ blank t" "length (blank s) = length s"
  by (simp_all add: blank_def)

lemma emit_eq [simp]: "emit p r = (out, d, b) \<longleftrightarrow> (\<exists>o'. r = (o', d, b) \<and> out = p @ o')"
  by (cases r) (auto simp: emit_def)

lemma starts1 [simp]: "starts_with s [b] \<longleftrightarrow> (\<exists>s'. s = b # s')"
  by (cases s) auto

lemma starts2 [simp]: "starts_with (c # s) [a, b] \<longleftrightarrow> c = a \<and> (\<exists>s'. s = b # s')"
  by (cases s) auto

lemma line_end: "s = [] \<or> hd s = 10 \<Longrightarrow> takeWhile (\<lambda>x. x \<noteq> 10) s = [] \<and> dropWhile (\<lambda>x. x \<noteq> 10) s = s"
  by (cases s) auto

text \<open>From the grammar to the scanner.\<close>

lemma comment_body_scanned:
  "comment_body n com \<Longrightarrow> n > 0 \<Longrightarrow> lean_code n False (com @ s) = emit (blank com) (lean_code 0 False s)"
proof (induction rule: comment_body.induct)
  case (opens n u)
  then show ?case by (cases "lean_code 0 False s") (simp add: emit_def)
next
  case (closes n u)
  then show ?case
    by (cases "lean_code 0 False s"; cases n) (auto simp: emit_def elim: comment_body.cases)
next
  case (inside n u c)
  then have "\<not> starts_with (c # u @ s) [47, 45]" "\<not> starts_with (c # u @ s) [45, 47]"
    by (cases u; auto elim: comment_body.cases)+
  with inside show ?case by (cases "lean_code 0 False s") (auto simp: emit_def)
qed simp

lemma string_body_scanned:
  "string_body str u \<Longrightarrow> lean_code 0 True (str @ s) = emit u (lean_code 0 False s)"
  by (induction rule: string_body.induct) (auto simp: emit_def)

lemma lean_tokens_scanned: "lean_tokens s t \<Longrightarrow> lean_code 0 False s = (t, 0, False)"
proof (induction rule: lean_tokens.induct)
  case (line s t com)
  have "takeWhile (\<lambda>x. x \<noteq> 10) (com @ s) = com" "dropWhile (\<lambda>x. x \<noteq> 10) (com @ s) = s"
    using line(2) line_end [OF line(3)] by (auto simp: takeWhile_append dropWhile_append)
  with line show ?case by (simp add: emit_def map_replicate_const)
next
  case (comment s t com)
  then show ?case using comment_body_scanned [of 1 com s] by (simp add: emit_def)
next
  case (literal s t str u)
  then show ?case using string_body_scanned [of str u s] by (simp add: emit_def)
next
  case (code s t c)
  then show ?case by (simp add: emit_def)
qed simp

text \<open>From the scanner to the grammar.\<close>

definition scanned :: "nat \<Rightarrow> bool \<Rightarrow> pystr \<Rightarrow> pystr \<Rightarrow> bool" where
  "scanned d b s t \<longleftrightarrow>
     (if d > 0 then (\<exists>com s' t'. s = com @ s' \<and> comment_body d com \<and> lean_tokens s' t' \<and> t = blank com @ t')
      else if b then (\<exists>str u s' t'. s = str @ s' \<and> string_body str u \<and> lean_tokens s' t' \<and> t = u @ t')
      else lean_tokens s t)"

lemma scanned_comment: "scanned (Suc d) b s t \<longleftrightarrow>
    (\<exists>com s' t'. s = com @ s' \<and> comment_body (Suc d) com \<and> lean_tokens s' t' \<and> t = blank com @ t')"
  by (simp add: scanned_def)

lemma scanned_string: "scanned 0 True s t \<longleftrightarrow>
    (\<exists>str u s' t'. s = str @ s' \<and> string_body str u \<and> lean_tokens s' t' \<and> t = u @ t')"
  by (simp add: scanned_def)

lemma scanned_code: "scanned 0 False s t \<longleftrightarrow> lean_tokens s t"
  by (simp add: scanned_def)

lemma scanned_open: "scanned (Suc (Suc d)) False s t \<Longrightarrow> scanned (Suc d) False (47 # 45 # s) (32 # 32 # t)"
  unfolding scanned_comment
  by (elim exE conjE, rule exI [of _ "47 # 45 # _"]) (auto intro: opens)

lemma scanned_close: "scanned d False s t \<Longrightarrow> scanned (Suc d) False (45 # 47 # s) (32 # 32 # t)"
proof (cases d)
  case 0
  assume "scanned d False s t"
  with 0 have "lean_tokens s t" by (simp add: scanned_code)
  with 0 show ?thesis unfolding scanned_comment
    by (intro exI [of _ "[45, 47]"] exI [of _ s] exI [of _ t]) (auto intro: closes closed)
next
  case (Suc n)
  assume "scanned d False s t"
  with Suc obtain com s' t' where c: "s = com @ s'" "comment_body d com" "lean_tokens s' t'" "t = blank com @ t'"
    by (auto simp: scanned_comment)
  then show ?thesis unfolding scanned_comment
    by (intro exI [of _ "45 # 47 # com"] exI [of _ s'] exI [of _ t']) (auto intro: closes)
qed

lemma scanned_inside:
  assumes "scanned (Suc d) False s t" "\<not> starts_with (c # s) [47, 45]" "\<not> starts_with (c # s) [45, 47]"
  shows "scanned (Suc d) False (c # s) (blank [c] @ t)"
proof -
  from assms(1) obtain com s' t' where c: "s = com @ s'" "comment_body (Suc d) com" "lean_tokens s' t'" "t = blank com @ t'"
    by (auto simp: scanned_comment)
  have "comment_body (Suc d) (c # com)" using assms(2,3) c by (intro inside) auto
  then show ?thesis using c unfolding scanned_comment
    by (intro exI [of _ "c # com"] exI [of _ s'] exI [of _ t']) simp
qed

lemma scanned_escape: "scanned 0 True s t \<Longrightarrow> scanned 0 True (92 # c # s) (32 # 32 # t)"
  unfolding scanned_string by (metis append_Cons escape)

lemma scanned_quote: "scanned 0 False s t \<Longrightarrow> scanned 0 True (34 # s) (32 # t)"
  unfolding scanned_string scanned_code
  by (intro exI [of _ "[34]"] exI [of _ "[32]"] exI [of _ s] exI [of _ t]) (auto intro: quote)

lemma scanned_plain: "scanned 0 True s t \<Longrightarrow> c \<noteq> 34 \<Longrightarrow> c \<noteq> 92 \<Longrightarrow> scanned 0 True (c # s) (blank [c] @ t)"
  unfolding scanned_string by (metis append_Cons append_assoc plain)

lemma scanned_line:
  assumes "scanned 0 False (dropWhile (\<lambda>x. x \<noteq> 10) s) t"
  shows "scanned 0 False (45 # 45 # s) (map (\<lambda>_. 32) (takeWhile (\<lambda>x. x \<noteq> 10) (45 # 45 # s)) @ t)"
proof -
  let ?com = "takeWhile (\<lambda>x. x \<noteq> 10) s"
  have "10 \<notin> set ?com" by (auto dest: set_takeWhileD)
  moreover have "dropWhile (\<lambda>x. x \<noteq> 10) s = [] \<or> hd (dropWhile (\<lambda>x. x \<noteq> 10) s) = 10"
    using hd_dropWhile [of "\<lambda>x. x \<noteq> 10" s] by blast
  ultimately have "lean_tokens (45 # 45 # ?com @ dropWhile (\<lambda>x. x \<noteq> 10) s) (replicate (length ?com + 2) 32 @ t)"
    using assms by (intro line) (simp_all add: scanned_code)
  then show ?thesis by (simp add: scanned_code map_replicate_const)
qed

lemma scanned_block: "scanned 1 False s t \<Longrightarrow> scanned 0 False (47 # 45 # s) (32 # 32 # t)"
  unfolding scanned_code One_nat_def scanned_comment by (auto intro: comment)

lemma scanned_literal: "scanned 0 True s t \<Longrightarrow> scanned 0 False (34 # s) (32 # t)"
  unfolding scanned_code scanned_string by (auto intro: literal)

lemma scanned_char: "scanned 0 False s t \<Longrightarrow> c \<noteq> 34 \<Longrightarrow> \<not> starts_with (c # s) [45, 45] \<Longrightarrow>
    \<not> starts_with (c # s) [47, 45] \<Longrightarrow> scanned 0 False (c # s) (c # t)"
  unfolding scanned_code by (rule code)

lemma scanned_tokens: "lean_code d b s = (t, 0, False) \<Longrightarrow> (d > 0 \<longrightarrow> \<not> b) \<Longrightarrow> scanned d b s t"
proof (induction d b s arbitrary: t rule: lean_code.induct)
  case (1 d b)
  then show ?case by (auto simp: scanned_code intro: finish)
next
  case (2 d b c s)
  show ?case
  proof (cases "d > 0")
    case True
    then obtain n where n: "d = Suc n" by (cases d) auto
    with 2 have b: "b = False" by simp
    show ?thesis
    proof (cases "starts_with (c # s) [47, 45]")
      case o: True
      then obtain s' where s: "c = 47" "s = 45 # s'" by auto
      with 2(11) n b obtain t' where "lean_code (d + 1) b (tl s) = (t', 0, False)" "t = 32 # 32 # t'" by auto
      with 2(1) [OF True o, of t'] n b s show ?thesis by (auto intro: scanned_open)
    next
      case no: False
      show ?thesis
      proof (cases "starts_with (c # s) [45, 47]")
        case o: True
        then obtain s' where s: "c = 45" "s = 47 # s'" by auto
        with 2(11) n b obtain t' where "lean_code (d - 1) b (tl s) = (t', 0, False)" "t = 32 # 32 # t'" by auto
        with 2(2) [OF True no o, of t'] n b s show ?thesis by (auto intro: scanned_close)
      next
        case no': False
        with no 2(11) n b obtain t' where "lean_code d b s = (t', 0, False)" "t = blank [c] @ t'"
          by (auto split: if_splits)
        with 2(3) [OF True no no', of t'] n b no no' show ?thesis by (auto intro!: scanned_inside simp del: blank_simps(2))
      qed
    qed
  next
    case False
    then have d: "d = 0" by simp
    show ?thesis
    proof (cases b)
      case True
      show ?thesis
      proof (cases "c = 92 \<and> s \<noteq> []")
        case o: True
        then obtain e s' where s: "s = e # s'" by (cases s) auto
        with 2(11) o d True obtain t' where "lean_code 0 True (tl s) = (t', 0, False)" "t = 32 # 32 # t'" by auto
        with 2(4) [OF False True o, of t'] d True o s show ?thesis by (auto intro: scanned_escape)
      next
        case no: False
        show ?thesis
        proof (cases "c = 34")
          case q: True
          with 2(11) d True obtain t' where "lean_code 0 False s = (t', 0, False)" "t = 32 # t'" by auto
          with 2(5) [OF False True no q, of t'] d True q show ?thesis by (auto intro: scanned_quote)
        next
          case nq: False
          with 2(11) d True no obtain t' where t: "lean_code 0 True s = (t', 0, False)" "t = blank [c] @ t'"
            by (auto split: if_splits)
          then have "c \<noteq> 92" using no by auto
          with 2(6) [OF False True no nq t(1)] d True nq t show ?thesis
            by (auto intro!: scanned_plain simp del: blank_simps(2))
        qed
      qed
    next
      case nb: False
      show ?thesis
      proof (cases "starts_with (c # s) [45, 45]")
        case o: True
        then obtain s' where s: "c = 45" "s = 45 # s'" by auto
        with 2(11) d nb obtain t' where t: "lean_code 0 False (dropWhile (\<lambda>x. x \<noteq> 10) s) = (t', 0, False)"
          "t = map (\<lambda>_. 32) (takeWhile (\<lambda>x. x \<noteq> 10) (c # s)) @ t'" by auto
        from 2(7) [OF False nb o t(1)] have "scanned 0 False (dropWhile (\<lambda>x. x \<noteq> 10) s') t'" using s by simp
        then show ?thesis using d nb s t(2) by (auto dest!: scanned_line)
      next
        case nl: False
        show ?thesis
        proof (cases "starts_with (c # s) [47, 45]")
          case o: True
          then obtain s' where s: "c = 47" "s = 45 # s'" by auto
          with 2(11) d nb obtain t' where "lean_code 1 False (tl s) = (t', 0, False)" "t = 32 # 32 # t'" by auto
          with 2(8) [OF False nb nl o, of t'] d nb s show ?thesis by (auto intro: scanned_block [simplified])
        next
          case no: False
          show ?thesis
          proof (cases "c = 34")
            case q: True
            with 2(11) d nb obtain t' where "lean_code 0 True s = (t', 0, False)" "t = 32 # t'" by auto
            with 2(9) [OF False nb nl no q, of t'] d nb q show ?thesis by (auto intro: scanned_literal)
          next
            case nq: False
            with 2(11) d nb nl no obtain t' where "lean_code 0 False s = (t', 0, False)" "t = c # t'"
              by (auto split: if_splits)
            with 2(10) [OF False nb nl no nq, of t'] d nb nl no nq show ?thesis by (auto intro!: scanned_char)
          qed
        qed
      qed
    qed
  qed
qed

lemma lean_code_only_tokens: "lean_code_only path s = Inr t \<longleftrightarrow> lean_tokens s t"
proof
  assume "lean_code_only path s = Inr t"
  then have "lean_code 0 False s = (t, 0, False)"
    by (auto simp: lean_code_only_def split: prod.splits if_splits)
  then show "lean_tokens s t" using scanned_tokens [of 0 False s t] by (simp add: scanned_code)
qed (simp add: lean_code_only_def lean_tokens_scanned)

section \<open>Laws of the blanked text\<close>

lemma comment_body_length: "comment_body n com \<Longrightarrow> n = 0 \<or> com \<noteq> []"
  by (induction rule: comment_body.induct) auto

lemma string_body_blank: "string_body s t \<Longrightarrow> length t = length s \<and> set t \<subseteq> {10, 32}"
  by (induction rule: string_body.induct) auto

lemma blanks_tokens: "set u \<subseteq> {10, 32} \<Longrightarrow> lean_tokens s t \<Longrightarrow> lean_tokens (u @ s) (u @ t)"
  by (induction u) (auto intro!: code)

lemma set_blank: "set (blank s) \<subseteq> {10, 32}"
  by (auto simp: blank_def)

text \<open>The blanked text has the length of the source; a character of it is the one of the source or a blank.\<close>

lemma lean_tokens_length: "lean_tokens s t \<Longrightarrow> length t = length s"
  by (induction rule: lean_tokens.induct) (auto dest: string_body_blank)

lemma lean_tokens_hd: "lean_tokens s t \<Longrightarrow> t = c # t' \<Longrightarrow> c \<noteq> 10 \<Longrightarrow> c \<noteq> 32 \<Longrightarrow> \<exists>s'. s = c # s'"
  by (induction rule: lean_tokens.induct) auto

lemma lean_tokens_idem: "lean_tokens s t \<Longrightarrow> lean_tokens t t"
proof (induction rule: lean_tokens.induct)
  case (line s t com)
  have "set (replicate (length com + 2) (32 :: nat)) \<subseteq> {10, 32}" by (auto simp: set_replicate_conv_if)
  from blanks_tokens [OF this line(4)] show ?case .
next
  case (comment s t com)
  have "set (32 # 32 # blank com) \<subseteq> {10, 32}" using set_blank by auto
  from blanks_tokens [OF this comment(3)] show ?case by simp
next
  case (literal s t str u)
  have "set (32 # u) \<subseteq> {10, 32}" using string_body_blank [OF literal(2)] by auto
  from blanks_tokens [OF this literal(3)] show ?case by simp
next
  case (code s t c)
  have "\<not> starts_with (c # t) [45, 45]" "\<not> starts_with (c # t) [47, 45]"
    using code(3,4) lean_tokens_hd [OF code(1)] by auto
  with code show ?case by (intro lean_tokens.code)
qed (rule finish)

section \<open>Laws of the word search\<close>

definition word_at :: "(nat \<Rightarrow> bool) \<Rightarrow> pystr \<Rightarrow> string \<Rightarrow> pystr \<Rightarrow> bool" where
  "word_at uni a w b \<longleftrightarrow> (a = [] \<or> \<not> word_char uni (last a)) \<and> word_end uni b"

definition has_word :: "(nat \<Rightarrow> bool) \<Rightarrow> string \<Rightarrow> pystr \<Rightarrow> bool" where
  "has_word uni w s \<longleftrightarrow> (\<exists>a b. s = a @ lit w @ b \<and> word_at uni a w b)"

lemma word_starts_Nil:
  "[] \<notin> set ws \<Longrightarrow> word_starts uni ws prev i s = [] \<longleftrightarrow>
     (\<forall>a w b. s = a @ lit w @ b \<longrightarrow> w \<in> set ws \<longrightarrow> (if a = [] then prev else word_char uni (last a)) \<or> \<not> word_end uni b)"
proof (induction s arbitrary: prev i)
  case Nil
  then show ?case by auto
next
  case (Cons c s)
  let ?P = "\<lambda>prev s. \<forall>a w b. s = a @ lit w @ b \<longrightarrow> w \<in> set ws \<longrightarrow>
    (if a = [] then prev else word_char uni (last a)) \<or> \<not> word_end uni b"
  have "?P prev (c # s) \<longleftrightarrow>
    (\<forall>w b. c # s = lit w @ b \<longrightarrow> w \<in> set ws \<longrightarrow> prev \<or> \<not> word_end uni b) \<and> ?P (word_char uni c) s"
    (is "_ \<longleftrightarrow> ?here \<and> ?later")
  proof
    assume P: "?P prev (c # s)"
    have ?here using P by (metis append_Nil)
    moreover have ?later
    proof (intro allI impI)
      fix a w b assume "s = a @ lit w @ b" "w \<in> set ws"
      with P [THEN spec, of "c # a", THEN spec, of w, THEN spec, of b]
      show "(if a = [] then word_char uni c else word_char uni (last a)) \<or> \<not> word_end uni b" by auto
    qed
    ultimately show "?here \<and> ?later" ..
  next
    assume P: "?here \<and> ?later"
    show "?P prev (c # s)"
    proof (intro allI impI)
      fix a w b assume s: "c # s = a @ lit w @ b" "w \<in> set ws"
      show "(if a = [] then prev else word_char uni (last a)) \<or> \<not> word_end uni b"
      proof (cases a)
        case Nil
        with P s show ?thesis by simp
      next
        case (Cons x a')
        with s have "s = a' @ lit w @ b" "x = c" by auto
        with P s(2) have "(if a' = [] then word_char uni c else word_char uni (last a')) \<or> \<not> word_end uni b" by blast
        with Cons \<open>x = c\<close> show ?thesis by (cases "a' = []") auto
      qed
    qed
  qed
  moreover have "?here \<longleftrightarrow> prev \<or> \<not> list_ex (\<lambda>w. starts_with (c # s) (lit w) \<and> word_end uni (drop (length w) (c # s))) ws"
    by (auto simp: list_ex_iff starts_with_iff)
  ultimately show ?case using Cons by auto
qed

corollary no_words:
  "[] \<notin> set ws \<Longrightarrow> word_starts uni ws False i s = [] \<longleftrightarrow> (\<forall>w \<in> set ws. \<not> has_word uni w s)"
proof -
  assume "[] \<notin> set ws"
  have "((if a = [] then False else word_char uni (last a)) \<or> \<not> word_end uni b) \<longleftrightarrow> \<not> word_at uni a w b" for a w b
    by (auto simp: word_at_def)
  then show ?thesis unfolding word_starts_Nil [OF \<open>[] \<notin> set ws\<close>] has_word_def by blast
qed

section \<open>Laws of the captures\<close>

definition is_blank :: "nat \<Rightarrow> bool" where "is_blank c \<longleftrightarrow> c = 9 \<or> c = 32"

lemma in_blank_cls: "in_cls c [(9, 9), (32, 32)] \<longleftrightarrow> is_blank c"
  by (auto simp: in_cls_def is_blank_def)

lemma BLANKS_lang: "s \<in> rx_lang BLANKS \<longleftrightarrow> (\<forall>c \<in> set s. is_blank c)"
  unfolding BLANKS_def BLANK_def Star_Cls_lang in_blank_cls ..

lemma keyword_rx_lang:
  "rx_match (keyword_rx w) s \<longleftrightarrow>
     (\<exists>a b. s = a @ lit w @ b \<and> b \<noteq> [] \<and> (\<forall>c \<in> set a. is_blank c) \<and> (\<forall>c \<in> set b. is_blank c))" (is "_ \<longleftrightarrow> ?r")
proof
  assume "rx_match (keyword_rx w) s"
  then obtain a x b where "s = a @ lit w @ [x] @ b" "a \<in> rx_lang BLANKS" "is_blank x" "b \<in> rx_lang BLANKS"
    by (auto simp: rx_match_iff keyword_rx_def BLANK_def in_blank_cls)
  then show ?r by (intro exI [of _ a] exI [of _ "x # b"]) (simp add: BLANKS_lang)
next
  assume ?r
  then obtain a x b where "s = a @ lit w @ [x] @ b" "a \<in> rx_lang BLANKS" "is_blank x" "b \<in> rx_lang BLANKS"
    by (auto simp: BLANKS_lang neq_Nil_conv)
  then show "rx_match (keyword_rx w) s"
    unfolding rx_match_iff keyword_rx_def rx_lang.simps(4) rlit_lang BLANK_def rx_lang.simps(3) in_blank_cls mem_Collect_eq
    by (intro exI [of _ a] exI [of _ "lit w @ [x] @ b"] exI [of _ "lit w"] exI [of _ "[x] @ b"] exI [of _ "[x]"] exI [of _ b] exI [of _ x] conjI)
      auto
qed

lemma set_splits [simp]: "(a, b) \<in> set (splits s) \<longleftrightarrow> s = a @ b"
proof (induction s arbitrary: a)
  case (Cons c s)
  have "(a, b) \<in> set (splits (c # s)) \<longleftrightarrow> (a = [] \<and> b = c # s) \<or> (\<exists>a'. a = c # a' \<and> (a', b) \<in> set (splits s))"
    by force
  also have "\<dots> \<longleftrightarrow> c # s = a @ b" by (cases a) (auto simp: Cons.IH)
  finally show ?case .
qed auto

lemma set_captures:
  "g \<in> set (captures p grp rest s) \<longleftrightarrow> (\<exists>u r. s = u @ g @ r \<and> rx_match p u \<and> rx_match grp g \<and> rest r)"
  by (auto simp: captures_def image_iff split: if_splits) (metis set_splits)+

lemma first_of_Some: "first_of xs = Some x \<Longrightarrow> x \<in> set xs"
  by (cases xs) (auto simp: first_of_def)

text \<open>The group is what stands between the blanks after the keyword and the first character outside its alphabet.\<close>

lemma keyword_captures:
  assumes "g \<in> set (captures (keyword_rx w) grp rest s)"
    and "\<And>g. rx_match grp g \<Longrightarrow> g \<noteq> [] \<and> (\<forall>c \<in> set g. Q c)" and "\<And>c. Q c \<Longrightarrow> \<not> is_blank c"
    and "\<And>r. rest r \<Longrightarrow> r = [] \<or> \<not> Q (hd r)" and "w \<noteq> []" "\<not> is_blank (hd (lit w))"
  shows "g = takeWhile Q (dropWhile is_blank (drop (length w) (dropWhile is_blank s)))"
proof -
  from assms(1) obtain a b r where s: "s = a @ lit w @ b @ g @ r" "\<forall>c \<in> set a. is_blank c" "\<forall>c \<in> set b. is_blank c"
    "rx_match grp g" "rest r"
    by (auto simp: set_captures keyword_rx_lang)
  obtain k ks where w: "lit w = k # ks" using assms(5) by (cases w) (auto simp: lit_Cons)
  obtain c cs where g: "g = c # cs" "Q c" using assms(2) [OF s(4)] by (cases g) auto
  have "dropWhile is_blank s = lit w @ b @ g @ r"
    using s(1,2) w assms(6) by (simp add: dropWhile_append3 dropWhile_append)
  moreover have "dropWhile is_blank (b @ g @ r) = g @ r"
    using s(3) g assms(3) [OF g(2)] by (simp add: dropWhile_append)
  moreover have "takeWhile Q (g @ r) = g"
    using assms(2) [OF s(4)] assms(4) [OF s(5)] by (cases r) (auto simp: takeWhile_append)
  ultimately show ?thesis by simp
qed

end
