(* ===== verification/Schema_Gate.thy ===== *)
theory Schema_Gate
  imports Canonical Lean_Scan
begin

text \<open>
  The two JSON Schema validators: \<open>validate_schema_instance\<close> of \<open>tools/validate_phase10_gate_base.py\<close> and
  of \<open>tools/validate_empirical_assurance_core.py\<close>, with the equality they use. \<open>re_search\<close> is \<open>re.search\<close>
  with a pattern of the schema, None where the pattern does not compile; \<open>float_text\<close> is the text of a
  float. Sets are iterated in the order of the dictionary they come from: Python leaves the order open, it
  decides only which of several failing members is reported. The messages leave out the sorted lists of
  unknown keywords and forbidden members.
\<close>

section \<open>Equality of JSON values\<close>

text \<open>\<open>json.dumps(value, sort_keys=True, separators=(",", ":"), ensure_ascii=False)\<close>\<close>

fun sorted_dumps :: "(pyfloat \<Rightarrow> pystr) \<Rightarrow> pyval \<Rightarrow> pystr" where
  "sorted_dumps float_text PNone = lit ''null''"
| "sorted_dumps float_text (PBool b) = (if b then lit ''true'' else lit ''false'')"
| "sorted_dumps float_text (PInt i) = show_int i"
| "sorted_dumps float_text (PFloat f) = float_text f"
| "sorted_dumps float_text (PStr s) = quoted s"
| "sorted_dumps float_text (PList vs) = [91] @ join_with [44] (map (sorted_dumps float_text) vs) @ [93]"
| "sorted_dumps float_text (PDict d) =
     [123] @ join_with [44] (map (\<lambda>(k, t). quoted k @ [58] @ t)
       (sort_key fst (map (\<lambda>kv. (fst kv, sorted_dumps float_text (snd kv))) d))) @ [125]"
| "sorted_dumps float_text (PPairs d) =
     [91] @ join_with [44] (map (\<lambda>kv. [91] @ quoted (fst kv) @ [44] @ sorted_dumps float_text (snd kv) @ [93]) d) @ [93]"

definition json_equal :: "(pyfloat \<Rightarrow> pystr) \<Rightarrow> pyval \<Rightarrow> pyval \<Rightarrow> bool" where
  "json_equal float_text l r \<longleftrightarrow> sorted_dumps float_text l = sorted_dumps float_text r"

section \<open>Keywords that do not descend\<close>

definition SUPPORTED_SCHEMA_KEYWORDS :: "string list" where
  "SUPPORTED_SCHEMA_KEYWORDS = [''$schema'', ''$id'', ''title'', ''type'', ''additionalProperties'', ''required'', ''properties'',
    ''const'', ''enum'', ''minLength'', ''maxLength'', ''pattern'', ''minItems'', ''maxItems'', ''items'']"

definition requireG :: "bool \<Rightarrow> string \<Rightarrow> pystr \<Rightarrow> unit result" where
  "requireG ok code path = guardE ok (GateErrorFor code path)"

definition dget_or :: "pydict \<Rightarrow> string \<Rightarrow> pyval \<Rightarrow> pyval" where
  "dget_or d k dflt = (case lookup d (lit k) of None \<Rightarrow> dflt | Some v \<Rightarrow> v)"

fun is_float :: "pyval \<Rightarrow> bool" where
  "is_float (PFloat f) = True" | "is_float _ = False"

definition strict_int :: "pyval \<Rightarrow> bool" where "strict_int v \<longleftrightarrow> is_int v \<and> \<not> is_bool v"

definition core_type_matches :: "pyval \<Rightarrow> pystr \<Rightarrow> bool result" where
  "core_type_matches v type_name =
     (if type_name = lit ''object'' then Inr (is_dict v)
      else if type_name = lit ''array'' then Inr (is_list v)
      else if type_name = lit ''string'' then Inr (is_str v)
      else if type_name = lit ''integer'' then Inr (strict_int v)
      else if type_name = lit ''boolean'' then Inr (is_bool v)
      else if type_name = lit ''null'' then Inr (v = PNone)
      else Inl (GateErrorFor ''unsupported JSON Schema type: '' type_name))"

definition base_type_matches :: "pyval \<Rightarrow> pystr \<Rightarrow> bool result" where
  "base_type_matches v type_name =
     (if type_name = lit ''object'' then Inr (is_dict v)
      else if type_name = lit ''array'' then Inr (is_list v)
      else if type_name = lit ''string'' then Inr (is_str v)
      else if type_name = lit ''integer'' then Inr (strict_int v)
      else if type_name = lit ''number'' then Inr ((is_int v \<or> is_float v) \<and> \<not> is_bool v)
      else if type_name = lit ''boolean'' then Inr (is_bool v)
      else if type_name = lit ''null'' then Inr (v = PNone)
      else Inl (GateErrorFor ''unsupported JSON Schema type: '' type_name))"

definition check_values ::
  "(pyval \<Rightarrow> pystr \<Rightarrow> bool result) \<Rightarrow> string \<Rightarrow> (pyfloat \<Rightarrow> pystr) \<Rightarrow> pyval \<Rightarrow> pydict \<Rightarrow> pystr \<Rightarrow> unit result" where
  "check_values type_matches unknown_code float_text v schema path =
     bindE (requireG (set (map fst schema) \<subseteq> set (map lit SUPPORTED_SCHEMA_KEYWORDS)) unknown_code path) (\<lambda>_.
     bindE (case lookup schema (lit ''const'') of None \<Rightarrow> Inr ()
       | Some c \<Rightarrow> requireG (json_equal float_text v c) ''schema const mismatch at '' path) (\<lambda>_.
     bindE (case lookup schema (lit ''enum'') of None \<Rightarrow> Inr ()
       | Some e \<Rightarrow> bindE (requireG (is_list e \<and> items_of e \<noteq> []) ''schema enum invalid at '' path) (\<lambda>_.
           requireG (list_ex (json_equal float_text v) (items_of e)) ''schema enum mismatch at '' path)) (\<lambda>_.
     let type_name = dget schema ''type'' in
     if type_name = PNone then Inr ()
     else bindE (requireG (is_str type_name) ''schema type invalid at '' path) (\<lambda>_.
       bindE (type_matches v (str_of type_name)) (\<lambda>ok.
       requireG ok ''schema type mismatch at '' (path @ lit '': expected '' @ str_of type_name))))))"

text \<open>A bound on a length: \<open>isinstance(bound, int)\<close> holds of a bool too.\<close>

definition check_bound :: "pydict \<Rightarrow> string \<Rightarrow> (int \<Rightarrow> bool) \<Rightarrow> string \<Rightarrow> pystr \<Rightarrow> unit result" where
  "check_bound schema key within_bound code path =
     (let bound = dget schema key in
      if bound = PNone then Inr ()
      else requireG (is_int bound \<and> int_of bound \<ge> 0 \<and> within_bound (int_of bound)) code path)"

definition check_length :: "pydict \<Rightarrow> string \<Rightarrow> string \<Rightarrow> string \<Rightarrow> string \<Rightarrow> nat \<Rightarrow> pystr \<Rightarrow> unit result" where
  "check_length schema minimum maximum min_code max_code n path =
     bindE (check_bound schema minimum (\<lambda>b. b \<le> int n) min_code path) (\<lambda>_.
       check_bound schema maximum (\<lambda>b. int n \<le> b) max_code path)"

type_synonym re_search = "pystr \<Rightarrow> pystr \<Rightarrow> bool option"

text \<open>The string keywords; the base gate turns \<open>re.error\<close> into its own error, the core gate lets it pass.\<close>

definition check_string :: "re_search \<Rightarrow> (pystr \<Rightarrow> exn) \<Rightarrow> string \<Rightarrow> pydict \<Rightarrow> pystr \<Rightarrow> pystr \<Rightarrow> unit result" where
  "check_string re_search re_error tag schema s path =
     bindE (check_length schema ''minLength'' ''maxLength'' (tag @ ''minLength mismatch at '') (tag @ ''maxLength mismatch at '') (length s) path) (\<lambda>_.
     let pattern = dget schema ''pattern'' in
     if pattern = PNone then Inr ()
     else bindE (requireG (is_str pattern) ''schema pattern invalid at '' path) (\<lambda>_.
       case re_search (str_of pattern) s of
         None \<Rightarrow> Inl (re_error path)
       | Some matched \<Rightarrow> requireG matched ''schema pattern mismatch at '' path))"

section \<open>The object keywords\<close>

text \<open>\<open>for key in required: require(key in value, ...)\<close>\<close>

definition check_required :: "string \<Rightarrow> pydict \<Rightarrow> pyval list \<Rightarrow> pystr \<Rightarrow> unit result" where
  "check_required code d required path =
     eachE (\<lambda>key. requireG (lookup d (str_of key) \<noteq> None) code (path @ [46] @ str_of key)) required"

text \<open>The keywords \<open>properties\<close> and \<open>additionalProperties\<close> after their checks.\<close>

definition base_object :: "pydict \<Rightarrow> pydict \<Rightarrow> pystr \<Rightarrow> (pydict \<times> pyval) result" where
  "base_object schema d path =
     (let required = dget_or schema ''required'' (PList []); properties = dget_or schema ''properties'' (PDict []);
          additional = dget_or schema ''additionalProperties'' (PBool True) in
      bindE (requireG (is_list required \<and> list_all is_str (items_of required)) ''schema required invalid at '' path) (\<lambda>_.
      bindE (requireG (distinct_vals (items_of required)) ''schema required duplicates at '' path) (\<lambda>_.
      bindE (check_required ''schema required property missing at '' d (items_of required) path) (\<lambda>_.
      bindE (requireG (is_dict properties) ''schema properties invalid at '' path) (\<lambda>_.
      bindE (requireG (is_bool additional \<or> is_dict additional) ''schema additionalProperties invalid at '' path) (\<lambda>_.
      Inr (dict_of properties, additional)))))))"

definition core_object :: "pydict \<Rightarrow> pydict \<Rightarrow> pystr \<Rightarrow> (pydict \<times> pyval) result" where
  "core_object schema d path =
     (let required = dget_or schema ''required'' (PList []); properties = dget_or schema ''properties'' (PDict []);
          additional = dget_or schema ''additionalProperties'' (PBool True) in
      bindE (if is_list required then has_duplicates (items_of required) else Inr True) (\<lambda>bad.
      bindE (requireG (\<not> bad) ''schema required invalid at '' path) (\<lambda>_.
      bindE (requireG (list_all is_str (items_of required)) ''schema required key invalid at '' path) (\<lambda>_.
      bindE (requireG (is_dict properties) ''schema properties invalid at '' path) (\<lambda>_.
      bindE (requireG (is_bool additional \<or> is_dict additional) ''schema additionalProperties invalid at '' path) (\<lambda>_.
      bindE (check_required ''required property missing at '' d (items_of required) path) (\<lambda>_.
      Inr (dict_of properties, additional))))))))"

text \<open>\<open>set(value) - set(properties)\<close>\<close>

definition extras :: "pydict \<Rightarrow> pydict \<Rightarrow> pystr list" where
  "extras d properties = filter (\<lambda>k. lookup properties k = None) (map fst d)"

definition item_path :: "pystr \<Rightarrow> nat \<Rightarrow> pystr" where
  "item_path path index = path @ [91] @ show_nat index @ [93]"

section \<open>The validators\<close>

text \<open>
  \<open>validate_schema_instance\<close>. The two functions differ in the types they know, in the order of the checks
  of an object, in what an invalid pattern raises and in their messages; the record holds these parts.
\<close>

record schema_gate =
  sg_types :: "pyval \<Rightarrow> pystr \<Rightarrow> bool result"
  sg_object :: "pydict \<Rightarrow> pydict \<Rightarrow> pystr \<Rightarrow> (pydict \<times> pyval) result"
  sg_re_error :: "pystr \<Rightarrow> exn"
  sg_tag :: string
  sg_no_object :: "pystr \<Rightarrow> exn"
  sg_unknown :: string

lemma lookup_size: "lookup d k = Some v \<Longrightarrow> size v < Suc (size_list (size_prod (\<lambda>x. 0) size) d)"
  by (induction d) (auto split: if_splits)

lemma enumerate_size: "(i, x) \<in> set (enumerate n xs) \<Longrightarrow> size x < Suc (size_list size xs)"
  by (induction xs arbitrary: n) (auto, fastforce)

function validate_schema ::
  "(pyfloat \<Rightarrow> pystr) \<Rightarrow> re_search \<Rightarrow> schema_gate \<Rightarrow> pyval \<Rightarrow> pyval \<Rightarrow> pystr \<Rightarrow> unit result" where
  "validate_schema float_text re_search G v s path = (case s of
     PDict schema \<Rightarrow>
       bindE (check_values (sg_types G) (sg_unknown G) float_text v schema path) (\<lambda>_. case v of
         PDict d \<Rightarrow>
           bindE (sg_object G schema d path) (\<lambda>(properties, additional).
           bindE (case additional of
               PBool b \<Rightarrow> requireG (b \<or> extras d properties = []) (sg_tag G @ ''additional properties forbidden at '') path
             | _ \<Rightarrow> eachE (\<lambda>key. case lookup d key of None \<Rightarrow> Inr ()
                 | Some x \<Rightarrow> validate_schema float_text re_search G x additional (path @ [46] @ key)) (extras d properties)) (\<lambda>_.
           eachE (\<lambda>(key, child). case lookup d key of None \<Rightarrow> Inr ()
             | Some x \<Rightarrow> validate_schema float_text re_search G x child (path @ [46] @ key)) properties))
       | PList xs \<Rightarrow>
           bindE (check_length schema ''minItems'' ''maxItems'' (sg_tag G @ ''minItems mismatch at '') (sg_tag G @ ''maxItems mismatch at '') (length xs) path) (\<lambda>_.
           let items = dget schema ''items'' in
           if items = PNone then Inr ()
           else bindE (requireG (is_dict items) ''schema items invalid at '' path) (\<lambda>_.
             eachE (\<lambda>(index, x). validate_schema float_text re_search G x items (item_path path index)) (enumerate 0 xs)))
       | PStr t \<Rightarrow> check_string re_search (sg_re_error G) (sg_tag G) schema t path
       | _ \<Rightarrow> Inr ())
   | _ \<Rightarrow> Inl (sg_no_object G path))"
  by pat_completeness auto
termination
  by (relation "measure (\<lambda>(_, _, _, v, _, _). size v)") (auto dest!: lookup_size enumerate_size)

declare validate_schema.simps [simp del]

definition base_gate :: schema_gate where
  "base_gate = \<lparr>sg_types = base_type_matches, sg_object = base_object,
     sg_re_error = (\<lambda>path. GateErrorFor ''invalid schema regex at '' path), sg_tag = ''schema '',
     sg_no_object = (\<lambda>path. GateErrorFor ''schema node at '' (path @ lit '' is not an object'')),
     sg_unknown = ''unsupported JSON Schema keyword(s) at ''\<rparr>"

definition core_gate :: schema_gate where
  "core_gate = \<lparr>sg_types = core_type_matches, sg_object = core_object,
     sg_re_error = (\<lambda>path. ReError), sg_tag = [], sg_no_object = (\<lambda>path. GateErrorFor ''schema node is not an object at '' path),
     sg_unknown = ''unsupported schema keyword(s) at ''\<rparr>"

section \<open>What a schema means\<close>

definition json_type :: "bool \<Rightarrow> pyval \<Rightarrow> pystr \<Rightarrow> bool" where
  "json_type numbers v t \<longleftrightarrow>
     (t = lit ''object'' \<and> is_dict v) \<or> (t = lit ''array'' \<and> is_list v) \<or> (t = lit ''string'' \<and> is_str v) \<or>
     (t = lit ''integer'' \<and> strict_int v) \<or> (numbers \<and> t = lit ''number'' \<and> (strict_int v \<or> is_float v)) \<or>
     (t = lit ''boolean'' \<and> is_bool v) \<or> (t = lit ''null'' \<and> v = PNone)"

definition bound_ok :: "pydict \<Rightarrow> string \<Rightarrow> (int \<Rightarrow> bool) \<Rightarrow> bool" where
  "bound_ok schema key P \<longleftrightarrow> (let b = dget schema key in b = PNone \<or> is_int b \<and> 0 \<le> int_of b \<and> P (int_of b))"

definition length_ok :: "pydict \<Rightarrow> string \<Rightarrow> string \<Rightarrow> nat \<Rightarrow> bool" where
  "length_ok schema minimum maximum n \<longleftrightarrow>
     bound_ok schema minimum (\<lambda>b. b \<le> int n) \<and> bound_ok schema maximum (\<lambda>b. int n \<le> b)"

definition properties_of :: "pydict \<Rightarrow> pydict" where
  "properties_of schema = dict_of (dget_or schema ''properties'' (PDict []))"

definition additional_of :: "pydict \<Rightarrow> pyval" where
  "additional_of schema = dget_or schema ''additionalProperties'' (PBool True)"

text \<open>The keywords of an object are well formed and the required members are there.\<close>

definition object_ok :: "pydict \<Rightarrow> pydict \<Rightarrow> bool" where
  "object_ok schema d \<longleftrightarrow>
     (let required = dget_or schema ''required'' (PList []) in
      is_list required \<and> list_all is_str (items_of required) \<and> distinct (items_of required) \<and>
      (\<forall>r \<in> set (items_of required). str_of r \<in> fst ` set d)) \<and>
     is_dict (dget_or schema ''properties'' (PDict [])) \<and> (is_bool (additional_of schema) \<or> is_dict (additional_of schema))"

text \<open>
  Conformance, one premise for each keyword; no order of evaluation, no path. \<open>numbers\<close> tells whether
  \<open>number\<close> is a type.
\<close>

inductive conforms :: "(pyfloat \<Rightarrow> pystr) \<Rightarrow> re_search \<Rightarrow> bool \<Rightarrow> pyval \<Rightarrow> pyval \<Rightarrow> bool"
  for float_text :: "pyfloat \<Rightarrow> pystr" and re_search :: re_search and numbers :: bool where
  conforms:
  "\<lbrakk> set (map fst schema) \<subseteq> set (map lit SUPPORTED_SCHEMA_KEYWORDS);
     \<forall>c. lookup schema (lit ''const'') = Some c \<longrightarrow> json_equal float_text v c;
     \<forall>e. lookup schema (lit ''enum'') = Some e \<longrightarrow> is_list e \<and> (\<exists>x \<in> set (items_of e). json_equal float_text v x);
     dget schema ''type'' = PNone \<or> is_str (dget schema ''type'') \<and> json_type numbers v (str_of (dget schema ''type''));
     \<forall>d. v = PDict d \<longrightarrow> object_ok schema d;
     \<forall>d. v = PDict d \<longrightarrow> additional_of schema = PBool False \<longrightarrow> fst ` set d \<subseteq> fst ` set (properties_of schema);
     \<forall>d k x. v = PDict d \<longrightarrow> is_dict (additional_of schema) \<longrightarrow> lookup d k = Some x \<longrightarrow> k \<notin> fst ` set (properties_of schema) \<longrightarrow>
       conforms float_text re_search numbers x (additional_of schema);
     \<forall>d k x child. v = PDict d \<longrightarrow> lookup d k = Some x \<longrightarrow> (k, child) \<in> set (properties_of schema) \<longrightarrow>
       conforms float_text re_search numbers x child;
     \<forall>xs. v = PList xs \<longrightarrow> length_ok schema ''minItems'' ''maxItems'' (length xs);
     \<forall>xs. v = PList xs \<longrightarrow> dget schema ''items'' = PNone \<or> is_dict (dget schema ''items'');
     \<forall>xs x. v = PList xs \<longrightarrow> dget schema ''items'' \<noteq> PNone \<longrightarrow> x \<in> set xs \<longrightarrow>
       conforms float_text re_search numbers x (dget schema ''items'');
     \<forall>t. v = PStr t \<longrightarrow> length_ok schema ''minLength'' ''maxLength'' (length t);
     \<forall>t. v = PStr t \<longrightarrow> dget schema ''pattern'' = PNone \<or>
       is_str (dget schema ''pattern'') \<and> re_search (str_of (dget schema ''pattern'')) t = Some True \<rbrakk> \<Longrightarrow>
   conforms float_text re_search numbers v (PDict schema)"

inductive_simps conforms_dict: "conforms float_text re_search numbers v (PDict schema)"
inductive_cases conforms_is_dict: "conforms float_text re_search numbers v s"

lemma requireG_Inr [simp, exn_simps]: "requireG ok code p = Inr u \<longleftrightarrow> ok"
  by (simp add: requireG_def)

lemma requireG_bind [simp]: "bindE (requireG ok code p) f = (if ok then f () else Inl (GateErrorFor code p))"
  by (simp add: requireG_def)

lemma check_bound_Inr: "check_bound schema key P code p = Inr () \<longleftrightarrow> bound_ok schema key P"
  by (simp add: check_bound_def bound_ok_def Let_def)

lemma check_length_Inr: "check_length schema mi ma c c' n p = Inr () \<longleftrightarrow> length_ok schema mi ma n"
  by (simp add: check_length_def length_ok_def bindE_eq_Inr check_bound_Inr)

lemma check_string_Inr:
  "check_string re_search err tag schema t p = Inr () \<longleftrightarrow> length_ok schema ''minLength'' ''maxLength'' (length t) \<and>
     (dget schema ''pattern'' = PNone \<or> is_str (dget schema ''pattern'') \<and> re_search (str_of (dget schema ''pattern'')) t = Some True)"
  by (auto simp: check_string_def bindE_eq_Inr check_length_Inr Let_def split: option.splits)

lemma check_values_Inr:
  assumes "\<And>v t. types v t = Inr True \<longleftrightarrow> json_type numbers v t"
  shows "check_values types unknown_code float_text v schema p = Inr () \<longleftrightarrow>
    set (map fst schema) \<subseteq> set (map lit SUPPORTED_SCHEMA_KEYWORDS) \<and>
    (\<forall>c. lookup schema (lit ''const'') = Some c \<longrightarrow> json_equal float_text v c) \<and>
    (\<forall>e. lookup schema (lit ''enum'') = Some e \<longrightarrow> is_list e \<and> (\<exists>x \<in> set (items_of e). json_equal float_text v x)) \<and>
    (dget schema ''type'' = PNone \<or> is_str (dget schema ''type'') \<and> json_type numbers v (str_of (dget schema ''type'')))"
  using assms
  by (auto simp: check_values_def bindE_eq_Inr Let_def list_ex_iff requireG_def split: option.splits)

lemma base_type_matches_Inr: "base_type_matches v t = Inr True \<longleftrightarrow> json_type True v t"
  by (auto simp: base_type_matches_def json_type_def strict_int_def) (cases v, auto)+

lemma core_type_matches_Inr: "core_type_matches v t = Inr True \<longleftrightarrow> json_type False v t"
  by (auto simp: core_type_matches_def json_type_def)

lemma lookup_fst: "lookup d k \<noteq> None \<longleftrightarrow> k \<in> fst ` set d"
  by (auto simp: lookup_None_iff)

lemma check_required_Inr: "check_required code d ks p = Inr u \<longleftrightarrow> (\<forall>r \<in> set ks. str_of r \<in> fst ` set d)"
  unfolding check_required_def eachE_eq_Inr requireG_Inr lookup_fst ..

lemma base_object_Inr: "base_object schema d p = Inr r \<longleftrightarrow> object_ok schema d \<and> r = (properties_of schema, additional_of schema)"
  using distinct_vals_strings
  by (auto simp: base_object_def object_ok_def bindE_eq_Inr Let_def check_required_Inr properties_of_def additional_of_def)

lemma core_object_Inr: "core_object schema d p = Inr r \<longleftrightarrow> object_ok schema d \<and> r = (properties_of schema, additional_of schema)"
  using distinct_vals_strings is_str_hashable
  by (auto simp: core_object_def object_ok_def bindE_eq_Inr Let_def check_required_Inr properties_of_def additional_of_def has_duplicates_def
      list_all_iff)

section \<open>The validators decide conformance\<close>

locale schema_validator =
  fixes G :: schema_gate and numbers :: bool
  assumes types: "sg_types G v t = Inr True \<longleftrightarrow> json_type numbers v t"
    and object: "sg_object G schema d p = Inr r \<longleftrightarrow> object_ok schema d \<and> r = (properties_of schema, additional_of schema)"
begin

lemma extras_step:
  assumes "object_ok schema d" and IH: "\<And>k x s p. lookup d k = Some x \<Longrightarrow> validate_schema float_text re_search G x s p = Inr () \<longleftrightarrow> conforms float_text re_search numbers x s"
  shows "(case additional_of schema of
      PBool b \<Rightarrow> requireG (b \<or> extras d (properties_of schema) = []) code path
    | _ \<Rightarrow> eachE (\<lambda>key. case lookup d key of None \<Rightarrow> Inr ()
        | Some x \<Rightarrow> validate_schema float_text re_search G x (additional_of schema) (path @ [46] @ key)) (extras d (properties_of schema))) = Inr () \<longleftrightarrow>
    (additional_of schema = PBool False \<longrightarrow> fst ` set d \<subseteq> fst ` set (properties_of schema)) \<and>
    (\<forall>k x. is_dict (additional_of schema) \<longrightarrow> lookup d k = Some x \<longrightarrow> k \<notin> fst ` set (properties_of schema) \<longrightarrow>
       conforms float_text re_search numbers x (additional_of schema))"
proof -
  have empty: "extras d (properties_of schema) = [] \<longleftrightarrow> fst ` set d \<subseteq> fst ` set (properties_of schema)"
    by (auto simp: extras_def filter_empty_conv lookup_None_iff)
  have member: "k \<in> set (extras d (properties_of schema)) \<longleftrightarrow> k \<in> fst ` set d \<and> k \<notin> fst ` set (properties_of schema)" for k
    by (auto simp: extras_def lookup_None_iff)
  show ?thesis
  proof (cases "additional_of schema")
    case (PDict a)
    then show ?thesis
      by (auto simp: eachE_eq_Inr member IH lookup_fst [symmetric] split: option.splits)
  qed (use assms(1) empty in \<open>auto simp: object_ok_def\<close>)
qed

lemma properties_step:
  assumes IH: "\<And>k x s p. lookup d k = Some x \<Longrightarrow> validate_schema float_text re_search G x s p = Inr () \<longleftrightarrow> conforms float_text re_search numbers x s"
  shows "eachE (\<lambda>(key, child). case lookup d key of None \<Rightarrow> Inr ()
      | Some x \<Rightarrow> validate_schema float_text re_search G x child (path @ [46] @ key)) props = Inr () \<longleftrightarrow>
    (\<forall>k x child. lookup d k = Some x \<longrightarrow> (k, child) \<in> set props \<longrightarrow> conforms float_text re_search numbers x child)"
  by (fastforce simp: eachE_eq_Inr IH split: option.splits)

lemma items_step:
  assumes IH: "\<And>x s p. x \<in> set xs \<Longrightarrow> validate_schema float_text re_search G x s p = Inr () \<longleftrightarrow> conforms float_text re_search numbers x s"
  shows "eachE (\<lambda>(index, x). validate_schema float_text re_search G x items (item_path path index)) (enumerate 0 xs) = Inr () \<longleftrightarrow>
    (\<forall>x \<in> set xs. conforms float_text re_search numbers x items)"
proof -
  have numbered: "snd ` set (enumerate 0 xs) = set xs" by (metis list.set_map map_snd_enumerate)
  then have "(\<forall>x \<in> set xs. conforms float_text re_search numbers x items) \<longleftrightarrow>
      (\<forall>q \<in> set (enumerate 0 xs). conforms float_text re_search numbers (snd q) items)"
    by (subst numbered [symmetric]) blast
  moreover have "snd q \<in> set xs" if "q \<in> set (enumerate 0 xs)" for q
    using that numbered by blast
  ultimately show ?thesis by (simp add: eachE_eq_Inr IH case_prod_unfold)
qed

lemma scalar_step:
  assumes "\<not> is_list v" "\<not> is_dict v"
  shows "validate_schema float_text re_search G v (PDict schema) p = Inr () \<longleftrightarrow> conforms float_text re_search numbers v (PDict schema)"
  unfolding validate_schema.simps [of float_text re_search G v "PDict schema" p] conforms_dict [of float_text re_search numbers v schema]
  using assms by (cases v) (simp_all add: bindE_eq_Inr check_values_Inr [OF types] check_string_Inr)

lemma decides: "validate_schema float_text re_search G v s p = Inr () \<longleftrightarrow> conforms float_text re_search numbers v s"
proof (induction v arbitrary: s p rule: measure_induct_rule [of size])
  case (less v)
  show ?case
  proof (cases s)
    case (PDict schema)
    show ?thesis
    proof (cases v)
      case d: (PDict d)
      have IH: "validate_schema float_text re_search G x s p = Inr () \<longleftrightarrow> conforms float_text re_search numbers x s"
        if "lookup d k = Some x" for k x s p
        using less [of x] lookup_size [OF that] d by simp
      show ?thesis
        by (simp add: PDict d validate_schema.simps [of _ _ G "PDict d"] conforms_dict [of _ _ numbers "PDict d"] bindE_eq_Inr
            check_values_Inr [OF types] object properties_step [OF IH] extras_step [OF _ IH] cong: conj_cong)
    next
      case l: (PList xs)
      have IH: "validate_schema float_text re_search G x s p = Inr () \<longleftrightarrow> conforms float_text re_search numbers x s"
        if "x \<in> set xs" for x s p
        using less [of x] size_list_estimation' [OF that, of "size x" size] l by simp
      show ?thesis
        by (auto simp: PDict l validate_schema.simps [of _ _ G "PList xs"] conforms_dict [of _ _ numbers "PList xs"] bindE_eq_Inr
            check_values_Inr [OF types] check_length_Inr items_step [OF IH] Let_def)
    qed (simp_all add: PDict scalar_step)
  qed (auto simp: validate_schema.simps [of _ _ G v] elim: conforms_is_dict)
qed

end

interpretation base: schema_validator base_gate True
  by unfold_locales (simp_all add: base_gate_def base_type_matches_Inr base_object_Inr)

interpretation core: schema_validator core_gate False
  by unfold_locales (simp_all add: core_gate_def core_type_matches_Inr core_object_Inr)

section \<open>The two validators\<close>

text \<open>
  No schema in \<open>s\<close> asks for the type \<open>number\<close>, which the core gate does not know. Schemas are found where
  the validators look for them: \<open>s\<close> itself, \<open>additionalProperties\<close>, \<open>items\<close> and the members of
  \<open>properties\<close>; the data in \<open>const\<close> and \<open>enum\<close> play no part. The flag tells a schema from such members.
\<close>

fun numberless :: "bool \<Rightarrow> pyval \<Rightarrow> bool" where
  "numberless True (PDict d) \<longleftrightarrow> lookup d (lit ''type'') \<noteq> Some (PS ''number'') \<and>
     (\<forall>kv \<in> set d. (fst kv = lit ''properties'' \<longrightarrow> numberless False (snd kv)) \<and>
       (fst kv = lit ''additionalProperties'' \<or> fst kv = lit ''items'' \<longrightarrow> numberless True (snd kv)))"
| "numberless False (PDict d) \<longleftrightarrow> (\<forall>kv \<in> set d. numberless True (snd kv))"
| "numberless _ _ \<longleftrightarrow> True"

definition number_free :: "pyval \<Rightarrow> bool" where "number_free s \<longleftrightarrow> numberless True s"

lemma numberless_lookup:
  assumes "numberless True (PDict d)" and "lookup d k = Some v"
  shows "k = lit ''properties'' \<Longrightarrow> numberless False v"
    and "k = lit ''additionalProperties'' \<or> k = lit ''items'' \<Longrightarrow> numberless True v"
  using assms lookup_Some_in_set [of d k v] by fastforce+

lemma numberless_parts:
  assumes "numberless True (PDict d)"
  shows "numberless True (additional_of d)" and "(k, child) \<in> set (properties_of d) \<Longrightarrow> numberless True child"
    and "numberless True (dget d ''items'')"
proof -
  show "numberless True (additional_of d)"
    using numberless_lookup(2) [OF assms, of "lit ''additionalProperties''"]
    by (auto simp: additional_of_def dget_or_def split: option.split simp del: numberless.simps(1))
  show "numberless True (dget d ''items'')"
    using numberless_lookup(2) [OF assms, of "lit ''items''"] by (auto simp: dget_def split: option.split simp del: numberless.simps(1))
  have members: "numberless False v \<Longrightarrow> (k, child) \<in> set (dict_of v) \<Longrightarrow> numberless True child" for v
    by (cases v) auto
  have "numberless False (dget_or d ''properties'' (PDict []))"
    using numberless_lookup(1) [OF assms, of "lit ''properties''"]
    by (auto simp: dget_or_def split: option.split simp del: numberless.simps(1))
  then show "(k, child) \<in> set (properties_of d) \<Longrightarrow> numberless True child"
    unfolding properties_of_def by (rule members)
qed

lemma json_type_mono: "json_type False v t \<Longrightarrow> json_type True v t"
  by (auto simp: json_type_def)

lemma conforms_mono: "conforms float_text re_search False v s \<Longrightarrow> conforms float_text re_search True v s"
proof (induction rule: conforms.induct)
  case (conforms schema v)
  have t: "dget schema ''type'' = PNone \<or> is_str (dget schema ''type'') \<and> json_type True v (str_of (dget schema ''type''))"
    using conforms(4) json_type_mono by blast
  show ?case
    by (rule conforms.conforms [where schema = schema and v = v and re_search = re_search and float_text = float_text and numbers = True, OF conforms(1-3) t conforms(5,6) _ _ conforms(7,8) _ conforms(9,10)])
      (use conforms(11) in blast, use conforms(12) in blast, use conforms(13) in blast)
qed

lemma json_type_number_free: "json_type True v t \<Longrightarrow> t \<noteq> lit ''number'' \<Longrightarrow> json_type False v t"
  by (auto simp: json_type_def)

lemma conforms_number_free: "conforms float_text re_search True v s \<Longrightarrow> numberless True s \<Longrightarrow> conforms float_text re_search False v s"
proof (induction rule: conforms.induct)
  case (conforms schema v)
  have t: "dget schema ''type'' = PNone \<or> is_str (dget schema ''type'') \<and> json_type False v (str_of (dget schema ''type''))"
    using conforms(4) conforms.prems
    by (cases "dget schema ''type''") (auto simp: dget_def intro!: json_type_number_free split: option.splits)
  note parts = numberless_parts [OF conforms.prems]
  show ?case
    by (rule conforms.conforms [where schema = schema and v = v and re_search = re_search and float_text = float_text and numbers = False, OF conforms(1-3) t conforms(5,6) _ _ conforms(7,8) _ conforms(9,10)])
      (use conforms(11) parts(1) in blast, use conforms(12) parts(2) in blast, use conforms(13) parts(3) in blast)
qed

text \<open>C36: The schema validator of the phase 10 gate decides conformance: it returns exactly if every keyword of
  the schema holds of the value and, recursively, of its members and items; the order of the checks and
  the path of the messages play no part.\<close>

theorem schema_gate_decides:
  "validate_schema float_text re_search base_gate v s path = Inr () \<longleftrightarrow> conforms float_text re_search True v s"
  by (rule base.decides)

text \<open>C37: Two separately written validators agree: whatever the validator of the empirical assurance gate
  accepts, the validator of the phase 10 gate accepts; and on a schema no part of which asks for the type
  \<open>number\<close>, in the places where the validators look for schemas, they accept exactly the same values.\<close>

theorem schema_gates_agree:
  "(validate_schema float_text re_search core_gate v s path = Inr () \<longrightarrow>
      validate_schema float_text re_search base_gate v s path' = Inr ()) \<and>
   (number_free s \<longrightarrow>
      (validate_schema float_text re_search core_gate v s path = Inr () \<longleftrightarrow>
       validate_schema float_text re_search base_gate v s path' = Inr ()))"
  unfolding base.decides core.decides number_free_def using conforms_mono conforms_number_free by blast

definition demo_schema :: pyval where
  "demo_schema = PDict (pd [(''type'', PS ''object''), (''additionalProperties'', PBool False), (''required'', PList [PS ''n'']),
     (''properties'', PDict (pd [(''n'', PDict (pd [(''type'', PS ''integer''), (''const'', PInt 3)]))]))])"

lemma demo_schema_accepted:
  "validate_schema (\<lambda>_. []) (\<lambda>_ _. None) core_gate (PDict (pd [(''n'', PInt 3)])) demo_schema [36] = Inr ()"
  by code_simp

text \<open>A number as \<open>number\<close>, which only the phase 10 gate accepts.\<close>

lemma demo_number_accepted:
  "validate_schema (\<lambda>_. []) (\<lambda>_ _. None) base_gate (PInt 3) (PDict (pd [(''type'', PS ''number'')])) [36] = Inr ()"
  "validate_schema (\<lambda>_. []) (\<lambda>_ _. None) core_gate (PInt 3) (PDict (pd [(''type'', PS ''number'')])) [36] \<noteq> Inr ()"
  by code_simp+

theorem schema_gates_agree_witness:
  "validate_schema (\<lambda>_. []) (\<lambda>_ _. None) core_gate (PDict (pd [(''n'', PInt 3)])) demo_schema [36] = Inr () \<and>
   validate_schema (\<lambda>_. []) (\<lambda>_ _. None) base_gate (PDict (pd [(''n'', PInt 3)])) demo_schema [36] = Inr () \<and> number_free demo_schema \<and>
   \<not> number_free (PDict (pd [(''type'', PS ''number'')]))"
proof -
  have "number_free demo_schema" by (simp add: number_free_def demo_schema_def)
  moreover have "\<not> number_free (PDict (pd [(''type'', PS ''number'')]))"
    using schema_gates_agree [of "\<lambda>_. []" "\<lambda>_ _. None" "PInt 3" "PDict (pd [(''type'', PS ''number'')])" "[36]" "[36]"]
      demo_number_accepted by blast
  ultimately show ?thesis using schema_gates_agree demo_schema_accepted by blast
qed

end
