(* ===== verification/Formal_Gate.thy ===== *)
theory Formal_Gate
  imports Schema_Gate Py_Iter
begin

text \<open>
  The phase 10 gate, \<open>tools/validate_phase10_gate_base.py\<close> and \<open>tools/validate_phase10_gate_round9.py\<close>: the
  manifest of theorems against the Lean sources, the audits and the contracts of the frozen release.
  \<open>gate_world\<close> has the answers of git and of the file system by relative path. Errors carry the fixed part of
  the message with the declaration, path or contract it is about; lists of names and hashes in a message are
  left out. The tables that a later layer of the gate changes are arguments of the checks.
\<close>

section \<open>Constants\<close>

definition TARGET_TAG :: pystr where "TARGET_TAG = lit ''v0.11.0''"
definition EXPECTED_THEOREM_COUNT :: nat where "EXPECTED_THEOREM_COUNT = 47"

datatype mode = Equals | Contains

type_synonym registry = "(pystr \<times> pystr \<times> pystr \<times> mode \<times> pyval) list"

definition contract :: "string \<times> string \<times> string \<times> mode \<times> pyval \<Rightarrow> pystr \<times> pystr \<times> pystr \<times> mode \<times> pyval" where
  "contract = (\<lambda>(k, source_ref, pointer, m, expected). (lit k, lit source_ref, lit pointer, m, expected))"

definition EXPECTED_FROZEN_INPUTS :: "(pystr \<times> pystr) list" where
  "EXPECTED_FROZEN_INPUTS = map (\<lambda>(k, v). (lit k, lit v))
   [
    (''ROADMAP.md'', ''42db05b1106e11cfb116920a5f4d8a2d92d60a66''),
    (''PRIME_DIRECTIVE.md'', ''ad6b5cdae5f8ada9b48f8066e3cb0f68ac9a6c93''),
    (''invariants/fed-v1.json'', ''97b62def1fd42cdc78cb178cddc9f269c98c620b''),
    (''wire/phase1.json'', ''1d34ac72d5d07c3f6b5bd28337eb6606cf44e782''),
    (''crypto/phase2.json'', ''042a850ccef4a058be595e955a87797d5e108e47''),
    (''state/phase4.json'', ''c9d7bcfcab9cd4581dc179a56071d7da1df97b13''),
    (''state/phase5a-holodeck.json'', ''bbb030469dcd66f4af37664c732820e6b6f0d760''),
    (''state/phase5.json'', ''5d2c22c46e9059668054a1dcb64facf071334505''),
    (''state/phase6.json'', ''c4eafb645c888d97f1d38e5eb1fe600e5aa49d0e''),
    (''state/phase7.json'', ''458c28c8ac075a6b3dcc2ea7189c3c77f0170a71''),
    (''state/phase8.json'', ''b855104b4fe4c97342b5bd48b248ca915e578703''),
    (''state/phase9.json'', ''c2bd1415cc86d27873a4432adb00d2306b87dbb0''),
    (''claims/phase9.json'', ''9ee94894169b0085c7282ac6c98a51b794eb0221''),
    (''fixtures/phase9/attack-corpus.json'', ''77d1a04e0912eec98613fc496478a04e6bae6cd6''),
    (''schemas/moriarty-report-v1.schema.json'', ''2c1992a796c48265309770653923effdb65b4f79'')]"

definition SOURCE_BOUND_CONTRACT_REGISTRY :: registry where
  "SOURCE_BOUND_CONTRACT_REGISTRY = map contract
   [
    (''prime_directive_local_admission'', ''invariants/fed-v1.json'', ''/default_policies/foreign_semantic_material'', Equals, PS ''accept_as_data_only''),
    (''foreign_state_is_not_local_state'', ''invariants/fed-v1.json'', ''/invariants/6/id'', Equals, PS ''foreign_state_is_not_local_state''),
    (''remote_governance_mutation_forbidden'', ''invariants/fed-v1.json'', ''/invariants/9/id'', Equals, PS ''remote_governance_mutation_forbidden''),
    (''remote_evidence_promotion_forbidden'', ''invariants/fed-v1.json'', ''/invariants/10/id'', Equals, PS ''remote_evidence_promotion_forbidden''),
    (''remote_arbitrary_execution_forbidden'', ''invariants/fed-v1.json'', ''/invariants/15/id'', Equals, PS ''remote_arbitrary_execution_forbidden''),
    (''runtime_constitution_override_forbidden'', ''invariants/fed-v1.json'', ''/invariants/18/id'', Equals, PS ''runtime_constitution_override_forbidden''),
    (''unknown_authority_action_rejected'', ''invariants/fed-v1.json'', ''/invariants/19/id'', Equals, PS ''unknown_authority_action_rejected''),
    (''signature_validity_is_trust=false'', ''crypto/phase2.json'', ''/signature_validity_is_trust'', Equals, PBool False),
    (''signature_validity_is_authority=false'', ''crypto/phase2.json'', ''/signature_validity_is_authority'', Equals, PBool False),
    (''signature_is_not_authority'', ''crypto/phase2.json'', ''/signature_validity_is_authority'', Equals, PBool False),
    (''prime_directive_admission'', ''crypto/phase2.json'', ''/gate'', Contains, PS ''valid signature never bypasses Prime Directive admission''),
    (''peering_is_not_trust'', ''invariants/fed-v1.json'', ''/invariants/0/id'', Equals, PS ''peering_is_not_trust''),
    (''local_sovereignty_over_federation_convenience'', ''invariants/fed-v1.json'', ''/invariants/8/id'', Equals, PS ''local_sovereignty_over_federation_convenience''),
    (''capability_is_not_entitlement'', ''invariants/fed-v1.json'', ''/invariants/4/id'', Equals, PS ''capability_is_not_entitlement''),
    (''explicit_local_allow'', ''state/phase4.json'', ''/local_capability_policy/effective_allow_requires'', Contains, PS ''explicit local allow''),
    (''peer_lifecycle_admitted'', ''state/phase4.json'', ''/local_capability_policy/effective_allow_requires'', Contains, PS ''peer lifecycle state admitted''),
    (''authenticated_advertisement'', ''state/phase4.json'', ''/local_capability_policy/effective_allow_requires'', Contains, PS ''active authenticated advertisement''),
    (''provenance_preserved'', ''state/phase4.json'', ''/portable_bundle/preserves'', Contains, PS ''every independent foreign provenance attribution''),
    (''import_is_not_authority'', ''invariants/fed-v1.json'', ''/invariants/1/id'', Equals, PS ''import_is_not_authority''),
    (''import_changes_trust=false'', ''state/phase4.json'', ''/trust_registry/import_changes_trust'', Equals, PBool False),
    (''identity_lifecycle_monotonic'', ''state/phase4.json'', ''/peer_registry/identity_lifecycle_monotonic'', Equals, PBool True),
    (''existing_lifecycle_must_be_exact_prefix'', ''state/phase4.json'', ''/peer_registry/existing_lifecycle_must_be_exact_prefix'', Equals, PBool True),
    (''partition_sovereignty'', ''state/phase4.json'', ''/partition_rejoin/silent_reconciliation'', Equals, PBool False),
    (''bundle_import_preserves_existing_local_state'', ''state/phase4.json'', ''/peer_registry/bundle_import_preserves_existing_local_state'', Equals, PBool True),
    (''partition_requires_explicit_reconciliation'', ''state/phase4.json'', ''/partition_rejoin/changed_snapshot_rejoin'', Equals, PS ''explicit_reconciliation_required''),
    (''same_snapshot_rejoin_explicit_confirm'', ''state/phase4.json'', ''/partition_rejoin/same_snapshot_rejoin'', Equals, PS ''clean only after explicit confirm call''),
    (''canonical_json_identity'', ''wire/phase1.json'', ''/canonical_profile'', Equals, PS ''qsol-fed-canonical-json/1''),
    (''object_identity_determinism'', ''wire/phase1.json'', ''/object_identity'', Contains, PS ''sha256''),
    (''simulation_output_authority=none'', ''state/phase5a-holodeck.json'', ''/sandbox/simulation_output_authority'', Equals, PS ''none''),
    (''simulation_output_evidence_effect=none'', ''state/phase5a-holodeck.json'', ''/sandbox/simulation_output_evidence_effect'', Equals, PS ''none''),
    (''simulation_output_federation_effect=none'', ''state/phase5a-holodeck.json'', ''/sandbox/simulation_output_federation_effect'', Equals, PS ''none''),
    (''transport_does_not_enter_holodeck_sandbox'', ''state/phase8.json'', ''/holodeck_transport_independence/transport_outside_sandbox_may_relabel_sandbox_network_use'', Equals, PBool False),
    (''computer_end_program_terminal'', ''state/phase5a-holodeck.json'', ''/computer_safeguards/end_program_available_while_frozen'', Equals, PBool True),
    (''adapter_data_is_not_local_authority'', ''state/phase5.json'', ''/prime_directive/adapter_may_create_local_governance_authority'', Equals, PBool False),
    (''vote_injection=false'', ''state/phase5.json'', ''/nexus/vote_injection'', Equals, PBool False),
    (''evidence_promotion=false'', ''state/phase5.json'', ''/nexus/evidence_promotion'', Equals, PBool False),
    (''sdk_conformance_is_not_trust'', ''state/phase6.json'', ''/authority_boundary/sdk_creates_trust'', Equals, PBool False),
    (''wire_compatibility_is_not_governance_membership'', ''state/phase6.json'', ''/third_party_node/wire_namespace_implies_governance'', Equals, PBool False),
    (''sdk_creates_authority=false'', ''state/phase6.json'', ''/authority_boundary/sdk_creates_authority'', Equals, PBool False),
    (''assembly_vote_is_not_member_command'', ''state/phase7.json'', ''/authority_boundary/assembly_may_mutate_member_local_governance'', Equals, PBool False),
    (''member_local_authority_mutated=false'', ''state/phase7.json'', ''/governance_receipts/member_local_authority_mutated'', Equals, PBool False),
    (''assembly_acceptance_is_not_deployment'', ''state/phase7.json'', ''/proposal_lifecycle/accepted_proposal_changes_running_protocol'', Equals, PBool False),
    (''protocol_changed_automatically=false'', ''state/phase7.json'', ''/governance_receipts/protocol_changed_automatically'', Equals, PBool False),
    (''assembly_consensus_is_not_member_local_authority'', ''state/phase7.json'', ''/authority_boundary/assembly_consensus_is_member_local_authority'', Equals, PBool False),
    (''nexus_advice_is_not_vote_weight'', ''state/phase7.json'', ''/nexus_advisory/vote_weight'', Equals, PInt 0),
    (''transport_is_not_identity'', ''state/phase8.json'', ''/identity_boundary/transport_profile_may_replace_sender_identity'', Equals, PBool False),
    (''message_id_preserved_across_transports'', ''state/phase8.json'', ''/identity_boundary/message_id_preserved_across_transports'', Equals, PBool True),
    (''payload_ref_preserved_across_transports'', ''state/phase8.json'', ''/identity_boundary/payload_ref_preserved_across_transports'', Equals, PBool True),
    (''provenance_ref_preserved_across_transports'', ''state/phase8.json'', ''/identity_boundary/provenance_ref_preserved_across_transports'', Equals, PBool True),
    (''route_is_not_trust'', ''state/phase8.json'', ''/identity_boundary/transport_route_may_create_trust'', Equals, PBool False),
    (''nat_ticket_may_replace_identity=false'', ''state/phase8.json'', ''/authority_boundary/nat_ticket_may_replace_identity'', Equals, PBool False),
    (''relay_is_not_authority'', ''state/phase8.json'', ''/multi_relay_provenance/relay_presence_is_authority'', Equals, PBool False),
    (''relay_presence_is_trust=false'', ''state/phase8.json'', ''/multi_relay_provenance/relay_presence_is_trust'', Equals, PBool False)]"

definition ROUND9_CONTRACTS :: registry where
  "ROUND9_CONTRACTS = map contract
   [
    (''nexus_advisory_authority_effect=none'', ''state/phase7.json'', ''/nexus_advisory/authority_effect'', Equals, PS ''none''),
    (''ticket_grants_authority=false'', ''state/phase8.json'', ''/nat_traversal/ticket_grants_authority'', Equals, PBool False),
    (''adapter_may_install_capabilities=false'', ''state/phase5.json'', ''/prime_directive/adapter_may_install_capabilities'', Equals, PBool False),
    (''remote_vote_creation_forbidden'', ''invariants/fed-v1.json'', ''/invariants/11/id'', Equals, PS ''remote_vote_creation_forbidden''),
    (''remote_capability_installation_forbidden'', ''invariants/fed-v1.json'', ''/invariants/12/id'', Equals, PS ''remote_capability_installation_forbidden''),
    (''remote_history_rewrite_forbidden'', ''invariants/fed-v1.json'', ''/invariants/13/id'', Equals, PS ''remote_history_rewrite_forbidden''),
    (''remote_citizenship_mutation_forbidden'', ''invariants/fed-v1.json'', ''/invariants/14/id'', Equals, PS ''remote_citizenship_mutation_forbidden''),
    (''remote_local_authority_claim_forbidden'', ''invariants/fed-v1.json'', ''/invariants/16/id'', Equals, PS ''remote_local_authority_claim_forbidden''),
    (''secrets_in_semantic_state_forbidden'', ''invariants/fed-v1.json'', ''/invariants/17/id'', Equals, PS ''secrets_in_semantic_state_forbidden''),
    (''holodeck_network_client_exposed=false'', ''state/phase5a-holodeck.json'', ''/sandbox/network_client_exposed'', Equals, PBool False),
    (''holodeck_tool_dispatcher_exposed=false'', ''state/phase5a-holodeck.json'', ''/sandbox/tool_dispatcher_exposed'', Equals, PBool False),
    (''holodeck_credential_handle_exposed=false'', ''state/phase5a-holodeck.json'', ''/sandbox/credential_handle_exposed'', Equals, PBool False),
    (''ticket_node_must_match_authenticated_sender'', ''state/phase8.json'', ''/nat_traversal/ticket_node_must_match_authenticated_sender'', Equals, PBool True)]"

definition EXPECTED_THEOREM_TYPE_SHA256 :: "(pystr \<times> pystr) list" where
  "EXPECTED_THEOREM_TYPE_SHA256 = map (\<lambda>(k, v). (lit k, lit v))
   [
    (''prime_directive_accepts_data_only'', ''a9970c1529f1f67b91dbcb47eb18042ec4715547eb733080798b9d646ef10bbc''),
    (''prime_directive_quarantines_foreign_state'', ''228093719203b00ebfa83627b31177dc84da362ef5fab06e7b9357ccd9f41259''),
    (''prime_directive_rejects_governance_mutation'', ''51cbba7557f9c97a71a10f4a1eca068e92af1bfa84b85b61a67f8b1c4279afde''),
    (''prime_directive_rejects_evidence_promotion'', ''b88f3b90259de61f11a4601df8eb290b06161c56193a64f49ffa8ba7585fc435''),
    (''prime_directive_rejects_arbitrary_execution'', ''70d47a9252269ede3cd18fdbc85f256ab82c09af89081064d3586e548456271e''),
    (''prime_directive_rejects_runtime_override'', ''b750c3cfdfc6e65ab1b7930cf8329a2b9e084d2c8d2816225c7b3ef29d7a4032''),
    (''prime_directive_rejects_unknown_authority'', ''1638b892cca181a72643ba1a5f31c884047d04379a84d6962da562c8457595ff''),
    (''signature_validity_does_not_create_trust'', ''949df02be04afd185ec645f02ee17d96ec4cfb48f5e4ee40231ae8dd872c88a3''),
    (''signature_validity_does_not_create_authority'', ''ab1485093bf7fbcc96eb68a280c8f32f77dadcbb0eda3fc4eac24ecab3b22185''),
    (''valid_signature_does_not_bypass_local_rejection'', ''94f56a835bd8fa378bff14be25a1945581005a9a96209c274bb6be54e9e8a4c5''),
    (''peering_does_not_create_trust'', ''5c067b04486a6f626290b8ed2ef0eba38f872c784bf002c54a5b98c30426fce0''),
    (''peering_does_not_create_admission'', ''8af176b75c7b8951819b2e4f169f103f481cd715a6f941e1d97b0190891def2c''),
    (''capability_requires_explicit_local_allow'', ''ad3ebf3eeb4fa6f87069db91394acb9a2f34c51b2bf97a555a2cb3db7c1b629f''),
    (''capability_requires_peer_admission'', ''b47f6df5c0f8265e473e3390709f8650907b4df42fbe137de6cbe21c3e433fd2''),
    (''capability_requires_authenticated_advertisement'', ''063aa6627371f29c7949c7a808ba2fed9f89c16107b269f95f6ab5e5d94085a1''),
    (''import_preserves_foreign_identity'', ''4b48ed5d838ef7105a8359d092bd947b620f3b9a78895e04a96921d073a1bae7''),
    (''import_does_not_create_local_authority'', ''0dbe573a73f6d8b3fce63275bbc14d6b056cb75e185be1ab17244bec6b933942''),
    (''import_does_not_change_trust'', ''f1182fef68de866494e4c412efba68e195e8d05f47a5f9acc70bfa2a0c47d0b9''),
    (''lifecycle_append_is_monotone'', ''53cd0bcd050c55c621a172012b306d793f52ac5efc976863da5c13cedca3b8bd''),
    (''lifecycle_prefix_is_transitive'', ''2e5425dd6532fc7a804c5e8745becccb4bc021c42a156c264b14893306c0fa57''),
    (''partition_rejoin_preserves_local_state'', ''c2dd947ae15c7498ff1f67e04c851b7c0694bbfc0a570e4064c6eea063f91efe''),
    (''changed_partition_snapshot_requires_reconciliation'', ''dabe384653387ca1afa4e64d926de78594833b49e1814fb03e42e1e49cc0e607''),
    (''unchanged_partition_snapshot_needs_no_reconciliation'', ''7c8bc3cb93502c6c5f6368925f9dcb04ce11fc5f4d4b68857061da33aef17f8f''),
    (''canonical_identity_deterministic'', ''0b87fc85763a90516b385d7994a4eb40098fb92a794a3a7ffa046fa208510557''),
    (''holodeck_output_has_no_authority'', ''6df2fc2be79e0457af388476dca52a3ee6d31a52bd935fe82e2f0f5b77439ade''),
    (''holodeck_output_has_no_evidence_effect'', ''5d8256bd969477f050267388beefe1e2ee995c89367cd0ea4d9e4eee406cfeb1''),
    (''holodeck_output_has_no_federation_effect'', ''321e8487df522bbd93e14ccd5693fcae309d9985c24517fb16df393e8bfcbbab''),
    (''holodeck_transport_does_not_relabel_network_use'', ''3d0f171dbf9af4078cc0576c411e9a2a5c8a10853f426a1d5c2ba38e6814e5bc''),
    (''holodeck_end_program_terminal_even_when_frozen'', ''629ec6fe62a8776ca912a28bd0b503c7069f2c1811bd29f066d486cffbcb7840''),
    (''adapter_output_has_no_authority'', ''655e275a2887fd92439de728311344b844deb521ff9176812f0f12db70cffea0''),
    (''adapter_cannot_inject_vote'', ''3c454c34f6988268bc8659a53e42043582132beda7af4f066bb62c1fd3cc444e''),
    (''adapter_cannot_promote_evidence'', ''bd7140ad840b8a5b1a15645d125a1c949f27f481542b8924256d7615479e84a3''),
    (''sdk_conformance_does_not_create_trust'', ''27950340c947151b3ec464cd166408162ff08c3d0873a9ed6b39087a079be17f''),
    (''sdk_conformance_does_not_create_governance_membership'', ''690085239cc58005dd6dbae653a7da617a106d414a9d00b3c6e71c85f640ff2a''),
    (''sdk_conformance_does_not_create_authority'', ''0921313bddab8e978f5a1a41fcc55ef91c0c701bfaecc60856ec2c242f88eeb1''),
    (''assembly_acceptance_does_not_mutate_member_authority'', ''713434e1b482c91b8c4f2595e74c0b56a62478d4025f99ad92fa64c21742061a''),
    (''assembly_acceptance_does_not_change_protocol_automatically'', ''2f80e3ab0ec9a0c5b66e43b4ff8891d9cd3e92aed8bc10edfaaf8d0ec3736473''),
    (''assembly_receipt_has_no_authority_effect'', ''e3304ca570c2387a924b1a28fc1cf91891c55ab63742a78c0bb04cdbdc60cdcc''),
    (''nexus_advisory_has_zero_vote_weight'', ''01f356290d4269f36f757222aca85196f56e68048c67f99d15f296d10958fbae''),
    (''transport_preserves_authenticated_identity'', ''e3a5f346ab512f6ca59921372af9e952bba6c5e6fe0a08ab0b4a202c56fc52af''),
    (''transport_preserves_message_identity'', ''ee38f8f7b923341886e784239f9ee90c266e173a9081f921dec1c15db04780de''),
    (''transport_preserves_payload_reference'', ''e9b1780e95bcd259aa4bbd85081fadd4e99c738032da96886b48072d303448d9''),
    (''transport_preserves_provenance'', ''e79594378d179aa2f280f774f4a402e83bf1e7af84c5346c3c91c239a0d30cdb''),
    (''nat_route_does_not_create_trust'', ''e27cf167d39894c8827589492775173d644e644fbad7f39665643ea5d70c9392''),
    (''nat_route_does_not_replace_identity'', ''2c62cf8ff56c759b413de899b5915148fe5760f86e8b997fd37f10f72cfa2c5e''),
    (''relay_does_not_create_authority'', ''7b4099149e9bb4585f7a096566bf5e742380cfa9de9d06cc1124f175dfe185c5''),
    (''relay_does_not_create_trust'', ''2c064061b897987816f081029eca5a4e19c339ced60c2c31cd766e80a249bef9'')]"

section \<open>The world\<close>

record gate_world =
  gw_git :: "pystr list \<Rightarrow> pystr result"
  gw_loads :: "pystr \<Rightarrow> pyval result"
  gw_is_file :: "pystr \<Rightarrow> bool"
  gw_exists :: "pystr \<Rightarrow> bool"
  gw_text :: "pystr \<Rightarrow> pystr result"
  gw_bytes :: "pystr \<Rightarrow> bytes result"
  gw_str :: "pyval \<Rightarrow> pystr"
  gw_uni :: "nat \<Rightarrow> bool"
  gw_env :: "pystr \<Rightarrow> pystr option"
  gw_toml :: "pystr \<Rightarrow> pyval result"
  gw_lean_files :: "lean_file list"
  gw_sha256 :: "bytes \<Rightarrow> bytes"
  gw_float :: "pyfloat \<Rightarrow> pystr"
  gw_re_search :: re_search

text \<open>\<open>str(v)\<close> in an f-string: \<open>gw_str\<close> is the text of a value that is not a string.\<close>

definition str_text :: "gate_world \<Rightarrow> pyval \<Rightarrow> pystr" where
  "str_text w v = (case v of PStr s \<Rightarrow> s | _ \<Rightarrow> gw_str w v)"

text \<open>\<open>v[k]\<close> and \<open>re.fullmatch(r, v)\<close> of any value.\<close>

definition vindex :: "pyval \<Rightarrow> string \<Rightarrow> pyval result" where
  "vindex v k = (case v of PDict d \<Rightarrow> dindex d k | _ \<Rightarrow> Inl TypeError)"

definition fullmatch :: "rx \<Rightarrow> pyval \<Rightarrow> bool result" where
  "fullmatch r v = (case v of PStr s \<Rightarrow> Inr (rx_match r s) | _ \<Rightarrow> Inl TypeError)"

definition THEOREMS_PATH :: pystr where "THEOREMS_PATH = lit ''QSOLFed/Theorems.lean''"
definition AXIOM_AUDIT_PATH :: pystr where "AXIOM_AUDIT_PATH = lit ''QSOLFed/AxiomAudit.lean''"
definition TYPE_AUDIT_PATH :: pystr where "TYPE_AUDIT_PATH = lit ''QSOLFed/TypeAudit.lean''"

definition theorems_file :: "gate_world \<Rightarrow> lean_file" where
  "theorems_file w = (THEOREMS_PATH, gw_text w THEOREMS_PATH)"

section \<open>JSON pointers\<close>

definition decode_token :: "pystr \<Rightarrow> pystr" where
  "decode_token encoded = py_replace [126, 48] [126] (py_replace [126, 49] [47] encoded)"

definition LIST_INDEX :: rx where
  "LIST_INDEX = Alt (rlit ''0'') (Seq (Cls [rng CHR ''1'' CHR ''9'']) (Star (Cls [rng CHR ''0'' CHR ''9''])))"

definition pointer_step :: "pystr \<Rightarrow> pyval \<Rightarrow> pystr \<Rightarrow> pyval result" where
  "pointer_step pointer current encoded =
     (let token = decode_token encoded in
      case current of
        PDict d \<Rightarrow> (case lookup d token of
            Some v \<Rightarrow> Inr v | None \<Rightarrow> Inl (GateErrorFor ''JSON pointer key missing: '' pointer))
      | PList xs \<Rightarrow>
          if \<not> rx_match LIST_INDEX token then Inl (GateErrorFor ''JSON pointer list index invalid: '' pointer)
          else (case py_int_text 10 token of
              None \<Rightarrow> Inl ValueError
            | Some i \<Rightarrow> if i < int (length xs) then Inr (xs ! nat i)
                else Inl (GateErrorFor ''JSON pointer list index out of range: '' pointer))
      | _ \<Rightarrow> Inl (GateErrorFor ''JSON pointer traverses scalar: '' pointer))"

definition json_pointer_get :: "pyval \<Rightarrow> pystr \<Rightarrow> pyval result" where
  "json_pointer_get document pointer =
     (if \<not> starts_with pointer [47] then Inl (GateErrorFor ''invalid JSON pointer: '' pointer)
      else foldE (pointer_step pointer) document (tl (split_all 47 pointer)))"

section \<open>The contracts of the frozen release\<close>

text \<open>\<open>theorem.get("contract_ids", [])\<close> of every theorem of the manifest.\<close>

definition list_or_empty :: "pyval \<Rightarrow> string \<Rightarrow> pyval list result" where
  "list_or_empty v k = (case v of PDict d \<Rightarrow> iterate (dget_or d k (PList [])) | _ \<Rightarrow> Inl AttributeError)"

definition used_contracts :: "pydict \<Rightarrow> pyval list result" where
  "used_contracts manifest =
     bindE (list_or_empty (PDict manifest) ''theorems'') (\<lambda>theorems.
     bindE (mapE (\<lambda>t. bindE (list_or_empty t ''contract_ids'') (\<lambda>cs.
       if list_all hashable cs then Inr cs else Inl TypeError)) theorems) (\<lambda>css. Inr (concat css)))"

text \<open>
  The document of a source reference: git and \<open>json.loads\<close> give the same answer each time, so the cache
  of the code is not seen.
\<close>

definition contract_source :: "gate_world \<Rightarrow> pystr \<Rightarrow> pyval result" where
  "contract_source w source_ref =
     bindE (gw_git w [lit ''show'', TARGET_TAG @ [58] @ source_ref]) (\<lambda>shown.
       case gw_loads w shown of
         Inl JSONDecodeError \<Rightarrow> Inl (GateErrorFor ''contract registry source is not valid JSON: '' source_ref)
       | r \<Rightarrow> r)"

text \<open>\<open>t in s\<close> for texts, \<open>x in v\<close> for values\<close>

definition contains_sub :: "pystr \<Rightarrow> pystr \<Rightarrow> bool" where
  "contains_sub s t \<longleftrightarrow> list_ex (\<lambda>i. starts_with (drop i s) t) [0..<length s + 1]"

definition contains_value :: "pyval \<Rightarrow> pyval \<Rightarrow> bool result" where
  "contains_value expected actual = (case actual of
     PStr s \<Rightarrow> (case expected of PStr t \<Rightarrow> Inr (contains_sub s t) | _ \<Rightarrow> Inl TypeError)
   | PList xs \<Rightarrow> Inr (list_ex (py_eq expected) xs)
   | PDict d \<Rightarrow> if hashable expected then Inr (is_str expected \<and> lookup d (str_of expected) \<noteq> None) else Inl TypeError
   | _ \<Rightarrow> Inl TypeError)"

definition verify_contract ::
  "gate_world \<Rightarrow> (pyfloat \<Rightarrow> pystr) \<Rightarrow> registry \<Rightarrow> pystr list \<Rightarrow> pyval list \<Rightarrow> pyval \<Rightarrow> unit result" where
  "verify_contract w float_text reg frozen_inputs theorem_refs contract_id =
     (case lookup reg (str_of contract_id) of
        None \<Rightarrow> Inl (KeyError (str_of contract_id))
      | Some (source_ref, pointer, m, expected) \<Rightarrow>
          bindE (requireG (PStr source_ref \<in> set theorem_refs) ''theorem contract resolves outside declared source_refs: '' source_ref) (\<lambda>_.
          bindE (requireG (source_ref \<in> set frozen_inputs) ''contract registry source is not frozen: '' source_ref) (\<lambda>_.
          bindE (contract_source w source_ref) (\<lambda>document.
          bindE (json_pointer_get document pointer) (\<lambda>actual.
          case m of
            Equals \<Rightarrow> requireG (json_equal float_text actual expected) ''contract source binding mismatch: '' (str_of contract_id)
          | Contains \<Rightarrow> bindE (requireG (is_str actual \<or> is_list actual) ''contract contains binding targets non-container: '' (str_of contract_id)) (\<lambda>_.
              bindE (contains_value expected actual) (\<lambda>found.
              requireG found ''contract source evidence missing: '' (str_of contract_id))))))))"

text \<open>One theorem of the manifest.\<close>

definition verify_theorem_contracts ::
  "gate_world \<Rightarrow> (pyfloat \<Rightarrow> pystr) \<Rightarrow> registry \<Rightarrow> pystr list \<Rightarrow> pyval \<Rightarrow> unit result" where
  "verify_theorem_contracts w float_text reg frozen_inputs t =
     bindE (vindex t ''declaration'') (\<lambda>_.
     bindE (bindE (vindex t ''source_refs'') iterate) (\<lambda>theorem_refs.
     if \<not> list_all hashable theorem_refs then Inl TypeError
     else bindE (bindE (vindex t ''contract_ids'') iterate) (\<lambda>contract_ids.
       eachE (verify_contract w float_text reg frozen_inputs theorem_refs) contract_ids)))"

definition verify_contract_traceability ::
  "gate_world \<Rightarrow> (pyfloat \<Rightarrow> pystr) \<Rightarrow> registry \<Rightarrow> pydict \<Rightarrow> pystr list \<Rightarrow> unit result" where
  "verify_contract_traceability w float_text reg manifest frozen_inputs =
     bindE (used_contracts manifest) (\<lambda>used_ids.
     bindE (requireG (set used_ids = PStr ` set (map fst reg)) ''contract registry coverage drift'' []) (\<lambda>_.
     bindE (bindE (dindex manifest ''theorems'') iterate) (\<lambda>ts.
     eachE (verify_theorem_contracts w float_text reg frozen_inputs) ts)))"

section \<open>The frozen inputs\<close>

definition SHA1_HEX :: rx where
  "SHA1_HEX = Rep (Cls [rng CHR ''0'' CHR ''9'', rng CHR ''a'' CHR ''f'']) 40 40"

definition observe_input :: "pydict \<Rightarrow> pyval \<Rightarrow> pydict result" where
  "observe_input observed item =
     bindE (requireG (is_dict item \<and> keys_are (dict_of item) [''path'', ''git_blob_sha1'']) ''frozen input field set drift'' []) (\<lambda>_.
     let path = dget (dict_of item) ''path''; blob = dget (dict_of item) ''git_blob_sha1'' in
     bindE (requireG (is_str path \<and> str_of path \<noteq> [] \<and> lookup observed (str_of path) = None) ''invalid/duplicate frozen input path: '' (str_of path)) (\<lambda>_.
     bindE (fullmatch SHA1_HEX blob) (\<lambda>ok.
     bindE (requireG ok ''invalid frozen input blob: '' (str_of path)) (\<lambda>_.
     Inr (dset observed (str_of path) blob)))))"

definition verify_frozen_inputs :: "gate_world \<Rightarrow> (pystr \<times> pystr) list \<Rightarrow> pydict \<Rightarrow> pystr list result" where
  "verify_frozen_inputs w expected manifest =
     (let items = dget manifest ''frozen_inputs'' in
      bindE (requireG (is_list items) ''frozen_inputs must be a list'' []) (\<lambda>_.
      bindE (requireG (length (items_of items) = length expected) ''frozen input inventory count drift'' []) (\<lambda>_.
      bindE (foldE observe_input [] (items_of items)) (\<lambda>observed.
      bindE (requireG (py_eq (PDict observed) (PDict (map (\<lambda>(p, b). (p, PStr b)) expected)))
        ''frozen input inventory/path/blob drift'' []) (\<lambda>_.
      bindE (eachE (\<lambda>(path, blob).
        bindE (gw_git w [lit ''rev-parse'', TARGET_TAG @ [58] @ path]) (\<lambda>actual.
        bindE (requireG (actual = blob) ''frozen input blob drift: '' path) (\<lambda>_.
        bindE (gw_git w [lit ''cat-file'', lit ''-t'', actual]) (\<lambda>kind.
        requireG (kind = lit ''blob'') ''frozen input is not a blob: '' path)))) expected) (\<lambda>_.
      Inr (map fst observed)))))))"

section \<open>The theorems of the manifest\<close>

definition THEOREM_KEYS :: "string list" where
  "THEOREM_KEYS = [''id'', ''declaration'', ''module'', ''path'', ''source_refs'', ''contract_ids'', ''proof_status'']"

text \<open>\<open>FED-LEAN-{index:03d}\<close>\<close>

definition theorem_id :: "nat \<Rightarrow> pystr" where
  "theorem_id index = (let n = show_nat index in lit ''FED-LEAN-'' @ replicate (3 - length n) 48 @ n)"

definition verify_theorem ::
  "pystr list \<Rightarrow> pystr list \<times> pystr list \<Rightarrow> nat \<times> pyval \<Rightarrow> (pystr list \<times> pystr list) result" where
  "verify_theorem frozen_inputs seen numbered = (case (seen, numbered) of ((ids, declarations), (index, t)) \<Rightarrow>
     let d = dict_of t; declaration = dget d ''declaration''; name = str_of declaration;
         refs = dget d ''source_refs''; contract_ids = dget d ''contract_ids'' in
     bindE (requireG (is_dict t \<and> keys_are d THEOREM_KEYS) ''theorem field set drift: '' (show_nat index)) (\<lambda>_.
     bindE (requireG (dget d ''id'' = PStr (theorem_id index) \<and> theorem_id index \<notin> set ids) ''theorem ID drift/duplicate at '' (show_nat index)) (\<lambda>_.
     bindE (fullmatch LOWER_NAME declaration) (\<lambda>ok.
     bindE (requireG ok ''invalid theorem declaration: '' name) (\<lambda>_.
     bindE (requireG (name \<notin> set declarations) ''duplicate theorem declaration: '' name) (\<lambda>_.
     bindE (requireG (dget d ''module'' = PS ''QSOLFed.Theorems'') ''unexpected module for '' name) (\<lambda>_.
     bindE (requireG (dget d ''path'' = PStr THEOREMS_PATH) ''unexpected theorem path for '' name) (\<lambda>_.
     bindE (if is_list refs \<and> items_of refs \<noteq> [] then has_duplicates (items_of refs) else Inr True) (\<lambda>bad.
     bindE (requireG (\<not> bad) ''invalid source_refs for '' name) (\<lambda>_.
     bindE (eachE (\<lambda>ref. requireG (ref \<in> PStr ` set frozen_inputs) ''theorem references unbound frozen input: '' name) (items_of refs)) (\<lambda>_.
     bindE (requireG (is_list contract_ids \<and> items_of contract_ids \<noteq> [] \<and>
       list_all (\<lambda>x. is_str x \<and> str_of x \<noteq> []) (items_of contract_ids)) ''missing contract traceability for '' name) (\<lambda>_.
     bindE (requireG (distinct_vals (items_of contract_ids)) ''duplicate contract IDs for '' name) (\<lambda>_.
     bindE (requireG (dget d ''proof_status'' = PS ''IMPLEMENTED'') ''unexpected proof status for '' name) (\<lambda>_.
     Inr (theorem_id index # ids, name # declarations)))))))))))))))"

definition verify_theorems :: "gate_world \<Rightarrow> nat \<Rightarrow> pydict \<Rightarrow> pystr list \<Rightarrow> unit result" where
  "verify_theorems w count manifest frozen_inputs =
     (let theorems = dget manifest ''theorems'' in
      bindE (requireG (is_list theorems) ''theorems must be a list'' []) (\<lambda>_.
      bindE (requireG (py_eq (dget manifest ''theorem_count'') (PInt (int count)) \<and>
        length (items_of theorems) = count) ''theorem count drift'' []) (\<lambda>_.
      bindE (lean_fully_qualified_theorems (gw_uni w) (theorems_file w)) (\<lambda>owned.
      bindE (mapE (\<lambda>t. bindE (vindex t ''declaration'') (\<lambda>n. Inr (lit ''QSOLFed.'' @ str_text w n))) (items_of theorems)) (\<lambda>expected_owned.
      bindE (requireG (map fst owned = expected_owned) ''QSOLFed.Theorems declaration ownership/order differs from theorem manifest'' []) (\<lambda>_.
      bindE (foldE (verify_theorem frozen_inputs) ([], []) (enumerate 1 (items_of theorems))) (\<lambda>_. Inr ())))))))"

section \<open>The audits\<close>

definition blank1 :: rx where "blank1 = Seq BLANK BLANKS"

text \<open>\<open>AXIOM_PRINT_RE.findall\<close>: with \<open>(?m)\<close> a match is a whole line, and no part of it spans two lines.\<close>

definition axiom_prints :: "pystr \<Rightarrow> pystr list" where
  "axiom_prints source =
     concat (map (\<lambda>line. case first_of (captures
         (Seq BLANKS (Seq (rlit ''#print'') (Seq blank1 (Seq (rlit ''axioms'') (Seq blank1 (rlit ''QSOLFed.''))))))
         LOWER_NAME (rx_match BLANKS) line) of Some name \<Rightarrow> [name] | None \<Rightarrow> []) (split_all 10 source))"

text \<open>\<open>[theorem["declaration"] for theorem in manifest.get("theorems", [])]\<close>\<close>

definition manifest_declarations :: "pydict \<Rightarrow> pyval list result" where
  "manifest_declarations manifest =
     bindE (list_or_empty (PDict manifest) ''theorems'') (\<lambda>ts. mapE (\<lambda>t. vindex t ''declaration'') ts)"

definition verify_axiom_audit_coverage :: "gate_world \<Rightarrow> nat \<Rightarrow> pydict \<Rightarrow> unit result" where
  "verify_axiom_audit_coverage w count manifest =
     bindE (requireG (gw_is_file w AXIOM_AUDIT_PATH) ''Phase 10 axiom audit source missing'' []) (\<lambda>_.
     bindE (gw_text w AXIOM_AUDIT_PATH) (\<lambda>source.
     bindE (lean_code_only AXIOM_AUDIT_PATH source) (\<lambda>audit_source.
     let audited = axiom_prints audit_source in
     bindE (manifest_declarations manifest) (\<lambda>expected.
     bindE (requireG (length audited = count) ''Phase 10 axiom audit theorem count drift'' []) (\<lambda>_.
     bindE (requireG (distinct audited) ''Phase 10 axiom audit contains duplicate theorem entries'' []) (\<lambda>_.
     requireG (py_eq (PList (map PStr audited)) (PList expected)) ''Phase 10 axiom audit coverage/order differs from theorem manifest'' []))))))"

text \<open>\<open>TYPE_AUDIT_RE.findall\<close>: \<open>^#check[ \t]+\(@(name)[ \t]*:\<close> at the start of a line.\<close>

definition type_checks :: "pystr \<Rightarrow> pystr list" where
  "type_checks source =
     concat (map (\<lambda>line. case first_of (captures (Seq (rlit ''#check'') (Seq blank1 (rlit ''(@''))) LOWER_NAME
         (\<lambda>rest. starts_with (dropWhile (\<lambda>c. c = 9 \<or> c = 32) rest) [58]) line) of Some name \<Rightarrow> [name] | None \<Rightarrow> []) (split_all 10 source))"

definition EXPECTED_TYPE_AUDIT_SHA256 :: pystr where
  "EXPECTED_TYPE_AUDIT_SHA256 = lit ''961837fb378f0459026cd76d377ec471dcb6f3dec23f722170fdda6d3cd6f199''"

definition verify_type_audit_locked :: "(bytes \<Rightarrow> bytes) \<Rightarrow> gate_world \<Rightarrow> pystr \<Rightarrow> pydict \<Rightarrow> unit result" where
  "verify_type_audit_locked sha256 w expected_sha256 manifest =
     bindE (requireG (gw_is_file w TYPE_AUDIT_PATH) ''Phase 10 elaborated theorem type audit missing'' []) (\<lambda>_.
     bindE (gw_bytes w TYPE_AUDIT_PATH) (\<lambda>audit_bytes.
     bindE (requireG (hexdigest (sha256 audit_bytes) = expected_sha256) ''Phase 10 elaborated theorem type audit source drift'' []) (\<lambda>_.
     bindE (utf8_decode audit_bytes) (\<lambda>source.
     bindE (lean_code_only TYPE_AUDIT_PATH source) (\<lambda>code.
     bindE (manifest_declarations manifest) (\<lambda>expected.
     requireG (py_eq (PList (map PStr (type_checks code))) (PList expected))
       ''Phase 10 elaborated theorem type audit coverage/order differs from theorem manifest'' []))))))"

section \<open>The digests of the theorem statements\<close>

text \<open>\<open>_find_top_level_proof_assign\<close>: the depths of the four kinds of brackets, the position from \<open>i\<close> on.\<close>

definition BRACKETS :: "(nat \<times> nat) list" where "BRACKETS = [(40, 41), (123, 125), (91, 93), (0x27E8, 0x27E9)]"

definition bracket_depth :: "(nat \<Rightarrow> int) \<Rightarrow> nat \<Rightarrow> (nat \<Rightarrow> int) option" where
  "bracket_depth depths ch =
     (case lookup BRACKETS ch of
        Some _ \<Rightarrow> Some (depths(ch := depths ch + 1))
      | None \<Rightarrow> (case lookup (map (\<lambda>(a, b). (b, a)) BRACKETS) ch of
          Some opener \<Rightarrow> if depths opener > 0 then Some (depths(opener := depths opener - 1)) else None
        | None \<Rightarrow> Some depths))"

fun find_assign :: "pystr \<Rightarrow> (nat \<Rightarrow> int) \<Rightarrow> nat \<Rightarrow> pystr \<Rightarrow> nat result" where
  "find_assign declaration depths i (ch # nxt # rest) =
     (case bracket_depth depths ch of
        None \<Rightarrow> Inl (GateErrorFor ''unbalanced theorem type delimiter in '' declaration)
      | Some depths' \<Rightarrow>
          if ch = 58 \<and> nxt = 61 \<and> list_all (\<lambda>(o', c). depths' o' = 0) BRACKETS then Inr i
          else find_assign declaration depths' (i + 1) (nxt # rest))"
| "find_assign declaration depths i _ = Inl (GateErrorFor ''theorem proof delimiter missing for '' declaration)"

definition find_top_level_proof_assign :: "pystr \<Rightarrow> pystr \<Rightarrow> nat result" where
  "find_top_level_proof_assign block declaration = find_assign declaration (\<lambda>_. 0) 0 block"

text \<open>\<open>THEOREM_START_RE.finditer\<close>: the start of each line that declares a theorem, with its name.\<close>

fun theorem_starts :: "(nat \<Rightarrow> bool) \<Rightarrow> nat \<Rightarrow> pystr list \<Rightarrow> (nat \<times> pystr) list" where
  "theorem_starts uni start [] = []"
| "theorem_starts uni start (line # lines) =
     (case theorem_line uni line of Some name \<Rightarrow> [(start, name)] | None \<Rightarrow> []) @ theorem_starts uni (start + length line + 1) lines"

text \<open>The block of a theorem ends where the next one starts.\<close>

fun theorem_blocks :: "pystr \<Rightarrow> (nat \<times> pystr) list \<Rightarrow> (pystr \<times> pystr) list" where
  "theorem_blocks code [] = []"
| "theorem_blocks code [(start, name)] = [(name, drop start code)]"
| "theorem_blocks code ((start, name) # (next_start, name') # ms) =
     (name, take (next_start - start) (drop start code)) # theorem_blocks code ((next_start, name') # ms)"

definition type_digest :: "(bytes \<Rightarrow> bytes) \<Rightarrow> pystr \<Rightarrow> pystr \<Rightarrow> pystr result" where
  "type_digest sha256 block declaration =
     bindE (find_top_level_proof_assign block declaration) (\<lambda>assign.
     bindE (utf8_encode (join_with [32] (split_ws (take assign block)))) (\<lambda>b. Inr (hexdigest (sha256 b))))"

definition verify_theorem_type_digests :: "(bytes \<Rightarrow> bytes) \<Rightarrow> gate_world \<Rightarrow> (pystr \<times> pystr) list \<Rightarrow> pydict \<Rightarrow> unit result" where
  "verify_theorem_type_digests sha256 w digests manifest =
     bindE (gw_text w THEOREMS_PATH) (\<lambda>source.
     bindE (lean_code_only THEOREMS_PATH source) (\<lambda>code.
     let matched = theorem_starts (gw_uni w) 0 (split_all 10 code) in
     bindE (manifest_declarations manifest) (\<lambda>expected.
     bindE (requireG (py_eq (PList (map (\<lambda>m. PStr (snd m)) matched)) (PList expected))
       ''theorem source declaration order differs from manifest before type-digest verification'' []) (\<lambda>_.
     bindE (requireG (set expected = PStr ` set (map fst digests)) ''expected theorem type-digest registry coverage drift'' []) (\<lambda>_.
     eachE (\<lambda>(declaration, block).
       bindE (type_digest sha256 block declaration) (\<lambda>actual.
       requireG (lookup digests declaration = Some actual) ''theorem type/source digest drift for '' declaration))
       (theorem_blocks code matched))))))"

end
