(* ===== verification/Formal_Checks.thy ===== *)
theory Formal_Checks
  imports Formal_Gate
begin

text \<open>
  The checks of the phase 10 gate that compare documents: the policy of the manifest, the frozen target, the
  retained report, the toolchain, state and claims of \<open>tools/validate_phase10_gate_base.py\<close>, the locked
  documents and the closed syntax of \<open>tools/validate_phase10_gate_round9.py\<close>.
\<close>

section \<open>Reading documents\<close>

text \<open>\<open>v.get(...)\<close> of a value needs a dictionary; \<open>d.get(k, {})\<close> is read in the same way.\<close>

definition as_dict :: "pyval \<Rightarrow> pydict result" where
  "as_dict v = (case v of PDict d \<Rightarrow> Inr d | _ \<Rightarrow> Inl AttributeError)"

definition sub_dict :: "pydict \<Rightarrow> string \<Rightarrow> pydict result" where
  "sub_dict d k = as_dict (dget_or d k (PDict []))"

text \<open>Successive \<open>require\<close> with conditions that cannot raise.\<close>

definition checks :: "(bool \<times> string) list \<Rightarrow> unit result" where
  "checks cs = eachE (\<lambda>(ok, code). requireG ok code []) cs"

definition is_true :: "pydict \<Rightarrow> string \<Rightarrow> bool" where "is_true d k \<longleftrightarrow> dget d k = PBool True"
definition is_false :: "pydict \<Rightarrow> string \<Rightarrow> bool" where "is_false d k \<longleftrightarrow> dget d k = PBool False"
definition equals :: "pydict \<Rightarrow> string \<Rightarrow> pyval \<Rightarrow> bool" where "equals d k v \<longleftrightarrow> py_eq (dget d k) v"

text \<open>\<open>{key: d.get(key) for key in expected} == expected\<close>\<close>

definition restricted :: "pydict \<Rightarrow> pydict \<Rightarrow> pydict" where
  "restricted d expected = map (\<lambda>(k, _). (k, case lookup d k of None \<Rightarrow> PNone | Some v \<Rightarrow> v)) expected"

definition has_values :: "pydict \<Rightarrow> pydict \<Rightarrow> bool" where
  "has_values d expected \<longleftrightarrow> py_eq (PDict (restricted d expected)) (PDict expected)"

definition load_json :: "gate_world \<Rightarrow> pystr \<Rightarrow> pyval result" where
  "load_json w path = bindE (gw_text w path) (gw_loads w)"

definition load_dict :: "gate_world \<Rightarrow> pystr \<Rightarrow> pydict result" where
  "load_dict w path = bindE (load_json w path) as_dict"

definition git_is :: "gate_world \<Rightarrow> pystr list \<Rightarrow> pystr \<Rightarrow> string \<Rightarrow> unit result" where
  "git_is w args expected code = bindE (gw_git w args) (\<lambda>actual. requireG (actual = expected) code [])"

text \<open>A set of values that is compared with a set of strings.\<close>

definition hashed :: "pyval \<Rightarrow> pyval result" where
  "hashed v = (if hashable v then Inr v else Inl TypeError)"

definition strings :: "string list \<Rightarrow> pyval set" where "strings xs = (\<lambda>x. PS x) ` set xs"

section \<open>Constants\<close>

definition MANIFEST_PATH :: pystr where "MANIFEST_PATH = lit ''machine/lean-phase10-manifest.json''"
definition MANIFEST_SCHEMA_PATH :: pystr where "MANIFEST_SCHEMA_PATH = lit ''schemas/lean-phase10-manifest-v1.schema.json''"
definition STATE_PATH :: pystr where "STATE_PATH = lit ''state/phase10.json''"
definition CLAIMS_PATH :: pystr where "CLAIMS_PATH = lit ''claims/phase10.json''"
definition REPORT_PATH :: pystr where
  "REPORT_PATH = lit ''evidence/phase10/moriarty-report-c953463724cdf218802e66e16f582ae8d600ca47.json''"
definition TARGET_COMMIT :: pystr where "TARGET_COMMIT = lit ''c953463724cdf218802e66e16f582ae8d600ca47''"
definition TARGET_TREE :: pystr where "TARGET_TREE = lit ''93f23cd7eda6dd92ae13b7bb96bee01935b80731''"
definition LEAN_TOOLCHAIN :: pystr where "LEAN_TOOLCHAIN = lit ''leanprover/lean4:v4.33.1''"
definition LEAN_ARCHIVE_SHA256 :: pystr where
  "LEAN_ARCHIVE_SHA256 = lit ''890afd185370f85666025b883914ab4f4b339136f8c96167b69cfb62aecaf235''"
definition REPORT_SHA256 :: pystr where
  "REPORT_SHA256 = lit ''6c215f44a1c52aa3bfefadc4039013ea69ddbe0f2afd06f6dac27377369b185c''"

definition EXPECTED_RELEASE :: pydict where
  "EXPECTED_RELEASE = pd [
    (''id'', PInt 377808649), (''tag'', PStr TARGET_TAG), (''immutable'', PBool True), (''commit'', PStr TARGET_COMMIT),
    (''tree'', PStr TARGET_TREE), (''published_at'', PS ''2026-08-27T12:35:21Z'')]"

definition EXPECTED_BINDING :: pydict where
  "EXPECTED_BINDING = pd [
    (''protocol'', PS ''MORIARTY/1''), (''workflow_run'', PInt 33069191846), (''run_number'', PInt 413),
    (''artifact_id'', PInt 9645064099),
    (''artifact_digest'', PS ''sha256:1c77cb56e83a0af19961e9f3c99d3ace02f6dd905655dc64b36aa90d46e9d9ce''),
    (''report_path'', PS ''evidence/phase10/moriarty-report-c953463724cdf218802e66e16f582ae8d600ca47.json''),
    (''report_sha256'', PS ''sha256:6c215f44a1c52aa3bfefadc4039013ea69ddbe0f2afd06f6dac27377369b185c''),
    (''target_commit'', PStr TARGET_COMMIT),
    (''corpus_ref'', PS ''sha256:af50e8145a72a1a583ede29687535a59c0e17ac37fdd66e1ede51c453e8fd3e6''), (''family_count'', PInt 15),
    (''executed_probe_count'', PInt 13), (''unresolved_counterexamples'', PInt 0), (''graduated'', PBool True),
    (''security_proof'', PBool False)]"

definition EXPECTED_REPORT :: pydict where
  "EXPECTED_REPORT = pd [
    (''protocol'', PS ''MORIARTY/1''), (''schema'', PS ''moriarty-report/1''), (''target_commit'', PStr TARGET_COMMIT),
    (''corpus_ref'', PS ''sha256:af50e8145a72a1a583ede29687535a59c0e17ac37fdd66e1ede51c453e8fd3e6''), (''family_count'', PInt 15),
    (''executed_probe_count'', PInt 13), (''unresolved_counterexamples'', PInt 0), (''graduated'', PBool True),
    (''security_proof'', PBool False), (''no_counterexample_found_implies_none_exist'', PBool False),
    (''production_credentials_used'', PBool False), (''production_targets_used'', PBool False),
    (''constitutional_bypass_used'', PBool False), (''authority_effect'', PS ''none'')]"

definition EXPECTED_PROBE_IDS :: "string list" where
  "EXPECTED_PROBE_IDS = [''constitution'', ''phase0'', ''phase1'', ''phase2'', ''phase3'', ''phase4'', ''phase5a'', ''phase5'',
     ''phase5c'', ''phase6'', ''phase7'', ''phase8'', ''rust_all'']"

definition EXPECTED_LAKEFILE :: pyval where
  "EXPECTED_LAKEFILE = PDict (pd [(''name'', PS ''qsol-fed-formal''), (''version'', PS ''0.11.0''),
     (''defaultTargets'', PList [PS ''QSOLFed'']), (''lean_lib'', PList [PDict (pd [(''name'', PS ''QSOLFed'')])])])"

definition EXPECTED_STATE_NON_CLAIMS :: pydict where
  "EXPECTED_STATE_NON_CLAIMS = pd [
    (''deployment_security_proof'', PBool False), (''whole_rust_implementation_verified'', PBool False),
    (''canonicalizer_implementation_verified'', PBool False), (''sha256_collision_resistance_proved'', PBool False),
    (''host_or_vm_isolation_proved'', PBool False), (''real_world_principal_uniqueness_proved'', PBool False),
    (''moriarty_exhaustiveness_proved'', PBool False)]"

definition EXPECTED_FORMALIZATION_LAYER :: pydict where
  "EXPECTED_FORMALIZATION_LAYER = pd [
    (''post_tag'', PBool True), (''rewrites_source_release'', PBool False), (''lean_toolchain'', PS ''leanprover/lean4:v4.33.1''),
    (''lean_archive_sha256'', PS ''890afd185370f85666025b883914ab4f4b339136f8c96167b69cfb62aecaf235''),
    (''external_lean_dependencies'', PList []), (''lake_package'', PS ''qsol-fed-formal''), (''root_module'', PS ''QSOLFed''),
    (''model'', PS ''QSOLFed/Model.lean''), (''graduation_theorems'', PS ''QSOLFed/Theorems.lean''),
    (''axiom_audit'', PS ''QSOLFed/AxiomAudit.lean''), (''manifest'', PS ''machine/lean-phase10-manifest.json''),
    (''manifest_schema'', PS ''schemas/lean-phase10-manifest-v1.schema.json''),
    (''gate_validator'', PS ''tools/validate_phase10_gate.py''), (''workflow'', PS ''.github/workflows/phase10-lean.yml''),
    (''documentation'', PS ''FORMALIZATION.md'')]"

definition EXPECTED_EVIDENCE :: pydict where
  "EXPECTED_EVIDENCE = pd [
    (''workflow_run'', PInt 33069191846), (''run_number'', PInt 413), (''artifact_id'', PInt 9645064099),
    (''artifact_zip_digest'', PS ''sha256:1c77cb56e83a0af19961e9f3c99d3ace02f6dd905655dc64b36aa90d46e9d9ce''),
    (''retained_report'', PS ''evidence/phase10/moriarty-report-c953463724cdf218802e66e16f582ae8d600ca47.json''),
    (''retained_report_sha256'', PS ''sha256:6c215f44a1c52aa3bfefadc4039013ea69ddbe0f2afd06f6dac27377369b185c''),
    (''target_commit'', PStr TARGET_COMMIT),
    (''corpus_ref'', PS ''sha256:af50e8145a72a1a583ede29687535a59c0e17ac37fdd66e1ede51c453e8fd3e6''), (''family_count'', PInt 15),
    (''executed_probe_count'', PInt 13), (''unresolved_counterexamples'', PInt 0), (''graduated'', PBool True),
    (''security_proof'', PBool False)]"

definition EXPECTED_ASSUMPTIONS :: pyval where
  "EXPECTED_ASSUMPTIONS = PList [PDict (pd [
    (''id'', PS ''MODEL_SCOPE''),
    (''statement'', PS ''Lean definitions are an abstract formalization of stated v0.11.0 contract semantics; correspondence to every implementation path remains an external verification obligation.'')]), PDict (pd [
    (''id'', PS ''CANONICAL_BYTES_INPUT''),
    (''statement'', PS ''canonical_identity_deterministic assumes the compared canonical byte sequences are equal; it does not prove canonicalizer implementation correctness or SHA-256 collision resistance.'')]), PDict (pd [
    (''id'', PS ''REAL_WORLD_PRINCIPALS''),
    (''statement'', PS ''real-world principal uniqueness, deployment hardening, host isolation and operational credential hygiene are outside the theorem model unless explicitly represented.'')])]"

section \<open>The manifest\<close>

definition verify_manifest_schema :: "gate_world \<Rightarrow> pyval \<Rightarrow> pydict result" where
  "verify_manifest_schema w manifest =
     bindE (load_json w MANIFEST_SCHEMA_PATH) (\<lambda>schema.
     bindE (as_dict schema) (\<lambda>s.
     bindE (requireG (equals s ''$schema'' (PS ''https://json-schema.org/draft/2020-12/schema'')) ''Phase 10 manifest schema draft drift'' []) (\<lambda>_.
     bindE (validate_schema (gw_float w) (gw_re_search w) base_gate manifest schema (lit ''$'')) (\<lambda>_. Inr s))))"

text \<open>The status of the merged main branch needs the context of the push that merged it.\<close>

definition push_context :: "gate_world \<Rightarrow> unit result" where
  "push_context w =
     bindE (checks [(gw_env w (lit ''GITHUB_EVENT_NAME'') = Some (lit ''push''), ''merged-main status requires GitHub push context''),
       (gw_env w (lit ''GITHUB_REF'') = Some (lit ''refs/heads/main''), ''merged-main status requires refs/heads/main'')]) (\<lambda>_.
     let event_sha = (case gw_env w (lit ''GITHUB_SHA'') of None \<Rightarrow> [] | Some sha \<Rightarrow> sha) in
     bindE (requireG (rx_match SHA1_HEX event_sha) ''merged-main status requires exact GitHub SHA'' []) (\<lambda>_.
     git_is w [lit ''rev-parse'', lit ''HEAD''] event_sha ''merged-main status SHA differs from checked-out commit''))"

definition verify_manifest_policy :: "gate_world \<Rightarrow> pydict \<Rightarrow> unit result" where
  "verify_manifest_policy w m =
     bindE (checks [(equals m ''schema'' (PS ''qsol-fed-lean-phase10-manifest/1''), ''manifest schema drift''),
       (equals m ''protocol'' (PS ''qsol-fed/0'') \<and> equals m ''phase'' (PInt 10), ''manifest protocol/phase drift'')]) (\<lambda>_.
     let status = dget m ''status''; assumptions = dget m ''assumptions'' in
     bindE (in_strs status (map lit [''IMPLEMENTED_PENDING_CI'', ''LEAN_VERIFIED_ON_BRANCH'', ''LEAN_VERIFIED_ON_MERGED_MAIN''])) (\<lambda>ok.
     bindE (requireG ok ''manifest verification status drift'' []) (\<lambda>_.
     bindE (if status = PS ''LEAN_VERIFIED_ON_MERGED_MAIN'' then push_context w else Inr ()) (\<lambda>_.
     bindE (if is_list assumptions
       then bindE (mapE (\<lambda>x. bindE (vget x ''id'') hashed) (items_of assumptions)) (\<lambda>ids.
         Inr (set ids = strings [''MODEL_SCOPE'', ''CANONICAL_BYTES_INPUT'', ''REAL_WORLD_PRINCIPALS'']))
       else Inr False) (\<lambda>ok.
     bindE (requireG ok ''named assumptions drift'' []) (\<lambda>_.
     bindE (bindE (iterate (dget_or m ''nonclaims'' (PList []))) (mapE hashed)) (\<lambda>nonclaims.
     bindE (requireG (strings [''LEAN_THEOREM != DEPLOYMENT_SECURITY_PROOF'', ''FORMAL_MODEL != UNSTATED_REAL_WORLD_ASSUMPTION'',
       ''LEAN_MODEL != COMPLETE_RUST_IMPLEMENTATION_VERIFICATION'', ''MORIARTY_REPORT != SECURITY_PROOF'',
       ''TARGET_BOUND_SOURCE_RELEASE != POST_TAG_FORMALIZATION_LAYER''] \<subseteq> set nonclaims) ''formalization nonclaim boundary drift'' []) (\<lambda>_.
     bindE (sub_dict m ''graduation_requirements'') (\<lambda>graduation.
     checks [(is_true graduation ''no_unresolved_sorry_or_admit'', ''placeholder prohibition missing''),
       (is_true graduation ''named_assumptions_required'', ''named assumption requirement missing''),
       (is_true graduation ''theorem_to_contract_traceability_required'', ''traceability requirement missing''),
       (is_true graduation ''clean_checkout_build_required'', ''clean checkout build requirement missing''),
       (equals graduation ''custom_axioms_allowed'' (PList []), ''custom axioms must not be admitted'')])))))))))"

section \<open>The frozen release and its report\<close>

definition verify_frozen_target :: "gate_world \<Rightarrow> pydict \<Rightarrow> unit result" where
  "verify_frozen_target w m =
     bindE (git_is w [lit ''cat-file'', lit ''-t'', TARGET_COMMIT] (lit ''commit'') ''frozen target is not a commit object'') (\<lambda>_.
     bindE (git_is w [lit ''rev-parse'', TARGET_TAG @ lit ''^{commit}''] TARGET_COMMIT ''v0.11.0 does not resolve to frozen target commit'') (\<lambda>_.
     bindE (git_is w [lit ''cat-file'', lit ''-t'', TARGET_TAG] (lit ''commit'') ''v0.11.0 is not a direct commit tag ref'') (\<lambda>_.
     bindE (git_is w [lit ''rev-parse'', TARGET_COMMIT @ lit ''^{tree}''] TARGET_TREE ''frozen target tree drift'') (\<lambda>_.
     bindE (sub_dict m ''source_release'') (\<lambda>release.
     requireG (has_values release EXPECTED_RELEASE) ''manifest frozen release identity drift'' [])))))"

definition probe_ok :: "pyval \<Rightarrow> bool result" where
  "probe_ok item = bindE (as_dict item) (\<lambda>d. Inr (is_true d ''ok'' \<and> equals d ''exit_code'' (PInt 0) \<and> dget d ''failure_kind'' = PNone))"

definition verify_retained_report :: "pydict \<Rightarrow> unit result" where
  "verify_retained_report report =
     (let probes = dget report ''probe_results'' in
      bindE (checks [(has_values report EXPECTED_REPORT, ''retained MORIARTY report semantic drift''),
        (equals report ''counterexamples'' (PList []) \<and> equals report ''remediation_replays'' (PList []),
          ''retained MORIARTY report counterexample/replay drift''),
        (is_list probes \<and> length (items_of probes) = 13, ''retained MORIARTY probe inventory drift'')]) (\<lambda>_.
      bindE (mapE (\<lambda>item. hashed (dget (dict_of item) ''probe_id'')) (filter is_dict (items_of probes))) (\<lambda>ids.
      bindE (requireG (set ids = strings EXPECTED_PROBE_IDS) ''retained MORIARTY probe ID drift'' []) (\<lambda>_.
      bindE (everyE probe_ok (items_of probes)) (\<lambda>ok. requireG ok ''retained MORIARTY probe failure'' [])))))"

definition verify_moriarty_binding :: "gate_world \<Rightarrow> pydict \<Rightarrow> unit result" where
  "verify_moriarty_binding w m =
     bindE (sub_dict m ''moriarty_binding'') (\<lambda>binding.
     bindE (checks [(has_values binding EXPECTED_BINDING, ''MORIARTY binding drift''),
       (gw_is_file w REPORT_PATH, ''retained MORIARTY report missing'')]) (\<lambda>_.
     bindE (gw_bytes w REPORT_PATH) (\<lambda>report_bytes.
     bindE (requireG (hexdigest (gw_sha256 w report_bytes) = REPORT_SHA256) ''retained MORIARTY report SHA-256 drift'' []) (\<lambda>_.
     bindE (utf8_decode report_bytes) (\<lambda>source.
     bindE (gw_loads w source) (\<lambda>report.
     bindE (as_dict report) verify_retained_report))))))"

section \<open>State and claims\<close>

definition loads_or :: "gate_world \<Rightarrow> string \<Rightarrow> pystr \<Rightarrow> pyval result" where
  "loads_or w code source = (case gw_loads w source of Inl JSONDecodeError \<Rightarrow> Inl (GateErrorFor code []) | r \<Rightarrow> r)"

definition verify_state_contract :: "nat \<Rightarrow> pydict \<Rightarrow> unit result" where
  "verify_state_contract count state =
     bindE (requireG (equals state ''document_type'' (PS ''qsol-fed-phase10-lean-contract'') \<and> equals state ''phase'' (PS ''10''))
       ''Phase 10 state contract identity drift'' []) (\<lambda>_.
     bindE (sub_dict state ''source_release'') (\<lambda>source.
     bindE (requireG (equals source ''tag'' (PStr TARGET_TAG) \<and> equals source ''commit'' (PStr TARGET_COMMIT) \<and>
       equals source ''tree'' (PStr TARGET_TREE) \<and> is_true source ''immutable'') ''Phase 10 state source release drift'' []) (\<lambda>_.
     bindE (sub_dict state ''theorem_scope'') (\<lambda>scope.
     bindE (checks [(equals scope ''theorem_count'' (PInt (int count)), ''Phase 10 state theorem count drift''),
       (is_true scope ''no_sorry_or_admit'' \<and> equals scope ''custom_axioms'' (PList []) \<and>
         equals scope ''kernel_axiom_dependencies'' (PList []), ''Phase 10 state proof-discipline drift'')]) (\<lambda>_.
     bindE (sub_dict state ''moriarty_source_evidence'') (\<lambda>evidence.
     requireG (equals evidence ''retained_report'' (PStr REPORT_PATH) \<and>
       equals evidence ''retained_report_sha256'' (PStr (lit ''sha256:'' @ REPORT_SHA256)))
       ''Phase 10 state MORIARTY report binding drift'' []))))))"

text \<open>\<open>expected_adversarial\<close>\<close>

definition expected_adversarial :: "pydict \<Rightarrow> pydict" where
  "expected_adversarial frozen = pd [
     (''moriarty_protocol'', dget frozen ''moriarty_protocol''), (''exact_commit_binding'', dget frozen ''exact_commit_binding''),
     (''source_release'', PStr TARGET_TAG), (''source_commit'', PStr TARGET_COMMIT), (''source_tree'', PStr TARGET_TREE),
     (''source_release_immutable'', PBool True), (''graduated'', PBool True), (''security_proof'', dget frozen ''report_is_security_proof''),
     (''no_counterexample_found_means_none_exist'', dget frozen ''no_counterexample_found_means_none_exist''),
     (''authority_effect'', dget frozen ''authority_effect'')]"

definition verify_claims_contract :: "nat \<Rightarrow> pydict \<Rightarrow> pyval \<Rightarrow> pyval \<Rightarrow> pyval \<Rightarrow> unit result" where
  "verify_claims_contract count claims phase9_claims phase8_claims frozen_phase9_claims =
     bindE (checks [(equals claims ''document_type'' (PS ''qsol-fed-phase10-lean-claims'') \<and> equals claims ''phase'' (PS ''10''),
         ''Phase 10 claim identity drift''),
       (is_false claims ''runtime_override_allowed'', ''Phase 10 runtime constitutional override must remain forbidden''),
       (is_false claims ''claim_surface_changed'', ''Phase 10 must not change runtime capability claims'')]) (\<lambda>_.
     bindE (as_dict frozen_phase9_claims) (\<lambda>frozen.
     let capabilities = dget frozen ''capabilities''; adversarial = dget frozen ''assurance'' in
     bindE (checks [(is_dict capabilities, ''frozen Phase 9 capability baseline missing''),
       (equals claims ''capabilities'' capabilities, ''Phase 10 capability map differs from immutable v0.11.0 Phase 9 baseline'')]) (\<lambda>_.
     bindE (as_dict phase9_claims) (\<lambda>phase9.
     bindE (requireG (equals phase9 ''capabilities'' capabilities) ''working Phase 9 capability map differs from immutable v0.11.0 baseline'' []) (\<lambda>_.
     bindE (as_dict phase8_claims) (\<lambda>phase8.
     bindE (checks [(equals phase8 ''capabilities'' capabilities, ''working Phase 8 capability map differs from immutable v0.11.0 baseline''),
       (is_dict adversarial, ''frozen Phase 9 adversarial assurance baseline missing''),
       (equals claims ''adversarial_assurance'' (PDict (expected_adversarial (dict_of adversarial))),
         ''Phase 10 adversarial assurance differs from immutable v0.11.0 Phase 9 assurance boundary'')]) (\<lambda>_.
     bindE (sub_dict claims ''formalization_assurance'') (\<lambda>assurance.
     checks [(equals assurance ''theorem_count'' (PInt (int count)), ''Phase 10 formalization assurance theorem count drift''),
       (is_false assurance ''unresolved_sorry_or_admit'' \<and> is_false assurance ''custom_axioms'' \<and>
         is_false assurance ''graduation_theorem_kernel_axiom_dependencies'', ''Phase 10 formalization assurance proof-discipline drift''),
       (is_false assurance ''whole_implementation_verified'' \<and> is_false assurance ''deployment_security_proof'' \<and>
         is_false assurance ''source_release_rewritten'' \<and> is_false assurance ''formalization_creates_authority'',
         ''Phase 10 formalization assurance overclaim'')]))))))))"

definition verify_schema_contract :: "nat \<Rightarrow> pydict \<Rightarrow> pydict \<Rightarrow> unit result" where
  "verify_schema_contract count m schema =
     bindE (requireG (equals schema ''$id'' (PS ''https://qsol.example/schemas/lean-phase10-manifest-v1.schema.json''))
       ''Phase 10 manifest schema ID drift'' []) (\<lambda>_.
     bindE (sub_dict schema ''properties'') (\<lambda>properties.
     bindE (sub_dict properties ''theorem_count'') (\<lambda>declared.
     bindE (requireG (equals declared ''const'' (PInt (int count))) ''Phase 10 manifest schema theorem count drift'' []) (\<lambda>_.
     bindE (sub_dict properties ''status'') (\<lambda>status.
     bindE (contains_value (dget m ''status'') (dget_or status ''enum'' (PList []))) (\<lambda>found.
     bindE (requireG found ''Phase 10 manifest status not admitted by schema'' []) (\<lambda>_.
     bindE (sub_dict properties ''moriarty_binding'') (\<lambda>binding.
     bindE (sub_dict binding ''properties'') (\<lambda>inner.
     bindE (sub_dict inner ''report_sha256'') (\<lambda>report.
     requireG (equals report ''const'' (PStr (lit ''sha256:'' @ REPORT_SHA256))) ''Phase 10 manifest schema report digest drift'' []))))))))))"

definition texts_in :: "string \<Rightarrow> pystr list \<Rightarrow> pystr \<Rightarrow> unit result" where
  "texts_in code texts doc = eachE (\<lambda>t. requireG (contains_sub doc t) code t) texts"

definition verify_phase10_contracts :: "gate_world \<Rightarrow> nat \<Rightarrow> pydict \<Rightarrow> pydict \<Rightarrow> unit result" where
  "verify_phase10_contracts w count m schema =
     bindE (load_json w STATE_PATH) (\<lambda>state.
     bindE (load_json w CLAIMS_PATH) (\<lambda>claims.
     bindE (load_json w (lit ''claims/phase9.json'')) (\<lambda>phase9_claims.
     bindE (load_json w (lit ''claims/phase8.json'')) (\<lambda>phase8_claims.
     bindE (bindE (gw_git w [lit ''show'', TARGET_TAG @ lit '':claims/phase9.json'']) (loads_or w ''frozen Phase 9 claims invalid JSON'')) (\<lambda>frozen.
     bindE (bindE (as_dict state) (verify_state_contract count)) (\<lambda>_.
     bindE (bindE (as_dict claims) (\<lambda>c. verify_claims_contract count c phase9_claims phase8_claims frozen)) (\<lambda>_.
     bindE (verify_schema_contract count m schema) (\<lambda>_.
     bindE (gw_text w (lit ''FORMALIZATION.md'')) (\<lambda>docs.
     texts_in ''FORMALIZATION.md missing boundary/source text: '' [TARGET_TAG, TARGET_COMMIT, TARGET_TREE,
       lit ''LEAN THEOREM != DEPLOYMENT SECURITY PROOF'', lit ''TARGET_BOUND SOURCE RELEASE != POST-TAG FORMALIZATION LAYER''] docs)))))))))"

section \<open>Toolchain and roadmap\<close>

definition verify_toolchain :: "gate_world \<Rightarrow> pydict \<Rightarrow> unit result" where
  "verify_toolchain w m =
     bindE (gw_text w (lit ''lean-toolchain'')) (\<lambda>pinned.
     bindE (requireG (strip pinned = LEAN_TOOLCHAIN) ''lean-toolchain drift'' []) (\<lambda>_.
     bindE (sub_dict m ''toolchain'') (\<lambda>toolchain.
     bindE (checks [(equals toolchain ''lean'' (PS ''v4.33.1''), ''manifest Lean version drift''),
       (equals toolchain ''lean_toolchain'' (PStr LEAN_TOOLCHAIN), ''manifest lean-toolchain drift''),
       (equals toolchain ''archive_sha256'' (PStr LEAN_ARCHIVE_SHA256), ''manifest Lean archive checksum drift''),
       (equals toolchain ''external_dependencies'' (PList []), ''Phase 10 must remain dependency-free beyond Lean core''),
       (gw_is_file w (lit ''lakefile.toml''), ''lakefile.toml missing'')]) (\<lambda>_.
     bindE (gw_text w (lit ''lakefile.toml'')) (\<lambda>source.
     bindE (case gw_toml w source of Inl TOMLDecodeError \<Rightarrow> Inl (GateErrorFor ''lakefile.toml invalid'' []) | r \<Rightarrow> r) (\<lambda>lakefile.
     bindE (requireG (json_equal (gw_float w) lakefile EXPECTED_LAKEFILE) ''lakefile dependency/configuration drift'' []) (\<lambda>_.
     if \<not> gw_exists w (lit ''lake-manifest.json'') then Inr ()
     else bindE (load_dict w (lit ''lake-manifest.json'')) (\<lambda>resolved.
       requireG (equals resolved ''packages'' (PList [])) ''resolved Lake dependency graph is not empty'' []))))))))"

definition verify_frozen_roadmap_contract :: "gate_world \<Rightarrow> unit result" where
  "verify_frozen_roadmap_contract w =
     bindE (gw_git w [lit ''show'', TARGET_TAG @ lit '':ROADMAP.md'']) (\<lambda>roadmap.
     texts_in ''frozen Phase 10 ROADMAP contract missing: ''
       [lit ''Phase 10 '' @ [0x2014] @ lit '' Lean 4 formalization'', lit ''Prime Directive admission'',
        lit ''signature/trust/authority separation'', lit ''transport identity/provenance independence'',
        lit ''No unresolved `so'' @ lit ''rry`/`admit` is permitted in the graduation theorem set'',
        lit ''assumptions must be named and theorem-to-contract traceability complete'',
        lit ''LEAN THEOREM != DEPLOYMENT SECURITY PROOF'', lit ''FORMAL MODEL != UNSTATED REAL-WORLD ASSUMPTION''] roadmap)"

section \<open>The locked documents of round 9\<close>

definition LEGACY_GATE_BLOB :: pystr where "LEGACY_GATE_BLOB = lit ''ced7c981daf3a71ba6d7736755e0154bd7414ade''"

text \<open>A validator snapshot is there and has its identity in the checked-out commit.\<close>

definition verify_snapshot :: "gate_world \<Rightarrow> pystr \<Rightarrow> pystr \<Rightarrow> string \<Rightarrow> unit result" where
  "verify_snapshot w path blob name =
     bindE (requireG (gw_is_file w path) (''frozen '' @ name @ '' validator snapshot missing'') []) (\<lambda>_.
     git_is w [lit ''rev-parse'', lit ''HEAD:'' @ path] blob (''frozen '' @ name @ '' validator snapshot blob drift''))"

definition verify_legacy_gate_snapshot :: "gate_world \<Rightarrow> unit result" where
  "verify_legacy_gate_snapshot w = verify_snapshot w (lit ''tools/validate_phase10_gate_base.py'') LEGACY_GATE_BLOB ''round-6''"

definition verify_state_evidence_locked :: "gate_world \<Rightarrow> unit result" where
  "verify_state_evidence_locked w = bindE (load_dict w STATE_PATH) (\<lambda>state.
     requireG (equals state ''moriarty_source_evidence'' (PDict EXPECTED_EVIDENCE))
       ''Phase 10 state MORIARTY evidence object differs from the frozen non-security-proof boundary'' [])"

definition verify_state_nonclaims_locked :: "gate_world \<Rightarrow> unit result" where
  "verify_state_nonclaims_locked w = bindE (load_dict w STATE_PATH) (\<lambda>state.
     requireG (equals state ''non_claims'' (PDict EXPECTED_STATE_NON_CLAIMS)) ''Phase 10 state non-claim boundary drift'' [])"

definition verify_state_formalization_layer_locked :: "gate_world \<Rightarrow> pydict \<Rightarrow> unit result" where
  "verify_state_formalization_layer_locked w layer = bindE (load_dict w STATE_PATH) (\<lambda>state.
     requireG (equals state ''formalization_layer'' (PDict layer)) ''Phase 10 formalization-layer state drift'' [])"

definition verify_assumption_statements_locked :: "gate_world \<Rightarrow> unit result" where
  "verify_assumption_statements_locked w = bindE (load_dict w MANIFEST_PATH) (\<lambda>manifest.
     requireG (equals manifest ''assumptions'' EXPECTED_ASSUMPTIONS) ''Phase 10 named assumption ID/statement mapping drift'' [])"

section \<open>The closed syntax of round 9\<close>

definition theorems_code :: "gate_world \<Rightarrow> pystr result" where
  "theorems_code w = bindE (gw_text w THEOREMS_PATH) (lean_code_only THEOREMS_PATH)"

text \<open>What follows the blanks at the start of a line and a word, if the word is there.\<close>

definition after_keyword :: "string \<Rightarrow> pystr \<Rightarrow> pystr option" where
  "after_keyword word line =
     (let rest = dropWhile (\<lambda>c. c = 9 \<or> c = 32) line in
      if starts_with rest (lit word) then Some (drop (length word) rest) else None)"

text \<open>\<open>^[ \t]*word(?:[ \t]|$)\<close> at the start of a line\<close>

definition opens_with :: "string \<Rightarrow> pystr \<Rightarrow> bool" where
  "opens_with word line = (case after_keyword word line of None \<Rightarrow> False | Some rest \<Rightarrow> rest = [] \<or> hd rest = 9 \<or> hd rest = 32)"

definition namespace_line_ok :: "nat \<times> pystr \<Rightarrow> unit result" where
  "namespace_line_ok numbered = (case numbered of (line_number, line) \<Rightarrow>
     bindE (requireG (opens_with ''namespace'' line \<longrightarrow> namespace_open line \<noteq> None)
       ''unsupported Lean namespace syntax in QSOLFed/Theorems.lean:'' (show_nat line_number)) (\<lambda>_.
     requireG (opens_with ''end'' line \<longrightarrow> namespace_end line \<noteq> None)
       ''unsupported Lean namespace end syntax in QSOLFed/Theorems.lean:'' (show_nat line_number)))"

definition verify_namespace_syntax_fail_closed :: "gate_world \<Rightarrow> unit result" where
  "verify_namespace_syntax_fail_closed w =
     bindE (theorems_code w) (\<lambda>code.
     bindE (requireG (0xAB \<notin> set code \<and> 0xBB \<notin> set code) ''quoted Lean identifiers are not admitted in QSOLFed/Theorems.lean'' []) (\<lambda>_.
     eachE namespace_line_ok (enumerate 1 (splitlines code))))"

text \<open>\<open>THEOREM_CONTEXT_RE.search\<close>\<close>

definition CONTEXT_WORDS :: "string list" where "CONTEXT_WORDS = [''section'', ''variable'', ''variables'', ''include'', ''omit'']"

definition context_line :: "(nat \<Rightarrow> bool) \<Rightarrow> pystr \<Rightarrow> bool" where
  "context_line uni line \<longleftrightarrow>
     list_ex (\<lambda>word. case after_keyword word line of None \<Rightarrow> False | Some rest \<Rightarrow> word_end uni rest) CONTEXT_WORDS"

definition verify_theorem_context_fail_closed :: "gate_world \<Rightarrow> unit result" where
  "verify_theorem_context_fail_closed w =
     bindE (theorems_code w) (\<lambda>code.
     requireG (\<not> list_ex (context_line (gw_uni w)) (split_all 10 code))
       ''section/variable/include/omit theorem context commands are not admitted in QSOLFed/Theorems.lean'' [])"

end
