(* ===== verification/Formal_Stack.thy ===== *)
theory Formal_Stack
  imports Formal_Checks "HOL-Library.AList"
begin

text \<open>
  The layers of the phase 10 gate: \<open>validate\<close> of \<open>tools/validate_phase10_gate_base.py\<close>, of the rounds 9, 10 and
  11 above it and of \<open>tools/validate_phase10_gate.py\<close> on top. Each layer calls the one below and changes
  its tables when it is imported; the tables are the record \<open>gate_tables\<close>. A file and an answer of git that
  are read twice are the same.
\<close>

section \<open>Tables\<close>

record gate_tables =
  gt_count :: nat
  gt_frozen :: "(pystr \<times> pystr) list"
  gt_registry :: registry
  gt_type_audit :: pystr
  gt_digests :: "(pystr \<times> pystr) list"
  gt_layer :: pydict
  gt_manifest_blob :: pystr
  gt_schema_blob :: pystr

text \<open>\<open>d.update(...)\<close>\<close>

definition dict_update :: "('k \<times> 'v) list \<Rightarrow> ('k \<times> 'v) list \<Rightarrow> ('k \<times> 'v) list" where
  "dict_update d kvs = foldl (\<lambda>d (k, v). AList.update k v d) d kvs"

definition EXPECTED_PROMOTION_REQUIREMENTS :: pydict where
  "EXPECTED_PROMOTION_REQUIREMENTS = pd [
    (''phase10_complete'', PS ''requires the formalization PR to be reviewed/merged and the exact merged main commit to pass the pinned Phase 10 Lean workflow with manifest, immutable-release, retained-MORIARTY-report, no-placeholder, and zero-kernel-axiom checks''),
    (''phase11_archival_publication'', PS ''requires a later deterministic archival bundle and offline verifier that bind source release, formalization tree, theorem manifest, retained MORIARTY evidence, machine contracts, schemas, hashes, release metadata and secret absence'')]"

definition EXPECTED_FORMALIZATION_ASSURANCE :: pydict where
  "EXPECTED_FORMALIZATION_ASSURANCE = pd [
    (''lean_version'', PS ''4.33.1''), (''pinned_toolchain'', PBool True), (''lean_archive_sha256_verified'', PBool True),
    (''external_lean_dependencies'', PBool False), (''theorem_manifest'', PS ''machine/lean-phase10-manifest.json''),
    (''theorem_manifest_schema'', PS ''schemas/lean-phase10-manifest-v1.schema.json''), (''theorem_count'', PInt 47),
    (''theorem_to_contract_traceability'', PBool True), (''named_assumptions'', PBool True),
    (''unresolved_sorry_or_admit'', PBool False), (''custom_axioms'', PBool False),
    (''graduation_theorem_kernel_axiom_dependencies'', PBool False), (''whole_implementation_verified'', PBool False),
    (''deployment_security_proof'', PBool False), (''source_release_rewritten'', PBool False),
    (''formalization_creates_authority'', PBool False)]"

definition EXPECTED_CURRENT_AI_PHASE10 :: pydict where
  "EXPECTED_CURRENT_AI_PHASE10 = pd [
    (''contract'', PS ''state/phase10.json''), (''assurance_manifest'', PS ''claims/phase10.json''),
    (''documentation'', PS ''FORMALIZATION.md''), (''theorem_manifest'', PS ''machine/lean-phase10-manifest.json''),
    (''theorem_manifest_schema'', PS ''schemas/lean-phase10-manifest-v1.schema.json''), (''model'', PS ''QSOLFed/Model.lean''),
    (''theorems'', PS ''QSOLFed/Theorems.lean''), (''type_audit'', PS ''QSOLFed/TypeAudit.lean''),
    (''axiom_audit'', PS ''QSOLFed/AxiomAudit.lean''), (''gate_validator'', PS ''tools/validate_phase10_gate.py''),
    (''workflow'', PS ''.github/workflows/phase10-lean.yml''), (''source_release'', PS ''v0.11.0''),
    (''source_commit'', PS ''c953463724cdf218802e66e16f582ae8d600ca47''),
    (''source_tree'', PS ''93f23cd7eda6dd92ae13b7bb96bee01935b80731''), (''source_release_immutable'', PBool True),
    (''retained_moriarty_report'', PS ''evidence/phase10/moriarty-report-c953463724cdf218802e66e16f582ae8d600ca47.json''),
    (''retained_moriarty_report_sha256'', PS ''sha256:6c215f44a1c52aa3bfefadc4039013ea69ddbe0f2afd06f6dac27377369b185c''),
    (''lean_version'', PS ''4.33.1''), (''theorem_count'', PInt 47), (''sorry_or_admit'', PBool False),
    (''custom_axioms'', PBool False), (''kernel_axiom_dependencies'', PBool False),
    (''whole_implementation_verified'', PBool False), (''deployment_security_proof'', PBool False),
    (''source_release_rewritten'', PBool False),
    (''formalization_merge_commit'', PS ''9bc0e33fc30ed14b5ca1a3bfbd2e7ecc5059452b''),
    (''formalization_merge_tree'', PS ''062ca7fd78c5ada08f0f54f7c822337e2fa081e0''),
    (''merged_main_phase10_workflow'', PDict (pd [
    (''run_id'', PInt 33198458502), (''run_number'', PInt 128), (''conclusion'', PS ''success'')])),
    (''merged_main_constitutional_moriarty_workflow'', PDict (pd [
    (''run_id'', PInt 33198458525), (''run_number'', PInt 471), (''conclusion'', PS ''success'')])),
    (''integration_claim_record_note'', PS ''claims/phase10.json is an exact reviewed Phase 10 input and retains its integration-time pre-merge gate_status. Live post-merge completion is evidenced by the formalization merge commit and exact merged-main workflows recorded here; the immutable v0.11.0 theorem target is not rewritten.''),
    (''zenodo_publication'', PDict (pd [
    (''version'', PS ''1.0.0''), (''doi'', PS ''10.5281/zenodo.22149263''),
    (''title'', PS ''QSOL-FED Lean 4 Formalization: Machine-Checked Constitutional and Protocol Separation Invariants''),
    (''citation'', PS ''Slade, T. (2026). QSOL-FED Lean 4 Formalization: Machine-Checked Constitutional and Protocol Separation Invariants (Version 1.0.0) [Computer software]. Zenodo. https://doi.org/10.5281/zenodo.22149263''),
    (''record_license'', PS ''Creative Commons Attribution 4.0 International (CC BY 4.0)''),
    (''repository_license'', PS ''Apache-2.0 unchanged'')]))]"

definition EXPECTED_CLAIM_RULE :: pystr where
  "EXPECTED_CLAIM_RULE = lit ''Phase 10 adds a post-tag Lean 4 formal model of selected v0.11.0 constitutional and protocol separation invariants. The Phase 8 capability map remains the runtime/protocol capability surface, Phase 9 remains the adversarial-assurance baseline, and Lean adds formalization assurance only. A compiled theorem proves its stated abstract model proposition under named assumptions; it is not a deployment security proof, whole-Rust verification, proof of SHA-256 collision resistance, or proof of unstated real-world assumptions.''"

definition PREIMPORT_BLOBS :: "(pystr \<times> pystr) list" where
  "PREIMPORT_BLOBS = map (\<lambda>(k, v). (lit k, lit v)) [
    (''tools/validate_phase10_gate_round11.py'', ''c9c86f38540077581cfa0aa4d80d899d271252ee''),
    (''tools/validate_phase10_gate_round10.py'', ''d40d56c9686821ce5379ecc45b75b65f7f5ffd68''),
    (''tools/validate_phase10_gate_round9.py'', ''a441500abae06b628e98b374a4181a294d6d5f56''),
    (''tools/validate_phase10_gate_base.py'', ''ced7c981daf3a71ba6d7736755e0154bd7414ade''),
    (''machine/lean-phase10-manifest.json'', ''178d2c21a236ee81048db866e230aaddb6c92497''),
    (''schemas/lean-phase10-manifest-v1.schema.json'', ''ce0fb2c46184c5323ca898d8a90517ea67537809''),
    (''state/phase10.json'', ''d167a8123cb0124fdd92e77dc4e8476b5de999af''),
    (''claims/phase10.json'', ''7e72230c93fc5ca27500fc41ed3f4523e734d52a''),
    (''FORMALIZATION.md'', ''2c5418755af2124f7547b08fd85539d558bd0139''),
    (''QSOLFed/Model.lean'', ''7cf071fe7e3787b63fe8979a9f925d7a70dbd7d8''),
    (''QSOLFed/Theorems.lean'', ''5d9bbceb06afcd973b01866c30d4b84ea50681fa''),
    (''QSOLFed/TypeAudit.lean'', ''56ca469c0bec3e8cfafcd62eaa0523f3040d6591'')]"

definition ROUND10_DIGESTS :: "(pystr \<times> pystr) list" where
  "ROUND10_DIGESTS = map (\<lambda>(k, v). (lit k, lit v)) [
    (''prime_directive_accepts_data_only'', ''fcc4124e0c3b88900b8db2e0a5063173986408601cca553180b27dffb56ceac2''),
    (''valid_signature_does_not_bypass_local_rejection'', ''d28a41822558488c3c9b883bb983143ce33ee5888a47b75f99a8a48d8509c18a''),
    (''import_does_not_create_local_authority'', ''23ba0fe094ffb68037c1f4c36c243b77e33e7071c877369dbe90e39601ec10ed'')]"

definition ROUND11_DIGESTS :: "(pystr \<times> pystr) list" where
  "ROUND11_DIGESTS = map (\<lambda>(k, v). (lit k, lit v)) [
    (''peering_does_not_create_trust'', ''0d3b49f3cb09c32c9a10830342f75a6d010dd49f0a2a9b62483f56ca2d47060b''),
    (''import_does_not_change_trust'', ''5aa4ca1087527ac3a7f578315e8d4f349e414096e17703997e9090415b060172''),
    (''sdk_conformance_does_not_create_authority'', ''cfb6e8c75f8b615304b7a289ff1d79f827d18bd72d5c325e100e7b5213f0498a'')]"

definition CURRENT_DIGESTS :: "(pystr \<times> pystr) list" where
  "CURRENT_DIGESTS = map (\<lambda>(k, v). (lit k, lit v)) [
    (''capability_requires_explicit_local_allow'', ''e60c688ec6f332d14731dc6c90b4e4a6f24e85a097e36b84ccf0794c2a684e90''),
    (''capability_requires_peer_admission'', ''3b0fa920a70f8d10d5e369f0dc0158bbf23176573b7f25863daf8f9c04e9d868''),
    (''capability_requires_authenticated_advertisement'', ''042695784603eca2d2e15948c04ba33ef6934363340d57235c2725f0abd51b69''),
    (''lifecycle_prefix_is_transitive'', ''5d2113da5b36a302a7384ab7006ab3a239a7aa53008080c5306f26257610f89e''),
    (''partition_rejoin_preserves_local_state'', ''109fa052bd16e7c585a149b6cf25ea3130ecfafc4b6c550384b7c72995f2595d''),
    (''changed_partition_snapshot_requires_reconciliation'', ''24889d6a84b6db02530d38093ec120984e3d551692c68437c05fd1155f53d3d9''),
    (''unchanged_partition_snapshot_needs_no_reconciliation'', ''46c929b18e9af25d88aad75db1dfd5b27aa0a68d1fb9c3d6baf146d6befd4c1a''),
    (''holodeck_transport_does_not_relabel_network_use'', ''35559f0ad94dea763a58444412f66ab246a1cb0f391b67f980c756d1b5e64698''),
    (''adapter_output_has_no_authority'', ''ce1cc5f6082375c4db24533a6309ffe9c5c6cd72bdad1cc95294bb82674deb82''),
    (''transport_preserves_authenticated_identity'', ''0dc323d439041369569dea51495ec26bb150425516d4d9e739ecb29c09b82607''),
    (''nat_route_does_not_create_trust'', ''907cb09baa56dca84f018f8e88c04d6163efe535ec225b36b1010fe1bec1a2c9''),
    (''nat_route_does_not_replace_identity'', ''2ac27a4039d888a1f37626f942b1b255d6ff1eebccc3eff7f3f81de85cfb6f72'')]"

definition ROUND11_CONTRACTS :: registry where
  "ROUND11_CONTRACTS = map contract [
    (''peer_admission_creates_trust=false'', ''state/phase4.json'', ''/trust_registry/peer_admission_creates_trust'', Equals, PBool False),
    (''bundle_import_trust_change=false'', ''state/phase4.json'', ''/portable_bundle/import_trust_change'', Equals, PBool False),
    (''sdk_promotes_evidence=false'', ''state/phase6.json'', ''/authority_boundary/sdk_promotes_evidence'', Equals, PBool False),
    (''sdk_installs_capabilities=false'', ''state/phase6.json'', ''/authority_boundary/sdk_installs_capabilities'', Equals, PBool False),
    (''sdk_creates_votes=false'', ''state/phase6.json'', ''/authority_boundary/sdk_creates_votes'', Equals, PBool False),
    (''sdk_mutates_governance=false'', ''state/phase6.json'', ''/authority_boundary/sdk_mutates_governance'', Equals, PBool False)]"

definition CURRENT_CONTRACTS :: registry where
  "CURRENT_CONTRACTS = map contract [
    (''capability_advertisement_maximum_lifetime_seconds=3600'', ''state/phase4.json'', ''/capability_advertisement/maximum_lifetime_seconds'', Equals, PInt 3600),
    (''revoked_reintroduction=reject'', ''state/phase4.json'', ''/peer_registry/revoked_reintroduction'', Equals, PS ''reject''),
    (''adapter_may_rewrite_history=false'', ''state/phase5.json'', ''/prime_directive/adapter_may_rewrite_history'', Equals, PBool False),
    (''adapter_may_mutate_citizenship=false'', ''state/phase5.json'', ''/prime_directive/adapter_may_mutate_citizenship'', Equals, PBool False),
    (''adapter_may_trigger_remote_execution=false'', ''state/phase5.json'', ''/prime_directive/adapter_may_trigger_remote_execution'', Equals, PBool False)]"

definition ROUND9_GATE_BLOB :: pystr where "ROUND9_GATE_BLOB = lit ''a441500abae06b628e98b374a4181a294d6d5f56''"
definition ROUND10_GATE_BLOB :: pystr where "ROUND10_GATE_BLOB = lit ''d40d56c9686821ce5379ecc45b75b65f7f5ffd68''"
definition EXPECTED_CLAIMS_GATE_STATUS :: pystr where
  "EXPECTED_CLAIMS_GATE_STATUS = lit ''implemented_pending_merge_verification''"
definition EXPECTED_MANIFEST_BLOB :: pystr where "EXPECTED_MANIFEST_BLOB = lit ''11eec24b99dce7f7e89c770fe61963f6421bcb7a''"
definition EXPECTED_MANIFEST_SCHEMA_BLOB :: pystr where
  "EXPECTED_MANIFEST_SCHEMA_BLOB = lit ''ce0fb2c46184c5323ca898d8a90517ea67537809''"
definition EXPECTED_FORMALIZATION_SCOPE :: pystr where
  "EXPECTED_FORMALIZATION_SCOPE = lit ''selected constitutional and protocol separation invariants from immutable '' @
     lit ''QSOL-FED v0.11.0; not whole-software verification''"
definition PUBLICATION_COMMIT :: pystr where "PUBLICATION_COMMIT = lit ''1fd643f643636bcb0917f571aff5cdc25439b470''"
definition PUBLICATION_BLOB :: pystr where "PUBLICATION_BLOB = lit ''5d19e6f6057e55551a2259a61ae88c61444bdafe''"
definition CURRENT_AI_MANIFEST_BLOB :: pystr where "CURRENT_AI_MANIFEST_BLOB = lit ''dfa5fb07aa81ffbb0d5c1f46b445f5555632a4c5''"

text \<open>The tables after the imports of each layer.\<close>

definition round9_tables :: gate_tables where
  "round9_tables = \<lparr>gt_count = EXPECTED_THEOREM_COUNT, gt_frozen = EXPECTED_FROZEN_INPUTS,
     gt_registry = dict_update SOURCE_BOUND_CONTRACT_REGISTRY ROUND9_CONTRACTS, gt_type_audit = EXPECTED_TYPE_AUDIT_SHA256,
     gt_digests = EXPECTED_THEOREM_TYPE_SHA256, gt_layer = EXPECTED_FORMALIZATION_LAYER,
     gt_manifest_blob = EXPECTED_MANIFEST_BLOB, gt_schema_blob = EXPECTED_MANIFEST_SCHEMA_BLOB\<rparr>"

definition round10_tables :: gate_tables where
  "round10_tables = round9_tables\<lparr>
     gt_type_audit := lit ''19b57a5dc8126195c783cc51e20c7a77698195bba57e626b8b54079c4935a74f'',
     gt_layer := dset EXPECTED_FORMALIZATION_LAYER (lit ''type_audit'') (PStr TYPE_AUDIT_PATH),
     gt_digests := dict_update EXPECTED_THEOREM_TYPE_SHA256 ROUND10_DIGESTS\<rparr>"

definition round11_tables :: gate_tables where
  "round11_tables = round10_tables\<lparr>
     gt_type_audit := lit ''9f2f789395b297c9d2925479a4257d05fb1d4973262218951ef34198e28a5082'',
     gt_digests := dict_update (gt_digests round10_tables) ROUND11_DIGESTS,
     gt_registry := dict_update (gt_registry round10_tables) ROUND11_CONTRACTS\<rparr>"

definition current_tables :: "gate_world \<Rightarrow> gate_tables result" where
  "current_tables w =
     (case (lookup PREIMPORT_BLOBS MANIFEST_PATH, lookup PREIMPORT_BLOBS MANIFEST_SCHEMA_PATH) of
        (Some manifest_blob, Some schema_blob) \<Rightarrow>
          bindE (gw_bytes w TYPE_AUDIT_PATH) (\<lambda>audit_bytes.
          Inr (round11_tables\<lparr>gt_manifest_blob := manifest_blob, gt_schema_blob := schema_blob,
            gt_type_audit := hexdigest (gw_sha256 w audit_bytes),
            gt_digests := dict_update (gt_digests round11_tables) CURRENT_DIGESTS,
            gt_registry := dict_update (gt_registry round11_tables) CURRENT_CONTRACTS\<rparr>))
      | (None, _) \<Rightarrow> Inl (KeyError MANIFEST_PATH)
      | _ \<Rightarrow> Inl (KeyError MANIFEST_SCHEMA_PATH))"

section \<open>The base layer and round 9\<close>

definition base_validate :: "gate_world \<Rightarrow> gate_tables \<Rightarrow> pyval result" where
  "base_validate w G =
     bindE (load_json w MANIFEST_PATH) (\<lambda>document.
     bindE (verify_manifest_schema w document) (\<lambda>schema.
     bindE (as_dict document) (\<lambda>manifest.
     bindE (verify_manifest_policy w manifest) (\<lambda>_.
     bindE (verify_frozen_target w manifest) (\<lambda>_.
     bindE (verify_moriarty_binding w manifest) (\<lambda>_.
     bindE (verify_phase10_contracts w (gt_count G) manifest schema) (\<lambda>_.
     bindE (verify_frozen_inputs w (gt_frozen G) manifest) (\<lambda>frozen_inputs.
     bindE (verify_toolchain w manifest) (\<lambda>_.
     bindE (verify_theorems w (gt_count G) manifest frozen_inputs) (\<lambda>_.
     bindE (verify_contract_traceability w (gw_float w) (gt_registry G) manifest frozen_inputs) (\<lambda>_.
     bindE (verify_axiom_audit_coverage w (gt_count G) manifest) (\<lambda>_.
     bindE (verify_no_placeholders (gw_uni w) (gw_lean_files w)) (\<lambda>_.
     bindE (verify_no_custom_axioms (gw_uni w) (gw_lean_files w)) (\<lambda>_.
     bindE (verify_frozen_roadmap_contract w) (\<lambda>_.
     Inr (PDict (pd [(''status'', PS ''ok''), (''target_tag'', PStr TARGET_TAG), (''target_commit'', PStr TARGET_COMMIT),
       (''target_tree'', PStr TARGET_TREE), (''theorem_count'', PInt (int (gt_count G))),
       (''manifest_status'', dget manifest ''status'')])))))))))))))))))"

definition round9_validate :: "gate_world \<Rightarrow> gate_tables \<Rightarrow> pyval result" where
  "round9_validate w G =
     bindE (verify_legacy_gate_snapshot w) (\<lambda>_.
     bindE (base_validate w G) (\<lambda>result.
     bindE (verify_state_evidence_locked w) (\<lambda>_.
     bindE (verify_state_nonclaims_locked w) (\<lambda>_.
     bindE (verify_state_formalization_layer_locked w (gt_layer G)) (\<lambda>_.
     bindE (verify_assumption_statements_locked w) (\<lambda>_.
     bindE (verify_namespace_syntax_fail_closed w) (\<lambda>_.
     bindE (verify_theorem_context_fail_closed w) (\<lambda>_.
     bindE (bindE (load_dict w MANIFEST_PATH) (verify_theorem_type_digests (gw_sha256 w) w (gt_digests G))) (\<lambda>_.
     bindE (bindE (load_dict w MANIFEST_PATH) (verify_type_audit_locked (gw_sha256 w) w (gt_type_audit G))) (\<lambda>_.
     Inr result))))))))))"

section \<open>Round 10\<close>

definition verify_round9_gate_snapshot :: "gate_world \<Rightarrow> unit result" where
  "verify_round9_gate_snapshot w = verify_snapshot w (lit ''tools/validate_phase10_gate_round9.py'') ROUND9_GATE_BLOB ''round-9''"

definition verify_claims_gate_status_locked :: "gate_world \<Rightarrow> unit result" where
  "verify_claims_gate_status_locked w = bindE (load_dict w CLAIMS_PATH) (\<lambda>claims.
     requireG (equals claims ''gate_status'' (PStr EXPECTED_CLAIMS_GATE_STATUS))
       ''Phase 10 claims gate status may not promote before exact merged-main verification'' [])"

text \<open>A document of the frozen release.\<close>

definition frozen_json :: "gate_world \<Rightarrow> string \<Rightarrow> pyval result" where
  "frozen_json w path = bindE (gw_git w [lit ''show'', TARGET_TAG @ [58] @ lit path]) (gw_loads w)"

text \<open>The theorems of the manifest by id: of two with one id the later counts.\<close>

definition theorem_by_id :: "pydict \<Rightarrow> string \<Rightarrow> pyval result" where
  "theorem_by_id manifest i =
     bindE (iterate (dget_or manifest ''theorems'' (PList []))) (\<lambda>items.
     bindE (mapE (\<lambda>item. hashed (dget (dict_of item) ''id'')) (filter is_dict items)) (\<lambda>ids.
     case filter (\<lambda>item. dget (dict_of item) ''id'' = PS i) (filter is_dict items) of
       [] \<Rightarrow> Inr PNone | x # xs \<Rightarrow> Inr (last (x # xs))))"

definition verify_bundle_import_authority_source_binding :: "gate_world \<Rightarrow> unit result" where
  "verify_bundle_import_authority_source_binding w =
     bindE (load_dict w MANIFEST_PATH) (\<lambda>manifest.
     bindE (theorem_by_id manifest ''FED-LEAN-017'') (\<lambda>t.
     let d = dict_of t in
     bindE (checks [(t \<noteq> PNone, ''FED-LEAN-017 missing from theorem manifest''),
       (equals d ''declaration'' (PS ''import_does_not_create_local_authority''), ''FED-LEAN-017 declaration drift'')]) (\<lambda>_.
     bindE (contains_value (PS ''state/phase4.json'') (dget_or d ''source_refs'' (PList []))) (\<lambda>found.
     bindE (requireG found ''FED-LEAN-017 must remain source-bound to frozen Phase 4'' []) (\<lambda>_.
     bindE (contains_value (PS ''import_is_not_authority'') (dget_or d ''contract_ids'' (PList []))) (\<lambda>found.
     bindE (requireG found ''FED-LEAN-017 import non-authority contract mapping drift'' []) (\<lambda>_.
     bindE (bindE (frozen_json w ''state/phase4.json'') as_dict) (\<lambda>frozen.
     bindE (sub_dict frozen ''portable_bundle'') (\<lambda>b.
     requireG (equals b ''import_authority'' (PS ''none'')) ''frozen Phase 4 portable-bundle import authority boundary drift'' [])))))))))"

definition round10_validate :: "gate_world \<Rightarrow> gate_tables \<Rightarrow> pyval result" where
  "round10_validate w G =
     bindE (verify_round9_gate_snapshot w) (\<lambda>_.
     bindE (round9_validate w G) (\<lambda>result.
     bindE (verify_claims_gate_status_locked w) (\<lambda>_.
     bindE (verify_bundle_import_authority_source_binding w) (\<lambda>_. Inr result))))"

section \<open>Round 11\<close>

definition verify_round10_gate_snapshot :: "gate_world \<Rightarrow> unit result" where
  "verify_round10_gate_snapshot w = verify_snapshot w (lit ''tools/validate_phase10_gate_round10.py'') ROUND10_GATE_BLOB ''round-10''"

definition verify_manifest_contract_locked :: "gate_world \<Rightarrow> gate_tables \<Rightarrow> unit result" where
  "verify_manifest_contract_locked w G =
     bindE (git_is w [lit ''rev-parse'', lit ''HEAD:'' @ MANIFEST_PATH] (gt_manifest_blob G)
       ''Phase 10 theorem/source/contract manifest byte identity drift'') (\<lambda>_.
     bindE (git_is w [lit ''rev-parse'', lit ''HEAD:'' @ MANIFEST_SCHEMA_PATH] (gt_schema_blob G)
       ''Phase 10 manifest schema byte identity drift'') (\<lambda>_.
     bindE (load_dict w MANIFEST_PATH) (\<lambda>manifest.
     requireG (equals manifest ''formalization_scope'' (PStr EXPECTED_FORMALIZATION_SCOPE)) ''Phase 10 formalization scope drift'' [])))"

definition verify_state_claim_surface_locked :: "gate_world \<Rightarrow> unit result" where
  "verify_state_claim_surface_locked w = bindE (load_dict w STATE_PATH) (\<lambda>state.
     requireG (is_false state ''claim_surface_changed'') ''Phase 10 state may not claim a changed runtime/capability surface'' [])"

definition verify_round11_source_boundaries :: "gate_world \<Rightarrow> unit result" where
  "verify_round11_source_boundaries w =
     bindE (bindE (frozen_json w ''state/phase4.json'') as_dict) (\<lambda>phase4.
     bindE (sub_dict phase4 ''trust_registry'') (\<lambda>trust.
     bindE (requireG (is_false trust ''peer_admission_creates_trust'') ''frozen Phase 4 peer-admission trust boundary drift'' []) (\<lambda>_.
     bindE (sub_dict phase4 ''portable_bundle'') (\<lambda>b.
     bindE (requireG (is_false b ''import_trust_change'') ''frozen Phase 4 portable-bundle trust boundary drift'' []) (\<lambda>_.
     bindE (bindE (frozen_json w ''state/phase6.json'') as_dict) (\<lambda>phase6.
     bindE (sub_dict phase6 ''authority_boundary'') (\<lambda>authority.
     requireG (has_values authority (pd [(''sdk_creates_authority'', PBool False), (''sdk_promotes_evidence'', PBool False),
       (''sdk_installs_capabilities'', PBool False), (''sdk_creates_votes'', PBool False), (''sdk_mutates_governance'', PBool False)]))
       ''frozen Phase 6 SDK authority-bearing effect boundary drift'' [])))))))"

definition round11_validate :: "gate_world \<Rightarrow> gate_tables \<Rightarrow> pyval result" where
  "round11_validate w G =
     bindE (verify_round10_gate_snapshot w) (\<lambda>_.
     bindE (round10_validate w G) (\<lambda>result.
     bindE (verify_manifest_contract_locked w G) (\<lambda>_.
     bindE (verify_state_claim_surface_locked w) (\<lambda>_.
     bindE (verify_round11_source_boundaries w) (\<lambda>_. Inr result)))))"

section \<open>The current gate\<close>

text \<open>\<open>git hash-object\<close> of a file of the working tree, named from the root of the repository.\<close>

definition hash_object :: "pystr \<Rightarrow> pystr list" where "hash_object path = [lit ''hash-object'', path]"

text \<open>What runs before the lower layers are imported; its failures are \<open>RuntimeError\<close>.\<close>

definition requireR :: "bool \<Rightarrow> string \<Rightarrow> pystr \<Rightarrow> unit result" where
  "requireR ok code path = guardE ok (RuntimeError code path)"

definition git_isR :: "gate_world \<Rightarrow> pystr list \<Rightarrow> pystr \<Rightarrow> string \<Rightarrow> pystr \<Rightarrow> unit result" where
  "git_isR w args expected code path = bindE (gw_git w args) (\<lambda>observed. requireR (observed = expected) code path)"

definition preimport_ok :: "gate_world \<Rightarrow> pystr \<times> pystr \<Rightarrow> unit result" where
  "preimport_ok w entry = (case entry of (relative, expected) \<Rightarrow>
     bindE (requireR (gw_is_file w relative) ''required exact-byte Phase 10 input missing: '' relative) (\<lambda>_.
     bindE (git_isR w [lit ''rev-parse'', lit ''HEAD:'' @ relative] expected ''committed exact-byte Phase 10 input drift for '' relative) (\<lambda>_.
     git_isR w (hash_object relative) expected ''working-tree exact-byte Phase 10 input drift for '' relative)))"

definition verify_historical_ai_manifest :: "gate_world \<Rightarrow> unit result" where
  "verify_historical_ai_manifest w =
     git_isR w [lit ''rev-parse'', PUBLICATION_COMMIT @ lit '':README4AI.md''] PUBLICATION_BLOB ''published Phase 10 README4AI identity drift: '' []"

definition verify_current_ai_manifest :: "gate_world \<Rightarrow> unit result" where
  "verify_current_ai_manifest w =
     bindE (requireR (gw_is_file w (lit ''README4AI.md'')) ''current README4AI.md missing'' []) (\<lambda>_.
     bindE (git_isR w [lit ''rev-parse'', lit ''HEAD:README4AI.md''] CURRENT_AI_MANIFEST_BLOB ''current README4AI committed identity drift: '' []) (\<lambda>_.
     git_isR w (hash_object (lit ''README4AI.md'')) CURRENT_AI_MANIFEST_BLOB ''current README4AI working-tree identity drift: '' []))"

definition preflight :: "gate_world \<Rightarrow> unit result" where
  "preflight w =
     bindE (eachE (preimport_ok w) PREIMPORT_BLOBS) (\<lambda>_.
     bindE (verify_historical_ai_manifest w) (\<lambda>_. verify_current_ai_manifest w))"

definition exact_bytes :: "gate_world \<Rightarrow> pystr \<times> pystr \<Rightarrow> unit result" where
  "exact_bytes w entry = (case entry of (relative, expected) \<Rightarrow>
     bindE (bindE (gw_git w [lit ''rev-parse'', lit ''HEAD:'' @ relative]) (\<lambda>committed.
       requireG (committed = expected) ''committed exact-byte Phase 10 input drift for '' relative)) (\<lambda>_.
     bindE (gw_git w (hash_object relative)) (\<lambda>working.
       requireG (working = expected) ''working-tree exact-byte Phase 10 input drift for '' relative)))"

definition verify_exact_bytes_still_hold :: "gate_world \<Rightarrow> unit result" where
  "verify_exact_bytes_still_hold w =
     bindE (eachE (exact_bytes w) PREIMPORT_BLOBS) (\<lambda>_.
     bindE (git_is w [lit ''rev-parse'', PUBLICATION_COMMIT @ lit '':README4AI.md''] PUBLICATION_BLOB ''published Phase 10 README4AI identity drift'') (\<lambda>_.
     bindE (git_is w [lit ''rev-parse'', lit ''HEAD:README4AI.md''] CURRENT_AI_MANIFEST_BLOB ''current committed README4AI identity drift'') (\<lambda>_.
     git_is w (hash_object (lit ''README4AI.md'')) CURRENT_AI_MANIFEST_BLOB ''current working-tree README4AI identity drift'')))"

definition verify_claims_and_docs :: "gate_world \<Rightarrow> unit result" where
  "verify_claims_and_docs w = bindE (load_dict w CLAIMS_PATH) (\<lambda>claims.
     checks [(equals claims ''claim_rule'' (PStr EXPECTED_CLAIM_RULE), ''Phase 10 claim rule drift''),
       (equals claims ''promotion_requirements'' (PDict EXPECTED_PROMOTION_REQUIREMENTS), ''Phase 10 promotion requirements drift''),
       (equals claims ''formalization_assurance'' (PDict EXPECTED_FORMALIZATION_ASSURANCE),
         ''complete Phase 10 formalization_assurance claim drift'')])"

text \<open>\<open>v[k1] is b1 and v[k2] is b2 and ...\<close>: a key is looked up when the conjuncts before it hold.\<close>

definition item_is :: "pyval \<Rightarrow> string \<times> pyval \<Rightarrow> bool result" where
  "item_is v kv = bindE (vindex v (fst kv)) (\<lambda>x. Inr (case snd kv of PBool b \<Rightarrow> x = PBool b | e \<Rightarrow> py_eq x e))"

definition items_are :: "pyval \<Rightarrow> (string \<times> pyval) list \<Rightarrow> bool result" where
  "items_are v kvs = everyE (item_is v) kvs"

definition requireB :: "bool result \<Rightarrow> string \<Rightarrow> unit result" where
  "requireB b code = bindE b (\<lambda>ok. requireG ok code [])"

text \<open>\<open>for key in keys: require(v.get(key) is b, ...)\<close>\<close>

definition flags_are :: "bool \<Rightarrow> string \<Rightarrow> pyval \<Rightarrow> string list \<Rightarrow> unit result" where
  "flags_are b code v keys = eachE (\<lambda>key. bindE (vget v key) (\<lambda>x. requireG (x = PBool b) code (lit key))) keys"

definition verify_round12_13_boundaries :: "gate_world \<Rightarrow> unit result" where
  "verify_round12_13_boundaries w =
     bindE (frozen_json w ''state/phase4.json'') (\<lambda>phase4.
     bindE (bindE (vindex phase4 ''peer_registry'') (\<lambda>peer. requireB (items_are peer [(''revoked_reintroduction'', PS ''reject'')])
       ''frozen Phase 4 revoked-reintroduction boundary drift'')) (\<lambda>_.
     bindE (bindE (vindex phase4 ''capability_advertisement'') (\<lambda>ad. requireB (items_are ad [(''maximum_lifetime_seconds'', PInt 3600)])
       ''frozen Phase 4 capability lifetime drift'')) (\<lambda>_.
     bindE (bindE (vindex phase4 ''local_capability_policy'') (\<lambda>policy. bindE (vindex policy ''effective_allow_requires'') (\<lambda>needs.
       requireB (contains_value (PS ''active authenticated advertisement'') needs) ''frozen Phase 4 active advertisement boundary drift''))) (\<lambda>_.
     bindE (frozen_json w ''state/phase5.json'') (\<lambda>phase5.
     bindE (vindex phase5 ''prime_directive'') (\<lambda>prime.
     bindE (flags_are False ''frozen Phase 5 adapter boundary drift: '' prime [''adapter_may_create_local_governance_authority'',
       ''adapter_may_install_capabilities'', ''adapter_may_rewrite_history'', ''adapter_may_mutate_citizenship'',
       ''adapter_may_trigger_remote_execution'']) (\<lambda>_.
     bindE (frozen_json w ''state/phase8.json'') (\<lambda>phase8.
     bindE (vindex phase8 ''identity_boundary'') (\<lambda>identity.
     bindE (requireB (items_are identity [(''verified_sender_node_must_match_frame_sender'', PBool True)])
       ''frozen Phase 8 sender binding drift'') (\<lambda>_.
     bindE (requireB (items_are identity [(''transport_profile_may_replace_sender_identity'', PBool False)])
       ''frozen Phase 8 transport identity replacement drift'') (\<lambda>_.
     bindE (vindex phase8 ''holodeck_transport_independence'') (\<lambda>holodeck.
     requireB (items_are holodeck [(''authority_effect'', PS ''none''), (''federation_effect'', PS ''none''), (''evidence_effect'', PS ''none''),
       (''network_used'', PBool False), (''real_tools_used'', PBool False), (''credentials_exposed'', PBool False)])
       ''frozen Phase 8 Holodeck transport boundary drift''))))))))))))"

definition all_in :: "pystr \<Rightarrow> string list \<Rightarrow> bool" where
  "all_in source tokens \<longleftrightarrow> list_all (\<lambda>t. contains_sub source (lit t)) tokens"

definition verify_round14_phase4 :: "gate_world \<Rightarrow> unit result" where
  "verify_round14_phase4 w =
     bindE (frozen_json w ''state/phase4.json'') (\<lambda>phase4.
     bindE (vindex phase4 ''peer_registry'') (\<lambda>peer.
     bindE (vindex phase4 ''portable_bundle'') (\<lambda>b.
     bindE (vindex phase4 ''partition_rejoin'') (\<lambda>partition.
     bindE (requireB (everyE (\<lambda>c. c) [items_are peer [(''bundle_import_preserves_existing_local_state'', PBool True)],
         bindE (vindex b ''preserves'') (contains_value (PS ''peer lifecycle bytes'')), items_are b [(''existing_peer_state'', PS ''preserved'')]])
       ''frozen Phase 4 bundle/peer lifecycle preservation drift'') (\<lambda>_.
     bindE (requireB (items_are partition [(''disconnect_records_snapshot'', PBool True),
         (''disconnect_snapshot_immutable_during_lifecycle_updates'', PBool True),
         (''same_snapshot_rejoin'', PS ''clean only after explicit confirm call''),
         (''changed_snapshot_rejoin'', PS ''explicit_reconciliation_required''), (''silent_reconciliation'', PBool False)])
       ''frozen Phase 4 partition snapshot boundary drift'') (\<lambda>_.
     bindE (gw_git w [lit ''show'', TARGET_TAG @ lit '':src/peering.rs'']) (\<lambda>peering_source.
     requireG (all_in peering_source [''pub expires_at: String'', ''expires - issued > MAX_CAPABILITY_ADVERTISEMENT_LIFETIME_SECONDS'',
       ''if now_unix < issued || now_unix > expires'']) ''frozen declared capability expiry semantics drift'' [])))))))"

definition verify_round14_phase7 :: "gate_world \<Rightarrow> unit result" where
  "verify_round14_phase7 w =
     bindE (frozen_json w ''state/phase7.json'') (\<lambda>phase7.
     bindE (vindex phase7 ''authority_boundary'') (\<lambda>assembly.
     flags_are False ''frozen Phase 7 Assembly boundary drift: '' assembly [''assembly_may_mutate_peer_registry'',
       ''assembly_may_mutate_trust_registry'', ''assembly_may_install_capability'', ''assembly_may_promote_evidence'',
       ''assembly_may_rewrite_history'', ''assembly_may_mutate_citizenship'', ''assembly_may_execute_tools'',
       ''assembly_may_access_credentials'', ''assembly_may_use_network'', ''assembly_may_open_files'', ''assembly_may_spawn_processes'',
       ''assembly_may_mutate_member_local_governance'']))"

definition verify_round14_phase8 :: "gate_world \<Rightarrow> unit result" where
  "verify_round14_phase8 w =
     bindE (frozen_json w ''state/phase8.json'') (\<lambda>phase8.
     bindE (vindex phase8 ''identity_boundary'') (\<lambda>identity.
     bindE (flags_are True ''frozen Phase 8 transport prerequisite drift: '' identity [''transport_acceptance_requires_signature_valid'',
       ''transport_acceptance_requires_current_identity'', ''transport_acceptance_requires_fresh_replay_state'',
       ''transport_acceptance_requires_local_peer_admission'', ''verified_sender_node_must_match_frame_sender'',
       ''direct_profiles_require_local_recipient'', ''forwarding_profiles_require_explicit_relay_admission'',
       ''recipient_or_relay_checked_before_replay_freshness'']) (\<lambda>_.
     bindE (vindex phase8 ''nat_traversal'') (\<lambda>nat.
     bindE (requireB (everyE (\<lambda>c. c) [items_are nat [(''ticket_node_must_match_authenticated_sender'', PBool True),
         (''ticket_identity_ref_must_match_verified_identity'', PBool True)],
         items_are identity [(''verified_identity_ref_bound_to_nat_ticket'', PBool True)]])
       ''frozen Phase 8 NAT identity binding drift'') (\<lambda>_.
     bindE (gw_git w [lit ''show'', TARGET_TAG @ lit '':src/transport.rs'']) (\<lambda>transport_source.
     requireG (all_in transport_source [''pub signature_valid: bool'', ''pub identity_current: bool'', ''pub replay_fresh: bool'',
       ''pub local_peer_admitted: bool'', ''pub verified_identity_ref: String'', ''ticket.identity_ref != context.verified_identity_ref''])
       ''frozen Phase 8 transport/NAT implementation semantics drift'' []))))))"

definition verify_round14_boundaries :: "gate_world \<Rightarrow> unit result" where
  "verify_round14_boundaries w =
     bindE (verify_round14_phase4 w) (\<lambda>_. bindE (verify_round14_phase7 w) (\<lambda>_. verify_round14_phase8 w))"

definition verify_ai_inventory :: "gate_world \<Rightarrow> unit result" where
  "verify_ai_inventory w = bindE (load_dict w (lit ''README4AI.md'')) (\<lambda>ai.
     checks [(equals ai ''phase10_status'' (PS ''lean_formalization_merged_main_verified_and_zenodo_published''), ''README4AI Phase 10 status drift''),
       (equals ai ''formalization_assurance_manifest'' (PStr CLAIMS_PATH), ''README4AI Phase 10 assurance-manifest drift''),
       (equals ai ''phase10_lean'' (PDict EXPECTED_CURRENT_AI_PHASE10), ''README4AI complete Phase 10 inventory drift'')])"

definition gate_validate :: "gate_world \<Rightarrow> gate_tables \<Rightarrow> pyval result" where
  "gate_validate w G =
     bindE (verify_exact_bytes_still_hold w) (\<lambda>_.
     bindE (round11_validate w G) (\<lambda>result.
     bindE (verify_claims_and_docs w) (\<lambda>_.
     bindE (verify_round12_13_boundaries w) (\<lambda>_.
     bindE (verify_round14_boundaries w) (\<lambda>_.
     bindE (verify_ai_inventory w) (\<lambda>_. Inr result))))))"

text \<open>The whole gate: the preflight, the imports and \<open>validate\<close>.\<close>

definition phase10_gate :: "gate_world \<Rightarrow> pyval result" where
  "phase10_gate w = bindE (preflight w) (\<lambda>_. bindE (current_tables w) (gate_validate w))"

end
