(* ===== verification/Formal_Laws.thy ===== *)
theory Formal_Laws
  imports Formal_Gate
begin

text \<open>What the phase 10 gate promises about the Lean sources, its pointers and its contracts.\<close>

section \<open>The scanner\<close>

text \<open>C38: The Lean scanner blanks exactly the comments and strings: its result is the one of the token grammar
  (code characters, line comments, nested block comments, strings), and it fails on a source that has no
  such tokens. The result has the length of the source and scanning it again changes nothing.\<close>

theorem lean_scanner_exact:
  "lean_code_only path source = Inr code \<longleftrightarrow>
     lean_tokens source code \<and> length code = length source \<and> lean_code_only path code = Inr code"
  using lean_code_only_tokens lean_tokens_length lean_tokens_idem by blast

text \<open>The code of a file, without its comments and strings, has neither of the two words.\<close>

definition axiom_free :: "(nat \<Rightarrow> bool) \<Rightarrow> lean_file \<Rightarrow> bool" where
  "axiom_free uni f \<longleftrightarrow> (\<exists>source code. snd f = Inr source \<and> lean_tokens source code \<and>
     \<not> has_word uni ''axiom'' code \<and> \<not> has_word uni ''constant'' code)"

lemma axiom_lines_Nil: "axiom_lines uni f = Inr [] \<longleftrightarrow> axiom_free uni f"
  using no_words [of AXIOM_DECL_TOKEN uni 0]
  by (cases f) (auto simp: axiom_lines_def axiom_free_def bindE_eq_Inr lean_code_only_tokens AXIOM_DECL_TOKEN_def)

lemma axiom_lines_all: "(\<exists>found. mapE (axiom_lines uni) files = Inr found \<and> concat found = []) \<longleftrightarrow> list_all (axiom_free uni) files"
proof (induction files)
  case (Cons f fs)
  have "(\<exists>found. mapE (axiom_lines uni) (f # fs) = Inr found \<and> concat found = []) \<longleftrightarrow>
      axiom_lines uni f = Inr [] \<and> (\<exists>found. mapE (axiom_lines uni) fs = Inr found \<and> concat found = [])"
    by (auto simp: bindE_eq_Inr)
  then show ?case by (simp only: Cons.IH axiom_lines_Nil list.pred_inject(2))
qed simp

text \<open>The scan for axioms accepts the Lean files exactly if there are any and the code of each has neither word.\<close>

lemma no_custom_axioms_iff: "verify_no_custom_axioms uni files = Inr () \<longleftrightarrow> files \<noteq> [] \<and> list_all (axiom_free uni) files"
  unfolding axiom_lines_all [symmetric] by (auto simp: verify_no_custom_axioms_def bindE_eq_Inr)

text \<open>A quotation mark in a character literal opens a string for the scanner: the declaration of an axiom
  between two such literals is taken for text, and the scan accepts the file.\<close>

definition hidden_axiom :: pystr where
  "hidden_axiom = lit ''def q := '' @ [39, 34, 39, 10] @ lit ''axiom bad : False'' @ [10] @ lit ''def r := '' @ [39, 34, 39]"

definition hidden_code :: pystr where
  "hidden_code = lit ''def q := '' @ [39, 32, 32, 10] @ replicate 17 32 @ [10] @ replicate 11 32 @ [39]"

lemma hidden_axiom_code: "lean_code 0 False hidden_axiom = (hidden_code, 0, False)"
  by code_simp

lemma no_first_letter: "\<forall>w \<in> set ws. w \<noteq> [] \<and> of_char (hd w) \<notin> set s \<Longrightarrow> word_starts uni ws prev i s = []"
proof (induction s arbitrary: prev i)
  case (Cons c s)
  have "\<not> starts_with (c # s) (lit w)" if "w \<in> set ws" for w
    by (cases w) (use that Cons.prems in \<open>auto simp: lit_Cons\<close>)
  with Cons show ?case by (auto simp: list_ex_iff)
qed simp

lemma hidden_axiom_words: "word_starts uni AXIOM_DECL_TOKEN False 0 hidden_code = []"
  by (rule no_first_letter) (simp add: AXIOM_DECL_TOKEN_def hidden_code_def lit_def)

theorem axiom_hidden_by_char_literal:
  "has_word uni ''axiom'' hidden_axiom \<and> verify_no_custom_axioms uni [(path, Inr hidden_axiom)] = Inr ()"
proof
  show "has_word uni ''axiom'' hidden_axiom"
    unfolding has_word_def word_at_def hidden_axiom_def
    by (rule exI [of _ "lit ''def q := '' @ [39, 34, 39, 10]"], rule exI [of _ "lit '' bad : False'' @ [10] @ lit ''def r := '' @ [39, 34, 39]"])
      (simp add: word_end_def word_char_def is_digit_def lit_def)
  have "axiom_lines uni (path, Inr hidden_axiom) = Inr []"
    by (simp add: axiom_lines_def lean_code_only_def hidden_axiom_code hidden_axiom_words)
  then show "verify_no_custom_axioms uni [(path, Inr hidden_axiom)] = Inr ()" by (simp add: verify_no_custom_axioms_def)
qed

section \<open>JSON pointers\<close>

definition encode_token :: "pystr \<Rightarrow> pystr" where
  "encode_token t = concat (map (\<lambda>c. if c = 126 then [126, 48] else if c = 47 then [126, 49] else [c]) t)"

datatype access = Key pystr | Index nat

fun follow :: "pyval \<Rightarrow> access list \<Rightarrow> pyval option" where
  "follow v [] = Some v"
| "follow (PDict d) (Key k # p) = (case lookup d k of Some x \<Rightarrow> follow x p | None \<Rightarrow> None)"
| "follow (PList xs) (Index i # p) = (if i < length xs then follow (xs ! i) p else None)"
| "follow _ _ = None"

definition token_of :: "access \<Rightarrow> pystr" where
  "token_of a = (case a of Key k \<Rightarrow> encode_token k | Index i \<Rightarrow> digits i)"

definition pointer_of :: "access list \<Rightarrow> pystr" where
  "pointer_of p = concat (map (\<lambda>a. 47 # token_of a) p)"

lemma decode_slashes: "py_replace [126, 49] [47] (encode_token t) = concat (map (\<lambda>c. if c = 126 then [126, 48] else [c]) t)"
  by (induction t) (auto simp: encode_token_def)

lemma decode_encode: "decode_token (encode_token t) = t"
proof -
  have "py_replace [126, 48] [126] (concat (map (\<lambda>c. if c = 126 then [126, 48] else [c]) t)) = t"
    by (induction t) auto
  then show ?thesis by (simp add: decode_token_def decode_slashes)
qed

lemma replace_absent: "(\<forall>c \<in> set s. c \<noteq> x) \<Longrightarrow> py_replace [x, y] new s = s"
  by (induction s) auto

lemma decode_digits: "decode_token (digits n) = digits n"
proof -
  have "\<forall>c \<in> set (digits n). c \<noteq> 126" using digits_all by (fastforce simp: is_digit_def)
  then show ?thesis by (simp add: decode_token_def replace_absent)
qed

lemma digits_list_index: "rx_match LIST_INDEX (digits n)"
proof (cases "n = 0")
  case True
  then show ?thesis by (simp add: rx_match_iff LIST_INDEX_def digits.simps [of 0] lit_def in_cls_def)
next
  case False
  obtain c ds where d: "digits n = c # ds" by (cases "digits n") auto
  have "c \<noteq> 48" using hd_digits [OF False] d by simp
  moreover have all: "\<forall>x \<in> set (c # ds). is_digit x" using digits_all d by metis
  ultimately have "in_cls c [rng CHR ''1'' CHR ''9'']" by (auto simp: in_cls_def rng_def is_digit_def)
  moreover have "ds \<in> rx_lang (Star (Cls [rng CHR ''0'' CHR ''9'']))"
    using all unfolding Star_Cls_lang by (simp add: in_cls_def rng_def is_digit_def)
  ultimately have "[c] @ ds \<in> rx_lang (Seq (Cls [rng CHR ''1'' CHR ''9'']) (Star (Cls [rng CHR ''0'' CHR ''9''])))"
    unfolding rx_lang.simps(4) mem_Collect_eq by (intro exI [of _ "[c]"] exI [of _ ds]) simp
  then show ?thesis by (simp add: rx_match_iff LIST_INDEX_def d del: rx_lang.simps(4))
qed

lemma token_no_slash: "47 \<notin> set (token_of a)"
  by (cases a) (auto simp: token_of_def encode_token_def is_digit_def dest: digits_all split: if_splits)

lemma split_tokens: "c \<notin> set t \<Longrightarrow> (\<forall>u \<in> set ts. c \<notin> set u) \<Longrightarrow> split_all c (t @ concat (map (\<lambda>u. c # u) ts)) = t # ts"
proof (induction ts arbitrary: t)
  case Nil
  then show ?case by (induction t) auto
next
  case (Cons u ts)
  from Cons.prems have "split_all c (c # u @ concat (map (\<lambda>u. c # u) ts)) = [] # u # ts" by (simp add: Cons.IH)
  with Cons.prems(1) show ?case by (induction t) auto
qed

lemma split_pointer: "p \<noteq> [] \<Longrightarrow> starts_with (pointer_of p) [47] \<and> tl (split_all 47 (pointer_of p)) = map token_of p"
proof
  assume "p \<noteq> []"
  then show "starts_with (pointer_of p) [47]" by (cases p) (auto simp: pointer_of_def)
  have "split_all 47 ([] @ concat (map (\<lambda>u. 47 # u) (map token_of p))) = [] # map token_of p"
    by (rule split_tokens) (auto simp: token_no_slash)
  then show "tl (split_all 47 (pointer_of p)) = map token_of p" by (simp add: pointer_of_def comp_def)
qed

lemma pointer_steps:
  "follow v p = Some x \<Longrightarrow> (\<forall>i. Index i \<in> set p \<longrightarrow> i < 10 ^ int_max_str_digits) \<Longrightarrow>
    foldE (pointer_step pointer) v (map token_of p) = Inr x"
proof (induction v p rule: follow.induct)
  case (2 d k p)
  then show ?case by (auto simp: pointer_step_def token_of_def decode_encode split: option.splits)
next
  case (3 xs i p)
  then show ?case by (auto simp: pointer_step_def token_of_def decode_digits digits_list_index py_int_digits split: if_splits)
qed auto

text \<open>C39: A JSON pointer finds what it names: the pointer written for a path of keys and indices (\<open>~\<close> and \<open>/\<close>
  escaped) resolves to the value at the end of the path.\<close>

theorem json_pointer_roundtrip:
  assumes "p \<noteq> []" and "follow v p = Some x" and "\<forall>i. Index i \<in> set p \<longrightarrow> i < 10 ^ int_max_str_digits"
  shows "json_pointer_get v (pointer_of p) = Inr x"
  using split_pointer [OF assms(1)] pointer_steps [OF assms(2,3)] by (simp add: json_pointer_get_def)

theorem json_pointer_roundtrip_witness:
  "json_pointer_get (PDict [([97, 47], PList [PNone, PBool True])]) (pointer_of [Key [97, 47], Index 1]) = Inr (PBool True)"
proof (rule json_pointer_roundtrip)
  have "0 < int_max_str_digits" by (simp add: int_max_str_digits_def)
  then show "\<forall>i. Index i \<in> set [Key [97, 47], Index 1] \<longrightarrow> i < 10 ^ int_max_str_digits" using one_less_power [of "10 :: nat"] by (auto simp del: One_nat_def)
qed simp_all

section \<open>The contracts\<close>

text \<open>What it means that a contract of a theorem is bound to the frozen release.\<close>

definition contract_bound ::
  "gate_world \<Rightarrow> (pyfloat \<Rightarrow> pystr) \<Rightarrow> registry \<Rightarrow> pystr list \<Rightarrow> pyval list \<Rightarrow> pyval \<Rightarrow> bool" where
  "contract_bound w float_text reg frozen_inputs refs c \<longleftrightarrow>
     (\<exists>source_ref pointer m expected document actual.
        lookup reg (str_of c) = Some (source_ref, pointer, m, expected) \<and> PStr source_ref \<in> set refs \<and> source_ref \<in> set frozen_inputs \<and>
        contract_source w source_ref = Inr document \<and> json_pointer_get document pointer = Inr actual \<and>
        (case m of Equals \<Rightarrow> json_equal float_text actual expected | Contains \<Rightarrow> contains_value expected actual = Inr True))"

definition items_at :: "pyval \<Rightarrow> string \<Rightarrow> pyval list result" where
  "items_at v k = bindE (vindex v k) iterate"

lemma verify_contract_Inr: "verify_contract w float_text reg frozen_inputs refs c = Inr () \<Longrightarrow> contract_bound w float_text reg frozen_inputs refs c"
  by (auto simp: verify_contract_def contract_bound_def bindE_eq_Inr split: option.splits mode.splits prod.splits simp del: requireG_bind)

lemma used_contracts_Inr:
  "used_contracts manifest = Inr used \<Longrightarrow> list_or_empty (PDict manifest) ''theorems'' = Inr ts \<Longrightarrow> c \<in> set used \<Longrightarrow>
     \<exists>t \<in> set ts. \<exists>cs. list_or_empty t ''contract_ids'' = Inr cs \<and> c \<in> set cs"
proof -
  assume "used_contracts manifest = Inr used" and ts: "list_or_empty (PDict manifest) ''theorems'' = Inr ts" and c: "c \<in> set used"
  then obtain css where m: "mapE (\<lambda>t. bindE (list_or_empty t ''contract_ids'') (\<lambda>cs.
      if list_all hashable cs then Inr cs else Inl TypeError)) ts = Inr css" "used = concat css"
    by (auto simp: used_contracts_def bindE_eq_Inr)
  with c obtain cs where "cs \<in> set css" "c \<in> set cs" by auto
  with mapE_set [OF m(1)] show ?thesis by (fastforce simp: bindE_eq_Inr split: if_splits)
qed

lemma list_or_empty_items: "list_or_empty t k = Inr cs \<Longrightarrow> items_at t k = Inr ids \<Longrightarrow> ids = cs"
  by (auto simp: list_or_empty_def items_at_def vindex_def dindex_def dget_or_def bindE_eq_Inr split: pyval.splits option.splits)

lemma theorem_contracts_Inr:
  "verify_theorem_contracts w float_text reg frozen_inputs t = Inr () \<Longrightarrow>
     \<exists>refs ids. items_at t ''source_refs'' = Inr refs \<and> items_at t ''contract_ids'' = Inr ids \<and>
       list_all (contract_bound w float_text reg frozen_inputs refs) ids"
  unfolding verify_theorem_contracts_def items_at_def [symmetric]
  by (auto simp: bindE_eq_Inr eachE_eq_Inr list_all_iff verify_contract_Inr split: if_splits)

definition theorem_bound :: "gate_world \<Rightarrow> (pyfloat \<Rightarrow> pystr) \<Rightarrow> registry \<Rightarrow> pystr list \<Rightarrow> pyval \<Rightarrow> bool" where
  "theorem_bound w float_text reg frozen_inputs t \<longleftrightarrow>
     (\<exists>refs ids. items_at t ''source_refs'' = Inr refs \<and> items_at t ''contract_ids'' = Inr ids \<and>
       list_all (contract_bound w float_text reg frozen_inputs refs) ids)"

lemma traceability_bound:
  assumes "verify_contract_traceability w float_text reg manifest frozen_inputs = Inr ()"
  shows "\<exists>ts. items_at (PDict manifest) ''theorems'' = Inr ts \<and>
    list_all (theorem_bound w float_text reg frozen_inputs) ts \<and>
    list_all (\<lambda>entry. \<exists>t ids. t \<in> set ts \<and> items_at t ''contract_ids'' = Inr ids \<and> PStr (fst entry) \<in> set ids) reg"
proof -
  from assms obtain used th ts where u: "used_contracts manifest = Inr used" "set used = PStr ` set (map fst reg)"
    and t: "dindex manifest ''theorems'' = Inr th" "iterate th = Inr ts"
    and ok: "\<forall>t \<in> set ts. verify_theorem_contracts w float_text reg frozen_inputs t = Inr ()"
    by (auto simp: verify_contract_traceability_def bindE_eq_Inr eachE_eq_Inr simp del: requireG_bind)
  have each: "\<exists>refs ids. items_at t ''source_refs'' = Inr refs \<and> items_at t ''contract_ids'' = Inr ids \<and>
      list_all (contract_bound w float_text reg frozen_inputs refs) ids" if "t \<in> set ts" for t
    using theorem_contracts_Inr ok that by blast
  have ts: "items_at (PDict manifest) ''theorems'' = Inr ts" using t by (simp add: items_at_def vindex_def)
  have "list_or_empty (PDict manifest) ''theorems'' = Inr ts"
    using t by (auto simp: list_or_empty_def dget_or_def dindex_def split: option.splits)
  note used = used_contracts_Inr [OF u(1) this]
  have "\<exists>t ids. t \<in> set ts \<and> items_at t ''contract_ids'' = Inr ids \<and> PStr (fst entry) \<in> set ids" if "entry \<in> set reg" for entry
  proof -
    have "PStr (fst entry) \<in> set used" using that u(2) by auto
    from used [OF this] obtain t cs where "t \<in> set ts" "list_or_empty t ''contract_ids'' = Inr cs" "PStr (fst entry) \<in> set cs" by blast
    moreover from this each obtain ids where "items_at t ''contract_ids'' = Inr ids" by blast
    ultimately show ?thesis using list_or_empty_items by blast
  qed
  with ts each show ?thesis unfolding list_all_iff theorem_bound_def by blast
qed

text \<open>C35: Every contract of the manifest is bound: each contract id of each theorem resolves, in a document of the
  frozen release that is both a frozen input and a declared source of the theorem, to the value that the
  registry expects; and every entry of the registry is used by some theorem.\<close>

theorem contracts_bound_to_frozen_sources:
  assumes "verify_contract_traceability w float_text reg manifest frozen_inputs = Inr ()"
  shows "\<exists>ts. items_at (PDict manifest) ''theorems'' = Inr ts \<and>
    list_all (theorem_bound w float_text reg frozen_inputs) ts \<and>
    list_all (\<lambda>entry. \<exists>t ids. t \<in> set ts \<and> items_at t ''contract_ids'' = Inr ids \<and> PStr (fst entry) \<in> set ids) reg"
  by (rule traceability_bound [OF assms])

definition demo_gate_world :: gate_world where
  "demo_gate_world = \<lparr>gw_git = (\<lambda>_. Inr []), gw_loads = (\<lambda>_. Inr (PDict (pd [(''k'', PBool False)]))), gw_is_file = (\<lambda>_. False), gw_exists = (\<lambda>_. False),
     gw_text = (\<lambda>_. Inl (OSError 2)), gw_bytes = (\<lambda>_. Inl (OSError 2)), gw_str = (\<lambda>_. []), gw_uni = (\<lambda>_. False),
     gw_env = (\<lambda>_. None), gw_toml = (\<lambda>_. Inl ValueError), gw_lean_files = [], gw_sha256 = (\<lambda>b. b), gw_float = (\<lambda>_. []),
     gw_re_search = (\<lambda>_ _. Some True)\<rparr>"

definition demo_registry :: registry where
  "demo_registry = map contract [(''c'', ''a.json'', ''/k'', Equals, PBool False)]"

definition demo_manifest :: pydict where
  "demo_manifest = pd [(''theorems'', PList [PDict (pd [(''declaration'', PS ''t''), (''source_refs'', PList [PS ''a.json'']),
     (''contract_ids'', PList [PS ''c''])])])]"

lemma demo_traced: "verify_contract_traceability demo_gate_world (\<lambda>_. []) demo_registry demo_manifest [lit ''a.json''] = Inr ()"
  by code_simp

theorem contracts_bound_to_frozen_sources_witness:
  "\<exists>ts. items_at (PDict demo_manifest) ''theorems'' = Inr ts \<and>
     list_all (\<lambda>entry. \<exists>t ids. t \<in> set ts \<and> items_at t ''contract_ids'' = Inr ids \<and> PStr (fst entry) \<in> set ids) demo_registry"
  using contracts_bound_to_frozen_sources [OF demo_traced] by blast

section \<open>The end of a theorem statement\<close>

definition depth :: "nat \<times> nat \<Rightarrow> pystr \<Rightarrow> int" where
  "depth b s = int (count_list s (fst b)) - int (count_list s (snd b))"

text \<open>No bracket is closed before it is opened, and at the end none is open.\<close>

definition balanced :: "pystr \<Rightarrow> bool" where
  "balanced s \<longleftrightarrow> (\<forall>b \<in> set BRACKETS. depth b s = 0 \<and> (\<forall>k. 0 \<le> depth b (take k s)))"

lemma depth_snoc: "depth b (s @ [c]) = depth b s + (if c = fst b then 1 else 0) - (if c = snd b then 1 else 0)"
  by (simp add: depth_def)

lemma bracket_depth_Some:
  assumes "bracket_depth depths c = Some depths'" and "\<forall>b \<in> set BRACKETS. depths (fst b) = depth b q \<and> 0 \<le> depth b q"
  shows "\<forall>b \<in> set BRACKETS. depths' (fst b) = depth b (q @ [c]) \<and> 0 \<le> depth b (q @ [c])"
  using assms unfolding bracket_depth_def BRACKETS_def
  by (auto simp: depth_snoc split: if_splits)

text \<open>A \<open>:=\<close> at position \<open>k\<close> of \<open>s\<close> where all brackets opened in \<open>q\<close> and before it are closed, none too early.\<close>

definition assign_at :: "pystr \<Rightarrow> pystr \<Rightarrow> nat \<Rightarrow> bool" where
  "assign_at q s k \<longleftrightarrow> (\<exists>post. drop k s = 58 # 61 # post) \<and>
     (\<forall>b \<in> set BRACKETS. depth b (q @ take k s) = 0 \<and> (\<forall>j \<le> k. 0 \<le> depth b (q @ take j s)))"

lemma bracket_depth_None:
  assumes "bracket_depth depths c = None" and "\<forall>b \<in> set BRACKETS. depths (fst b) = depth b q"
  shows "c \<noteq> 58 \<and> (\<exists>b \<in> set BRACKETS. depth b (q @ [c]) < 0)"
proof -
  have "\<exists>b \<in> set BRACKETS. c = snd b \<and> depths (fst b) \<le> 0 \<and> c \<noteq> fst b \<and> c \<noteq> 58"
    using assms(1) unfolding bracket_depth_def BRACKETS_def by (simp split: if_splits)
  then obtain b where b: "b \<in> set BRACKETS" "c = snd b" "depths (fst b) \<le> 0" "c \<noteq> fst b" "c \<noteq> 58" by blast
  then have "depth b (q @ [c]) < 0" using assms(2) by (simp add: depth_snoc)
  with b show ?thesis by blast
qed

lemma assign_at_Suc:
  "\<forall>b \<in> set BRACKETS. 0 \<le> depth b q \<Longrightarrow> assign_at q (c # s) (Suc k) \<longleftrightarrow> assign_at (q @ [c]) s k"
  unfolding assign_at_def less_Suc_eq_le [symmetric] All_less_Suc2 by auto

lemma assign_at_depth: "assign_at q s k \<Longrightarrow> b \<in> set BRACKETS \<Longrightarrow> j \<le> k \<Longrightarrow> 0 \<le> depth b (q @ take j s)"
  by (simp add: assign_at_def)

lemma assign_at_0: "\<forall>b \<in> set BRACKETS. 0 \<le> depth b q \<Longrightarrow>
    assign_at q s 0 \<longleftrightarrow> (\<exists>post. s = 58 # 61 # post) \<and> (\<forall>b \<in> set BRACKETS. depth b q = 0)"
  by (auto simp: assign_at_def)

lemma find_assign_first:
  "\<forall>b \<in> set BRACKETS. depths (fst b) = depth b q \<and> 0 \<le> depth b q \<Longrightarrow>
    find_assign decl depths n s = Inr i \<longleftrightarrow> (\<exists>k. i = n + k \<and> assign_at q s k \<and> (\<forall>j < k. \<not> assign_at q s j))"
proof (induction decl depths n s arbitrary: q rule: find_assign.induct)
  case (1 decl depths n c c' rest)
  let ?s = "c # c' # rest"
  have nonneg: "\<forall>b \<in> set BRACKETS. 0 \<le> depth b q" using "1.prems" by blast
  note at_Suc = assign_at_Suc [OF nonneg, of c "c' # rest"] and at_0 = assign_at_0 [OF nonneg, of ?s]
  show ?case
  proof (cases "bracket_depth depths c")
    case None
    then obtain b where b: "c \<noteq> 58" "b \<in> set BRACKETS" "depth b (q @ [c]) < 0"
      using bracket_depth_None "1.prems" by blast
    have "\<not> assign_at q ?s k" for k
    proof (cases k)
      case (Suc k')
      show ?thesis
      proof
        assume "assign_at q ?s k"
        from assign_at_depth [OF this b(2), of 1] b(3) show False by (simp add: Suc)
      qed
    qed (use b(1) at_0 in simp)
    then show ?thesis using None by simp
  next
    case (Some depths')
    note inv = bracket_depth_Some [OF Some "1.prems"]
    show ?thesis
    proof (cases "c = 58 \<and> c' = 61 \<and> list_all (\<lambda>(o', c). depths' o' = 0) BRACKETS")
      case True
      have "bracket_depth depths 58 = Some depths" by (simp add: bracket_depth_def BRACKETS_def)
      with True Some have "\<forall>b \<in> set BRACKETS. depths (fst b) = 0" by (auto simp: list_all_iff)
      with "1.prems" True have z: "assign_at q ?s 0" unfolding at_0 by auto
      have "find_assign decl depths n ?s = Inr i \<longleftrightarrow> i = n" using True Some by auto
      also have "\<dots> \<longleftrightarrow> (\<exists>k. i = n + k \<and> assign_at q ?s k \<and> (\<forall>j < k. \<not> assign_at q ?s j))"
      proof
        assume "i = n"
        with z show "\<exists>k. i = n + k \<and> assign_at q ?s k \<and> (\<forall>j < k. \<not> assign_at q ?s j)" by (intro exI [of _ 0]) simp
      next
        assume "\<exists>k. i = n + k \<and> assign_at q ?s k \<and> (\<forall>j < k. \<not> assign_at q ?s j)"
        then obtain k where k: "i = n + k" "\<forall>j < k. \<not> assign_at q ?s j" by blast
        with z have "k = 0" by blast
        with k(1) show "i = n" by simp
      qed
      finally show ?thesis .
    next
      case False
      have z: "\<not> assign_at q ?s 0"
      proof
        assume a: "assign_at q ?s 0"
        then have "c = 58" "c' = 61" "\<forall>b \<in> set BRACKETS. depth b q = 0" unfolding at_0 by auto
        moreover have "depths' = depths" using Some calculation(1) by (simp add: bracket_depth_def BRACKETS_def)
        ultimately show False using False "1.prems" by (auto simp: list_all_iff)
      qed
      have "find_assign decl depths n ?s = Inr i \<longleftrightarrow> find_assign decl depths' (n + 1) (c' # rest) = Inr i"
        using Some False by auto
      also have "\<dots> \<longleftrightarrow> (\<exists>k. i = n + 1 + k \<and> assign_at q ?s (Suc k) \<and> (\<forall>j < k. \<not> assign_at q ?s (Suc j)))"
        unfolding at_Suc by (rule "1.IH" [OF Some False inv])
      also have "\<dots> \<longleftrightarrow> (\<exists>k. i = n + k \<and> assign_at q ?s k \<and> (\<forall>j < k. \<not> assign_at q ?s j))"
      proof
        assume "\<exists>k. i = n + 1 + k \<and> assign_at q ?s (Suc k) \<and> (\<forall>j < k. \<not> assign_at q ?s (Suc j))"
        then obtain k where "i = n + 1 + k" "assign_at q ?s (Suc k)" "\<forall>j < k. \<not> assign_at q ?s (Suc j)" by blast
        with z show "\<exists>k. i = n + k \<and> assign_at q ?s k \<and> (\<forall>j < k. \<not> assign_at q ?s j)"
          by (intro exI [of _ "Suc k"]) (auto simp: All_less_Suc2)
      next
        assume "\<exists>k. i = n + k \<and> assign_at q ?s k \<and> (\<forall>j < k. \<not> assign_at q ?s j)"
        then obtain k where k: "i = n + k" "assign_at q ?s k" "\<forall>j < k. \<not> assign_at q ?s j" by blast
        with z obtain k' where "k = Suc k'" by (cases k) auto
        with k show "\<exists>k. i = n + 1 + k \<and> assign_at q ?s (Suc k) \<and> (\<forall>j < k. \<not> assign_at q ?s (Suc j))"
          by (intro exI [of _ k']) (auto simp: All_less_Suc2)
      qed
      finally show ?thesis .
    qed
  qed
qed (auto simp: assign_at_def drop_Cons split: nat.splits)

text \<open>Where a proof can start: at a \<open>:=\<close> before which the brackets of every kind are balanced.\<close>

definition proof_starts :: "pystr \<Rightarrow> nat \<Rightarrow> bool" where
  "proof_starts block i \<longleftrightarrow> (\<exists>statement proof. block = statement @ lit '':='' @ proof \<and> length statement = i \<and> balanced statement)"

lemma proof_starts_at: "proof_starts block i \<longleftrightarrow> assign_at [] block i"
proof
  assume "proof_starts block i"
  then obtain s p where s: "block = s @ lit '':='' @ p" "length s = i" "balanced s" by (auto simp: proof_starts_def)
  have "depth b (take j block) \<ge> 0" if "b \<in> set BRACKETS" "j \<le> i" for b j
    using s that by (auto simp: balanced_def)
  with s show "assign_at [] block i" by (auto simp: assign_at_def balanced_def lit_def)
next
  assume a: "assign_at [] block i"
  then obtain p where p: "drop i block = 58 # 61 # p" by (auto simp: assign_at_def)
  have "0 \<le> depth b (take k (take i block))" if "b \<in> set BRACKETS" for b k
    using a that by (auto simp: assign_at_def min_def)
  then have "balanced (take i block)" using a by (auto simp: assign_at_def balanced_def)
  moreover have "block = take i block @ lit '':='' @ p" using append_take_drop_id [of i block] unfolding p by (simp add: lit_def)
  moreover have "length (take i block) = i"
    using p by (metis length_take min.absorb2 nat_le_linear drop_all list.distinct(1))
  ultimately show "proof_starts block i" unfolding proof_starts_def by blast
qed

text \<open>C40: The statement of a theorem ends at the first top-level \<open>:=\<close>: the position found is that of a \<open>:=\<close>
  before which the brackets of every kind are balanced, no earlier \<open>:=\<close> is one, and a position is found
  whenever there is one.\<close>

theorem proof_assign_top_level:
  "find_top_level_proof_assign block decl = Inr i \<longleftrightarrow> proof_starts block i \<and> (\<forall>j < i. \<not> proof_starts block j)"
  unfolding proof_starts_at find_top_level_proof_assign_def
  using find_assign_first [of "\<lambda>_. 0" "[]" decl 0 block i] by (simp add: depth_def)

theorem proof_assign_top_level_witness:
  "proof_starts (lit ''theorem t (x := 1) : p := q := r'') 23 \<and> \<not> proof_starts (lit ''theorem t (x := 1) : p := q := r'') 11"
proof -
  have "find_top_level_proof_assign (lit ''theorem t (x := 1) : p := q := r'') [] = Inr 23" by code_simp
  then show ?thesis unfolding proof_assign_top_level by simp
qed

section \<open>The manifest and the source\<close>

definition declaration_of :: "pyval \<Rightarrow> pystr" where
  "declaration_of t = str_of (dget (dict_of t) ''declaration'')"

lemma verify_theorem_Inr:
  assumes "verify_theorem frozen_inputs (ids, decls) (n, t) = Inr r"
  shows "is_dict t \<and> dget (dict_of t) ''id'' = PStr (theorem_id n) \<and> dget (dict_of t) ''declaration'' = PStr (declaration_of t) \<and>
    declaration_of t \<notin> set decls \<and> r = (theorem_id n # ids, declaration_of t # decls) \<and>
    set (items_of (dget (dict_of t) ''source_refs'')) \<subseteq> PStr ` set frozen_inputs"
  using assms
  by (cases "dget (dict_of t) ''declaration''")
    (auto simp: verify_theorem_def declaration_of_def fullmatch_def bindE_eq_Inr eachE_eq_Inr Let_def simp del: requireG_bind)

lemma verify_theorem_fold:
  assumes "foldE (verify_theorem frozen_inputs) (ids, decls) (enumerate n ts) = Inr r" and "distinct decls"
  shows "distinct (rev (map declaration_of ts) @ decls) \<and> map (\<lambda>t. dget (dict_of t) ''declaration'') ts = map (PStr \<circ> declaration_of) ts \<and>
    list_all2 (\<lambda>k t. dget (dict_of t) ''id'' = PStr (theorem_id k)) [n..<n + length ts] ts \<and>
    list_all (\<lambda>t. is_dict t \<and> set (items_of (dget (dict_of t) ''source_refs'')) \<subseteq> PStr ` set frozen_inputs) ts"
  using assms
proof (induction ts arbitrary: n ids decls)
  case (Cons t ts)
  then obtain s where s: "verify_theorem frozen_inputs (ids, decls) (n, t) = Inr s"
    "foldE (verify_theorem frozen_inputs) s (enumerate (Suc n) ts) = Inr r" by (auto simp: bindE_eq_Inr)
  note v = verify_theorem_Inr [OF s(1)]
  have "distinct (declaration_of t # decls)" using v Cons.prems(2) by simp
  moreover have "[n..<n + length (t # ts)] = n # [Suc n..<Suc n + length ts]" by (simp add: upt_conv_Cons del: upt_Suc)
  ultimately show ?case using Cons.IH [of "theorem_id n # ids" "declaration_of t # decls" "Suc n"] s(2) v
    by (auto simp del: upt_Suc)
qed simp

lemma vindex_Inr: "vindex v k = Inr x \<Longrightarrow> x = dget (dict_of v) k"
  by (cases v) (auto simp: vindex_def dindex_def dget_def split: option.splits)

text \<open>
  The theorems of the manifest are numbered in order, have distinct names, come from frozen inputs, and are
  in this order the theorems that \<open>QSOLFed/Theorems.lean\<close> declares in its namespace.
\<close>

lemma verify_theorems_Inr:
  assumes "verify_theorems w count manifest frozen_inputs = Inr ()"
  shows "\<exists>ts owned. dget manifest ''theorems'' = PList ts \<and> length ts = count \<and> distinct (map declaration_of ts) \<and>
    list_all2 (\<lambda>k t. dget (dict_of t) ''id'' = PStr (theorem_id k)) [1..<1 + length ts] ts \<and>
    list_all (\<lambda>t. set (items_of (dget (dict_of t) ''source_refs'')) \<subseteq> PStr ` set frozen_inputs) ts \<and>
    list_all (\<lambda>t. dget (dict_of t) ''declaration'' = PStr (declaration_of t)) ts \<and>
    lean_fully_qualified_theorems (gw_uni w) (theorems_file w) = Inr owned \<and>
    map fst owned = map (\<lambda>t. lit ''QSOLFed.'' @ declaration_of t) ts"
proof -
  obtain ts owned expected r where t: "dget manifest ''theorems'' = PList ts" "length ts = count"
    "lean_fully_qualified_theorems (gw_uni w) (theorems_file w) = Inr owned"
    "mapE (\<lambda>t. bindE (vindex t ''declaration'') (\<lambda>n. Inr (lit ''QSOLFed.'' @ str_text w n))) ts = Inr expected"
    "map fst owned = expected" "foldE (verify_theorem frozen_inputs) ([], []) (enumerate 1 ts) = Inr r"
    using assms by (cases "dget manifest ''theorems''") (auto simp: verify_theorems_def bindE_eq_Inr Let_def simp del: requireG_bind)
  note f = verify_theorem_fold [OF t(6), simplified]
  have "expected = map (\<lambda>t. lit ''QSOLFed.'' @ declaration_of t) ts"
  proof (rule nth_equalityI)
    show "length expected = length (map (\<lambda>t. lit ''QSOLFed.'' @ declaration_of t) ts)" using length_mapE [OF t(4)] by simp
    fix i assume "i < length expected"
    then have i: "i < length ts" using length_mapE [OF t(4)] by simp
    with t(4) have "bindE (vindex (ts ! i) ''declaration'') (\<lambda>n. Inr (lit ''QSOLFed.'' @ str_text w n)) = Inr (expected ! i)"
      by (auto simp: mapE_eq_Inr list_all2_conv_all_nth)
    moreover have "dget (dict_of (ts ! i)) ''declaration'' = PStr (declaration_of (ts ! i))"
      using f i by auto
    ultimately show "expected ! i = map (\<lambda>t. lit ''QSOLFed.'' @ declaration_of t) ts ! i"
      using i vindex_Inr by (fastforce simp: bindE_eq_Inr str_text_def)
  qed
  with t f show ?thesis by (auto simp: list_all_iff)
qed

end
