(* ===== verification/Gate_Laws.thy ===== *)
theory Gate_Laws
  imports Formal_Stack Formal_Laws
begin

text \<open>
  What it means that the phase 10 gate accepts: the theorems of the manifest are the theorems of the Lean file,
  bound to the frozen release, audited, and none of the Lean files declares an axiom.
\<close>

section \<open>The pieces of the meaning\<close>

text \<open>Every input of the frozen release is the blob that git has for it.\<close>

definition release_pinned :: "gate_world \<Rightarrow> (pystr \<times> pystr) list \<Rightarrow> bool" where
  "release_pinned w frozen \<longleftrightarrow> list_all (\<lambda>(path, blob). gw_git w [lit ''rev-parse'', TARGET_TAG @ [58] @ path] = Inr blob \<and>
     gw_git w [lit ''cat-file'', lit ''-t'', blob] = Inr (lit ''blob'')) frozen"

text \<open>The statements of the theorems, up to white space, have the registered digests.\<close>

definition starts_of :: "gate_world \<Rightarrow> pystr \<Rightarrow> (nat \<times> pystr) list" where
  "starts_of w code = theorem_starts (gw_uni w) 0 (split_all 10 code)"

definition statements_pinned :: "gate_world \<Rightarrow> (pystr \<times> pystr) list \<Rightarrow> pystr \<Rightarrow> bool" where
  "statements_pinned w digests code \<longleftrightarrow>
     list_all (\<lambda>(name, block). \<exists>d. type_digest (gw_sha256 w) block name = Inr d \<and> lookup digests name = Some d)
       (theorem_blocks code (starts_of w code))"

text \<open>The code of an audit file names exactly these theorems, in this order.\<close>

definition audits :: "(pystr \<Rightarrow> pystr list) \<Rightarrow> pystr \<Rightarrow> pystr result \<Rightarrow> pystr list \<Rightarrow> bool" where
  "audits found path text names \<longleftrightarrow> (\<exists>source code. text = Inr source \<and> lean_code_only path source = Inr code \<and> found code = names)"

lemma py_eq_list_strings: "py_eq_list (map PStr xs) vs \<longleftrightarrow> vs = map PStr xs"
  by (induction xs arbitrary: vs) (auto split: list.splits)

lemma lookup_strings: "lookup (map (\<lambda>(p, b). (p, PStr b)) kvs) k = map_option PStr (lookup kvs k)"
  by (induction kvs) auto

lemma verify_frozen_inputs_Inr:
  assumes "verify_frozen_inputs w frozen manifest = Inr paths"
  shows "release_pinned w frozen \<and> set paths \<subseteq> set (map fst frozen)"
proof -
  obtain observed where o: "py_eq (PDict observed) (PDict (map (\<lambda>(p, b). (p, PStr b)) frozen))" "paths = map fst observed"
    and git: "\<forall>x \<in> set frozen. (case x of (path, blob) \<Rightarrow>
        bindE (gw_git w [lit ''rev-parse'', TARGET_TAG @ [58] @ path]) (\<lambda>actual.
        bindE (requireG (actual = blob) ''frozen input blob drift: '' path) (\<lambda>_.
        bindE (gw_git w [lit ''cat-file'', lit ''-t'', actual]) (\<lambda>kind.
        requireG (kind = lit ''blob'') ''frozen input is not a blob: '' path)))) = Inr ()"
    using assms by (auto simp: verify_frozen_inputs_def bindE_eq_Inr eachE_eq_Inr Let_def simp del: requireG_bind)
  have "release_pinned w frozen"
    using git by (fastforce simp: release_pinned_def list_all_iff bindE_eq_Inr split: if_splits)
  moreover have "k \<in> set (map fst frozen)" if "k \<in> set paths" for k
  proof -
    from that o obtain v where "(k, v) \<in> set observed" by auto
    with o(1) have "lookup frozen k \<noteq> None" by (fastforce simp: py_eq_dict_iff lookup_strings split: option.splits)
    then show ?thesis by (auto simp: lookup_None_iff)
  qed
  ultimately show ?thesis by blast
qed

lemma contract_bound_mono:
  "contract_bound w float_text reg paths refs c \<Longrightarrow> set paths \<subseteq> set paths' \<Longrightarrow> contract_bound w float_text reg paths' refs c"
  unfolding contract_bound_def by blast

lemma theorem_bound_mono:
  "theorem_bound w float_text reg paths t \<Longrightarrow> set paths \<subseteq> set paths' \<Longrightarrow> theorem_bound w float_text reg paths' t"
  unfolding theorem_bound_def list_all_iff using contract_bound_mono by blast

lemma manifest_declarations_Inr:
  assumes "manifest_declarations manifest = Inr expected" and "dget manifest ''theorems'' = PList ts"
    and "list_all (\<lambda>t. dget (dict_of t) ''declaration'' = PStr (declaration_of t)) ts"
  shows "expected = map PStr (map declaration_of ts)"
proof -
  have "dget_or manifest ''theorems'' (PList []) = PList ts"
    using assms(2) by (auto simp: dget_or_def dget_def split: option.splits)
  then have "mapE (\<lambda>t. vindex t ''declaration'') ts = Inr expected"
    using assms(1) by (simp add: manifest_declarations_def list_or_empty_def)
  then have "list_all2 (\<lambda>t v. v = PStr (declaration_of t)) ts expected"
    using assms(3) by (auto simp: mapE_eq_Inr list_all2_conv_all_nth list_all_length dest!: vindex_Inr)
  then show ?thesis by (auto simp: list_all2_conv_all_nth intro!: nth_equalityI)
qed

lemma verify_axiom_audit_Inr:
  assumes "verify_axiom_audit_coverage w count manifest = Inr ()"
  shows "\<exists>names. manifest_declarations manifest = Inr (map PStr names) \<and> audits axiom_prints AXIOM_AUDIT_PATH (gw_text w AXIOM_AUDIT_PATH) names"
  using assms by (auto simp: verify_axiom_audit_coverage_def audits_def bindE_eq_Inr Let_def py_eq_list_strings simp del: requireG_bind)

lemma verify_type_audit_Inr:
  assumes "verify_type_audit_locked sha256 w digest manifest = Inr ()"
  shows "\<exists>names. manifest_declarations manifest = Inr (map PStr names) \<and>
    audits type_checks TYPE_AUDIT_PATH (bindE (gw_bytes w TYPE_AUDIT_PATH) utf8_decode) names"
  using assms by (auto simp: verify_type_audit_locked_def audits_def bindE_eq_Inr py_eq_list_strings simp del: requireG_bind)

lemma verify_type_digests_Inr:
  assumes "verify_theorem_type_digests (gw_sha256 w) w digests manifest = Inr ()"
  shows "\<exists>code. theorems_code w = Inr code \<and> manifest_declarations manifest = Inr (map PStr (map snd (starts_of w code))) \<and>
    statements_pinned w digests code"
proof -
  obtain source code expected where c: "gw_text w THEOREMS_PATH = Inr source" "lean_code_only THEOREMS_PATH source = Inr code"
    "manifest_declarations manifest = Inr expected" "py_eq_list (map (\<lambda>m. PStr (snd m)) (starts_of w code)) expected"
    and each: "eachE (\<lambda>(declaration, block). bindE (type_digest (gw_sha256 w) block declaration) (\<lambda>actual.
       requireG (lookup digests declaration = Some actual) ''theorem type/source digest drift for '' declaration))
       (theorem_blocks code (starts_of w code)) = Inr ()"
    using assms by (auto simp: verify_theorem_type_digests_def bindE_eq_Inr Let_def starts_of_def [symmetric] simp del: requireG_bind)
  have "statements_pinned w digests code"
    using each by (fastforce simp: statements_pinned_def list_all_iff eachE_eq_Inr bindE_eq_Inr)
  moreover have "expected = map PStr (map snd (starts_of w code))"
    using c(4) py_eq_list_strings [of "map snd (starts_of w code)"] by (simp add: comp_def)
  ultimately show ?thesis using c by (auto simp: theorems_code_def)
qed

section \<open>The layers\<close>

lemma as_dict_Inr: "as_dict v = Inr d \<longleftrightarrow> v = PDict d"
  by (cases v) (auto simp: as_dict_def)

text \<open>The manifest conforms to the schema document.\<close>

definition manifest_conforms :: "gate_world \<Rightarrow> pydict \<Rightarrow> bool" where
  "manifest_conforms w manifest \<longleftrightarrow> (\<exists>schema. load_json w MANIFEST_SCHEMA_PATH = Inr schema \<and>
     conforms (gw_float w) (gw_re_search w) True (PDict manifest) schema)"

lemma verify_manifest_schema_Inr: "verify_manifest_schema w (PDict manifest) = Inr schema \<Longrightarrow> manifest_conforms w manifest"
  by (auto simp: verify_manifest_schema_def manifest_conforms_def bindE_eq_Inr as_dict_Inr base.decides simp del: requireG_bind)

lemma base_validate_Inr:
  assumes "base_validate w G = Inr result"
  obtains manifest schema paths where "load_json w MANIFEST_PATH = Inr (PDict manifest)"
    "verify_manifest_schema w (PDict manifest) = Inr schema" "verify_frozen_inputs w (gt_frozen G) manifest = Inr paths"
    "verify_theorems w (gt_count G) manifest paths = Inr ()"
    "verify_contract_traceability w (gw_float w) (gt_registry G) manifest paths = Inr ()"
    "verify_axiom_audit_coverage w (gt_count G) manifest = Inr ()" "verify_no_custom_axioms (gw_uni w) (gw_lean_files w) = Inr ()"
  using assms unfolding base_validate_def bindE_eq_Inr as_dict_Inr by auto

lemma round9_validate_Inr:
  assumes "round9_validate w G = Inr result"
  obtains manifest where "base_validate w G = Inr result" "load_json w MANIFEST_PATH = Inr (PDict manifest)"
    "verify_theorem_type_digests (gw_sha256 w) w (gt_digests G) manifest = Inr ()"
    "verify_type_audit_locked (gw_sha256 w) w (gt_type_audit G) manifest = Inr ()"
  using assms unfolding round9_validate_def load_dict_def bindE_eq_Inr as_dict_Inr by auto

text \<open>What the gate establishes of the manifest, the Lean files and the frozen release.\<close>

definition formalization_bound :: "gate_world \<Rightarrow> gate_tables \<Rightarrow> pydict \<Rightarrow> pyval list \<Rightarrow> bool" where
  "formalization_bound w G manifest ts \<longleftrightarrow>
     manifest_conforms w manifest \<and> release_pinned w (gt_frozen G) \<and>
     list_all (theorem_bound w (gw_float w) (gt_registry G) (map fst (gt_frozen G))) ts \<and>
     (\<exists>owned. lean_fully_qualified_theorems (gw_uni w) (theorems_file w) = Inr owned \<and>
       map fst owned = map (\<lambda>t. lit ''QSOLFed.'' @ declaration_of t) ts) \<and>
     (\<exists>code. theorems_code w = Inr code \<and> map snd (starts_of w code) = map declaration_of ts \<and> statements_pinned w (gt_digests G) code) \<and>
     audits axiom_prints AXIOM_AUDIT_PATH (gw_text w AXIOM_AUDIT_PATH) (map declaration_of ts) \<and>
     audits type_checks TYPE_AUDIT_PATH (bindE (gw_bytes w TYPE_AUDIT_PATH) utf8_decode) (map declaration_of ts) \<and>
     list_all (axiom_free (gw_uni w)) (gw_lean_files w)"

lemma round9_bound:
  assumes "round9_validate w G = Inr result"
  shows "\<exists>manifest ts. load_json w MANIFEST_PATH = Inr (PDict manifest) \<and> dget manifest ''theorems'' = PList ts \<and>
    length ts = gt_count G \<and> distinct (map declaration_of ts) \<and> formalization_bound w G manifest ts"
proof -
  obtain m where top: "base_validate w G = Inr result" "load_json w MANIFEST_PATH = Inr (PDict m)"
    and digests: "verify_theorem_type_digests (gw_sha256 w) w (gt_digests G) m = Inr ()"
    and types: "verify_type_audit_locked (gw_sha256 w) w (gt_type_audit G) m = Inr ()"
    by (rule round9_validate_Inr [OF assms])
  obtain schema paths where sc: "verify_manifest_schema w (PDict m) = Inr schema"
    and frozen: "verify_frozen_inputs w (gt_frozen G) m = Inr paths"
    and thms: "verify_theorems w (gt_count G) m paths = Inr ()"
    and contracts: "verify_contract_traceability w (gw_float w) (gt_registry G) m paths = Inr ()"
    and axioms: "verify_axiom_audit_coverage w (gt_count G) m = Inr ()"
    and none: "verify_no_custom_axioms (gw_uni w) (gw_lean_files w) = Inr ()"
    by (rule base_validate_Inr [OF top(1)]) (use top(2) in auto)
  obtain ts owned where ts: "dget m ''theorems'' = PList ts" "length ts = gt_count G" "distinct (map declaration_of ts)"
    "list_all (\<lambda>t. dget (dict_of t) ''declaration'' = PStr (declaration_of t)) ts"
    "lean_fully_qualified_theorems (gw_uni w) (theorems_file w) = Inr owned"
    "map fst owned = map (\<lambda>t. lit ''QSOLFed.'' @ declaration_of t) ts"
    using verify_theorems_Inr [OF thms] by blast
  note declared = manifest_declarations_Inr [OF _ ts(1) ts(4)]
  have inj: "inj PStr" by (simp add: inj_def)
  have names: "names = map declaration_of ts" if "manifest_declarations m = Inr (map PStr names)" for names
    using declared [OF that] unfolding inj_map_eq_map [OF inj] .
  obtain ts' where bound: "items_at (PDict m) ''theorems'' = Inr ts'" "list_all (theorem_bound w (gw_float w) (gt_registry G) paths) ts'"
    using traceability_bound [OF contracts] by blast
  have "ts' = ts" using bound(1) ts(1)
    by (auto simp: items_at_def vindex_def dindex_def dget_def bindE_eq_Inr split: option.splits)
  with bound(2) verify_frozen_inputs_Inr [OF frozen]
  have "list_all (theorem_bound w (gw_float w) (gt_registry G) (map fst (gt_frozen G))) ts" "release_pinned w (gt_frozen G)"
    using theorem_bound_mono by (auto simp: list_all_iff)
  moreover have "\<exists>code. theorems_code w = Inr code \<and> map snd (starts_of w code) = map declaration_of ts \<and> statements_pinned w (gt_digests G) code"
    using verify_type_digests_Inr [OF digests] names by blast
  moreover have "audits axiom_prints AXIOM_AUDIT_PATH (gw_text w AXIOM_AUDIT_PATH) (map declaration_of ts)"
    using verify_axiom_audit_Inr [OF axioms] names by blast
  moreover have "audits type_checks TYPE_AUDIT_PATH (bindE (gw_bytes w TYPE_AUDIT_PATH) utf8_decode) (map declaration_of ts)"
    using verify_type_audit_Inr [OF types] names by blast
  moreover have "list_all (axiom_free (gw_uni w)) (gw_lean_files w)" using none by (simp add: no_custom_axioms_iff)
  ultimately have "formalization_bound w G m ts"
    using verify_manifest_schema_Inr [OF sc] ts(5,6) unfolding formalization_bound_def by blast
  with top(2) ts(1,2,3) show ?thesis by blast
qed

text \<open>The layers above add checks: what the whole gate accepts, round 9 accepts with the tables of the top.\<close>

lemma phase10_gate_Inr:
  assumes "phase10_gate w = Inr result"
  shows "\<exists>G. current_tables w = Inr G \<and> round9_validate w G = Inr result \<and>
    list_all (\<lambda>(path, blob). gw_git w [lit ''rev-parse'', lit ''HEAD:'' @ path] = Inr blob \<and> gw_git w (hash_object path) = Inr blob) PREIMPORT_BLOBS"
proof -
  have "exact_bytes w entry = Inr () \<Longrightarrow>
      (case entry of (path, blob) \<Rightarrow> gw_git w [lit ''rev-parse'', lit ''HEAD:'' @ path] = Inr blob \<and> gw_git w (hash_object path) = Inr blob)" for entry
    by (cases entry) (auto simp: exact_bytes_def bindE_eq_Inr split: if_splits)
  then have "verify_exact_bytes_still_hold w = Inr () \<Longrightarrow>
      list_all (\<lambda>(path, blob). gw_git w [lit ''rev-parse'', lit ''HEAD:'' @ path] = Inr blob \<and> gw_git w (hash_object path) = Inr blob) PREIMPORT_BLOBS"
    by (auto simp: verify_exact_bytes_still_hold_def bindE_eq_Inr eachE_eq_Inr list_all_iff simp del: requireG_bind)
  then show ?thesis
    using assms by (auto simp: phase10_gate_def gate_validate_def round11_validate_def round10_validate_def bindE_eq_Inr)
qed

text \<open>C34: What the phase 10 gate accepts is bound: the manifest has the expected number of theorems, with distinct
  names, and conforms to its schema; in this order they are the theorems that \<open>QSOLFed/Theorems.lean\<close>
  declares, the ones both audits name, and their statements have the registered digests; every contract of
  every theorem holds of a frozen input, every frozen input is the blob of the release; and in the code of
  each Lean file, that is in the text which the scanner leaves when it has blanked what it takes for
  comments and strings, neither the word \<open>axiom\<close> nor the word \<open>constant\<close> occurs. An axiom that is declared
  between two quotation marks in character literals is blanked with them and not excluded by this.\<close>

theorem round9_gate_sound:
  assumes "round9_validate w G = Inr result"
  shows "\<exists>manifest ts. load_json w MANIFEST_PATH = Inr (PDict manifest) \<and> dget manifest ''theorems'' = PList ts \<and>
    length ts = gt_count G \<and> distinct (map declaration_of ts) \<and> formalization_bound w G manifest ts"
  using round9_bound [OF assms] .

end
