(* ===== verification/Gate_Demo.thy ===== *)
theory Gate_Demo
  imports Gate_Laws
begin

text \<open>A small repository that the phase 10 gate accepts: one theorem, one contract, one frozen input.\<close>

section \<open>The documents\<close>

definition gd_status :: pyval where "gd_status = PS ''LEAN_VERIFIED_ON_BRANCH''"

definition gd_theorem :: pyval where
  "gd_theorem = PDict (pd [(''id'', PS ''FED-LEAN-001''), (''declaration'', PS ''t''), (''module'', PS ''QSOLFed.Theorems''),
     (''path'', PStr THEOREMS_PATH), (''source_refs'', PList [PS ''a.json'']), (''contract_ids'', PList [PS ''c'']),
     (''proof_status'', PS ''IMPLEMENTED'')])"

definition gd_blob :: pystr where "gd_blob = replicate 40 48"

definition gd_manifest :: pydict where
  "gd_manifest = pd [(''schema'', PS ''qsol-fed-lean-phase10-manifest/1''), (''protocol'', PS ''qsol-fed/0''), (''phase'', PInt 10),
     (''status'', gd_status), (''assumptions'', EXPECTED_ASSUMPTIONS),
     (''nonclaims'', PList (map (\<lambda>x. PS x) [''LEAN_THEOREM != DEPLOYMENT_SECURITY_PROOF'', ''FORMAL_MODEL != UNSTATED_REAL_WORLD_ASSUMPTION'',
       ''LEAN_MODEL != COMPLETE_RUST_IMPLEMENTATION_VERIFICATION'', ''MORIARTY_REPORT != SECURITY_PROOF'',
       ''TARGET_BOUND_SOURCE_RELEASE != POST_TAG_FORMALIZATION_LAYER''])),
     (''graduation_requirements'', PDict (pd [(''no_unresolved_sorry_or_admit'', PBool True), (''named_assumptions_required'', PBool True),
       (''theorem_to_contract_traceability_required'', PBool True), (''clean_checkout_build_required'', PBool True),
       (''custom_axioms_allowed'', PList [])])),
     (''source_release'', PDict EXPECTED_RELEASE), (''moriarty_binding'', PDict EXPECTED_BINDING),
     (''toolchain'', PDict (pd [(''lean'', PS ''v4.33.1''), (''lean_toolchain'', PStr LEAN_TOOLCHAIN),
       (''archive_sha256'', PStr LEAN_ARCHIVE_SHA256), (''external_dependencies'', PList [])])),
     (''frozen_inputs'', PList [PDict (pd [(''path'', PS ''a.json''), (''git_blob_sha1'', PStr gd_blob)])]),
     (''theorem_count'', PInt 1), (''theorems'', PList [gd_theorem])]"

definition gd_schema :: pydict where
  "gd_schema = pd [(''$schema'', PS ''https://json-schema.org/draft/2020-12/schema''),
     (''$id'', PS ''https://qsol.example/schemas/lean-phase10-manifest-v1.schema.json''),
     (''properties'', PDict (pd [(''theorem_count'', PDict (pd [(''const'', PInt 1)])),
       (''status'', PDict (pd [(''enum'', PList [gd_status])])),
       (''moriarty_binding'', PDict (pd [(''properties'', PDict (pd [(''report_sha256'',
         PDict (pd [(''const'', PStr (lit ''sha256:'' @ REPORT_SHA256))]))]))]))]))]"

definition gd_state :: pydict where
  "gd_state = pd [(''document_type'', PS ''qsol-fed-phase10-lean-contract''), (''phase'', PS ''10''),
     (''source_release'', PDict (pd [(''tag'', PStr TARGET_TAG), (''commit'', PStr TARGET_COMMIT), (''tree'', PStr TARGET_TREE), (''immutable'', PBool True)])),
     (''theorem_scope'', PDict (pd [(''theorem_count'', PInt 1), (''no_sorry_or_admit'', PBool True), (''custom_axioms'', PList []),
       (''kernel_axiom_dependencies'', PList [])])),
     (''moriarty_source_evidence'', PDict EXPECTED_EVIDENCE), (''non_claims'', PDict EXPECTED_STATE_NON_CLAIMS),
     (''formalization_layer'', PDict EXPECTED_FORMALIZATION_LAYER)]"

definition gd_frozen_claims :: pydict where
  "gd_frozen_claims = pd [(''capabilities'', PDict []), (''assurance'', PDict [])]"

definition gd_claims :: pydict where
  "gd_claims = pd [(''document_type'', PS ''qsol-fed-phase10-lean-claims''), (''phase'', PS ''10''), (''runtime_override_allowed'', PBool False),
     (''claim_surface_changed'', PBool False), (''capabilities'', PDict []), (''adversarial_assurance'', PDict (expected_adversarial [])),
     (''formalization_assurance'', PDict (pd [(''theorem_count'', PInt 1), (''unresolved_sorry_or_admit'', PBool False), (''custom_axioms'', PBool False),
       (''graduation_theorem_kernel_axiom_dependencies'', PBool False), (''whole_implementation_verified'', PBool False),
       (''deployment_security_proof'', PBool False), (''source_release_rewritten'', PBool False), (''formalization_creates_authority'', PBool False)]))]"

definition gd_report :: pydict where
  "gd_report = EXPECTED_REPORT @ pd [(''counterexamples'', PList []), (''remediation_replays'', PList []),
     (''probe_results'', PList (map (\<lambda>p. PDict (pd [(''probe_id'', PS p), (''ok'', PBool True), (''exit_code'', PInt 0), (''failure_kind'', PNone)]))
       EXPECTED_PROBE_IDS))]"

section \<open>The repository\<close>

definition gd_lines :: "string list \<Rightarrow> pystr" where "gd_lines ls = concat (map (\<lambda>l. lit l @ [10]) ls)"

definition gd_lean :: pystr where "gd_lean = gd_lines [''namespace QSOLFed'', ''theorem t : True := trivial'', ''end QSOLFed'']"

definition gd_docs :: "pystr list" where
  "gd_docs = [TARGET_TAG, TARGET_COMMIT, TARGET_TREE,
     lit ''LEAN THEOREM != DEPLOYMENT SECURITY PROOF'', lit ''TARGET_BOUND SOURCE RELEASE != POST-TAG FORMALIZATION LAYER'']"

definition gd_roadmap :: "pystr list" where
  "gd_roadmap = [lit ''Phase 10 '' @ [0x2014] @ lit '' Lean 4 formalization'', lit ''Prime Directive admission'',
     lit ''signature/trust/authority separation'', lit ''transport identity/provenance independence'',
     lit ''No unresolved `so'' @ lit ''rry`/`admit` is permitted in the graduation theorem set'',
     lit ''assumptions must be named and theorem-to-contract traceability complete'',
     lit ''LEAN THEOREM != DEPLOYMENT SECURITY PROOF'', lit ''FORMAL MODEL != UNSTATED REAL-WORLD ASSUMPTION'']"

text \<open>Documents are read by their path: the text of a JSON file is its path.\<close>

definition gd_texts :: "(pystr \<times> pystr) list" where
  "gd_texts = [(THEOREMS_PATH, gd_lean), (AXIOM_AUDIT_PATH, gd_lines [''#print axioms QSOLFed.t'']),
     (lit ''lean-toolchain'', LEAN_TOOLCHAIN), (lit ''FORMALIZATION.md'', concat gd_docs)]"

definition gd_documents :: "(pystr \<times> pyval) list" where
  "gd_documents = [(MANIFEST_PATH, PDict gd_manifest), (MANIFEST_SCHEMA_PATH, PDict gd_schema), (STATE_PATH, PDict gd_state),
     (CLAIMS_PATH, PDict gd_claims), (lit ''claims/phase9.json'', PDict gd_frozen_claims), (lit ''claims/phase8.json'', PDict gd_frozen_claims),
     (lit ''a.json'', PDict (pd [(''k'', PBool False)])), (lit ''R'', PDict gd_report)]"

definition gd_git :: "pystr list \<Rightarrow> pystr result" where
  "gd_git args = Inr (
     if args = [lit ''rev-parse'', lit ''HEAD:tools/validate_phase10_gate_base.py''] then LEGACY_GATE_BLOB
     else if args = [lit ''rev-parse'', TARGET_TAG @ lit ''^{commit}''] then TARGET_COMMIT
     else if args = [lit ''rev-parse'', TARGET_COMMIT @ lit ''^{tree}''] then TARGET_TREE
     else if hd args = lit ''rev-parse'' then gd_blob
     else if args = [lit ''cat-file'', lit ''-t'', gd_blob] then lit ''blob''
     else if hd args = lit ''cat-file'' then lit ''commit''
     else if args = [lit ''show'', TARGET_TAG @ lit '':ROADMAP.md''] then concat gd_roadmap
     else drop (length TARGET_TAG + 1) (args ! 1))"

definition gd_digest :: bytes where
  "gd_digest = [0x6c, 0x21, 0x5f, 0x44, 0xa1, 0xc5, 0x2a, 0xa3, 0xbf, 0xef, 0xad, 0xc4, 0x03, 0x90, 0x13, 0xea,
     0x69, 0xdd, 0xbe, 0x0f, 0x2a, 0xfd, 0x06, 0xf6, 0xda, 0xc2, 0x73, 0x77, 0x36, 0x9b, 0x18, 0x5c]"

definition gd_world :: gate_world where
  "gd_world = \<lparr>gw_git = gd_git,
     gw_loads = (\<lambda>t. case lookup gd_documents t of None \<Rightarrow> Inl JSONDecodeError | Some d \<Rightarrow> Inr d),
     gw_is_file = (\<lambda>_. True), gw_exists = (\<lambda>_. False),
     gw_text = (\<lambda>p. Inr (case lookup gd_texts p of None \<Rightarrow> p | Some t \<Rightarrow> t)),
     gw_bytes = (\<lambda>p. if p = TYPE_AUDIT_PATH then utf8_encode (gd_lines [''#check (@t : True)'']) else Inr [0x52]),
     gw_str = (\<lambda>_. []), gw_uni = (\<lambda>_. False), gw_env = (\<lambda>_. None), gw_toml = (\<lambda>_. Inr EXPECTED_LAKEFILE),
     gw_lean_files = [(THEOREMS_PATH, Inr gd_lean)], gw_sha256 = (\<lambda>b. if b = [0x52] then gd_digest else []), gw_float = (\<lambda>_. []),
     gw_re_search = (\<lambda>_ _. Some True)\<rparr>"

definition gd_tables :: gate_tables where
  "gd_tables = \<lparr>gt_count = 1, gt_frozen = [(lit ''a.json'', gd_blob)],
     gt_registry = map contract [(''c'', ''a.json'', ''/k'', Equals, PBool False)], gt_type_audit = [], gt_digests = [(lit ''t'', [])],
     gt_layer = EXPECTED_FORMALIZATION_LAYER, gt_manifest_blob = gd_blob, gt_schema_blob = gd_blob\<rparr>"

section \<open>The checks\<close>

lemma gd_loaded: "load_json gd_world MANIFEST_PATH = Inr (PDict gd_manifest)"
  by code_simp

lemma gd_schema_ok: "verify_manifest_schema gd_world (PDict gd_manifest) = Inr gd_schema"
  by code_simp

lemma gd_policy_ok: "verify_manifest_policy gd_world gd_manifest = Inr ()"
  by code_simp

lemma gd_target_ok: "verify_frozen_target gd_world gd_manifest = Inr ()"
  by code_simp

lemma gd_report_ok: "verify_moriarty_binding gd_world gd_manifest = Inr ()"
  by code_simp

lemma gd_frozen_ok: "verify_frozen_inputs gd_world (gt_frozen gd_tables) gd_manifest = Inr [lit ''a.json'']"
  by code_simp

lemma gd_theorems_ok: "verify_theorems gd_world (gt_count gd_tables) gd_manifest [lit ''a.json''] = Inr ()"
  by code_simp

lemma gd_contracts_ok:
  "verify_contract_traceability gd_world (gw_float gd_world) (gt_registry gd_tables) gd_manifest [lit ''a.json''] = Inr ()"
  by code_simp

lemma gd_audit_ok: "verify_axiom_audit_coverage gd_world (gt_count gd_tables) gd_manifest = Inr ()"
  by code_simp

lemma contains_sub_append: "contains_sub (u @ t @ v) t"
proof -
  have "starts_with (drop (length u) (u @ t @ v)) t" by (simp add: starts_with_iff)
  then show ?thesis unfolding contains_sub_def list_ex_iff by (intro bexI [of _ "length u"]) auto
qed

lemma texts_in_concat: "texts_in code texts (concat texts) = Inr ()"
proof -
  have "contains_sub (concat texts) t" if t: "t \<in> set texts" for t
  proof -
    from t obtain us vs where "texts = us @ t # vs" by (meson split_list)
    then show ?thesis using contains_sub_append [of "concat us" t "concat vs"] by simp
  qed
  then show ?thesis by (simp add: texts_in_def eachE_eq_Inr)
qed

lemma gd_toolchain_ok: "verify_toolchain gd_world gd_manifest = Inr ()"
  by code_simp

lemma gd_placeholders_ok: "verify_no_placeholders (gw_uni gd_world) (gw_lean_files gd_world) = Inr ()"
  by code_simp

lemma gd_axioms_ok: "verify_no_custom_axioms (gw_uni gd_world) (gw_lean_files gd_world) = Inr ()"
  by code_simp

lemma gd_roadmap_read: "gw_git gd_world [lit ''show'', TARGET_TAG @ lit '':ROADMAP.md''] = Inr (concat gd_roadmap)"
  by code_simp

lemma gd_roadmap_ok: "verify_frozen_roadmap_contract gd_world = Inr ()"
  using gd_roadmap_read texts_in_concat [of _ gd_roadmap] by (simp add: verify_frozen_roadmap_contract_def gd_roadmap_def)

lemma gd_state_ok: "verify_state_contract (gt_count gd_tables) gd_state = Inr ()"
  by code_simp

lemma gd_claims_ok: "verify_claims_contract (gt_count gd_tables) gd_claims (PDict gd_frozen_claims) (PDict gd_frozen_claims) (PDict gd_frozen_claims) = Inr ()"
  by code_simp

lemma gd_schema_contract_ok: "verify_schema_contract (gt_count gd_tables) gd_manifest gd_schema = Inr ()"
  by code_simp

lemma gd_documents_read:
  "load_json gd_world STATE_PATH = Inr (PDict gd_state)" "load_json gd_world CLAIMS_PATH = Inr (PDict gd_claims)"
  "load_json gd_world (lit ''claims/phase9.json'') = Inr (PDict gd_frozen_claims)"
  "load_json gd_world (lit ''claims/phase8.json'') = Inr (PDict gd_frozen_claims)"
  "bindE (gw_git gd_world [lit ''show'', TARGET_TAG @ lit '':claims/phase9.json'']) (loads_or gd_world code) = Inr (PDict gd_frozen_claims)"
  "gw_text gd_world (lit ''FORMALIZATION.md'') = Inr (concat gd_docs)"
  by code_simp+

lemma gd_contract_docs_ok: "verify_phase10_contracts gd_world (gt_count gd_tables) gd_manifest gd_schema = Inr ()"
  using texts_in_concat [of _ gd_docs]
  by (simp add: verify_phase10_contracts_def gd_documents_read gd_state_ok gd_claims_ok gd_schema_contract_ok as_dict_def gd_docs_def)

lemma gd_base: "\<exists>result. base_validate gd_world gd_tables = Inr result"
  by (simp add: base_validate_def gd_loaded gd_schema_ok as_dict_def gd_policy_ok gd_target_ok gd_report_ok gd_contract_docs_ok gd_frozen_ok
      gd_toolchain_ok gd_theorems_ok gd_contracts_ok gd_audit_ok gd_placeholders_ok gd_axioms_ok gd_roadmap_ok)

lemma gd_snapshot_ok: "verify_legacy_gate_snapshot gd_world = Inr ()"
  by code_simp

lemma gd_evidence_ok: "verify_state_evidence_locked gd_world = Inr ()"
  by code_simp

lemma gd_nonclaims_ok: "verify_state_nonclaims_locked gd_world = Inr ()"
  by code_simp

lemma gd_layer_ok: "verify_state_formalization_layer_locked gd_world (gt_layer gd_tables) = Inr ()"
  by code_simp

lemma gd_assumptions_ok: "verify_assumption_statements_locked gd_world = Inr ()"
  by code_simp

lemma gd_namespace_ok: "verify_namespace_syntax_fail_closed gd_world = Inr ()"
  by code_simp

lemma gd_context_ok: "verify_theorem_context_fail_closed gd_world = Inr ()"
  by code_simp

lemma gd_digests_ok: "verify_theorem_type_digests (gw_sha256 gd_world) gd_world (gt_digests gd_tables) gd_manifest = Inr ()"
  by code_simp

lemma gd_types_ok: "verify_type_audit_locked (gw_sha256 gd_world) gd_world (gt_type_audit gd_tables) gd_manifest = Inr ()"
  by code_simp

lemma gd_accepted: "\<exists>result. round9_validate gd_world gd_tables = Inr result"
proof -
  obtain result where "base_validate gd_world gd_tables = Inr result" using gd_base by blast
  moreover have "load_dict gd_world MANIFEST_PATH = Inr gd_manifest" by (simp add: load_dict_def gd_loaded as_dict_def)
  ultimately show ?thesis
    by (simp add: round9_validate_def gd_snapshot_ok gd_evidence_ok gd_nonclaims_ok gd_layer_ok gd_assumptions_ok gd_namespace_ok gd_context_ok
        gd_digests_ok gd_types_ok)
qed

theorem round9_gate_sound_witness:
  "\<exists>manifest ts. load_json gd_world MANIFEST_PATH = Inr (PDict manifest) \<and> dget manifest ''theorems'' = PList ts \<and>
     length ts = 1 \<and> formalization_bound gd_world gd_tables manifest ts"
proof -
  obtain result where "round9_validate gd_world gd_tables = Inr result" using gd_accepted by blast
  from round9_gate_sound [OF this] show ?thesis by (auto simp: gd_tables_def)
qed

end
