(* ===== verification/Spec2Isabelle.thy ===== *)
theory Spec2Isabelle
  imports Sdk_Properties Seccomp Landlock Probe_Host Writable_Scan Trusted_Exec
    Git_Objects Commit_Files Cargo_Manifest Registry_Laws Process_Tree Probe_Output Probe_Laws Cgroup_Laws
    Confinement Tar_Export Cargo_Template Toolchain_Stage Report_File Graduation_Demo
    Nexus_Laws Gate_Demo
begin

text \<open>
  A verification development for QSOL-FED: the canonical JSON profile and its identities, the
  independent Python SDK, and the MORIARTY adversarial harness, which graduates a commit by running
  closed probes in a confined child and by replaying accepted counterexamples, the adapter that projects a
  verified NEXUS export into closed reports, and the gate that binds the Lean theorems to a frozen release.

  \<^bold>\<open>Parts of the program and where they are modelled.\<close>

  \<^item> \<open>Fed_Prelude\<close>, \<open>Utf8\<close>, \<open>Py_Text\<close>, \<open>Py_Values\<close>, \<open>Regex\<close>, \<open>Json_Scanner\<close> model what the code uses of
    Python: exceptions as the sum type \<open>'a result\<close> with one constructor of \<open>exn\<close> for every exception that
    is told apart, text as lists of code points, UTF-8, \<open>re\<close> by derivatives, the values of \<open>json\<close> with the
    \<open>json\<close> scanner and its hooks. Dictionaries are association lists in insertion order.
  \<^item> \<open>Canonical\<close> is \<open>tools/qsol_canonical.py\<close>, function by function; \<open>Fed_Sdk\<close> and \<open>Sdk_Records\<close> are
    \<open>sdk/python/qsol_fed_sdk.py\<close> and \<open>examples/neutral_research_node.py\<close>. \<open>Canonical_Laws\<close>, \<open>Sdk_Laws\<close>,
    \<open>Sdk_Envelope\<close> and \<open>Content_Identity\<close> carry the proofs, \<open>Canonical_Properties\<close> and \<open>Sdk_Properties\<close>
    state what is promised: canonical bytes are a normal form that determines the value, identities bind
    content or exhibit a collision, both implementations agree, envelopes are tamper evident.
  \<^item> \<open>Seccomp\<close>, \<open>Landlock\<close>, \<open>Probe_Host\<close> (limits, quota root, launcher), \<open>Cgroup\<close> and \<open>Writable_Scan\<close> are
    the mechanisms of \<open>tools/moriarty_isolation.py\<close> that confine a child; \<open>Confinement\<close> is
    \<open>probe_isolation_preexec\<close>, which installs them in order, and shows what is in force when it
    returns, after which the program is executed. \<open>Seccomp\<close> rests on a locale of classic BPF with a reference interpreter.
  \<^item> \<open>Workspace\<close> is the tree of files that the harness makes, with \<open>mkdir\<close>, exclusive creation and sealing.
    On it: \<open>Tar_Export\<close> (the exact export of a commit), \<open>File_Copies\<close> (stable hash and bounded copies),
    \<open>Crate_Scan\<close> and \<open>Cargo_Template\<close> (lock file, build hooks, template, Cargo homes), \<open>Toolchain_Stage\<close>
    (the private toolchain) and \<open>Report_File\<close>.
  \<^item> \<open>Trusted_Exec\<close>, \<open>Git_Objects\<close>, \<open>Commit_Files\<close> and \<open>Cargo_Manifest\<close> are the trust anchors of
    \<open>tools/run_moriarty.py\<close>: pinned executables, the verified bootstrap of the tool modules, the bounded walk
    of a commit, index and work tree, the frozen Cargo surface.
  \<^item> \<open>Moriarty_Registry\<close> with \<open>Registry_Laws\<close>: the attack corpus, counterexamples and their identities.
  \<^item> \<open>Process_Tree\<close>, \<open>Probe_Output\<close>, \<open>Probe_Scan\<close>, \<open>Probe_Run\<close> with \<open>Probe_Laws\<close>: \<open>run_probe\<close> with its loop over
    the pipes, deadlines, storage checks and the report. \<open>Probe_Scan\<close> is one call of the scan of \<open>Cgroup\<close> as the
    runner makes it, which may raise an exception or never return. \<open>Replay\<close>: the export of the commit a run is
    about, cleanup and replay of counterexamples at their target and resolution commits. \<open>Graduation\<close> with
    \<open>Graduation_Laws\<close> and \<open>Graduation_Demo\<close>: \<open>main\<close> from the checks of the target to the exit code; every run of
    a probe there is on the files that \<open>Commit_Files\<close> verified and \<open>Tar_Export\<close> exported.

  \<^item> \<open>Py_Iter\<close> and \<open>Nexus_Adapter\<close> are \<open>tools/nexus_live_adapter.py\<close>: the attested checkout, the native
    verification, the source manifest, the council reports and their canonical output. The verifier and the
    scrubber of the other repository are fields of a record \<open>runtime\<close>. \<open>Nexus_Laws\<close> shows that a projection
    exists only for an attested and verified export, and what its reports are closed under.
  \<^item> \<open>Lean_Scan\<close>, \<open>Schema_Gate\<close> and \<open>Formal_Gate\<close> are the phase 10 gate
    (\<open>tools/validate_phase10_gate_base.py\<close>, \<open>tools/validate_phase10_gate_round9.py\<close>): the scanner of Lean sources
    against a grammar of tokens, the schema validator beside the one of
    \<open>tools/validate_empirical_assurance_core.py\<close>, JSON pointers, frozen inputs, the manifest of theorems, the
    contracts, the audits, the digests of the statements and the search for the words axiom and constant in
    what the scanner leaves of each Lean file. \<open>Formal_Checks\<close> has the checks that compare
    documents, \<open>Formal_Stack\<close> the layers: \<open>validate\<close> of the base, of the rounds 9 to 11 and of
    \<open>tools/validate_phase10_gate.py\<close> with its preflight, where the tables a layer changes on import are the
    record \<open>gate_tables\<close>. \<open>Formal_Laws\<close> and \<open>Gate_Laws\<close> state what they promise, \<open>Gate_Demo\<close> is a small
    repository that the gate accepts.

  \<^bold>\<open>How the parts interact.\<close> \<open>moriarty_main\<close> checks the target with \<open>Commit_Files\<close>, exports and stages it,
  runs every probe that the corpus names with \<open>run_probe\<close> behind the cleanup of \<open>Replay\<close>, turns failures into
  counterexamples with \<open>Moriarty_Registry\<close>, replays the accepted ones, checks the target again and publishes a
  report in the canonical form of \<open>Canonical\<close>. \<open>export_exact\<close> composes the commit walk with the export;
  \<open>child_confined\<close> composes the four mechanisms; \<open>graduation_sound\<close> and \<open>exit_code_refines_verdict\<close> compose
  the runner, the registry and the replays into the meaning of the exit code.

  \<^bold>\<open>State and operations.\<close> What a function reads of the outside world is a record of answers
  (\<open>exec_world\<close>, \<open>work_tree\<close>, \<open>host\<close>, \<open>launch_world\<close>, \<open>cgroup_files\<close>, \<open>cargo_cache\<close>, \<open>probe_world\<close>,
  \<open>run_world\<close>, \<open>main_world\<close>); where the code asks twice there are two answers, so that a file, a process or
  a directory that changes in between is part of the model. What the code changes is a state that is passed
  on: \<open>walk\<close>, \<open>fs\<close>, \<open>task_state\<close>, \<open>child_state\<close>, \<open>probe_state\<close>, and traces of the calls in \<open>Cgroup\<close> and
  \<open>Replay\<close>. SHA-1, SHA-256, NFC, \<open>tomllib\<close>, \<open>tarfile\<close>, git, the kernel and the processes are parameters; no
  property assumes that a hash has no collisions, the conclusions say \<open>or collision\<close> instead.

  \<^bold>\<open>What the lemmas show.\<close> The laws of \<open>bindE\<close>, \<open>foldE\<close>, \<open>mapE\<close> in the prelude split a successful run into
  its steps. The \<open>_Inr\<close> lemmas say what a step that succeeded has checked; the relations \<open>copies\<close>, \<open>stages\<close>,
  \<open>walk_ok\<close> are composed along the loops by reflexivity and transitivity. The locales are the interfaces:
  \<open>object_reader\<close> and \<open>reader_pair\<close> for the readers of git objects, \<open>classic_bpf\<close> for the kernel's filter
  machine, \<open>schema_validator\<close> for the two schema validators; each is interpreted on the model's own definitions.

  \<^bold>\<open>Bounds and fuel.\<close> Loops over input are total functions with a measure (the unread rest of a tree object,
  the entries left plus the pending trees, the pieces of a JSON text). The loops that wait for the world
  (\<open>probe_loop\<close>, the loops of \<open>Cgroup\<close>) are \<open>partial_function (option)\<close>, None for a run that never ends, and the
  steps after them are composed by \<open>andThen\<close>, which keeps None. The suspension returns when the clock passes its
  deadline and the list of processes stops changing (\<open>suspend_returns\<close>), and \<open>suspend_may_diverge\<close> shows that
  without the second a deadline may never be consulted. A probe and the whole harness inherit this: they return
  when the clock moves on, these conditions hold during every storage scan, and the reaping of adopted children,
  for which the code sets no bound, comes to an end (\<open>run_probe_returns\<close>, \<open>graduation_returns\<close>). The recursion limit of Python is the argument \<open>budget\<close> of the
  parsers, the depth at which it raises \<open>RecursionError\<close>.

  \<^bold>\<open>Not modelled.\<close>
  \<^item> The validators of the constitution and of the phases 0 to 9, \<open>tools/validate_*.py\<close>: they compare
    documents, schemas, fixtures and source text of the repository with expected phrases and hashes; their content is the data they compare with.
    \<open>validate_phase9_gate.py\<close> also runs the harness' functions on fixtures, which the theorems here cover for
    every input. Of the empirical assurance only the schema validator is modelled. The recursion limit is not
    part of the schema validators, and Python's order of sets is that of the dictionary. In the phase 10 gate
    a file and an answer of git that are read twice are the same, and \<open>main\<close> (arguments, printing) is left out.
  \<^item> \<open>tools/generate_nexus_phase5_fixture.py\<close> drives the runtime of another repository whose source is not here.
  \<^item> In \<open>Writable_Scan\<close> the supplied roots are resolved already, and in \<open>Landlock\<close> a path that is asked about twice
    gives the same answer. The text of a failure keeps what an f-string appends, except for the \<open>repr\<close> of an attack
    identifier. Calls of the operating system and of git, and the preparations of \<open>main\<close>, are taken to return.
  \<^item> The argument parser, printing, the module level assignments that only rename functions, the text of the
    probe bootstrap, the environments of git and rustup (constant dictionaries), \<open>_probe_environment\<close> beyond
    its variables, permissions and ownership beyond the modes the code sets, short writes and ENOSPC.
  \<^item> The Rust implementation under \<open>src/\<close>, the TypeScript SDK, the Lean files and the documents.
\<close>

end
